(* ===== verification/Prelude.thy ===== *)
theory Prelude imports Complex_Main "HOL-Library.Multiset" begin

text \<open>
  What every component of the model shares: JavaScript errors and effects (a state and
  exception monad with its weakest preconditions), the few JavaScript library operations
  the source uses (\<open>parseInt\<close>, \<open>toString\<close>, \<open>toLowerCase\<close>, \<open>Map\<close>, stable \<open>sort\<close>), and the
  lemma collections \<open>wp_simps\<close> and \<open>js_simps\<close>.
\<close>

named_theorems wp_simps \<open>weakest preconditions of the effect combinators\<close>
named_theorems js_simps \<open>evaluation of the JavaScript library operations\<close>

lemma option_eqI: "(\<And>x. a = Some x \<longleftrightarrow> b = Some x) \<Longrightarrow> a = b"
  by (cases a; cases b) auto

section \<open>Effects: state passing with exceptions\<close>

text \<open>
  \<open>throw new Error(m)\<close> is the value \<open>Inl (Error m)\<close>; the state changes made before the
  throw stay, as in JavaScript. An \<open>async\<close> function is an effect that runs to its end.
\<close>

datatype js_error = Error (error_message: string)

type_synonym ('s, 'a) eff = "'s \<Rightarrow> (js_error + 'a) \<times> 's"

definition ret :: "'a \<Rightarrow> ('s, 'a) eff" where
  "ret a s = (Inr a, s)"

definition raise :: "js_error \<Rightarrow> ('s, 'a) eff" where
  "raise e s = (Inl e, s)"

definition throw :: "string \<Rightarrow> ('s, 'a) eff" where
  "throw m = raise (Error m)"

definition bnd :: "('s, 'a) eff \<Rightarrow> ('a \<Rightarrow> ('s, 'b) eff) \<Rightarrow> ('s, 'b) eff" where
  "bnd m f s = (case m s of (Inl e, t) \<Rightarrow> (Inl e, t) | (Inr a, t) \<Rightarrow> f a t)"

definition try_catch :: "('s, 'a) eff \<Rightarrow> (js_error \<Rightarrow> ('s, 'a) eff) \<Rightarrow> ('s, 'a) eff" where
  "try_catch m h s = (case m s of (Inl e, t) \<Rightarrow> h e t | (Inr a, t) \<Rightarrow> (Inr a, t))"

definition gets :: "('s \<Rightarrow> 'a) \<Rightarrow> ('s, 'a) eff" where
  "gets f s = (Inr (f s), s)"

definition modify :: "('s \<Rightarrow> 's) \<Rightarrow> ('s, unit) eff" where
  "modify f s = (Inr (), f s)"

definition lift_result :: "js_error + 'a \<Rightarrow> ('s, 'a) eff" where
  "lift_result r s = (r, s)"

text \<open>Run an effect on one part of a larger state.\<close>

definition zoom :: "('s \<Rightarrow> 't) \<Rightarrow> ('t \<Rightarrow> 's \<Rightarrow> 's) \<Rightarrow> ('t, 'a) eff \<Rightarrow> ('s, 'a) eff" where
  "zoom g p m s = (case m (g s) of (r, t) \<Rightarrow> (r, p t s))"

definition when_eff :: "bool \<Rightarrow> ('s, unit) eff \<Rightarrow> ('s, unit) eff" where
  "when_eff b m = (if b then m else ret ())"

text \<open>A \<open>for (const x of xs)\<close> loop, and one that concatenates the results of its body.\<close>

fun for_each :: "('a \<Rightarrow> ('s, unit) eff) \<Rightarrow> 'a list \<Rightarrow> ('s, unit) eff" where
  "for_each f [] = ret ()"
| "for_each f (x # xs) = bnd (f x) (\<lambda>_. for_each f xs)"

fun concat_each :: "('a \<Rightarrow> ('s, 'b list) eff) \<Rightarrow> 'a list \<Rightarrow> ('s, 'b list) eff" where
  "concat_each f [] = ret []"
| "concat_each f (x # xs) = bnd (f x) (\<lambda>ys. bnd (concat_each f xs) (\<lambda>zs. ret (ys @ zs)))"

fun map_eff :: "('a \<Rightarrow> ('s, 'b) eff) \<Rightarrow> 'a list \<Rightarrow> ('s, 'b list) eff" where
  "map_eff f [] = ret []"
| "map_eff f (x # xs) = bnd (f x) (\<lambda>y. bnd (map_eff f xs) (\<lambda>ys. ret (y # ys)))"

lemma bnd_ret [simp]: "bnd (ret a) f = f a"
  by (simp add: bnd_def ret_def fun_eq_iff)

lemma bnd_raise [simp]: "bnd (raise e) f = raise e"
  by (simp add: bnd_def raise_def fun_eq_iff)

lemma bnd_throw [simp]: "bnd (throw m) f = throw m"
  by (simp add: throw_def)

lemma bnd_InrE:
  assumes "bnd m f s = (Inr b, u)"
  obtains a t where "m s = (Inr a, t)" and "f a t = (Inr b, u)"
  using assms by (auto simp: bnd_def split: prod.splits sum.splits)

lemma bnd_Inr: "m s = (Inr a, t) \<Longrightarrow> bnd m f s = f a t"
  by (simp add: bnd_def)

lemma bnd_Inl: "m s = (Inl e, t) \<Longrightarrow> bnd m f s = (Inl e, t)"
  by (simp add: bnd_def)

lemma ret_apply [simp]: "ret a s = (Inr a, s)"
  by (simp add: ret_def)

lemma throw_apply [simp]: "throw m s = (Inl (Error m), s)"
  by (simp add: throw_def raise_def)

lemma raise_apply [simp]: "raise e s = (Inl e, s)"
  by (simp add: raise_def)

lemma gets_apply [simp]: "gets f s = (Inr (f s), s)"
  by (simp add: gets_def)

lemma modify_apply [simp]: "modify f s = (Inr (), f s)"
  by (simp add: modify_def)

lemma lift_result_apply [simp]: "lift_result r s = (r, s)"
  by (simp add: lift_result_def)

lemmas run_simps = bnd_def try_catch_def zoom_def when_eff_def

section \<open>Weakest preconditions\<close>

text \<open>
  \<open>wp m Q E s\<close>: from state \<open>s\<close> the effect \<open>m\<close> either returns with \<open>Q\<close> or throws with \<open>E\<close>.
  Each combinator has an exact equation, so \<open>simp add: wp_simps\<close> reduces a handler to a
  statement about the external calls it makes; those are closed with \<open>wp_all\<close> or \<open>wp_mono\<close>.
\<close>

definition wp :: "('s, 'a) eff \<Rightarrow> ('a \<Rightarrow> 's \<Rightarrow> bool) \<Rightarrow> (js_error \<Rightarrow> 's \<Rightarrow> bool) \<Rightarrow> 's \<Rightarrow> bool" where
  "wp m Q E s = (case m s of (Inl e, t) \<Rightarrow> E e t | (Inr a, t) \<Rightarrow> Q a t)"

lemma wp_ret [wp_simps]: "wp (ret a) Q E s = Q a s"
  by (simp add: wp_def)

lemma wp_raise [wp_simps]: "wp (raise e) Q E s = E e s"
  by (simp add: wp_def)

lemma wp_throw [wp_simps]: "wp (throw m) Q E s = E (Error m) s"
  by (simp add: wp_def)

lemma wp_bnd [wp_simps]: "wp (bnd m f) Q E s = wp m (\<lambda>a. wp (f a) Q E) E s"
  by (simp add: wp_def bnd_def split: prod.splits sum.splits)

lemma wp_try_catch [wp_simps]: "wp (try_catch m h) Q E s = wp m Q (\<lambda>e. wp (h e) Q E) s"
  by (simp add: wp_def try_catch_def split: prod.splits sum.splits)

lemma wp_gets [wp_simps]: "wp (gets f) Q E s = Q (f s) s"
  by (simp add: wp_def)

lemma wp_modify [wp_simps]: "wp (modify f) Q E s = Q () (f s)"
  by (simp add: wp_def)

lemma wp_lift_result [wp_simps]:
  "wp (lift_result r) Q E s = (case r of Inl e \<Rightarrow> E e s | Inr a \<Rightarrow> Q a s)"
  by (simp add: wp_def)

lemma wp_zoom [wp_simps]:
  "wp (zoom g p m) Q E s = wp m (\<lambda>a t. Q a (p t s)) (\<lambda>e t. E e (p t s)) (g s)"
  by (simp add: wp_def zoom_def split: prod.splits sum.splits)

lemma wp_when [wp_simps]: "wp (when_eff b m) Q E s = (if b then wp m Q E s else Q () s)"
  by (simp add: when_eff_def wp_ret)

lemma wp_if [wp_simps]: "wp (if b then m else n) Q E s = (if b then wp m Q E s else wp n Q E s)"
  by simp

lemma wp_all: "(\<And>a t. Q a t) \<Longrightarrow> (\<And>e t. E e t) \<Longrightarrow> wp m Q E s"
  by (simp add: wp_def split: prod.splits sum.splits)

text \<open>One step of a handler whose effect is not followed up, and one that may fail with a known result.\<close>

lemma wp_skip: "(\<And>a t. wp (f a) Q E t) \<Longrightarrow> (\<And>e t. E e t) \<Longrightarrow> wp (bnd m f) Q E s"
  unfolding wp_bnd by (rule wp_all)

lemma wp_lift_step:
  "(\<And>a. r = Inr a \<Longrightarrow> wp (f a) Q E s) \<Longrightarrow> (\<And>e. r = Inl e \<Longrightarrow> E e s) \<Longrightarrow> wp (bnd (lift_result r) f) Q E s"
  unfolding wp_bnd wp_lift_result by (simp split: sum.split)

lemma wp_mono:
  "wp m Q E s \<Longrightarrow> (\<And>a t. Q a t \<Longrightarrow> Q' a t) \<Longrightarrow> (\<And>e t. E e t \<Longrightarrow> E' e t) \<Longrightarrow> wp m Q' E' s"
  by (auto simp: wp_def split: prod.splits sum.splits)

lemma wp_InrD: "wp m Q E s \<Longrightarrow> m s = (Inr a, t) \<Longrightarrow> Q a t"
  by (simp add: wp_def)

lemma wp_InlD: "wp m Q E s \<Longrightarrow> m s = (Inl e, t) \<Longrightarrow> E e t"
  by (simp add: wp_def)

lemma wp_conj: "wp m Q E s \<Longrightarrow> wp m Q' E' s \<Longrightarrow> wp m (\<lambda>a t. Q a t \<and> Q' a t) (\<lambda>e t. E e t \<and> E' e t) s"
  by (simp add: wp_def split: prod.splits sum.splits)

text \<open>An effect that keeps a predicate of the state, whether it returns or throws.\<close>

definition keeps :: "('s \<Rightarrow> bool) \<Rightarrow> ('s, 'a) eff \<Rightarrow> bool" where
  "keeps I m \<longleftrightarrow> (\<forall>s. I s \<longrightarrow> I (snd (m s)))"

lemma wp_same: "wp m (\<lambda>_. I) (\<lambda>_. I) s = I (snd (m s))"
  by (simp add: wp_def split: prod.splits sum.splits)

lemma keeps_wp: "keeps I m \<longleftrightarrow> (\<forall>s. I s \<longrightarrow> wp m (\<lambda>_. I) (\<lambda>_. I) s)"
  by (simp add: keeps_def wp_same)

lemma keepsD: "keeps I m \<Longrightarrow> I s \<Longrightarrow> m s = (r, t) \<Longrightarrow> I t"
  by (metis keeps_def snd_conv)

lemma keeps_wpD: "keeps I m \<Longrightarrow> I s \<Longrightarrow> wp m (\<lambda>_. I) (\<lambda>_. I) s"
  by (simp add: keeps_wp)

lemma keepsI: "(\<And>s. I s \<Longrightarrow> wp m (\<lambda>_. I) (\<lambda>_. I) s) \<Longrightarrow> keeps I m"
  by (simp add: keeps_wp)

lemma keeps_ret [intro, simp]: "keeps I (ret a)"
  by (simp add: keeps_def)

lemma keeps_raise [intro, simp]: "keeps I (raise e)"
  by (simp add: keeps_def)

lemma keeps_throw [intro, simp]: "keeps I (throw m)"
  by (simp add: keeps_def)

lemma keeps_gets [intro, simp]: "keeps I (gets f)"
  by (simp add: keeps_def)

lemma keeps_lift_result [intro, simp]: "keeps I (lift_result r)"
  by (simp add: keeps_def)

lemma keeps_bnd [intro]: "keeps I m \<Longrightarrow> (\<And>a. keeps I (f a)) \<Longrightarrow> keeps I (bnd m f)"
  by (fastforce simp: keeps_def bnd_def split: prod.splits sum.splits)

lemma keeps_try_catch [intro]: "keeps I m \<Longrightarrow> (\<And>e. keeps I (h e)) \<Longrightarrow> keeps I (try_catch m h)"
  by (fastforce simp: keeps_def try_catch_def split: prod.splits sum.splits)

lemma keeps_if [intro]: "(b \<Longrightarrow> keeps I m) \<Longrightarrow> (\<not> b \<Longrightarrow> keeps I n) \<Longrightarrow> keeps I (if b then m else n)"
  by simp

lemma keeps_when [intro]: "(b \<Longrightarrow> keeps I m) \<Longrightarrow> keeps I (when_eff b m)"
  by (simp add: when_eff_def)

lemma keeps_modify: "(\<And>s. I s \<Longrightarrow> I (f s)) \<Longrightarrow> keeps I (modify f)"
  by (simp add: keeps_def)

lemma keeps_zoom: "(\<And>s t. I s \<Longrightarrow> I (p t s)) \<Longrightarrow> keeps I (zoom g p m)"
  by (simp add: keeps_def zoom_def split: prod.splits)

lemma keeps_for_each [intro]: "(\<And>x. x \<in> set xs \<Longrightarrow> keeps I (f x)) \<Longrightarrow> keeps I (for_each f xs)"
  by (induction xs) auto

lemma keeps_concat_each [intro]: "(\<And>x. x \<in> set xs \<Longrightarrow> keeps I (f x)) \<Longrightarrow> keeps I (concat_each f xs)"
  by (induction xs) auto

lemma keeps_map_eff [intro]: "(\<And>x. x \<in> set xs \<Longrightarrow> keeps I (f x)) \<Longrightarrow> keeps I (map_eff f xs)"
  by (induction xs) auto

lemma keeps_case_option [intro]:
  "(x = None \<Longrightarrow> keeps I m) \<Longrightarrow> (\<And>y. x = Some y \<Longrightarrow> keeps I (f y)) \<Longrightarrow>
   keeps I (case x of None \<Rightarrow> m | Some y \<Rightarrow> f y)"
  by (cases x) auto

text \<open>Steps of a handler: a guard, a read, and a call after which the state is known only by a predicate.\<close>

lemma wp_guard: "(b \<Longrightarrow> E (Error m) u) \<Longrightarrow> (\<not> b \<Longrightarrow> wp n Q E u) \<Longrightarrow> wp (if b then throw m else n) Q E u"
  by (simp add: wp_throw)

lemma wp_gets_step: "wp (f (g u)) Q E u \<Longrightarrow> wp (bnd (gets g) f) Q E u"
  by (simp add: wp_bnd wp_gets)

lemma wp_known_step:
  assumes "wp m (\<lambda>a t. I t \<and> K) (\<lambda>_. I) u" and "\<And>a t. I t \<Longrightarrow> K \<Longrightarrow> wp (f a) Q E t" and "\<And>e t. I t \<Longrightarrow> E e t"
  shows "wp (bnd m f) Q E u"
  unfolding wp_bnd using assms by (intro wp_mono [OF assms(1)]) auto

lemma wp_keeps_step:
  assumes "keeps I m" and "I u" and "\<And>a t. I t \<Longrightarrow> wp (f a) Q E t" and "\<And>e t. I t \<Longrightarrow> E e t"
  shows "wp (bnd m f) Q E u"
  unfolding wp_bnd using assms by (intro wp_mono [OF keeps_wpD [OF assms(1,2)]]) auto

section \<open>Rules for invariants\<close>

lemma keeps_conj: "keeps I m \<Longrightarrow> keeps J m \<Longrightarrow> keeps (\<lambda>s. I s \<and> J s) m"
  by (simp add: keeps_def)

lemma keeps_case_prod [intro]: "(\<And>a b. x = (a, b) \<Longrightarrow> keeps I (f a b)) \<Longrightarrow> keeps I (case x of (a, b) \<Rightarrow> f a b)"
  by (cases x) simp

lemma keeps_case_sum [intro]:
  "(\<And>a. x = Inl a \<Longrightarrow> keeps I (f a)) \<Longrightarrow> (\<And>b. x = Inr b \<Longrightarrow> keeps I (g b)) \<Longrightarrow>
   keeps I (case x of Inl a \<Rightarrow> f a | Inr b \<Rightarrow> g b)"
  by (cases x) simp_all

lemma keeps_case_list [intro]:
  "(x = [] \<Longrightarrow> keeps I m) \<Longrightarrow> (\<And>y ys. x = y # ys \<Longrightarrow> keeps I (f y ys)) \<Longrightarrow>
   keeps I (case x of [] \<Rightarrow> m | y # ys \<Rightarrow> f y ys)"
  by (cases x) simp_all

lemma keeps_gets_bnd: "(\<And>s. I s \<Longrightarrow> wp (k (f s)) (\<lambda>_. I) (\<lambda>_. I) s) \<Longrightarrow> keeps I (bnd (gets f) k)"
  by (rule keepsI) (simp add: wp_bnd wp_gets)

lemma keeps_Let [intro]: "(\<And>y. keeps I (f y)) \<Longrightarrow> keeps I (Let x f)"
  by (simp add: Let_def)

lemmas keeps_intros = keeps_ret keeps_raise keeps_throw keeps_gets keeps_lift_result keeps_bnd keeps_try_catch keeps_if
  keeps_when keeps_for_each keeps_concat_each keeps_map_eff keeps_case_option keeps_case_prod keeps_case_sum
  keeps_case_list keeps_Let

end
