(* ===== verification/JsLib.thy ===== *)
theory JsLib imports Prelude begin

text \<open>
  The JavaScript library operations the source uses, on the values the model has for them.
  A \<open>number\<close> that the source treats as an integer is an \<open>int\<close> (exact below \<open>2^53\<close>, where the
  source's doubles are exact too); a \<open>number\<close> that can be \<open>NaN\<close> is an \<open>int option\<close>, \<open>None\<close>
  being \<open>NaN\<close>; a fractional factor of the configuration is a \<open>rat\<close>. Strings are char lists;
  the model is about ASCII strings. A \<open>Map\<close> or an object used as one is an association list
  in insertion order.
\<close>

section \<open>Characters and case\<close>

definition to_lower_char :: "char \<Rightarrow> char" where
  "to_lower_char c =
     (let n = (of_char c :: nat) in if 65 \<le> n \<and> n \<le> 90 then char_of (n + 32) else c)"

definition toLowerCase :: "string \<Rightarrow> string" where
  "toLowerCase s = map to_lower_char s"

lemma to_lower_char_idem [simp]: "to_lower_char (to_lower_char c) = to_lower_char c"
  by (simp add: to_lower_char_def Let_def)

lemma toLowerCase_idem [simp]: "toLowerCase (toLowerCase s) = toLowerCase s"
  by (simp add: toLowerCase_def)

lemma length_toLowerCase [simp]: "length (toLowerCase s) = length s"
  by (simp add: toLowerCase_def)

definition starts_with :: "string \<Rightarrow> string \<Rightarrow> bool" where
  "starts_with p s \<longleftrightarrow> take (length p) s = p"

fun str_includes :: "string \<Rightarrow> string \<Rightarrow> bool" where
  "str_includes p [] = (p = [])"
| "str_includes p (c # s) = (starts_with p (c # s) \<or> str_includes p s)"

definition padStart :: "nat \<Rightarrow> char \<Rightarrow> string \<Rightarrow> string" where
  "padStart n c s = replicate (n - length s) c @ s"

definition padEnd :: "nat \<Rightarrow> char \<Rightarrow> string \<Rightarrow> string" where
  "padEnd n c s = s @ replicate (n - length s) c"

lemma starts_with_append [simp]: "starts_with p (p @ s)"
  by (simp add: starts_with_def)

lemma length_padEnd [simp]: "length (padEnd n c s) = max n (length s)"
  by (simp add: padEnd_def)

lemma length_padStart [simp]: "length (padStart n c s) = max n (length s)"
  by (simp add: padStart_def)

section \<open>Numbers in strings\<close>

text \<open>The value of a digit (\<open>0-9\<close>, \<open>a-z\<close>, \<open>A-Z\<close>); 99 for any other character.\<close>

definition digit_val :: "char \<Rightarrow> nat" where
  "digit_val c =
     (let n = (of_char c :: nat) in
      if 48 \<le> n \<and> n \<le> 57 then n - 48
      else if 97 \<le> n \<and> n \<le> 122 then n - 87
      else if 65 \<le> n \<and> n \<le> 90 then n - 55 else 99)"

definition digit_char :: "nat \<Rightarrow> char" where
  "digit_char d = char_of (if d < 10 then 48 + d else 87 + d)"

definition digits_val :: "nat \<Rightarrow> string \<Rightarrow> nat" where
  "digits_val r ds = foldl (\<lambda>a c. a * r + digit_val c) 0 ds"

definition is_space_char :: "char \<Rightarrow> bool" where
  "is_space_char c \<longleftrightarrow> (of_char c :: nat) \<in> {9, 10, 11, 12, 13, 32, 160}"

definition parse_prefix :: "nat \<Rightarrow> string \<Rightarrow> int option" where
  "parse_prefix r s =
     (let ds = takeWhile (\<lambda>c. digit_val c < r) s
      in if ds = [] then None else Some (int (digits_val r ds)))"

definition strip_sign :: "string \<Rightarrow> int \<times> string" where
  "strip_sign s =
     (case s of c # cs \<Rightarrow> if c = CHR ''-'' then (-1, cs) else if c = CHR ''+'' then (1, cs) else (1, s)
      | [] \<Rightarrow> (1, s))"

definition has_hex_prefix :: "string \<Rightarrow> bool" where
  "has_hex_prefix s \<longleftrightarrow> starts_with ''0x'' s \<or> starts_with ''0X'' s"

text \<open>\<open>parseInt(s)\<close> and \<open>parseInt(s, 16)\<close>: the longest numeric prefix, \<open>NaN\<close> if there is none.\<close>

definition parseInt :: "string \<Rightarrow> int option" where
  "parseInt s =
     (case strip_sign (dropWhile is_space_char s) of
        (sg, t) \<Rightarrow> map_option ((*) sg) (if has_hex_prefix t then parse_prefix 16 (drop 2 t) else parse_prefix 10 t))"

definition parseInt16 :: "string \<Rightarrow> int option" where
  "parseInt16 s =
     (case strip_sign (dropWhile is_space_char s) of
        (sg, t) \<Rightarrow> map_option ((*) sg) (parse_prefix 16 (if has_hex_prefix t then drop 2 t else t)))"

function nat_to_radix :: "nat \<Rightarrow> nat \<Rightarrow> string" where
  "nat_to_radix r n =
     (if n < r \<or> r < 2 then [digit_char n] else nat_to_radix r (n div r) @ [digit_char (n mod r)])"
  by pat_completeness auto
termination
  by (relation "measure snd") auto

declare nat_to_radix.simps [simp del]

definition int_to_radix :: "nat \<Rightarrow> int \<Rightarrow> string" where
  "int_to_radix r i =
     (if i < 0 then CHR ''-'' # nat_to_radix r (nat (- i)) else nat_to_radix r (nat i))"

text \<open>\<open>n.toString()\<close> and \<open>`0x${n.toString(16)}`\<close> of an integer.\<close>

definition int_to_string :: "int \<Rightarrow> string" where
  "int_to_string i = int_to_radix 10 i"

definition int_to_hex :: "int \<Rightarrow> string" where
  "int_to_hex i = ''0x'' @ int_to_radix 16 i"

lemma of_char_digit_char: "d < 36 \<Longrightarrow> (of_char (digit_char d) :: nat) = (if d < 10 then 48 + d else 87 + d)"
  by (simp add: digit_char_def)

lemma digit_val_digit_char: "d < 36 \<Longrightarrow> digit_val (digit_char d) = d"
  by (auto simp: digit_val_def of_char_digit_char Let_def)

lemma digits_val_append: "digits_val r (xs @ [c]) = digits_val r xs * r + digit_val c"
  by (simp add: digits_val_def)

lemma nat_to_radix_nonempty [simp]: "nat_to_radix r n \<noteq> []"
  by (subst nat_to_radix.simps) simp

lemma nat_to_radix_digits:
  "2 \<le> r \<Longrightarrow> c \<in> set (nat_to_radix r n) \<Longrightarrow> \<exists>d<r. c = digit_char d"
proof (induction r n rule: nat_to_radix.induct)
  case (1 r n)
  show ?case
  proof (cases "n < r")
    case True
    with "1.prems" show ?thesis by (auto simp: nat_to_radix.simps [of r n])
  next
    case False
    with "1.prems" have "c \<in> set (nat_to_radix r (n div r)) \<or> c = digit_char (n mod r)"
      by (auto simp: nat_to_radix.simps [of r n])
    moreover have "n mod r < r" using "1.prems" by simp
    moreover have "c \<in> set (nat_to_radix r (n div r)) \<Longrightarrow> \<exists>d<r. c = digit_char d"
      using "1.IH" "1.prems" False by simp
    ultimately show ?thesis by blast
  qed
qed

lemma digits_val_nat_to_radix: "2 \<le> r \<Longrightarrow> r \<le> 36 \<Longrightarrow> digits_val r (nat_to_radix r n) = n"
proof (induction r n rule: nat_to_radix.induct)
  case (1 r n)
  show ?case
  proof (cases "n < r")
    case True
    with "1.prems" have "digits_val r (nat_to_radix r n) = digit_val (digit_char n)"
      by (simp add: nat_to_radix.simps [of r n] digits_val_def)
    with True "1.prems" show ?thesis by (simp add: digit_val_digit_char)
  next
    case False
    have "digit_val (digit_char (n mod r)) = n mod r"
      using "1.prems" by (intro digit_val_digit_char) (simp add: less_le_trans [of _ r])
    moreover have "digits_val r (nat_to_radix r (n div r)) = n div r"
      using "1.IH" "1.prems" False by simp
    ultimately show ?thesis
      using False "1.prems" by (simp add: nat_to_radix.simps [of r n] digits_val_append)
  qed
qed

lemma digit_val_nat_to_radix:
  assumes "2 \<le> r" and "r \<le> 36" and "c \<in> set (nat_to_radix r n)"
  shows "digit_val c < r"
  using nat_to_radix_digits [OF assms(1) assms(3)] assms by (auto simp: digit_val_digit_char)

lemma parse_prefix_nat_to_radix:
  assumes "2 \<le> r" and "r \<le> 36"
  shows "parse_prefix r (nat_to_radix r n) = Some (int n)"
proof -
  have all: "takeWhile (\<lambda>c. digit_val c < r) (nat_to_radix r n) = nat_to_radix r n"
    using assms by (simp add: takeWhile_eq_all_conv digit_val_nat_to_radix)
  show ?thesis
    unfolding parse_prefix_def Let_def all using assms by (simp add: digits_val_nat_to_radix)
qed

text \<open>The first character of a printed natural number is no sign, no space and no prefix.\<close>

lemma digit_char_code:
  assumes "2 \<le> r" and "r \<le> 10" and "c \<in> set (nat_to_radix r n)"
  shows "48 \<le> (of_char c :: nat)" and "(of_char c :: nat) \<le> 57"
  using nat_to_radix_digits [OF assms(1) assms(3)] assms(2) by (auto simp: of_char_digit_char)

lemma no_hex_prefix: "\<forall>c\<in>set s. (of_char c :: nat) \<le> 57 \<Longrightarrow> \<not> has_hex_prefix s"
  by (cases s; cases "tl s") (auto simp: has_hex_prefix_def starts_with_def)

lemma parseInt_nat_to_radix: "parseInt (nat_to_radix 10 n) = Some (int n)"
proof -
  let ?s = "nat_to_radix 10 n"
  have codes: "\<forall>c\<in>set ?s. 48 \<le> (of_char c :: nat) \<and> (of_char c :: nat) \<le> 57"
    using digit_char_code [of 10] by simp
  obtain c cs where s: "?s = c # cs" using nat_to_radix_nonempty by (meson neq_Nil_conv)
  then have "48 \<le> (of_char c :: nat) \<and> (of_char c :: nat) \<le> 57" using codes by simp
  then have "\<not> is_space_char c" and "c \<noteq> CHR ''-''" and "c \<noteq> CHR ''+''"
    by (auto simp: is_space_char_def)
  then have "strip_sign (dropWhile is_space_char ?s) = (1, ?s)"
    by (simp add: s strip_sign_def)
  moreover have "\<not> has_hex_prefix ?s" using codes by (intro no_hex_prefix) blast
  ultimately show ?thesis by (simp add: parseInt_def parse_prefix_nat_to_radix)
qed

lemma parseInt_int_to_string [js_simps]: "parseInt (int_to_string i) = Some i"
proof (cases "i < 0")
  case False
  then show ?thesis by (simp add: int_to_string_def int_to_radix_def parseInt_nat_to_radix)
next
  case True
  let ?s = "nat_to_radix 10 (nat (- i))"
  have "\<forall>c\<in>set ?s. (of_char c :: nat) \<le> 57" using digit_char_code(2) [of 10] by simp
  then have "\<not> has_hex_prefix ?s" by (rule no_hex_prefix)
  moreover have "strip_sign (dropWhile is_space_char (CHR ''-'' # ?s)) = (-1, ?s)"
    by (simp add: is_space_char_def strip_sign_def)
  ultimately show ?thesis
    using True by (simp add: int_to_string_def int_to_radix_def parseInt_def parse_prefix_nat_to_radix)
qed

lemma parse_hex:
  "strip_sign (dropWhile is_space_char (''0x'' @ s)) = (1, ''0x'' @ s)" "has_hex_prefix (''0x'' @ s)"
  by (simp_all add: is_space_char_def strip_sign_def has_hex_prefix_def starts_with_def)

lemma parseInt_int_to_hex [js_simps]: "0 \<le> i \<Longrightarrow> parseInt (int_to_hex i) = Some i"
  unfolding int_to_hex_def parseInt_def parse_hex
  by (simp add: parse_hex [simplified] int_to_radix_def parse_prefix_nat_to_radix)

lemma parseInt16_int_to_hex [js_simps]: "0 \<le> i \<Longrightarrow> parseInt16 (int_to_hex i) = Some i"
  unfolding int_to_hex_def parseInt16_def parse_hex
  by (simp add: parse_hex [simplified] int_to_radix_def parse_prefix_nat_to_radix)

section \<open>Comparisons with NaN\<close>

text \<open>Every comparison with \<open>NaN\<close> is false.\<close>

definition js_less :: "int option \<Rightarrow> int option \<Rightarrow> bool" where
  "js_less a b = (case (a, b) of (Some x, Some y) \<Rightarrow> x < y | _ \<Rightarrow> False)"

definition js_leq :: "int option \<Rightarrow> int option \<Rightarrow> bool" where
  "js_leq a b = (case (a, b) of (Some x, Some y) \<Rightarrow> x \<le> y | _ \<Rightarrow> False)"

lemma js_less_simps [simp]:
  "js_less (Some x) (Some y) = (x < y)" "\<not> js_less None b" "\<not> js_less a None"
  by (auto simp: js_less_def split: option.splits)

lemma js_leq_simps [simp]:
  "js_leq (Some x) (Some y) = (x \<le> y)" "\<not> js_leq None b" "\<not> js_leq a None"
  by (auto simp: js_leq_def split: option.splits)

definition js_plus :: "int option \<Rightarrow> int option \<Rightarrow> int option" where
  "js_plus a b = (case (a, b) of (Some x, Some y) \<Rightarrow> Some (x + y) | _ \<Rightarrow> None)"

definition js_minus :: "int option \<Rightarrow> int option \<Rightarrow> int option" where
  "js_minus a b = (case (a, b) of (Some x, Some y) \<Rightarrow> Some (x - y) | _ \<Rightarrow> None)"

lemma js_plus_minus_simps [simp]:
  "js_plus (Some x) (Some y) = Some (x + y)" "js_plus None b = None" "js_plus a None = None"
  "js_minus (Some x) (Some y) = Some (x - y)" "js_minus None b = None" "js_minus a None = None"
  by (auto simp: js_plus_def js_minus_def split: option.splits)

text \<open>\<open>x.toString()\<close> of a number that may be \<open>NaN\<close>, and \<open>Math.round\<close> of a product.\<close>

definition num_to_string :: "int option \<Rightarrow> string" where
  "num_to_string a = (case a of Some x \<Rightarrow> int_to_string x | None \<Rightarrow> ''NaN'')"

definition math_round :: "rat \<Rightarrow> int" where
  "math_round x = \<lfloor>x + 1 / 2\<rfloor>"

lemma math_round_mono: "x \<le> y \<Longrightarrow> math_round x \<le> math_round y"
  by (simp add: math_round_def floor_mono)

lemma math_round_of_int [simp]: "math_round (of_int n) = n"
proof -
  have "of_int n + 1 / 2 < (of_int (n + 1) :: rat)" by simp
  then show ?thesis by (simp add: math_round_def floor_unique)
qed

section \<open>Maps and sorting\<close>

fun map_set :: "'k \<Rightarrow> 'v \<Rightarrow> ('k \<times> 'v) list \<Rightarrow> ('k \<times> 'v) list" where
  "map_set k v [] = [(k, v)]"
| "map_set k v ((k', v') # m) = (if k' = k then (k, v) # m else (k', v') # map_set k v m)"

lemma map_of_map_set [simp]: "map_of (map_set k v m) = (map_of m)(k \<mapsto> v)"
  by (induction k v m rule: map_set.induct) (auto simp: fun_eq_iff)

lemma set_map_fst_map_set [simp]: "fst ` set (map_set k v m) = insert k (fst ` set m)"
  by (induction k v m rule: map_set.induct) auto

lemma distinct_map_set: "distinct (map fst m) \<Longrightarrow> distinct (map fst (map_set k v m))"
  by (induction k v m rule: map_set.induct) (auto simp: image_iff)

text \<open>
  \<open>array.sort(cmp)\<close> is stable: an insertion sort that puts an element before the first one the
  comparator does not place before it.
\<close>

fun insert_cmp :: "('a \<Rightarrow> 'a \<Rightarrow> int) \<Rightarrow> 'a \<Rightarrow> 'a list \<Rightarrow> 'a list" where
  "insert_cmp cmp x [] = [x]"
| "insert_cmp cmp x (y # ys) = (if cmp x y \<le> 0 then x # y # ys else y # insert_cmp cmp x ys)"

fun sort_cmp :: "('a \<Rightarrow> 'a \<Rightarrow> int) \<Rightarrow> 'a list \<Rightarrow> 'a list" where
  "sort_cmp cmp [] = []"
| "sort_cmp cmp (x # xs) = insert_cmp cmp x (sort_cmp cmp xs)"

lemma mset_insert_cmp [simp]: "mset (insert_cmp cmp x ys) = add_mset x (mset ys)"
  by (induction cmp x ys rule: insert_cmp.induct) auto

lemma mset_sort_cmp [simp]: "mset (sort_cmp cmp xs) = mset xs"
  by (induction xs) auto

lemma set_insert_cmp [simp]: "set (insert_cmp cmp x ys) = insert x (set ys)"
  by (induction cmp x ys rule: insert_cmp.induct) auto

lemma set_sort_cmp [simp]: "set (sort_cmp cmp xs) = set xs"
  by (induction xs) auto

lemma sort_cmp_Nil_iff [simp]: "sort_cmp cmp xs = [] \<longleftrightarrow> xs = []"
  by (metis list.set(1) set_empty set_sort_cmp)

text \<open>A comparator that orders by a key: antisymmetric and transitive on the signs.\<close>

locale comparator =
  fixes cmp :: "'a \<Rightarrow> 'a \<Rightarrow> int"
  assumes cmp_flip: "cmp y x = - cmp x y"
    and cmp_trans: "cmp x y \<le> 0 \<Longrightarrow> cmp y z \<le> 0 \<Longrightarrow> cmp x z \<le> 0"
begin

lemma insert_sorted:
  "sorted_wrt (\<lambda>a b. cmp a b \<le> 0) ys \<Longrightarrow> sorted_wrt (\<lambda>a b. cmp a b \<le> 0) (insert_cmp cmp x ys)"
proof (induction ys)
  case (Cons y ys)
  show ?case
  proof (cases "cmp x y \<le> 0")
    case True
    with Cons.prems show ?thesis by (auto intro: cmp_trans)
  next
    case False
    then have "cmp y x \<le> 0" using cmp_flip [of y x] by simp
    with False Cons show ?thesis by simp
  qed
qed simp

lemma sort_sorted: "sorted_wrt (\<lambda>a b. cmp a b \<le> 0) (sort_cmp cmp xs)"
  by (induction xs) (auto intro: insert_sorted)

lemma sort_hd_least:
  assumes "x \<in> set xs"
  shows "cmp (hd (sort_cmp cmp xs)) x \<le> 0"
proof -
  have refl: "cmp y y \<le> 0" for y using cmp_flip [of y y] by simp
  obtain y ys where s: "sort_cmp cmp xs = y # ys" using assms by (cases "sort_cmp cmp xs") auto
  then have "x = y \<or> x \<in> set ys" using assms set_sort_cmp [of cmp xs] by auto
  then show ?thesis using sort_sorted [of xs] s refl by auto
qed

end

text \<open>\<open>toBN\<close> of a string: a decimal or 0x-prefixed number, and nothing else.\<close>

definition toBN_string :: "string \<Rightarrow> js_error + int" where
  "toBN_string s =
     (let (sg, t) = strip_sign s;
          (r, d) = (if has_hex_prefix t then (16, drop 2 t) else (10, t))
      in if d \<noteq> [] \<and> list_all (\<lambda>c. digit_val c < r) d then Inr (sg * int (digits_val r d))
         else Inl (Error (''[number-to-bn] while converting number '' @ s @ '' to BN.js instance'')))"

text \<open>The length of \<open>toBuffer(s)\<close>: only hex strings with a prefix can be converted.\<close>

definition toBuffer_length :: "string \<Rightarrow> js_error + int" where
  "toBuffer_length s =
     (if starts_with ''0x'' s \<and> list_all (\<lambda>c. digit_val c < 16) (drop 2 s) then Inr (int ((length s - 1) div 2))
      else Inl (Error (''Cannot convert string to buffer. toBuffer only supports 0x-prefixed hex strings and this string was given: '' @ s)))"

end
