(* ===== verification/GsnUtils.thy ===== *)
theory GsnUtils imports JsLib begin

text \<open>
  \<open>packages/common/src/Utils.ts\<close>: the helpers every other package calls. Hashing, ABI coding and
  \<open>fromWei\<close> are library functions and appear as arguments. \<open>Math.random()\<close> is a function of the
  number of the call, with values in \<open>[0, 1)\<close>.
\<close>

section \<open>Hex strings and addresses\<close>

definition removeHexPrefix :: "string \<Rightarrow> string" where
  "removeHexPrefix hex = (if starts_with ''0x'' hex then drop 2 hex else hex)"

definition zeroPad :: string where
  "zeroPad = replicate 64 CHR ''0''"

definition slice_end :: "nat \<Rightarrow> string \<Rightarrow> string" where
  "slice_end n s = drop (length s - n) s"

definition padTo64 :: "string \<Rightarrow> string" where
  "padTo64 hex = (if length hex < 64 then slice_end 64 (zeroPad @ hex) else hex)"

definition signatureRSV2Hex :: "int \<Rightarrow> int \<Rightarrow> int \<Rightarrow> string" where
  "signatureRSV2Hex r s v =
     ''0x'' @ padTo64 (int_to_radix 16 r) @ padTo64 (int_to_radix 16 s) @ padStart 2 CHR ''0'' (int_to_radix 16 v)"

definition isSameAddress :: "string \<Rightarrow> string \<Rightarrow> bool" where
  "isSameAddress address1 address2 \<longleftrightarrow> toLowerCase address1 = toLowerCase address2"

definition address2topic :: "string \<Rightarrow> string" where
  "address2topic address = ''0x'' @ replicate 24 CHR ''0'' @ drop 2 (toLowerCase address)"

definition addresses2topics :: "string list \<Rightarrow> string list" where
  "addresses2topics addresses = map address2topic addresses"

text \<open>\<open>decode\<close> is \<open>abi.decodeParameter('string', _)\<close>; the result \<open>None\<close> is \<open>null\<close>.\<close>

definition decodeRevertReason ::
  "(string \<Rightarrow> js_error + string) \<Rightarrow> string option \<Rightarrow> bool \<Rightarrow> js_error + string option" where
  "decodeRevertReason decode revertBytes throwOnError =
     (case revertBytes of None \<Rightarrow> Inr None
      | Some b \<Rightarrow>
          if \<not> starts_with ''0x08c379a0'' b then
            (if throwOnError then Inl (Error (''invalid revert bytes: '' @ b)) else Inr (Some b))
          else map_sum id Some (decode (''0x'' @ drop 10 b)))"

lemma isSameAddress_refl [simp]: "isSameAddress a a"
  by (simp add: isSameAddress_def)

lemma isSameAddress_sym: "isSameAddress a b \<Longrightarrow> isSameAddress b a"
  by (simp add: isSameAddress_def)

lemma isSameAddress_trans: "isSameAddress a b \<Longrightarrow> isSameAddress b c \<Longrightarrow> isSameAddress a c"
  by (simp add: isSameAddress_def)

lemma isSameAddress_lower [simp]:
  "isSameAddress (toLowerCase a) b = isSameAddress a b"
  "isSameAddress a (toLowerCase b) = isSameAddress a b"
  by (simp_all add: isSameAddress_def)

lemma length_padTo64: "length (padTo64 hex) = max 64 (length hex)"
  by (simp add: padTo64_def slice_end_def zeroPad_def)

lemma lower_0x: "toLowerCase (''0x'' @ s) = ''0x'' @ toLowerCase s"
  by (simp add: toLowerCase_def to_lower_char_def)

lemma address2topic_iff:
  assumes "starts_with ''0x'' a" and "starts_with ''0x'' b"
  shows "address2topic a = address2topic b \<longleftrightarrow> isSameAddress a b"
proof -
  obtain s t where "a = ''0x'' @ s" and "b = ''0x'' @ t"
    using assms unfolding starts_with_def by (metis append_take_drop_id)
  then show ?thesis by (simp add: address2topic_def isSameAddress_def lower_0x [simplified])
qed

section \<open>Calldata\<close>

text \<open>\<open>Buffer.from(s, 'hex')\<close>: the bytes of the hex pairs, up to the first invalid pair.\<close>

fun hex_bytes :: "string \<Rightarrow> nat list" where
  "hex_bytes (a # b # s) =
     (if digit_val a < 16 \<and> digit_val b < 16 then (digit_val a * 16 + digit_val b) # hex_bytes s else [])"
| "hex_bytes _ = []"

text \<open>The bytes as the library prints them, with lower case digits.\<close>

definition hex_of_bytes :: "nat list \<Rightarrow> string" where
  "hex_of_bytes bs = concat (map (\<lambda>b. [digit_char (b div 16), digit_char (b mod 16)]) bs)"

text \<open>\<open>bufferToHex(Buffer.from(s.slice(2), 'hex'))\<close>\<close>

definition buffer_hex :: "string \<Rightarrow> string" where
  "buffer_hex s = ''0x'' @ hex_of_bytes (hex_bytes (drop 2 s))"

lemma hex_bytes_bound: "b \<in> set (hex_bytes s) \<Longrightarrow> b < 256"
  by (induction s rule: hex_bytes.induct) (auto split: if_splits)

lemma hex_bytes_of_bytes: "\<forall>b\<in>set bs. b < 256 \<Longrightarrow> hex_bytes (hex_of_bytes bs) = bs"
  by (induction bs) (auto simp: hex_of_bytes_def digit_val_digit_char)

lemma buffer_hex_idem [simp]: "buffer_hex (buffer_hex s) = buffer_hex s"
  using hex_bytes_of_bytes [of "hex_bytes (drop 2 s)"] hex_bytes_bound by (auto simp: buffer_hex_def)

definition replace_first_0x :: "string \<Rightarrow> string" where
  "replace_first_0x s =
     (let pre = takeWhile (\<lambda>i. \<not> starts_with ''0x'' (drop i s)) [0..<length s]; n = length pre
      in if n < length s then take n s @ drop (n + 2) s else s)"

definition calculateCalldataBytesZeroNonzero :: "string \<Rightarrow> nat \<times> nat" where
  "calculateCalldataBytesZeroNonzero calldata =
     (let buf = hex_bytes (replace_first_0x calldata)
      in (length (filter (\<lambda>ch. ch = 0) buf), length (filter (\<lambda>ch. ch \<noteq> 0) buf)))"

fun parseHexString :: "string \<Rightarrow> int option list" where
  "parseHexString (a # b # s) = parseInt16 [a, b] # parseHexString s"
| "parseHexString _ = []"

lemma replace_first_0x_prefix [simp]: "replace_first_0x (''0x'' @ s) = s"
proof -
  have "[0..<length (''0x'' @ s)] = 0 # [1..<length (''0x'' @ s)]"
    by (simp add: upt_rec)
  then show ?thesis by (simp add: replace_first_0x_def starts_with_def)
qed

lemma calldata_bytes_total:
  "case calculateCalldataBytesZeroNonzero d of (z, n) \<Rightarrow> z + n = length (hex_bytes (replace_first_0x d))"
  using sum_length_filter_compl [of "\<lambda>ch. ch = 0" "hex_bytes (replace_first_0x d)"]
  by (simp add: calculateCalldataBytesZeroNonzero_def Let_def)

section \<open>Relay URLs in the registrar\<close>

definition line_terminator :: "char \<Rightarrow> bool" where
  "line_terminator c \<longleftrightarrow> c = CHR 0x0A \<or> c = CHR 0x0D"

text \<open>\<open>s.match(/.{1,n}/g) ?? []\<close>: the dot matches no line terminator.\<close>

function match_chunks :: "nat \<Rightarrow> string \<Rightarrow> string list" where
  "match_chunks n s =
     (let t = dropWhile line_terminator s; p = take n (takeWhile (\<lambda>c. \<not> line_terminator c) t)
      in if p = [] then [] else p # match_chunks n (drop (length p) t))"
  by pat_completeness auto
termination
proof (relation "measure (\<lambda>(n, s). length s)")
  fix n :: nat and s t p :: string
  assume t: "t = dropWhile line_terminator s"
    and p: "p = take n (takeWhile (\<lambda>c. \<not> line_terminator c) t)" and "p \<noteq> []"
  have "t \<noteq> []"
  proof
    assume "t = []"
    then have "p = []" using p by (metis take_Nil takeWhile.simps(1))
    then show False using \<open>p \<noteq> []\<close> by simp
  qed
  moreover have "length t \<le> length s" using t by (simp add: length_dropWhile_le)
  moreover have "0 < length p" using \<open>p \<noteq> []\<close> by blast
  ultimately have "length (drop (length p) t) < length s"
    by (cases t; cases p) auto
  then show "((n, drop (length p) t), n, s) \<in> measure (\<lambda>(n, s). length s)" by simp
qed simp

declare match_chunks.simps [simp del]

text \<open>\<open>Buffer.from(url)\<close> is one byte per character: the characters of a URL are taken to be ASCII.\<close>

definition hex_of_char :: "char \<Rightarrow> string" where
  "hex_of_char c = (let n = (of_char c :: nat) in [digit_char (n div 16), digit_char (n mod 16)])"

definition hex_of_string :: "string \<Rightarrow> string" where
  "hex_of_string s = concat (map hex_of_char s)"

definition splitRelayUrlForRegistrar :: "string \<Rightarrow> nat \<Rightarrow> js_error + string list" where
  "splitRelayUrlForRegistrar url partsCount =
     (let maxLength = 32 * partsCount in
      if length url > maxLength then
        Inl (Error (''The URL does not fit to the RelayRegistrar. Please shorten it to less than ''
          @ int_to_string (int maxLength) @ '' characters. The provided URL is: '' @ url))
      else
        (let parts = match_chunks 32 url in
         Inr (map (\<lambda>i. ''0x'' @ padEnd 64 CHR ''0'' (hex_of_string (if i < length parts then parts ! i else [])))
           [0..<partsCount])))"

text \<open>\<open>s.replace(/0x/g, '')\<close> and \<open>s.replace(/(00)+$/g, '')\<close>.\<close>

fun remove_0x :: "string \<Rightarrow> string" where
  "remove_0x (a # b # s) =
     (if a = CHR ''0'' \<and> b = CHR ''x'' then remove_0x s else a # remove_0x (b # s))"
| "remove_0x s = s"

definition strip_00 :: "string \<Rightarrow> string" where
  "strip_00 s =
     (let z = length (takeWhile (\<lambda>c. c = CHR ''0'') (rev s)) in take (length s - 2 * (z div 2)) s)"

definition packRelayUrlForRegistrar :: "string list \<Rightarrow> string" where
  "packRelayUrlForRegistrar parts = map char_of (hex_bytes (strip_00 (remove_0x (concat parts))))"

text \<open>Splitting keeps the characters in order, in chunks of 32 of which only the last is short.\<close>

lemma match_chunks_step:
  assumes "\<forall>c\<in>set s. \<not> line_terminator c" and "0 < n"
  shows "match_chunks n s = (if s = [] then [] else take n s # match_chunks n (drop n s))"
proof -
  have t: "dropWhile line_terminator s = s" using assms(1) by (cases s) auto
  have u: "takeWhile (\<lambda>c. \<not> line_terminator c) s = s"
    using assms(1) by (simp add: takeWhile_eq_all_conv)
  have "drop (length (take n s)) s = drop n s" by (cases "length s \<le> n") auto
  then show ?thesis using assms(2) by (subst match_chunks.simps) (simp add: t u Let_def)
qed

lemma hex_of_string_append [simp]: "hex_of_string (xs @ ys) = hex_of_string xs @ hex_of_string ys"
  by (simp add: hex_of_string_def)

lemma hex_of_string_Nil [simp]: "hex_of_string [] = []"
  by (simp add: hex_of_string_def)

lemma hex_of_string_Cons [simp]: "hex_of_string (c # s) = hex_of_char c @ hex_of_string s"
  by (simp add: hex_of_string_def)

lemma length_hex_of_char [simp]: "length (hex_of_char c) = 2"
  by (simp add: hex_of_char_def Let_def)

lemma length_hex_of_string [simp]: "length (hex_of_string s) = 2 * length s"
  by (induction s) auto

definition url_part :: "string list \<Rightarrow> nat \<Rightarrow> string" where
  "url_part parts i = padEnd 64 CHR ''0'' (hex_of_string (if i < length parts then parts ! i else []))"

lemma url_part_0 [simp]: "url_part (p # ps) 0 = padEnd 64 CHR ''0'' (hex_of_string p)"
  by (simp add: url_part_def)

lemma url_part_Suc [simp]: "url_part (p # ps) (Suc i) = url_part ps i"
  by (simp add: url_part_def)

lemma concat_zero_parts: "concat (map (url_part []) [0..<n]) = replicate (64 * n) CHR ''0''"
  by (induction n) (simp_all add: url_part_def padEnd_def replicate_add [symmetric] add.commute)

lemma upt_0_Suc: "[0..<Suc n] = 0 # map Suc [0..<n]"
  by (simp only: upt_conv_Cons [OF zero_less_Suc] map_Suc_upt)

lemma concat_url_parts:
  assumes "\<forall>c\<in>set s. \<not> line_terminator c" and "length s \<le> 32 * n"
  shows "concat (map (url_part (match_chunks 32 s)) [0..<n])
    = hex_of_string s @ replicate (64 * n - 2 * length s) CHR ''0''"
  using assms
proof (induction n arbitrary: s)
  case 0
  then show ?case by simp
next
  case (Suc n)
  show ?case
  proof (cases "s = []")
    case True
    then have "match_chunks 32 s = []" by (subst match_chunks.simps) simp
    then show ?thesis using concat_zero_parts [of "Suc n"] True by simp
  next
    case False
    then have m: "match_chunks 32 s = take 32 s # match_chunks 32 (drop 32 s)"
      using Suc.prems(1) by (simp add: match_chunks_step)
    have "\<forall>c\<in>set (drop 32 s). \<not> line_terminator c"
      using Suc.prems(1) by (meson in_set_dropD)
    then have IH: "concat (map (url_part (match_chunks 32 (drop 32 s))) [0..<n])
      = hex_of_string (drop 32 s) @ replicate (64 * n - 2 * length (drop 32 s)) CHR ''0''"
      using Suc.prems(2) by (intro Suc.IH) auto
    have step: "concat (map (url_part (match_chunks 32 s)) [0..<Suc n])
      = padEnd 64 CHR ''0'' (hex_of_string (take 32 s))
        @ hex_of_string (drop 32 s) @ replicate (64 * n - 2 * length (drop 32 s)) CHR ''0''"
      unfolding upt_0_Suc m using IH by (simp add: comp_def)
    show ?thesis
    proof (cases "length s \<le> 32")
      case True
      then show ?thesis
        unfolding step by (simp add: padEnd_def replicate_add [symmetric])
    next
      case False
      have "hex_of_string (take 32 s) @ hex_of_string (drop 32 s) = hex_of_string s"
        by (simp flip: hex_of_string_append)
      moreover have "padEnd 64 CHR ''0'' (hex_of_string (take 32 s)) = hex_of_string (take 32 s)"
        using False by (simp add: padEnd_def)
      ultimately show ?thesis
        unfolding step using False Suc.prems(2) by (simp flip: append_assoc)
    qed
  qed
qed

lemma remove_0x_no_x: "CHR ''x'' \<notin> set s \<Longrightarrow> remove_0x s = s"
  by (induction s rule: remove_0x.induct) auto

lemma remove_0x_append:
  "CHR ''x'' \<notin> set s \<Longrightarrow> remove_0x (s @ ''0x'' @ t) = s @ remove_0x t"
proof (induction s rule: remove_0x.induct)
  case (1 a b s)
  then show ?case by (cases s) auto
qed auto

lemma remove_0x_concat:
  "\<forall>p\<in>set ps. CHR ''x'' \<notin> set p \<Longrightarrow> remove_0x (concat (map ((@) ''0x'') ps)) = concat ps"
proof (induction ps)
  case (Cons p ps)
  have IH: "remove_0x (concat (map ((@) ''0x'') ps)) = concat ps"
    by (rule Cons.IH) (use Cons.prems in auto)
  show ?case
  proof (cases ps)
    case Nil
    with Cons.prems show ?thesis by (simp add: remove_0x_no_x)
  next
    case (Cons q qs)
    have "remove_0x (concat (map ((@) ''0x'') (p # ps))) = remove_0x (p @ concat (map ((@) ''0x'') ps))"
      by simp
    also have "\<dots> = remove_0x (p @ ''0x'' @ (q @ concat (map ((@) ''0x'') qs)))"
      using Cons by simp
    also have "\<dots> = p @ remove_0x (q @ concat (map ((@) ''0x'') qs))"
      using Cons.prems by (intro remove_0x_append) simp
    also have "\<dots> = p @ remove_0x (concat (map ((@) ''0x'') ps))"
      using Cons by simp
    finally show ?thesis by (simp only: IH concat.simps(2))
  qed
qed simp

text \<open>Padding zeros come in pairs after the last character of the URL, which is no NUL.\<close>

lemma hex_char_no_x: "CHR ''x'' \<notin> set (hex_of_char c)"
proof -
  have x: "digit_char d \<noteq> CHR ''x''" if "d < 16" for d
    using of_char_digit_char [of d] that by (auto split: if_splits)
  let ?n = "of_char c :: nat"
  have "?n div 16 < 16" by (simp add: less_mult_imp_div_less)
  then have "digit_char (?n div 16) \<noteq> CHR ''x''" and "digit_char (?n mod 16) \<noteq> CHR ''x''"
    by (auto intro!: x)
  then show ?thesis unfolding hex_of_char_def Let_def by (metis empty_iff list.set(1) set_ConsD)
qed

lemma hex_string_no_x: "CHR ''x'' \<notin> set (hex_of_string s)"
  by (induction s) (auto simp: hex_char_no_x)

lemma url_part_no_x: "CHR ''x'' \<notin> set (url_part ps i)"
  by (auto simp: url_part_def padEnd_def hex_string_no_x)

lemma hex_bytes_hex_of_char: "hex_bytes (hex_of_char c @ s) = of_char c # hex_bytes s"
proof -
  have "(of_char c :: nat) div 16 < 16" by (simp add: less_mult_imp_div_less)
  then show ?thesis by (simp add: hex_of_char_def Let_def digit_val_digit_char)
qed

lemma hex_bytes_hex_of_string: "hex_bytes (hex_of_string s) = map of_char s"
  by (induction s) (simp_all add: hex_bytes_hex_of_char)

lemma digit_char_0_iff: "d < 16 \<Longrightarrow> digit_char d = CHR ''0'' \<longleftrightarrow> d = 0"
proof
  assume d: "d < 16" and "digit_char d = CHR ''0''"
  then have "(of_char (digit_char d) :: nat) = 48" by simp
  with d show "d = 0" using of_char_digit_char [of d] by (auto split: if_splits)
next
  assume "d = 0"
  then show "digit_char d = CHR ''0''" by (simp add: digit_char_def) code_simp
qed

lemma strip_00_hex:
  assumes "s \<noteq> []" and "last s \<noteq> CHR 0x00"
  shows "strip_00 (hex_of_string s @ replicate (2 * k) CHR ''0'') = hex_of_string s"
proof -
  let ?P = "\<lambda>c. c = CHR ''0''"
  obtain t c where s: "s = t @ [c]" using assms(1) by (metis append_butlast_last_id)
  let ?n = "of_char c :: nat"
  have "c \<noteq> char_of (0 :: nat)" using assms(2) s by (simp add: char_of_def)
  then have n0: "?n \<noteq> 0" by (metis char_of_char)
  have h: "?n div 16 < 16" by (simp add: less_mult_imp_div_less)
  have rv: "rev (hex_of_string s @ replicate (2 * k) CHR ''0'')
    = replicate (2 * k) CHR ''0'' @ digit_char (?n mod 16) # digit_char (?n div 16) # rev (hex_of_string t)"
    by (simp add: s hex_of_char_def Let_def)
  define z where "z = length (takeWhile ?P (rev (hex_of_string s @ replicate (2 * k) CHR ''0'')))"
  have "z = 2 * k + (if ?n mod 16 = 0 then 1 else 0)"
  proof (cases "?n mod 16 = 0")
    case True
    then have "?n div 16 \<noteq> 0" using n0 by (metis div_mult_mod_eq add_0_right mult_0)
    with True show ?thesis
      unfolding z_def rv by (simp add: takeWhile_append digit_char_0_iff h)
  next
    case False
    then show ?thesis unfolding z_def rv by (simp add: takeWhile_append digit_char_0_iff)
  qed
  then have z: "2 * (z div 2) = 2 * k" by auto
  show ?thesis unfolding strip_00_def Let_def z_def [symmetric] z by simp
qed

lemma split_url_parts:
  "length url \<le> 32 * n \<Longrightarrow>
   splitRelayUrlForRegistrar url n = Inr (map ((@) ''0x'') (map (url_part (match_chunks 32 url)) [0..<n]))"
  by (simp add: splitRelayUrlForRegistrar_def url_part_def Let_def)

lemma pack_url_parts:
  assumes "\<forall>c\<in>set url. \<not> line_terminator c" and "length url \<le> 32 * n"
    and "url \<noteq> []" and "last url \<noteq> CHR 0x00"
  shows "packRelayUrlForRegistrar (map ((@) ''0x'') (map (url_part (match_chunks 32 url)) [0..<n])) = url"
proof -
  let ?ps = "map (url_part (match_chunks 32 url)) [0..<n]"
  have "remove_0x (concat (map ((@) ''0x'') ?ps)) = concat ?ps"
    by (rule remove_0x_concat) (auto simp: url_part_no_x)
  also have "\<dots> = hex_of_string url @ replicate (2 * (32 * n - length url)) CHR ''0''"
    using concat_url_parts [OF assms(1,2)] by (simp add: diff_mult_distrib2)
  finally have "strip_00 (remove_0x (concat (map ((@) ''0x'') ?ps))) = hex_of_string url"
    using strip_00_hex [OF assms(3,4)] by simp
  then show ?thesis
    unfolding packRelayUrlForRegistrar_def by (simp add: hex_bytes_hex_of_string comp_def)
qed

section \<open>Events\<close>

text \<open>
  A web3 \<open>EventData\<close>; \<open>returnValues\<close> holds the decoded arguments by name, as strings.
\<close>

record event_data =
  ed_event :: string
  ed_blockNumber :: int
  ed_transactionIndex :: int
  ed_transactionHash :: string
  ed_returnValues :: "(string \<times> string) list"

definition ret_val :: "string \<Rightarrow> event_data \<Rightarrow> string" where
  "ret_val k e = (case map_of (ed_returnValues e) k of Some v \<Rightarrow> v | None \<Rightarrow> [])"

definition eventsComparator :: "event_data \<Rightarrow> event_data \<Rightarrow> int" where
  "eventsComparator a b =
     (if ed_blockNumber a = ed_blockNumber b then ed_transactionIndex b - ed_transactionIndex a
      else ed_blockNumber b - ed_blockNumber a)"

definition isSecondEventLater :: "event_data \<Rightarrow> event_data \<Rightarrow> bool" where
  "isSecondEventLater a b \<longleftrightarrow> eventsComparator a b > 0"

definition getLatestEventData :: "event_data list \<Rightarrow> event_data option" where
  "getLatestEventData events =
     (if length events = 0 then None else Some (hd (sort_cmp eventsComparator events)))"

interpretation events_order: comparator eventsComparator
  by unfold_locales (auto simp: eventsComparator_def split: if_splits)

text \<open>Being later is being greater in the lexicographic order of block and transaction index.\<close>

lemma isSecondEventLater_lex:
  "isSecondEventLater a b \<longleftrightarrow>
   ed_blockNumber a < ed_blockNumber b \<or> ed_blockNumber a = ed_blockNumber b \<and> ed_transactionIndex a < ed_transactionIndex b"
  by (auto simp: isSecondEventLater_def eventsComparator_def)

section \<open>Shuffling\<close>

definition swap :: "nat \<Rightarrow> nat \<Rightarrow> 'a list \<Rightarrow> 'a list" where
  "swap i j xs = xs[i := xs ! j, j := xs ! i]"

fun shuffle_loop :: "(nat \<Rightarrow> rat) \<Rightarrow> nat \<Rightarrow> nat \<Rightarrow> 'a list \<Rightarrow> 'a list" where
  "shuffle_loop rnd k 0 array = array"
| "shuffle_loop rnd k (Suc currentIndex) array =
     (let randomIndex = nat \<lfloor>rnd k * of_nat (Suc currentIndex)\<rfloor>
      in shuffle_loop rnd (Suc k) currentIndex (swap currentIndex randomIndex array))"

definition shuffle :: "(nat \<Rightarrow> rat) \<Rightarrow> 'a list \<Rightarrow> 'a list" where
  "shuffle rnd array = shuffle_loop rnd 0 (length array) array"

text \<open>What \<open>Math.random()\<close> promises.\<close>

definition unit_interval :: "(nat \<Rightarrow> rat) \<Rightarrow> bool" where
  "unit_interval rnd \<longleftrightarrow> (\<forall>k. 0 \<le> rnd k \<and> rnd k < 1)"

lemma random_index_less:
  assumes "0 \<le> r" and "r < (1 :: rat)" and "0 < n"
  shows "nat \<lfloor>r * of_nat n\<rfloor> < n"
proof -
  have "r * of_nat n < of_nat n" using assms by simp
  then have "\<lfloor>r * of_nat n\<rfloor> < int n" by (simp add: floor_less_iff)
  then show ?thesis using assms by (simp add: nat_less_iff)
qed

lemma length_swap [simp]: "length (swap i j xs) = length xs"
  by (simp add: swap_def)

lemma mset_swap_at [simp]: "i < length xs \<Longrightarrow> j < length xs \<Longrightarrow> mset (swap i j xs) = mset xs"
  by (simp add: swap_def mset_swap)

lemma mset_shuffle_loop:
  "unit_interval rnd \<Longrightarrow> c \<le> length xs \<Longrightarrow> mset (shuffle_loop rnd k c xs) = mset xs"
proof (induction rnd k c xs rule: shuffle_loop.induct)
  case (2 rnd k c xs)
  have "nat \<lfloor>rnd k * of_nat (Suc c)\<rfloor> < Suc c"
    using "2.prems"(1) by (intro random_index_less) (auto simp: unit_interval_def)
  with "2.IH" [OF refl "2.prems"(1)] "2.prems"(2) show ?case by (simp add: Let_def)
qed simp

lemma mset_shuffle: "unit_interval rnd \<Longrightarrow> mset (shuffle rnd xs) = mset xs"
  by (simp add: shuffle_def mset_shuffle_loop)

lemma set_shuffle: "unit_interval rnd \<Longrightarrow> set (shuffle rnd xs) = set xs"
  by (metis mset_shuffle set_mset_mset)

lemma length_shuffle: "unit_interval rnd \<Longrightarrow> length (shuffle rnd xs) = length xs"
  by (metis mset_shuffle size_mset)

lemma shuffle_loop_cong:
  "(\<And>j. k \<le> j \<Longrightarrow> rnd j = rnd' j) \<Longrightarrow> shuffle_loop rnd k c xs = shuffle_loop rnd' k c xs"
proof (induction rnd k c xs rule: shuffle_loop.induct)
  case (2 rnd k c xs)
  then show ?case by (simp add: Let_def)
qed simp

lemma shuffle_loop_reaches:
  assumes "c \<le> length xs" and "mset xs = mset ys" and "drop c xs = drop c ys"
  shows "\<exists>rnd. unit_interval rnd \<and> shuffle_loop rnd k c xs = ys"
  using assms
proof (induction c arbitrary: xs k)
  case 0
  then show ?case by (intro exI [of _ "\<lambda>_. 0"]) (simp add: unit_interval_def)
next
  case (Suc c)
  have len: "length ys = length xs" using Suc.prems(2) by (metis size_mset)
  have "mset (take (Suc c) xs) + mset (drop (Suc c) xs) = mset (take (Suc c) ys) + mset (drop (Suc c) ys)"
    using Suc.prems(2) by (metis append_take_drop_id mset_append)
  then have "mset (take (Suc c) xs) = mset (take (Suc c) ys)" using Suc.prems(3) by simp
  moreover have "ys ! c \<in> set (take (Suc c) ys)"
    using Suc.prems(1) len by (auto simp: in_set_conv_nth intro!: exI [of _ c])
  ultimately have "ys ! c \<in> set (take (Suc c) xs)" by (metis set_mset_mset)
  then obtain r where r: "r < Suc c" "xs ! r = ys ! c"
    using Suc.prems(1) by (auto simp: in_set_conv_nth)
  let ?xs = "swap c r xs"
  have "drop c ?xs = ?xs ! c # drop (Suc c) ?xs" using Suc.prems(1) by (simp add: Cons_nth_drop_Suc)
  moreover have "?xs ! c = ys ! c" using r Suc.prems(1) by (auto simp: swap_def nth_list_update)
  moreover have "drop (Suc c) ?xs = drop (Suc c) ys" using r Suc.prems(3) by (simp add: swap_def)
  moreover have "drop c ys = ys ! c # drop (Suc c) ys"
    using Suc.prems(1) len by (simp add: Cons_nth_drop_Suc)
  ultimately have dr: "drop c ?xs = drop c ys" by simp
  have ms: "mset ?xs = mset ys" using r Suc.prems(1,2) by simp
  obtain rnd where rnd: "unit_interval rnd" "shuffle_loop rnd (Suc k) c ?xs = ys"
    using Suc.IH [OF _ ms dr, of "Suc k"] Suc.prems(1) by auto
  define rnd' where "rnd' = rnd(k := of_nat r / of_nat (Suc c))"
  have k: "rnd' k = of_nat r / of_nat (Suc c)" and j: "rnd' j = rnd j" if "Suc k \<le> j" for j
    using that by (simp_all add: rnd'_def)
  have "unit_interval rnd'" using rnd(1) r(1) by (simp add: unit_interval_def rnd'_def divide_less_eq)
  moreover have "nat \<lfloor>rnd' k * of_nat (Suc c)\<rfloor> = r" by (simp add: rnd'_def del: of_nat_Suc)
  moreover have "shuffle_loop rnd' (Suc k) c ?xs = ys"
    using rnd(2) shuffle_loop_cong [of "Suc k" rnd' rnd c ?xs, OF j] by simp
  ultimately show ?case by (intro exI [of _ rnd']) (simp add: Let_def del: of_nat_Suc)
qed

text \<open>
  \<open>shuffle\<close> produces the permutations of its argument and nothing else: over all sources of
  randomness in \<open>[0, 1)\<close> its results are exactly the lists with the same elements.
\<close>

theorem shuffle_permutations:
  "{shuffle rnd xs | rnd. unit_interval rnd} = {ys. mset ys = mset xs}"
proof (intro equalityI subsetI)
  fix ys assume "ys \<in> {ys. mset ys = mset xs}"
  then have ms: "mset xs = mset ys" by simp
  then have "length xs = length ys" by (metis size_mset)
  then obtain rnd where "unit_interval rnd" "shuffle_loop rnd 0 (length xs) xs = ys"
    using shuffle_loop_reaches [OF le_refl ms, of 0] by auto
  then show "ys \<in> {shuffle rnd xs | rnd. unit_interval rnd}" by (auto simp: shuffle_def)
qed (auto simp: mset_shuffle)


text \<open>
  C40: a relay URL survives the registrar: split into the 32-byte words of the registrar's event and
  packed again by the client it is the URL the server registered, for every URL that fits into the
  words, is in ASCII, has no line terminator and does not end in a NUL.
\<close>

theorem relay_url_roundtrip:
  assumes "\<forall>c\<in>set url. \<not> line_terminator c" and "length url \<le> 32 * n"
    and "url \<noteq> []" and "last url \<noteq> CHR 0x00"
  shows "map_sum id packRelayUrlForRegistrar (splitRelayUrlForRegistrar url n) = Inr url"
  using pack_url_parts [OF assms] by (simp add: split_url_parts [OF assms(2)] del: map_map)

theorem relay_url_roundtrip_witness:
  "map_sum id packRelayUrlForRegistrar (splitRelayUrlForRegistrar ''https://relay.example.org/gsn1/getaddr'' 3)
    = Inr ''https://relay.example.org/gsn1/getaddr''"
  by (rule relay_url_roundtrip) (auto simp: line_terminator_def)

text \<open>
  \<open>getLatestEventData\<close> answers with an event of the list that no event of the list is later than,
  and with nothing only for the empty list.
\<close>

theorem getLatestEventData_latest:
  "case getLatestEventData events of
     None \<Rightarrow> events = []
   | Some e \<Rightarrow> e \<in> set events \<and> list_all (\<lambda>x. \<not> isSecondEventLater e x) events"
proof (cases "events = []")
  case False
  let ?e = "hd (sort_cmp eventsComparator events)"
  have "?e \<in> set events" using False by (metis hd_in_set set_sort_cmp sort_cmp_Nil_iff)
  moreover have "\<not> isSecondEventLater ?e x" if "x \<in> set events" for x
    using events_order.sort_hd_least [OF that] by (simp add: isSecondEventLater_def)
  ultimately show ?thesis using False by (simp add: getLatestEventData_def list_all_iff)
qed (simp add: getLatestEventData_def)

section \<open>Amounts and identifiers\<close>

definition randomInRange :: "rat \<Rightarrow> int \<Rightarrow> int \<Rightarrow> int" where
  "randomInRange rnd mn mx = \<lfloor>rnd * of_int (mx - mn) + of_int mn\<rfloor>"

text \<open>\<open>BN.div\<close> and \<open>BN.divn\<close> truncate towards zero.\<close>

definition bn_div :: "int \<Rightarrow> int \<Rightarrow> int" where
  "bn_div a b = sgn a * sgn b * (\<bar>a\<bar> div \<bar>b\<bar>)"

lemma bn_div_nonneg [simp]: "0 \<le> a \<Longrightarrow> 0 < b \<Longrightarrow> bn_div a b = a div b"
  by (cases "a = 0") (auto simp: bn_div_def)

text \<open>\<open>reduce\<close> of an empty array without an initial value is a \<open>TypeError\<close>.\<close>

definition averageBN :: "int list \<Rightarrow> js_error + int" where
  "averageBN array =
     (case array of [] \<Rightarrow> Inl (Error ''Reduce of empty array with no initial value'')
      | x # xs \<Rightarrow> Inr (bn_div (foldl (+) x xs) (int (length array))))"

definition formatTokenAmount :: "(int \<Rightarrow> string) \<Rightarrow> int \<Rightarrow> int \<Rightarrow> string \<Rightarrow> string" where
  "formatTokenAmount fromWei balance decimals tokenSymbol =
     (let shiftedBalance =
        (if decimals = 18 then balance
         else if decimals < 18 then balance * 10 ^ nat (18 - decimals)
         else bn_div balance (10 ^ nat (decimals - 18)))
      in fromWei shiftedBalance @ '' '' @ tokenSymbol)"

text \<open>\<open>hash\<close> is \<open>keccak256\<close> of the ABI encoding of sender, nonce and signature.\<close>

definition getRelayRequestID ::
  "(string \<Rightarrow> string \<Rightarrow> string \<Rightarrow> string) \<Rightarrow> string \<Rightarrow> string \<Rightarrow> string \<Rightarrow> string" where
  "getRelayRequestID hash sender nonce signature =
     (let rawRelayRequestId = padStart 64 CHR ''0'' (removeHexPrefix (hash sender nonce signature));
          prefixSize = 8;
          prefixedRelayRequestId = replicate prefixSize CHR ''0'' @ drop prefixSize rawRelayRequestId
      in ''0x'' @ prefixedRelayRequestId)"

lemma randomInRange_bounds:
  assumes "0 \<le> r" and "r < 1" and "mn < mx"
  shows "mn \<le> randomInRange r mn mx" and "randomInRange r mn mx < mx"
proof -
  have "r * of_int (mx - mn) < of_int (mx - mn)" using assms by simp
  then have "\<lfloor>r * of_int (mx - mn)\<rfloor> < mx - mn" unfolding floor_less_iff .
  then show "randomInRange r mn mx < mx" by (simp add: randomInRange_def)
  have "0 \<le> r * of_int (mx - mn)" using assms by simp
  then show "mn \<le> randomInRange r mn mx" by (simp add: randomInRange_def le_floor_iff)
qed

lemma foldl_plus_sum_list: "foldl (+) (x :: int) xs = x + sum_list xs"
  by (induction xs arbitrary: x) auto

lemma averageBN_bounds:
  assumes "array \<noteq> []" and "\<forall>x\<in>set array. 0 \<le> lo \<and> lo \<le> x \<and> x \<le> hi"
  shows "\<exists>a. averageBN array = Inr a \<and> lo \<le> a \<and> a \<le> hi"
proof -
  let ?n = "int (length array)"
  have sums: "?n * lo \<le> sum_list array \<and> sum_list array \<le> ?n * hi"
    using assms(2) by (induction array) (auto simp: algebra_simps)
  have n: "0 < ?n" using assms(1) by simp
  have "0 \<le> lo" using assms by (cases array) auto
  then have "0 \<le> sum_list array" using sums n by (meson mult_nonneg_nonneg order_trans less_imp_le)
  then have "averageBN array = Inr (sum_list array div ?n)"
    using assms(1) n by (cases array) (simp_all add: averageBN_def foldl_plus_sum_list)
  moreover have "lo \<le> sum_list array div ?n"
    using sums n by (metis nonzero_mult_div_cancel_left zdiv_mono1 less_irrefl)
  moreover have "sum_list array div ?n \<le> hi"
    using sums n by (metis nonzero_mult_div_cancel_left zdiv_mono1 less_irrefl)
  ultimately show ?thesis by blast
qed

section \<open>Objects without null values\<close>

text \<open>A JSON-like value; \<open>JNull\<close> stands for \<open>null\<close> and \<open>undefined\<close>.\<close>

datatype js_val =
    JNull | JBool bool | JNum int | JStr string | JBN int
  | JArr "js_val list"
  | JObj "(string \<times> js_val) list"

fun removeNullValues :: "bool \<Rightarrow> js_val \<Rightarrow> js_val"
  and remove_null_fields :: "bool \<Rightarrow> (string \<times> js_val) list \<Rightarrow> (string \<times> js_val) list" where
  "removeNullValues recursive (JObj fs) = JObj (remove_null_fields recursive fs)"
| "removeNullValues recursive v = v"
| "remove_null_fields recursive [] = []"
| "remove_null_fields recursive ((k, v) # fs) =
     (if v = JNull then remove_null_fields recursive fs
      else (k, if recursive then removeNullValues recursive v else v) # remove_null_fields recursive fs)"

fun no_nulls :: "js_val \<Rightarrow> bool" and no_null_fields :: "(string \<times> js_val) list \<Rightarrow> bool" where
  "no_nulls (JObj fs) = no_null_fields fs"
| "no_nulls v = True"
| "no_null_fields [] = True"
| "no_null_fields ((k, v) # fs) = (v \<noteq> JNull \<and> no_nulls v \<and> no_null_fields fs)"

lemma removeNullValues_not_null: "v \<noteq> JNull \<Longrightarrow> removeNullValues r v \<noteq> JNull"
  by (cases v) auto

lemma removeNullValues_clean:
  "r \<Longrightarrow> no_nulls (removeNullValues r v)" "r \<Longrightarrow> no_null_fields (remove_null_fields r fs)"
  by (induction r v and r fs rule: removeNullValues_remove_null_fields.induct)
    (auto simp: removeNullValues_not_null)

lemma removeNullValues_fixed:
  "no_nulls v \<Longrightarrow> removeNullValues r v = v" "no_null_fields fs \<Longrightarrow> remove_null_fields r fs = fs"
  by (induction r v and r fs rule: removeNullValues_remove_null_fields.induct) auto

text \<open>
  the recursive \<open>removeNullValues\<close> leaves no null field at any depth outside arrays and changes
  nothing more: it is the identity on objects that have none (hence idempotent).
\<close>

theorem removeNullValues_recursive:
  "no_nulls (removeNullValues True v)
   \<and> removeNullValues True (removeNullValues True v) = removeNullValues True v"
  by (simp add: removeNullValues_clean removeNullValues_fixed)

end
