(* ===== verification/AmountRequired.thy ===== *)
theory AmountRequired imports GsnUtils begin

text \<open>
  \<open>packages/common/src/AmountRequired.ts\<close>: a balance with a required minimum, that logs and calls a
  listener whenever one of the two values changes. The logger and the listener are outside; the state
  keeps the messages logged (\<open>warnings\<close>) and how often the listener was called (\<open>listener_calls\<close>).
  \<open>boolString\<close> (colours of the terminal) and \<open>fromWei\<close> are arguments.
\<close>

record token_metadata =
  tokenName :: string
  tokenSymbol :: string
  tokenDecimals :: int

definition ether :: token_metadata where
  "ether = \<lparr>tokenName = ''Ether'', tokenSymbol = ''ETH'', tokenDecimals = 18\<rparr>"

record amount_required =
  ar_name :: string
  ar_currentValue :: int
  ar_requiredValue :: int
  ar_hasListener :: bool
  ar_tokenMetadata :: token_metadata
  warnings :: "string list"
  listener_calls :: nat

record formats =
  f_fromWei :: "int \<Rightarrow> string"
  f_boolString :: "bool \<Rightarrow> string"

definition newAmountRequired :: "string \<Rightarrow> int \<Rightarrow> bool \<Rightarrow> token_metadata \<Rightarrow> amount_required" where
  "newAmountRequired name requiredValue listener tokenMetadata =
     \<lparr>ar_name = name, ar_currentValue = 0, ar_requiredValue = requiredValue, ar_hasListener = listener,
      ar_tokenMetadata = tokenMetadata, warnings = [], listener_calls = 0\<rparr>"

definition isSatisfied :: "amount_required \<Rightarrow> bool" where
  "isSatisfied a \<longleftrightarrow> ar_currentValue a \<ge> ar_requiredValue a"

definition ar_description :: "formats \<Rightarrow> amount_required \<Rightarrow> string" where
  "ar_description fmt a =
     (let status = f_boolString fmt (isSatisfied a); md = ar_tokenMetadata a;
          actual = formatTokenAmount (f_fromWei fmt) (ar_currentValue a) (tokenDecimals md) (tokenSymbol md);
          required = formatTokenAmount (f_fromWei fmt) (ar_requiredValue a) (tokenDecimals md) (tokenSymbol md)
      in padEnd 14 CHR '' '' (ar_name a) @ '' | '' @ padEnd 14 CHR '' '' status @ '' | actual: ''
         @ padStart 16 CHR '' '' actual @ '' | required: '' @ padStart 16 CHR '' '' required)"

definition changeString :: "bool \<Rightarrow> bool \<Rightarrow> string" where
  "changeString wasSatisfied satisfied =
     (if wasSatisfied = satisfied then ''still'' @ (if satisfied then [] else '' not'')
      else if satisfied then ''now'' else ''no longer'')"

definition onChange :: "formats \<Rightarrow> bool \<Rightarrow> amount_required \<Rightarrow> amount_required" where
  "onChange fmt wasSatisfied a =
     (let message = ar_name a @ '' requirement is '' @ changeString wasSatisfied (isSatisfied a)
        @ '' satisfied'' @ [CHR 0x0A] @ ar_description fmt a
      in a\<lparr>warnings := warnings a @ [message],
           listener_calls := listener_calls a + (if ar_hasListener a then 1 else 0)\<rparr>)"

definition set_currentValue :: "formats \<Rightarrow> int \<Rightarrow> amount_required \<Rightarrow> amount_required" where
  "set_currentValue fmt newValue a =
     (let didChange = ar_currentValue a \<noteq> newValue; wasSatisfied = isSatisfied a;
          a' = a\<lparr>ar_currentValue := newValue\<rparr>
      in if didChange then onChange fmt wasSatisfied a' else a')"

definition set_requiredValue :: "formats \<Rightarrow> int \<Rightarrow> amount_required \<Rightarrow> amount_required" where
  "set_requiredValue fmt newValue a =
     (let didChange = ar_requiredValue a \<noteq> newValue; wasSatisfied = isSatisfied a;
          a' = a\<lparr>ar_requiredValue := newValue\<rparr>
      in if didChange then onChange fmt wasSatisfied a' else a')"

lemma onChange_values [simp]:
  "ar_currentValue (onChange fmt w a) = ar_currentValue a"
  "ar_requiredValue (onChange fmt w a) = ar_requiredValue a"
  "ar_name (onChange fmt w a) = ar_name a" "ar_hasListener (onChange fmt w a) = ar_hasListener a"
  by (simp_all add: onChange_def Let_def)

lemma set_currentValue_values [simp]:
  "ar_currentValue (set_currentValue fmt v a) = v"
  "ar_requiredValue (set_currentValue fmt v a) = ar_requiredValue a"
  by (simp_all add: set_currentValue_def Let_def)

lemma set_requiredValue_values [simp]:
  "ar_currentValue (set_requiredValue fmt v a) = ar_currentValue a"
  "ar_requiredValue (set_requiredValue fmt v a) = v"
  by (simp_all add: set_requiredValue_def Let_def)

lemma isSatisfied_set [simp]:
  "isSatisfied (set_currentValue fmt v a) \<longleftrightarrow> ar_requiredValue a \<le> v"
  "isSatisfied (set_requiredValue fmt v a) \<longleftrightarrow> v \<le> ar_currentValue a"
  by (simp_all add: isSatisfied_def)

text \<open>The four messages tell the four transitions apart.\<close>

lemma changeString_distinct:
  "changeString w s = changeString w' s' \<longleftrightarrow> w = w' \<and> s = s'"
  by (cases w; cases s; cases w'; cases s') (simp_all add: changeString_def)

text \<open>
  setting the current value calls the listener and logs exactly when the value changes; the message
  names the requirement and tells which of the four transitions of the satisfied state took place.
\<close>

theorem set_currentValue_notifies:
  "listener_calls (set_currentValue fmt v a)
     = listener_calls a + (if v \<noteq> ar_currentValue a \<and> ar_hasListener a then 1 else 0)
   \<and> warnings (set_currentValue fmt v a)
     = warnings a @ (if v = ar_currentValue a then []
         else [ar_name a @ '' requirement is '' @ changeString (isSatisfied a) (ar_requiredValue a \<le> v)
           @ '' satisfied'' @ [CHR 0x0A] @ ar_description fmt (a\<lparr>ar_currentValue := v\<rparr>)])"
  by (simp add: set_currentValue_def onChange_def Let_def isSatisfied_def)

end
