(* ===== verification/Async.thy ===== *)
theory Async imports GsnUtils begin

text \<open>
  \<open>waitForSuccess\<close> of \<open>packages/common/src/Utils.ts\<close> as a state machine. The promises are settled from
  outside, in any order; each handler of the chain \<open>.then/.catch/.finally\<close> and the grace timer is one
  step. \<open>wf_resolved\<close> is what the returned promise resolved with; the object \<open>ret\<close> may still change
  afterwards, as in the code.
\<close>

datatype phase = Pending | Handled | Finished

record 'a wfs =
  wf_phases :: "phase list"
  wf_results :: "'a list"
  wf_errors :: "(string \<times> js_error) list"
  wf_winner :: "'a option"
  wf_draws :: nat
  wf_timer_armed :: bool
  wf_resolved :: "('a option \<times> 'a list \<times> (string \<times> js_error) list) option"

datatype 'a wfs_event = Then nat 'a | Catch nat js_error | Finally nat | GraceTimer

fun index_of :: "'a \<Rightarrow> 'a list \<Rightarrow> int" where
  "index_of x [] = -1"
| "index_of x (y # ys) = (if x = y then 0 else (let i = index_of x ys in if i < 0 then -1 else i + 1))"

definition waitForSuccess :: "nat \<Rightarrow> string list \<Rightarrow> js_error + 'a wfs" where
  "waitForSuccess promises errorKeys =
     (if promises \<noteq> length errorKeys then Inl (Error ''Invalid errorKeys length'')
      else if \<exists>i\<in>set [0..<length errorKeys]. index_of (errorKeys ! i) errorKeys \<noteq> int i
        then Inl (Error ''waitForSuccess: duplicate relay URL keys, aborting'')
      else Inr \<lparr>wf_phases = replicate promises Pending, wf_results = [], wf_errors = [], wf_winner = None,
        wf_draws = 0, wf_timer_armed = False, wf_resolved = None\<rparr>)"

definition complete :: "(nat \<Rightarrow> rat) \<Rightarrow> 'a wfs \<Rightarrow> 'a wfs" where
  "complete random w =
     (let w' = (if length (wf_results w) \<noteq> 0
        then w\<lparr>wf_winner := Some (wf_results w ! nat \<lfloor>random (wf_draws w) * of_nat (length (wf_results w))\<rfloor>),
               wf_draws := wf_draws w + 1\<rparr>
        else w)
      in w'\<lparr>wf_resolved := (case wf_resolved w' of
           None \<Rightarrow> Some (wf_winner w', wf_results w', wf_errors w') | Some r \<Rightarrow> Some r)\<rparr>)"

text \<open>A handler that is not enabled in the state is \<open>None\<close>.\<close>

fun wfs_step :: "(nat \<Rightarrow> rat) \<Rightarrow> string list \<Rightarrow> 'a wfs_event \<Rightarrow> 'a wfs \<Rightarrow> 'a wfs option" where
  "wfs_step random errorKeys (Then i result) s =
     (if i < length (wf_phases s) \<and> wf_phases s ! i = Pending then
        (let s' = s\<lparr>wf_phases := (wf_phases s)[i := Handled], wf_results := wf_results s @ [result]\<rparr>
         in Some (if length (wf_results s') = 1 then s'\<lparr>wf_timer_armed := True\<rparr> else s'))
      else None)"
| "wfs_step random errorKeys (Catch i err) s =
     (if i < length (wf_phases s) \<and> wf_phases s ! i = Pending then
        Some (s\<lparr>wf_phases := (wf_phases s)[i := Handled], wf_errors := map_set (errorKeys ! i) err (wf_errors s)\<rparr>)
      else None)"
| "wfs_step random errorKeys (Finally i) s =
     (if i < length (wf_phases s) \<and> wf_phases s ! i = Handled then
        (let s' = s\<lparr>wf_phases := (wf_phases s)[i := Finished]\<rparr>
         in Some (if length (wf_results s') + length (wf_errors s') = length (wf_phases s') then complete random s' else s'))
      else None)"
| "wfs_step random errorKeys GraceTimer s =
     (if wf_timer_armed s then Some (complete random (s\<lparr>wf_timer_armed := False\<rparr>)) else None)"

inductive wfs_reach :: "(nat \<Rightarrow> rat) \<Rightarrow> string list \<Rightarrow> 'a wfs \<Rightarrow> bool" for random errorKeys where
  start: "waitForSuccess n errorKeys = Inr s \<Longrightarrow> wfs_reach random errorKeys s"
| step: "wfs_reach random errorKeys s \<Longrightarrow> wfs_step random errorKeys e s = Some t \<Longrightarrow> wfs_reach random errorKeys t"

lemma index_of_nth:
  "i < length xs \<Longrightarrow> index_of (xs ! i) xs = int i \<longleftrightarrow> xs ! i \<notin> set (take i xs)"
proof (induction xs arbitrary: i)
  case (Cons x xs)
  show ?case
  proof (cases i)
    case (Suc j)
    moreover have "index_of (xs ! j) xs \<ge> 0" if "j < length xs"
      using that by (induction xs arbitrary: j) (force simp: Let_def nth_Cons split: nat.splits)+
    ultimately show ?thesis using Cons by (auto simp: Let_def)
  qed simp
qed simp

lemma index_of_distinct:
  "(\<forall>i\<in>set [0..<length xs]. index_of (xs ! i) xs = int i) \<longleftrightarrow> distinct xs"
proof
  assume a: "\<forall>i\<in>set [0..<length xs]. index_of (xs ! i) xs = int i"
  have "xs ! i \<noteq> xs ! j" if "i < j" "j < length xs" for i j
    using a that index_of_nth [of j xs] by (force simp: in_set_conv_nth)
  then show "distinct xs" by (metis distinct_conv_nth nat_neq_iff)
next
  assume d: "distinct xs"
  show "\<forall>i\<in>set [0..<length xs]. index_of (xs ! i) xs = int i"
    using d by (auto simp: index_of_nth in_set_conv_nth distinct_conv_nth)
qed


section \<open>The invariant\<close>

definition wfs_core :: "string list \<Rightarrow> 'a wfs \<Rightarrow> bool" where
  "wfs_core errorKeys s \<longleftrightarrow>
     length (wf_phases s) = length errorKeys \<and> distinct errorKeys
     \<and> (\<forall>k\<in>fst ` set (wf_errors s). \<exists>i<length errorKeys. k = errorKeys ! i \<and> wf_phases s ! i \<noteq> Pending)
     \<and> length (wf_results s) + length (wf_errors s) = length (filter (\<lambda>p. p \<noteq> Pending) (wf_phases s))
     \<and> (wf_results s = [] \<longrightarrow> \<not> wf_timer_armed s \<and> wf_winner s = None)"

definition wfs_outcome :: "nat \<Rightarrow> 'a option \<times> 'a list \<times> (string \<times> js_error) list \<Rightarrow> bool" where
  "wfs_outcome n r =
     (case r of (w, rs, es) \<Rightarrow> (case w of None \<Rightarrow> rs = [] \<and> length es = n | Some x \<Rightarrow> x \<in> set rs))"

definition wfs_inv :: "string list \<Rightarrow> 'a wfs \<Rightarrow> bool" where
  "wfs_inv errorKeys s \<longleftrightarrow>
     wfs_core errorKeys s
     \<and> (case wf_resolved s of None \<Rightarrow> errorKeys = [] \<or> (\<exists>p\<in>set (wf_phases s). p \<noteq> Finished)
        | Some r \<Rightarrow> wfs_outcome (length errorKeys) r)"

lemma length_map_set: "k \<notin> fst ` set m \<Longrightarrow> length (map_set k v m) = Suc (length m)"
  by (induction k v m rule: map_set.induct) auto

lemma filter_update_length:
  "i < length xs \<Longrightarrow> \<not> P (xs ! i) \<Longrightarrow> P y \<Longrightarrow> length (filter P (xs[i := y])) = Suc (length (filter P xs))"
proof (induction xs arbitrary: i)
  case (Cons x xs)
  then show ?case by (cases i) auto
qed simp

lemma filter_update_same:
  "i < length xs \<Longrightarrow> P (xs ! i) = P y \<Longrightarrow> length (filter P (xs[i := y])) = length (filter P xs)"
proof (induction xs arbitrary: i)
  case (Cons x xs)
  then show ?case by (cases i) auto
qed simp

lemma filter_all_length: "length (filter P xs) = length xs \<longleftrightarrow> (\<forall>x\<in>set xs. P x)"
  by (metis filter_True filter_id_conv length_filter_less nat_less_le)

lemma complete_simps [simp]:
  "wf_phases (complete random s) = wf_phases s" "wf_results (complete random s) = wf_results s"
  "wf_errors (complete random s) = wf_errors s" "wf_timer_armed (complete random s) = wf_timer_armed s"
  by (simp_all add: complete_def Let_def)

lemma complete_resolved: "wf_resolved (complete random s) \<noteq> None"
  by (simp add: complete_def Let_def split: option.splits)

lemma complete_inv:
  assumes "unit_interval random" and "wfs_core errorKeys s"
    and "\<And>r. wf_resolved s = Some r \<Longrightarrow> wfs_outcome (length errorKeys) r"
    and "wf_results s = [] \<Longrightarrow> length (wf_errors s) = length errorKeys"
  shows "wfs_inv errorKeys (complete random s)"
proof -
  have "nat \<lfloor>random (wf_draws s) * of_nat (length (wf_results s))\<rfloor> < length (wf_results s)" if "wf_results s \<noteq> []"
    using assms(1) that by (intro random_index_less) (auto simp: unit_interval_def)
  then show ?thesis
    using assms(2-4) by (auto simp: wfs_inv_def wfs_core_def wfs_outcome_def complete_def Let_def split: option.splits)
qed

lemma then_inv:
  assumes "wfs_inv errorKeys s" and "wfs_step random errorKeys (Then i v) s = Some t"
  shows "wfs_inv errorKeys t"
proof -
  let ?s = "s\<lparr>wf_phases := (wf_phases s)[i := Handled], wf_results := wf_results s @ [v]\<rparr>"
  have i: "i < length (wf_phases s)" "wf_phases s ! i = Pending"
    and t: "t = ?s \<or> t = ?s\<lparr>wf_timer_armed := True\<rparr>"
    using assms(2) by (auto simp: Let_def split: if_splits)
  have "length (filter (\<lambda>p. p \<noteq> Pending) ((wf_phases s)[i := Handled]))
    = Suc (length (filter (\<lambda>p. p \<noteq> Pending) (wf_phases s)))"
    using i by (intro filter_update_length) auto
  then have core: "wfs_core errorKeys ?s" "wfs_core errorKeys (?s\<lparr>wf_timer_armed := True\<rparr>)"
    using assms(1) i by (simp_all add: wfs_inv_def wfs_core_def nth_list_update) metis+
  have "\<exists>p\<in>set ((wf_phases s)[i := Handled]). p \<noteq> Finished"
    using i by (intro bexI [of _ Handled]) (simp_all add: set_update_memI)
  then show ?thesis using t core assms(1)
    by (cases "wf_resolved s") (auto simp: wfs_inv_def)
qed

lemma catch_inv:
  assumes "wfs_inv errorKeys s" and "wfs_step random errorKeys (Catch i e) s = Some t"
  shows "wfs_inv errorKeys t"
proof -
  have i: "i < length (wf_phases s)" "wf_phases s ! i = Pending"
    and t: "t = s\<lparr>wf_phases := (wf_phases s)[i := Handled], wf_errors := map_set (errorKeys ! i) e (wf_errors s)\<rparr>"
    using assms(2) by (auto split: if_splits)
  have "errorKeys ! i \<notin> fst ` set (wf_errors s)"
  proof
    assume "errorKeys ! i \<in> fst ` set (wf_errors s)"
    then obtain j where "j < length errorKeys" "errorKeys ! i = errorKeys ! j" "wf_phases s ! j \<noteq> Pending"
      using assms(1) unfolding wfs_inv_def wfs_core_def by blast
    then have "i = j" using assms(1) i(1) by (auto simp: wfs_inv_def wfs_core_def nth_eq_iff_index_eq)
    then show False using i(2) \<open>wf_phases s ! j \<noteq> Pending\<close> by simp
  qed
  moreover have "length (filter (\<lambda>p. p \<noteq> Pending) ((wf_phases s)[i := Handled]))
    = Suc (length (filter (\<lambda>p. p \<noteq> Pending) (wf_phases s)))"
    using i by (intro filter_update_length) auto
  moreover have "Handled \<in> set ((wf_phases s)[i := Handled])" using i by (simp add: set_update_memI)
  ultimately show ?thesis
    using assms(1) i unfolding t
    by (auto 0 3 simp: wfs_inv_def wfs_core_def nth_list_update length_map_set split: option.splits)
qed

lemma finally_core:
  assumes "wfs_core errorKeys s" and "i < length (wf_phases s)" and "wf_phases s ! i = Handled"
  shows "wfs_core errorKeys (s\<lparr>wf_phases := (wf_phases s)[i := Finished]\<rparr>)"
proof -
  have "length (filter (\<lambda>p. p \<noteq> Pending) ((wf_phases s)[i := Finished]))
    = length (filter (\<lambda>p. p \<noteq> Pending) (wf_phases s))"
    using assms(2,3) by (intro filter_update_same) auto
  then show ?thesis using assms by (auto simp: wfs_core_def nth_list_update)
qed

lemma finally_inv:
  assumes "unit_interval random" and "wfs_inv errorKeys s"
    and "wfs_step random errorKeys (Finally i) s = Some t"
  shows "wfs_inv errorKeys t"
proof -
  let ?s = "s\<lparr>wf_phases := (wf_phases s)[i := Finished]\<rparr>"
  let ?all = "length (wf_results s) + length (wf_errors s) = length (wf_phases s)"
  have i: "i < length (wf_phases s)" "wf_phases s ! i = Handled"
    and t: "t = (if ?all then complete random ?s else ?s)"
    using assms(3) by (auto simp: Let_def split: if_splits)
  have core: "wfs_core errorKeys ?s" using finally_core i assms(2) by (auto simp: wfs_inv_def)
  show ?thesis
  proof (cases ?all)
    case True
    then have "wf_results ?s = [] \<Longrightarrow> length (wf_errors ?s) = length errorKeys"
      using core by (auto simp: wfs_core_def)
    then have "wfs_inv errorKeys (complete random ?s)"
      using assms(1,2) core by (intro complete_inv) (auto simp: wfs_inv_def split: option.splits)
    then show ?thesis using t True by simp
  next
    case False
    then have "\<exists>p\<in>set (wf_phases ?s). p = Pending"
      using core filter_all_length [of "\<lambda>p. p \<noteq> Pending" "wf_phases ?s"] by (auto simp: wfs_core_def)
    then show ?thesis using t False core assms(2)
      by (auto simp: wfs_inv_def split: option.splits)
  qed
qed

lemma timer_inv:
  assumes "unit_interval random" and "wfs_inv errorKeys s"
    and "wfs_step random errorKeys GraceTimer s = Some t"
  shows "wfs_inv errorKeys t"
proof -
  let ?s = "s\<lparr>wf_timer_armed := False\<rparr>"
  have t: "wf_timer_armed s" "t = complete random ?s" using assms(3) by (auto split: if_splits)
  then have "wf_results s \<noteq> []" and "wfs_core errorKeys ?s"
    using assms(2) by (auto simp: wfs_inv_def wfs_core_def)
  then have "wfs_inv errorKeys (complete random ?s)"
    using assms(1,2) by (intro complete_inv) (auto simp: wfs_inv_def split: option.splits)
  then show ?thesis using t by simp
qed

lemma wfs_step_inv:
  assumes "unit_interval random" and "wfs_inv errorKeys s" and "wfs_step random errorKeys e s = Some t"
  shows "wfs_inv errorKeys t"
proof (cases e)
  case (Then i v)
  with assms show ?thesis using then_inv by simp
next
  case (Catch i err)
  with assms show ?thesis using catch_inv by simp
next
  case (Finally i)
  with assms show ?thesis using finally_inv by simp
next
  case GraceTimer
  with assms show ?thesis using timer_inv by simp
qed

lemma wfs_start_inv:
  assumes "waitForSuccess n errorKeys = Inr s"
  shows "wfs_inv errorKeys s"
proof -
  have "distinct errorKeys" "n = length errorKeys"
    using assms index_of_distinct [of errorKeys]
    by (auto simp: waitForSuccess_def split: if_splits)
  then show ?thesis using assms
    by (auto simp: waitForSuccess_def wfs_inv_def wfs_core_def split: if_splits)
qed

lemma wfs_reach_inv: "wfs_reach random errorKeys s \<Longrightarrow> unit_interval random \<Longrightarrow> wfs_inv errorKeys s"
  by (induction rule: wfs_reach.induct) (auto intro: wfs_start_inv wfs_step_inv)

text \<open>
  when every promise has settled, \<open>waitForSuccess\<close> has resolved: with a winner drawn from the results
  if any promise succeeded, and otherwise without a winner and with an error for every key. This holds
  for every order of the handlers and of the grace timer and every random source.
\<close>

theorem waitForSuccess_resolves:
  assumes "unit_interval random" and "wfs_reach random errorKeys s" and "errorKeys \<noteq> []"
    and "\<forall>p\<in>set (wf_phases s). p = Finished"
  shows "\<exists>w rs es. wf_resolved s = Some (w, rs, es)
    \<and> (case w of Some x \<Rightarrow> x \<in> set rs | None \<Rightarrow> rs = [] \<and> length es = length errorKeys)"
  using wfs_reach_inv [OF assms(2,1)] assms(3,4)
  by (auto simp: wfs_inv_def wfs_outcome_def split: option.splits)

text \<open>Every run is finite: each handler runs once and the timer at most once.\<close>

definition phase_weight :: "phase \<Rightarrow> nat" where
  "phase_weight p = (case p of Pending \<Rightarrow> 3 | Handled \<Rightarrow> 1 | Finished \<Rightarrow> 0)"

definition wfs_weight :: "'a wfs \<Rightarrow> nat" where
  "wfs_weight s = sum_list (map phase_weight (wf_phases s)) + (if wf_timer_armed s then 1 else 0)"

lemma sum_list_update_nat:
  "i < length xs \<Longrightarrow> sum_list (map f (xs[i := y])) + f (xs ! i) = sum_list (map f xs) + (f y :: nat)"
proof (induction xs arbitrary: i)
  case (Cons x xs)
  then show ?case by (cases i) auto
qed simp

text \<open>every handler decreases the weight, so at most \<open>3 n + 1\<close> handlers run for \<open>n\<close> promises.\<close>

theorem waitForSuccess_terminates:
  assumes "wfs_step random errorKeys e s = Some t"
  shows "wfs_weight t < wfs_weight s"
proof (cases e)
  case (Then i v)
  then show ?thesis using assms sum_list_update_nat [of i "wf_phases s" phase_weight Handled]
    by (auto simp: wfs_weight_def phase_weight_def Let_def split: if_splits)
next
  case (Catch i err)
  then show ?thesis using assms sum_list_update_nat [of i "wf_phases s" phase_weight Handled]
    by (auto simp: wfs_weight_def phase_weight_def split: if_splits)
next
  case (Finally i)
  then show ?thesis using assms sum_list_update_nat [of i "wf_phases s" phase_weight Finished]
    by (auto simp: wfs_weight_def phase_weight_def Let_def split: if_splits)
next
  case GraceTimer
  then show ?thesis using assms by (auto simp: wfs_weight_def split: if_splits)
qed

section \<open>A concrete run\<close>

definition wfs_run :: "'a wfs_event list \<Rightarrow> (nat \<Rightarrow> rat) \<Rightarrow> string list \<Rightarrow> 'a wfs \<Rightarrow> 'a wfs option" where
  "wfs_run es random errorKeys s =
     foldl (\<lambda>o1 e. case o1 of None \<Rightarrow> None | Some u \<Rightarrow> wfs_step random errorKeys e u) (Some s) es"

lemma wfs_run_reach_aux:
  "foldl (\<lambda>o1 e. case o1 of None \<Rightarrow> None | Some u \<Rightarrow> wfs_step random errorKeys e u) o1 es = Some t \<Longrightarrow>
   (\<And>u. o1 = Some u \<Longrightarrow> wfs_reach random errorKeys u) \<Longrightarrow> wfs_reach random errorKeys t"
proof (induction es arbitrary: o1)
  case (Cons e es)
  show ?case
  proof (rule Cons.IH)
    show "foldl (\<lambda>o1 e. case o1 of None \<Rightarrow> None | Some u \<Rightarrow> wfs_step random errorKeys e u)
      (case o1 of None \<Rightarrow> None | Some u \<Rightarrow> wfs_step random errorKeys e u) es = Some t"
      using Cons.prems(1) by simp
  qed (use Cons.prems(2) in \<open>auto split: option.splits intro: wfs_reach.step\<close>)
qed simp

lemma wfs_run_reach:
  "waitForSuccess n errorKeys = Inr s \<Longrightarrow> wfs_run es random errorKeys s = Some t \<Longrightarrow>
   wfs_reach random errorKeys t"
  unfolding wfs_run_def by (rule wfs_run_reach_aux) (auto intro: wfs_reach.start)

definition wfs_final :: "int wfs" where
  "wfs_final =
     \<lparr>wf_phases = [Finished, Finished], wf_results = [7], wf_errors = [(''r1'', Error ''down'')], wf_winner = Some 7,
      wf_draws = 2, wf_timer_armed = False, wf_resolved = Some (Some 7, [7], [(''r1'', Error ''down'')])\<rparr>"

lemma wfs_final_reach: "wfs_reach (\<lambda>_. 1 / 2) [''r1'', ''r2''] wfs_final"
proof (rule wfs_run_reach)
  show "waitForSuccess 2 [''r1'', ''r2''] = Inr (\<lparr>wf_phases = [Pending, Pending], wf_results = [], wf_errors = [],
      wf_winner = None, wf_draws = 0, wf_timer_armed = False, wf_resolved = None\<rparr> :: int wfs)"
    by (simp add: waitForSuccess_def Let_def numeral_2_eq_2)
  show "wfs_run [Catch 0 (Error ''down''), Finally 0, Then 1 7, GraceTimer, Finally 1]
      (\<lambda>_. 1 / 2) [''r1'', ''r2''] (\<lparr>wf_phases = [Pending, Pending], wf_results = [], wf_errors = [],
      wf_winner = None, wf_draws = 0, wf_timer_armed = False, wf_resolved = None\<rparr> :: int wfs) = Some wfs_final"
    by (simp add: wfs_run_def wfs_final_def complete_def Let_def)
qed

theorem waitForSuccess_resolves_witness:
  "\<exists>w rs es. wf_resolved wfs_final = Some (w, rs, es)
    \<and> (case w of Some x \<Rightarrow> x \<in> set rs | None \<Rightarrow> rs = [] \<and> length es = length [''r1'', ''r2''])"
  by (rule waitForSuccess_resolves [OF _ wfs_final_reach]) (auto simp: unit_interval_def wfs_final_def)

theorem waitForSuccess_terminates_witness:
  "wfs_weight (complete (\<lambda>_. 0) (wfs_final\<lparr>wf_timer_armed := False\<rparr>)) < wfs_weight (wfs_final\<lparr>wf_timer_armed := True\<rparr>)"
  by (rule waitForSuccess_terminates [of "\<lambda>_. 0" "[]" GraceTimer]) (simp add: wfs_final_def)

end
