(* ===== verification/Nedb.thy ===== *)
theory Nedb imports Prelude begin

text \<open>
  The document database \<open>@seald-io/nedb\<close>, a package the stores of the server use: a parameter of the
  model. A query object is the predicate it expresses, an update object the function it applies. The
  locale states what Nedb documents of a collection with unique indexes, as far as the stores rely on
  it; \<open>clash d e\<close> says that two documents agree on a unique index. No order of the results is promised.
\<close>

record ('d, 'db) nedb_ops =
  nfind :: "('d \<Rightarrow> bool) \<Rightarrow> 'db \<Rightarrow> 'd list"
  nfindOne :: "('d \<Rightarrow> bool) \<Rightarrow> 'db \<Rightarrow> 'd option"
  ninsert :: "'d \<Rightarrow> 'db \<Rightarrow> js_error + 'db"
  nupdate :: "('d \<Rightarrow> bool) \<Rightarrow> ('d \<Rightarrow> 'd) \<Rightarrow> 'db \<Rightarrow> js_error + 'db"
  nremove :: "('d \<Rightarrow> bool) \<Rightarrow> 'db \<Rightarrow> 'db"

definition docs :: "('d, 'db) nedb_ops \<Rightarrow> 'db \<Rightarrow> 'd multiset" where
  "docs N db = mset (nfind N (\<lambda>_. True) db)"

definition no_clashes :: "('d \<Rightarrow> 'd \<Rightarrow> bool) \<Rightarrow> 'd multiset \<Rightarrow> bool" where
  "no_clashes clash M \<longleftrightarrow> (\<forall>d\<in>#M. \<forall>e\<in>#M - {#d#}. \<not> clash e d)"

lemma no_clashes_add_mset:
  assumes "\<And>d e. clash d e \<Longrightarrow> clash e d"
  shows "no_clashes clash (add_mset d R) \<longleftrightarrow> no_clashes clash R \<and> (\<forall>e\<in>#R. \<not> clash e d)"
proof
  assume a: "no_clashes clash (add_mset d R)"
  then have d: "\<forall>e\<in>#R. \<not> clash e d" by (simp add: no_clashes_def)
  have "\<not> clash e x" if "x \<in># R" "e \<in># R - {#x#}" for x e
  proof -
    have "e \<in># add_mset d R - {#x#}" using that(2) unfolding in_diff_count by simp
    then show ?thesis using a that(1) by (auto simp: no_clashes_def)
  qed
  with d show "no_clashes clash R \<and> (\<forall>e\<in>#R. \<not> clash e d)" by (simp add: no_clashes_def)
next
  assume a: "no_clashes clash R \<and> (\<forall>e\<in>#R. \<not> clash e d)"
  show "no_clashes clash (add_mset d R)" unfolding no_clashes_def
  proof (intro ballI)
    fix x e assume x: "x \<in># add_mset d R" and e: "e \<in># add_mset d R - {#x#}"
    show "\<not> clash e x"
    proof (cases "x = d")
      case False
      with x e have "x \<in># R" "e = d \<or> e \<in># R - {#x#}" by (auto simp: diff_add_mset_swap)
      then show ?thesis using a assms by (auto simp: no_clashes_def)
    qed (use a e in simp)
  qed
qed

locale nedb =
  fixes N :: "('d, 'db) nedb_ops" and clash :: "'d \<Rightarrow> 'd \<Rightarrow> bool"
  assumes find_docs: "mset (nfind N q db) = filter_mset q (docs N db)"
    and findOne_None: "nfindOne N q db = None \<Longrightarrow> filter_mset q (docs N db) = {#}"
    and findOne_Some: "nfindOne N q db = Some d \<Longrightarrow> d \<in># docs N db \<and> q d"
    and insert_ok: "\<forall>e\<in>#docs N db. \<not> clash e d \<Longrightarrow>
      \<exists>db'. ninsert N d db = Inr db' \<and> docs N db' = add_mset d (docs N db)"
    and insert_clash: "e \<in># docs N db \<Longrightarrow> clash e d \<Longrightarrow> \<exists>er. ninsert N d db = Inl er"
    and update_ok: "docs N db = add_mset d R \<Longrightarrow> q d \<Longrightarrow> \<forall>e\<in>#R. \<not> q e \<and> \<not> clash e (f d) \<Longrightarrow>
      \<exists>db'. nupdate N q f db = Inr db' \<and> docs N db' = add_mset (f d) R"
    and update_clash: "docs N db = add_mset d R \<Longrightarrow> q d \<Longrightarrow> \<forall>e\<in>#R. \<not> q e \<Longrightarrow> e \<in># R \<Longrightarrow> clash e (f d) \<Longrightarrow>
      \<exists>er. nupdate N q f db = Inl er"
    and update_none: "\<forall>e\<in>#docs N db. \<not> q e \<Longrightarrow> \<exists>db'. nupdate N q f db = Inr db' \<and> docs N db' = docs N db"
    and remove_docs: "docs N (nremove N q db) = filter_mset (\<lambda>d. \<not> q d) (docs N db)"
    and clash_sym: "clash d e \<Longrightarrow> clash e d"
begin

lemma set_find: "set (nfind N q db) = {d. d \<in># docs N db \<and> q d}"
  using arg_cong [OF find_docs [of q db], of set_mset] by auto

lemma findOne_eq_None: "nfindOne N q db = None \<longleftrightarrow> (\<forall>d\<in>#docs N db. \<not> q d)"
  using findOne_None [of q db] findOne_Some [of q db] by (cases "nfindOne N q db") (auto simp: filter_mset_eq_conv)

lemma no_clashes_insert:
  assumes "no_clashes clash (docs N db)" and "ninsert N d db = Inr db'"
  shows "no_clashes clash (docs N db')" and "docs N db' = add_mset d (docs N db)"
proof -
  have ok: "\<forall>e\<in>#docs N db. \<not> clash e d" using insert_clash [of _ db d] assms(2) by fastforce
  then show d: "docs N db' = add_mset d (docs N db)" using insert_ok [OF ok] assms(2) by auto
  show "no_clashes clash (docs N db')"
    unfolding d using ok assms(1) clash_sym by (simp add: no_clashes_add_mset)
qed

lemma no_clashes_remove:
  assumes "no_clashes clash (docs N db)"
  shows "no_clashes clash (docs N (nremove N q db))"
  unfolding remove_docs no_clashes_def
proof (intro ballI)
  fix d e assume d: "d \<in># {#d \<in># docs N db. \<not> q d#}" and e: "e \<in># {#d \<in># docs N db. \<not> q d#} - {#d#}"
  have "{#d \<in># docs N db. \<not> q d#} - {#d#} \<subseteq># docs N db - {#d#}"
    by (simp add: subset_eq_diff_conv subset_mset.add_increasing2 mset_subset_eq_add_right subseteq_mset_def diff_le_mono)
  then have "e \<in># docs N db - {#d#}" using e by (rule mset_subset_eqD)
  then show "\<not> clash e d" using d assms by (auto simp: no_clashes_def)
qed

text \<open>Every document has its place: with two different documents of the collection, none clashes.\<close>

lemma no_clashes_pair:
  "no_clashes clash (docs N db) \<Longrightarrow> d \<in># docs N db \<Longrightarrow> e \<in># docs N db \<Longrightarrow> clash e d \<Longrightarrow> e = d"
  by (metis in_diff_count count_single no_clashes_def count_greater_zero_iff)

lemma no_clashes_split:
  "no_clashes clash (docs N db) \<Longrightarrow> d \<in># docs N db \<Longrightarrow>
   \<exists>R. docs N db = add_mset d R \<and> (\<forall>e\<in>#R. \<not> clash e d)"
  by (metis add_mset_remove_trivial multi_member_split no_clashes_def)

end

section \<open>Collections with a unique key\<close>

text \<open>A collection in which documents with equal keys clash is a map from keys to documents.\<close>

definition lookup :: "('d, 'db) nedb_ops \<Rightarrow> ('d \<Rightarrow> 'k) \<Rightarrow> 'db \<Rightarrow> 'k \<Rightarrow> 'd option" where
  "lookup N key db k = nfindOne N (\<lambda>d. key d = k) db"

locale keyed_nedb = nedb N clash
  for N :: "('d, 'db) nedb_ops" and clash :: "'d \<Rightarrow> 'd \<Rightarrow> bool" +
  fixes key :: "'d \<Rightarrow> 'k"
  assumes key_clash: "key d = key e \<Longrightarrow> clash d e"
begin

lemma lookup_Some:
  assumes "no_clashes clash (docs N db)"
  shows "lookup N key db k = Some d \<longleftrightarrow> d \<in># docs N db \<and> key d = k"
proof
  assume d: "d \<in># docs N db \<and> key d = k"
  then obtain e where e: "lookup N key db k = Some e"
    using findOne_eq_None [of "\<lambda>d. key d = k" db] by (auto simp: lookup_def)
  then have "e \<in># docs N db" "key e = k" by (auto simp: lookup_def dest: findOne_Some)
  then have "e = d" using d no_clashes_pair [OF assms, of d e] key_clash [of e d] by auto
  then show "lookup N key db k = Some d" using e by simp
qed (auto simp: lookup_def dest: findOne_Some)

lemma lookup_None: "lookup N key db k = None \<longleftrightarrow> (\<forall>d\<in>#docs N db. key d \<noteq> k)"
  by (simp add: lookup_def findOne_eq_None)

lemma lookup_upd:
  assumes "no_clashes clash (docs N db)" and "no_clashes clash (docs N db')"
    and "docs N db' = add_mset v R" and "docs N db = R \<or> (\<exists>e. docs N db = add_mset e R \<and> key e = key v)"
  shows "lookup N key db' = (lookup N key db)(key v \<mapsto> v)"
proof
  fix k
  show "lookup N key db' k = ((lookup N key db)(key v \<mapsto> v)) k"
  proof (cases "k = key v")
    case True
    then show ?thesis using lookup_Some [OF assms(2), of k v] assms(3) by simp
  next
    case False
    then have "lookup N key db' k = Some x \<longleftrightarrow> lookup N key db k = Some x" for x
      using lookup_Some [OF assms(1)] lookup_Some [OF assms(2)] assms(3,4) by auto
    then show ?thesis using False by (intro option_eqI) simp
  qed
qed

end

section \<open>A collection kept as a list\<close>

text \<open>A concrete collection with these laws: the documents in the order of their insertion.\<close>

definition list_nedb :: "('d \<Rightarrow> 'd \<Rightarrow> bool) \<Rightarrow> ('d, 'd list) nedb_ops" where
  "list_nedb clash =
     \<lparr>nfind = \<lambda>q db. filter q db,
      nfindOne = \<lambda>q db. find q db,
      ninsert = \<lambda>d db. if list_ex (\<lambda>e. clash e d) db then Inl (Error ''unique constraint violated'') else Inr (db @ [d]),
      nupdate = \<lambda>q f db. (case dropWhile (\<lambda>d. \<not> q d) db of [] \<Rightarrow> Inr db
        | d # ds \<Rightarrow> (let pre = takeWhile (\<lambda>d. \<not> q d) db in
            if list_ex (\<lambda>e. clash e (f d)) (pre @ ds) then Inl (Error ''unique constraint violated'')
            else Inr (pre @ f d # ds))),
      nremove = \<lambda>q db. filter (\<lambda>d. \<not> q d) db\<rparr>"

lemma docs_list_nedb [simp]: "docs (list_nedb clash) db = mset db"
  by (simp add: docs_def list_nedb_def)


lemma takeWhile_dropWhile_single:
  assumes "mset db = add_mset d R" and "q d" and "\<forall>e\<in>#R. \<not> q e"
  shows "\<exists>ys. dropWhile (\<lambda>d. \<not> q d) db = d # ys \<and> mset (takeWhile (\<lambda>d. \<not> q d) db @ ys) = R"
proof -
  have "d \<in> set db" using assms(1) by (metis set_mset_mset union_single_eq_member)
  then obtain z ys where ys: "dropWhile (\<lambda>d. \<not> q d) db = z # ys"
    using assms(2) by (metis dropWhile_eq_Nil_conv list.exhaust)
  then have qz: "q z" by (metis dropWhile_eq_Cons_conv)
  have split: "db = takeWhile (\<lambda>d. \<not> q d) db @ z # ys" using ys by (metis takeWhile_dropWhile_id)
  then have "z \<in> set db" by (metis in_set_conv_decomp)
  then have "z = d" using assms(1,3) qz by (metis insert_iff set_mset_add_mset_insert set_mset_mset)
  moreover have "add_mset z (mset (takeWhile (\<lambda>d. \<not> q d) db @ ys)) = mset db"
    using arg_cong [OF split, of mset] by simp
  ultimately show ?thesis using ys assms(1) by auto
qed

lemma list_nedb_laws:
  assumes sym: "\<And>d e. clash d e \<Longrightarrow> clash e d"
  shows "nedb (list_nedb clash) clash"
proof
  fix db d R q and f :: "'a \<Rightarrow> 'a"
  assume a: "docs (list_nedb clash) db = add_mset d R" "q d"
  { assume "\<forall>e\<in>#R. \<not> q e \<and> \<not> clash e (f d)"
    then obtain ys where ys: "dropWhile (\<lambda>d. \<not> q d) db = d # ys" "mset (takeWhile (\<lambda>d. \<not> q d) db @ ys) = R"
      and no: "\<forall>e\<in>set (takeWhile (\<lambda>d. \<not> q d) db @ ys). \<not> clash e (f d)"
      using takeWhile_dropWhile_single [of db d R q] a by (metis docs_list_nedb set_mset_mset)
    then show "\<exists>db'. nupdate (list_nedb clash) q f db = Inr db' \<and> docs (list_nedb clash) db' = add_mset (f d) R"
      by (auto simp: list_nedb_def docs_def list_ex_iff) }
  { fix e assume "\<forall>e\<in>#R. \<not> q e" "e \<in># R" "clash e (f d)"
    then obtain ys where ys: "dropWhile (\<lambda>d. \<not> q d) db = d # ys" "mset (takeWhile (\<lambda>d. \<not> q d) db @ ys) = R"
      using takeWhile_dropWhile_single [of db d R q] a by auto
    then have "e \<in> set (takeWhile (\<lambda>d. \<not> q d) db @ ys)" using \<open>e \<in># R\<close> by (metis set_mset_mset)
    then show "\<exists>er. nupdate (list_nedb clash) q f db = Inl er"
      using ys \<open>clash e (f d)\<close> by (auto simp: list_nedb_def list_ex_iff Let_def) }
next
  fix db q and f :: "'a \<Rightarrow> 'a" assume "\<forall>e\<in>#docs (list_nedb clash) db. \<not> q e"
  then have none: "dropWhile (\<lambda>d. \<not> q d) db = []" by simp
  show "\<exists>db'. nupdate (list_nedb clash) q f db = Inr db' \<and> docs (list_nedb clash) db' = docs (list_nedb clash) db"
    by (simp add: list_nedb_def none docs_def del: dropWhile_eq_Nil_conv)
next
  fix q db assume "nfindOne (list_nedb clash) q db = None"
  then show "filter_mset q (docs (list_nedb clash) db) = {#}"
    by (simp add: list_nedb_def find_None_iff docs_def filter_mset_eq_conv)
next
  fix q db d assume "nfindOne (list_nedb clash) q db = Some d"
  then show "d \<in># docs (list_nedb clash) db \<and> q d"
    by (auto simp: list_nedb_def docs_def find_Some_iff)
qed (auto simp: list_nedb_def docs_def list_ex_iff sym)

lemma list_nedb_simps [simp]:
  "nfind (list_nedb clash) q db = filter q db" "nfindOne (list_nedb clash) q db = find q db"
  "nremove (list_nedb clash) q db = filter (\<lambda>d. \<not> q d) db"
  by (simp_all add: list_nedb_def)

end
