(* ===== verification/TxStore.thy ===== *)
theory TxStore imports GsnUtils Nedb begin

text \<open>
  \<open>packages/relay/src/StoredTransaction.ts\<close> and \<open>TxStoreManager.ts\<close>: the transactions the server has
  signed, in a Nedb collection with unique indexes on \<open>txId\<close> and \<open>nonceSigner\<close>. A transaction of
  \<open>@ethereumjs/tx\<close> is the record of the values its accessors return, its data as the hex text of the buffer. Block
  timestamps are numbers.
\<close>

section \<open>Stored transactions\<close>

datatype ServerAction =
  REGISTER_SERVER | ADD_WORKER | RELAY_CALL | VALUE_TRANSFER | DEPOSIT_WITHDRAWAL
  | PENALIZATION | SET_OWNER | AUTHORIZE_HUB

record ShortBlockInfo =
  bi_hash :: string
  bi_number :: int
  bi_timestamp :: int

record NonceSigner =
  ns_nonce :: int
  ns_signer :: string

record StoredTransactionMetadata =
  m_from :: string
  m_attempts :: nat
  m_serverAction :: ServerAction
  m_creationBlock :: ShortBlockInfo
  m_boostBlock :: "ShortBlockInfo option"
  m_minedBlock :: "ShortBlockInfo option"

record StoredTransaction =
  st_to :: string
  st_gas :: int
  st_maxFeePerGas :: int
  st_maxPriorityFeePerGas :: int
  st_data :: string
  st_nonce :: int
  st_txId :: string
  st_value :: int
  st_rawSerializedTx :: string
  st_from :: string
  st_attempts :: nat
  st_serverAction :: ServerAction
  st_creationBlock :: ShortBlockInfo
  st_boostBlock :: "ShortBlockInfo option"
  st_minedBlock :: "ShortBlockInfo option"
  st_nonceSigner :: "NonceSigner option"

datatype tx_fees = LegacyFee (tf_gasPrice: int) | FeeMarket (tf_maxFeePerGas: int) (tf_maxPriorityFeePerGas: int)

record TypedTransaction =
  tt_to :: "string option"
  tt_gasLimit :: int
  tt_data :: string
  tt_nonce :: int
  tt_hash :: string
  tt_value :: int
  tt_serialized :: string
  tt_fees :: tx_fees

definition createStoredTransaction :: "TypedTransaction \<Rightarrow> StoredTransactionMetadata \<Rightarrow> js_error + StoredTransaction" where
  "createStoredTransaction tx metadata =
     (case tt_to tx of None \<Rightarrow> Inl (Error ''tx.to must be defined'')
      | Some to \<Rightarrow>
          (let (maxFee, maxPriority) = (case tt_fees tx of
               FeeMarket mf mp \<Rightarrow> (mf, mp) | LegacyFee gp \<Rightarrow> (gp, gp))
           in Inr \<lparr>st_to = toLowerCase to, st_gas = tt_gasLimit tx, st_maxFeePerGas = maxFee,
                st_maxPriorityFeePerGas = maxPriority, st_data = tt_data tx, st_nonce = tt_nonce tx,
                st_txId = tt_hash tx, st_value = tt_value tx, st_rawSerializedTx = tt_serialized tx,
                st_from = m_from metadata, st_attempts = m_attempts metadata,
                st_serverAction = m_serverAction metadata, st_creationBlock = m_creationBlock metadata,
                st_boostBlock = m_boostBlock metadata, st_minedBlock = m_minedBlock metadata,
                st_nonceSigner = None\<rparr>))"

section \<open>The collection\<close>

text \<open>The unique indexes of the constructor.\<close>

definition tx_clash :: "StoredTransaction \<Rightarrow> StoredTransaction \<Rightarrow> bool" where
  "tx_clash a b \<longleftrightarrow> st_txId a = st_txId b \<or> st_nonceSigner a = st_nonceSigner b"

text \<open>\<open>{ $set: tx1 }\<close>: a block that \<open>tx1\<close> does not have stays.\<close>

definition set_tx :: "StoredTransaction \<Rightarrow> StoredTransaction \<Rightarrow> StoredTransaction" where
  "set_tx tx1 old =
     tx1\<lparr>st_boostBlock := (case st_boostBlock tx1 of None \<Rightarrow> st_boostBlock old | Some b \<Rightarrow> Some b),
         st_minedBlock := (case st_minedBlock tx1 of None \<Rightarrow> st_minedBlock old | Some b \<Rightarrow> Some b)\<rparr>"

definition nonce_signer_of :: "StoredTransaction \<Rightarrow> NonceSigner" where
  "nonce_signer_of tx = \<lparr>ns_nonce = st_nonce tx, ns_signer = toLowerCase (st_from tx)\<rparr>"

definition normalized_tx :: "StoredTransaction \<Rightarrow> StoredTransaction" where
  "normalized_tx tx = tx\<lparr>st_txId := toLowerCase (st_txId tx), st_nonceSigner := Some (nonce_signer_of tx)\<rparr>"

definition putTx :: "(StoredTransaction, 'db) nedb_ops \<Rightarrow> StoredTransaction \<Rightarrow> bool \<Rightarrow> ('db, unit) eff" where
  "putTx N tx updateExisting db =
     (if st_txId tx = [] \<or> st_attempts tx = 0 then (Inl (Error ''Invalid tx:''), db)
      else
        (let tx1 = normalized_tx tx;
             existing = nfindOne N (\<lambda>d. st_nonceSigner d = st_nonceSigner tx1) db;
             r = (case existing of
                 Some e \<Rightarrow> if updateExisting then nupdate N (\<lambda>d. st_txId d = st_txId e) (set_tx tx1) db
                           else ninsert N tx1 db
               | None \<Rightarrow> ninsert N tx1 db)
         in (case r of Inl err \<Rightarrow> (Inl err, db) | Inr db' \<Rightarrow> (Inr (), db'))))"

definition getTxByNonce :: "(StoredTransaction, 'db) nedb_ops \<Rightarrow> string \<Rightarrow> int \<Rightarrow> 'db \<Rightarrow> StoredTransaction option" where
  "getTxByNonce N signer nonce db =
     nfindOne N (\<lambda>d. st_nonceSigner d = Some \<lparr>ns_nonce = nonce, ns_signer = toLowerCase signer\<rparr>) db"

definition getTxById :: "(StoredTransaction, 'db) nedb_ops \<Rightarrow> string \<Rightarrow> 'db \<Rightarrow> StoredTransaction option" where
  "getTxById N txId db = nfindOne N (\<lambda>d. st_txId d = toLowerCase txId) db"

definition by_nonce :: "StoredTransaction \<Rightarrow> StoredTransaction \<Rightarrow> int" where
  "by_nonce tx1 tx2 = st_nonce tx1 - st_nonce tx2"

definition MAX_SAFE_INTEGER :: int where
  "MAX_SAFE_INTEGER = 2 ^ 53 - 1"

definition in_nonce_range :: "string \<Rightarrow> int \<Rightarrow> int \<Rightarrow> StoredTransaction \<Rightarrow> bool" where
  "in_nonce_range signer fromNonce toNonce d =
     (case st_nonceSigner d of None \<Rightarrow> False
      | Some ns \<Rightarrow> fromNonce \<le> ns_nonce ns \<and> ns_nonce ns \<le> toNonce \<and> ns_signer ns = toLowerCase signer)"

definition getTxsInNonceRange ::
  "(StoredTransaction, 'db) nedb_ops \<Rightarrow> string \<Rightarrow> int \<Rightarrow> int \<Rightarrow> 'db \<Rightarrow> StoredTransaction list" where
  "getTxsInNonceRange N signer fromNonce toNonce db =
     sort_cmp by_nonce (nfind N (in_nonce_range signer fromNonce toNonce) db)"

definition archived :: "int \<Rightarrow> int \<Rightarrow> StoredTransaction \<Rightarrow> bool" where
  "archived upToMinedBlockNumber upToMinedTimestamp d =
     (case st_minedBlock d of None \<Rightarrow> False
      | Some b \<Rightarrow> bi_number b \<le> upToMinedBlockNumber \<and> bi_timestamp b \<le> upToMinedTimestamp)"

definition removeArchivedTransactions :: "(StoredTransaction, 'db) nedb_ops \<Rightarrow> int \<Rightarrow> int \<Rightarrow> 'db \<Rightarrow> 'db" where
  "removeArchivedTransactions N upToMinedBlockNumber upToMinedTimestamp db =
     nremove N (archived upToMinedBlockNumber upToMinedTimestamp) db"

definition clearAll :: "(StoredTransaction, 'db) nedb_ops \<Rightarrow> 'db \<Rightarrow> 'db" where
  "clearAll N db = nremove N (\<lambda>_. True) db"

definition getAll :: "(StoredTransaction, 'db) nedb_ops \<Rightarrow> 'db \<Rightarrow> StoredTransaction list" where
  "getAll N db = sort_cmp by_nonce (nfind N (\<lambda>_. True) db)"

definition isActionPendingOrRecentlyMined ::
  "(StoredTransaction, 'db) nedb_ops \<Rightarrow> ServerAction \<Rightarrow> int \<Rightarrow> int \<Rightarrow> string option \<Rightarrow> 'db \<Rightarrow> bool" where
  "isActionPendingOrRecentlyMined N serverAction currentBlock recencyBlockCount destination db =
     (let allTransactions = getAll N db;
          storedMatchingTxs = filter (\<lambda>it. st_serverAction it = serverAction
            \<and> (case destination of None \<Rightarrow> True | Some dst \<Rightarrow> isSameAddress (st_to it) dst)) allTransactions;
          pendingTxs = filter (\<lambda>it. st_minedBlock it = None) storedMatchingTxs
      in if length pendingTxs \<noteq> 0 then True
         else
           (let recentlyMinedTxs = filter (\<lambda>it. case st_minedBlock it of None \<Rightarrow> False
              | Some b \<Rightarrow> currentBlock - bi_number b \<le> recencyBlockCount) storedMatchingTxs
            in length recentlyMinedTxs \<noteq> 0))"

interpretation nonce_order: comparator by_nonce
  by unfold_locales (auto simp: by_nonce_def)


section \<open>The store is a map from signer and nonce\<close>

definition slot :: "(StoredTransaction, 'db) nedb_ops \<Rightarrow> 'db \<Rightarrow> NonceSigner \<Rightarrow> StoredTransaction option" where
  "slot N db k = nfindOne N (\<lambda>d. st_nonceSigner d = Some k) db"

definition tx_normal :: "StoredTransaction \<Rightarrow> bool" where
  "tx_normal d \<longleftrightarrow> st_nonceSigner d = Some (nonce_signer_of d) \<and> toLowerCase (st_txId d) = st_txId d"

definition tx_inv :: "(StoredTransaction, 'db) nedb_ops \<Rightarrow> 'db \<Rightarrow> bool" where
  "tx_inv N db \<longleftrightarrow> no_clashes tx_clash (docs N db) \<and> (\<forall>d\<in>#docs N db. tx_normal d)"

lemma normalized_tx_simps [simp]:
  "st_nonceSigner (normalized_tx tx) = Some (nonce_signer_of tx)"
  "st_txId (normalized_tx tx) = toLowerCase (st_txId tx)"
  "nonce_signer_of (normalized_tx tx) = nonce_signer_of tx"
  "st_nonceSigner (set_tx tx old) = st_nonceSigner tx"
  "st_txId (set_tx tx old) = st_txId tx"
  "nonce_signer_of (set_tx tx old) = nonce_signer_of tx"
  "st_nonce (normalized_tx tx) = st_nonce tx" "st_from (normalized_tx tx) = st_from tx"
  "st_minedBlock (normalized_tx tx) = st_minedBlock tx"
  by (simp_all add: normalized_tx_def nonce_signer_of_def set_tx_def)

lemma tx_normal_simps [simp]: "tx_normal (normalized_tx tx)" "tx_normal (set_tx (normalized_tx tx) old)"
  by (simp_all add: tx_normal_def)

text \<open>What \<open>putTx\<close> stores under the key of the transaction.\<close>

definition put_value :: "StoredTransaction option \<Rightarrow> StoredTransaction \<Rightarrow> StoredTransaction" where
  "put_value old tx = (case old of None \<Rightarrow> normalized_tx tx | Some d \<Rightarrow> set_tx (normalized_tx tx) d)"

definition put_refused ::
  "(StoredTransaction, 'db) nedb_ops \<Rightarrow> 'db \<Rightarrow> StoredTransaction \<Rightarrow> bool \<Rightarrow> bool" where
  "put_refused N db tx updateExisting \<longleftrightarrow>
     st_txId tx = [] \<or> st_attempts tx = 0
     \<or> (slot N db (nonce_signer_of tx) \<noteq> None \<and> \<not> updateExisting)
     \<or> (\<exists>d\<in>#docs N db. st_txId d = toLowerCase (st_txId tx) \<and> st_nonceSigner d \<noteq> Some (nonce_signer_of tx))"

lemma tx_clash_sym: "tx_clash d e \<Longrightarrow> tx_clash e d"
  by (auto simp: tx_clash_def)

lemma no_tx_clashes:
  "no_clashes tx_clash (add_mset d R) \<longleftrightarrow> no_clashes tx_clash R \<and> (\<forall>e\<in>#R. \<not> tx_clash e d)"
  by (rule no_clashes_add_mset) (rule tx_clash_sym)

locale tx_collection = nedb N tx_clash
  for N :: "(StoredTransaction, 'db) nedb_ops"
begin

lemma slot_Some:
  assumes "tx_inv N db"
  shows "slot N db k = Some d \<longleftrightarrow> d \<in># docs N db \<and> st_nonceSigner d = Some k"
proof
  assume "d \<in># docs N db \<and> st_nonceSigner d = Some k"
  moreover obtain e where e: "slot N db k = Some e"
    using calculation findOne_eq_None by (metis (mono_tags, lifting) not_None_eq slot_def)
  then have "e \<in># docs N db" "st_nonceSigner e = Some k" using findOne_Some by (auto simp: slot_def)
  ultimately have "e = d"
    using assms no_clashes_pair [of db d e] by (auto simp: tx_inv_def tx_clash_def)
  then show "slot N db k = Some d" using e by simp
qed (auto simp: slot_def dest: findOne_Some)

lemma slot_None: "slot N db k = None \<longleftrightarrow> (\<forall>d\<in>#docs N db. st_nonceSigner d \<noteq> Some k)"
  by (simp add: slot_def findOne_eq_None)

text \<open>The two ways \<open>putTx\<close> writes: a new document, or the document of the slot replaced.\<close>

lemma put_insert:
  assumes inv: "tx_inv N db" and valid: "st_txId tx \<noteq> []" "st_attempts tx \<noteq> 0"
    and new: "slot N db (nonce_signer_of tx) = None \<or> \<not> updateExisting"
  shows "putTx N tx updateExisting db =
    (case ninsert N (normalized_tx tx) db of Inl err \<Rightarrow> (Inl err, db) | Inr db' \<Rightarrow> (Inr (), db'))"
  using assms by (auto simp: putTx_def slot_def Let_def split: option.splits)

lemma put_update:
  assumes "st_txId tx \<noteq> []" "st_attempts tx \<noteq> 0" and "slot N db (nonce_signer_of tx) = Some e"
  shows "putTx N tx True db =
    (case nupdate N (\<lambda>d. st_txId d = st_txId e) (set_tx (normalized_tx tx)) db of
       Inl err \<Rightarrow> (Inl err, db) | Inr db' \<Rightarrow> (Inr (), db'))"
  using assms by (simp add: putTx_def slot_def Let_def)

lemma update_slot:
  assumes inv: "tx_inv N db" and e: "slot N db (nonce_signer_of tx) = Some e"
  obtains R where "docs N db = add_mset e R" "\<forall>d\<in>#R. \<not> tx_clash d e"
    and "(\<exists>d\<in>#R. st_txId d = toLowerCase (st_txId tx)) \<Longrightarrow>
      \<exists>er. nupdate N (\<lambda>d. st_txId d = st_txId e) (set_tx (normalized_tx tx)) db = Inl er"
    and "\<forall>d\<in>#R. st_txId d \<noteq> toLowerCase (st_txId tx) \<Longrightarrow>
      \<exists>db'. nupdate N (\<lambda>d. st_txId d = st_txId e) (set_tx (normalized_tx tx)) db = Inr db'
        \<and> docs N db' = add_mset (set_tx (normalized_tx tx) e) R"
proof -
  have en: "e \<in># docs N db" "st_nonceSigner e = Some (nonce_signer_of tx)"
    using e slot_Some [OF inv] by auto
  then obtain R where R: "docs N db = add_mset e R" "\<forall>d\<in>#R. \<not> tx_clash d e"
    using no_clashes_split inv by (metis tx_inv_def)
  show thesis
  proof (rule that [OF R])
    assume "\<exists>d\<in>#R. st_txId d = toLowerCase (st_txId tx)"
    then show "\<exists>er. nupdate N (\<lambda>d. st_txId d = st_txId e) (set_tx (normalized_tx tx)) db = Inl er"
      using update_clash [OF R(1), of "\<lambda>d. st_txId d = st_txId e"] R(2) by (auto simp: tx_clash_def)
  next
    assume "\<forall>d\<in>#R. st_txId d \<noteq> toLowerCase (st_txId tx)"
    then show "\<exists>db'. nupdate N (\<lambda>d. st_txId d = st_txId e) (set_tx (normalized_tx tx)) db = Inr db'
        \<and> docs N db' = add_mset (set_tx (normalized_tx tx) e) R"
      using R(2) en(2) by (intro update_ok [OF R(1)]) (auto simp: tx_clash_def)
  qed
qed

lemma tx_inv_slot_unique:
  assumes "tx_inv N db" and "docs N db = add_mset e R" and "st_nonceSigner e = Some k"
  shows "\<forall>d\<in>#R. st_nonceSigner d \<noteq> Some k"
proof -
  have "no_clashes tx_clash (add_mset e R)" using assms(1,2) by (simp add: tx_inv_def)
  then show ?thesis using assms(3) unfolding no_tx_clashes by (auto simp: tx_clash_def)
qed

lemma tx_inv_add:
  "no_clashes tx_clash R \<Longrightarrow> \<forall>d\<in>#R. tx_normal d \<Longrightarrow> tx_normal x \<Longrightarrow> \<forall>d\<in>#R. \<not> tx_clash d x \<Longrightarrow>
   docs N db = add_mset x R \<Longrightarrow> tx_inv N db"
  by (simp add: tx_inv_def no_tx_clashes)

lemma tx_inv_remove: "tx_inv N db \<Longrightarrow> tx_inv N (nremove N q db)"
  unfolding tx_inv_def using no_clashes_remove [of db q] by (auto simp: remove_docs)

lemma slot_replace:
  assumes inv: "tx_inv N db" and inv': "tx_inv N db'" and d: "docs N db' = add_mset v (docs N db)"
    and v: "st_nonceSigner v = Some key"
  shows "slot N db' = (slot N db)(key \<mapsto> v)"
proof
  fix k
  show "slot N db' k = ((slot N db)(key \<mapsto> v)) k"
  proof (cases "k = key")
    case True
    then show ?thesis using slot_Some [OF inv', of k v] d v by simp
  next
    case False
    then have "slot N db' k = Some x \<longleftrightarrow> slot N db k = Some x" for x
      using slot_Some [OF inv'] slot_Some [OF inv] d v by auto
    then show ?thesis using False by (intro option_eqI) simp
  qed
qed

text \<open>The outcome of an accepted \<open>putTx\<close>, as a change of the documents.\<close>

lemma put_insert_outcome:
  assumes inv: "tx_inv N db" and i: "ninsert N (normalized_tx tx) db = Inr db'"
  shows "tx_inv N db'" and "slot N db' = (slot N db)(nonce_signer_of tx \<mapsto> normalized_tx tx)"
proof -
  have nc: "no_clashes tx_clash (docs N db)" using inv by (simp add: tx_inv_def)
  note d = no_clashes_insert [OF nc i]
  show inv': "tx_inv N db'" using d inv by (auto simp: tx_inv_def)
  show "slot N db' = (slot N db)(nonce_signer_of tx \<mapsto> normalized_tx tx)"
    by (rule slot_replace [OF inv inv' d(2)]) simp
qed

lemma put_update_outcome:
  assumes inv: "tx_inv N db" and e: "slot N db (nonce_signer_of tx) = Some e"
    and u: "nupdate N (\<lambda>d. st_txId d = st_txId e) (set_tx (normalized_tx tx)) db = Inr db'"
  shows "tx_inv N db'" and "slot N db' = (slot N db)(nonce_signer_of tx \<mapsto> set_tx (normalized_tx tx) e)"
proof -
  let ?v = "set_tx (normalized_tx tx) e"
  obtain R where R: "docs N db = add_mset e R" and d: "docs N db' = add_mset ?v R"
    and ids: "\<forall>d\<in>#R. st_txId d \<noteq> toLowerCase (st_txId tx)"
    by (rule update_slot [OF inv e]) (use u in \<open>fastforce+\<close>)
  have en: "st_nonceSigner e = Some (nonce_signer_of tx)" using e slot_Some [OF inv] by simp
  have "no_clashes tx_clash R" "\<forall>d\<in>#R. tx_normal d"
    using inv by (simp_all add: R tx_inv_def no_tx_clashes)
  moreover have "\<forall>d\<in>#R. \<not> tx_clash d ?v"
    using ids tx_inv_slot_unique [OF inv R en] by (auto simp: tx_clash_def)
  ultimately show inv': "tx_inv N db'" using d by (intro tx_inv_add) auto
  have "slot N db' k = ((slot N db)(nonce_signer_of tx \<mapsto> ?v)) k" for k
  proof (cases "k = nonce_signer_of tx")
    case True
    then show ?thesis using slot_Some [OF inv', of k ?v] d by simp
  next
    case False
    then have "slot N db' k = Some x \<longleftrightarrow> slot N db k = Some x" for x
      using slot_Some [OF inv'] slot_Some [OF inv] d R en by auto
    then show ?thesis using False by (intro option_eqI) simp
  qed
  then show "slot N db' = (slot N db)(nonce_signer_of tx \<mapsto> ?v)" by blast
qed

text \<open>\<open>putTx\<close> refuses exactly the transactions \<open>put_refused\<close> describes.\<close>

lemma putTx_refused: "tx_inv N db \<Longrightarrow> put_refused N db tx upd \<Longrightarrow> \<exists>er. putTx N tx upd db = (Inl er, db)"
  and putTx_accepted: "tx_inv N db \<Longrightarrow> \<not> put_refused N db tx upd \<Longrightarrow> \<exists>db'. putTx N tx upd db = (Inr (), db')
    \<and> tx_inv N db' \<and> slot N db' = (slot N db)(nonce_signer_of tx \<mapsto> put_value (slot N db (nonce_signer_of tx)) tx)"
proof -
  assume inv: "tx_inv N db"
  let ?k = "nonce_signer_of tx" and ?id = "toLowerCase (st_txId tx)"
  have "(put_refused N db tx upd \<longrightarrow> (\<exists>er. putTx N tx upd db = (Inl er, db)))
    \<and> (\<not> put_refused N db tx upd \<longrightarrow> (\<exists>db'. putTx N tx upd db = (Inr (), db')
        \<and> tx_inv N db' \<and> slot N db' = (slot N db)(?k \<mapsto> put_value (slot N db ?k) tx)))"
  proof (cases "st_txId tx = [] \<or> st_attempts tx = 0")
    case True
    then show ?thesis by (auto simp: putTx_def put_refused_def)
  next
    case valid: False
    show ?thesis
    proof (cases "slot N db ?k = None \<or> \<not> upd")
      case True
      note put = put_insert [OF inv, of tx upd]
      show ?thesis
      proof (cases "\<exists>d\<in>#docs N db. tx_clash d (normalized_tx tx)")
        case clash: True
        then obtain er where er: "ninsert N (normalized_tx tx) db = Inl er" using insert_clash by blast
        have "put_refused N db tx upd"
          using clash True slot_None [of db ?k] valid by (auto simp: put_refused_def tx_clash_def)
        then show ?thesis using put valid True er by simp
      next
        case no: False
        then obtain db' where i: "ninsert N (normalized_tx tx) db = Inr db'" using insert_ok by blast
        have free: "slot N db ?k = None" unfolding slot_None using no by (auto simp: tx_clash_def)
        have "\<not> put_refused N db tx upd"
          using no free valid by (auto simp: put_refused_def tx_clash_def)
        then show ?thesis
          using put valid True i put_insert_outcome [OF inv i] free by (simp add: put_value_def)
      qed
    next
      case False
      then obtain e where e: "slot N db ?k = Some e" and upd by auto
      obtain R where R: "docs N db = add_mset e R"
        and cl: "(\<exists>d\<in>#R. st_txId d = ?id) \<Longrightarrow>
          \<exists>er. nupdate N (\<lambda>d. st_txId d = st_txId e) (set_tx (normalized_tx tx)) db = Inl er"
        and ok: "\<forall>d\<in>#R. st_txId d \<noteq> ?id \<Longrightarrow>
          \<exists>db'. nupdate N (\<lambda>d. st_txId d = st_txId e) (set_tx (normalized_tx tx)) db = Inr db'
            \<and> docs N db' = add_mset (set_tx (normalized_tx tx) e) R"
        by (rule update_slot [OF inv e]) blast
      have ek: "st_nonceSigner e = Some ?k" using e slot_Some [OF inv] by simp
      have ref: "put_refused N db tx upd \<longleftrightarrow> (\<exists>d\<in>#R. st_txId d = ?id)"
        using valid \<open>upd\<close> e ek tx_inv_slot_unique [OF inv R ek] by (auto simp: put_refused_def R)
      note put = put_update [of tx db e]
      show ?thesis
      proof (cases "\<exists>d\<in>#R. st_txId d = ?id")
        case True
        then show ?thesis using cl put valid e \<open>upd\<close> ref by auto
      next
        case False
        then obtain db' where u: "nupdate N (\<lambda>d. st_txId d = st_txId e) (set_tx (normalized_tx tx)) db = Inr db'"
          using ok by blast
        then show ?thesis
          using put valid e \<open>upd\<close> ref False put_update_outcome [OF inv e u] by (simp add: put_value_def)
      qed
    qed
  qed
  then show "put_refused N db tx upd \<Longrightarrow> \<exists>er. putTx N tx upd db = (Inl er, db)"
    and "\<not> put_refused N db tx upd \<Longrightarrow> \<exists>db'. putTx N tx upd db = (Inr (), db')
    \<and> tx_inv N db' \<and> slot N db' = (slot N db)(nonce_signer_of tx \<mapsto> put_value (slot N db (nonce_signer_of tx)) tx)"
    by blast+
qed

lemma putTx_inv: "tx_inv N db \<Longrightarrow> tx_inv N (snd (putTx N tx upd db))"
  using putTx_refused [of db tx upd] putTx_accepted [of db tx upd] by (cases "put_refused N db tx upd") auto

text \<open>The queries.\<close>

lemma range_docs:
  assumes "tx_inv N db"
  shows "mset (getTxsInNonceRange N signer lo hi db)
    = filter_mset (\<lambda>d. lo \<le> st_nonce d \<and> st_nonce d \<le> hi \<and> isSameAddress (st_from d) signer) (docs N db)"
proof -
  have "in_nonce_range signer lo hi d
      \<longleftrightarrow> lo \<le> st_nonce d \<and> st_nonce d \<le> hi \<and> isSameAddress (st_from d) signer" if "d \<in># docs N db" for d
    using assms that by (auto simp: tx_inv_def tx_normal_def in_nonce_range_def nonce_signer_of_def isSameAddress_def)
  then show ?thesis by (simp add: getTxsInNonceRange_def find_docs cong: filter_mset_cong)
qed

lemma getAll_docs: "mset (getAll N db) = docs N db"
  by (simp add: getAll_def docs_def)

lemma action_pending_iff:
  "isActionPendingOrRecentlyMined N act cur recency dst db \<longleftrightarrow>
   (\<exists>tx\<in>#docs N db. st_serverAction tx = act \<and> (\<forall>a. dst = Some a \<longrightarrow> isSameAddress (st_to tx) a)
      \<and> (case st_minedBlock tx of None \<Rightarrow> True | Some b \<Rightarrow> cur - bi_number b \<le> recency))"
proof -
  have all: "set (getAll N db) = set_mset (docs N db)" by (metis getAll_docs set_mset_mset)
  show ?thesis
    unfolding isActionPendingOrRecentlyMined_def Let_def
    by (cases dst) (fastforce simp: filter_empty_conv all split: option.splits if_splits)+
qed

end

interpretation list_txs: tx_collection "list_nedb tx_clash"
  unfolding tx_collection_def by (rule list_nedb_laws) (rule tx_clash_sym)

definition sample_tx :: "int \<Rightarrow> string \<Rightarrow> StoredTransaction" where
  "sample_tx n txid =
     \<lparr>st_to = ''0xdd'', st_gas = 21000, st_maxFeePerGas = 5, st_maxPriorityFeePerGas = 1, st_data = [],
      st_nonce = n, st_txId = txid, st_value = 0, st_rawSerializedTx = [], st_from = ''0xAb'', st_attempts = 1,
      st_serverAction = RELAY_CALL, st_creationBlock = \<lparr>bi_hash = [], bi_number = 7, bi_timestamp = 70\<rparr>,
      st_boostBlock = None, st_minedBlock = None, st_nonceSigner = None\<rparr>"

definition sample_store :: "StoredTransaction list" where
  "sample_store = [normalized_tx (sample_tx 4 ''0xb''), normalized_tx (sample_tx 3 ''0xA'')]"

lemma sample_store_inv: "tx_inv (list_nedb tx_clash) sample_store"
  by (simp add: tx_inv_def sample_store_def no_tx_clashes no_clashes_def [of _ "{#}"] tx_clash_def
      nonce_signer_of_def sample_tx_def normalized_tx_def tx_normal_def toLowerCase_def to_lower_char_def char_of_def)

section \<open>Properties of the transaction store\<close>

text \<open>
  C23: the store implements a map from signer and nonce to transactions. \<open>putTx\<close> either refuses, exactly
  in the cases \<open>put_refused\<close> names (an incomplete transaction, an occupied slot without
  \<open>updateExisting\<close>, or a transaction id that another slot holds), and changes nothing; or it binds the
  normalised transaction to its slot, touches no other slot and keeps the store's invariant.
\<close>

theorem putTx_refines_map:
  assumes "tx_collection N" and "tx_inv N db"
  shows "case putTx N tx updateExisting db of
      (Inl er, db') \<Rightarrow> put_refused N db tx updateExisting \<and> db' = db
    | (Inr _, db') \<Rightarrow> \<not> put_refused N db tx updateExisting \<and> tx_inv N db'
        \<and> slot N db' = (slot N db)(nonce_signer_of tx \<mapsto> put_value (slot N db (nonce_signer_of tx)) tx)"
  using tx_collection.putTx_refused [OF assms, of tx updateExisting]
    tx_collection.putTx_accepted [OF assms, of tx updateExisting]
  by (cases "put_refused N db tx updateExisting") auto

theorem putTx_refines_map_witness:
  "case putTx (list_nedb tx_clash) (sample_tx 5 ''0xC'') False sample_store of
      (Inl er, db') \<Rightarrow> put_refused (list_nedb tx_clash) sample_store (sample_tx 5 ''0xC'') False \<and> db' = sample_store
    | (Inr _, db') \<Rightarrow> \<not> put_refused (list_nedb tx_clash) sample_store (sample_tx 5 ''0xC'') False
        \<and> tx_inv (list_nedb tx_clash) db'
        \<and> slot (list_nedb tx_clash) db' = (slot (list_nedb tx_clash) sample_store)(nonce_signer_of (sample_tx 5 ''0xC'')
            \<mapsto> put_value (slot (list_nedb tx_clash) sample_store (nonce_signer_of (sample_tx 5 ''0xC''))) (sample_tx 5 ''0xC''))"
  by (rule putTx_refines_map [OF list_txs.tx_collection_axioms sample_store_inv])

text \<open>
  \<open>getTxsInNonceRange\<close> answers with exactly the stored transactions of the signer (in any letter
  case) whose nonce is in the range, in the order of their nonces.
\<close>

theorem getTxsInNonceRange_exact:
  assumes "tx_collection N" and "tx_inv N db"
  shows "mset (getTxsInNonceRange N signer lo hi db)
      = {# d \<in># docs N db. lo \<le> st_nonce d \<and> st_nonce d \<le> hi \<and> isSameAddress (st_from d) signer #}
    \<and> sorted (map st_nonce (getTxsInNonceRange N signer lo hi db))"
proof
  show "mset (getTxsInNonceRange N signer lo hi db)
      = {# d \<in># docs N db. lo \<le> st_nonce d \<and> st_nonce d \<le> hi \<and> isSameAddress (st_from d) signer #}"
    using assms by (rule tx_collection.range_docs)
  have "sorted_wrt (\<lambda>a b. by_nonce a b \<le> 0) (getTxsInNonceRange N signer lo hi db)"
    unfolding getTxsInNonceRange_def by (rule nonce_order.sort_sorted)
  then show "sorted (map st_nonce (getTxsInNonceRange N signer lo hi db))"
    by (simp add: by_nonce_def sorted_wrt_map)
qed

theorem getTxsInNonceRange_exact_witness:
  "mset (getTxsInNonceRange (list_nedb tx_clash) ''0xaB'' 3 9 sample_store)
      = {# d \<in># docs (list_nedb tx_clash) sample_store.
          3 \<le> st_nonce d \<and> st_nonce d \<le> 9 \<and> isSameAddress (st_from d) ''0xaB'' #}
    \<and> sorted (map st_nonce (getTxsInNonceRange (list_nedb tx_clash) ''0xaB'' 3 9 sample_store))"
  by (rule getTxsInNonceRange_exact [OF list_txs.tx_collection_axioms sample_store_inv])

text \<open>
  an action counts as pending or recently mined exactly when the store has a transaction of that
  action, and of that destination if one is given, that is not mined or was mined at most
  \<open>recencyBlockCount\<close> blocks ago.
\<close>

theorem isActionPendingOrRecentlyMined_iff:
  assumes "tx_collection N"
  shows "isActionPendingOrRecentlyMined N act cur recency dst db \<longleftrightarrow>
   (\<exists>tx\<in>#docs N db. st_serverAction tx = act \<and> (\<forall>a. dst = Some a \<longrightarrow> isSameAddress (st_to tx) a)
      \<and> (case st_minedBlock tx of None \<Rightarrow> True | Some b \<Rightarrow> cur - bi_number b \<le> recency))"
  using assms by (rule tx_collection.action_pending_iff)

theorem isActionPendingOrRecentlyMined_iff_witness:
  "isActionPendingOrRecentlyMined (list_nedb tx_clash) RELAY_CALL 9 2 (Some ''0xDD'') sample_store \<longleftrightarrow>
   (\<exists>tx\<in>#docs (list_nedb tx_clash) sample_store. st_serverAction tx = RELAY_CALL
      \<and> (\<forall>a. Some ''0xDD'' = Some a \<longrightarrow> isSameAddress (st_to tx) a)
      \<and> (case st_minedBlock tx of None \<Rightarrow> True | Some b \<Rightarrow> 9 - bi_number b \<le> 2))"
  by (rule isActionPendingOrRecentlyMined_iff [OF list_txs.tx_collection_axioms])

text \<open>
  archiving removes the transactions that were mined at or before both limits and no other; a
  transaction that is not mined always stays, and so do the indexes' invariants.
\<close>

theorem removeArchived_exact:
  assumes "tx_collection N" and "tx_inv N db"
  shows "docs N (removeArchivedTransactions N blk ts db) = {# d \<in># docs N db. \<not> archived blk ts d #}
    \<and> tx_inv N (removeArchivedTransactions N blk ts db)
    \<and> {# d \<in># docs N (removeArchivedTransactions N blk ts db). st_minedBlock d = None #}
      = {# d \<in># docs N db. st_minedBlock d = None #}"
proof -
  have d: "docs N (nremove N (archived blk ts) db) = {# d \<in># docs N db. \<not> archived blk ts d #}"
    using assms(1) unfolding tx_collection_def by (rule nedb.remove_docs)
  have "{# d \<in># {# d \<in># docs N db. \<not> archived blk ts d #}. st_minedBlock d = None #}
      = {# d \<in># docs N db. st_minedBlock d = None #}"
    unfolding filter_filter_mset by (rule filter_mset_cong) (auto simp: archived_def)
  then show ?thesis
    using d tx_collection.tx_inv_remove [OF assms] by (simp add: removeArchivedTransactions_def)
qed

theorem removeArchived_exact_witness:
  "docs (list_nedb tx_clash) (removeArchivedTransactions (list_nedb tx_clash) 10 90 sample_store)
      = {# d \<in># docs (list_nedb tx_clash) sample_store. \<not> archived 10 90 d #}
    \<and> tx_inv (list_nedb tx_clash) (removeArchivedTransactions (list_nedb tx_clash) 10 90 sample_store)
    \<and> {# d \<in># docs (list_nedb tx_clash) (removeArchivedTransactions (list_nedb tx_clash) 10 90 sample_store).
          st_minedBlock d = None #}
      = {# d \<in># docs (list_nedb tx_clash) sample_store. st_minedBlock d = None #}"
  by (rule removeArchived_exact [OF list_txs.tx_collection_axioms sample_store_inv])

end
