(* ===== verification/Reputation.thy ===== *)
theory Reputation imports GsnUtils Nedb begin

text \<open>
  The reputation of paymasters: \<open>ReputationEntry.ts\<close>, \<open>ReputationStoreManager.ts\<close> (a Nedb collection with
  a unique index on \<open>paymaster\<close>) and \<open>ReputationManager.ts\<close> of \<open>packages/relay/src\<close>. The manager gets its
  store in the constructor: it is written against the operations \<open>rep_store_ops\<close>, the locale
  \<open>reputation_store\<close> states what it relies on, and the store manager is shown to provide it.
  \<open>Date.now()\<close> is an argument \<open>now\<close>.
\<close>

section \<open>The store\<close>

record ReputationChange =
  rc_blockNumber :: int
  rc_change :: int

record ReputationEntry =
  re_paymaster :: string
  re_reputation :: int
  re_lastAcceptedRelayRequestTs :: int
  re_abuseStartedBlock :: int
  re_changes :: "ReputationChange list"

definition rep_clash :: "ReputationEntry \<Rightarrow> ReputationEntry \<Rightarrow> bool" where
  "rep_clash a b \<longleftrightarrow> re_paymaster a = re_paymaster b"

definition null_error :: "string \<Rightarrow> js_error" where
  "null_error field = Error (''Cannot read properties of null (reading '' @ [CHR 0x27] @ field @ [CHR 0x27] @ '')'')"

definition new_entry :: "string \<Rightarrow> int \<Rightarrow> ReputationEntry" where
  "new_entry paymaster reputation =
     \<lparr>re_paymaster = toLowerCase paymaster, re_reputation = reputation, re_lastAcceptedRelayRequestTs = 0,
      re_abuseStartedBlock = 0, re_changes = []\<rparr>"

definition createEntry ::
  "(ReputationEntry, 'db) nedb_ops \<Rightarrow> string \<Rightarrow> int \<Rightarrow> ('db, ReputationEntry) eff" where
  "createEntry N paymaster reputation db =
     (let e = new_entry paymaster reputation
      in case ninsert N e db of Inl err \<Rightarrow> (Inl err, db) | Inr db' \<Rightarrow> (Inr e, db'))"

definition getEntry :: "(ReputationEntry, 'db) nedb_ops \<Rightarrow> string \<Rightarrow> ('db, ReputationEntry option) eff" where
  "getEntry N paymaster db = (Inr (nfindOne N (\<lambda>d. re_paymaster d = toLowerCase paymaster) db), db)"

definition updateEntry ::
  "(ReputationEntry, 'db) nedb_ops \<Rightarrow> string \<Rightarrow> (ReputationEntry \<Rightarrow> ReputationEntry) \<Rightarrow> ('db, unit) eff" where
  "updateEntry N paymaster update db =
     (case nfindOne N (\<lambda>d. re_paymaster d = toLowerCase paymaster) db of
        None \<Rightarrow> (Inl (null_error ''paymaster''), db)
      | Some existing \<Rightarrow>
          (case nupdate N (\<lambda>d. re_paymaster d = re_paymaster existing) (\<lambda>_. update existing) db of
             Inl err \<Rightarrow> (Inl err, db) | Inr db' \<Rightarrow> (Inr (), db')))"

definition clearAbuseFlag :: "(ReputationEntry, 'db) nedb_ops \<Rightarrow> string \<Rightarrow> int \<Rightarrow> ('db, unit) eff" where
  "clearAbuseFlag N paymaster reputation =
     updateEntry N paymaster (\<lambda>e. e\<lparr>re_reputation := reputation, re_abuseStartedBlock := 0\<rparr>)"

definition setAbuseFlag :: "(ReputationEntry, 'db) nedb_ops \<Rightarrow> string \<Rightarrow> int \<Rightarrow> ('db, unit) eff" where
  "setAbuseFlag N paymaster eventBlockNumber =
     updateEntry N paymaster (\<lambda>e. e\<lparr>re_abuseStartedBlock := eventBlockNumber\<rparr>)"

definition updateLastAcceptedTimestamp :: "(ReputationEntry, 'db) nedb_ops \<Rightarrow> int \<Rightarrow> string \<Rightarrow> ('db, unit) eff" where
  "updateLastAcceptedTimestamp N now paymaster =
     updateEntry N paymaster (\<lambda>e. e\<lparr>re_lastAcceptedRelayRequestTs := now\<rparr>)"

definition add_change :: "int \<Rightarrow> int \<Rightarrow> int \<Rightarrow> ReputationEntry \<Rightarrow> ReputationEntry" where
  "add_change change oldChangesExpirationBlock eventBlockNumber e =
     e\<lparr>re_reputation := re_reputation e + change,
       re_changes := filter (\<lambda>it. rc_blockNumber it > oldChangesExpirationBlock)
         (re_changes e @ [\<lparr>rc_blockNumber = eventBlockNumber, rc_change = change\<rparr>])\<rparr>"

definition updatePaymasterReputation ::
  "(ReputationEntry, 'db) nedb_ops \<Rightarrow> string \<Rightarrow> int \<Rightarrow> int \<Rightarrow> int \<Rightarrow> ('db, unit) eff" where
  "updatePaymasterReputation N paymaster change oldChangesExpirationBlock eventBlockNumber db =
     (if eventBlockNumber \<le> oldChangesExpirationBlock then
        (Inl (Error (''Invalid change expiration parameter! Passed '' @ int_to_string oldChangesExpirationBlock
          @ '', but event was emitted at block height '' @ int_to_string eventBlockNumber)), db)
      else
        (case nfindOne N (\<lambda>d. re_paymaster d = toLowerCase paymaster) db of
           None \<Rightarrow> (Inl (null_error ''reputation''), db)
         | Some existing \<Rightarrow>
             updateEntry N paymaster (\<lambda>e. e\<lparr>
               re_reputation := re_reputation (add_change change oldChangesExpirationBlock eventBlockNumber existing),
               re_changes := re_changes (add_change change oldChangesExpirationBlock eventBlockNumber existing)\<rparr>) db))"

definition rep_clearAll :: "(ReputationEntry, 'db) nedb_ops \<Rightarrow> 'db \<Rightarrow> 'db" where
  "rep_clearAll N db = nremove N (\<lambda>_. True) db"

section \<open>The manager\<close>

record 'db rep_store_ops =
  rs_getEntry :: "string \<Rightarrow> ('db, ReputationEntry option) eff"
  rs_createEntry :: "string \<Rightarrow> int \<Rightarrow> ('db, ReputationEntry) eff"
  rs_clearAbuseFlag :: "string \<Rightarrow> int \<Rightarrow> ('db, unit) eff"
  rs_setAbuseFlag :: "string \<Rightarrow> int \<Rightarrow> ('db, unit) eff"
  rs_updateLastAcceptedTimestamp :: "int \<Rightarrow> string \<Rightarrow> ('db, unit) eff"
  rs_updatePaymasterReputation :: "string \<Rightarrow> int \<Rightarrow> int \<Rightarrow> int \<Rightarrow> ('db, unit) eff"

definition reputationStoreManager :: "(ReputationEntry, 'db) nedb_ops \<Rightarrow> 'db rep_store_ops" where
  "reputationStoreManager N =
     \<lparr>rs_getEntry = getEntry N, rs_createEntry = createEntry N, rs_clearAbuseFlag = clearAbuseFlag N,
      rs_setAbuseFlag = setAbuseFlag N, rs_updateLastAcceptedTimestamp = updateLastAcceptedTimestamp N,
      rs_updatePaymasterReputation = updatePaymasterReputation N\<rparr>"

record ReputationManagerConfiguration =
  initialReputation :: int
  maximumReputation :: int
  throttleReputation :: int
  throttleDelayMs :: int
  blockReputation :: int
  abuseReputationChange :: int
  abuseTimeWindowBlocks :: int
  abuseBlacklistDurationBlocks :: int
  abuseTimeoutReputation :: int

definition defaultReputationConfig :: ReputationManagerConfiguration where
  "defaultReputationConfig =
     \<lparr>initialReputation = 6, maximumReputation = 100, throttleReputation = 5, throttleDelayMs = 60000,
      blockReputation = 0, abuseReputationChange = 20, abuseTimeWindowBlocks = 240,
      abuseBlacklistDurationBlocks = 6000, abuseTimeoutReputation = 1\<rparr>"

datatype PaymasterStatus = GOOD | THROTTLED | ABUSED | BLOCKED

definition get_or_create :: "ReputationManagerConfiguration \<Rightarrow> 'db rep_store_ops \<Rightarrow> string \<Rightarrow> ('db, ReputationEntry) eff" where
  "get_or_create config S paymaster =
     bnd (rs_getEntry S paymaster) (\<lambda>o1. case o1 of
       Some e \<Rightarrow> ret e | None \<Rightarrow> rs_createEntry S paymaster (initialReputation config))"

definition getPaymasterStatus ::
  "ReputationManagerConfiguration \<Rightarrow> 'db rep_store_ops \<Rightarrow> int \<Rightarrow> string \<Rightarrow> int \<Rightarrow> ('db, PaymasterStatus) eff" where
  "getPaymasterStatus config S now paymaster currentBlockNumber =
     bnd (get_or_create config S paymaster) (\<lambda>entry.
     if re_reputation entry \<le> blockReputation config then ret BLOCKED
     else
       (let rest = (if re_reputation entry < throttleReputation config
              \<and> now - re_lastAcceptedRelayRequestTs entry \<le> throttleDelayMs config
            then ret THROTTLED else ret GOOD)
        in if re_abuseStartedBlock entry \<noteq> 0 then
             (if currentBlockNumber - re_abuseStartedBlock entry \<le> abuseTimeWindowBlocks config then ret ABUSED
              else bnd (rs_clearAbuseFlag S paymaster (abuseTimeoutReputation config)) (\<lambda>_. rest))
           else rest))"

definition onRelayRequestAccepted :: "'db rep_store_ops \<Rightarrow> int \<Rightarrow> string \<Rightarrow> ('db, unit) eff" where
  "onRelayRequestAccepted S now paymaster = rs_updateLastAcceptedTimestamp S now paymaster"

definition changeInAbuseWindow :: "ReputationManagerConfiguration \<Rightarrow> int \<Rightarrow> ReputationEntry \<Rightarrow> int" where
  "changeInAbuseWindow config eventBlockNumber entry =
     foldl (\<lambda>previousValue currentValue. previousValue + rc_change currentValue) 0
       (filter (\<lambda>it. eventBlockNumber - rc_blockNumber it < abuseTimeWindowBlocks config) (re_changes entry))"

definition updatePaymasterStatus ::
  "ReputationManagerConfiguration \<Rightarrow> 'db rep_store_ops \<Rightarrow> string \<Rightarrow> bool \<Rightarrow> int \<Rightarrow> ('db, unit) eff" where
  "updatePaymasterStatus config S paymaster transactionSuccess eventBlockNumber =
     (let change = (if transactionSuccess then 1 else -1) in
      bnd (get_or_create config S paymaster) (\<lambda>entry.
      if re_reputation entry + change > maximumReputation config then ret ()
      else
        bnd (when_eff (- changeInAbuseWindow config eventBlockNumber entry \<ge> abuseReputationChange config)
               (rs_setAbuseFlag S paymaster eventBlockNumber)) (\<lambda>_.
        rs_updatePaymasterReputation S paymaster change (eventBlockNumber - abuseTimeWindowBlocks config)
          eventBlockNumber)))"


section \<open>What the manager relies on\<close>

locale reputation_store =
  fixes S :: "'db rep_store_ops" and entries :: "'db \<Rightarrow> string \<Rightarrow> ReputationEntry option" and inv :: "'db \<Rightarrow> bool"
  assumes get: "inv db \<Longrightarrow> rs_getEntry S p db = (Inr (entries db (toLowerCase p)), db)"
    and create: "inv db \<Longrightarrow> entries db (toLowerCase p) = None \<Longrightarrow> \<exists>db'. inv db'
      \<and> rs_createEntry S p r db = (Inr (new_entry p r), db')
      \<and> entries db' = (entries db)(toLowerCase p \<mapsto> new_entry p r)"
    and clear_flag: "inv db \<Longrightarrow> entries db (toLowerCase p) = Some e \<Longrightarrow> \<exists>db'. inv db'
      \<and> rs_clearAbuseFlag S p r db = (Inr (), db')
      \<and> entries db' = (entries db)(toLowerCase p \<mapsto> e\<lparr>re_reputation := r, re_abuseStartedBlock := 0\<rparr>)"
    and set_flag: "inv db \<Longrightarrow> entries db (toLowerCase p) = Some e \<Longrightarrow> \<exists>db'. inv db'
      \<and> rs_setAbuseFlag S p b db = (Inr (), db')
      \<and> entries db' = (entries db)(toLowerCase p \<mapsto> e\<lparr>re_abuseStartedBlock := b\<rparr>)"
    and last_accepted: "inv db \<Longrightarrow> entries db (toLowerCase p) = Some e \<Longrightarrow> \<exists>db'. inv db'
      \<and> rs_updateLastAcceptedTimestamp S now p db = (Inr (), db')
      \<and> entries db' = (entries db)(toLowerCase p \<mapsto> e\<lparr>re_lastAcceptedRelayRequestTs := now\<rparr>)"
    and update_rep: "inv db \<Longrightarrow> entries db (toLowerCase p) = Some e \<Longrightarrow> x < b \<Longrightarrow> \<exists>db'. inv db'
      \<and> rs_updatePaymasterReputation S p c x b db = (Inr (), db')
      \<and> entries db' = (entries db)(toLowerCase p \<mapsto> add_change c x b e)"

text \<open>The decisions of the manager as functions on one entry.\<close>

definition entry_or_new :: "ReputationManagerConfiguration \<Rightarrow> ReputationEntry option \<Rightarrow> string \<Rightarrow> ReputationEntry" where
  "entry_or_new config o1 p = (case o1 of Some e \<Rightarrow> e | None \<Rightarrow> new_entry p (initialReputation config))"

definition status_step ::
  "ReputationManagerConfiguration \<Rightarrow> int \<Rightarrow> int \<Rightarrow> ReputationEntry \<Rightarrow> PaymasterStatus \<times> ReputationEntry" where
  "status_step config now cur e =
     (let throttled = (re_reputation e < throttleReputation config
            \<and> now - re_lastAcceptedRelayRequestTs e \<le> throttleDelayMs config)
      in if re_reputation e \<le> blockReputation config then (BLOCKED, e)
         else if re_abuseStartedBlock e = 0 then (if throttled then THROTTLED else GOOD, e)
         else if cur - re_abuseStartedBlock e \<le> abuseTimeWindowBlocks config then (ABUSED, e)
         else (if throttled then THROTTLED else GOOD,
               e\<lparr>re_reputation := abuseTimeoutReputation config, re_abuseStartedBlock := 0\<rparr>))"

definition outcome_step ::
  "ReputationManagerConfiguration \<Rightarrow> bool \<Rightarrow> int \<Rightarrow> ReputationEntry \<Rightarrow> ReputationEntry" where
  "outcome_step config success blk e =
     (let change = (if success then 1 else -1) in
      if re_reputation e + change > maximumReputation config then e
      else
        (let e' = (if - changeInAbuseWindow config blk e \<ge> abuseReputationChange config
           then e\<lparr>re_abuseStartedBlock := blk\<rparr> else e)
         in add_change change (blk - abuseTimeWindowBlocks config) blk e'))"

context reputation_store
begin

lemma get_or_create_spec:
  assumes "inv db"
  obtains db' where "inv db'"
    and "get_or_create config S p db = (Inr (entry_or_new config (entries db (toLowerCase p)) p), db')"
    and "entries db' = (entries db)(toLowerCase p \<mapsto> entry_or_new config (entries db (toLowerCase p)) p)"
proof (cases "entries db (toLowerCase p)")
  case None
  then show thesis using create [OF assms None, of "initialReputation config"] get [OF assms, of p] that
    by (auto simp: get_or_create_def bnd_def entry_or_new_def)
next
  case (Some e)
  then show thesis using that [of db] get [OF assms, of p] assms
    by (simp add: get_or_create_def bnd_def entry_or_new_def fun_upd_idem)
qed

lemma getPaymasterStatus_spec:
  assumes "inv db"
  shows "\<exists>db'. inv db' \<and> getPaymasterStatus config S now p cur db
      = (Inr (fst (status_step config now cur (entry_or_new config (entries db (toLowerCase p)) p))), db')
    \<and> entries db' = (entries db)(toLowerCase p \<mapsto>
        snd (status_step config now cur (entry_or_new config (entries db (toLowerCase p)) p)))"
proof -
  let ?e = "entry_or_new config (entries db (toLowerCase p)) p"
  obtain db1 where 1: "inv db1" "get_or_create config S p db = (Inr ?e, db1)"
    "entries db1 = (entries db)(toLowerCase p \<mapsto> ?e)"
    by (rule get_or_create_spec [OF assms])
  show ?thesis
  proof (cases "re_reputation ?e \<le> blockReputation config \<or> re_abuseStartedBlock ?e = 0
      \<or> cur - re_abuseStartedBlock ?e \<le> abuseTimeWindowBlocks config")
    case True
    then show ?thesis using 1
      by (intro exI [of _ db1]) (auto simp: getPaymasterStatus_def status_step_def bnd_def Let_def)
  next
    case False
    obtain db2 where "inv db2" "rs_clearAbuseFlag S p (abuseTimeoutReputation config) db1 = (Inr (), db2)"
      "entries db2 = (entries db)(toLowerCase p \<mapsto>
        ?e\<lparr>re_reputation := abuseTimeoutReputation config, re_abuseStartedBlock := 0\<rparr>)"
      using clear_flag [OF 1(1), of p ?e "abuseTimeoutReputation config"] 1(3) by auto
    then show ?thesis using 1 False
      by (intro exI [of _ db2]) (auto simp: getPaymasterStatus_def status_step_def bnd_def Let_def)
  qed
qed

lemma updatePaymasterStatus_spec:
  assumes "inv db" and "0 < abuseTimeWindowBlocks config"
  shows "\<exists>db'. inv db' \<and> updatePaymasterStatus config S p success blk db = (Inr (), db')
    \<and> entries db' = (entries db)(toLowerCase p \<mapsto>
        outcome_step config success blk (entry_or_new config (entries db (toLowerCase p)) p))"
proof -
  let ?e = "entry_or_new config (entries db (toLowerCase p)) p"
  let ?c = "if success then 1 else - 1 :: int" and ?x = "blk - abuseTimeWindowBlocks config"
  obtain db1 where 1: "inv db1" "get_or_create config S p db = (Inr ?e, db1)"
    "entries db1 = (entries db)(toLowerCase p \<mapsto> ?e)"
    by (rule get_or_create_spec [OF assms(1)])
  let ?f = "- changeInAbuseWindow config blk ?e \<ge> abuseReputationChange config"
  let ?e2 = "if ?f then ?e\<lparr>re_abuseStartedBlock := blk\<rparr> else ?e"
  obtain db2 where 2: "inv db2" "when_eff ?f (rs_setAbuseFlag S p blk) db1 = (Inr (), db2)"
    "entries db2 = (entries db)(toLowerCase p \<mapsto> ?e2)"
    using set_flag [OF 1(1), of p ?e blk] 1 by (cases ?f) (auto simp: when_eff_def)
  obtain db3 where 3: "inv db3" "rs_updatePaymasterReputation S p ?c ?x blk db2 = (Inr (), db3)"
    "entries db3 = (entries db)(toLowerCase p \<mapsto> add_change ?c ?x blk ?e2)"
    using update_rep [OF 2(1), of p ?e2 ?x blk ?c] 2(3) assms(2) by auto
  show ?thesis
  proof (cases "re_reputation ?e + ?c > maximumReputation config")
    case True
    then show ?thesis using 1
      by (intro exI [of _ db1]) (simp add: updatePaymasterStatus_def outcome_step_def bnd_def Let_def)
  next
    case False
    then show ?thesis using 1 2 3
      by (intro exI [of _ db3]) (simp add: updatePaymasterStatus_def outcome_step_def bnd_def Let_def)
  qed
qed

end

section \<open>The store manager provides it\<close>

definition rep_inv :: "(ReputationEntry, 'db) nedb_ops \<Rightarrow> 'db \<Rightarrow> bool" where
  "rep_inv N db \<longleftrightarrow> no_clashes rep_clash (docs N db)"

lemma rep_clash_sym: "rep_clash d e \<Longrightarrow> rep_clash e d"
  by (simp add: rep_clash_def)

lemma no_rep_clashes:
  "no_clashes rep_clash (add_mset d R) \<longleftrightarrow> no_clashes rep_clash R \<and> (\<forall>e\<in>#R. \<not> rep_clash e d)"
  by (rule no_clashes_add_mset) (rule rep_clash_sym)

locale rep_collection = keyed_nedb N rep_clash re_paymaster
  for N :: "(ReputationEntry, 'db) nedb_ops"
begin

lemma updateEntry_spec:
  assumes inv: "rep_inv N db" and e: "lookup N re_paymaster db (toLowerCase p) = Some e"
    and key: "re_paymaster (u e) = re_paymaster e"
  shows "\<exists>db'. rep_inv N db' \<and> updateEntry N p u db = (Inr (), db')
    \<and> lookup N re_paymaster db' = (lookup N re_paymaster db)(toLowerCase p \<mapsto> u e)"
proof -
  have nc: "no_clashes rep_clash (docs N db)" using inv by (simp add: rep_inv_def)
  have en: "e \<in># docs N db" "re_paymaster e = toLowerCase p" using e lookup_Some [OF nc] by auto
  then obtain R where R: "docs N db = add_mset e R" "\<forall>d\<in>#R. \<not> rep_clash d e"
    using no_clashes_split [OF nc] by metis
  then obtain db' where u: "nupdate N (\<lambda>d. re_paymaster d = re_paymaster e) (\<lambda>_. u e) db = Inr db'"
    and d: "docs N db' = add_mset (u e) R"
    using update_ok [OF R(1), of "\<lambda>d. re_paymaster d = re_paymaster e" "\<lambda>_. u e"] key by (auto simp: rep_clash_def)
  have nc': "no_clashes rep_clash (docs N db')"
    using nc R key by (simp add: d no_rep_clashes) (simp add: rep_clash_def)
  have "lookup N re_paymaster db' = (lookup N re_paymaster db)(re_paymaster (u e) \<mapsto> u e)"
    by (rule lookup_upd [OF nc nc' d]) (use R key in simp)
  then show ?thesis
    using u nc' e en(2) key by (intro exI [of _ db']) (simp add: updateEntry_def rep_inv_def lookup_def)
qed

end

sublocale rep_collection \<subseteq> reputation_store "reputationStoreManager N" "lookup N re_paymaster" "rep_inv N"
proof
  fix db p r assume inv: "rep_inv N db" and none: "lookup N re_paymaster db (toLowerCase p) = None"
  have nc: "no_clashes rep_clash (docs N db)" using inv by (simp add: rep_inv_def)
  have "\<forall>e\<in>#docs N db. \<not> rep_clash e (new_entry p r)"
    using none unfolding lookup_None by (simp add: rep_clash_def new_entry_def)
  then obtain db' where i: "ninsert N (new_entry p r) db = Inr db'" using insert_ok by blast
  note d = no_clashes_insert [OF nc i]
  have "lookup N re_paymaster db' = (lookup N re_paymaster db)(re_paymaster (new_entry p r) \<mapsto> new_entry p r)"
    by (rule lookup_upd [OF nc d(1) d(2)]) simp
  then show "\<exists>db'. rep_inv N db' \<and> rs_createEntry (reputationStoreManager N) p r db = (Inr (new_entry p r), db')
      \<and> lookup N re_paymaster db' = (lookup N re_paymaster db)(toLowerCase p \<mapsto> new_entry p r)"
    using i d(1) by (intro exI [of _ db']) (simp add: reputationStoreManager_def createEntry_def rep_inv_def new_entry_def Let_def)
next
  fix db p e c x b assume "rep_inv N db" and e: "lookup N re_paymaster db (toLowerCase p) = Some e" and "x < (b :: int)"
  then show "\<exists>db'. rep_inv N db' \<and> rs_updatePaymasterReputation (reputationStoreManager N) p c x b db = (Inr (), db')
      \<and> lookup N re_paymaster db' = (lookup N re_paymaster db)(toLowerCase p \<mapsto> add_change c x b e)"
    using updateEntry_spec [of db p e "\<lambda>d. d\<lparr>re_reputation := re_reputation (add_change c x b e),
      re_changes := re_changes (add_change c x b e)\<rparr>"] e
    by (simp add: reputationStoreManager_def updatePaymasterReputation_def lookup_def add_change_def)
qed (auto simp: reputationStoreManager_def getEntry_def clearAbuseFlag_def setAbuseFlag_def
    updateLastAcceptedTimestamp_def lookup_def [symmetric] intro!: updateEntry_spec)

interpretation list_reps: rep_collection "list_nedb rep_clash"
  unfolding rep_collection_def keyed_nedb_def keyed_nedb_axioms_def
  by (auto intro: list_nedb_laws simp: rep_clash_def)


section \<open>Sequences of requests and outcomes\<close>

datatype rep_event =
    StatusQuery int int string
  | Accepted int string
  | Outcome string bool int

fun rep_handle :: "ReputationManagerConfiguration \<Rightarrow> 'db rep_store_ops \<Rightarrow> rep_event \<Rightarrow> 'db \<Rightarrow> 'db" where
  "rep_handle config S (StatusQuery now cur p) db = snd (getPaymasterStatus config S now p cur db)"
| "rep_handle config S (Accepted now p) db = snd (onRelayRequestAccepted S now p db)"
| "rep_handle config S (Outcome p success blk) db = snd (updatePaymasterStatus config S p success blk db)"

definition rep_run :: "ReputationManagerConfiguration \<Rightarrow> 'db rep_store_ops \<Rightarrow> rep_event list \<Rightarrow> 'db \<Rightarrow> 'db" where
  "rep_run config S events db = foldl (\<lambda>db e. rep_handle config S e db) db events"

text \<open>What every entry satisfies: the cap, and changes of one point each.\<close>

definition entry_ok :: "ReputationManagerConfiguration \<Rightarrow> ReputationEntry \<Rightarrow> bool" where
  "entry_ok config e \<longleftrightarrow> re_reputation e \<le> maximumReputation config
     \<and> list_all (\<lambda>c. \<bar>rc_change c\<bar> = 1) (re_changes e)"

definition config_ok :: "ReputationManagerConfiguration \<Rightarrow> bool" where
  "config_ok config \<longleftrightarrow> initialReputation config \<le> maximumReputation config
     \<and> abuseTimeoutReputation config \<le> maximumReputation config \<and> 0 < abuseTimeWindowBlocks config"

definition all_ok ::
  "('db \<Rightarrow> bool) \<Rightarrow> ('db \<Rightarrow> string \<Rightarrow> ReputationEntry option) \<Rightarrow> ReputationManagerConfiguration \<Rightarrow> 'db \<Rightarrow> bool" where
  "all_ok good entries config db \<longleftrightarrow> good db \<and> (\<forall>k e. entries db k = Some e \<longrightarrow> entry_ok config e)"

lemma entry_ok_new: "config_ok config \<Longrightarrow> (\<And>e. o1 = Some e \<Longrightarrow> entry_ok config e) \<Longrightarrow> entry_ok config (entry_or_new config o1 p)"
  by (auto simp: entry_or_new_def new_entry_def entry_ok_def config_ok_def split: option.splits)

lemma entry_ok_status: "config_ok config \<Longrightarrow> entry_ok config e \<Longrightarrow> entry_ok config (snd (status_step config now cur e))"
  by (simp add: status_step_def Let_def entry_ok_def config_ok_def)

lemma entry_ok_outcome: "entry_ok config e \<Longrightarrow> entry_ok config (outcome_step config success blk e)"
  by (auto simp: outcome_step_def Let_def entry_ok_def add_change_def list_all_iff)

context reputation_store
begin

lemma onRelayRequestAccepted_spec:
  assumes "inv db" and "entries db (toLowerCase p) = Some e"
  shows "\<exists>db'. inv db' \<and> onRelayRequestAccepted S now p db = (Inr (), db')
    \<and> entries db' = (entries db)(toLowerCase p \<mapsto> e\<lparr>re_lastAcceptedRelayRequestTs := now\<rparr>)"
  using last_accepted [OF assms] by (simp add: onRelayRequestAccepted_def)

lemma handle_ok:
  assumes "config_ok config" and ok: "all_ok inv entries config db"
    and missing: "\<And>now p. ev = Accepted now p \<Longrightarrow> entries db (toLowerCase p) \<noteq> None"
  shows "all_ok inv entries config (rep_handle config S ev db)"
proof (cases ev)
  case (StatusQuery now cur p)
  have "inv db" using ok by (simp add: all_ok_def)
  with StatusQuery show ?thesis using getPaymasterStatus_spec [of db config now p cur] ok assms(1)
    by (auto simp: all_ok_def intro!: entry_ok_status entry_ok_new split: if_splits)
next
  case (Outcome p success blk)
  have "inv db" "0 < abuseTimeWindowBlocks config" using ok assms(1) by (auto simp: all_ok_def config_ok_def)
  with Outcome show ?thesis using updatePaymasterStatus_spec [of db config p success blk] ok assms(1)
    by (auto simp: all_ok_def intro!: entry_ok_outcome entry_ok_new split: if_splits)
next
  case (Accepted now p)
  obtain e where e: "entries db (toLowerCase p) = Some e" using missing [OF Accepted] by auto
  have "inv db" using ok by (simp add: all_ok_def)
  with Accepted e show ?thesis using onRelayRequestAccepted_spec [of db p e now] ok
    by (auto simp: all_ok_def entry_ok_def split: if_splits)
qed

end

context rep_collection
begin

lemma provides: "reputation_store (reputationStoreManager N) (lookup N re_paymaster) (rep_inv N)"
  by unfold_locales

lemma accepted_missing:
  "lookup N re_paymaster db (toLowerCase p) = None \<Longrightarrow>
   rep_handle config (reputationStoreManager N) (Accepted now p) db = db"
  by (simp add: onRelayRequestAccepted_def reputationStoreManager_def updateLastAcceptedTimestamp_def
      updateEntry_def lookup_def)

lemma run_ok:
  assumes "config_ok config"
  shows "all_ok (rep_inv N) (lookup N re_paymaster) config db \<Longrightarrow> all_ok (rep_inv N) (lookup N re_paymaster) config (rep_run config (reputationStoreManager N) events db)"
proof (induction events arbitrary: db)
  case (Cons ev events)
  have "all_ok (rep_inv N) (lookup N re_paymaster) config (rep_handle config (reputationStoreManager N) ev db)"
  proof (cases "\<exists>now p. ev = Accepted now p \<and> lookup N re_paymaster db (toLowerCase p) = None")
    case True
    then show ?thesis using accepted_missing Cons.prems by auto
  next
    case False
    then show ?thesis using handle_ok [OF assms Cons.prems] by auto
  qed
  then show ?case using Cons.IH by (simp add: rep_run_def)
qed (simp add: rep_run_def)

end

section \<open>Properties of the reputation system\<close>

text \<open>
  \<open>getPaymasterStatus\<close> never fails; on the entry of the paymaster in any letter case (created with the
  initial reputation if there is none) it decides as \<open>status_step\<close> does: blocked first, then abused, then
  throttled, else good; it resets an expired abuse flag and touches no other entry.
\<close>

theorem getPaymasterStatus_decides:
  assumes "rep_collection N" and "rep_inv N db"
  shows "\<exists>db'. rep_inv N db'
    \<and> getPaymasterStatus config (reputationStoreManager N) now p cur db
      = (Inr (fst (status_step config now cur (entry_or_new config (lookup N re_paymaster db (toLowerCase p)) p))), db')
    \<and> lookup N re_paymaster db' = (lookup N re_paymaster db)(toLowerCase p \<mapsto>
        snd (status_step config now cur (entry_or_new config (lookup N re_paymaster db (toLowerCase p)) p)))"
  by (rule reputation_store.getPaymasterStatus_spec [OF rep_collection.provides [OF assms(1)] assms(2)])

definition sample_rep_entry :: "int \<Rightarrow> int \<Rightarrow> ReputationEntry" where
  "sample_rep_entry rep started =
     \<lparr>re_paymaster = ''0xa'', re_reputation = rep, re_lastAcceptedRelayRequestTs = 10, re_abuseStartedBlock = started,
      re_changes = [\<lparr>rc_blockNumber = 900, rc_change = -1\<rparr>]\<rparr>"

definition sample_rep_config :: ReputationManagerConfiguration where
  "sample_rep_config = defaultReputationConfig\<lparr>abuseReputationChange := 1\<rparr>"

lemma sample_rep_inv: "rep_inv (list_nedb rep_clash) [sample_rep_entry r b]"
  by (simp add: rep_inv_def no_rep_clashes no_clashes_def [of _ "{#}"])

theorem getPaymasterStatus_decides_witness:
  "\<exists>db'. rep_inv (list_nedb rep_clash) db'
    \<and> getPaymasterStatus defaultReputationConfig (reputationStoreManager (list_nedb rep_clash)) 50 ''0xA'' 1000
        [sample_rep_entry 7 900]
      = (Inr (fst (status_step defaultReputationConfig 50 1000 (entry_or_new defaultReputationConfig
          (lookup (list_nedb rep_clash) re_paymaster [sample_rep_entry 7 900] (toLowerCase ''0xA'')) ''0xA''))), db')
    \<and> lookup (list_nedb rep_clash) re_paymaster db'
      = (lookup (list_nedb rep_clash) re_paymaster [sample_rep_entry 7 900])(toLowerCase ''0xA'' \<mapsto>
        snd (status_step defaultReputationConfig 50 1000 (entry_or_new defaultReputationConfig
          (lookup (list_nedb rep_clash) re_paymaster [sample_rep_entry 7 900] (toLowerCase ''0xA'')) ''0xA'')))"
  by (rule getPaymasterStatus_decides [OF list_reps.rep_collection_axioms sample_rep_inv])

text \<open>
  C26: along every sequence of status queries, accepted requests and transaction outcomes, no paymaster's
  reputation exceeds the configured maximum and every recorded change is one point.
\<close>

theorem reputation_capped:
  assumes "rep_collection N" and "config_ok config"
    and "all_ok (rep_inv N) (lookup N re_paymaster) config db"
  shows "all_ok (rep_inv N) (lookup N re_paymaster) config (rep_run config (reputationStoreManager N) events db)"
  using rep_collection.run_ok [OF assms(1,2)] assms(3) by blast

theorem reputation_capped_witness:
  "all_ok (rep_inv (list_nedb rep_clash)) (lookup (list_nedb rep_clash) re_paymaster) defaultReputationConfig
    (rep_run defaultReputationConfig (reputationStoreManager (list_nedb rep_clash))
      [Outcome ''0xA'' True 1000, StatusQuery 5 1001 ''0xB'', Accepted 6 ''0xa''] [sample_rep_entry 100 0])"
  by (rule reputation_capped [OF list_reps.rep_collection_axioms])
    (auto simp: config_ok_def defaultReputationConfig_def all_ok_def sample_rep_inv entry_ok_def
      lookup_def, auto simp: sample_rep_entry_def split: if_splits)

text \<open>
  abuse is detected and lasts for \<open>abuseTimeWindowBlocks\<close>: after an outcome at block \<open>blk\<close> of a paymaster
  that lost \<open>abuseReputationChange\<close> points in the window before, and that is not blocked, its status is
  \<open>ABUSED\<close> at exactly the blocks \<open>cur\<close> with \<open>cur - blk <= abuseTimeWindowBlocks\<close>. The setting
  \<open>abuseBlacklistDurationBlocks\<close>, for which the configuration says the paymaster is blocked, plays no part.
\<close>

theorem abuse_lasts_window:
  assumes "- changeInAbuseWindow config blk e \<ge> abuseReputationChange config" and "blk \<noteq> 0"
    and "re_reputation e + (if success then 1 else -1) \<le> maximumReputation config"
    and "re_reputation e + (if success then 1 else -1) > blockReputation config"
  shows "fst (status_step (config\<lparr>abuseBlacklistDurationBlocks := d\<rparr>) now cur (outcome_step config success blk e)) = ABUSED
    \<longleftrightarrow> cur - blk \<le> abuseTimeWindowBlocks config"
  using assms by (simp add: status_step_def outcome_step_def add_change_def Let_def split: if_splits)

theorem abuse_lasts_window_witness:
  "fst (status_step (sample_rep_config\<lparr>abuseBlacklistDurationBlocks := 6000\<rparr>) 50 1241
      (outcome_step sample_rep_config False 1000 (sample_rep_entry 30 0))) = ABUSED
    \<longleftrightarrow> 1241 - 1000 \<le> abuseTimeWindowBlocks sample_rep_config"
  by (rule abuse_lasts_window)
    (simp_all add: sample_rep_config_def sample_rep_entry_def changeInAbuseWindow_def defaultReputationConfig_def)

text \<open>
  \<open>updatePaymasterStatus\<close> never fails for a positive window: it applies \<open>outcome_step\<close> to the entry of
  the paymaster (created if there is none) and touches no other entry.
\<close>

theorem updatePaymasterStatus_refines:
  assumes "rep_collection N" and "rep_inv N db" and "0 < abuseTimeWindowBlocks config"
  shows "\<exists>db'. rep_inv N db'
    \<and> updatePaymasterStatus config (reputationStoreManager N) p success blk db = (Inr (), db')
    \<and> lookup N re_paymaster db' = (lookup N re_paymaster db)(toLowerCase p \<mapsto>
        outcome_step config success blk (entry_or_new config (lookup N re_paymaster db (toLowerCase p)) p))"
  by (rule reputation_store.updatePaymasterStatus_spec [OF rep_collection.provides [OF assms(1)] assms(2,3)])

theorem updatePaymasterStatus_refines_witness:
  "\<exists>db'. rep_inv (list_nedb rep_clash) db'
    \<and> updatePaymasterStatus sample_rep_config (reputationStoreManager (list_nedb rep_clash)) ''0xA'' False 1000
        [sample_rep_entry 30 0] = (Inr (), db')
    \<and> lookup (list_nedb rep_clash) re_paymaster db'
      = (lookup (list_nedb rep_clash) re_paymaster [sample_rep_entry 30 0])(toLowerCase ''0xA'' \<mapsto>
        outcome_step sample_rep_config False 1000 (entry_or_new sample_rep_config
          (lookup (list_nedb rep_clash) re_paymaster [sample_rep_entry 30 0] (toLowerCase ''0xA'')) ''0xA''))"
  by (rule updatePaymasterStatus_refines [OF list_reps.rep_collection_axioms sample_rep_inv])
    (simp add: sample_rep_config_def defaultReputationConfig_def)

end
