(* ===== verification/DataTypes.thy ===== *)
theory DataTypes imports GsnUtils begin

text \<open>
  The data of the protocol: relay requests and their metadata, the EIP-712 types they are signed with, ping
  responses, relay infos, the environments of the supported networks (\<open>packages/common/src\<close>:
  \<open>EIP712/*.ts\<close>, \<open>types/*.ts\<close>, \<open>PingResponse.ts\<close>, \<open>Environments.ts\<close>, \<open>Constants.ts\<close>). Addresses, hex
  data and integer strings are strings, as in the code.
\<close>

section \<open>Relay requests\<close>

record RelayData =
  rd_maxFeePerGas :: string
  rd_maxPriorityFeePerGas :: string
  rd_transactionCalldataGasUsed :: string
  rd_relayWorker :: string
  rd_paymaster :: string
  rd_paymasterData :: string
  rd_clientId :: string
  rd_forwarder :: string

record ForwardRequest =
  fr_from :: string
  fr_to :: string
  fr_data :: string
  fr_value :: string
  fr_nonce :: string
  fr_gas :: string
  fr_validUntilTime :: string

record RelayRequest =
  rr_request :: ForwardRequest
  rr_relayData :: RelayData

definition cloneRelayRequest :: "RelayRequest \<Rightarrow> RelayRequest" where
  "cloneRelayRequest relayRequest =
     \<lparr>rr_request = rr_request relayRequest, rr_relayData = rr_relayData relayRequest\<rparr>"

record RelayMetadata =
  rm_approvalData :: string
  rm_relayHubAddress :: string
  rm_relayLastKnownNonce :: int
  rm_relayMaxNonce :: int
  rm_signature :: string
  rm_maxAcceptanceBudget :: string
  rm_domainSeparatorName :: string

record RelayTransactionRequest =
  rtr_relayRequest :: RelayRequest
  rtr_metadata :: RelayMetadata

record RelayCallABI =
  abi_domainSeparatorName :: string
  abi_signature :: string
  abi_relayRequest :: RelayRequest
  abi_approvalData :: string
  abi_maxAcceptanceBudget :: string

definition asRelayCallAbi :: "RelayTransactionRequest \<Rightarrow> RelayCallABI" where
  "asRelayCallAbi r =
     \<lparr>abi_domainSeparatorName = rm_domainSeparatorName (rtr_metadata r),
      abi_signature = rm_signature (rtr_metadata r),
      abi_relayRequest = rtr_relayRequest r,
      abi_approvalData = rm_approvalData (rtr_metadata r),
      abi_maxAcceptanceBudget = rm_maxAcceptanceBudget (rtr_metadata r)\<rparr>"

record AuditResponse =
  au_commitTxHash :: "string option"
  au_message :: "string option"

record PingResponse =
  pr_relayWorkerAddress :: string
  pr_relayManagerAddress :: string
  pr_relayHubAddress :: string
  pr_ownerAddress :: string
  pr_maxMaxFeePerGas :: string
  pr_minMaxFeePerGas :: string
  pr_minMaxPriorityFeePerGas :: string
  pr_maxAcceptanceBudget :: string
  pr_networkId :: "string option"
  pr_chainId :: "string option"
  pr_ready :: bool
  pr_version :: string

record RegistrarRelayInfo =
  ri_lastSeenBlockNumber :: int
  ri_lastSeenTimestamp :: int
  ri_firstSeenBlockNumber :: int
  ri_firstSeenTimestamp :: int
  ri_relayUrl :: string
  ri_relayManager :: string

text \<open>\<open>PartialRelayInfo\<close> and \<open>RelayInfo\<close>: what is known of a relay and the answer it gave to a ping.\<close>

record RelayInfo =
  relayInfo :: RegistrarRelayInfo
  pingResponse :: PingResponse

record GsnTransactionDetails =
  td_from :: string
  td_data :: string
  td_to :: string
  td_value :: "string option"
  td_gas :: "string option"
  td_maxFeePerGas :: string
  td_maxPriorityFeePerGas :: string
  td_paymasterData :: "string option"
  td_clientId :: "string option"
  td_useGSN :: "bool option"

record StakeInfo =
  si_stake :: int
  si_unstakeDelay :: int
  si_withdrawTime :: int
  si_owner :: string
  si_token :: string

datatype TransactionType = LEGACY | TYPE_TWO

section \<open>The types requests are signed with\<close>

record MessageTypeProperty =
  mt_name :: string
  mt_type :: string

definition mtp :: "string \<Rightarrow> string \<Rightarrow> MessageTypeProperty" where
  "mtp n t = \<lparr>mt_name = n, mt_type = t\<rparr>"

definition EIP712DomainType :: "MessageTypeProperty list" where
  "EIP712DomainType =
     [mtp ''name'' ''string'', mtp ''version'' ''string'', mtp ''chainId'' ''uint256'',
      mtp ''verifyingContract'' ''address'']"

definition RelayDataType :: "MessageTypeProperty list" where
  "RelayDataType =
     [mtp ''maxFeePerGas'' ''uint256'', mtp ''maxPriorityFeePerGas'' ''uint256'',
      mtp ''transactionCalldataGasUsed'' ''uint256'', mtp ''relayWorker'' ''address'',
      mtp ''paymaster'' ''address'', mtp ''forwarder'' ''address'', mtp ''paymasterData'' ''bytes'',
      mtp ''clientId'' ''uint256'']"

definition ForwardRequestType :: "MessageTypeProperty list" where
  "ForwardRequestType =
     [mtp ''from'' ''address'', mtp ''to'' ''address'', mtp ''value'' ''uint256'', mtp ''gas'' ''uint256'',
      mtp ''nonce'' ''uint256'', mtp ''data'' ''bytes'', mtp ''validUntilTime'' ''uint256'']"

definition RelayRequestType :: "MessageTypeProperty list" where
  "RelayRequestType = ForwardRequestType @ [mtp ''relayData'' ''RelayData'']"

record EIP712Domain =
  dom_name :: string
  dom_version :: string
  dom_chainId :: int
  dom_verifyingContract :: string

definition getDomainSeparator :: "string \<Rightarrow> string \<Rightarrow> int \<Rightarrow> EIP712Domain" where
  "getDomainSeparator name verifier chainId =
     \<lparr>dom_name = name, dom_version = ''3'', dom_chainId = chainId, dom_verifyingContract = verifier\<rparr>"

record TypedRequestData =
  trd_types :: "(string \<times> MessageTypeProperty list) list"
  trd_domain :: EIP712Domain
  trd_primaryType :: string
  trd_message :: "ForwardRequest \<times> RelayData"

definition newTypedRequestData :: "string \<Rightarrow> int \<Rightarrow> string \<Rightarrow> RelayRequest \<Rightarrow> TypedRequestData" where
  "newTypedRequestData name chainId verifier relayRequest =
     \<lparr>trd_types = [(''EIP712Domain'', EIP712DomainType), (''RelayRequest'', RelayRequestType),
        (''RelayData'', RelayDataType)],
      trd_domain = getDomainSeparator name verifier chainId,
      trd_primaryType = ''RelayRequest'',
      trd_message = (rr_request relayRequest, rr_relayData relayRequest)\<rparr>"

definition GsnRequestType_typeSuffix :: string where
  "GsnRequestType_typeSuffix =
     ''RelayData relayData)RelayData(uint256 maxFeePerGas,uint256 maxPriorityFeePerGas,uint256 transactionCalldataGasUsed,address relayWorker,address paymaster,address forwarder,bytes paymasterData,uint256 clientId)''"

text \<open>The EIP-712 encoding of a type: its name and, in parentheses, its members separated by commas.\<close>

fun encode_members :: "MessageTypeProperty list \<Rightarrow> string" where
  "encode_members [] = []"
| "encode_members [p] = mt_type p @ '' '' @ mt_name p"
| "encode_members (p # q # ps) = mt_type p @ '' '' @ mt_name p @ '','' @ encode_members (q # ps)"

definition encode_type :: "string \<Rightarrow> MessageTypeProperty list \<Rightarrow> string" where
  "encode_type name ps = name @ ''('' @ encode_members ps @ '')''"

text \<open>
  the request type the forwarder is given (the type name, the members of the forward request and
  \<open>GsnRequestType.typeSuffix\<close>) is the EIP-712 type the client signs: the encoding of \<open>RelayRequest\<close> with
  all its members followed by the encoding of \<open>RelayData\<close>.
\<close>

theorem request_type_agrees:
  "encode_type ''RelayRequest'' RelayRequestType @ encode_type ''RelayData'' RelayDataType
   = ''RelayRequest('' @ encode_members ForwardRequestType @ '','' @ GsnRequestType_typeSuffix"
  by (simp add: encode_type_def RelayRequestType_def ForwardRequestType_def RelayDataType_def mtp_def
      GsnRequestType_typeSuffix_def)

section \<open>Environments\<close>

record RelayHubConfiguration =
  hc_maxWorkerCount :: int
  hc_gasReserve :: int
  hc_postOverhead :: int
  hc_gasOverhead :: int
  hc_minimumUnstakeDelay :: int
  hc_devAddress :: string
  hc_devFee :: int
  hc_baseRelayFee :: int
  hc_pctRelayFee :: int

record PaymasterConfiguration =
  pc_forwarderHubOverhead :: int
  pc_preRelayedCallGasLimit :: int
  pc_postRelayedCallGasLimit :: int
  pc_acceptanceBudget :: int
  pc_calldataSizeLimit :: int

record PenalizerConfiguration =
  zc_penalizeBlockDelay :: int
  zc_penalizeBlockExpiration :: int

record Environment =
  env_chainId :: int
  env_mintxgascost :: int
  env_relayHubConfiguration :: RelayHubConfiguration
  env_penalizerConfiguration :: PenalizerConfiguration
  env_paymasterConfiguration :: PaymasterConfiguration
  env_maxUnstakeDelay :: int
  env_abandonmentDelay :: int
  env_escheatmentDelay :: int
  env_gtxdatanonzero :: int
  env_gtxdatazero :: int
  env_dataOnChainHandlingGasCostPerByte :: int
  env_getGasPriceFactor :: rat
  env_nonZeroDevFeeGasOverhead :: int

definition defaultPenalizerConfiguration :: PenalizerConfiguration where
  "defaultPenalizerConfiguration = \<lparr>zc_penalizeBlockDelay = 5, zc_penalizeBlockExpiration = 60000\<rparr>"

definition defaultRelayHubConfiguration :: RelayHubConfiguration where
  "defaultRelayHubConfiguration =
     \<lparr>hc_maxWorkerCount = 10, hc_gasReserve = 100000, hc_postOverhead = 17516, hc_gasOverhead = 55909,
      hc_minimumUnstakeDelay = 15000, hc_devAddress = ''0xeFEfeFEfeFeFEFEFEfefeFeFefEfEfEfeFEFEFEf'',
      hc_devFee = 0, hc_baseRelayFee = 0, hc_pctRelayFee = 0\<rparr>"

definition preRelayedCallGasLimit :: int where
  "preRelayedCallGasLimit = 100000"

definition forwarderHubOverhead :: int where
  "forwarderHubOverhead = 50000"

definition defaultPaymasterConfiguration :: PaymasterConfiguration where
  "defaultPaymasterConfiguration =
     \<lparr>pc_forwarderHubOverhead = forwarderHubOverhead, pc_preRelayedCallGasLimit = preRelayedCallGasLimit,
      pc_postRelayedCallGasLimit = 110000, pc_acceptanceBudget = preRelayedCallGasLimit + forwarderHubOverhead,
      pc_calldataSizeLimit = 10404\<rparr>"

definition ethereumMainnet :: Environment where
  "ethereumMainnet =
     \<lparr>env_chainId = 1, env_mintxgascost = 21000, env_relayHubConfiguration = defaultRelayHubConfiguration,
      env_penalizerConfiguration = defaultPenalizerConfiguration,
      env_paymasterConfiguration = defaultPaymasterConfiguration, env_maxUnstakeDelay = 100000000,
      env_abandonmentDelay = 31536000, env_escheatmentDelay = 2629746, env_gtxdatanonzero = 16,
      env_gtxdatazero = 4, env_dataOnChainHandlingGasCostPerByte = 13, env_getGasPriceFactor = 1,
      env_nonZeroDevFeeGasOverhead = 5605\<rparr>"

definition ganacheLocal :: Environment where
  "ganacheLocal =
     \<lparr>env_chainId = 1337, env_mintxgascost = 21000, env_relayHubConfiguration = defaultRelayHubConfiguration,
      env_penalizerConfiguration = defaultPenalizerConfiguration,
      env_paymasterConfiguration = defaultPaymasterConfiguration, env_maxUnstakeDelay = 100000000,
      env_abandonmentDelay = 1000, env_escheatmentDelay = 500, env_gtxdatanonzero = 16,
      env_gtxdatazero = 4, env_dataOnChainHandlingGasCostPerByte = 13, env_getGasPriceFactor = 1,
      env_nonZeroDevFeeGasOverhead = 5605\<rparr>"

definition arbitrumRelayHubConfiguration :: RelayHubConfiguration where
  "arbitrumRelayHubConfiguration =
     defaultRelayHubConfiguration\<lparr>hc_gasOverhead := 1000000, hc_postOverhead := 0\<rparr>"

definition arbitrum :: Environment where
  "arbitrum =
     \<lparr>env_chainId = 421611, env_mintxgascost = 700000, env_relayHubConfiguration = arbitrumRelayHubConfiguration,
      env_penalizerConfiguration = defaultPenalizerConfiguration,
      env_paymasterConfiguration = defaultPaymasterConfiguration, env_maxUnstakeDelay = 100000000,
      env_abandonmentDelay = 31536000, env_escheatmentDelay = 2629746, env_gtxdatanonzero = 2024,
      env_gtxdatazero = 506, env_dataOnChainHandlingGasCostPerByte = 13, env_getGasPriceFactor = 3 / 5,
      env_nonZeroDevFeeGasOverhead = 5605\<rparr>"

definition environments :: "(string \<times> Environment) list" where
  "environments = [(''ethereumMainnet'', ethereumMainnet), (''ganacheLocal'', ganacheLocal), (''arbitrum'', arbitrum)]"

definition getEnvironment :: "int \<Rightarrow> (string \<times> Environment) option" where
  "getEnvironment chainId = find (\<lambda>(name, e). env_chainId e = chainId) environments"

definition ZERO_ADDRESS :: string where
  "ZERO_ADDRESS = ''0x'' @ replicate 40 CHR ''0''"

definition BURN_ADDRESS :: string where
  "BURN_ADDRESS = ''0xFFfFfFffFFfffFFfFFfFFFFFffFFFffffFfFFFfF''"

definition DRY_RUN_ADDRESS :: string where
  "DRY_RUN_ADDRESS = ''0x'' @ replicate 40 CHR ''0''"

definition DRY_RUN_KEY :: string where
  "DRY_RUN_KEY = ''DRY-RUN''"

definition RelayedCallFailed :: int where
  "RelayedCallFailed = 1"

end
