(* ===== verification/Interactor.thy ===== *)
theory Interactor imports DataTypes TxStore begin

text \<open>
  \<open>packages/common/src/ContractInteractor.ts\<close>: the access of servers and clients to the chain. The Ethereum
  node, reached through web3, and the contracts, reached through Truffle, are the record \<open>chain\<close> of
  effects on a world of any type; their numeric answers are ints. The state \<open>ci_state\<close> has the world and
  the fields of the class that change; the records of the other components extend it, so that an operation
  of this theory runs unchanged inside the server and the client.
\<close>

section \<open>The node and the contracts\<close>

datatype BlockNumber = Block int | Tag string

datatype topic = Topic string | AnyOf "string list" | AnyTopic

record node_tx =
  ntx_blockNumber :: "int option"

record fee_history =
  fh_baseFeePerGas :: "int list"
  fh_reward :: "int list list"

record TransactionConfig =
  tc_from :: string
  tc_to :: string
  tc_data :: string
  tc_value :: "string option"
  tc_maxFeePerGas :: "string option"
  tc_maxPriorityFeePerGas :: "string option"

text \<open>The parts of an error and of a JSON-RPC response that the code looks at.\<close>

datatype err_data = NoData | DataString string | DataObject "string option"

record rpc_error =
  rpe_message :: "string option"
  rpe_data :: err_data

record rpc_response =
  rpr_error :: "rpc_error option"
  rpr_result :: "string option"

record gas_fees =
  gf_gasPrice :: "string option"
  gf_maxFeePerGas :: "string option"
  gf_maxPriorityFeePerGas :: "string option"

record rpc_payload =
  rp_from :: "string option"
  rp_to :: string
  rp_gas :: "int option"
  rp_data :: string
  rp_fees :: gas_fees

record registrar_entry =
  re_info :: RegistrarRelayInfo
  re_urlParts :: "string list"

record GasAndDataLimits =
  gl_acceptanceBudget :: int
  gl_preRelayedCallGasLimit :: int
  gl_postRelayedCallGasLimit :: int
  gl_calldataSizeLimit :: int

record 'w node =
  ch_getBalance :: "string \<Rightarrow> string \<Rightarrow> ('w, int) eff"
  ch_getBlockNumber :: "('w, int) eff"
  ch_getTransactionCount :: "string \<Rightarrow> string \<Rightarrow> ('w, int) eff"
  ch_getTransaction :: "string \<Rightarrow> ('w, node_tx option) eff"
  ch_getBlock :: "int \<Rightarrow> ('w, ShortBlockInfo) eff"
  ch_latestBlock :: "('w, int \<times> int option) eff"
  ch_estimateGas :: "TransactionConfig \<Rightarrow> ('w, int) eff"
  ch_getGasPrice :: "('w, int option) eff"
  ch_getFeeHistory :: "int \<Rightarrow> string \<Rightarrow> rat \<Rightarrow> ('w, fee_history) eff"
  ch_getCode :: "string \<Rightarrow> ('w, string) eff"
  ch_getChainId :: "('w, int) eff"
  ch_getNetworkId :: "('w, int) eff"
  ch_ethCall :: "rpc_payload \<Rightarrow> ('w, rpc_error option \<times> rpc_response option) eff"
  ch_sendRawTransaction :: "string \<Rightarrow> ('w, rpc_error option \<times> rpc_response) eff"
  ch_getPastEvents :: "string \<Rightarrow> string list \<Rightarrow> topic list \<Rightarrow> BlockNumber \<Rightarrow> BlockNumber \<Rightarrow> ('w, event_data list) eff"

record 'w hub_contracts = "'w node" +
  ch_isAddress :: "string \<Rightarrow> bool"
  ch_contractAt :: "string \<Rightarrow> string \<Rightarrow> ('w, unit) eff"
  ch_supportsInterface :: "string \<Rightarrow> string \<Rightarrow> ('w, bool) eff"
  ch_version :: "string \<Rightarrow> ('w, string) eff"
  ch_getRelayHub :: "string \<Rightarrow> ('w, string) eff"
  ch_getTrustedForwarder :: "string \<Rightarrow> ('w, string) eff"
  ch_getGasAndDataLimits :: "string \<Rightarrow> int \<Rightarrow> ('w, GasAndDataLimits) eff"
  ch_getStakeManager :: "string \<Rightarrow> ('w, string) eff"
  ch_getPenalizer :: "string \<Rightarrow> ('w, string) eff"
  ch_getRelayRegistrar :: "string \<Rightarrow> ('w, string) eff"
  ch_getConfiguration :: "string \<Rightarrow> ('w, RelayHubConfiguration) eff"
  ch_getWorkerManager :: "string \<Rightarrow> string \<Rightarrow> ('w, string) eff"
  ch_getMinimumStakePerToken :: "string \<Rightarrow> string \<Rightarrow> ('w, int) eff"
  ch_hubBalanceOf :: "string \<Rightarrow> string \<Rightarrow> ('w, int) eff"
  ch_getStakeInfo :: "string \<Rightarrow> string \<Rightarrow> ('w, StakeInfo) eff"

record 'w chain = "'w hub_contracts" +
  ch_getRelayRegistrationMaxAge :: "string \<Rightarrow> ('w, int) eff"
  ch_getRelayInfo :: "string \<Rightarrow> string \<Rightarrow> string \<Rightarrow> ('w, registrar_entry) eff"
  ch_readRelayInfos :: "string \<Rightarrow> string \<Rightarrow> ('w, registrar_entry list) eff"
  ch_getCreationBlock :: "string \<Rightarrow> ('w, int) eff"
  ch_isTrustedForwarder :: "string \<Rightarrow> string \<Rightarrow> ('w, bool) eff"
  ch_getForwarderNonce :: "string \<Rightarrow> string \<Rightarrow> ('w, int) eff"
  ch_tokenName :: "string \<Rightarrow> ('w, string) eff"
  ch_tokenSymbol :: "string \<Rightarrow> ('w, string) eff"
  ch_tokenDecimals :: "string \<Rightarrow> ('w, int) eff"
  ch_tokenBalanceOf :: "string \<Rightarrow> string \<Rightarrow> ('w, int) eff"
  ch_tokenAllowance :: "string \<Rightarrow> string \<Rightarrow> string \<Rightarrow> ('w, int) eff"

text \<open>Pure library functions: ABI coding, \<open>semver\<close>, \<open>fromWei\<close>, the printing of thrown objects.\<close>

record libs =
  lib_decodeString :: "string \<Rightarrow> js_error + string"
  lib_decodeRelayCall :: "string \<Rightarrow> js_error + bool \<times> int \<times> string"
  lib_encodeRelayCall :: "RelayCallABI \<Rightarrow> string"
  lib_encodeVerifyRelayManagerStaked :: "string \<Rightarrow> string"
  lib_toHex :: "string \<Rightarrow> string"
  lib_showError :: "rpc_error \<Rightarrow> string"
  lib_semverSatisfies :: "string \<Rightarrow> string \<Rightarrow> bool"
  lib_fromWei :: "int \<Rightarrow> string"

section \<open>The state of the class\<close>

record GSNContractsDeployment =
  dep_forwarderAddress :: "string option"
  dep_paymasterAddress :: "string option"
  dep_penalizerAddress :: "string option"
  dep_relayRegistrarAddress :: "string option"
  dep_relayHubAddress :: "string option"
  dep_stakeManagerAddress :: "string option"
  dep_managerStakeTokenAddress :: "string option"

text \<open>The addresses of the contract instances that were created.\<close>

record instances =
  in_paymaster :: "string option"
  in_relayHub :: "string option"
  in_forwarder :: "string option"
  in_stakeManager :: "string option"
  in_penalizer :: "string option"
  in_relayRegistrar :: "string option"
  in_erc20Token :: "string option"

record interactor_config =
  ic_maxPageSize :: int
  ic_maxPageCount :: int
  ic_environment :: Environment
  ic_domainSeparatorName :: string
  ic_requiredVersionRange :: string

record 'w ci_state =
  world :: 'w
  lastBlockNumber :: int
  ci_transactionType :: TransactionType
  ci_deployment :: GSNContractsDeployment
  contract_instances :: instances
  ci_relayHubConfiguration :: "RelayHubConfiguration option"
  ci_rawTxOptions :: "(int \<times> int) option"
  ci_paymasterVersion :: "string option"

definition on_world :: "('w, 'a) eff \<Rightarrow> (('w, 'z) ci_state_scheme, 'a) eff" where
  "on_world m = zoom world (\<lambda>w s. s\<lparr>world := w\<rparr>) m"

lemma wp_on_world [wp_simps]:
  "wp (on_world m) Q E s = wp m (\<lambda>a w. Q a (s\<lparr>world := w\<rparr>)) (\<lambda>e w. E e (s\<lparr>world := w\<rparr>)) (world s)"
  by (simp add: on_world_def wp_zoom)

text \<open>A world operation that is used knows only the world: everything else of the state stays.\<close>

lemma on_world_rest:
  "on_world m s = (r, t) \<Longrightarrow> \<exists>w. t = s\<lparr>world := w\<rparr>"
  by (auto simp: on_world_def zoom_def split: prod.splits)

lemma keeps_on_world [intro]: "(\<And>s w. I s \<Longrightarrow> I (s\<lparr>world := w\<rparr>)) \<Longrightarrow> keeps I (on_world m)"
  unfolding on_world_def by (rule keeps_zoom)

text \<open>Effects that change nothing but the world, whatever they do there.\<close>

definition world_only :: "(('w, 'z) ci_state_scheme, 'a) eff \<Rightarrow> bool" where
  "world_only m \<longleftrightarrow> (\<forall>s. \<exists>w. snd (m s) = s\<lparr>world := w\<rparr>)"

lemma world_update_same: "s\<lparr>world := world s\<rparr> = (s :: ('w, 'z) ci_state_scheme)"
  by simp

lemma world_onlyI: "(\<And>s r t. m s = (r, t) \<Longrightarrow> \<exists>w. t = s\<lparr>world := w\<rparr>) \<Longrightarrow> world_only m"
  unfolding world_only_def by (metis prod.collapse)

lemma world_onlyD: "world_only m \<Longrightarrow> m s = (r, t) \<Longrightarrow> \<exists>w. t = s\<lparr>world := w\<rparr>"
  unfolding world_only_def by (metis snd_conv)

lemma wp_world_only:
  assumes "world_only m" and "\<And>a w. Q a (s\<lparr>world := w\<rparr>)" and "\<And>e w. E e (s\<lparr>world := w\<rparr>)"
  shows "wp m Q E s"
proof -
  obtain r t where m: "m s = (r, t)" by fastforce
  then obtain w where "t = s\<lparr>world := w\<rparr>" using world_onlyD [OF assms(1)] by blast
  then show ?thesis using m assms(2,3) by (simp add: wp_def split: sum.split)
qed

lemma world_only_on_world [intro, simp]: "world_only (on_world m)"
  by (rule world_onlyI) (rule on_world_rest)

lemma world_only_pure [intro, simp]:
  "world_only (ret a)" "world_only (throw x)" "world_only (raise e)" "world_only (gets f)" "world_only (lift_result r)"
  by (simp_all add: world_only_def) (metis world_update_same)+

lemma world_only_bnd [intro]: "world_only m \<Longrightarrow> (\<And>a. world_only (f a)) \<Longrightarrow> world_only (bnd m f)"
proof (rule world_onlyI)
  fix s r t assume m: "world_only m" and f: "\<And>a. world_only (f a)" and b: "bnd m f s = (r, t)"
  obtain r1 t1 where 1: "m s = (r1, t1)" by fastforce
  then obtain w1 where w1: "t1 = s\<lparr>world := w1\<rparr>" using world_onlyD [OF m] by blast
  show "\<exists>w. t = s\<lparr>world := w\<rparr>"
  proof (cases r1)
    case (Inl e)
    then show ?thesis using b 1 w1 by (auto simp: bnd_def)
  next
    case (Inr a)
    then have "f a t1 = (r, t)" using b 1 by (simp add: bnd_def)
    then obtain w where "t = t1\<lparr>world := w\<rparr>" using world_onlyD [OF f] by blast
    then show ?thesis by (auto simp: w1)
  qed
qed

lemma world_only_try_catch [intro]: "world_only m \<Longrightarrow> (\<And>e. world_only (h e)) \<Longrightarrow> world_only (try_catch m h)"
proof (rule world_onlyI)
  fix s r t assume m: "world_only m" and h: "\<And>e. world_only (h e)" and b: "try_catch m h s = (r, t)"
  obtain r1 t1 where 1: "m s = (r1, t1)" by fastforce
  then obtain w1 where w1: "t1 = s\<lparr>world := w1\<rparr>" using world_onlyD [OF m] by blast
  show "\<exists>w. t = s\<lparr>world := w\<rparr>"
  proof (cases r1)
    case (Inr a)
    then show ?thesis using b 1 w1 by (auto simp: try_catch_def)
  next
    case (Inl e)
    then have "h e t1 = (r, t)" using b 1 by (simp add: try_catch_def)
    then obtain w where "t = t1\<lparr>world := w\<rparr>" using world_onlyD [OF h] by blast
    then show ?thesis by (auto simp: w1)
  qed
qed

lemma world_only_if [intro]: "(b \<Longrightarrow> world_only m) \<Longrightarrow> (\<not> b \<Longrightarrow> world_only n) \<Longrightarrow> world_only (if b then m else n)"
  by simp

lemma world_only_when [intro]: "world_only m \<Longrightarrow> world_only (when_eff b m)"
  by (auto simp: when_eff_def)

lemma world_only_option [intro]:
  "(x = None \<Longrightarrow> world_only m) \<Longrightarrow> (\<And>y. x = Some y \<Longrightarrow> world_only (f y)) \<Longrightarrow>
   world_only (case x of None \<Rightarrow> m | Some y \<Rightarrow> f y)"
  by (cases x) auto

lemma world_only_prod [intro]: "(\<And>a b. world_only (f a b)) \<Longrightarrow> world_only (case x of (a, b) \<Rightarrow> f a b)"
  by (cases x) auto

lemma world_only_Let [intro]: "world_only (f x) \<Longrightarrow> world_only (let y = x in f y)"
  by simp

lemmas world_only_intros =
  world_only_bnd world_only_try_catch world_only_if world_only_when world_only_option world_only_prod world_only_Let
  world_only_pure world_only_on_world

end
