(* ===== verification/InteractorOps.thy ===== *)
theory InteractorOps imports Interactor begin

text \<open>
  The operations of \<open>ContractInteractor.ts\<close>: initialisation, version and interface checks, block numbers, gas
  calculations, view calls and the decoding of revert reasons, event queries with pagination.
\<close>

section \<open>Block numbers and node queries\<close>

text \<open>The loop of \<open>getBlockNumber\<close>: \<open>tries\<close> counts the attempts that are left (11 at first).\<close>

fun poll_block :: "('w, 'c) node_scheme \<Rightarrow> nat \<Rightarrow> int \<Rightarrow> (('w, 'z) ci_state_scheme, int) eff" where
  "poll_block ch 0 blockNumber = ret blockNumber"
| "poll_block ch (Suc tries) blockNumber =
     bnd (gets lastBlockNumber) (\<lambda>lst.
     if blockNumber < lst then
       bnd (try_catch (on_world (ch_getBlockNumber ch)) (\<lambda>_. ret blockNumber)) (\<lambda>b.
       if b \<ge> lst then ret b else poll_block ch tries b)
     else ret blockNumber)"

definition getBlockNumber :: "('w, 'c) node_scheme \<Rightarrow> (('w, 'z) ci_state_scheme, int) eff" where
  "getBlockNumber ch =
     bnd (poll_block ch 11 (-1)) (\<lambda>blockNumber.
     bnd (gets lastBlockNumber) (\<lambda>lst.
     if blockNumber < lst then
       throw (''could'' @ [CHR 0x6E, CHR 0x27] @ ''t retrieve latest blockNumber from node. last block: '' @ int_to_string lst
         @ '', got block: '' @ int_to_string blockNumber)
     else bnd (modify (\<lambda>s. s\<lparr>lastBlockNumber := blockNumber\<rparr>)) (\<lambda>_. ret blockNumber)))"

definition getBlockNumberRightNow :: "('w, 'c) node_scheme \<Rightarrow> (('w, 'z) ci_state_scheme, int) eff" where
  "getBlockNumberRightNow ch = on_world (ch_getBlockNumber ch)"

definition getBalance :: "('w, 'c) node_scheme \<Rightarrow> string \<Rightarrow> string \<Rightarrow> (('w, 'z) ci_state_scheme, int) eff" where
  "getBalance ch address defaultBlock = on_world (ch_getBalance ch address defaultBlock)"

definition getTransactionCount ::
  "('w, 'c) node_scheme \<Rightarrow> string \<Rightarrow> string \<Rightarrow> (('w, 'z) ci_state_scheme, int) eff" where
  "getTransactionCount ch address defaultBlock = on_world (ch_getTransactionCount ch address defaultBlock)"

definition getTransaction :: "('w, 'c) node_scheme \<Rightarrow> string \<Rightarrow> (('w, 'z) ci_state_scheme, node_tx option) eff" where
  "getTransaction ch transactionHash = on_world (ch_getTransaction ch transactionHash)"

definition getBlock :: "('w, 'c) node_scheme \<Rightarrow> int \<Rightarrow> (('w, 'z) ci_state_scheme, ShortBlockInfo) eff" where
  "getBlock ch blockNumber = on_world (ch_getBlock ch blockNumber)"

definition getBlockGasLimit :: "('w, 'c) node_scheme \<Rightarrow> (('w, 'z) ci_state_scheme, int) eff" where
  "getBlockGasLimit ch = bnd (on_world (ch_latestBlock ch)) (\<lambda>(gasLimit, _). ret gasLimit)"

definition estimateGas :: "('w, 'c) node_scheme \<Rightarrow> TransactionConfig \<Rightarrow> (('w, 'z) ci_state_scheme, int) eff" where
  "estimateGas ch transactionDetails = on_world (ch_estimateGas ch transactionDetails)"

definition isContractDeployed :: "('w, 'c) node_scheme \<Rightarrow> string \<Rightarrow> (('w, 'z) ci_state_scheme, bool) eff" where
  "isContractDeployed ch address = bnd (on_world (ch_getCode ch address)) (\<lambda>code. ret (code \<noteq> ''0x''))"

definition validateAddress :: "('w, 'c) hub_contracts_scheme \<Rightarrow> string \<Rightarrow> string \<Rightarrow> js_error + unit" where
  "validateAddress ch address exceptionTitle =
     (if \<not> ch_isAddress ch address then Inl (Error (exceptionTitle @ '' '' @ address)) else Inr ())"

text \<open>The raw transaction is sent over JSON-RPC; an error of the transport or of the answer rejects.\<close>

definition ci_broadcastTransaction ::
  "('w, 'c) node_scheme \<Rightarrow> libs \<Rightarrow> string \<Rightarrow> (('w, 'z) ci_state_scheme, string) eff" where
  "ci_broadcastTransaction ch lib signedTransaction =
     bnd (on_world (ch_sendRawTransaction ch signedTransaction)) (\<lambda>(e, r).
     case e of Some err \<Rightarrow> throw (lib_showError lib err)
     | None \<Rightarrow> (case rpr_error r of Some err \<Rightarrow> throw (lib_showError lib err)
        | None \<Rightarrow> ret (case rpr_result r of Some h \<Rightarrow> h | None \<Rightarrow> [])))"

section \<open>Gas\<close>

definition calculateCalldataCost :: "interactor_config \<Rightarrow> string \<Rightarrow> int" where
  "calculateCalldataCost cfg msgData =
     (let (calldataZeroBytes, calldataNonzeroBytes) = calculateCalldataBytesZeroNonzero msgData
      in int calldataZeroBytes * env_gtxdatazero (ic_environment cfg)
         + int calldataNonzeroBytes * env_gtxdatanonzero (ic_environment cfg))"

definition estimateGasWithoutCalldata ::
  "('w, 'c) node_scheme \<Rightarrow> interactor_config \<Rightarrow> TransactionConfig \<Rightarrow> (('w, 'z) ci_state_scheme, int) eff" where
  "estimateGasWithoutCalldata ch cfg gsnTransactionDetails =
     bnd (estimateGas ch gsnTransactionDetails) (\<lambda>originalGasEstimation.
     let calldataGasCost = calculateCalldataCost cfg (tc_data gsnTransactionDetails);
         adjustedEstimation = originalGasEstimation - calldataGasCost
     in if adjustedEstimation < 0 then
          throw (''estimateGasWithoutCalldata: calldataGasCost exceeded originalGasEstimation'' @ [CHR 0x0A]
            @ ''your Environment configuration and Ethereum node you are connected to are not compatible'')
        else ret adjustedEstimation)"

text \<open>\<open>toBuffer(msgData).length\<close> of a 0x-prefixed hex string.\<close>

definition calculateTransactionMaxPossibleGas ::
  "interactor_config \<Rightarrow> RelayHubConfiguration \<Rightarrow> string \<Rightarrow> GasAndDataLimits \<Rightarrow> string \<Rightarrow> int option" where
  "calculateTransactionMaxPossibleGas cfg hubConfig msgData gasAndDataLimits relayCallGasLimit =
     (let msgDataLength = int (length (hex_bytes (removeHexPrefix msgData)));
          msgDataGasCostInsideTransaction = env_dataOnChainHandlingGasCostPerByte (ic_environment cfg) * msgDataLength;
          calldataCost = calculateCalldataCost cfg msgData
      in js_plus (Some (hc_gasOverhead hubConfig + msgDataGasCostInsideTransaction + calldataCost))
           (js_plus (parseInt relayCallGasLimit)
             (Some (gl_preRelayedCallGasLimit gasAndDataLimits + gl_postRelayedCallGasLimit gasAndDataLimits))))"

definition estimateCalldataCostForRequest ::
  "libs \<Rightarrow> interactor_config \<Rightarrow> RelayRequest \<Rightarrow> nat \<Rightarrow> nat \<Rightarrow> string" where
  "estimateCalldataCostForRequest lib cfg relayRequestOriginal maxApprovalDataLength maxPaymasterDataLength =
     (let relayRequest = relayRequestOriginal\<lparr>rr_relayData := (rr_relayData relayRequestOriginal)
            \<lparr>rd_transactionCalldataGasUsed := ''0xffffffffff'',
             rd_paymasterData := ''0x'' @ concat (replicate maxPaymasterDataLength ''ff'')\<rparr>\<rparr>;
          encodedData = lib_encodeRelayCall lib
            \<lparr>abi_domainSeparatorName = ic_domainSeparatorName cfg,
             abi_signature = ''0x'' @ concat (replicate 65 ''ff''),
             abi_relayRequest = relayRequest,
             abi_approvalData = ''0x'' @ concat (replicate maxApprovalDataLength ''ff''),
             abi_maxAcceptanceBudget = ''0xffffffffff''\<rparr>
      in int_to_hex (calculateCalldataCost cfg encodedData))"

text \<open>\<open>BN.muln\<close> with a factor: the factor is a whole number for every environment but Arbitrum.\<close>

definition ci_getGasPrice :: "('w, 'c) node_scheme \<Rightarrow> interactor_config \<Rightarrow> (('w, 'z) ci_state_scheme, int) eff" where
  "ci_getGasPrice ch cfg =
     bnd (on_world (ch_getGasPrice ch)) (\<lambda>gasPriceFromNode.
     case gasPriceFromNode of None \<Rightarrow> throw ''getGasPrice: node returned null value''
     | Some g \<Rightarrow>
         if env_getGasPriceFactor (ic_environment cfg) = 0 then ret g
         else ret \<lfloor>of_int g * env_getGasPriceFactor (ic_environment cfg)\<rfloor>)"

definition getFeeHistory :: "('w, 'c) node_scheme \<Rightarrow> int \<Rightarrow> string \<Rightarrow> rat \<Rightarrow> (('w, 'z) ci_state_scheme, fee_history) eff" where
  "getFeeHistory ch blockCount lastBlock rewardPercentile = on_world (ch_getFeeHistory ch blockCount lastBlock rewardPercentile)"

text \<open>The base fee and the priority fee; \<open>baseFeePerGas[0]\<close> of an empty array is \<open>undefined\<close>.\<close>

definition getGasFees ::
  "('w, 'c) node_scheme \<Rightarrow> interactor_config \<Rightarrow> int \<Rightarrow> rat \<Rightarrow> (('w, 'z) ci_state_scheme, int option \<times> int) eff" where
  "getGasFees ch cfg blockCount rewardPercentile =
     bnd (gets ci_transactionType) (\<lambda>tt.
     if tt = LEGACY then bnd (ci_getGasPrice ch cfg) (\<lambda>gasPrice. ret (Some gasPrice, gasPrice))
     else
       bnd (getFeeHistory ch blockCount ''pending'' rewardPercentile) (\<lambda>networkHistoryFees.
       let baseFeePerGas = (case fh_baseFeePerGas networkHistoryFees of [] \<Rightarrow> None | b # _ \<Rightarrow> Some b)
       in if list_ex (\<lambda>rewards. rewards = []) (fh_reward networkHistoryFees) then throw ''Error: [number-to-bn]''
          else bnd (lift_result (averageBN (map hd (fh_reward networkHistoryFees)))) (\<lambda>priorityFeePerGas.
            ret (baseFeePerGas, priorityFeePerGas))))"

section \<open>Revert reasons\<close>

text \<open>
  The match of \<open>/: revert(?:ed)? (.*)/\<close>: the text after the leftmost \<open>: revert \<close> or \<open>: reverted \<close>, up to the
  end of the line.
\<close>

fun match_revert :: "string \<Rightarrow> string option" where
  "match_revert [] = None"
| "match_revert (c # s) =
     (if starts_with '': reverted '' (c # s) then Some (takeWhile (\<lambda>d. \<not> line_terminator d) (drop 11 (c # s)))
      else if starts_with '': revert '' (c # s) then Some (takeWhile (\<lambda>d. \<not> line_terminator d) (drop 9 (c # s)))
      else match_revert s)"

fun replace_first :: "string \<Rightarrow> string \<Rightarrow> string" where
  "replace_first p [] = []"
| "replace_first p (c # s) = (if starts_with p (c # s) then drop (length p) (c # s) else c # replace_first p s)"

definition strip_quotes :: "string \<Rightarrow> string" where
  "strip_quotes s =
     (let t = (case s of c # cs \<Rightarrow> if c = CHR 0x27 then cs else s | [] \<Rightarrow> [])
      in if t \<noteq> [] \<and> last t = CHR 0x27 then butlast t else t)"

text \<open>The match of \<open>/(0x08c379a0\S*)/\<close>.\<close>

fun match_error_data :: "string \<Rightarrow> string option" where
  "match_error_data [] = None"
| "match_error_data (c # s) =
     (if starts_with ''0x08c379a0'' (c # s) then Some (takeWhile (\<lambda>d. \<not> is_space_char d) (c # s))
      else match_error_data s)"

definition data_message :: "err_data \<Rightarrow> string option" where
  "data_message d = (case d of DataObject m \<Rightarrow> m | _ \<Rightarrow> None)"

definition data_string :: "err_data \<Rightarrow> string option" where
  "data_string d =
     (case d of NoData \<Rightarrow> None | DataString s \<Rightarrow> Some s | DataObject _ \<Rightarrow> Some ''[object Object]'')"

definition or_else :: "'a option \<Rightarrow> 'a option \<Rightarrow> 'a option" where
  "or_else a b = (case a of Some x \<Rightarrow> Some x | None \<Rightarrow> b)"

definition decodeRevertFromResponse ::
  "libs \<Rightarrow> rpc_error option \<Rightarrow> rpc_response option \<Rightarrow> js_error + string option" where
  "decodeRevertFromResponse lib err res =
     (let res_error = Option.bind res rpr_error;
          matchGanache = or_else
            (Option.bind (Option.bind err (data_message \<circ> rpe_data)) match_revert)
            (Option.bind (Option.bind res_error rpe_message) match_revert)
      in case matchGanache of
           Some m \<Rightarrow> Inr (Some (strip_quotes (replace_first ''with reason string '' m)))
         | None \<Rightarrow>
             (let errorData = or_else (Option.bind err (data_string \<circ> rpe_data))
                    (Option.bind res_error (data_string \<circ> rpe_data))
              in case Option.bind errorData match_error_data of
                   Some m \<Rightarrow> decodeRevertReason (lib_decodeString lib) (Some m) False
                 | None \<Rightarrow>
                     (let result = (case Option.bind res rpr_result of Some r \<Rightarrow> r | None \<Rightarrow> [])
                      in if starts_with ''0x08c379a0'' result
                         then decodeRevertReason (lib_decodeString lib) (Some result) False
                         else Inr None)))"

section \<open>View calls\<close>

record ViewCallVerificationResult =
  vc_paymasterAccepted :: bool
  vc_recipientReverted :: bool
  vc_returnValue :: string
  vc_relayHubReverted :: bool

definition fixGasFees :: "libs \<Rightarrow> TransactionType \<Rightarrow> RelayRequest \<Rightarrow> gas_fees" where
  "fixGasFees lib tt relayRequest =
     (if tt = LEGACY then
        \<lparr>gf_gasPrice = Some (lib_toHex lib (rd_maxFeePerGas (rr_relayData relayRequest))),
         gf_maxFeePerGas = None, gf_maxPriorityFeePerGas = None\<rparr>
      else
        \<lparr>gf_gasPrice = None,
         gf_maxFeePerGas = Some (lib_toHex lib (rd_maxFeePerGas (rr_relayData relayRequest))),
         gf_maxPriorityFeePerGas = Some (lib_toHex lib (rd_maxPriorityFeePerGas (rr_relayData relayRequest)))\<rparr>)"

text \<open>
  The callback of the view call. An error object the provider passes is shown by \<open>lib_showError\<close>, which
  stands for the choice between its \<open>message\<close> and its JSON.
\<close>

definition relayCall_answer :: "libs \<Rightarrow> rpc_error option \<Rightarrow> rpc_response option \<Rightarrow> js_error + string" where
  "relayCall_answer lib err0 res =
     (let err = (case Option.bind res rpr_error of Some e \<Rightarrow> Some e | None \<Rightarrow> err0)
      in case decodeRevertFromResponse lib err res of
           Inl e \<Rightarrow> Inl e
         | Inr (Some revertMsg) \<Rightarrow> Inl (Error revertMsg)
         | Inr None \<Rightarrow>
             (case err of Some e \<Rightarrow> Inl (Error (lib_showError lib e))
              | None \<Rightarrow> (case Option.bind res rpr_result of
                   None \<Rightarrow> Inl (Error ''RPC call returned no error and no result'')
                 | Some r \<Rightarrow> Inr r)))"

definition view_call_reverted :: "js_error \<Rightarrow> ViewCallVerificationResult" where
  "view_call_reverted e =
     \<lparr>vc_paymasterAccepted = False, vc_recipientReverted = False,
      vc_returnValue = ''view call to '' @ [CHR 0x27] @ ''relayCall'' @ [CHR 0x27] @ '' reverted in client: '' @ error_message e,
      vc_relayHubReverted = True\<rparr>"

definition decode_relay_call :: "libs \<Rightarrow> string \<Rightarrow> js_error + ViewCallVerificationResult" where
  "decode_relay_call lib res =
     (case lib_decodeRelayCall lib res of
        Inl e \<Rightarrow> Inl e
      | Inr (paymasterAccepted, relayCallStatus, returnValue) \<Rightarrow>
          (let recipientReverted = (relayCallStatus = RelayedCallFailed)
           in if \<not> paymasterAccepted \<or> recipientReverted then
                (case decodeRevertFromResponse lib (Some \<lparr>rpe_message = None, rpe_data = NoData\<rparr>)
                    (Some \<lparr>rpr_error = None, rpr_result = Some returnValue\<rparr>) of
                   Inl e \<Rightarrow> Inl e
                 | Inr r \<Rightarrow> Inr \<lparr>vc_paymasterAccepted = paymasterAccepted, vc_recipientReverted = recipientReverted,
                     vc_returnValue = (case r of Some m \<Rightarrow> m | None \<Rightarrow> returnValue), vc_relayHubReverted = False\<rparr>)
              else Inr \<lparr>vc_paymasterAccepted = paymasterAccepted, vc_recipientReverted = recipientReverted,
                vc_returnValue = returnValue, vc_relayHubReverted = False\<rparr>))"

definition instance_address :: "string option \<Rightarrow> js_error + string" where
  "instance_address a =
     (case a of Some x \<Rightarrow> Inr x | None \<Rightarrow> Inl (Error ''Cannot read properties of undefined''))"

definition validateRelayCall ::
  "('w, 'c) node_scheme \<Rightarrow> libs \<Rightarrow> RelayCallABI \<Rightarrow> int \<Rightarrow> bool \<Rightarrow>
   (('w, 'z) ci_state_scheme, ViewCallVerificationResult) eff" where
  "validateRelayCall ch lib relayCallABIData viewCallGasLimit isDryRun =
     (let from = (if isDryRun then DRY_RUN_ADDRESS
        else rd_relayWorker (rr_relayData (abi_relayRequest relayCallABIData)))
      in try_catch
        (bnd (gets ci_transactionType) (\<lambda>tt.
         bnd (bnd (gets (in_relayHub \<circ> contract_instances)) (\<lambda>a. lift_result (instance_address a))) (\<lambda>hub.
         bnd (on_world (ch_ethCall ch
           \<lparr>rp_from = Some from, rp_to = hub, rp_gas = Some viewCallGasLimit,
            rp_data = lib_encodeRelayCall lib relayCallABIData,
            rp_fees = fixGasFees lib tt (abi_relayRequest relayCallABIData)\<rparr>)) (\<lambda>(err, res).
         bnd (lift_result (relayCall_answer lib err res)) (\<lambda>r. lift_result (decode_relay_call lib r))))))
        (\<lambda>e. ret (view_call_reverted e)))"

record ManagerStakeStatus =
  ms_isStaked :: bool
  ms_errorMessage :: "string option"

definition isRelayManagerStakedOnHub ::
  "('w, 'c) node_scheme \<Rightarrow> libs \<Rightarrow> string \<Rightarrow> (('w, 'z) ci_state_scheme, ManagerStakeStatus) eff" where
  "isRelayManagerStakedOnHub ch lib relayManager =
     bnd (bnd (gets (in_relayHub \<circ> contract_instances)) (\<lambda>a. lift_result (instance_address a))) (\<lambda>hub.
     bnd (on_world (ch_ethCall ch
       \<lparr>rp_from = None, rp_to = hub, rp_gas = None, rp_data = lib_encodeVerifyRelayManagerStaked lib relayManager,
        rp_fees = \<lparr>gf_gasPrice = None, gf_maxFeePerGas = None, gf_maxPriorityFeePerGas = None\<rparr>\<rparr>)) (\<lambda>(err0, res).
     case res of None \<Rightarrow> throw ''Cannot read properties of undefined''
     | Some r \<Rightarrow>
         (let err = (case rpr_error r of Some e \<Rightarrow> Some e | None \<Rightarrow> err0)
          in bnd (lift_result (decodeRevertFromResponse lib err (Some r))) (\<lambda>errorMessage.
             ret \<lparr>ms_isStaked = (rpr_result r = Some ''0x''), ms_errorMessage = errorMessage\<rparr>))))"

section \<open>Past events\<close>

definition ceil_div :: "int \<Rightarrow> int \<Rightarrow> int" where
  "ceil_div a b = - ((- a) div b)"

definition getLogsPagesForRange ::
  "interactor_config \<Rightarrow> BlockNumber \<Rightarrow> BlockNumber \<Rightarrow> js_error + int \<times> int" where
  "getLogsPagesForRange cfg fromBlock toBlock =
     (if ic_maxPageSize cfg = MAX_SAFE_INTEGER then Inr (1, 1)
      else case (fromBlock, toBlock) of
        (Block f, Block t) \<Rightarrow>
          (let rangeSize = t - f + 1 in Inr (rangeSize, max (ceil_div rangeSize (ic_maxPageSize cfg)) 1))
      | _ \<Rightarrow> Inl (Error ''ContractInteractor:getLogsPagesForRange: only numbers supported when using pagination''))"

text \<open>The loop of \<open>splitRange\<close>; the split size is positive because the range is not empty.\<close>

function split_loop :: "int \<Rightarrow> int \<Rightarrow> int \<Rightarrow> (BlockNumber \<times> BlockNumber) list" where
  "split_loop b toBlock splitSize =
     (if b \<le> toBlock \<and> 0 < splitSize
      then (Block b, Block (min toBlock (b + splitSize - 1))) # split_loop (b + splitSize) toBlock splitSize
      else [])"
  by pat_completeness auto
termination
  by (relation "measure (\<lambda>(b, t, s). nat (t - b + 1))") auto

declare split_loop.simps [simp del]

definition splitRange :: "BlockNumber \<Rightarrow> BlockNumber \<Rightarrow> int \<Rightarrow> js_error + (BlockNumber \<times> BlockNumber) list" where
  "splitRange fromBlock toBlock parts =
     (if parts = 1 then Inr [(fromBlock, toBlock)]
      else case (fromBlock, toBlock) of
        (Block f, Block t) \<Rightarrow> Inr (split_loop f t (ceil_div (t - f + 1) parts))
      | _ \<Rightarrow> Inl (Error ''ContractInteractor:splitRange: only number supported for block range when using pagination''))"

text \<open>One page, tried until it succeeds, at most \<open>tries\<close> times (100 in the code).\<close>

fun fetch_page :: "('w, 'c) node_scheme \<Rightarrow> nat \<Rightarrow> string \<Rightarrow> string list \<Rightarrow> topic list \<Rightarrow>
    BlockNumber \<times> BlockNumber \<Rightarrow> (('w, 'z) ci_state_scheme, event_data list) eff" where
  "fetch_page ch 0 contract names extraTopics rng = throw ''Too many attempts''"
| "fetch_page ch (Suc tries) contract names extraTopics rng =
     try_catch (on_world (ch_getPastEvents ch contract names extraTopics (fst rng) (snd rng)))
       (\<lambda>e. if tries = 0 then raise e else fetch_page ch tries contract names extraTopics rng)"

text \<open>
  The pages of one split. The accumulated parts are kept when a page fails: they belong to the variable
  \<open>relayEventParts\<close>, which is declared before the loop over the splits.
\<close>

fun fetch_pages :: "('w, 'c) node_scheme \<Rightarrow> string \<Rightarrow> string list \<Rightarrow> topic list \<Rightarrow>
    (BlockNumber \<times> BlockNumber) list \<Rightarrow> event_data list list \<Rightarrow>
    (('w, 'z) ci_state_scheme, js_error option \<times> event_data list list) eff" where
  "fetch_pages ch contract names extraTopics [] relayEventParts = ret (None, relayEventParts)"
| "fetch_pages ch contract names extraTopics (rng # ranges) relayEventParts =
     bnd (try_catch (bnd (fetch_page ch 100 contract names extraTopics rng) (\<lambda>es. ret (Inr es)))
            (\<lambda>e. ret (Inl e))) (\<lambda>r.
     case r of Inl e \<Rightarrow> ret (Some e, relayEventParts)
     | Inr pastEvents \<Rightarrow> fetch_pages ch contract names extraTopics ranges (relayEventParts @ [pastEvents]))"

function paged_events :: "('w, 'c) node_scheme \<Rightarrow> string \<Rightarrow> string list \<Rightarrow> topic list \<Rightarrow>
    BlockNumber \<Rightarrow> BlockNumber \<Rightarrow> int \<Rightarrow> event_data list list \<Rightarrow>
    (('w, 'z) ci_state_scheme, event_data list) eff" where
  "paged_events ch contract names extraTopics fromBlock toBlock pagesCurrent relayEventParts =
     bnd (lift_result (splitRange fromBlock toBlock pagesCurrent)) (\<lambda>rangeParts.
     bnd (fetch_pages ch contract names extraTopics rangeParts relayEventParts) (\<lambda>(err, parts).
     case err of None \<Rightarrow> ret (concat parts)
     | Some e \<Rightarrow>
         if str_includes ''query returned more than'' (error_message e) then
           (if pagesCurrent > 16 \<or> pagesCurrent < 1 then
              throw (''Too many events after splitting by '' @ int_to_string pagesCurrent)
            else paged_events ch contract names extraTopics fromBlock toBlock (pagesCurrent * 4) parts)
         else raise e))"
  by pat_completeness auto
termination
  by (relation "measure (\<lambda>(ch, c, n, x, f, t, p, parts). nat (17 - p))") auto

declare paged_events.simps [simp del]

definition block_greater :: "BlockNumber \<Rightarrow> BlockNumber \<Rightarrow> bool" where
  "block_greater a b = (case (a, b) of (Block x, Block y) \<Rightarrow> y < x | _ \<Rightarrow> False)"

definition show_block :: "BlockNumber \<Rightarrow> string" where
  "show_block b = (case b of Block n \<Rightarrow> int_to_string n | Tag t \<Rightarrow> t)"

definition resolve_toBlock ::
  "('w, 'c) node_scheme \<Rightarrow> interactor_config \<Rightarrow> BlockNumber \<Rightarrow> BlockNumber \<Rightarrow> (('w, 'z) ci_state_scheme, BlockNumber) eff" where
  "resolve_toBlock ch cfg fromBlock toBlock =
     (if ic_maxPageSize cfg \<noteq> MAX_SAFE_INTEGER \<and> toBlock = Tag ''latest'' then
        bnd (getBlockNumber ch) (\<lambda>n. ret (if block_greater fromBlock (Block n) then fromBlock else Block n))
      else ret toBlock)"

definition getPastEventsPaginated ::
  "('w, 'c) node_scheme \<Rightarrow> interactor_config \<Rightarrow> string \<Rightarrow> string list \<Rightarrow> topic list \<Rightarrow>
   BlockNumber option \<Rightarrow> BlockNumber option \<Rightarrow> (('w, 'z) ci_state_scheme, event_data list) eff" where
  "getPastEventsPaginated ch cfg contract names extraTopics from0 to0 =
     (let fromBlock = (case from0 of None \<Rightarrow> Block 1 | Some b \<Rightarrow> b);
          toBlock0 = (case to0 of None \<Rightarrow> Tag ''latest'' | Some b \<Rightarrow> b)
      in bnd (resolve_toBlock ch cfg fromBlock toBlock0) (\<lambda>toBlock.
         if block_greater fromBlock toBlock then
           throw (''fromBlock('' @ show_block fromBlock @ '') > toBlock('' @ show_block toBlock @ '')'')
         else
           bnd (lift_result (getLogsPagesForRange cfg fromBlock toBlock)) (\<lambda>(rangeSize, pagesCurrent).
           if pagesCurrent > ic_maxPageCount cfg then
             throw (''Failed to make a paginated request to getPastEvents with page size '' @ int_to_string rangeSize)
           else paged_events ch contract names extraTopics fromBlock toBlock pagesCurrent [])))"

definition with_instance ::
  "(instances \<Rightarrow> string option) \<Rightarrow> (string \<Rightarrow> (('w, 'z) ci_state_scheme, 'a) eff) \<Rightarrow> (('w, 'z) ci_state_scheme, 'a) eff" where
  "with_instance f k =
     bnd (gets (f \<circ> contract_instances)) (\<lambda>a. bnd (lift_result (instance_address a)) k)"

definition getPastEventsForHub ::
  "('w, 'c) node_scheme \<Rightarrow> interactor_config \<Rightarrow> topic list \<Rightarrow> BlockNumber option \<Rightarrow> BlockNumber option \<Rightarrow> string list \<Rightarrow>
   (('w, 'z) ci_state_scheme, event_data list) eff" where
  "getPastEventsForHub ch cfg extraTopics from0 to0 names =
     with_instance in_relayHub (\<lambda>hub. getPastEventsPaginated ch cfg hub names extraTopics from0 to0)"

definition getPastEventsForRegistrar ::
  "('w, 'c) node_scheme \<Rightarrow> interactor_config \<Rightarrow> topic list \<Rightarrow> BlockNumber option \<Rightarrow> BlockNumber option \<Rightarrow> string list \<Rightarrow>
   (('w, 'z) ci_state_scheme, event_data list) eff" where
  "getPastEventsForRegistrar ch cfg extraTopics from0 to0 names =
     with_instance in_relayRegistrar (\<lambda>c. getPastEventsPaginated ch cfg c names extraTopics from0 to0)"

definition getPastEventsForStakeManager ::
  "('w, 'c) node_scheme \<Rightarrow> interactor_config \<Rightarrow> string list \<Rightarrow> topic list \<Rightarrow> BlockNumber option \<Rightarrow> BlockNumber option \<Rightarrow>
   (('w, 'z) ci_state_scheme, event_data list) eff" where
  "getPastEventsForStakeManager ch cfg names extraTopics from0 to0 =
     with_instance in_stakeManager (\<lambda>c. getPastEventsPaginated ch cfg c names extraTopics from0 to0)"

definition getPastEventsForPenalizer ::
  "('w, 'c) node_scheme \<Rightarrow> interactor_config \<Rightarrow> string list \<Rightarrow> topic list \<Rightarrow> BlockNumber option \<Rightarrow> BlockNumber option \<Rightarrow>
   (('w, 'z) ci_state_scheme, event_data list) eff" where
  "getPastEventsForPenalizer ch cfg names extraTopics from0 to0 =
     with_instance in_penalizer (\<lambda>c. getPastEventsPaginated ch cfg c names extraTopics from0 to0)"

section \<open>Operations that change nothing but the world\<close>

lemmas node_ops = getBalance_def getTransactionCount_def getTransaction_def getBlock_def estimateGas_def getFeeHistory_def

lemma world_only_node [intro, simp]:
  "world_only (getBalance ch a b)" "world_only (getTransactionCount ch a b)" "world_only (getTransaction ch h)"
  "world_only (getBlock ch n)" "world_only (estimateGas ch d)" "world_only (getFeeHistory ch c l p)"
  by (simp_all add: node_ops)

lemma world_only_gas [intro, simp]: "world_only (ci_getGasPrice ch cfg)" "world_only (getGasFees ch cfg n p)"
  unfolding ci_getGasPrice_def getGasFees_def node_ops by (intro world_only_intros)+

lemma world_only_validateRelayCall [intro, simp]: "world_only (validateRelayCall ch lib abi gas isDryRun)"
  unfolding validateRelayCall_def Let_def
  by (intro world_only_try_catch world_only_bnd world_only_prod world_only_pure world_only_on_world)

end
