(* ===== verification/InteractorInit.thy ===== *)
theory InteractorInit imports InteractorOps begin

text \<open>
  Initialisation and contract queries of \<open>ContractInteractor.ts\<close>: resolving the deployment from the paymaster
  or the hub, creating the contract instances, version and ERC-165 checks, and the calls that read the hub,
  the stake manager, the registrar and the token.
\<close>

section \<open>Versions and interfaces\<close>

definition isRequiredVersionSatisfied :: "libs \<Rightarrow> string \<Rightarrow> string \<Rightarrow> bool" where
  "isRequiredVersionSatisfied lib requiredVersionRange version =
     (let pre = takeWhile (\<lambda>c. c \<noteq> CHR ''_'') version;
          version' = (if length pre < length version then pre @ ''-'' @ drop (length pre + 1) version else version)
      in lib_semverSatisfies lib version' requiredVersionRange)"

definition validateVersion :: "libs \<Rightarrow> interactor_config \<Rightarrow> string \<Rightarrow> string \<Rightarrow> js_error + unit" where
  "validateVersion lib cfg version contractName =
     (let versionSatisfied = isRequiredVersionSatisfied lib (ic_requiredVersionRange cfg) version
      in if \<not> versionSatisfied then
           Inl (Error (''Provided '' @ contractName @ '' version('' @ version @ '') does not satisfy the requirement(''
             @ ic_requiredVersionRange cfg @ '')''))
         else Inr ())"

definition trySupportsInterface ::
  "('w, 'c) hub_contracts_scheme \<Rightarrow> string \<Rightarrow> string option \<Rightarrow> string \<Rightarrow> (('w, 'z) ci_state_scheme, bool) eff" where
  "trySupportsInterface ch contractName contractInstance interfaceId =
     (case contractInstance of
        None \<Rightarrow> throw (''ERC-165 interface check failed. '' @ contractName @ '' instance is not initialized'')
      | Some address \<Rightarrow>
          try_catch (on_world (ch_supportsInterface ch address interfaceId)) (\<lambda>e.
            bnd (isContractDeployed ch address) (\<lambda>d.
            throw (''Failed call to '' @ contractName @ '' supportsInterface at address: '' @ address
              @ '' (isContractDeployed: '' @ (if d then ''true'' else ''false'') @ '') with error: '' @ error_message e))))"

record erc165_ids =
  erc_forwarder :: string
  erc_paymaster :: string
  erc_penalizer :: string
  erc_relayRegistrar :: string
  erc_relayHub :: string
  erc_stakeManager :: string

text \<open>\<open>Promise.all\<close> of the checks: modelled in the order of the array.\<close>

definition validateERC165InterfacesRelay ::
  "('w, 'c) hub_contracts_scheme \<Rightarrow> erc165_ids \<Rightarrow> (('w, 'z) ci_state_scheme, unit) eff" where
  "validateERC165InterfacesRelay ch ids =
     bnd (gets contract_instances) (\<lambda>i.
     bnd (trySupportsInterface ch ''Penalizer'' (in_penalizer i) (erc_penalizer ids)) (\<lambda>pn.
     bnd (trySupportsInterface ch ''RelayRegistrar'' (in_relayRegistrar i) (erc_relayRegistrar ids)) (\<lambda>rr.
     bnd (trySupportsInterface ch ''RelayHub'' (in_relayHub i) (erc_relayHub ids)) (\<lambda>rh.
     bnd (trySupportsInterface ch ''StakeManager'' (in_stakeManager i) (erc_stakeManager ids)) (\<lambda>sm.
     if \<not> (pn \<and> rr \<and> rh \<and> sm) then throw ''ERC-165 interface check failed. PN: RR: RH: SM:'' else ret ())))))"

definition validateERC165InterfacesClient ::
  "('w, 'c) hub_contracts_scheme \<Rightarrow> erc165_ids \<Rightarrow> bool \<Rightarrow> (('w, 'z) ci_state_scheme, unit) eff" where
  "validateERC165InterfacesClient ch ids allowNoPaymaster =
     bnd (gets contract_instances) (\<lambda>i.
     bnd (trySupportsInterface ch ''Forwarder'' (in_forwarder i) (erc_forwarder ids)) (\<lambda>fw.
     bnd (if allowNoPaymaster \<and> (case in_paymaster i of Some a \<Rightarrow> isSameAddress a ZERO_ADDRESS | None \<Rightarrow> False)
          then ret True
          else trySupportsInterface ch ''Paymaster'' (in_paymaster i) (erc_paymaster ids)) (\<lambda>pm.
     if \<not> (fw \<and> pm) then throw ''ERC-165 interface check failed. FW: PM:'' else ret ())))"

section \<open>Resolving the deployment\<close>

definition set_instance :: "(instances \<Rightarrow> instances) \<Rightarrow> (('w, 'z) ci_state_scheme, unit) eff" where
  "set_instance f = modify (\<lambda>s. s\<lparr>contract_instances := f (contract_instances s)\<rparr>)"

definition set_deployment ::
  "(GSNContractsDeployment \<Rightarrow> GSNContractsDeployment) \<Rightarrow> (('w, 'z) ci_state_scheme, unit) eff" where
  "set_deployment f = modify (\<lambda>s. s\<lparr>ci_deployment := f (ci_deployment s)\<rparr>)"

definition createInstance ::
  "('w, 'c) hub_contracts_scheme \<Rightarrow> string \<Rightarrow> string \<Rightarrow> (('w, 'z) ci_state_scheme, string) eff" where
  "createInstance ch kind address = bnd (on_world (ch_contractAt ch kind address)) (\<lambda>_. ret address)"

definition resolveDeploymentFromRelayHub ::
  "('w, 'c) hub_contracts_scheme \<Rightarrow> string \<Rightarrow> (('w, 'z) ci_state_scheme, unit) eff" where
  "resolveDeploymentFromRelayHub ch relayHubAddress =
     bnd (createInstance ch ''IRelayHub'' relayHubAddress) (\<lambda>hub.
     bnd (set_instance (\<lambda>i. i\<lparr>in_relayHub := Some hub\<rparr>)) (\<lambda>_.
     bnd (on_world (ch_getStakeManager ch hub)) (\<lambda>stakeManagerAddress.
     bnd (on_world (ch_getPenalizer ch hub)) (\<lambda>penalizerAddress.
     bnd (on_world (ch_getRelayRegistrar ch hub)) (\<lambda>relayRegistrarAddress.
     set_deployment (\<lambda>d. d\<lparr>dep_relayHubAddress := Some relayHubAddress,
       dep_stakeManagerAddress := Some stakeManagerAddress, dep_penalizerAddress := Some penalizerAddress,
       dep_relayRegistrarAddress := Some relayRegistrarAddress\<rparr>))))))"

definition resolveDeploymentFromPaymaster ::
  "('w, 'c) hub_contracts_scheme \<Rightarrow> libs \<Rightarrow> interactor_config \<Rightarrow> string \<Rightarrow> (('w, 'z) ci_state_scheme, unit) eff" where
  "resolveDeploymentFromPaymaster ch lib cfg paymasterAddress =
     bnd (createInstance ch ''IPaymaster'' paymasterAddress) (\<lambda>pm.
     bnd (set_instance (\<lambda>i. i\<lparr>in_paymaster := Some pm\<rparr>)) (\<lambda>_.
     bnd (try_catch (on_world (ch_getRelayHub ch pm))
            (\<lambda>e. throw (''Not a paymaster contract: '' @ error_message e))) (\<lambda>relayHubAddress.
     bnd (try_catch (on_world (ch_getTrustedForwarder ch pm))
            (\<lambda>e. throw (''paymaster has no trustedForwarder(): '' @ error_message e))) (\<lambda>forwarderAddress.
     bnd (try_catch (on_world (ch_version ch pm))
            (\<lambda>e. throw (''Not a paymaster contract: '' @ error_message e))) (\<lambda>version.
     bnd (lift_result (validateVersion lib cfg version ''Paymaster'')) (\<lambda>_.
     bnd (set_deployment (\<lambda>d. d\<lparr>dep_relayHubAddress := Some relayHubAddress,
            dep_forwarderAddress := Some forwarderAddress\<rparr>)) (\<lambda>_.
     bnd (modify (\<lambda>s. s\<lparr>ci_paymasterVersion := Some version\<rparr>)) (\<lambda>_.
     resolveDeploymentFromRelayHub ch relayHubAddress))))))))"

definition resolveDeployment ::
  "('w, 'c) hub_contracts_scheme \<Rightarrow> libs \<Rightarrow> interactor_config \<Rightarrow> (('w, 'z) ci_state_scheme, unit) eff" where
  "resolveDeployment ch lib cfg =
     bnd (gets ci_deployment) (\<lambda>d.
     case (dep_paymasterAddress d, dep_relayHubAddress d) of
       (Some _, Some _) \<Rightarrow> ret ()
     | (Some pm, None) \<Rightarrow> resolveDeploymentFromPaymaster ch lib cfg pm
     | (None, Some hub) \<Rightarrow>
         bnd (isContractDeployed ch hub) (\<lambda>deployed.
         if \<not> deployed then throw (''RelayHub: no contract at address '' @ hub)
         else resolveDeploymentFromRelayHub ch hub)
     | (None, None) \<Rightarrow> ret ())"

definition create_if :: "('w, 'c) hub_contracts_scheme \<Rightarrow> bool \<Rightarrow> string \<Rightarrow> string option \<Rightarrow>
    (string \<Rightarrow> instances \<Rightarrow> instances) \<Rightarrow> (('w, 'z) ci_state_scheme, unit) eff" where
  "create_if ch missing kind address f =
     (case address of Some a \<Rightarrow>
        (if missing then bnd (createInstance ch kind a) (\<lambda>x. set_instance (f x)) else ret ())
      | None \<Rightarrow> ret ())"

definition initializeContracts :: "('w, 'c) hub_contracts_scheme \<Rightarrow> (('w, 'z) ci_state_scheme, unit) eff" where
  "initializeContracts ch =
     bnd (gets ci_deployment) (\<lambda>d. bnd (gets contract_instances) (\<lambda>i.
     bnd (create_if ch (in_relayHub i = None) ''IRelayHub'' (dep_relayHubAddress d) (\<lambda>x j. j\<lparr>in_relayHub := Some x\<rparr>)) (\<lambda>_.
     bnd (create_if ch (in_relayRegistrar i = None) ''IRelayRegistrar'' (dep_relayRegistrarAddress d)
            (\<lambda>x j. j\<lparr>in_relayRegistrar := Some x\<rparr>)) (\<lambda>_.
     bnd (create_if ch (in_paymaster i = None) ''IPaymaster'' (dep_paymasterAddress d) (\<lambda>x j. j\<lparr>in_paymaster := Some x\<rparr>)) (\<lambda>_.
     bnd (create_if ch True ''IForwarder'' (dep_forwarderAddress d) (\<lambda>x j. j\<lparr>in_forwarder := Some x\<rparr>)) (\<lambda>_.
     bnd (create_if ch True ''IStakeManager'' (dep_stakeManagerAddress d) (\<lambda>x j. j\<lparr>in_stakeManager := Some x\<rparr>)) (\<lambda>_.
     bnd (create_if ch True ''IPenalizer'' (dep_penalizerAddress d) (\<lambda>x j. j\<lparr>in_penalizer := Some x\<rparr>)) (\<lambda>_.
     create_if ch True ''IERC20Token'' (dep_managerStakeTokenAddress d) (\<lambda>x j. j\<lparr>in_erc20Token := Some x\<rparr>)))))))))"

definition validateCompatibility ::
  "('w, 'c) hub_contracts_scheme \<Rightarrow> libs \<Rightarrow> interactor_config \<Rightarrow> (('w, 'z) ci_state_scheme, unit) eff" where
  "validateCompatibility ch lib cfg =
     bnd (gets (in_relayHub \<circ> contract_instances)) (\<lambda>hub. case hub of None \<Rightarrow> ret ()
     | Some h \<Rightarrow> bnd (on_world (ch_version ch h)) (\<lambda>version.
         lift_result (validateVersion lib cfg version ''RelayHub'')))"

definition initializeNetworkParams :: "('w, 'c) node_scheme \<Rightarrow> (('w, 'z) ci_state_scheme, unit) eff" where
  "initializeNetworkParams ch =
     bnd (on_world (ch_getChainId ch)) (\<lambda>chainId. bnd (on_world (ch_getNetworkId ch)) (\<lambda>networkId.
     modify (\<lambda>s. s\<lparr>ci_rawTxOptions := Some (chainId, networkId)\<rparr>)))"

definition getRawTxOptions :: "(('w, 'z) ci_state_scheme, int \<times> int) eff" where
  "getRawTxOptions =
     bnd (gets ci_rawTxOptions) (\<lambda>o1. case o1 of None \<Rightarrow> throw ''_init not called'' | Some x \<Rightarrow> ret x)"

definition ci_init ::
  "('w, 'c) hub_contracts_scheme \<Rightarrow> libs \<Rightarrow> interactor_config \<Rightarrow> (('w, 'z) ci_state_scheme, unit) eff" where
  "ci_init ch lib cfg =
     bnd (gets ci_rawTxOptions) (\<lambda>raw. if raw \<noteq> None then throw ''init was already called'' else
     bnd (try_catch (on_world (ch_latestBlock ch)) (\<lambda>e. throw (''getBlock('' @ [CHR 0x27] @ ''latest'' @ [CHR 0x27]
            @ '') failed: '' @ error_message e @ [CHR 0x0A] @ ''Check your internet/ethereum node connection''))) (\<lambda>(_, baseFee).
     bnd (when_eff (baseFee \<noteq> None)
            (try_catch (bnd (getFeeHistory ch 1 ''latest'' (1 / 2)) (\<lambda>_. modify (\<lambda>s. s\<lparr>ci_transactionType := TYPE_TWO\<rparr>)))
              (\<lambda>_. modify (\<lambda>s. s\<lparr>ci_transactionType := LEGACY\<rparr>)))) (\<lambda>_.
     bnd (resolveDeployment ch lib cfg) (\<lambda>_.
     bnd (initializeContracts ch) (\<lambda>_.
     bnd (validateCompatibility ch lib cfg) (\<lambda>_.
     bnd (initializeNetworkParams ch) (\<lambda>_.
     bnd (gets (in_relayHub \<circ> contract_instances)) (\<lambda>hub. case hub of None \<Rightarrow> ret ()
     | Some h \<Rightarrow> bnd (on_world (ch_getConfiguration ch h)) (\<lambda>c.
         modify (\<lambda>s. s\<lparr>ci_relayHubConfiguration := Some c\<rparr>))))))))))"

section \<open>Reading the contracts\<close>

definition workerToManager :: "('w, 'c) hub_contracts_scheme \<Rightarrow> string \<Rightarrow> (('w, 'z) ci_state_scheme, string) eff" where
  "workerToManager ch worker = with_instance in_relayHub (\<lambda>h. on_world (ch_getWorkerManager ch h worker))"

definition getMinimumStakePerToken :: "('w, 'c) hub_contracts_scheme \<Rightarrow> string \<Rightarrow> (('w, 'z) ci_state_scheme, int) eff" where
  "getMinimumStakePerToken ch tokenAddress =
     with_instance in_relayHub (\<lambda>h. on_world (ch_getMinimumStakePerToken ch h tokenAddress))"

definition hubBalanceOf :: "('w, 'c) hub_contracts_scheme \<Rightarrow> string \<Rightarrow> (('w, 'z) ci_state_scheme, int) eff" where
  "hubBalanceOf ch address = with_instance in_relayHub (\<lambda>h. on_world (ch_hubBalanceOf ch h address))"

definition getStakeInfo :: "('w, 'c) hub_contracts_scheme \<Rightarrow> string \<Rightarrow> (('w, 'z) ci_state_scheme, StakeInfo) eff" where
  "getStakeInfo ch managerAddress = with_instance in_stakeManager (\<lambda>a. on_world (ch_getStakeInfo ch a managerAddress))"

definition getRelayRegistrationMaxAge :: "('w, 'c) chain_scheme \<Rightarrow> (('w, 'z) ci_state_scheme, int) eff" where
  "getRelayRegistrationMaxAge ch = with_instance in_relayRegistrar (\<lambda>a. on_world (ch_getRelayRegistrationMaxAge ch a))"

definition with_relayUrl :: "registrar_entry \<Rightarrow> RegistrarRelayInfo" where
  "with_relayUrl e = (re_info e)\<lparr>ri_relayUrl := packRelayUrlForRegistrar (re_urlParts e)\<rparr>"

definition getRelayInfo :: "('w, 'c) chain_scheme \<Rightarrow> string \<Rightarrow> (('w, 'z) ci_state_scheme, RegistrarRelayInfo) eff" where
  "getRelayInfo ch relayManagerAddress =
     with_instance in_relayRegistrar (\<lambda>a. with_instance in_relayHub (\<lambda>h.
     bnd (on_world (ch_getRelayInfo ch a h relayManagerAddress)) (\<lambda>e. ret (with_relayUrl e))))"

definition getRegisteredRelays :: "('w, 'c) chain_scheme \<Rightarrow> (('w, 'z) ci_state_scheme, RegistrarRelayInfo list) eff" where
  "getRegisteredRelays ch =
     bnd (gets contract_instances) (\<lambda>i. case in_relayRegistrar i of
       None \<Rightarrow> throw ''Relay Registrar is not initialized''
     | Some a \<Rightarrow> (case in_relayHub i of None \<Rightarrow> throw ''RelayHub is not initialized!''
       | Some h \<Rightarrow> bnd (on_world (ch_readRelayInfos ch a h)) (\<lambda>es. ret (map with_relayUrl es))))"

definition getCreationBlockFromRelayHub :: "('w, 'c) chain_scheme \<Rightarrow> (('w, 'z) ci_state_scheme, int) eff" where
  "getCreationBlockFromRelayHub ch = with_instance in_relayHub (\<lambda>h. on_world (ch_getCreationBlock ch h))"

definition getSenderNonce :: "('w, 'c) chain_scheme \<Rightarrow> string \<Rightarrow> string \<Rightarrow> (('w, 'z) ci_state_scheme, string) eff" where
  "getSenderNonce ch sender forwarderAddress =
     bnd (createInstance ch ''IForwarder'' forwarderAddress) (\<lambda>forwarder.
     bnd (on_world (ch_getForwarderNonce ch forwarder sender)) (\<lambda>nonce. ret (int_to_string nonce)))"

text \<open>A token that has no name, symbol or decimals gets the defaults of the code.\<close>

definition getErc20TokenMetadata :: "('w, 'c) chain_scheme \<Rightarrow> (('w, 'z) ci_state_scheme, string \<times> string \<times> int) eff" where
  "getErc20TokenMetadata ch =
     with_instance in_erc20Token (\<lambda>a.
     bnd (try_catch (on_world (ch_tokenName ch a)) (\<lambda>_. ret (''ERC-20 token '' @ a))) (\<lambda>tokenName.
     bnd (try_catch (on_world (ch_tokenSymbol ch a)) (\<lambda>_. ret (''ERC-20 token '' @ a))) (\<lambda>tokenSymbol.
     bnd (try_catch (on_world (ch_tokenDecimals ch a)) (\<lambda>_. ret 0)) (\<lambda>tokenDecimals.
     ret (tokenName, tokenSymbol, tokenDecimals)))))"

definition ci_formatTokenAmount :: "('w, 'c) chain_scheme \<Rightarrow> libs \<Rightarrow> int \<Rightarrow> (('w, 'z) ci_state_scheme, string) eff" where
  "ci_formatTokenAmount ch lib balance =
     bnd (getErc20TokenMetadata ch) (\<lambda>(_, tokenSymbol, tokenDecimals).
     ret (formatTokenAmount (lib_fromWei lib) balance tokenDecimals tokenSymbol))"

definition getTokenBalanceFormatted :: "('w, 'c) chain_scheme \<Rightarrow> libs \<Rightarrow> string \<Rightarrow> (('w, 'z) ci_state_scheme, string) eff" where
  "getTokenBalanceFormatted ch lib address =
     with_instance in_erc20Token (\<lambda>a. bnd (on_world (ch_tokenBalanceOf ch a address)) (ci_formatTokenAmount ch lib))"

definition getRegisteredWorkers ::
  "('w, 'c) chain_scheme \<Rightarrow> interactor_config \<Rightarrow> (event_data \<Rightarrow> string list) \<Rightarrow> string \<Rightarrow>
   (('w, 'z) ci_state_scheme, string list) eff" where
  "getRegisteredWorkers ch cfg newRelayWorkers managerAddress =
     bnd (getPastEventsForHub ch cfg [Topic (address2topic managerAddress)] (Some (Block 1)) None [''RelayWorkersAdded''])
       (\<lambda>workersAddedEvents. ret (concat (map newRelayWorkers workersAddedEvents)))"

end
