(* ===== verification/InteractorProps.thy ===== *)
theory InteractorProps imports InteractorInit begin

text \<open>
  Properties of the chain access: block numbers never go back, event queries cover the requested range
  exactly once, view calls never throw.
\<close>

section \<open>A node for witnesses\<close>

text \<open>A node that answers nothing; single operations are replaced where a witness needs them.\<close>

definition offline :: "('w, 'a) eff" where
  "offline = throw ''offline''"

definition offline_chain :: "'w chain" where
  "offline_chain =
     \<lparr>ch_getBalance = \<lambda>_ _. offline, ch_getBlockNumber = offline, ch_getTransactionCount = \<lambda>_ _. offline,
      ch_getTransaction = \<lambda>_. offline, ch_getBlock = \<lambda>_. offline, ch_latestBlock = offline,
      ch_estimateGas = \<lambda>_. offline, ch_getGasPrice = offline, ch_getFeeHistory = \<lambda>_ _ _. offline,
      ch_getCode = \<lambda>_. offline, ch_getChainId = offline, ch_getNetworkId = offline, ch_ethCall = \<lambda>_. offline,
      ch_sendRawTransaction = \<lambda>_. offline, ch_getPastEvents = \<lambda>_ _ _ _ _. offline, ch_isAddress = \<lambda>_. True,
      ch_contractAt = \<lambda>_ _. offline, ch_supportsInterface = \<lambda>_ _. offline, ch_version = \<lambda>_. offline,
      ch_getRelayHub = \<lambda>_. offline, ch_getTrustedForwarder = \<lambda>_. offline, ch_getGasAndDataLimits = \<lambda>_ _. offline,
      ch_getStakeManager = \<lambda>_. offline, ch_getPenalizer = \<lambda>_. offline, ch_getRelayRegistrar = \<lambda>_. offline,
      ch_getConfiguration = \<lambda>_. offline, ch_getWorkerManager = \<lambda>_ _. offline,
      ch_getMinimumStakePerToken = \<lambda>_ _. offline, ch_hubBalanceOf = \<lambda>_ _. offline, ch_getStakeInfo = \<lambda>_ _. offline,
      ch_getRelayRegistrationMaxAge = \<lambda>_. offline, ch_getRelayInfo = \<lambda>_ _ _. offline,
      ch_readRelayInfos = \<lambda>_ _. offline, ch_getCreationBlock = \<lambda>_. offline, ch_isTrustedForwarder = \<lambda>_ _. offline,
      ch_getForwarderNonce = \<lambda>_ _. offline, ch_tokenName = \<lambda>_. offline, ch_tokenSymbol = \<lambda>_. offline,
      ch_tokenDecimals = \<lambda>_. offline, ch_tokenBalanceOf = \<lambda>_ _. offline, ch_tokenAllowance = \<lambda>_ _ _. offline\<rparr>"

definition no_deployment :: GSNContractsDeployment where
  "no_deployment = \<lparr>dep_forwarderAddress = None, dep_paymasterAddress = None, dep_penalizerAddress = None,
     dep_relayRegistrarAddress = None, dep_relayHubAddress = None, dep_stakeManagerAddress = None,
     dep_managerStakeTokenAddress = None\<rparr>"

definition no_instances :: instances where
  "no_instances = \<lparr>in_paymaster = None, in_relayHub = None, in_forwarder = None, in_stakeManager = None,
     in_penalizer = None, in_relayRegistrar = None, in_erc20Token = None\<rparr>"

definition fresh_ci :: "'w \<Rightarrow> 'w ci_state" where
  "fresh_ci w = \<lparr>world = w, lastBlockNumber = 0, ci_transactionType = LEGACY, ci_deployment = no_deployment,
     contract_instances = no_instances, ci_relayHubConfiguration = None, ci_rawTxOptions = None, ci_paymasterVersion = None\<rparr>"

definition sample_ci_config :: interactor_config where
  "sample_ci_config = \<lparr>ic_maxPageSize = 10, ic_maxPageCount = 20, ic_environment = ganacheLocal,
     ic_domainSeparatorName = ''GSN'', ic_requiredVersionRange = ''^3.0.0''\<rparr>"

section \<open>Block numbers\<close>

lemma poll_block_keeps: "wp (poll_block ch n b) (\<lambda>_ t. lastBlockNumber t = lastBlockNumber s) (\<lambda>_ _. False) s"
proof (induction n arbitrary: b s)
  case (Suc n)
  have "wp (poll_block ch n b') (\<lambda>_ t. lastBlockNumber t = lastBlockNumber s) (\<lambda>_ _. False) (s\<lparr>world := w\<rparr>)" for b' w
    using Suc.IH [of b' "s\<lparr>world := w\<rparr>"] by simp
  then show ?case by (simp add: wp_simps) (rule impI, rule wp_all, auto simp: wp_simps)
qed (simp add: wp_simps)

lemma getBlockNumber_wp:
  "wp (getBlockNumber ch) (\<lambda>n t. lastBlockNumber s \<le> n \<and> lastBlockNumber t = n)
     (\<lambda>_ t. lastBlockNumber t = lastBlockNumber s) s"
  unfolding getBlockNumber_def
  by (simp add: wp_simps) (rule wp_mono [OF poll_block_keeps], auto simp: wp_simps)

text \<open>
  block numbers never go back: when \<open>getBlockNumber\<close> returns, its result is at least the last block
  number it returned before and becomes the new one; when it throws, the last block number stays. Whatever
  the node answers.
\<close>

theorem getBlockNumber_monotone:
  "case getBlockNumber ch s of
     (Inr n, t) \<Rightarrow> lastBlockNumber s \<le> n \<and> lastBlockNumber t = n
   | (Inl _, t) \<Rightarrow> lastBlockNumber t = lastBlockNumber s"
  using getBlockNumber_wp [of ch s] by (simp add: wp_def split: prod.splits sum.splits)

section \<open>Pages\<close>

lemma ceil_div_bounds:
  assumes "0 < b"
  shows "a \<le> ceil_div a b * b" and "ceil_div a b * b < a + b"
proof -
  have e: "b * ((- a) div b) + (- a) mod b = - a" by (rule mult_div_mod_eq)
  have m: "0 \<le> (- a) mod b" "(- a) mod b < b" using assms by auto
  have "ceil_div a b * b = - (b * ((- a) div b))" by (simp add: ceil_div_def)
  then show "a \<le> ceil_div a b * b" and "ceil_div a b * b < a + b" using e m by linarith+
qed

lemma ceil_div_pos:
  assumes "0 < a" and "0 < b"
  shows "0 < ceil_div a b"
proof -
  have "0 < ceil_div a b * b" using ceil_div_bounds(1) [OF assms(2), of a] assms(1) by linarith
  then show ?thesis using assms(2) by (simp add: zero_less_mult_iff)
qed

fun page_blocks :: "BlockNumber \<times> BlockNumber \<Rightarrow> int list" where
  "page_blocks (Block a, Block b) = [a..b]"
| "page_blocks _ = []"

lemma upto_append: "a \<le> b \<Longrightarrow> b \<le> c \<Longrightarrow> [a..b] @ [b + 1..c] = [a..c]"
  using upto_split2 [of a b c] by simp

lemma split_loop_blocks:
  "0 < k \<Longrightarrow> concat (map page_blocks (split_loop b t k)) = [b..t]"
proof (induction b t k rule: split_loop.induct)
  case (1 b t k)
  show ?case
  proof (cases "b \<le> t")
    case True
    then have IH: "concat (map page_blocks (split_loop (b + k) t k)) = [b + k..t]" using 1 by simp
    show ?thesis
    proof (cases "b + k - 1 \<le> t")
      case le: True
      then show ?thesis
        using True "1.prems" IH upto_append [of b "b + k - 1" t] by (subst split_loop.simps) simp
    next
      case False
      then show ?thesis using True "1.prems" IH by (subst split_loop.simps) simp
    qed
  next
    case False
    then show ?thesis by (subst split_loop.simps) simp
  qed
qed

lemma split_loop_pages:
  "0 < k \<Longrightarrow> p \<in> set (split_loop b t k) \<Longrightarrow>
   \<exists>x y. p = (Block x, Block y) \<and> b \<le> x \<and> x \<le> y \<and> y \<le> t \<and> y - x + 1 \<le> k"
proof (induction b t k rule: split_loop.induct)
  case (1 b t k)
  show ?case
  proof (cases "b \<le> t")
    case True
    then have "p = (Block b, Block (min t (b + k - 1))) \<or> p \<in> set (split_loop (b + k) t k)"
      using "1.prems" by (subst (asm) split_loop.simps) simp
    then show ?thesis
    proof
      assume "p \<in> set (split_loop (b + k) t k)"
      then obtain x y where "p = (Block x, Block y)" "b + k \<le> x" "x \<le> y" "y \<le> t" "y - x + 1 \<le> k"
        using "1.IH" True "1.prems"(1) by blast
      then show ?thesis using "1.prems"(1) by (intro exI [of _ x] exI [of _ y]) simp
    qed (use True "1.prems"(1) in auto)
  next
    case False
    then show ?thesis using "1.prems" by (subst (asm) split_loop.simps) simp
  qed
qed

lemma splitRange_blocks:
  assumes "f \<le> t" and "1 \<le> parts"
  obtains rs where "splitRange (Block f) (Block t) parts = Inr rs"
    and "concat (map page_blocks rs) = [f..t]"
    and "\<forall>p\<in>set rs. \<exists>x y. p = (Block x, Block y) \<and> f \<le> x \<and> x \<le> y \<and> y \<le> t \<and> y - x + 1 \<le> ceil_div (t - f + 1) parts"
proof (cases "parts = 1")
  case True
  then show thesis using that [of "[(Block f, Block t)]"] assms by (simp add: splitRange_def ceil_div_def)
next
  case False
  have "0 < ceil_div (t - f + 1) parts" using assms by (intro ceil_div_pos) auto
  then show thesis
    using that [of "split_loop f t (ceil_div (t - f + 1) parts)"] False split_loop_blocks split_loop_pages
    by (simp add: splitRange_def)
qed

lemma pages_within_limit:
  assumes "f \<le> t" and "0 < m"
  shows "ceil_div (t - f + 1) (max (ceil_div (t - f + 1) m) 1) \<le> m"
proof -
  let ?n = "t - f + 1" and ?c = "ceil_div (t - f + 1) m"
  have c: "0 < ?c" using assms by (intro ceil_div_pos) auto
  have a: "ceil_div ?n ?c * ?c < ?n + ?c" by (rule ceil_div_bounds(2) [OF c])
  have b: "?n \<le> ?c * m" by (rule ceil_div_bounds(1) [OF assms(2)])
  have "(m + 1) * ?c = ?c * m + ?c" by (simp add: distrib_right)
  then have "ceil_div ?n ?c * ?c < (m + 1) * ?c" using a b by linarith
  then have "ceil_div ?n ?c < m + 1" using c by (simp add: mult_less_cancel_right)
  then show ?thesis using c by simp
qed

text \<open>
  the pages of a block range hold every block of the range once and in order, and none is larger than
  the configured page size.
\<close>

theorem pages_cover_range:
  assumes "f \<le> t" and "0 < ic_maxPageSize cfg" and "ic_maxPageSize cfg \<noteq> MAX_SAFE_INTEGER"
    and "getLogsPagesForRange cfg (Block f) (Block t) = Inr (rangeSize, pages)"
  shows "\<exists>rs. splitRange (Block f) (Block t) pages = Inr rs \<and> concat (map page_blocks rs) = [f..t]
    \<and> list_all (\<lambda>p. int (length (page_blocks p)) \<le> ic_maxPageSize cfg) rs"
proof -
  have p: "pages = max (ceil_div (t - f + 1) (ic_maxPageSize cfg)) 1"
    using assms(3,4) by (auto simp: getLogsPagesForRange_def Let_def)
  then have "1 \<le> pages" by simp
  then obtain rs where rs: "splitRange (Block f) (Block t) pages = Inr rs" "concat (map page_blocks rs) = [f..t]"
    and "\<forall>q\<in>set rs. \<exists>x y. q = (Block x, Block y) \<and> f \<le> x \<and> x \<le> y \<and> y \<le> t \<and> y - x + 1 \<le> ceil_div (t - f + 1) pages"
    by (rule splitRange_blocks [OF assms(1)])
  then have "list_all (\<lambda>p. int (length (page_blocks p)) \<le> ic_maxPageSize cfg) rs"
    using pages_within_limit [OF assms(1,2)] p by (fastforce simp: list_all_iff)
  then show ?thesis using rs by blast
qed

theorem pages_cover_range_witness:
  "\<exists>rs. splitRange (Block 5) (Block 27) 3 = Inr rs \<and> concat (map page_blocks rs) = [5..27]
    \<and> list_all (\<lambda>p. int (length (page_blocks p)) \<le> ic_maxPageSize sample_ci_config) rs"
  by (rule pages_cover_range [of 5 27 sample_ci_config 23 3])
    (simp_all add: sample_ci_config_def MAX_SAFE_INTEGER_def getLogsPagesForRange_def ceil_div_def)

section \<open>Event queries\<close>

definition in_blocks :: "int \<Rightarrow> int \<Rightarrow> event_data \<Rightarrow> bool" where
  "in_blocks a b e \<longleftrightarrow> a \<le> ed_blockNumber e \<and> ed_blockNumber e \<le> b"

text \<open>
  A node whose answer to a query on a block range is the events of the range. It may refuse a query, at
  any moment and for any range, with one of the errors \<open>refusal\<close>, and its state may change.
\<close>

definition right_pages ::
  "('w, 'c) node_scheme \<Rightarrow> string \<Rightarrow> string list \<Rightarrow> topic list \<Rightarrow> event_data list \<Rightarrow> (js_error \<Rightarrow> bool) \<Rightarrow> bool" where
  "right_pages ch contract names extraTopics evs refusal \<longleftrightarrow>
     (\<forall>a b w. case fst (ch_getPastEvents ch contract names extraTopics (Block a) (Block b) w) of
        Inr es \<Rightarrow> es = filter (in_blocks a b) evs
      | Inl e \<Rightarrow> refusal e)"

text \<open>The errors on which the query is split into smaller pages.\<close>

abbreviation too_many_events :: "js_error \<Rightarrow> bool" where
  "too_many_events e \<equiv> str_includes ''query returned more than'' (error_message e)"

abbreviation page_events :: "event_data list \<Rightarrow> BlockNumber \<times> BlockNumber \<Rightarrow> event_data list" where
  "page_events evs p \<equiv> filter (\<lambda>e. ed_blockNumber e \<in> set (page_blocks p)) evs"

lemma fetch_page_right:
  assumes "right_pages ch c n x evs refusal" and "0 < tries"
  shows "case fst (fetch_page ch tries c n x (Block a, Block b) s) of
      Inr es \<Rightarrow> es = page_events evs (Block a, Block b) | Inl e \<Rightarrow> refusal e"
  using assms(2)
proof (induction tries arbitrary: s)
  case (Suc k)
  have page: "page_events evs (Block a, Block b) = filter (in_blocks a b) evs"
    by (simp add: in_blocks_def cong: filter_cong)
  have answer: "case fst (ch_getPastEvents ch c n x (Block a) (Block b) (world s)) of
      Inr es \<Rightarrow> es = filter (in_blocks a b) evs | Inl e \<Rightarrow> refusal e"
    using assms(1) unfolding right_pages_def by blast
  show ?case
  proof (cases "ch_getPastEvents ch c n x (Block a) (Block b) (world s)")
    case (Pair r w)
    then show ?thesis
      using answer Suc.IH [of "s\<lparr>world := w\<rparr>"] page
      by (cases r; cases k) (simp_all add: try_catch_def on_world_def zoom_def raise_def)
  qed
qed simp

lemma fetch_pages_right:
  assumes "right_pages ch c n x evs refusal" and "\<forall>p\<in>set rs. \<exists>a b. p = (Block a, Block b)"
  shows "\<exists>e got. fst (fetch_pages ch c n x rs acc s) = Inr (e, acc @ map (page_events evs) got) \<and> set got \<subseteq> set rs
    \<and> (case e of None \<Rightarrow> got = rs | Some e \<Rightarrow> refusal e)"
  using assms(2)
proof (induction rs arbitrary: acc s)
  case (Cons p rs)
  then obtain a b where p: "p = (Block a, Block b)" by auto
  obtain r s' where r: "fetch_page ch 100 c n x p s = (r, s')" by fastforce
  have page: "case r of Inr es \<Rightarrow> es = page_events evs p | Inl e \<Rightarrow> refusal e"
    using fetch_page_right [OF assms(1), of 100 a b s] r unfolding p by simp
  show ?case
  proof (cases r)
    case (Inl e)
    then show ?thesis using r page by (auto simp: bnd_def try_catch_def intro!: exI [of _ "Some e"] exI [of _ "[]"])
  next
    case (Inr es)
    obtain e got where "fst (fetch_pages ch c n x rs (acc @ [es]) s') = Inr (e, (acc @ [es]) @ map (page_events evs) got)"
      and "set got \<subseteq> set rs" and "case e of None \<Rightarrow> got = rs | Some e \<Rightarrow> refusal e"
      using Cons.IH Cons.prems by (metis list.set_intros(2))
    then show ?thesis using Inr r page
      by (intro exI [of _ e] exI [of _ "p # got"]) (auto simp: bnd_def try_catch_def split: option.splits)
  qed
qed simp

lemma filter_sorted_split:
  "sorted (map g es) \<Longrightarrow> (\<And>a b. a \<in> set xs \<Longrightarrow> b \<in> set ys \<Longrightarrow> a < (b :: int)) \<Longrightarrow>
   filter (\<lambda>e. g e \<in> set xs) es @ filter (\<lambda>e. g e \<in> set ys) es = filter (\<lambda>e. g e \<in> set (xs @ ys)) es"
proof (induction es)
  case (Cons e es)
  show ?case
  proof (cases "g e \<in> set ys")
    case True
    then have "g e' \<notin> set xs" if "e' \<in> set (e # es)" for e'
      using Cons.prems(1,2) that by (auto dest!: bspec intro: ) (meson leD)
    then have "filter (\<lambda>e. g e \<in> set xs) (e # es) = []" by (simp add: filter_empty_conv)
    moreover have "filter (\<lambda>e. g e \<in> set (xs @ ys)) (e # es) = filter (\<lambda>e. g e \<in> set ys) (e # es)"
      using \<open>\<And>e'. e' \<in> set (e # es) \<Longrightarrow> g e' \<notin> set xs\<close> by (intro filter_cong) auto
    ultimately show ?thesis by simp
  next
    case False
    then show ?thesis using Cons by auto
  qed
qed simp

lemma concat_filter_pages:
  "sorted (map g es) \<Longrightarrow> sorted_wrt (<) (concat xss) \<Longrightarrow>
   concat (map (\<lambda>xs. filter (\<lambda>e. g e \<in> set xs) es) xss) = filter (\<lambda>e. g e \<in> set (concat xss :: int list)) es"
proof (induction xss)
  case (Cons xs xss)
  have "a < b" if "a \<in> set xs" "b \<in> set (concat xss)" for a b
    using Cons.prems(2) that unfolding concat.simps sorted_wrt_append by blast
  then have "filter (\<lambda>e. g e \<in> set xs) es @ filter (\<lambda>e. g e \<in> set (concat xss)) es
      = filter (\<lambda>e. g e \<in> set (xs @ concat xss)) es"
    by (rule filter_sorted_split [OF Cons.prems(1)])
  then show ?case using Cons by (simp add: sorted_wrt_append)
qed simp

lemma split_pages:
  assumes "f \<le> t" and "1 \<le> pages"
  obtains rs where "splitRange (Block f) (Block t) pages = Inr rs"
    and "\<forall>p\<in>set rs. \<exists>a b. p = (Block a, Block b)"
    and "\<And>evs. sorted (map ed_blockNumber evs) \<Longrightarrow> concat (map (page_events evs) rs) = filter (in_blocks f t) evs"
    and "\<And>evs. (\<Union>p\<in>set rs. set (page_events evs p)) = set (filter (in_blocks f t) evs)"
proof -
  obtain rs where rs: "splitRange (Block f) (Block t) pages = Inr rs" "concat (map page_blocks rs) = [f..t]"
    and shape: "\<forall>p\<in>set rs. \<exists>a b. p = (Block a, Block b)"
    by (rule splitRange_blocks [OF assms]) blast
  have less: "sorted_wrt (<) (concat (map page_blocks rs))" using rs(2) by simp
  have "concat (map (page_events evs) rs) = filter (in_blocks f t) evs" if "sorted (map ed_blockNumber evs)" for evs
    using concat_filter_pages [OF that less] rs(2) by (simp add: comp_def in_blocks_def cong: filter_cong)
  moreover have "(\<Union>p\<in>set rs. set (page_events evs p)) = set (filter (in_blocks f t) evs)" for evs
  proof -
    have "(\<Union>p\<in>set rs. set (page_blocks p)) = {f..t}" using arg_cong [OF rs(2), of set] by simp
    then show ?thesis by (fastforce simp: in_blocks_def)
  qed
  ultimately show thesis using that rs(1) shape by blast
qed

lemma paged_events_right:
  assumes "right_pages ch c n x evs refusal" and "sorted (map ed_blockNumber evs)" and "f \<le> t" and "1 \<le> pages"
    and "set (concat acc) \<subseteq> set (filter (in_blocks f t) evs)"
  shows "case fst (paged_events ch c n x (Block f) (Block t) pages acc s) of
      Inr es \<Rightarrow> set es = set (filter (in_blocks f t) evs) \<and>
        (acc = [] \<and> (\<forall>e. refusal e \<longrightarrow> \<not> too_many_events e) \<longrightarrow> es = filter (in_blocks f t) evs)
    | Inl e \<Rightarrow> refusal e \<or> (\<exists>k>16. e = Error (''Too many events after splitting by '' @ int_to_string k)) \<and>
        (\<exists>e. refusal e \<and> too_many_events e)"
  using assms(4,5)
proof (induction "nat (17 - pages)" arbitrary: pages acc s rule: less_induct)
  case less
  obtain rs where rs: "splitRange (Block f) (Block t) pages = Inr rs"
    and shape: "\<forall>p\<in>set rs. \<exists>a b. p = (Block a, Block b)"
    and all: "concat (map (page_events evs) rs) = filter (in_blocks f t) evs"
    and within: "(\<Union>p\<in>set rs. set (page_events evs p)) = set (filter (in_blocks f t) evs)"
    by (rule split_pages [OF assms(3) less.prems(1)]) (use assms(2) in blast)
  obtain e got s' where pages: "fetch_pages ch c n x rs acc s = (Inr (e, acc @ map (page_events evs) got), s')"
    and got: "set got \<subseteq> set rs" "case e of None \<Rightarrow> got = rs | Some e \<Rightarrow> refusal e"
    using fetch_pages_right [OF assms(1) shape, of acc s] by (metis prod.collapse)
  show ?case
  proof (cases e)
    case None
    then show ?thesis using rs pages got less.prems(2) all
      by (subst paged_events.simps) (auto simp: bnd_def)
  next
    case (Some e')
    have parts: "set (concat (acc @ map (page_events evs) got)) \<subseteq> set (filter (in_blocks f t) evs)"
      using less.prems(2) got(1) within by fastforce
    have again: "too_many_events e' \<Longrightarrow> \<not> 16 < pages \<Longrightarrow> ?thesis"
      using less.hyps [of "pages * 4" "acc @ map (page_events evs) got" s'] less.prems(1) parts rs pages got Some
      by (subst paged_events.simps) (auto simp: bnd_def split: sum.splits)
    show ?thesis
    proof (cases "too_many_events e' \<and> \<not> 16 < pages")
      case True then show ?thesis using again by simp
    next
      case False
      then show ?thesis using rs pages got Some
        by (subst paged_events.simps) (auto simp: bnd_def raise_def)
    qed
  qed
qed

text \<open>
  C39: a paginated event query over a range of blocks, on a node whose answer to a page is the events of
  the page and which may refuse any page at any time. When the query returns, every event of the range is
  in the result and nothing else is; every event is there once and in order when no refusal is of the kind
  that makes the code split the range again (after such a refusal events may be repeated, as
  \<open>split_again_duplicates\<close> shows). The query fails only with a refusal of the node, because the range
  needs more pages than configured, or because the node still finds too many events in pages of a split
  by more than 16; so on a node that refuses nothing it fails only for the number of pages.
\<close>

theorem getPastEvents_exact:
  assumes "right_pages ch contract names extraTopics evs refusal"
    and "sorted (map ed_blockNumber evs)" and "f \<le> t"
  shows "case fst (getPastEventsPaginated ch cfg contract names extraTopics (Some (Block f)) (Some (Block t)) s) of
      Inr es \<Rightarrow> set es = set (filter (in_blocks f t) evs) \<and>
        ((\<forall>e. refusal e \<longrightarrow> \<not> too_many_events e) \<longrightarrow> es = filter (in_blocks f t) evs)
    | Inl e \<Rightarrow> refusal e
        \<or> (\<exists>size pages. getLogsPagesForRange cfg (Block f) (Block t) = Inr (size, pages) \<and> ic_maxPageCount cfg < pages)
        \<or> (\<exists>k>16. e = Error (''Too many events after splitting by '' @ int_to_string k)) \<and>
            (\<exists>e. refusal e \<and> too_many_events e)"
proof -
  obtain size pages where log: "getLogsPagesForRange cfg (Block f) (Block t) = Inr (size, pages)"
    and "1 \<le> pages"
    by (cases "ic_maxPageSize cfg = MAX_SAFE_INTEGER") (simp_all add: getLogsPagesForRange_def Let_def)
  with paged_events_right [OF assms this(2), of "[]" s] assms(3) show ?thesis
    by (auto simp: getPastEventsPaginated_def resolve_toBlock_def block_greater_def bnd_def split: sum.splits)
qed

definition ev_at :: "int \<Rightarrow> event_data" where
  "ev_at b = \<lparr>ed_event = ''RelayWorkersAdded'', ed_blockNumber = b, ed_transactionIndex = 0,
     ed_transactionHash = int_to_string b, ed_returnValues = []\<rparr>"

definition event_chain :: "event_data list \<Rightarrow> unit chain" where
  "event_chain evs = offline_chain\<lparr>ch_getPastEvents := \<lambda>_ _ _ a b.
     (case (a, b) of (Block x, Block y) \<Rightarrow> ret (filter (in_blocks x y) evs) | _ \<Rightarrow> offline)\<rparr>"

theorem getPastEvents_exact_witness:
  "fst (getPastEventsPaginated (event_chain [ev_at 3, ev_at 14, ev_at 15]) sample_ci_config ''0xcc'' [] []
      (Some (Block 1)) (Some (Block 14)) (fresh_ci ()))
    = Inr [ev_at 3, ev_at 14]"
proof -
  have "right_pages (event_chain evs) ''0xcc'' [] [] evs (\<lambda>_. False)" for evs
    by (simp add: right_pages_def event_chain_def)
  from getPastEvents_exact [OF this, of "[ev_at 3, ev_at 14, ev_at 15]" 1 14 sample_ci_config "fresh_ci ()"]
  show ?thesis
    by (auto simp: ev_at_def in_blocks_def getLogsPagesForRange_def sample_ci_config_def MAX_SAFE_INTEGER_def
        ceil_div_def split: sum.splits)
qed

section \<open>Pages that are asked for again\<close>

text \<open>A node that refuses a page with more than one event, as RPC providers with a result limit do.\<close>

definition limited_chain :: "event_data list \<Rightarrow> unit chain" where
  "limited_chain evs = offline_chain\<lparr>ch_getPastEvents := \<lambda>_ _ _ a b.
     (case (a, b) of (Block x, Block y) \<Rightarrow>
        (if length (filter (in_blocks x y) evs) > 1 then throw ''query returned more than 1 results''
         else ret (filter (in_blocks x y) evs))
      | _ \<Rightarrow> offline)\<rparr>"

lemma fetch_page_refused:
  assumes "ch_getPastEvents ch c n x a b = throw m" and "0 < tries"
  shows "fetch_page ch tries c n x (a, b) s = (Inl (Error m), s)"
  using assms(2)
proof (induction tries)
  case (Suc k)
  then show ?case using assms(1) by (cases k) (simp_all add: try_catch_def on_world_def zoom_def)
qed simp

lemma fetch_page_answered:
  "ch_getPastEvents ch c n x a b = ret es \<Longrightarrow> 0 < tries \<Longrightarrow> fetch_page ch tries c n x (a, b) s = (Inr es, s)"
  by (cases tries) (simp_all add: try_catch_def on_world_def zoom_def)

lemma limited_page:
  "0 < tries \<Longrightarrow> fetch_page (limited_chain evs) tries c n x (Block a, Block b) s =
   (if length (filter (in_blocks a b) evs) > 1 then Inl (Error ''query returned more than 1 results'')
    else Inr (filter (in_blocks a b) evs), s)"
  using fetch_page_refused [of "limited_chain evs" c n x "Block a" "Block b" "''query returned more than 1 results''" tries s]
    fetch_page_answered [of "limited_chain evs" c n x "Block a" "Block b" "filter (in_blocks a b) evs" tries s]
  by (simp add: limited_chain_def)

text \<open>
  when a node refuses a later page because it has too many events, the query is split again and the
  pages that had succeeded are fetched again, but their events are not dropped: the event of block 5 is
  returned twice.
\<close>

theorem split_again_duplicates:
  "fst (getPastEventsPaginated (limited_chain [ev_at 5, ev_at 15, ev_at 16]) sample_ci_config ''0xcc'' [] []
      (Some (Block 1)) (Some (Block 20)) (fresh_ci ()))
    = Inr [ev_at 5, ev_at 5, ev_at 15, ev_at 16]"
  by (simp add: getPastEventsPaginated_def resolve_toBlock_def block_greater_def bnd_def sample_ci_config_def
      getLogsPagesForRange_def MAX_SAFE_INTEGER_def ceil_div_def paged_events.simps splitRange_def split_loop.simps
      limited_page in_blocks_def ev_at_def try_catch_def starts_with_def)

end
