(* ===== verification/ServerConfig.thy ===== *)
theory ServerConfig imports InteractorInit Reputation begin

text \<open>
  \<open>packages/relay/src/ServerConfigParams.ts\<close>: the configuration of the server, its defaults, how it is read
  from command line, environment and file, and how it is validated. A configuration object that is not yet
  complete is an association list of values; the command line parser \<open>minimist\<close>, the file system and
  \<open>JSON.parse\<close> are arguments.
\<close>

section \<open>The parameters\<close>

text \<open>The interface in two parts; amounts and times are ints, factors are rationals.\<close>

datatype LoggingProviderMode = LNONE | LDURATION | LALL | LCHATTY

record ServerConfigBase =
  sc_ownerAddress :: string
  sc_url :: string
  sc_port :: int
  sc_relayHubAddress :: string
  sc_ethereumNodeUrl :: string
  sc_workdir :: string
  sc_checkInterval :: int
  sc_devMode :: bool
  sc_loggingProvider :: int
  sc_maxAcceptanceBudget :: int
  sc_alertedDelaySeconds :: int
  sc_minAlertedDelayMS :: int
  sc_maxAlertedDelayMS :: int
  sc_trustedPaymasters :: "string list"
  sc_blacklistedPaymasters :: "string list"
  sc_blacklistedRecipients :: "string list"
  sc_whitelistedPaymasters :: "string list"
  sc_whitelistedRecipients :: "string list"
  sc_gasPriceFactor :: rat
  sc_gasPriceOracleUrl :: string
  sc_gasPriceOraclePath :: string
  sc_logLevel :: string
  sc_loggerUrl :: string
  sc_loggerUserId :: string
  sc_etherscanApiUrl :: string
  sc_etherscanApiKey :: string

record ServerConfigParams = ServerConfigBase +
  sc_workerMinBalance :: int
  sc_workerTargetBalance :: int
  sc_managerMinBalance :: int
  sc_managerTargetBalance :: int
  sc_managerStakeTokenAddress :: string
  sc_withdrawToOwnerOnBalance :: "int option"
  sc_refreshStateTimeoutBlocks :: int
  sc_pendingTransactionTimeoutSeconds :: int
  sc_dbPruneTxAfterBlocks :: int
  sc_dbPruneTxAfterSeconds :: int
  sc_dbAutoCompactionInterval :: int
  sc_retryGasPriceFactor :: rat
  sc_maxMaxFeePerGas :: string
  sc_getGasFeesBlocks :: int
  sc_getGasFeesPercentile :: rat
  sc_defaultPriorityFee :: string
  sc_defaultGasLimit :: int
  sc_requestMinValidSeconds :: int
  sc_runPenalizer :: bool
  sc_runPaymasterReputations :: bool
  sc_requiredVersionRange :: "string option"
  sc_pastEventsQueryMaxPageSize :: int
  sc_pastEventsQueryMaxPageCount :: int
  sc_environmentName :: "string option"
  sc_recentActionAvoidRepeatDistanceBlocks :: int
  sc_skipErc165Check :: bool

definition serverDefaultConfiguration :: ServerConfigParams where
  "serverDefaultConfiguration =
     \<lparr>sc_ownerAddress = ZERO_ADDRESS,
      sc_url = ''http://localhost:8090'',
      sc_port = 8090,
      sc_relayHubAddress = ZERO_ADDRESS,
      sc_ethereumNodeUrl = [],
      sc_workdir = [],
      sc_checkInterval = 10000,
      sc_devMode = False,
      sc_loggingProvider = 0,
      sc_maxAcceptanceBudget = pc_acceptanceBudget (env_paymasterConfiguration ganacheLocal)
        + env_dataOnChainHandlingGasCostPerByte ganacheLocal
          * pc_calldataSizeLimit (env_paymasterConfiguration ganacheLocal),
      sc_alertedDelaySeconds = 0,
      sc_minAlertedDelayMS = 0,
      sc_maxAlertedDelayMS = 0,
      sc_trustedPaymasters = [],
      sc_blacklistedPaymasters = [],
      sc_blacklistedRecipients = [],
      sc_whitelistedPaymasters = [],
      sc_whitelistedRecipients = [],
      sc_gasPriceFactor = 1,
      sc_gasPriceOracleUrl = [],
      sc_gasPriceOraclePath = [],
      sc_logLevel = ''debug'',
      sc_loggerUrl = [],
      sc_loggerUserId = [],
      sc_etherscanApiUrl = [],
      sc_etherscanApiKey = [],
      sc_workerMinBalance = 10 ^ 17,
      sc_workerTargetBalance = 3 * 10 ^ 17,
      sc_managerMinBalance = 10 ^ 17,
      sc_managerTargetBalance = 3 * 10 ^ 17,
      sc_managerStakeTokenAddress = ZERO_ADDRESS,
      sc_withdrawToOwnerOnBalance = None,
      sc_refreshStateTimeoutBlocks = 5,
      sc_pendingTransactionTimeoutSeconds = 300,
      sc_dbPruneTxAfterBlocks = 12,
      sc_dbPruneTxAfterSeconds = 3600,
      sc_dbAutoCompactionInterval = 604800000,
      sc_retryGasPriceFactor = 6 / 5,
      sc_maxMaxFeePerGas = ''500000000000'',
      sc_getGasFeesBlocks = 5,
      sc_getGasFeesPercentile = 50,
      sc_defaultPriorityFee = ''1000000000'',
      sc_defaultGasLimit = 500000,
      sc_requestMinValidSeconds = 43200,
      sc_runPenalizer = True,
      sc_runPaymasterReputations = True,
      sc_requiredVersionRange = None,
      sc_pastEventsQueryMaxPageSize = MAX_SAFE_INTEGER,
      sc_pastEventsQueryMaxPageCount = 20,
      sc_environmentName = None,
      sc_recentActionAvoidRepeatDistanceBlocks = 10,
      sc_skipErc165Check = False\<rparr>"

section \<open>Reading the parameters\<close>

datatype cfg_val = CStr string | CNum rat | CBool bool | CList "string list"

type_synonym cfg_obj = "(string \<times> cfg_val) list"

definition ConfigParamsTypes :: "(string \<times> string) list" where
  "ConfigParamsTypes =
     [(''ownerAddress'', ''string''), (''config'', ''string''), (''url'', ''string''), (''port'', ''number''),
      (''relayHubAddress'', ''string''), (''gasPriceFactor'', ''number''), (''gasPriceOracleUrl'', ''string''),
      (''gasPriceOraclePath'', ''string''), (''ethereumNodeUrl'', ''string''), (''workdir'', ''string''),
      (''checkInterval'', ''number''), (''devMode'', ''boolean''), (''loggingProvider'', ''number''),
      (''logLevel'', ''string''), (''loggerUrl'', ''string''), (''loggerUserId'', ''string''),
      (''customerToken'', ''string''), (''hostOverride'', ''string''), (''userId'', ''string''),
      (''maxAcceptanceBudget'', ''number''), (''alertedDelaySeconds'', ''number''),
      (''workerMinBalance'', ''number''), (''workerTargetBalance'', ''number''),
      (''managerMinBalance'', ''number''), (''managerMinStake'', ''string''),
      (''managerStakeTokenAddress'', ''string''), (''managerTargetBalance'', ''number''),
      (''withdrawToOwnerOnBalance'', ''number''), (''defaultGasLimit'', ''number''),
      (''requestMinValidSeconds'', ''number''), (''trustedPaymasters'', ''list''),
      (''blacklistedPaymasters'', ''list''), (''blacklistedRecipients'', ''list''),
      (''whitelistedPaymasters'', ''list''), (''whitelistedRecipients'', ''list''),
      (''runPenalizer'', ''boolean''), (''etherscanApiUrl'', ''string''), (''etherscanApiKey'', ''string''),
      (''initialReputation'', ''number''), (''requiredVersionRange'', ''string''),
      (''dbAutoCompactionInterval'', ''number''), (''retryGasPriceFactor'', ''number''),
      (''runPaymasterReputations'', ''boolean''), (''refreshStateTimeoutBlocks'', ''number''),
      (''pendingTransactionTimeoutSeconds'', ''number''), (''minAlertedDelayMS'', ''number''),
      (''maxAlertedDelayMS'', ''number''), (''maxMaxFeePerGas'', ''string''), (''getGasFeesBlocks'', ''number''),
      (''getGasFeesPercentile'', ''number''), (''defaultPriorityFee'', ''string''),
      (''pastEventsQueryMaxPageSize'', ''number''), (''pastEventsQueryMaxPageCount'', ''number''),
      (''dbPruneTxAfterBlocks'', ''number''), (''dbPruneTxAfterSeconds'', ''number''),
      (''environmentName'', ''string''), (''recentActionAvoidRepeatDistanceBlocks'', ''number''),
      (''skipErc165Check'', ''boolean'')]"

definition filterType :: "(string \<times> string) list \<Rightarrow> string \<Rightarrow> string list" where
  "filterType config type1 = concat (map (\<lambda>e. if snd e = type1 then [fst e] else []) config)"

text \<open>An object built from entries: a later entry of a key replaces the value and keeps the place.\<close>

definition entriesToObj :: "(string \<times> 'v) list \<Rightarrow> (string \<times> 'v) list" where
  "entriesToObj entries = foldl (\<lambda>o1 (k, v). map_set k v o1) [] entries"

definition filterMembers :: "(string \<times> 'v) list \<Rightarrow> (string \<times> 'c) list \<Rightarrow> (string \<times> 'v) list" where
  "filterMembers env config = entriesToObj (filter (\<lambda>e. map_of config (fst e) \<noteq> None) env)"

text \<open>\<open>parseFloat\<close> of a decimal numeral: sign, digits, fraction, exponent; the longest prefix counts.\<close>

definition parse_exponent :: "string \<Rightarrow> int" where
  "parse_exponent s =
     (case s of c # t \<Rightarrow>
        if c = CHR ''e'' \<or> c = CHR ''E'' then
          (let (sg, u) = strip_sign t in (case parse_prefix 10 u of Some n \<Rightarrow> sg * n | None \<Rightarrow> 0))
        else 0
      | [] \<Rightarrow> 0)"

definition ten_power :: "int \<Rightarrow> rat" where
  "ten_power e = (if e \<ge> 0 then 10 ^ nat e else 1 / 10 ^ nat (- e))"

definition parseFloat :: "string \<Rightarrow> rat option" where
  "parseFloat s =
     (let (sg, t) = strip_sign (dropWhile is_space_char s);
          ds = takeWhile (\<lambda>c. digit_val c < 10) t;
          rest = drop (length ds) t;
          frac = (case rest of c # u \<Rightarrow> if c = CHR ''.'' then takeWhile (\<lambda>c. digit_val c < 10) u else [] | [] \<Rightarrow> []);
          rest' = (case rest of c # u \<Rightarrow> if c = CHR ''.'' then drop (length frac) u else rest | [] \<Rightarrow> [])
      in if ds = [] \<and> frac = [] then None
         else Some (of_int sg * of_nat (digits_val 10 (ds @ frac)) * ten_power (parse_exponent rest' - int (length frac))))"

text \<open>\<open>parseFloat\<close> turns its argument into a string first; a boolean or a list gives no number.\<close>

definition val_number :: "cfg_val \<Rightarrow> rat option" where
  "val_number v = (case v of CStr s \<Rightarrow> parseFloat s | CNum n \<Rightarrow> Some n | CBool _ \<Rightarrow> None
     | CList l \<Rightarrow> (case l of s # _ \<Rightarrow> parseFloat s | [] \<Rightarrow> None))"

definition show_val :: "cfg_val \<Rightarrow> string" where
  "show_val v = (case v of CStr s \<Rightarrow> s | CNum n \<Rightarrow> int_to_string \<lfloor>n\<rfloor>
     | CBool b \<Rightarrow> (if b then ''true'' else ''false'') | CList l \<Rightarrow> concat l)"

definition explicitType :: "string \<times> cfg_val \<Rightarrow> js_error + (string \<times> cfg_val)" where
  "explicitType = (\<lambda>(key, val).
     case map_of ConfigParamsTypes key of
       None \<Rightarrow> Inl (Error (''unexpected param '' @ key @ ''='' @ show_val val))
     | Some ty \<Rightarrow>
         (let invalid = Inl (Error (''Invalid '' @ ty @ '': '' @ key @ '' = '' @ show_val val)) in
          if ty = ''boolean'' then
            (if val = CStr ''true'' \<or> val = CBool True then Inr (key, CBool True)
             else if val = CStr ''false'' \<or> val = CBool False then Inr (key, CBool False)
             else invalid)
          else if ty = ''number'' then
            (case val_number val of Some v \<Rightarrow> Inr (key, CNum v) | None \<Rightarrow> invalid)
          else Inr (key, val)))"

fun map_result :: "('a \<Rightarrow> 'e + 'b) \<Rightarrow> 'a list \<Rightarrow> 'e + 'b list" where
  "map_result f [] = Inr []"
| "map_result f (x # xs) =
     (case f x of Inl e \<Rightarrow> Inl e
      | Inr y \<Rightarrow> (case map_result f xs of Inl e \<Rightarrow> Inl e | Inr ys \<Rightarrow> Inr (y # ys)))"

text \<open>
  \<open>parse_args strings defaults args\<close> is the command line parser: the options it found, with the defaults
  for those it did not, and the positional arguments. \<open>read_config\<close> reads and parses a file if it exists.
\<close>

definition parseServerConfig ::
  "(string list \<Rightarrow> cfg_obj \<Rightarrow> string list \<Rightarrow> cfg_obj \<times> string list) \<Rightarrow> (string \<Rightarrow> cfg_obj option) \<Rightarrow>
   string list \<Rightarrow> cfg_obj \<Rightarrow> js_error + cfg_obj" where
  "parseServerConfig parse_args read_config args env =
     (let envDefaults = filterMembers env ConfigParamsTypes;
          (argv, positional) = parse_args (filterType ConfigParamsTypes ''string'') envDefaults args
      in if length positional > 0 then Inl (Error (''unexpected param(s) '' @ concat positional))
         else
           (let finish = (\<lambda>configFile. map_sum id entriesToObj
                  (map_result explicitType (entriesToObj (configFile @ argv))))
            in case map_of argv ''config'' of
                 Some (CStr configFileName) \<Rightarrow>
                   (case read_config configFileName of
                      None \<Rightarrow> Inl (Error (''unable to read config file '' @ configFileName))
                    | Some configFile \<Rightarrow> finish configFile)
               | _ \<Rightarrow> finish []))"

section \<open>Validation\<close>

definition validatePrivateModeParams :: "('z) ServerConfigBase_scheme \<Rightarrow> js_error + unit" where
  "validatePrivateModeParams config =
     (if length (sc_url config) \<noteq> 0
        \<and> (length (sc_whitelistedRecipients config) \<noteq> 0 \<or> length (sc_whitelistedPaymasters config) \<noteq> 0)
      then Inl (Error ''Cannot whitelist recipients or paymasters on a public Relay Server'') else Inr ())"

definition validateBalanceParams :: "ServerConfigParams \<Rightarrow> js_error + unit" where
  "validateBalanceParams config =
     (if sc_managerTargetBalance config < sc_managerMinBalance config then
        Inl (Error ''managerTargetBalance must be at least managerMinBalance'')
      else if sc_workerTargetBalance config < sc_workerMinBalance config then
        Inl (Error ''workerTargetBalance must be at least workerMinBalance'')
      else case sc_withdrawToOwnerOnBalance config of None \<Rightarrow> Inr ()
        | Some w \<Rightarrow>
            if sc_managerTargetBalance config + sc_workerTargetBalance config \<ge> w then
              Inl (Error ''withdrawToOwnerOnBalance must be larger than managerTargetBalance + workerTargetBalance'')
            else Inr ())"

section \<open>Completing a partial configuration\<close>

text \<open>A parameter of the object if it is there, else the default.\<close>

definition str_param :: "string \<Rightarrow> string \<Rightarrow> cfg_obj \<Rightarrow> string" where
  "str_param k d obj = (case map_of obj k of Some (CStr v) \<Rightarrow> v | _ \<Rightarrow> d)"

definition int_param :: "string \<Rightarrow> int \<Rightarrow> cfg_obj \<Rightarrow> int" where
  "int_param k d obj = (case map_of obj k of Some (CNum v) \<Rightarrow> \<lfloor>v\<rfloor> | _ \<Rightarrow> d)"

definition rat_param :: "string \<Rightarrow> rat \<Rightarrow> cfg_obj \<Rightarrow> rat" where
  "rat_param k d obj = (case map_of obj k of Some (CNum v) \<Rightarrow> v | _ \<Rightarrow> d)"

definition bool_param :: "string \<Rightarrow> bool \<Rightarrow> cfg_obj \<Rightarrow> bool" where
  "bool_param k d obj = (case map_of obj k of Some (CBool v) \<Rightarrow> v | _ \<Rightarrow> d)"

definition list_param :: "string \<Rightarrow> string list \<Rightarrow> cfg_obj \<Rightarrow> string list" where
  "list_param k d obj = (case map_of obj k of Some (CList v) \<Rightarrow> v | _ \<Rightarrow> d)"

definition int_opt_param :: "string \<Rightarrow> cfg_obj \<Rightarrow> int option" where
  "int_opt_param k obj = (case map_of obj k of Some (CNum v) \<Rightarrow> Some \<lfloor>v\<rfloor> | _ \<Rightarrow> None)"

definition str_opt_param :: "string \<Rightarrow> cfg_obj \<Rightarrow> string option" where
  "str_opt_param k obj = (case map_of obj k of Some (CStr v) \<Rightarrow> Some v | _ \<Rightarrow> None)"

definition configureServer :: "cfg_obj \<Rightarrow> ServerConfigParams" where
  "configureServer obj =
     \<lparr>sc_ownerAddress = str_param ''ownerAddress'' (sc_ownerAddress serverDefaultConfiguration) obj,
      sc_url = str_param ''url'' (sc_url serverDefaultConfiguration) obj,
      sc_port = int_param ''port'' (sc_port serverDefaultConfiguration) obj,
      sc_relayHubAddress = str_param ''relayHubAddress'' (sc_relayHubAddress serverDefaultConfiguration) obj,
      sc_ethereumNodeUrl = str_param ''ethereumNodeUrl'' (sc_ethereumNodeUrl serverDefaultConfiguration) obj,
      sc_workdir = str_param ''workdir'' (sc_workdir serverDefaultConfiguration) obj,
      sc_checkInterval = int_param ''checkInterval'' (sc_checkInterval serverDefaultConfiguration) obj,
      sc_devMode = bool_param ''devMode'' (sc_devMode serverDefaultConfiguration) obj,
      sc_loggingProvider = int_param ''loggingProvider'' (sc_loggingProvider serverDefaultConfiguration) obj,
      sc_maxAcceptanceBudget = int_param ''maxAcceptanceBudget'' (sc_maxAcceptanceBudget serverDefaultConfiguration) obj,
      sc_alertedDelaySeconds = int_param ''alertedDelaySeconds'' (sc_alertedDelaySeconds serverDefaultConfiguration) obj,
      sc_minAlertedDelayMS = int_param ''minAlertedDelayMS'' (sc_minAlertedDelayMS serverDefaultConfiguration) obj,
      sc_maxAlertedDelayMS = int_param ''maxAlertedDelayMS'' (sc_maxAlertedDelayMS serverDefaultConfiguration) obj,
      sc_trustedPaymasters = list_param ''trustedPaymasters'' (sc_trustedPaymasters serverDefaultConfiguration) obj,
      sc_blacklistedPaymasters = list_param ''blacklistedPaymasters'' (sc_blacklistedPaymasters serverDefaultConfiguration) obj,
      sc_blacklistedRecipients = list_param ''blacklistedRecipients'' (sc_blacklistedRecipients serverDefaultConfiguration) obj,
      sc_whitelistedPaymasters = list_param ''whitelistedPaymasters'' (sc_whitelistedPaymasters serverDefaultConfiguration) obj,
      sc_whitelistedRecipients = list_param ''whitelistedRecipients'' (sc_whitelistedRecipients serverDefaultConfiguration) obj,
      sc_gasPriceFactor = rat_param ''gasPriceFactor'' (sc_gasPriceFactor serverDefaultConfiguration) obj,
      sc_gasPriceOracleUrl = str_param ''gasPriceOracleUrl'' (sc_gasPriceOracleUrl serverDefaultConfiguration) obj,
      sc_gasPriceOraclePath = str_param ''gasPriceOraclePath'' (sc_gasPriceOraclePath serverDefaultConfiguration) obj,
      sc_logLevel = str_param ''logLevel'' (sc_logLevel serverDefaultConfiguration) obj,
      sc_loggerUrl = str_param ''loggerUrl'' (sc_loggerUrl serverDefaultConfiguration) obj,
      sc_loggerUserId = str_param ''loggerUserId'' (sc_loggerUserId serverDefaultConfiguration) obj,
      sc_etherscanApiUrl = str_param ''etherscanApiUrl'' (sc_etherscanApiUrl serverDefaultConfiguration) obj,
      sc_etherscanApiKey = str_param ''etherscanApiKey'' (sc_etherscanApiKey serverDefaultConfiguration) obj,
      sc_workerMinBalance = int_param ''workerMinBalance'' (sc_workerMinBalance serverDefaultConfiguration) obj,
      sc_workerTargetBalance = int_param ''workerTargetBalance'' (sc_workerTargetBalance serverDefaultConfiguration) obj,
      sc_managerMinBalance = int_param ''managerMinBalance'' (sc_managerMinBalance serverDefaultConfiguration) obj,
      sc_managerTargetBalance = int_param ''managerTargetBalance'' (sc_managerTargetBalance serverDefaultConfiguration) obj,
      sc_managerStakeTokenAddress = str_param ''managerStakeTokenAddress'' (sc_managerStakeTokenAddress serverDefaultConfiguration) obj,
      sc_withdrawToOwnerOnBalance = int_opt_param ''withdrawToOwnerOnBalance'' obj,
      sc_refreshStateTimeoutBlocks = int_param ''refreshStateTimeoutBlocks'' (sc_refreshStateTimeoutBlocks serverDefaultConfiguration) obj,
      sc_pendingTransactionTimeoutSeconds = int_param ''pendingTransactionTimeoutSeconds'' (sc_pendingTransactionTimeoutSeconds serverDefaultConfiguration) obj,
      sc_dbPruneTxAfterBlocks = int_param ''dbPruneTxAfterBlocks'' (sc_dbPruneTxAfterBlocks serverDefaultConfiguration) obj,
      sc_dbPruneTxAfterSeconds = int_param ''dbPruneTxAfterSeconds'' (sc_dbPruneTxAfterSeconds serverDefaultConfiguration) obj,
      sc_dbAutoCompactionInterval = int_param ''dbAutoCompactionInterval'' (sc_dbAutoCompactionInterval serverDefaultConfiguration) obj,
      sc_retryGasPriceFactor = rat_param ''retryGasPriceFactor'' (sc_retryGasPriceFactor serverDefaultConfiguration) obj,
      sc_maxMaxFeePerGas = str_param ''maxMaxFeePerGas'' (sc_maxMaxFeePerGas serverDefaultConfiguration) obj,
      sc_getGasFeesBlocks = int_param ''getGasFeesBlocks'' (sc_getGasFeesBlocks serverDefaultConfiguration) obj,
      sc_getGasFeesPercentile = rat_param ''getGasFeesPercentile'' (sc_getGasFeesPercentile serverDefaultConfiguration) obj,
      sc_defaultPriorityFee = str_param ''defaultPriorityFee'' (sc_defaultPriorityFee serverDefaultConfiguration) obj,
      sc_defaultGasLimit = int_param ''defaultGasLimit'' (sc_defaultGasLimit serverDefaultConfiguration) obj,
      sc_requestMinValidSeconds = int_param ''requestMinValidSeconds'' (sc_requestMinValidSeconds serverDefaultConfiguration) obj,
      sc_runPenalizer = bool_param ''runPenalizer'' (sc_runPenalizer serverDefaultConfiguration) obj,
      sc_runPaymasterReputations = bool_param ''runPaymasterReputations'' (sc_runPaymasterReputations serverDefaultConfiguration) obj,
      sc_requiredVersionRange = str_opt_param ''requiredVersionRange'' obj,
      sc_pastEventsQueryMaxPageSize = int_param ''pastEventsQueryMaxPageSize'' (sc_pastEventsQueryMaxPageSize serverDefaultConfiguration) obj,
      sc_pastEventsQueryMaxPageCount = int_param ''pastEventsQueryMaxPageCount'' (sc_pastEventsQueryMaxPageCount serverDefaultConfiguration) obj,
      sc_environmentName = str_opt_param ''environmentName'' obj,
      sc_recentActionAvoidRepeatDistanceBlocks = int_param ''recentActionAvoidRepeatDistanceBlocks'' (sc_recentActionAvoidRepeatDistanceBlocks serverDefaultConfiguration) obj,
      sc_skipErc165Check = bool_param ''skipErc165Check'' (sc_skipErc165Check serverDefaultConfiguration) obj\<rparr>"

definition required_param :: "cfg_obj \<Rightarrow> string \<Rightarrow> js_error + unit" where
  "required_param obj k =
     (if map_of obj k = None then Inl (Error (''missing param: '' @ k)) else Inr ())"

definition required_address :: "cfg_obj \<Rightarrow> string \<Rightarrow> js_error + unit" where
  "required_address obj k =
     (if map_of obj k = None \<or> map_of obj k = Some (CStr ZERO_ADDRESS) then Inl (Error (''missing param: '' @ k)) else Inr ())"

text \<open>The environment of the configuration; without a name it is the default one.\<close>

definition resolve_environment :: "cfg_obj \<Rightarrow> js_error + Environment" where
  "resolve_environment obj =
     (case str_opt_param ''environmentName'' obj of
        Some n \<Rightarrow> (case map_of environments n of Some e \<Rightarrow> Inr e | None \<Rightarrow> Inl (Error (''Unknown named environment: '' @ n)))
      | None \<Rightarrow> Inr ganacheLocal)"

definition resolveServerConfig ::
  "('w, 'c) hub_contracts_scheme \<Rightarrow> libs \<Rightarrow> (Environment \<Rightarrow> interactor_config) \<Rightarrow> cfg_obj \<Rightarrow>
   (('w, 'z) ci_state_scheme, ServerConfigParams \<times> Environment) eff" where
  "resolveServerConfig ch lib mk_interactor config =
     bnd (lift_result (resolve_environment config)) (\<lambda>environment.
     bnd (set_deployment (\<lambda>d. d\<lparr>dep_relayHubAddress := str_opt_param ''relayHubAddress'' config\<rparr>)) (\<lambda>_.
     bnd (resolveDeployment ch lib (mk_interactor environment)) (\<lambda>_.
     bnd (initializeContracts ch) (\<lambda>_.
     bnd (initializeNetworkParams ch) (\<lambda>_.
     bnd (lift_result (required_param config ''relayHubAddress'')) (\<lambda>_.
     bnd (lift_result (required_param config ''url'')) (\<lambda>_.
     bnd (lift_result (required_param config ''workdir'')) (\<lambda>_.
     bnd (lift_result (required_address config ''ownerAddress'')) (\<lambda>_.
     bnd (lift_result (required_address config ''managerStakeTokenAddress'')) (\<lambda>_.
     let finalConfig = configureServer config in
     bnd (lift_result (validatePrivateModeParams finalConfig)) (\<lambda>_.
     bnd (lift_result (validateBalanceParams finalConfig)) (\<lambda>_.
     ret (finalConfig, environment)))))))))))))"

section \<open>Properties of the configuration\<close>

lemma validateBalanceParams_iff:
  "validateBalanceParams config = Inr () \<longleftrightarrow>
   sc_managerMinBalance config \<le> sc_managerTargetBalance config
   \<and> sc_workerMinBalance config \<le> sc_workerTargetBalance config
   \<and> (case sc_withdrawToOwnerOnBalance config of None \<Rightarrow> True
      | Some w \<Rightarrow> sc_managerTargetBalance config + sc_workerTargetBalance config < w)"
  by (auto simp: validateBalanceParams_def split: option.splits)

lemma validatePrivateModeParams_iff:
  "validatePrivateModeParams config = Inr () \<longleftrightarrow>
   sc_url config = [] \<or> sc_whitelistedRecipients config = [] \<and> sc_whitelistedPaymasters config = []"
  by (simp add: validatePrivateModeParams_def)

definition config_valid :: "ServerConfigParams \<Rightarrow> bool" where
  "config_valid config \<longleftrightarrow>
     sc_managerMinBalance config \<le> sc_managerTargetBalance config
     \<and> sc_workerMinBalance config \<le> sc_workerTargetBalance config
     \<and> (case sc_withdrawToOwnerOnBalance config of None \<Rightarrow> True
        | Some w \<Rightarrow> sc_managerTargetBalance config + sc_workerTargetBalance config < w)
     \<and> (sc_url config = [] \<or> sc_whitelistedRecipients config = [] \<and> sc_whitelistedPaymasters config = [])"

lemma resolveServerConfig_wp:
  "wp (resolveServerConfig ch lib mk config) (\<lambda>(c, e) t. c = configureServer config \<and> config_valid c
      \<and> resolve_environment config = Inr e \<and> required_address config ''ownerAddress'' = Inr ()) (\<lambda>_ _. True) s"
  unfolding resolveServerConfig_def
  by (rule wp_lift_step | rule wp_skip
      | simp add: Let_def wp_ret config_valid_def validateBalanceParams_iff validatePrivateModeParams_iff)+

text \<open>
  what \<open>resolveServerConfig\<close> accepts is valid: targets are at least the minima, the owner is paid only
  above the sum of the targets, a public server has no whitelists, an owner other than the zero address is
  given, and the environment is the named one. Whatever the node answers.
\<close>

theorem resolveServerConfig_valid:
  "case resolveServerConfig ch lib mk config s of
     (Inr (c, e), t) \<Rightarrow> c = configureServer config \<and> config_valid c \<and> resolve_environment config = Inr e
       \<and> required_address config ''ownerAddress'' = Inr ()
   | (Inl _, t) \<Rightarrow> True"
  using resolveServerConfig_wp [of ch lib mk config s] by (simp add: wp_def split: prod.splits sum.splits)

end
