(* ===== verification/TransactionManager.thy ===== *)
theory TransactionManager imports ServerConfig InteractorInit begin

text \<open>
  \<open>KeyManager.ts\<close>, \<open>GasPriceFetcher.ts\<close> and \<open>TransactionManager.ts\<close> of \<open>packages/relay/src\<close>: signing,
  storing, broadcasting and boosting the transactions of the server. The state extends the one of the
  contract interactor by the transaction database and the local nonces. The section under the nonce mutex
  is one effect. \<open>@ethereumjs/tx\<close> is the function \<open>te_sign\<close> from an unsigned to a signed transaction.
\<close>

section \<open>State and environment\<close>

record unsigned_tx =
  un_to :: string
  un_value :: "string option"
  un_gasLimit :: int
  un_fees :: tx_fees
  un_data :: string
  un_nonce :: int

text \<open>
  The event \<open>TransactionBroadcast\<close> has one listener, set in \<open>init\<close> of the server before anything is sent; it sets the flag
  \<open>shouldRefreshBalances\<close> of the server, that is here with the state of the emitter.
\<close>

record ('w, 'db) tm_state = "'w ci_state" +
  txdb :: 'db
  nonces :: "(string \<times> int) list"
  shouldRefreshBalances :: bool
  tm_transactionType :: TransactionType

record ('w, 'db) tm_env =
  te_chain :: "'w chain"
  te_lib :: libs
  te_interactor :: interactor_config
  te_config :: ServerConfigParams
  te_store :: "(StoredTransaction, 'db) nedb_ops"
  te_managers :: "string list"
  te_workers :: "string list"
  te_sign :: "string \<Rightarrow> unsigned_tx \<Rightarrow> js_error + TypedTransaction"
  te_oracle :: "string \<Rightarrow> ('w, js_val) eff"

definition on_store :: "('db, 'a) eff \<Rightarrow> (('w, 'db, 'z) tm_state_scheme, 'a) eff" where
  "on_store m = zoom txdb (\<lambda>db s. s\<lparr>txdb := db\<rparr>) m"

lemma wp_on_store [wp_simps]:
  "wp (on_store m) Q E s = wp m (\<lambda>a db. Q a (s\<lparr>txdb := db\<rparr>)) (\<lambda>e db. E e (s\<lparr>txdb := db\<rparr>)) (txdb s)"
  by (simp add: on_store_def wp_zoom)

section \<open>Keys\<close>

definition getAddress :: "string list \<Rightarrow> nat \<Rightarrow> string" where
  "getAddress addresses index = (if index < length addresses then addresses ! index else ''undefined'')"

definition isSigner :: "string list \<Rightarrow> string \<Rightarrow> bool" where
  "isSigner addresses signer \<longleftrightarrow> signer \<in> set addresses"

text \<open>Signing gives the raw transaction and the signed transaction object.\<close>

definition km_signTransaction ::
  "(string \<Rightarrow> unsigned_tx \<Rightarrow> js_error + TypedTransaction) \<Rightarrow> string list \<Rightarrow> string \<Rightarrow> unsigned_tx \<Rightarrow>
   js_error + string \<times> TypedTransaction" where
  "km_signTransaction sign addresses signer tx =
     (if signer \<notin> set addresses then Inl (Error (''Can'' @ [CHR 0x27] @ ''t sign: signer='' @ signer @ '' is not managed''))
      else map_sum id (\<lambda>signed. (tt_serialized signed, signed)) (sign signer tx))"

section \<open>The gas price oracle\<close>

definition word_char :: "char \<Rightarrow> bool" where
  "word_char c \<longleftrightarrow> digit_val c < 36 \<or> c = CHR ''_''"

text \<open>A step of the path at its start: \<open>.word\<close>, \<open>["string"]\<close> or \<open>[number]\<close>; the key and the length.\<close>

definition path_word :: "string \<Rightarrow> (string \<times> nat) option" where
  "path_word p =
     (case p of c # t \<Rightarrow>
        if c = CHR ''.'' \<and> takeWhile word_char t \<noteq> []
        then Some (takeWhile word_char t, length (takeWhile word_char t) + 1) else None
      | [] \<Rightarrow> None)"

definition path_index :: "string \<Rightarrow> (string \<times> nat) option" where
  "path_index p =
     (let q = takeWhile (\<lambda>c. c \<noteq> CHR 0x22) (drop 2 p); d = takeWhile (\<lambda>c. digit_val c < 10) (drop 1 p) in
      if starts_with [CHR ''['', CHR 0x22] p \<and> q \<noteq> [] \<and> starts_with [CHR 0x22, CHR '']''] (drop (2 + length q) p)
      then Some (q, length q + 4)
      else if starts_with ''['' p \<and> d \<noteq> [] \<and> starts_with '']'' (drop (1 + length d) p)
      then Some (d, length d + 2) else None)"

text \<open>The leftmost match: only \<open>.word\<close> is bound to the start of the path.\<close>

fun path_anywhere :: "string \<Rightarrow> (string \<times> nat) option" where
  "path_anywhere [] = None"
| "path_anywhere (c # p) = (case path_index (c # p) of Some m \<Rightarrow> Some m | None \<Rightarrow> path_anywhere p)"

definition path_match :: "string \<Rightarrow> (string \<times> nat) option" where
  "path_match p = (case path_word p of Some m \<Rightarrow> Some m | None \<Rightarrow> path_anywhere p)"

definition js_member :: "js_val \<Rightarrow> string \<Rightarrow> js_val" where
  "js_member v k =
     (case v of
        JObj fs \<Rightarrow> (case map_of fs k of Some x \<Rightarrow> x | None \<Rightarrow> JNull)
      | JArr xs \<Rightarrow> (case parse_prefix 10 k of
           Some i \<Rightarrow> if int_to_string i = k \<and> nat i < length xs then xs ! nat i else JNull | None \<Rightarrow> JNull)
      | _ \<Rightarrow> JNull)"

lemma path_index_length: "path_index p = Some (k, n) \<Longrightarrow> 0 < n"
  by (auto simp: path_index_def Let_def split: if_splits)

lemma path_match_length: "path_match p = Some (k, n) \<Longrightarrow> 0 < n \<and> p \<noteq> []"
proof -
  have "path_anywhere p = Some (k, n) \<Longrightarrow> 0 < n \<and> p \<noteq> []"
    by (induction p) (auto dest: path_index_length split: option.splits)
  then show "path_match p = Some (k, n) \<Longrightarrow> 0 < n \<and> p \<noteq> []"
    by (auto simp: path_match_def path_word_def split: option.splits list.splits if_splits)
qed

function getJsonElement :: "js_val \<Rightarrow> string \<Rightarrow> string \<Rightarrow> js_error + js_val" where
  "getJsonElement blob path origPath =
     (case path_match path of
        None \<Rightarrow> Inl (Error (''invalid path: '' @ origPath @ '': head of '' @ path))
      | Some (subitem, n) \<Rightarrow>
          (let rest = drop n path; sub = js_member blob subitem
           in if sub = JNull then Inr JNull
              else if rest = [] then Inr sub else getJsonElement sub rest origPath))"
  by pat_completeness auto
termination
  by (relation "measure (\<lambda>(b, p, q). length p)") (auto dest!: path_match_length)

declare getJsonElement.simps [simp del]

text \<open>The price in wei: \<open>(ret * 1e9).toString()\<close>, of which its users take the integer part.\<close>

definition json_number :: "js_val \<Rightarrow> rat option" where
  "json_number v = (case v of JStr s \<Rightarrow> parseFloat s | JNum n \<Rightarrow> Some (of_int n) | _ \<Rightarrow> None)"

definition fetchGasPrice :: "('w, 'db) tm_env \<Rightarrow> (('w, 'z) ci_state_scheme, int) eff" where
  "fetchGasPrice env =
     (let url = sc_gasPriceOracleUrl (te_config env); path = sc_gasPriceOraclePath (te_config env);
          node = ci_getGasPrice (te_chain env) (te_interactor env)
      in if url \<noteq> [] then
           try_catch
             (bnd (on_world (te_oracle env url)) (\<lambda>data.
              bnd (lift_result (getJsonElement data path path)) (\<lambda>e.
              case json_number e of None \<Rightarrow> throw ''not a number: NaN''
              | Some r \<Rightarrow> ret \<lfloor>r * 10 ^ 9\<rfloor>)))
             (\<lambda>_. node)
         else node)"

section \<open>Sending\<close>

record SignedTransactionDetails =
  std_transactionHash :: string
  std_signedTx :: string
  std_nonce :: int

record SendTransactionDetails =
  sd_signer :: string
  sd_serverAction :: ServerAction
  sd_method :: "string option"
  sd_destination :: string
  sd_value :: "string option"
  sd_gasLimit :: "int option"
  sd_maxFeePerGas :: "string option"
  sd_maxPriorityFeePerGas :: "string option"
  sd_creationBlock :: ShortBlockInfo

definition initNonces :: "('w, 'db) tm_env \<Rightarrow> (('w, 'db, 'z) tm_state_scheme, unit) eff" where
  "initNonces env =
     modify (\<lambda>s. s\<lparr>nonces := map_set (getAddress (te_workers env) 0) 0
       (map_set (getAddress (te_managers env) 0) 0 (nonces s))\<rparr>)"

definition tm_init :: "TransactionType \<Rightarrow> (('w, 'db, 'z) tm_state_scheme, unit) eff" where
  "tm_init transactionType =
     bnd (modify (\<lambda>s. s\<lparr>tm_transactionType := transactionType\<rparr>)) (\<lambda>_. bnd getRawTxOptions (\<lambda>_. ret ()))"

definition validateBalance ::
  "('w, 'db) tm_env \<Rightarrow> string \<Rightarrow> int option \<Rightarrow> int \<Rightarrow> (('w, 'z) ci_state_scheme, unit) eff" where
  "validateBalance env signer maxFeePerGas gasLimit =
     (case maxFeePerGas of None \<Rightarrow> throw ''Error: [number-to-bn] while converting number''
      | Some fee \<Rightarrow>
          bnd (getBalance (te_chain env) signer ''latest'') (\<lambda>signerBalance.
          if fee * gasLimit > signerBalance then
            throw (''signer '' @ signer @ '' balance '' @ int_to_string signerBalance @ '' too low: tx cost is ''
              @ int_to_string (fee * gasLimit))
          else ret ()))"

definition broadcastTransaction ::
  "('w, 'db) tm_env \<Rightarrow> string \<Rightarrow> string \<Rightarrow> int \<Rightarrow>
   (('w, 'db, 'z) tm_state_scheme, SignedTransactionDetails) eff" where
  "broadcastTransaction env signedTx verifiedTxId nonce =
     try_catch
       (bnd (ci_broadcastTransaction (te_chain env) (te_lib env) signedTx) (\<lambda>transactionHash.
        if toLowerCase transactionHash \<noteq> toLowerCase verifiedTxId then
          throw (''txhash mismatch: from receipt: '' @ transactionHash @ '' from txstore:'' @ verifiedTxId)
        else
          bnd (modify (\<lambda>s. s\<lparr>shouldRefreshBalances := True\<rparr>)) (\<lambda>_.
          ret \<lparr>std_transactionHash = transactionHash, std_signedTx = signedTx, std_nonce = nonce\<rparr>)))
       (\<lambda>e. throw (''Tx broadcast failed: '' @ error_message e))"

text \<open>An \<open>ObjectMap\<close> from nonces to raw transactions.\<close>

definition getNonceGapFilled ::
  "('w, 'db) tm_env \<Rightarrow> string \<Rightarrow> int \<Rightarrow> int \<Rightarrow> (('w, 'db, 'z) tm_state_scheme, (int \<times> string) list) eff" where
  "getNonceGapFilled env signer fromNonce toNonce =
     bnd (gets (\<lambda>s. getTxsInNonceRange (te_store env) signer fromNonce toNonce (txdb s))) (\<lambda>transactions.
     ret (foldl (\<lambda>gap tx. map_set (st_nonce tx) (st_rawSerializedTx tx) gap) [] transactions))"

definition pollNonce :: "('w, 'db) tm_env \<Rightarrow> string \<Rightarrow> (('w, 'db, 'z) tm_state_scheme, int option) eff" where
  "pollNonce env signer =
     bnd (getTransactionCount (te_chain env) signer ''pending'') (\<lambda>nonce.
     bnd (gets nonces) (\<lambda>ns.
     bnd (when_eff (case map_of ns signer of Some k \<Rightarrow> nonce > k | None \<Rightarrow> False)
            (modify (\<lambda>s. s\<lparr>nonces := map_set signer nonce (nonces s)\<rparr>))) (\<lambda>_.
     gets (\<lambda>s. map_of (nonces s) signer))))"

text \<open>The fees of a new transaction object; a fee that is not a number makes the constructor throw.\<close>

definition make_fees :: "TransactionType \<Rightarrow> int option \<Rightarrow> int option \<Rightarrow> js_error + tx_fees" where
  "make_fees tt maxFeePerGas maxPriorityFeePerGas =
     (case maxFeePerGas of None \<Rightarrow> Inl (Error ''The number NaN cannot be converted to a BN'')
      | Some f \<Rightarrow>
          (if tt = TYPE_TWO then
             (case maxPriorityFeePerGas of None \<Rightarrow> Inl (Error ''The number NaN cannot be converted to a BN'')
              | Some p \<Rightarrow> Inr (FeeMarket f p))
           else Inr (LegacyFee f)))"

definition key_manager :: "('w, 'db) tm_env \<Rightarrow> string \<Rightarrow> string list" where
  "key_manager env signer = (if isSigner (te_managers env) signer then te_managers env else te_workers env)"

text \<open>What happens under the nonce mutex: choose the nonce, sign, count up the nonce, store.\<close>

definition sign_with_nonce ::
  "('w, 'db) tm_env \<Rightarrow> SendTransactionDetails \<Rightarrow> string \<Rightarrow> int \<Rightarrow> int option \<Rightarrow> int option \<Rightarrow> int option \<Rightarrow>
   (('w, 'db, 'z) tm_state_scheme, string \<times> StoredTransaction) eff" where
  "sign_with_nonce env txDetails encodedCall gasLimit maxFeePerGas maxPriorityFeePerGas nonce =
     bnd (gets tm_transactionType) (\<lambda>tt.
     bnd (lift_result (make_fees tt maxFeePerGas maxPriorityFeePerGas)) (\<lambda>fees.
     bnd (lift_result (km_signTransaction (te_sign env) (key_manager env (sd_signer txDetails)) (sd_signer txDetails)
            \<lparr>un_to = sd_destination txDetails, un_value = sd_value txDetails, un_gasLimit = gasLimit,
             un_fees = fees, un_data = buffer_hex encodedCall, un_nonce = (case nonce of Some n \<Rightarrow> n | None \<Rightarrow> 0)\<rparr>)) (\<lambda>(rawTx, signedTx).
     bnd (lift_result (createStoredTransaction signedTx
            \<lparr>m_from = sd_signer txDetails, m_attempts = 1, m_serverAction = sd_serverAction txDetails,
             m_creationBlock = sd_creationBlock txDetails, m_boostBlock = None, m_minedBlock = None\<rparr>)) (\<lambda>storedTx.
     bnd (modify (\<lambda>s. s\<lparr>nonces := (case map_of (nonces s) (sd_signer txDetails) of
            Some k \<Rightarrow> map_set (sd_signer txDetails) (k + 1) (nonces s) | None \<Rightarrow> nonces s)\<rparr>)) (\<lambda>_.
     bnd (on_store (putTx (te_store env) storedTx False)) (\<lambda>_.
     ret (rawTx, storedTx)))))))"

definition sign_and_store ::
  "('w, 'db) tm_env \<Rightarrow> SendTransactionDetails \<Rightarrow> string \<Rightarrow> int \<Rightarrow> int option \<Rightarrow> int option \<Rightarrow>
   (('w, 'db, 'z) tm_state_scheme, string \<times> StoredTransaction) eff" where
  "sign_and_store env txDetails encodedCall gasLimit maxFeePerGas maxPriorityFeePerGas =
     bnd (pollNonce env (sd_signer txDetails))
       (sign_with_nonce env txDetails encodedCall gasLimit maxFeePerGas maxPriorityFeePerGas)"

definition sendTransaction ::
  "('w, 'db) tm_env \<Rightarrow> SendTransactionDetails \<Rightarrow> (('w, 'db, 'z) tm_state_scheme, SignedTransactionDetails) eff" where
  "sendTransaction env txDetails =
     (let encodedCall = (case sd_method txDetails of Some m \<Rightarrow> m | None \<Rightarrow> ''0x'') in
      bnd (case sd_maxFeePerGas txDetails of Some m \<Rightarrow> ret (parseInt m)
           | None \<Rightarrow> bnd (fetchGasPrice env) (\<lambda>g. ret (Some g))) (\<lambda>maxFeePerGas.
      let maxPriorityFeePerGas = (case sd_maxPriorityFeePerGas txDetails of Some m \<Rightarrow> parseInt m
            | None \<Rightarrow> maxFeePerGas) in
      bnd (case sd_gasLimit txDetails of Some g \<Rightarrow> ret g
           | None \<Rightarrow> estimateGas (te_chain env)
               \<lparr>tc_from = sd_signer txDetails, tc_to = sd_destination txDetails, tc_data = encodedCall,
                tc_value = sd_value txDetails, tc_maxFeePerGas = None, tc_maxPriorityFeePerGas = None\<rparr>) (\<lambda>gasLimit.
      bnd (validateBalance env (sd_signer txDetails) maxFeePerGas gasLimit) (\<lambda>_.
      if isSameAddress (sd_destination txDetails) ZERO_ADDRESS then
        throw ''Preventing to send transaction to address(0)! Validate your configuration!''
      else
        bnd (sign_and_store env txDetails encodedCall gasLimit maxFeePerGas maxPriorityFeePerGas) (\<lambda>(rawTx, storedTx).
        broadcastTransaction env rawTx (st_txId storedTx) (st_nonce storedTx))))))"

section \<open>Boosting\<close>

definition updateTransactionWithMinedBlock ::
  "('w, 'db) tm_env \<Rightarrow> StoredTransaction \<Rightarrow> ShortBlockInfo \<Rightarrow> (('w, 'db, 'z) tm_state_scheme, unit) eff" where
  "updateTransactionWithMinedBlock env tx minedBlock =
     on_store (putTx (te_store env) (tx\<lparr>st_minedBlock := Some minedBlock\<rparr>) True)"

definition updateTransactionWithAttempt ::
  "('w, 'db) tm_env \<Rightarrow> TypedTransaction \<Rightarrow> StoredTransaction \<Rightarrow> ShortBlockInfo \<Rightarrow>
   (('w, 'db, 'z) tm_state_scheme, StoredTransaction) eff" where
  "updateTransactionWithAttempt env txToUpdate tx currentBlock =
     bnd (lift_result (createStoredTransaction txToUpdate
            \<lparr>m_from = st_from tx, m_attempts = st_attempts tx + 1, m_serverAction = st_serverAction tx,
             m_creationBlock = st_creationBlock tx, m_boostBlock = Some currentBlock,
             m_minedBlock = st_minedBlock tx\<rparr>)) (\<lambda>storedTx.
     bnd (on_store (putTx (te_store env) storedTx True)) (\<lambda>_. ret storedTx))"

definition resendTransaction ::
  "('w, 'db) tm_env \<Rightarrow> StoredTransaction \<Rightarrow> ShortBlockInfo \<Rightarrow> int \<Rightarrow> int \<Rightarrow>
   (('w, 'db, 'z) tm_state_scheme, SignedTransactionDetails) eff" where
  "resendTransaction env tx currentBlock newMaxFee newMaxPriorityFee =
     bnd (validateBalance env (st_from tx) (Some newMaxFee) (st_gas tx)) (\<lambda>_.
     bnd (gets tm_transactionType) (\<lambda>tt.
     let txToSign = \<lparr>un_to = st_to tx, un_value = Some (int_to_hex (st_value tx)), un_gasLimit = st_gas tx,
           un_fees = (if tt = TYPE_TWO then FeeMarket newMaxFee newMaxPriorityFee else LegacyFee newMaxFee),
           un_data = st_data tx, un_nonce = st_nonce tx\<rparr>
     in bnd (lift_result (km_signTransaction (te_sign env) (key_manager env (st_from tx)) (st_from tx) txToSign)) (\<lambda>(rawTx, signedTx).
        bnd (updateTransactionWithAttempt env signedTx tx currentBlock) (\<lambda>storedTx.
        bnd (getTransactionCount (te_chain env) (st_from tx) ''latest'') (\<lambda>_.
        broadcastTransaction env rawTx (st_txId storedTx) (st_nonce storedTx))))))"

text \<open>\<open>Math.round\<close> of a fee times the factor; a cap that is not a number never applies.\<close>

definition resolveNewGasPrice ::
  "ServerConfigParams \<Rightarrow> int \<Rightarrow> int \<Rightarrow> int \<Rightarrow> int option \<Rightarrow> int \<times> int \<times> bool" where
  "resolveNewGasPrice cfg oldMaxFee oldMaxPriorityFee minMaxPriorityFee minMaxFee =
     (let newMaxFee = math_round (of_int oldMaxFee * sc_retryGasPriceFactor cfg);
          newMaxPriorityFee = math_round (of_int oldMaxPriorityFee * sc_retryGasPriceFactor cfg);
          newMaxPriorityFee = (if newMaxPriorityFee < minMaxPriorityFee then minMaxPriorityFee else newMaxPriorityFee);
          newMaxFee = (case minMaxFee of Some m \<Rightarrow> (if newMaxFee < m then m else newMaxFee) | None \<Rightarrow> newMaxFee);
          (newMaxFee, isMaxGasPriceReached) = (case parseInt (sc_maxMaxFeePerGas cfg) of
            Some cap \<Rightarrow> (if newMaxFee > cap then (cap, True) else (newMaxFee, False)) | None \<Rightarrow> (newMaxFee, False));
          newMaxPriorityFee = (if newMaxPriorityFee > newMaxFee then newMaxFee else newMaxPriorityFee)
      in (newMaxFee, newMaxPriorityFee, isMaxGasPriceReached))"

definition tm_removeArchivedTransactions ::
  "('w, 'db) tm_env \<Rightarrow> ShortBlockInfo \<Rightarrow> (('w, 'db, 'z) tm_state_scheme, unit) eff" where
  "tm_removeArchivedTransactions env currentBlock =
     (let upToBlockNumber = bi_number currentBlock - sc_dbPruneTxAfterBlocks (te_config env);
          upToTimestamp = bi_timestamp currentBlock - sc_dbPruneTxAfterSeconds (te_config env)
      in modify (\<lambda>s. s\<lparr>txdb := removeArchivedTransactions (te_store env) upToBlockNumber upToTimestamp (txdb s)\<rparr>))"

definition should_recheck :: "ServerConfigParams \<Rightarrow> ShortBlockInfo \<Rightarrow> StoredTransaction \<Rightarrow> bool" where
  "should_recheck cfg currentBlock tx =
     (case st_minedBlock tx of None \<Rightarrow> True
      | Some b \<Rightarrow> bi_number currentBlock - bi_number b \<ge> sc_dbPruneTxAfterBlocks cfg)"

definition fillMinedBlockDetailsForTransactions ::
  "('w, 'db) tm_env \<Rightarrow> ShortBlockInfo \<Rightarrow> (('w, 'db, 'z) tm_state_scheme, unit) eff" where
  "fillMinedBlockDetailsForTransactions env currentBlock =
     bnd (gets (\<lambda>s. getAll (te_store env) (txdb s))) (\<lambda>sortedTxs.
     for_each (\<lambda>tx.
       when_eff (should_recheck (te_config env) currentBlock tx)
         (bnd (getTransaction (te_chain env) (st_txId tx)) (\<lambda>receipt.
          case Option.bind receipt ntx_blockNumber of
            None \<Rightarrow> ret ()
          | Some receiptBlockNumber \<Rightarrow>
              when_eff (map_option bi_number (st_minedBlock tx) \<noteq> Some receiptBlockNumber)
                (bnd (getBlock (te_chain env) receiptBlockNumber) (\<lambda>minedBlock.
                 updateTransactionWithMinedBlock env tx minedBlock))))) sortedTxs)"

definition underpriced :: "int \<Rightarrow> int \<Rightarrow> StoredTransaction \<Rightarrow> bool" where
  "underpriced newMaxFee newMaxPriorityFee tx \<longleftrightarrow>
     st_maxFeePerGas tx < newMaxFee \<or> st_maxPriorityFeePerGas tx < newMaxPriorityFee"

fun boost_all ::
  "('w, 'db) tm_env \<Rightarrow> ShortBlockInfo \<Rightarrow> int \<Rightarrow> int \<Rightarrow> StoredTransaction list \<Rightarrow>
   (string \<times> SignedTransactionDetails) list \<Rightarrow>
   (('w, 'db, 'z) tm_state_scheme, (string \<times> SignedTransactionDetails) list) eff" where
  "boost_all env currentBlock newMaxFee newMaxPriorityFee [] boosted = ret boosted"
| "boost_all env currentBlock newMaxFee newMaxPriorityFee (tx # txs) boosted =
     (if underpriced newMaxFee newMaxPriorityFee tx then
        bnd (resendTransaction env tx currentBlock newMaxFee newMaxPriorityFee) (\<lambda>details.
        boost_all env currentBlock newMaxFee newMaxPriorityFee txs (map_set (st_txId tx) details boosted))
      else
        bnd (try_catch
               (bnd (resendTransaction env tx currentBlock (st_maxFeePerGas tx) (st_maxPriorityFeePerGas tx)) (\<lambda>_. ret ()))
               (\<lambda>_. ret ())) (\<lambda>_.
        boost_all env currentBlock newMaxFee newMaxPriorityFee txs boosted))"

definition boostUnderpricedPendingTransactionsForSigner ::
  "('w, 'db) tm_env \<Rightarrow> string \<Rightarrow> ShortBlockInfo \<Rightarrow> int \<Rightarrow>
   (('w, 'db, 'z) tm_state_scheme, (string \<times> SignedTransactionDetails) list) eff" where
  "boostUnderpricedPendingTransactionsForSigner env signer currentBlock minMaxPriorityFee =
     bnd (getTransactionCount (te_chain env) signer ''latest'') (\<lambda>nonce.
     bnd (gets (\<lambda>s. getTxsInNonceRange (te_store env) signer nonce MAX_SAFE_INTEGER (txdb s))) (\<lambda>pendingTxs.
     case pendingTxs of [] \<Rightarrow> ret []
     | oldestPendingTx # _ \<Rightarrow>
         if st_nonce oldestPendingTx < nonce then ret []
         else if nonce \<noteq> st_nonce oldestPendingTx then
           throw (''Boosting: missing nonce '' @ int_to_string nonce @ ''. Lowest stored tx nonce: ''
             @ int_to_string (st_nonce oldestPendingTx))
         else
           (let lastSentAtBlockTimestamp = bi_timestamp (case st_boostBlock oldestPendingTx of
                  Some b \<Rightarrow> b | None \<Rightarrow> st_creationBlock oldestPendingTx)
            in if bi_timestamp currentBlock - lastSentAtBlockTimestamp
                  < sc_pendingTransactionTimeoutSeconds (te_config env) then ret []
               else
                 bnd (getGasFees (te_chain env) (te_interactor env) (sc_getGasFeesBlocks (te_config env))
                        (sc_getGasFeesPercentile (te_config env))) (\<lambda>(baseFeePerGas, _).
                 let (newMaxFee, newMaxPriorityFee, _) = resolveNewGasPrice (te_config env)
                       (st_maxFeePerGas oldestPendingTx) (st_maxPriorityFeePerGas oldestPendingTx)
                       minMaxPriorityFee baseFeePerGas
                 in boost_all env currentBlock newMaxFee newMaxPriorityFee pendingTxs []))))"

end
