(* ===== verification/TxManagerProps.thy ===== *)
theory TxManagerProps imports TransactionManager InteractorProps begin

text \<open>
  Properties of the transaction manager: nonces are used once and in order, stored transactions are never
  overwritten by new ones, boosted fees stay within their bounds, boosting keeps every nonce.
\<close>

section \<open>What is relied on\<close>

text \<open>
  \<open>@ethereumjs/tx\<close>: a signed transaction has the nonce, the target (an address, in whatever spelling), the bytes of the
  data, the fees and the gas limit of the transaction object it was made from, and a hash.
\<close>

definition sign_faithful :: "('w, 'db) tm_env \<Rightarrow> bool" where
  "sign_faithful env \<longleftrightarrow>
     (\<forall>signer tx signed. te_sign env signer tx = Inr signed \<longrightarrow>
        tt_nonce signed = un_nonce tx \<and> (\<exists>a. tt_to signed = Some a \<and> isSameAddress a (un_to tx)) \<and> tt_fees signed = un_fees tx
        \<and> tt_gasLimit signed = un_gasLimit tx \<and> tt_data signed = buffer_hex (un_data tx) \<and> tt_hash signed \<noteq> [])"

lemma wp_on_world_all:
  "(\<And>a w. Q a (s\<lparr>world := w\<rparr>)) \<Longrightarrow> (\<And>e w. E e (s\<lparr>world := w\<rparr>)) \<Longrightarrow> wp (on_world m) Q E s"
  unfolding wp_on_world by (rule wp_all)

section \<open>Nonces\<close>

definition nonces_le :: "('w, 'db, 'z) tm_state_scheme \<Rightarrow> ('w, 'db, 'z) tm_state_scheme \<Rightarrow> bool" where
  "nonces_le s t \<longleftrightarrow>
     (\<forall>a k. map_of (nonces s) a = Some k \<longrightarrow> (\<exists>k'. map_of (nonces t) a = Some k' \<and> k \<le> k'))"

definition slots_kept ::
  "(StoredTransaction, 'db) nedb_ops \<Rightarrow> ('w, 'db, 'z) tm_state_scheme \<Rightarrow> ('w, 'db, 'z) tm_state_scheme \<Rightarrow> bool" where
  "slots_kept N s t \<longleftrightarrow> (\<forall>k x. slot N (txdb s) k = Some x \<longrightarrow> slot N (txdb t) k = Some x)"

lemma nonces_le_refl [simp]: "nonces_le s (s\<lparr>world := w\<rparr>)" "nonces_le s s"
  by (simp_all add: nonces_le_def)

lemma nonces_le_trans: "nonces_le s t \<Longrightarrow> nonces_le t u \<Longrightarrow> nonces_le s u"
  unfolding nonces_le_def by (meson order_trans)

lemma slots_kept_refl [simp]: "slots_kept N s (s\<lparr>world := w\<rparr>)" "slots_kept N s s"
  by (simp_all add: slots_kept_def)

lemma slots_kept_trans: "slots_kept N s t \<Longrightarrow> slots_kept N t u \<Longrightarrow> slots_kept N s u"
  by (simp add: slots_kept_def)

lemma pollNonce_wp:
  "wp (pollNonce env signer)
     (\<lambda>r t. r = map_of (nonces t) signer \<and> nonces_le s t \<and> txdb t = txdb s)
     (\<lambda>_ t. nonces_le s t \<and> txdb t = txdb s) s"
  by (simp add: pollNonce_def node_ops wp_simps)
    (intro wp_all; auto simp: nonces_le_def wp_simps split: option.splits)

text \<open>What sending relates: before, outcome, after.\<close>

definition sent ::
  "('w, 'db) tm_env \<Rightarrow> string \<Rightarrow> ('w, 'db, 'z) tm_state_scheme \<Rightarrow> int \<Rightarrow> ('w, 'db, 'z) tm_state_scheme \<Rightarrow> bool" where
  "sent env signer s n t \<longleftrightarrow>
     slot (te_store env) (txdb s) \<lparr>ns_nonce = n, ns_signer = toLowerCase signer\<rparr> = None
     \<and> (case slot (te_store env) (txdb t) \<lparr>ns_nonce = n, ns_signer = toLowerCase signer\<rparr> of
          None \<Rightarrow> False | Some tx \<Rightarrow> st_nonce tx = n \<and> st_from tx = signer \<and> st_attempts tx = 1)
     \<and> (case map_of (nonces s) signer of None \<Rightarrow> True | Some k \<Rightarrow> k \<le> n \<and> map_of (nonces t) signer = Some (n + 1))"

text \<open>What every outcome keeps: nothing is lost, and what is added satisfies \<open>P\<close>.\<close>

definition slots_add ::
  "(StoredTransaction, 'db) nedb_ops \<Rightarrow> (StoredTransaction \<Rightarrow> bool) \<Rightarrow> ('w, 'db, 'z) tm_state_scheme \<Rightarrow>
   ('w, 'db, 'z) tm_state_scheme \<Rightarrow> bool" where
  "slots_add N P s t \<longleftrightarrow>
     (\<forall>k x. slot N (txdb t) k = Some x \<longrightarrow> slot N (txdb s) k = Some x \<or> slot N (txdb s) k = None \<and> P x)"

definition tm_kept ::
  "('w, 'db) tm_env \<Rightarrow> (StoredTransaction \<Rightarrow> bool) \<Rightarrow> ('w, 'db, 'z) tm_state_scheme \<Rightarrow>
   ('w, 'db, 'z) tm_state_scheme \<Rightarrow> bool" where
  "tm_kept env P s t \<longleftrightarrow> tx_inv (te_store env) (txdb t) \<and> nonces_le s t \<and> slots_kept (te_store env) s t
     \<and> slots_add (te_store env) P s t"

text \<open>The stored transactions that \<open>sendTransaction\<close> makes of its argument.\<close>

definition made_from :: "SendTransactionDetails \<Rightarrow> StoredTransaction \<Rightarrow> bool" where
  "made_from d x \<longleftrightarrow>
     st_from x = sd_signer d \<and> st_to x = toLowerCase (sd_destination d) \<and> st_serverAction x = sd_serverAction d
     \<and> st_data x = buffer_hex (case sd_method d of Some m \<Rightarrow> m | None \<Rightarrow> ''0x'') \<and> st_creationBlock x = sd_creationBlock d
     \<and> \<not> isSameAddress (st_to x) ZERO_ADDRESS"

lemma slots_add_same [simp]: "txdb t = txdb s \<Longrightarrow> slots_add N P s t"
  by (simp add: slots_add_def)

lemma createStoredTransaction_signed:
  "tt_to signed = Some to \<Longrightarrow> createStoredTransaction signed m = Inr tx \<Longrightarrow>
   st_nonce tx = tt_nonce signed \<and> st_txId tx = tt_hash signed \<and> st_from tx = m_from m \<and> st_attempts tx = m_attempts m
   \<and> st_minedBlock tx = m_minedBlock m \<and> st_boostBlock tx = m_boostBlock m \<and> st_to tx = toLowerCase to
   \<and> st_serverAction tx = m_serverAction m \<and> st_data tx = tt_data signed \<and> st_creationBlock tx = m_creationBlock m"
  by (auto simp: createStoredTransaction_def Let_def split: tx_fees.splits prod.splits)

lemma store_step:
  assumes coll: "tx_collection N" and inv: "tx_inv N (txdb s)"
    and id: "st_txId tx \<noteq> []" "st_attempts tx = 1"
    and key: "k = \<lparr>ns_nonce = st_nonce tx, ns_signer = toLowerCase (st_from tx)\<rparr>"
  shows "wp (on_store (putTx N tx False))
     (\<lambda>_ t. tx_inv N (txdb t) \<and> slots_kept N s t \<and> nonces t = nonces s
        \<and> slot N (txdb s) k = None \<and> slot N (txdb t) = (slot N (txdb s))(k \<mapsto> normalized_tx tx))
     (\<lambda>_ t. t = s) s"
proof -
  have k: "k = nonce_signer_of tx" by (simp add: key nonce_signer_of_def)
  show ?thesis
  proof (cases "put_refused N (txdb s) tx False")
    case True
    then obtain er where "putTx N tx False (txdb s) = (Inl er, txdb s)"
      using tx_collection.putTx_refused [OF coll inv] by blast
    then show ?thesis by (simp add: wp_simps) (simp add: wp_def)
  next
    case False
    then have free: "slot N (txdb s) k = None" by (auto simp: put_refused_def k)
    obtain db where db: "putTx N tx False (txdb s) = (Inr (), db)" "tx_inv N db"
        "slot N db = (slot N (txdb s))(k \<mapsto> put_value (slot N (txdb s) k) tx)"
      using tx_collection.putTx_accepted [OF coll inv False] by (auto simp: k)
    then show ?thesis using free
      by (simp add: wp_simps) (auto simp: wp_def slots_kept_def put_value_def)
  qed
qed

lemma km_sign_faithful:
  assumes "sign_faithful env" and "km_signTransaction (te_sign env) ks signer tx = Inr (raw, signed)"
  shows "tt_nonce signed = un_nonce tx" and "\<exists>a. tt_to signed = Some a \<and> toLowerCase a = toLowerCase (un_to tx)" and "tt_hash signed \<noteq> []"
    and "tt_fees signed = un_fees tx"
proof -
  have "te_sign env signer tx = Inr signed"
    using assms(2) by (cases "te_sign env signer tx") (simp_all add: km_signTransaction_def split: if_splits)
  then show "tt_nonce signed = un_nonce tx" and "\<exists>a. tt_to signed = Some a \<and> toLowerCase a = toLowerCase (un_to tx)" and "tt_hash signed \<noteq> []"
    and "tt_fees signed = un_fees tx"
    using assms(1) unfolding sign_faithful_def isSameAddress_def by blast+
qed

lemma sign_faithfulD:
  assumes "sign_faithful env" and "km_signTransaction (te_sign env) ks signer tx = Inr (raw, signed)"
  shows "tt_gasLimit signed = un_gasLimit tx" and "tt_data signed = buffer_hex (un_data tx)"
proof -
  have "te_sign env signer tx = Inr signed"
    using assms(2) by (cases "te_sign env signer tx") (simp_all add: km_signTransaction_def split: if_splits)
  then show "tt_gasLimit signed = un_gasLimit tx" and "tt_data signed = buffer_hex (un_data tx)"
    using assms(1) unfolding sign_faithful_def by blast+
qed

text \<open>The nonces before and after the count.\<close>

definition counted :: "string \<Rightarrow> (string \<times> int) list \<Rightarrow> (string \<times> int) list" where
  "counted signer ns = (case map_of ns signer of Some k \<Rightarrow> map_set signer (k + 1) ns | None \<Rightarrow> ns)"

lemma map_of_counted: "map_of (counted signer ns) a = (if a = signer then map_option ((+) 1) (map_of ns a) else map_of ns a)"
  by (auto simp: counted_def split: option.splits)

lemma nonces_le_counted: "nonces_le s u \<Longrightarrow> nonces t = counted signer (nonces u) \<Longrightarrow> nonces_le s t"
  unfolding nonces_le_def
proof (intro allI impI)
  fix a k assume le: "\<forall>a k. map_of (nonces s) a = Some k \<longrightarrow> (\<exists>k'. map_of (nonces u) a = Some k' \<and> k \<le> k')"
    and t: "nonces t = counted signer (nonces u)" and k: "map_of (nonces s) a = Some k"
  then obtain k' where "map_of (nonces u) a = Some k'" "k \<le> k'" by blast
  then show "\<exists>k'. map_of (nonces t) a = Some k' \<and> k \<le> k'"
    by (cases "a = signer") (simp_all add: t map_of_counted)
qed

lemma sentI:
  assumes le: "nonces_le s u" and r: "r = map_of (nonces u) signer" and n: "n = (case r of Some k \<Rightarrow> k | None \<Rightarrow> 0)"
    and t: "nonces t = counted signer (nonces u)"
    and free: "slot (te_store env) (txdb s) \<lparr>ns_nonce = n, ns_signer = toLowerCase signer\<rparr> = None"
    and tx: "slot (te_store env) (txdb t) \<lparr>ns_nonce = n, ns_signer = toLowerCase signer\<rparr> = Some (normalized_tx tx)"
    and "st_nonce tx = n" and "st_from tx = signer" and "st_attempts tx = 1"
  shows "sent env signer s n t"
proof -
  have "st_attempts (normalized_tx tx) = 1" using assms(9) by (simp add: normalized_tx_def)
  moreover have "k \<le> n \<and> map_of (nonces t) signer = Some (n + 1)" if k: "map_of (nonces s) signer = Some k" for k
  proof -
    obtain k' where "map_of (nonces u) signer = Some k'" "k \<le> k'" using le k by (auto simp: nonces_le_def)
    then show ?thesis by (simp add: n r t map_of_counted)
  qed
  ultimately show ?thesis
    using assms(7,8) free by (simp add: sent_def tx split: option.split)
qed

lemma made_from_normalized: "made_from d (normalized_tx tx) \<longleftrightarrow> made_from d tx"
  by (simp add: made_from_def normalized_tx_def)

lemma sign_with_nonce_wp:
  assumes coll: "tx_collection (te_store env)" and faithful: "sign_faithful env"
    and inv: "tx_inv (te_store env) (txdb s)" and nz: "\<not> isSameAddress (sd_destination d) ZERO_ADDRESS"
    and call: "call = (case sd_method d of Some m \<Rightarrow> m | None \<Rightarrow> ''0x'')"
    and r: "r = map_of (nonces u) (sd_signer d)" and le: "nonces_le s u" and db: "txdb u = txdb s"
  shows "wp (sign_with_nonce env d call gas f p r)
     (\<lambda>(raw, tx) t. tm_kept env (made_from d) s t \<and> sent env (sd_signer d) s (st_nonce tx) t)
     (\<lambda>_ t. tm_kept env (made_from d) s t) u"
proof -
  have kept: "tm_kept env (made_from d) s u" using inv le by (simp add: tm_kept_def slots_kept_def db)
  let ?u = "u\<lparr>nonces := counted (sd_signer d) (nonces u)\<rparr>"
  let ?n = "case r of Some n \<Rightarrow> n | None \<Rightarrow> 0"
  have leu: "nonces_le s ?u" by (rule nonces_le_counted [OF le]) simp
  have store: "wp (on_store (putTx (te_store env) tx False))
     (\<lambda>_ t. tm_kept env (made_from d) s t \<and> sent env (sd_signer d) s (st_nonce tx) t)
     (\<lambda>_ t. tm_kept env (made_from d) s t) ?u"
    if tx: "st_txId tx \<noteq> []" "st_attempts tx = 1" "st_from tx = sd_signer d" "st_nonce tx = ?n" "made_from d tx" for tx
  proof (rule wp_mono [OF store_step [OF coll _ tx(1,2) refl]])
    show "tx_inv (te_store env) (txdb ?u)" using inv db by simp
    show "tm_kept env (made_from d) s t" if "t = ?u" for t
      using that leu inv db by (simp add: tm_kept_def slots_kept_def)
    fix a t
    let ?k = "\<lparr>ns_nonce = st_nonce tx, ns_signer = toLowerCase (st_from tx)\<rparr>"
    assume t: "tx_inv (te_store env) (txdb t) \<and> slots_kept (te_store env) ?u t \<and> nonces t = nonces ?u
        \<and> slot (te_store env) (txdb ?u) ?k = None
        \<and> slot (te_store env) (txdb t) = (slot (te_store env) (txdb ?u))(?k \<mapsto> normalized_tx tx)"
    then have n: "nonces t = counted (sd_signer d) (nonces u)" by simp
    have "sent env (sd_signer d) s (st_nonce tx) t"
      by (rule sentI [OF le r tx(4) n _ _ refl tx(3,2)]) (use t db tx(3) in simp_all)
    moreover have "slots_add (te_store env) (made_from d) s t"
      using t db tx(5) by (simp add: slots_add_def made_from_normalized)
    ultimately show "tm_kept env (made_from d) s t \<and> sent env (sd_signer d) s (st_nonce tx) t"
      using t nonces_le_counted [OF le n] db by (simp add: tm_kept_def slots_kept_def)
  qed
  have made: "st_txId tx \<noteq> [] \<and> st_attempts tx = 1 \<and> st_from tx = sd_signer d \<and> st_nonce tx = ?n \<and> made_from d tx"
    if "km_signTransaction (te_sign env) ks signer \<lparr>un_to = sd_destination d, un_value = v, un_gasLimit = gas,
             un_fees = fees, un_data = buffer_hex call, un_nonce = ?n\<rparr> = Inr (raw, signed)"
      and "createStoredTransaction signed \<lparr>m_from = sd_signer d, m_attempts = 1, m_serverAction = sd_serverAction d,
             m_creationBlock = sd_creationBlock d, m_boostBlock = None, m_minedBlock = None\<rparr> = Inr tx"
    for ks signer v fees raw signed tx
    using km_sign_faithful [OF faithful that(1)] sign_faithfulD [OF faithful that(1)]
      createStoredTransaction_signed [OF _ that(2)] nz
    by (auto simp: made_from_def call)
  show ?thesis
    unfolding sign_with_nonce_def counted_def [symmetric]
    apply (subst wp_bnd, subst wp_gets)
    apply (rule wp_lift_step, rule wp_lift_step, clarsimp, rule wp_lift_step)
       apply (simp only: wp_bnd wp_modify)
       apply (rule wp_mono [OF store])
             apply (use made in \<open>auto simp: wp_ret\<close>)[7]
    by (rule kept)+
qed

lemma sign_and_store_wp:
  assumes coll: "tx_collection (te_store env)" and faithful: "sign_faithful env"
    and inv: "tx_inv (te_store env) (txdb s)" and nz: "\<not> isSameAddress (sd_destination d) ZERO_ADDRESS"
    and call: "call = (case sd_method d of Some m \<Rightarrow> m | None \<Rightarrow> ''0x'')"
  shows "wp (sign_and_store env d call gas f p)
     (\<lambda>(raw, tx) t. tm_kept env (made_from d) s t \<and> sent env (sd_signer d) s (st_nonce tx) t)
     (\<lambda>_ t. tm_kept env (made_from d) s t) s"
  unfolding sign_and_store_def wp_bnd
proof (rule wp_mono [OF pollNonce_wp [of env "sd_signer d" s]])
  fix r u assume "r = map_of (nonces u) (sd_signer d) \<and> nonces_le s u \<and> txdb u = txdb s"
  then show "wp (sign_with_nonce env d call gas f p r)
     (\<lambda>(raw, tx) t. tm_kept env (made_from d) s t \<and> sent env (sd_signer d) s (st_nonce tx) t)
     (\<lambda>_ t. tm_kept env (made_from d) s t) u"
    using sign_with_nonce_wp [OF coll faithful inv nz call] by blast
next
  fix e u assume "nonces_le s u \<and> txdb u = txdb s"
  then show "tm_kept env (made_from d) s u" using inv by (simp add: tm_kept_def slots_kept_def)
qed

lemma world_only_fetchGasPrice [intro, simp]: "world_only (fetchGasPrice env)"
  unfolding fetchGasPrice_def Let_def by (intro world_only_if world_only_try_catch world_only_bnd world_only_option) simp_all

lemma world_only_validateBalance [intro, simp]: "world_only (validateBalance env signer f g)"
  unfolding validateBalance_def by (intro world_only_if world_only_bnd world_only_option) simp_all

lemma world_only_ci_broadcast [intro, simp]: "world_only (ci_broadcastTransaction ch lib tx)"
  unfolding ci_broadcastTransaction_def
  by (intro world_only_if world_only_try_catch world_only_bnd world_only_option world_only_prod) simp_all

lemma wp_broadcast:
  assumes "\<And>det w b. std_nonce det = n \<Longrightarrow> Q det (s\<lparr>world := w, shouldRefreshBalances := b\<rparr>)"
    and "\<And>e w b. E e (s\<lparr>world := w, shouldRefreshBalances := b\<rparr>)"
  shows "wp (broadcastTransaction env raw h n) Q E s"
proof -
  have err: "E e (s\<lparr>world := w\<rparr>)" for e w using assms(2) [of e "shouldRefreshBalances s" w] by simp
  show ?thesis
    unfolding broadcastTransaction_def wp_try_catch wp_bnd
    by (rule wp_world_only [OF world_only_ci_broadcast]) (simp_all add: wp_simps assms(1) err)
qed

lemma tm_kept_world: "tm_kept env P (s\<lparr>world := w\<rparr>) t = tm_kept env P s t"
  by (simp add: tm_kept_def nonces_le_def slots_kept_def slots_add_def)

lemma sent_world: "sent env signer (s\<lparr>world := w\<rparr>) n t = sent env signer s n t"
  by (simp add: sent_def)

lemma tm_kept_world_after:
  "tm_kept env P s t \<Longrightarrow> tm_kept env P s (t\<lparr>world := w\<rparr>)"
  "tm_kept env P s t \<Longrightarrow> tm_kept env P s (t\<lparr>world := w, shouldRefreshBalances := b\<rparr>)"
  by (simp_all add: tm_kept_def nonces_le_def slots_kept_def slots_add_def)

lemma sent_world_after: "sent env signer s n t \<Longrightarrow> sent env signer s n (t\<lparr>world := w, shouldRefreshBalances := b\<rparr>)"
  by (auto simp: sent_def split: option.splits)

lemma tm_kept_refl: "tx_inv (te_store env) (txdb s) \<Longrightarrow> tm_kept env P s (s\<lparr>world := w\<rparr>)"
  by (simp add: tm_kept_def)

lemma slots_add_trans:
  assumes "slots_kept N s t" and "slots_add N P s t" and "slots_add N P t u"
  shows "slots_add N P s u"
  unfolding slots_add_def
proof (intro allI impI)
  fix k x assume "slot N (txdb u) k = Some x"
  then consider "slot N (txdb t) k = Some x" | "slot N (txdb t) k = None" "P x"
    using assms(3) [unfolded slots_add_def, rule_format, of k x] by auto
  then show "slot N (txdb s) k = Some x \<or> slot N (txdb s) k = None \<and> P x"
  proof cases
    case 1
    then show ?thesis using assms(2) [unfolded slots_add_def, rule_format, of k x] by auto
  next
    case 2
    then have "slot N (txdb s) k = None" using assms(1) unfolding slots_kept_def by (cases "slot N (txdb s) k") auto
    then show ?thesis using 2 by blast
  qed
qed

lemma tm_kept_trans: "tm_kept env P s t \<Longrightarrow> tm_kept env P t u \<Longrightarrow> tm_kept env P s u"
  unfolding tm_kept_def by (auto intro: nonces_le_trans slots_kept_trans slots_add_trans)

lemma tm_kept_mono: "tm_kept env P s t \<Longrightarrow> (\<And>x. P x \<Longrightarrow> Q x) \<Longrightarrow> tm_kept env Q s t"
  unfolding tm_kept_def slots_add_def by auto

lemma sendTransaction_wp:
  assumes coll: "tx_collection (te_store env)" and faithful: "sign_faithful env"
    and inv: "tx_inv (te_store env) (txdb s)"
  shows "wp (sendTransaction env d)
     (\<lambda>det t. tm_kept env (made_from d) s t \<and> sent env (sd_signer d) s (std_nonce det) t)
     (\<lambda>_ t. tm_kept env (made_from d) s t) s"
proof -
  let ?P = "made_from d"
  let ?Q = "\<lambda>det t. tm_kept env ?P s t \<and> sent env (sd_signer d) s (std_nonce det) t" and ?E = "\<lambda>_ t. tm_kept env ?P s t"
  have last: "wp (broadcastTransaction env raw h n) ?Q ?E u"
    if "tm_kept env ?P s u" "sent env (sd_signer d) s n u" for raw h n u
    by (rule wp_broadcast) (use that in \<open>simp_all add: tm_kept_world_after sent_world_after\<close>)
  have store: "wp (sign_and_store env d (case sd_method d of Some m \<Rightarrow> m | None \<Rightarrow> ''0x'') gas f p)
      (\<lambda>x. wp (case x of (raw, tx) \<Rightarrow> broadcastTransaction env raw (st_txId tx) (st_nonce tx)) ?Q ?E) ?E (s\<lparr>world := w\<rparr>)"
    if "\<not> isSameAddress (sd_destination d) ZERO_ADDRESS" for gas f p w
    by (rule wp_mono [OF sign_and_store_wp [OF coll faithful, of "s\<lparr>world := w\<rparr>", OF _ that refl]])
      (auto simp: inv tm_kept_world sent_world intro: last)
  show ?thesis
    unfolding sendTransaction_def Let_def
    apply (subst wp_bnd, rule wp_world_only)
      apply (auto split: option.splits)[1]
     apply (subst wp_bnd, rule wp_world_only)
       apply (auto split: option.splits)[1]
      apply (subst wp_bnd, rule wp_world_only, simp)
       apply (simp add: wp_simps store tm_kept_refl [OF inv])
    by (simp_all add: tm_kept_refl [OF inv])
qed

section \<open>Boosting\<close>

text \<open>The same transaction, boosted or mined: everything but its id, fees, attempts and blocks.\<close>

definition same_tx :: "StoredTransaction \<Rightarrow> StoredTransaction \<Rightarrow> bool" where
  "same_tx x y \<longleftrightarrow>
     st_nonce x = st_nonce y \<and> st_from x = st_from y \<and> isSameAddress (st_to x) (st_to y) \<and> st_gas x = st_gas y
     \<and> buffer_hex (st_data x) = buffer_hex (st_data y) \<and> st_serverAction x = st_serverAction y \<and> st_creationBlock x = st_creationBlock y"

definition same_slots ::
  "(StoredTransaction, 'db) nedb_ops \<Rightarrow> 'db \<Rightarrow> 'db \<Rightarrow> bool" where
  "same_slots N db db' \<longleftrightarrow> (\<forall>k. rel_option same_tx (slot N db k) (slot N db' k))"

lemma same_tx_refl [simp]: "same_tx x x"
  by (simp add: same_tx_def)

lemma same_tx_trans: "same_tx x y \<Longrightarrow> same_tx y z \<Longrightarrow> same_tx x z"
  by (auto simp: same_tx_def intro: isSameAddress_trans)

lemma same_slots_refl [simp]: "same_slots N db db"
  by (simp add: same_slots_def option.rel_refl)

lemma same_slots_trans: "same_slots N a b \<Longrightarrow> same_slots N b c \<Longrightarrow> same_slots N a c"
  unfolding same_slots_def
proof
  fix k assume "\<forall>k. rel_option same_tx (slot N a k) (slot N b k)" and "\<forall>k. rel_option same_tx (slot N b k) (slot N c k)"
  then have "rel_option same_tx (slot N a k) (slot N b k)" and "rel_option same_tx (slot N b k) (slot N c k)" by auto
  then show "rel_option same_tx (slot N a k) (slot N c k)"
    by (cases "slot N a k"; cases "slot N b k"; cases "slot N c k") (auto intro: same_tx_trans)
qed

text \<open>One update of an occupied slot.\<close>

definition upkeep :: "('w, 'db) tm_env \<Rightarrow> 'db \<Rightarrow> ('w, 'db, 'z) tm_state_scheme \<Rightarrow> bool" where
  "upkeep env db t \<longleftrightarrow> tx_inv (te_store env) (txdb t) \<and> same_slots (te_store env) db (txdb t)"

lemma update_step:
  assumes coll: "tx_collection (te_store env)" and up: "upkeep env db s"
    and old: "slot (te_store env) db (nonce_signer_of x) = Some x" and same: "same_tx x y"
  shows "wp (on_store (putTx (te_store env) y True)) (\<lambda>_ t. upkeep env db t) (\<lambda>_ t. upkeep env db t) s"
proof -
  let ?N = "te_store env"
  have inv: "tx_inv ?N (txdb s)" and ss: "same_slots ?N db (txdb s)" using up by (auto simp: upkeep_def)
  have key: "nonce_signer_of y = nonce_signer_of x" using same by (simp add: same_tx_def nonce_signer_of_def)
  show ?thesis
  proof (cases "put_refused ?N (txdb s) y True")
    case True
    then obtain er where "putTx ?N y True (txdb s) = (Inl er, txdb s)"
      using tx_collection.putTx_refused [OF coll inv] by blast
    then show ?thesis using up by (simp add: wp_simps) (simp add: wp_def)
  next
    case False
    obtain db' where db': "putTx ?N y True (txdb s) = (Inr (), db')" "tx_inv ?N db'"
        "slot ?N db' = (slot ?N (txdb s))(nonce_signer_of y \<mapsto> put_value (slot ?N (txdb s) (nonce_signer_of y)) y)"
      using tx_collection.putTx_accepted [OF coll inv False] by blast
    have "rel_option same_tx (slot ?N db k) (slot ?N db' k)" for k
    proof (cases "k = nonce_signer_of y")
      case True
      have "same_tx y (put_value o1 y)" for o1
        by (cases o1) (simp_all add: put_value_def same_tx_def normalized_tx_def set_tx_def)
      then have "same_tx x (put_value (slot ?N (txdb s) (nonce_signer_of y)) y)" using same same_tx_trans by blast
      then show ?thesis using True key old db'(3) by simp
    next
      case False
      then show ?thesis using ss db'(3) by (simp add: same_slots_def)
    qed
    then show ?thesis using db' by (simp add: wp_simps) (simp add: wp_def upkeep_def same_slots_def)
  qed
qed

lemma upkeep_world: "upkeep env db s \<Longrightarrow> upkeep env db (s\<lparr>world := w\<rparr>)"
  by (simp add: upkeep_def)

lemma upkeep_world_only: "world_only m \<Longrightarrow> upkeep env db s \<Longrightarrow> wp m (\<lambda>_. upkeep env db) (\<lambda>_. upkeep env db) s"
  by (rule wp_world_only) (simp_all add: upkeep_world)

lemma created_same_tx:
  assumes faithful: "sign_faithful env"
    and sg: "km_signTransaction (te_sign env) ks signer \<lparr>un_to = st_to x, un_value = v, un_gasLimit = st_gas x,
       un_fees = f, un_data = st_data x, un_nonce = st_nonce x\<rparr> = Inr (raw, signed)"
    and cr: "createStoredTransaction signed \<lparr>m_from = st_from x, m_attempts = a, m_serverAction = st_serverAction x,
       m_creationBlock = st_creationBlock x, m_boostBlock = b, m_minedBlock = m\<rparr> = Inr y"
  shows "same_tx x y"
  using cr km_sign_faithful [OF faithful sg] sign_faithfulD [OF faithful sg]
  by (auto simp: createStoredTransaction_def same_tx_def isSameAddress_def Let_def split: tx_fees.splits prod.splits)

lemma attempt_upkeep:
  assumes coll: "tx_collection (te_store env)" and faithful: "sign_faithful env" and up: "upkeep env db s"
    and old: "slot (te_store env) db (nonce_signer_of x) = Some x"
    and sg: "km_signTransaction (te_sign env) ks signer \<lparr>un_to = st_to x, un_value = v, un_gasLimit = st_gas x,
       un_fees = f, un_data = st_data x, un_nonce = st_nonce x\<rparr> = Inr (raw, signed)"
  shows "wp (updateTransactionWithAttempt env signed x blk) (\<lambda>_. upkeep env db) (\<lambda>_. upkeep env db) s"
  unfolding updateTransactionWithAttempt_def
proof (rule wp_lift_step)
  fix y assume cr: "createStoredTransaction signed
            \<lparr>m_from = st_from x, m_attempts = st_attempts x + 1, m_serverAction = st_serverAction x,
             m_creationBlock = st_creationBlock x, m_boostBlock = Some blk, m_minedBlock = st_minedBlock x\<rparr> = Inr y"
  show "wp (bnd (on_store (putTx (te_store env) y True)) (\<lambda>_. ret y)) (\<lambda>_. upkeep env db) (\<lambda>_. upkeep env db) s"
    unfolding wp_bnd wp_ret
    by (rule update_step [OF coll up old created_same_tx [OF faithful sg cr]])
qed (rule up)

lemma resend_upkeep:
  assumes coll: "tx_collection (te_store env)" and faithful: "sign_faithful env" and up: "upkeep env db s"
    and old: "slot (te_store env) db (nonce_signer_of x) = Some x"
  shows "wp (resendTransaction env x blk f p) (\<lambda>_. upkeep env db) (\<lambda>_. upkeep env db) s"
proof -
  have rest: "wp (bnd (getTransactionCount ch a l) (\<lambda>_. broadcastTransaction env raw h n))
      (\<lambda>_. upkeep env db) (\<lambda>_. upkeep env db) u" if "upkeep env db u" for u ch a l raw h n
    unfolding wp_bnd
    by (rule wp_mono [OF upkeep_world_only [OF world_only_node(2) that]], rule wp_broadcast)
      (simp_all add: upkeep_def)
  show ?thesis
    unfolding resendTransaction_def Let_def
    apply (subst wp_bnd, rule wp_mono [OF upkeep_world_only [OF world_only_validateBalance up]])
     apply (subst wp_bnd, subst wp_gets)
     apply (rule wp_lift_step, clarsimp)
      apply (subst wp_bnd, rule wp_mono [OF attempt_upkeep [OF coll faithful _ old]], assumption+)
       apply (erule rest)
    by assumption+
qed

lemma boost_all_upkeep:
  fixes s :: "('w, 'db, 'z) tm_state_scheme"
  assumes coll: "tx_collection (te_store env)" and faithful: "sign_faithful env"
    and "upkeep env db s" and "\<forall>x\<in>set txs. slot (te_store env) db (nonce_signer_of x) = Some x"
  shows "wp (boost_all env blk f p txs boosted) (\<lambda>_. upkeep env db) (\<lambda>_. upkeep env db) s"
  using assms(3,4)
proof (induction txs arbitrary: boosted s)
  case (Cons x txs)
  note res = resend_upkeep [OF coll faithful]
  have x: "slot (te_store env) db (nonce_signer_of x) = Some x" using Cons.prems(2) by simp
  have IH: "wp (boost_all env blk f p txs b) (\<lambda>_. upkeep env db) (\<lambda>_. upkeep env db) u" if "upkeep env db u"
    for b and u :: "('w, 'db, 'z) tm_state_scheme"
    using Cons.IH [OF that] Cons.prems(2) by simp
  show ?case
    by (simp add: wp_simps)
      (auto intro!: wp_mono [OF res [OF Cons.prems(1) x]] simp: IH wp_ret)
qed (simp add: wp_simps)

lemma range_slots:
  assumes "tx_collection N" and "tx_inv N db" and "x \<in> set (getTxsInNonceRange N signer lo hi db)"
  shows "slot N db (nonce_signer_of x) = Some x"
proof -
  have "x \<in># docs N db"
    using arg_cong [OF tx_collection.range_docs [OF assms(1,2), of signer lo hi], of set_mset] assms(3) by auto
  moreover have "st_nonceSigner x = Some (nonce_signer_of x)"
    using assms(2) calculation by (auto simp: tx_inv_def tx_normal_def)
  ultimately show ?thesis using tx_collection.slot_Some [OF assms(1,2)] by blast
qed

lemma all_slots:
  assumes "tx_collection N" and "tx_inv N db" and "x \<in> set (getAll N db)"
  shows "slot N db (nonce_signer_of x) = Some x"
proof -
  have "x \<in># docs N db"
    using arg_cong [OF tx_collection.getAll_docs [OF assms(1), of db], of set_mset] assms(3) by auto
  moreover have "st_nonceSigner x = Some (nonce_signer_of x)"
    using assms(2) calculation by (auto simp: tx_inv_def tx_normal_def)
  ultimately show ?thesis using tx_collection.slot_Some [OF assms(1,2)] by blast
qed

lemma boost_upkeep:
  assumes coll: "tx_collection (te_store env)" and faithful: "sign_faithful env"
    and inv: "tx_inv (te_store env) (txdb s)"
  shows "wp (boostUnderpricedPendingTransactionsForSigner env signer blk minFee)
    (\<lambda>_. upkeep env (txdb s)) (\<lambda>_. upkeep env (txdb s)) s"
proof -
  have up: "upkeep env (txdb s) (s\<lparr>world := w\<rparr>)" for w using inv by (simp add: upkeep_def)
  have boost: "wp (boost_all env blk f p (getTxsInNonceRange (te_store env) signer n hi (txdb s)) [])
      (\<lambda>_. upkeep env (txdb s)) (\<lambda>_. upkeep env (txdb s)) u" if "upkeep env (txdb s) u" for n hi f p u
    by (rule boost_all_upkeep [OF coll faithful that]) (use range_slots [OF coll inv] in blast)
  show ?thesis
    unfolding boostUnderpricedPendingTransactionsForSigner_def Let_def
    apply (subst wp_bnd, rule wp_world_only [OF world_only_node(2)])
     apply (subst wp_bnd, subst wp_gets)
     apply (simp add: up wp_simps split: list.split)
     apply (intro allI impI)
     apply (rule wp_mono [OF upkeep_world_only [OF world_only_gas(2) up]])
      apply (auto simp: boost split: prod.split)[1]
     apply (simp_all add: up)
    done
qed

lemma fillMined_upkeep:
  fixes s :: "('w, 'db, 'z) tm_state_scheme"
  assumes coll: "tx_collection (te_store env)" and inv: "tx_inv (te_store env) (txdb s)"
  shows "wp (fillMinedBlockDetailsForTransactions env blk) (\<lambda>_. upkeep env (txdb s)) (\<lambda>_. upkeep env (txdb s)) s"
proof -
  let ?db = "txdb s" and ?I = "\<lambda>_. upkeep env (txdb s)"
  have mined: "wp (updateTransactionWithMinedBlock env x b) ?I ?I u"
    if "upkeep env ?db u" "slot (te_store env) ?db (nonce_signer_of x) = Some x"
    for x b and u :: "('w, 'db, 'z) tm_state_scheme"
    unfolding updateTransactionWithMinedBlock_def
    by (rule update_step [OF coll that]) (simp add: same_tx_def)
  have "keeps (upkeep env ?db :: ('w, 'db, 'z) tm_state_scheme \<Rightarrow> bool) (for_each (\<lambda>tx.
       when_eff (should_recheck (te_config env) blk tx)
         (bnd (getTransaction (te_chain env) (st_txId tx)) (\<lambda>receipt.
          case Option.bind receipt ntx_blockNumber of
            None \<Rightarrow> ret ()
          | Some n \<Rightarrow>
              when_eff (map_option bi_number (st_minedBlock tx) \<noteq> Some n)
                (bnd (getBlock (te_chain env) n) (\<lambda>b. updateTransactionWithMinedBlock env tx b)))))
       (getAll (te_store env) ?db))"
  proof (rule keeps_for_each, rule keepsI)
    fix x and u :: "('w, 'db, 'z) tm_state_scheme"
    assume "x \<in> set (getAll (te_store env) ?db)" and u: "upkeep env ?db u"
    then have x: "slot (te_store env) ?db (nonce_signer_of x) = Some x" using all_slots [OF coll inv] by blast
    show "wp (when_eff (should_recheck (te_config env) blk x)
         (bnd (getTransaction (te_chain env) (st_txId x)) (\<lambda>receipt.
          case Option.bind receipt ntx_blockNumber of
            None \<Rightarrow> ret ()
          | Some n \<Rightarrow>
              when_eff (map_option bi_number (st_minedBlock x) \<noteq> Some n)
                (bnd (getBlock (te_chain env) n) (\<lambda>b. updateTransactionWithMinedBlock env x b))))) ?I ?I u"
      by (auto simp: wp_simps u split: option.split
          intro!: wp_mono [OF upkeep_world_only [OF world_only_node(3) u]]
            wp_mono [OF upkeep_world_only [OF world_only_node(4)]] mined [OF _ x])
  qed
  from keeps_wpD [OF this, of s] show ?thesis
    unfolding fillMinedBlockDetailsForTransactions_def wp_bnd wp_gets
    using inv by (simp add: upkeep_def)
qed

section \<open>An environment for witnesses\<close>

definition sample_sign :: "string \<Rightarrow> unsigned_tx \<Rightarrow> js_error + TypedTransaction" where
  "sample_sign signer tx = Inr \<lparr>tt_to = Some (un_to tx), tt_gasLimit = un_gasLimit tx, tt_data = buffer_hex (un_data tx),
     tt_nonce = un_nonce tx, tt_hash = ''0x'' @ replicate (nat (un_nonce tx)) (CHR ''7'') @ ''f'', tt_value = 0,
     tt_serialized = ''0xf8'', tt_fees = un_fees tx\<rparr>"

definition sample_libs :: libs where
  "sample_libs = \<lparr>lib_decodeString = Inr, lib_decodeRelayCall = (\<lambda>_. Inr (True, 0, [])), lib_encodeRelayCall = (\<lambda>_. ''0x''),
     lib_encodeVerifyRelayManagerStaked = (\<lambda>_. ''0x''), lib_toHex = id, lib_showError = (\<lambda>_. ''error''),
     lib_semverSatisfies = (\<lambda>_ _. True), lib_fromWei = int_to_string\<rparr>"

definition sample_chain :: "unit chain" where
  "sample_chain = offline_chain\<lparr>ch_getBalance := (\<lambda>_ _. ret (10 ^ 18)), ch_getTransactionCount := (\<lambda>_ _. ret 6),
     ch_getGasPrice := ret (Some 12)\<rparr>"

definition sample_env :: "(unit, StoredTransaction list) tm_env" where
  "sample_env = \<lparr>te_chain = sample_chain, te_lib = sample_libs, te_interactor = sample_ci_config,
     te_config = serverDefaultConfiguration, te_store = list_nedb tx_clash, te_managers = [''0xAb''],
     te_workers = [''0xcc''], te_sign = sample_sign, te_oracle = (\<lambda>_. offline)\<rparr>"

definition sample_state :: "(unit, StoredTransaction list) tm_state" where
  "sample_state = \<lparr>world = (), lastBlockNumber = 0, ci_transactionType = LEGACY, ci_deployment = no_deployment,
     contract_instances = no_instances, ci_relayHubConfiguration = None, ci_rawTxOptions = None,
     ci_paymasterVersion = None, txdb = sample_store, nonces = [(''0xAb'', 5), (''0xcc'', 0)], shouldRefreshBalances = False,
     tm_transactionType = LEGACY\<rparr>"

definition sample_details :: SendTransactionDetails where
  "sample_details = \<lparr>sd_signer = ''0xAb'', sd_serverAction = RELAY_CALL, sd_method = None, sd_destination = ''0xdd'',
     sd_value = None, sd_gasLimit = Some 21000, sd_maxFeePerGas = Some ''20'', sd_maxPriorityFeePerGas = None,
     sd_creationBlock = \<lparr>bi_hash = [], bi_number = 9, bi_timestamp = 90\<rparr>\<rparr>"

lemma sample_env_coll: "tx_collection (te_store sample_env)"
  by (simp add: sample_env_def list_txs.tx_collection_axioms)

lemma sample_env_sign: "sign_faithful sample_env"
  by (auto simp: sign_faithful_def sample_env_def sample_sign_def)

lemma sample_env_inv: "tx_inv (te_store sample_env) (txdb sample_state)"
  by (simp add: sample_env_def sample_state_def sample_store_inv)

section \<open>Properties\<close>

text \<open>
  C7: sending is safe, whatever the node and the price oracle answer. When \<open>sendTransaction\<close> returns, the slot of
  the signer and the returned nonce was free before and now holds the transaction on its first attempt, and
  the local nonce of the signer, if known, was at most that nonce and is now the next one. On every outcome
  no stored transaction changes, what is added is the requested transaction (never one to the zero address),
  no local nonce decreases, and the store stays consistent.
\<close>

theorem sendTransaction_safe:
  assumes "tx_collection (te_store env)" and "sign_faithful env" and "tx_inv (te_store env) (txdb s)"
  shows "case sendTransaction env d s of
     (Inr det, t) \<Rightarrow> tm_kept env (made_from d) s t \<and> sent env (sd_signer d) s (std_nonce det) t
   | (Inl _, t) \<Rightarrow> tm_kept env (made_from d) s t"
  using sendTransaction_wp [OF assms, of d] by (simp add: wp_def split: prod.splits sum.splits)

theorem sendTransaction_safe_witness:
  "case sendTransaction sample_env sample_details sample_state of
     (Inr det, t) \<Rightarrow> tm_kept sample_env (made_from sample_details) sample_state t
        \<and> sent sample_env (sd_signer sample_details) sample_state (std_nonce det) t
   | (Inl _, t) \<Rightarrow> tm_kept sample_env (made_from sample_details) sample_state t"
  by (rule sendTransaction_safe [OF sample_env_coll sample_env_sign sample_env_inv])

text \<open>Several sends, one after the other, whatever becomes of each.\<close>

fun send_all ::
  "('w, 'db) tm_env \<Rightarrow> SendTransactionDetails list \<Rightarrow> ('w, 'db, 'z) tm_state_scheme \<Rightarrow>
   (SendTransactionDetails \<times> (js_error + SignedTransactionDetails)) list" where
  "send_all env [] s = []"
| "send_all env (d # ds) s = (case sendTransaction env d s of (r, t) \<Rightarrow> (d, r) # send_all env ds t)"

definition nonces_of :: "string \<Rightarrow> (SendTransactionDetails \<times> (js_error + SignedTransactionDetails)) list \<Rightarrow> int list" where
  "nonces_of signer rs =
     concat (map (\<lambda>(d, r). case r of Inr det \<Rightarrow> if sd_signer d = signer then [std_nonce det] else [] | Inl _ \<Rightarrow> []) rs)"

lemma send_all_nonces:
  fixes s :: "('w, 'db, 'z) tm_state_scheme"
  assumes "tx_collection (te_store env)" and "sign_faithful env" and "tx_inv (te_store env) (txdb s)"
    and "map_of (nonces s) signer = Some k"
  shows "sorted_wrt (<) (nonces_of signer (send_all env ds s)) \<and> (\<forall>n\<in>set (nonces_of signer (send_all env ds s)). k \<le> n)"
  using assms(3,4)
proof (induction ds arbitrary: s k)
  case (Cons d ds)
  obtain r t where rt: "sendTransaction env d s = (r, t)" by fastforce
  have step: "case r of Inr det \<Rightarrow> tm_kept env (made_from d) s t \<and> sent env (sd_signer d) s (std_nonce det) t
      | Inl _ \<Rightarrow> tm_kept env (made_from d) s t"
    using sendTransaction_wp [OF assms(1,2) Cons.prems(1), of d] by (simp add: rt wp_def split: sum.splits)
  then have kept: "tm_kept env (made_from d) s t" by (simp split: sum.splits)
  then obtain k' where k': "map_of (nonces t) signer = Some k'" "k \<le> k'"
    using Cons.prems(2) by (auto simp: tm_kept_def nonces_le_def)
  have IH: "sorted_wrt (<) (nonces_of signer (send_all env ds t))" "\<forall>n\<in>set (nonces_of signer (send_all env ds t)). k' \<le> n"
    using Cons.IH [of t k'] kept k'(1) by (auto simp: tm_kept_def)
  show ?case
  proof (cases "\<exists>det. r = Inr det \<and> sd_signer d = signer")
    case True
    then obtain det where det: "r = Inr det" "sd_signer d = signer" by blast
    then have "k \<le> std_nonce det" "k' = std_nonce det + 1"
      using step k'(1) Cons.prems(2) by (auto simp: sent_def)
    then show ?thesis using IH det rt by (fastforce simp: nonces_of_def)
  next
    case False
    then have "nonces_of signer (send_all env (d # ds) s) = nonces_of signer (send_all env ds t)"
      by (auto simp: nonces_of_def rt split: sum.splits)
    then show ?thesis using IH k'(2) by fastforce
  qed
qed (simp add: nonces_of_def)

text \<open>
  C9: over any sequence of sends of any signers, interleaved and failing as they may, the nonces of the
  transactions of one signer strictly increase, from the one that is known at the start on: no nonce is ever
  used twice, whatever the node says of the account.
\<close>

theorem nonces_strictly_increase:
  assumes "tx_collection (te_store env)" and "sign_faithful env" and "tx_inv (te_store env) (txdb s)"
    and "map_of (nonces s) signer = Some k"
  shows "sorted_wrt (<) (nonces_of signer (send_all env ds s)) \<and> list_all ((\<le>) k) (nonces_of signer (send_all env ds s))"
  using send_all_nonces [OF assms] by (simp add: list_all_iff)

theorem nonces_strictly_increase_witness:
  "sorted_wrt (<) (nonces_of ''0xAb'' (send_all sample_env [sample_details, sample_details] sample_state))
   \<and> list_all ((\<le>) 5) (nonces_of ''0xAb'' (send_all sample_env [sample_details, sample_details] sample_state))"
  by (rule nonces_strictly_increase [OF sample_env_coll sample_env_sign sample_env_inv]) (simp add: sample_state_def)

text \<open>
  C38: the boosted fees. With a factor of at least 1 and a cap that is a number, the new fee is the old one times the
  factor, raised to the current base fee and cut at the cap; the new priority fee is the old one times the
  factor, raised to the minimum and cut at the new fee; so a fee that is at most the cap never falls, and
  the flag tells whether the cap was passed.
\<close>

theorem resolveNewGasPrice_bounds:
  assumes "parseInt (sc_maxMaxFeePerGas cfg) = Some cap" and "1 \<le> sc_retryGasPriceFactor cfg" and "0 \<le> oldFee"
  shows "case resolveNewGasPrice cfg oldFee oldPriority minPriority (Some baseFee) of (fee, priority, reached) \<Rightarrow>
     fee = min cap (max baseFee (math_round (of_int oldFee * sc_retryGasPriceFactor cfg)))
     \<and> priority = min fee (max minPriority (math_round (of_int oldPriority * sc_retryGasPriceFactor cfg)))
     \<and> fee \<le> cap \<and> priority \<le> fee \<and> (oldFee \<le> cap \<longrightarrow> oldFee \<le> fee) \<and> (baseFee \<le> cap \<longrightarrow> baseFee \<le> fee)
     \<and> (reached \<longleftrightarrow> cap < max baseFee (math_round (of_int oldFee * sc_retryGasPriceFactor cfg)))"
proof -
  have "(of_int oldFee :: rat) * 1 \<le> of_int oldFee * sc_retryGasPriceFactor cfg"
    using assms(2,3) by (intro mult_left_mono) simp_all
  then have "oldFee \<le> math_round (of_int oldFee * sc_retryGasPriceFactor cfg)"
    using math_round_mono by fastforce
  then show ?thesis using assms(1) by (simp add: resolveNewGasPrice_def Let_def min_def max_def) linarith?
qed

theorem resolveNewGasPrice_bounds_witness:
  "case resolveNewGasPrice serverDefaultConfiguration 100 10 15 (Some 110) of (fee, priority, reached) \<Rightarrow>
     fee = min 500000000000 (max 110 (math_round (of_int 100 * sc_retryGasPriceFactor serverDefaultConfiguration)))
     \<and> priority = min fee (max 15 (math_round (of_int 10 * sc_retryGasPriceFactor serverDefaultConfiguration)))
     \<and> fee \<le> 500000000000 \<and> priority \<le> fee \<and> (100 \<le> (500000000000 :: int) \<longrightarrow> 100 \<le> fee)
     \<and> (110 \<le> (500000000000 :: int) \<longrightarrow> 110 \<le> fee)
     \<and> (reached \<longleftrightarrow> 500000000000 < max 110 (math_round (of_int 100 * sc_retryGasPriceFactor serverDefaultConfiguration)))"
proof (rule resolveNewGasPrice_bounds)
  show "parseInt (sc_maxMaxFeePerGas serverDefaultConfiguration) = Some 500000000000"
    by (simp add: serverDefaultConfiguration_def parseInt_def strip_sign_def has_hex_prefix_def starts_with_def
        is_space_char_def parse_prefix_def digits_val_def digit_val_def)
qed (simp_all add: serverDefaultConfiguration_def)

text \<open>
  upkeep never loses or invents a transaction. Boosting a signer and recording mined blocks keep, on every outcome,
  which signer and nonce is taken, and for each of them the target, the call data, the gas limit, the action and the
  creation block; only the transaction id, the fees, the attempts and the boost and mined blocks change; the
  store stays consistent.
\<close>

theorem upkeep_keeps_transactions:
  assumes "tx_collection (te_store env)" and "sign_faithful env" and "tx_inv (te_store env) (txdb s)"
  shows "upkeep env (txdb s) (snd (boostUnderpricedPendingTransactionsForSigner env signer blk minFee s))
    \<and> upkeep env (txdb s) (snd (fillMinedBlockDetailsForTransactions env blk s))"
  using boost_upkeep [OF assms, of signer blk minFee] fillMined_upkeep [OF assms(1,3), of blk] by (simp add: wp_same)

theorem upkeep_keeps_transactions_witness:
  "upkeep sample_env (txdb sample_state) (snd (boostUnderpricedPendingTransactionsForSigner sample_env ''0xAb''
      \<lparr>bi_hash = [], bi_number = 50, bi_timestamp = 5000\<rparr> 1 sample_state))
   \<and> upkeep sample_env (txdb sample_state) (snd (fillMinedBlockDetailsForTransactions sample_env
      \<lparr>bi_hash = [], bi_number = 50, bi_timestamp = 5000\<rparr> sample_state))"
  by (rule upkeep_keeps_transactions [OF sample_env_coll sample_env_sign sample_env_inv])

end
