(* ===== verification/RegistrationManager.thy ===== *)
theory RegistrationManager imports TransactionManager InteractorInit AmountRequired begin

text \<open>
  \<open>packages/relay/src/RegistrationManager.ts\<close>: stake, authorisation and registration of the relay manager.
  The state extends the one of the transaction manager. Log messages are not modelled, and with them
  \<open>printNotRegisteredMessage\<close> and \<open>printEvents\<close>; the event \<open>unstaked\<close> is counted. A block that is handed from
  method to method as number, hash and timestamp is one \<open>ShortBlockInfo\<close>.
\<close>

section \<open>State and environment\<close>

record ('w, 'db) rg_state = "('w, 'db) tm_state" +
  balanceRequired :: amount_required
  stakeRequired :: amount_required
  isSetOwnerCalled :: bool
  isOwnerSetOnStakeManager :: bool
  isHubAuthorized :: bool
  isStakeLocked :: bool
  rg_isInitialized :: bool
  rg_ownerAddress :: "string option"
  currentRelayInfo :: "RegistrarRelayInfo option"
  delayedEvents :: "(string \<times> event_data) list"
  unstaked_events :: nat

text \<open>The ABI encoding of the calls the server makes.\<close>

record server_abi =
  enc_registerRelayServer :: "string \<Rightarrow> string list \<Rightarrow> string"
  enc_authorizeHubByManager :: "string \<Rightarrow> string"
  enc_addRelayWorkers :: "string list \<Rightarrow> string"
  enc_setRelayManagerOwner :: "string \<Rightarrow> string"
  enc_withdraw :: "string \<Rightarrow> string \<Rightarrow> string"

record ('w, 'db) rg_env =
  ge_tm :: "('w, 'db) tm_env"
  ge_formats :: formats
  ge_abi :: server_abi

definition managerAddress :: "('w, 'db, 'e) rg_env_scheme \<Rightarrow> string" where
  "managerAddress env = getAddress (te_managers (ge_tm env)) 0"

definition workerAddress :: "('w, 'db, 'e) rg_env_scheme \<Rightarrow> string" where
  "workerAddress env = getAddress (te_workers (ge_tm env)) 0"

abbreviation ge_config :: "('w, 'db, 'e) rg_env_scheme \<Rightarrow> ServerConfigParams" where
  "ge_config env \<equiv> te_config (ge_tm env)"

abbreviation ge_chain :: "('w, 'db, 'e) rg_env_scheme \<Rightarrow> 'w chain" where
  "ge_chain env \<equiv> te_chain (ge_tm env)"

text \<open>Details with everything optional left out.\<close>

definition tx_details :: "string \<Rightarrow> ServerAction \<Rightarrow> string \<Rightarrow> ShortBlockInfo \<Rightarrow> SendTransactionDetails" where
  "tx_details signer action destination currentBlock =
     \<lparr>sd_signer = signer, sd_serverAction = action, sd_method = None, sd_destination = destination, sd_value = None,
      sd_gasLimit = None, sd_maxFeePerGas = None, sd_maxPriorityFeePerGas = None, sd_creationBlock = currentBlock\<rparr>"

definition send_hash ::
  "('w, 'db, 'e) rg_env_scheme \<Rightarrow> SendTransactionDetails \<Rightarrow> (('w, 'db, 'z) tm_state_scheme, string list) eff" where
  "send_hash env details = bnd (sendTransaction (ge_tm env) details) (\<lambda>d. ret [std_transactionHash d])"

definition is_pending ::
  "('w, 'db, 'e) rg_env_scheme \<Rightarrow> ServerAction \<Rightarrow> ShortBlockInfo \<Rightarrow> string option \<Rightarrow> (('w, 'db, 'z) tm_state_scheme, bool) eff" where
  "is_pending env action currentBlock destination =
     gets (\<lambda>s. isActionPendingOrRecentlyMined (te_store (ge_tm env)) action (bi_number currentBlock)
       (sc_recentActionAvoidRepeatDistanceBlocks (ge_config env)) destination (txdb s))"

section \<open>Balance and stake\<close>

definition refreshBalance :: "('w, 'db, 'e) rg_env_scheme \<Rightarrow> (('w, 'db, 'z) rg_state_scheme, unit) eff" where
  "refreshBalance env =
     bnd (getBalance (ge_chain env) (managerAddress env) ''latest'') (\<lambda>currentBalance.
     modify (\<lambda>s. s\<lparr>balanceRequired := set_currentValue (ge_formats env) currentBalance (balanceRequired s)\<rparr>))"

definition authorizeHub ::
  "('w, 'db, 'e) rg_env_scheme \<Rightarrow> ShortBlockInfo \<Rightarrow> (('w, 'db, 'z) rg_state_scheme, string list) eff" where
  "authorizeHub env currentBlock =
     bnd (is_pending env AUTHORIZE_HUB currentBlock None) (\<lambda>isAuthorizePending.
     if isAuthorizePending then ret []
     else with_instance in_relayHub (\<lambda>hub. with_instance in_stakeManager (\<lambda>stakeManager.
       send_hash env ((tx_details (managerAddress env) AUTHORIZE_HUB stakeManager currentBlock)
         \<lparr>sd_method := Some (enc_authorizeHubByManager (ge_abi env) hub)\<rparr>))))"

definition refreshStake ::
  "('w, 'db, 'e) rg_env_scheme \<Rightarrow> ShortBlockInfo \<Rightarrow> (('w, 'db, 'z) rg_state_scheme, string list) eff" where
  "refreshStake env currentBlock =
     bnd (getStakeInfo (ge_chain env) (managerAddress env)) (\<lambda>stakeInfo.
     bnd (isRelayManagerStakedOnHub (ge_chain env) (te_lib (ge_tm env)) (managerAddress env)) (\<lambda>stakedOnHubStatus.
     bnd (if ms_isStaked stakedOnHubStatus then
            bnd (modify (\<lambda>s. s\<lparr>isHubAuthorized := True\<rparr>)) (\<lambda>_. ret [])
          else if ms_errorMessage stakedOnHubStatus = Some ''this hub is not authorized by SM'' then
            authorizeHub env currentBlock
          else ret []) (\<lambda>transactionHashes.
     bnd (modify (\<lambda>s. s\<lparr>isOwnerSetOnStakeManager := si_owner stakeInfo \<noteq> ZERO_ADDRESS\<rparr>)) (\<lambda>_.
     if si_owner stakeInfo \<noteq> ZERO_ADDRESS \<and> \<not> isSameAddress (si_owner stakeInfo) (sc_ownerAddress (ge_config env)) then
       throw (''This Relay Manager has set owner to already! On-chain: '' @ si_owner stakeInfo @ '', in config: ''
         @ sc_ownerAddress (ge_config env))
     else if si_stake stakeInfo = 0 then ret transactionHashes
     else
       bnd (modify (\<lambda>s. s\<lparr>isStakeLocked := si_withdrawTime stakeInfo = 0,
              stakeRequired := set_currentValue (ge_formats env) (si_stake stakeInfo) (stakeRequired s),
              rg_ownerAddress := (case rg_ownerAddress s of None \<Rightarrow> Some (si_owner stakeInfo) | Some a \<Rightarrow> Some a)\<rparr>)) (\<lambda>_.
       ret transactionHashes)))))"

definition rg_init ::
  "('w, 'db, 'e) rg_env_scheme \<Rightarrow> ShortBlockInfo \<Rightarrow> (('w, 'db, 'z) rg_state_scheme, string list) eff" where
  "rg_init env latestBlock =
     bnd (getErc20TokenMetadata (ge_chain env)) (\<lambda>(name, symbol, decimals).
     bnd (getMinimumStakePerToken (ge_chain env) (sc_managerStakeTokenAddress (ge_config env))) (\<lambda>minimumStakePerToken.
     bnd (modify (\<lambda>s. s\<lparr>balanceRequired := newAmountRequired ''Balance'' (sc_managerMinBalance (ge_config env)) True ether,
            stakeRequired := newAmountRequired ''Stake'' minimumStakePerToken True
              \<lparr>tokenName = name, tokenSymbol = symbol, tokenDecimals = decimals\<rparr>\<rparr>)) (\<lambda>_.
     bnd (refreshBalance env) (\<lambda>_.
     bnd (refreshStake env latestBlock) (\<lambda>transactionHashes.
     bnd (modify (\<lambda>s. s\<lparr>rg_isInitialized := True\<rparr>)) (\<lambda>_. ret transactionHashes))))))"

section \<open>Sending funds to the owner\<close>

definition mintxgascost :: int where
  "mintxgascost = env_mintxgascost ganacheLocal"

text \<open>
  The transfer to \<open>this.ownerAddress as string\<close>: the address is not checked, so without an owner
  \<open>sendTransaction\<close> throws when it compares addresses, after it checked the balance.
\<close>

definition transfer_to_owner ::
  "('w, 'db, 'e) rg_env_scheme \<Rightarrow> string \<Rightarrow> ShortBlockInfo \<Rightarrow> (('w, 'db, 'z) rg_state_scheme, string list) eff" where
  "transfer_to_owner env signer currentBlock =
     bnd (ci_getGasPrice (ge_chain env) (te_interactor (ge_tm env))) (\<lambda>gasPrice.
     let txCost = mintxgascost * gasPrice
     in bnd (getBalance (ge_chain env) signer ''latest'') (\<lambda>signerBalance.
        if signerBalance \<ge> txCost then
          bnd (gets rg_ownerAddress) (\<lambda>owner. case owner of
            None \<Rightarrow> bnd (validateBalance (ge_tm env) signer (Some gasPrice) mintxgascost) (\<lambda>_.
              throw ''Cannot read properties of undefined (reading toLowerCase)'')
          | Some ownerAddress \<Rightarrow>
              send_hash env ((tx_details signer VALUE_TRANSFER ownerAddress currentBlock)
                \<lparr>sd_gasLimit := Some mintxgascost, sd_maxFeePerGas := Some (int_to_string gasPrice),
                 sd_maxPriorityFeePerGas := Some (int_to_string gasPrice),
                 sd_value := Some (int_to_hex (signerBalance - txCost))\<rparr>))
        else ret []))"

definition sendManagerEthBalanceToOwner ::
  "('w, 'db, 'e) rg_env_scheme \<Rightarrow> ShortBlockInfo \<Rightarrow> (('w, 'db, 'z) rg_state_scheme, string list) eff" where
  "sendManagerEthBalanceToOwner env currentBlock = transfer_to_owner env (managerAddress env) currentBlock"

definition sendWorkersEthBalancesToOwner ::
  "('w, 'db, 'e) rg_env_scheme \<Rightarrow> ShortBlockInfo \<Rightarrow> (('w, 'db, 'z) rg_state_scheme, string list) eff" where
  "sendWorkersEthBalancesToOwner env currentBlock = transfer_to_owner env (workerAddress env) currentBlock"

text \<open>The gas cost, the gas limit and the call.\<close>

definition withdrawHubBalanceEstimateGas ::
  "('w, 'db, 'e) rg_env_scheme \<Rightarrow> int \<Rightarrow> string \<Rightarrow> string \<Rightarrow> int \<Rightarrow> (('w, 'z) ci_state_scheme, int \<times> int \<times> string) eff" where
  "withdrawHubBalanceEstimateGas env amount destination manager gasPrice =
     with_instance in_relayHub (\<lambda>hub.
     let call = enc_withdraw (ge_abi env) destination (int_to_string amount)
     in bnd (estimateGas (ge_chain env)
          \<lparr>tc_from = manager, tc_to = hub, tc_data = call, tc_value = None, tc_maxFeePerGas = None,
           tc_maxPriorityFeePerGas = None\<rparr>) (\<lambda>withdrawTxGasLimit.
        ret (withdrawTxGasLimit * gasPrice, withdrawTxGasLimit, call)))"

definition sendManagerHubBalanceToOwner ::
  "('w, 'db, 'e) rg_env_scheme \<Rightarrow> ShortBlockInfo \<Rightarrow> int option \<Rightarrow> (('w, 'db, 'z) rg_state_scheme, string list) eff" where
  "sendManagerHubBalanceToOwner env currentBlock amount0 =
     bnd (gets rg_ownerAddress) (\<lambda>owner. case owner of
       None \<Rightarrow> throw ''Owner address not initialized''
     | Some ownerAddress \<Rightarrow>
         bnd (ci_getGasPrice (ge_chain env) (te_interactor (ge_tm env))) (\<lambda>gasPrice.
         bnd (hubBalanceOf (ge_chain env) (managerAddress env)) (\<lambda>managerHubBalance.
         bnd (case amount0 of None \<Rightarrow> ret managerHubBalance
              | Some a \<Rightarrow>
                  if a > managerHubBalance then
                    throw (''Withdrawal amount '' @ int_to_string a @ '' larger than manager hub balance ''
                      @ int_to_string managerHubBalance)
                  else ret a) (\<lambda>amount.
         bnd (withdrawHubBalanceEstimateGas env amount ownerAddress (managerAddress env) gasPrice) (\<lambda>(gasCost, gasLimit, call).
         if amount \<ge> gasCost then
           send_hash env ((tx_details (managerAddress env) DEPOSIT_WITHDRAWAL (sc_relayHubAddress (ge_config env)) currentBlock)
             \<lparr>sd_gasLimit := Some gasLimit, sd_method := Some call\<rparr>)
         else ret [])))))"

definition withdrawAllFunds ::
  "('w, 'db, 'e) rg_env_scheme \<Rightarrow> bool \<Rightarrow> ShortBlockInfo \<Rightarrow> (('w, 'db, 'z) rg_state_scheme, string list) eff" where
  "withdrawAllFunds env withdrawManager currentBlock =
     bnd (sendManagerHubBalanceToOwner env currentBlock None) (\<lambda>h1.
     bnd (sendWorkersEthBalancesToOwner env currentBlock) (\<lambda>h2.
     bnd (if withdrawManager then sendManagerEthBalanceToOwner env currentBlock else ret []) (\<lambda>h3.
     bnd (modify (\<lambda>s. s\<lparr>unstaked_events := unstaked_events s + 1\<rparr>)) (\<lambda>_. ret (h1 @ h2 @ h3)))))"

section \<open>Registration\<close>

definition setOwnerInStakeManager ::
  "('w, 'db, 'e) rg_env_scheme \<Rightarrow> ShortBlockInfo \<Rightarrow> (('w, 'db, 'z) rg_state_scheme, string list) eff" where
  "setOwnerInStakeManager env currentBlock =
     with_instance in_stakeManager (\<lambda>stakeManager.
       send_hash env ((tx_details (managerAddress env) SET_OWNER stakeManager currentBlock)
         \<lparr>sd_method := Some (enc_setRelayManagerOwner (ge_abi env) (sc_ownerAddress (ge_config env)))\<rparr>))"

definition addRelayWorker ::
  "('w, 'db, 'e) rg_env_scheme \<Rightarrow> ShortBlockInfo \<Rightarrow> (('w, 'db, 'z) rg_state_scheme, string list) eff" where
  "addRelayWorker env currentBlock =
     with_instance in_relayHub (\<lambda>_.
       send_hash env ((tx_details (managerAddress env) ADD_WORKER (sc_relayHubAddress (ge_config env)) currentBlock)
         \<lparr>sd_method := Some (enc_addRelayWorkers (ge_abi env) [workerAddress env])\<rparr>))"

definition isWorkerValid :: "('w, 'db, 'e) rg_env_scheme \<Rightarrow> (('w, 'db, 'z) rg_state_scheme, bool) eff" where
  "isWorkerValid env =
     bnd (workerToManager (ge_chain env) (workerAddress env)) (\<lambda>managerFromHub.
     ret (toLowerCase managerFromHub = toLowerCase (managerAddress env)))"

definition refreshRegistrarRelayInfo :: "('w, 'db, 'e) rg_env_scheme \<Rightarrow> (('w, 'db, 'z) rg_state_scheme, unit) eff" where
  "refreshRegistrarRelayInfo env =
     try_catch
       (bnd (getRelayInfo (ge_chain env) (managerAddress env)) (\<lambda>info. modify (\<lambda>s. s\<lparr>currentRelayInfo := Some info\<rparr>)))
       (\<lambda>_. modify (\<lambda>s. s\<lparr>currentRelayInfo := None\<rparr>))"

definition isRegistrationCorrect :: "('w, 'db, 'e) rg_env_scheme \<Rightarrow> ('w, 'db, 'z) rg_state_scheme \<Rightarrow> bool" where
  "isRegistrationCorrect env s \<longleftrightarrow>
     (case currentRelayInfo s of None \<Rightarrow> False | Some i \<Rightarrow> ri_relayUrl i = sc_url (ge_config env))"

definition isRegistered :: "('w, 'db, 'e) rg_env_scheme \<Rightarrow> ('w, 'db, 'z) rg_state_scheme \<Rightarrow> bool" where
  "isRegistered env s \<longleftrightarrow>
     isSatisfied (stakeRequired s) \<and> isStakeLocked s \<and> isHubAuthorized s \<and> isRegistrationCorrect env s"

definition prerequisites :: "('w, 'db, 'z) rg_state_scheme \<Rightarrow> bool" where
  "prerequisites s \<longleftrightarrow>
     isHubAuthorized s \<and> isStakeLocked s \<and> isSatisfied (stakeRequired s) \<and> isSatisfied (balanceRequired s)"

definition registerRelay ::
  "('w, 'db, 'e) rg_env_scheme \<Rightarrow> ShortBlockInfo \<Rightarrow> (('w, 'db, 'z) rg_state_scheme, string list) eff" where
  "registerRelay env currentBlock =
     bnd (isWorkerValid env) (\<lambda>workersAdded.
     bnd (is_pending env ADD_WORKER currentBlock None) (\<lambda>addWorkersPending.
     let addWorker = \<not> (workersAdded \<or> addWorkersPending)
     in bnd (if addWorker then addRelayWorker env currentBlock else ret []) (\<lambda>transactions.
        with_instance in_relayRegistrar (\<lambda>registrar.
        bnd (lift_result (splitRelayUrlForRegistrar (sc_url (ge_config env)) 3)) (\<lambda>urlParts.
        bnd (send_hash env ((tx_details (managerAddress env) REGISTER_SERVER registrar currentBlock)
          \<lparr>sd_gasLimit := (if addWorker then Some (sc_defaultGasLimit (ge_config env)) else None),
           sd_method := Some (enc_registerRelayServer (ge_abi env) (sc_relayHubAddress (ge_config env)) urlParts)\<rparr>)) (\<lambda>h.
        ret (transactions @ h)))))))"

definition attemptRegistration ::
  "('w, 'db, 'e) rg_env_scheme \<Rightarrow> ShortBlockInfo \<Rightarrow> (('w, 'db, 'z) rg_state_scheme, string list) eff" where
  "attemptRegistration env currentBlock =
     bnd (isRelayManagerStakedOnHub (ge_chain env) (te_lib (ge_tm env)) (managerAddress env)) (\<lambda>stakeOnHubStatus.
     bnd (gets prerequisites) (\<lambda>ok.
     if \<not> (ok \<and> ms_isStaked stakeOnHubStatus) then
       bnd (refreshStake env currentBlock) (\<lambda>_. bnd (refreshBalance env) (\<lambda>_. ret []))
     else registerRelay env currentBlock))"

section \<open>Events\<close>

definition handleHubAuthorizedEvent :: "('w, 'db, 'e) rg_env_scheme \<Rightarrow> event_data \<Rightarrow> (('w, 'db, 'z) rg_state_scheme, unit) eff" where
  "handleHubAuthorizedEvent env dlog =
     when_eff (toLowerCase (ret_val ''relayHub'' dlog) = toLowerCase (sc_relayHubAddress (ge_config env)))
       (modify (\<lambda>s. s\<lparr>isHubAuthorized := True\<rparr>))"

text \<open>Due events; a time that is not a number is neither due nor kept.\<close>

definition extractDuePendingEvents :: "int \<Rightarrow> (('w, 'db, 'z) rg_state_scheme, event_data list) eff" where
  "extractDuePendingEvents currentBlockTime =
     bnd (gets delayedEvents) (\<lambda>ds.
     bnd (modify (\<lambda>s. s\<lparr>delayedEvents := filter (\<lambda>(t, _). js_less (Some currentBlockTime) (parseInt t)) (delayedEvents s)\<rparr>)) (\<lambda>_.
     ret (map snd (filter (\<lambda>(t, _). js_leq (parseInt t) (Some currentBlockTime)) ds))))"

definition handle_manager_event ::
  "('w, 'db, 'e) rg_env_scheme \<Rightarrow> ShortBlockInfo \<Rightarrow> event_data \<Rightarrow> (('w, 'db, 'z) rg_state_scheme, string list) eff" where
  "handle_manager_event env currentBlock e =
     (if ed_event e = ''HubAuthorized'' then bnd (handleHubAuthorizedEvent env e) (\<lambda>_. ret [])
      else if ed_event e = ''OwnerSet'' \<or> ed_event e = ''StakeAdded'' \<or> ed_event e = ''StakeUnlocked'' then
        refreshStake env currentBlock
      else if ed_event e = ''HubUnauthorized'' then
        bnd (when_eff (isSameAddress (ret_val ''relayHub'' e) (sc_relayHubAddress (ge_config env)))
               (modify (\<lambda>s. s\<lparr>isHubAuthorized := False,
                  delayedEvents := delayedEvents s @ [(ret_val ''removalTime'' e, e)]\<rparr>))) (\<lambda>_. ret [])
      else if ed_event e = ''StakeWithdrawn'' then
        bnd (refreshStake env currentBlock) (\<lambda>h1. bnd (withdrawAllFunds env True currentBlock) (\<lambda>h2. ret (h1 @ h2)))
      else ret [])"

definition handle_due_event ::
  "('w, 'db, 'e) rg_env_scheme \<Rightarrow> ShortBlockInfo \<Rightarrow> event_data \<Rightarrow> (('w, 'db, 'z) rg_state_scheme, string list) eff" where
  "handle_due_event env currentBlock e =
     (if ed_event e = ''HubUnauthorized'' then withdrawAllFunds env False currentBlock else ret [])"

definition set_owner_once ::
  "('w, 'db, 'e) rg_env_scheme \<Rightarrow> ShortBlockInfo \<Rightarrow> (('w, 'db, 'z) rg_state_scheme, string list) eff" where
  "set_owner_once env currentBlock =
     bnd (gets (\<lambda>s. \<not> isOwnerSetOnStakeManager s \<and> isSatisfied (balanceRequired s) \<and> \<not> isSetOwnerCalled s)) (\<lambda>b.
     if b then bnd (modify (\<lambda>s. s\<lparr>isSetOwnerCalled := True\<rparr>)) (\<lambda>_. setOwnerInStakeManager env currentBlock)
     else ret [])"

definition manager_events :: "string list" where
  "manager_events = [''HubAuthorized'', ''StakeAdded'', ''HubUnauthorized'', ''StakeUnlocked'', ''StakeWithdrawn'', ''OwnerSet'']"

definition handlePastEvents ::
  "('w, 'db, 'e) rg_env_scheme \<Rightarrow> int \<Rightarrow> ShortBlockInfo \<Rightarrow> bool \<Rightarrow> (('w, 'db, 'z) rg_state_scheme, string list) eff" where
  "handlePastEvents env lastScannedBlock currentBlock forceRegistration =
     bnd (gets rg_isInitialized) (\<lambda>initialized.
     if \<not> initialized then throw ''RegistrationManager not initialized''
     else
       bnd (getPastEventsForStakeManager (ge_chain env) (te_interactor (ge_tm env)) manager_events
              [Topic (address2topic (managerAddress env))] (Some (Block (lastScannedBlock + 1))) (Some (Tag ''latest''))) (\<lambda>decodedEvents.
       bnd (set_owner_once env currentBlock) (\<lambda>h1.
       bnd (concat_each (handle_manager_event env currentBlock) decodedEvents) (\<lambda>h2.
       bnd (extractDuePendingEvents (bi_timestamp currentBlock)) (\<lambda>due.
       bnd (concat_each (handle_due_event env currentBlock) due) (\<lambda>h3.
       bnd (refreshRegistrarRelayInfo env) (\<lambda>_.
       bnd (gets (isRegistrationCorrect env)) (\<lambda>correct.
       bnd (is_pending env REGISTER_SERVER currentBlock None) (\<lambda>isRegistrationPending.
       bnd (if \<not> (isRegistrationPending \<or> correct) \<or> forceRegistration
            then attemptRegistration env currentBlock else ret []) (\<lambda>h4.
       ret (h1 @ h2 @ h3 @ h4)))))))))))"

end
