(* ===== verification/Frames.thy ===== *)
theory Frames imports RegistrationManager TxManagerProps begin

text \<open>
  Which fields an operation can change: rules that carry an invariant through the operations of the contract
  interactor and the transaction manager whenever the invariant does not look at the fields those change.
\<close>

section \<open>The contract interactor\<close>

text \<open>The invariant does not look at the world and the last block number.\<close>

definition ci_frame :: "(('w, 'z) ci_state_scheme \<Rightarrow> bool) \<Rightarrow> bool" where
  "ci_frame I \<longleftrightarrow> (\<forall>s w n. I s \<longrightarrow> I (s\<lparr>world := w\<rparr>) \<and> I (s\<lparr>lastBlockNumber := n\<rparr>))"

lemma ci_frame_world: "ci_frame I \<Longrightarrow> keeps I (on_world m)"
  by (rule keeps_on_world) (simp add: ci_frame_def)

lemma keeps_with_instance:
  assumes "\<And>s. I s \<Longrightarrow> contract_instances s = i" and "\<And>a. f i = Some a \<Longrightarrow> keeps I (k a)"
  shows "keeps I (with_instance f k)"
  unfolding with_instance_def
proof (rule keeps_gets_bnd)
  fix s assume s: "I s"
  show "wp (bnd (lift_result (instance_address ((f \<circ> contract_instances) s))) k) (\<lambda>_. I) (\<lambda>_. I) s"
    using assms(1) [OF s] keeps_wpD [OF assms(2) s] s
    by (auto simp: wp_simps instance_address_def split: option.split)
qed

lemma keeps_with_instance_any: "(\<And>a. keeps I (k a)) \<Longrightarrow> keeps I (with_instance f k)"
  unfolding with_instance_def by (intro keeps_intros)

lemma ci_frame_ops:
  assumes "ci_frame I"
  shows "keeps I (getBalance ch a l)" "keeps I (getTransactionCount ch a l)" "keeps I (getTransaction ch' h)"
    "keeps I (getBlock ch n)" "keeps I (estimateGas ch d)" "keeps I (getFeeHistory ch c l p)"
    "keeps I (ci_getGasPrice ch cfg)" "keeps I (getGasFees ch cfg n' p)" "keeps I (ci_broadcastTransaction ch lib tx)"
  unfolding node_ops ci_getGasPrice_def getGasFees_def ci_broadcastTransaction_def
  by (intro keeps_intros ci_frame_world [OF assms])+

lemma ci_frame_block: 
  assumes "ci_frame I"
  shows "keeps I (getBlockNumber ch)"
proof -
  have poll: "keeps I (poll_block ch n b)" for n b
    by (induction n arbitrary: b) (subst poll_block.simps, intro keeps_intros ci_frame_world [OF assms]; assumption?)+
  show ?thesis
    unfolding getBlockNumber_def
    by (intro keeps_intros poll ci_frame_world [OF assms] keeps_modify) (use assms in \<open>simp add: ci_frame_def\<close>)
qed

lemma ci_frame_events:
  fixes I :: "('a, 'z) ci_state_scheme \<Rightarrow> bool" and ch :: "('a, 'c) node_scheme"
  assumes "ci_frame I"
  shows "keeps I (getPastEventsPaginated ch cfg c names topics from0 to0)"
proof -
  have page: "keeps I (fetch_page ch n c names topics rng)" for ch :: "('a, 'c) node_scheme" and n c names topics rng
    by (induction n) (subst fetch_page.simps, intro keeps_intros ci_frame_world [OF assms]; assumption?)+
  have pages: "keeps I (fetch_pages ch c names topics ps acc)" for ch :: "('a, 'c) node_scheme" and c names topics ps acc
    by (induction ps arbitrary: acc) (subst fetch_pages.simps, intro keeps_intros page; assumption?)+
  have paged: "keeps I (paged_events ch c names topics f t n acc)" for f t n acc
    by (induction ch c names topics f t n acc rule: paged_events.induct)
      (subst paged_events.simps, intro keeps_intros pages; assumption?)
  show ?thesis
    unfolding getPastEventsPaginated_def resolve_toBlock_def
    by (intro keeps_intros paged ci_frame_block [OF assms])
qed

lemma ci_frame_contracts:
  assumes "ci_frame I"
  shows "keeps I (hubBalanceOf ch' a)" "keeps I (workerToManager ch' a)" "keeps I (getStakeInfo ch' a)"
    "keeps I (getMinimumStakePerToken ch' a)" "keeps I (getErc20TokenMetadata ch)" "keeps I (getRelayInfo ch a)"
    "keeps I (getRelayRegistrationMaxAge ch)" "keeps I (isRelayManagerStakedOnHub ch' lib a)"
    "keeps I (getPastEventsForHub ch' cfg topics from0 to0 names)"
    "keeps I (getPastEventsForRegistrar ch' cfg topics from0 to0 names)"
    "keeps I (getPastEventsForStakeManager ch' cfg names topics from0 to0)"
  unfolding hubBalanceOf_def workerToManager_def getStakeInfo_def getMinimumStakePerToken_def getErc20TokenMetadata_def
    getRelayInfo_def getRelayRegistrationMaxAge_def isRelayManagerStakedOnHub_def getPastEventsForHub_def
    getPastEventsForRegistrar_def getPastEventsForStakeManager_def
  by (intro keeps_with_instance_any keeps_intros ci_frame_world [OF assms] ci_frame_events [OF assms])+

section \<open>The transaction manager\<close>

text \<open>The invariant does not look at what the transaction manager changes either.\<close>

definition tm_frame :: "(('w, 'db, 'z) tm_state_scheme \<Rightarrow> bool) \<Rightarrow> bool" where
  "tm_frame I \<longleftrightarrow> ci_frame I \<and>
     (\<forall>s db ns b. I s \<longrightarrow> I (s\<lparr>txdb := db\<rparr>) \<and> I (s\<lparr>nonces := ns\<rparr>) \<and> I (s\<lparr>shouldRefreshBalances := b\<rparr>))"

lemma tm_frame_ci: "tm_frame I \<Longrightarrow> ci_frame I"
  by (simp add: tm_frame_def)

lemma tm_frame_modify:
  assumes "tm_frame I"
  shows "keeps I (modify (\<lambda>s. s\<lparr>txdb := f s\<rparr>))" "keeps I (modify (\<lambda>s. s\<lparr>nonces := g s\<rparr>))"
    "keeps I (modify (\<lambda>s. s\<lparr>shouldRefreshBalances := h s\<rparr>))" "keeps I (on_store m)"
  unfolding on_store_def using assms by (auto simp: tm_frame_def intro!: keeps_modify keeps_zoom)

lemma tm_frame_send:
  assumes "tm_frame I"
  shows "keeps I (sendTransaction env d)" "keeps I (pollNonce env a)" "keeps I (broadcastTransaction env raw h n)"
    "keeps I (validateBalance env a f g)"
  unfolding sendTransaction_def pollNonce_def broadcastTransaction_def sign_and_store_def sign_with_nonce_def
    validateBalance_def fetchGasPrice_def Let_def
  by (intro keeps_intros ci_frame_ops [OF tm_frame_ci [OF assms]] ci_frame_world [OF tm_frame_ci [OF assms]]
      tm_frame_modify [OF assms])+

lemma tm_frame_boost:
  assumes "tm_frame I"
  shows "keeps I (boostUnderpricedPendingTransactionsForSigner env a blk m)"
    "keeps I (fillMinedBlockDetailsForTransactions env blk)" "keeps I (tm_removeArchivedTransactions env blk)"
proof -
  note frames = ci_frame_ops [OF tm_frame_ci [OF assms]] tm_frame_modify [OF assms] tm_frame_send [OF assms]
  have resend: "keeps I (resendTransaction env tx blk f p)" for tx f p
    unfolding resendTransaction_def updateTransactionWithAttempt_def by (intro keeps_intros frames)
  have all: "keeps I (boost_all env blk f p txs acc)" for f p txs acc
    by (induction txs arbitrary: acc) (subst boost_all.simps, intro keeps_intros resend; assumption?)+
  show "keeps I (boostUnderpricedPendingTransactionsForSigner env a blk m)"
    unfolding boostUnderpricedPendingTransactionsForSigner_def by (intro keeps_intros frames all)
  show "keeps I (fillMinedBlockDetailsForTransactions env blk)"
    unfolding fillMinedBlockDetailsForTransactions_def updateTransactionWithMinedBlock_def
    by (intro keeps_intros frames)
  show "keeps I (tm_removeArchivedTransactions env blk)"
    unfolding tm_removeArchivedTransactions_def Let_def by (intro frames)
qed

text \<open>Against the other part: what sending keeps of the store, from a fixed start on.\<close>

lemma tm_kept_ci_frame: "ci_frame (tm_kept env P s0)"
  by (simp add: ci_frame_def tm_kept_def nonces_le_def slots_kept_def slots_add_def)

lemma tm_kept_cong:
  "txdb s' = txdb s \<Longrightarrow> nonces s' = nonces s \<Longrightarrow> txdb t' = txdb t \<Longrightarrow> nonces t' = nonces t \<Longrightarrow>
   tm_kept env P s' t' = tm_kept env P s t"
  by (simp add: tm_kept_def nonces_le_def slots_kept_def slots_add_def)

lemma tm_kept_sends:
  assumes coll: "tx_collection (te_store env)" and faithful: "sign_faithful env"
    and P: "\<And>x. made_from d x \<Longrightarrow> P x"
  shows "keeps (tm_kept env P s0) (sendTransaction env d)"
proof (rule keepsI)
  fix s assume s: "tm_kept env P s0 s"
  then have "tx_inv (te_store env) (txdb s)" by (simp add: tm_kept_def)
  from sendTransaction_wp [OF coll faithful this, of d]
  show "wp (sendTransaction env d) (\<lambda>_. tm_kept env P s0) (\<lambda>_. tm_kept env P s0) s"
    by (rule wp_mono) (auto intro: tm_kept_trans [OF s] tm_kept_mono P)
qed

end
