(* ===== verification/RegistrationProps.thy ===== *)
theory RegistrationProps imports Frames begin

text \<open>
  What the registration manager sends. \<open>allowed\<close> says which transactions the server may make and
  where they may go; \<open>policy\<close> is the invariant that everything stored since a start state is allowed.
\<close>

section \<open>The policy\<close>

definition to_owner :: "('w, 'db, 'e) rg_env_scheme \<Rightarrow> string \<Rightarrow> bool" where
  "to_owner env a \<longleftrightarrow> isSameAddress a (sc_ownerAddress (ge_config env))"

lemma to_owner_lower [simp]: "to_owner env (toLowerCase a) = to_owner env a"
  by (simp add: to_owner_def)

text \<open>Where a transaction goes and what it carries; addresses and data are stored in lower case.\<close>

definition goes_to :: "StoredTransaction \<Rightarrow> string \<Rightarrow> bool" where
  "goes_to x a \<longleftrightarrow> isSameAddress (st_to x) a"

definition goes_to_instance :: "StoredTransaction \<Rightarrow> string option \<Rightarrow> bool" where
  "goes_to_instance x a = (case a of Some h \<Rightarrow> goes_to x h | None \<Rightarrow> False)"

definition carries :: "StoredTransaction \<Rightarrow> string \<Rightarrow> bool" where
  "carries x call \<longleftrightarrow> buffer_hex (st_data x) = buffer_hex call"

text \<open>
  The calls of \<open>withdraw\<close> on the hub that may be made: to the manager itself, to the owner, or to an owner that the
  stake manager reports as the zero address although there is stake.
\<close>

definition withdraw_data :: "('w, 'db, 'e) rg_env_scheme \<Rightarrow> StoredTransaction \<Rightarrow> bool" where
  "withdraw_data env x \<longleftrightarrow>
     (\<exists>a amount. carries x (enc_withdraw (ge_abi env) a amount) \<and> (a = managerAddress env \<or> to_owner env a \<or> a = ZERO_ADDRESS))"

definition allowed :: "('w, 'db, 'e) rg_env_scheme \<Rightarrow> instances \<Rightarrow> StoredTransaction \<Rightarrow> bool" where
  "allowed env i x \<longleftrightarrow>
     (case st_serverAction x of
        VALUE_TRANSFER \<Rightarrow> st_from x \<in> {managerAddress env, workerAddress env} \<and> to_owner env (st_to x)
          \<or> st_from x = managerAddress env \<and> goes_to x (workerAddress env)
      | DEPOSIT_WITHDRAWAL \<Rightarrow> st_from x = managerAddress env \<and> withdraw_data env x
          \<and> (goes_to x (sc_relayHubAddress (ge_config env)) \<or> goes_to_instance x (in_relayHub i))
      | SET_OWNER \<Rightarrow> st_from x = managerAddress env \<and> goes_to_instance x (in_stakeManager i)
          \<and> carries x (enc_setRelayManagerOwner (ge_abi env) (sc_ownerAddress (ge_config env)))
      | AUTHORIZE_HUB \<Rightarrow> st_from x = managerAddress env \<and> goes_to_instance x (in_stakeManager i)
      | ADD_WORKER \<Rightarrow> st_from x = managerAddress env \<and> goes_to x (sc_relayHubAddress (ge_config env))
          \<and> carries x (enc_addRelayWorkers (ge_abi env) [workerAddress env])
      | REGISTER_SERVER \<Rightarrow> st_from x = managerAddress env \<and> goes_to_instance x (in_relayRegistrar i)
      | RELAY_CALL \<Rightarrow> st_from x = workerAddress env \<and> goes_to_instance x (in_relayHub i)
      | PENALIZATION \<Rightarrow> False)"

lemmas sent_allowed = made_from_def tx_details_def allowed_def goes_to_def goes_to_instance_def carries_def withdraw_data_def

text \<open>The owner the manager works for: not known yet, the zero address, or the configured one.\<close>

definition owner_ok :: "('w, 'db, 'e) rg_env_scheme \<Rightarrow> ('w, 'db, 'z) rg_state_scheme \<Rightarrow> bool" where
  "owner_ok env s \<longleftrightarrow>
     (case rg_ownerAddress s of None \<Rightarrow> True | Some a \<Rightarrow> a = ZERO_ADDRESS \<or> to_owner env a)"

text \<open>
  A relation to a start state, on the store and the local nonces, that lets transactions of kind \<open>P\<close> be added.
\<close>

definition lets_add ::
  "('w, 'db) tm_env \<Rightarrow> (StoredTransaction \<Rightarrow> bool) \<Rightarrow> ('db \<Rightarrow> (string \<times> int) list \<Rightarrow> bool) \<Rightarrow> bool" where
  "lets_add env P R \<longleftrightarrow>
     (\<forall>db ns. R db ns \<longrightarrow> tx_inv (te_store env) db)
     \<and> (\<forall>(s :: ('w, 'db) tm_state) t. R (txdb s) (nonces s) \<longrightarrow> tm_kept env P s t \<longrightarrow> R (txdb t) (nonces t))"

definition kept_from :: "('w, 'db) tm_env \<Rightarrow> (StoredTransaction \<Rightarrow> bool) \<Rightarrow> ('w, 'db, 'z) tm_state_scheme \<Rightarrow>
    'db \<Rightarrow> (string \<times> int) list \<Rightarrow> bool" where
  "kept_from env P s0 db ns \<longleftrightarrow> tm_kept env P s0 (s0\<lparr>txdb := db, nonces := ns\<rparr>)"

lemma kept_from_iff: "kept_from env P s0 (txdb t) (nonces t) \<longleftrightarrow> tm_kept env P s0 t"
  unfolding kept_from_def by (rule tm_kept_cong) simp_all

text \<open>The same for states of any extension.\<close>

lemma lets_addD:
  fixes s t :: "('w, 'db, 'z) tm_state_scheme"
  assumes "lets_add env P R" and "R (txdb s) (nonces s)" and "tm_kept env P s t"
  shows "R (txdb t) (nonces t)"
proof -
  obtain u :: "('w, 'db) tm_state" where "True" by blast
  let ?s = "u\<lparr>txdb := txdb s, nonces := nonces s\<rparr>" and ?t = "u\<lparr>txdb := txdb t, nonces := nonces t\<rparr>"
  have "tm_kept env P ?s ?t"
    using assms(3) by (simp add: tm_kept_def nonces_le_def slots_kept_def slots_add_def)
  moreover have "R (txdb ?s) (nonces ?s)" using assms(2) by simp
  moreover note conjunct2 [OF assms(1) [unfolded lets_add_def], rule_format, of ?s ?t]
  ultimately show ?thesis by simp
qed

lemma lets_add_kept_from: "lets_add env P (kept_from env P s0)"
  unfolding lets_add_def
proof (intro conjI allI impI)
  fix db ns assume "kept_from env P s0 db ns"
  then show "tx_inv (te_store env) db" by (simp add: kept_from_def tm_kept_def)
next
  fix s t :: "('a, 'b) tm_state"
  assume "kept_from env P s0 (txdb s) (nonces s)" and "tm_kept env P s t"
  then have "tm_kept env P s0 (s0\<lparr>txdb := txdb s, nonces := nonces s\<rparr>)"
    and "tm_kept env P (s0\<lparr>txdb := txdb s, nonces := nonces s\<rparr>) (s0\<lparr>txdb := txdb t, nonces := nonces t\<rparr>)"
    by (simp_all add: kept_from_def tm_kept_def nonces_le_def slots_kept_def slots_add_def)
  then show "kept_from env P s0 (txdb t) (nonces t)"
    unfolding kept_from_def by (rule tm_kept_trans)
qed

text \<open>\<open>J\<close> is about the fields of an extension of the state, which the operations here never touch.\<close>

definition policy ::
  "('w, 'db, 'e) rg_env_scheme \<Rightarrow> ('db \<Rightarrow> (string \<times> int) list \<Rightarrow> bool) \<Rightarrow> instances \<Rightarrow> ('z \<Rightarrow> bool) \<Rightarrow>
   ('w, 'db, 'z) rg_state_scheme \<Rightarrow> bool" where
  "policy env R i J t \<longleftrightarrow>
     R (txdb t) (nonces t) \<and> contract_instances t = i \<and> owner_ok env t \<and> J (rg_state.more t)"

lemma policy_ci_frame: "ci_frame (policy env R i J)"
  by (auto simp: policy_def ci_frame_def owner_ok_def)

lemma owner_ok_tm_frame: "tm_frame (\<lambda>s. contract_instances s = i \<and> owner_ok env s \<and> J (rg_state.more s))"
  by (simp add: tm_frame_def ci_frame_def owner_ok_def)

lemma policy_instances: "policy env R i J s \<Longrightarrow> contract_instances s = i"
  by (simp add: policy_def)

lemma policy_start:
  "tx_inv (te_store (ge_tm env)) (txdb s) \<Longrightarrow> owner_ok env s \<Longrightarrow>
   policy env (kept_from (ge_tm env) P s) (contract_instances s) (\<lambda>_. True) s"
  using tm_kept_refl [of "ge_tm env" s P "world s"] by (simp add: policy_def kept_from_iff)

text \<open>The fields of the registration manager do not matter, the owner aside.\<close>

lemma policy_updates [simp]:
  "policy env R i J (s\<lparr>balanceRequired := a\<rparr>) = policy env R i J s"
  "policy env R i J (s\<lparr>stakeRequired := a\<rparr>) = policy env R i J s"
  "policy env R i J (s\<lparr>isSetOwnerCalled := b\<rparr>) = policy env R i J s"
  "policy env R i J (s\<lparr>isOwnerSetOnStakeManager := b\<rparr>) = policy env R i J s"
  "policy env R i J (s\<lparr>isHubAuthorized := b\<rparr>) = policy env R i J s"
  "policy env R i J (s\<lparr>isStakeLocked := b\<rparr>) = policy env R i J s"
  "policy env R i J (s\<lparr>rg_isInitialized := b\<rparr>) = policy env R i J s"
  "policy env R i J (s\<lparr>currentRelayInfo := r\<rparr>) = policy env R i J s"
  "policy env R i J (s\<lparr>delayedEvents := ds\<rparr>) = policy env R i J s"
  "policy env R i J (s\<lparr>unstaked_events := n\<rparr>) = policy env R i J s"
  by (simp_all add: policy_def owner_ok_def)

lemma policy_owner:
  "policy env R i J s \<Longrightarrow> a = ZERO_ADDRESS \<or> to_owner env a \<Longrightarrow> policy env R i J (s\<lparr>rg_ownerAddress := Some a\<rparr>)"
  by (auto simp: policy_def owner_ok_def)

lemma policy_modify: "(\<And>s. policy env R i J s \<Longrightarrow> policy env R i J (f s)) \<Longrightarrow> keeps (policy env R i J) (modify f)"
  by (rule keeps_modify)

text \<open>A setting in which the operations are run.\<close>

definition trusted_env :: "('w, 'db, 'e) rg_env_scheme \<Rightarrow> bool" where
  "trusted_env env \<longleftrightarrow> tx_collection (te_store (ge_tm env)) \<and> sign_faithful (ge_tm env)"

lemma policy_send:
  fixes env :: "('w, 'db, 'e) rg_env_scheme"
  assumes env: "trusted_env env" and add: "lets_add (ge_tm env) P R" and P: "\<And>x. made_from d x \<Longrightarrow> P x"
  shows "keeps (policy env R i J) (sendTransaction (ge_tm env) d)" and "keeps (policy env R i J) (send_hash env d)"
proof -
  have "keeps (\<lambda>s. R (txdb s) (nonces s)) (sendTransaction (ge_tm env) d :: (('w, 'db, 'z) tm_state_scheme, _) eff)"
  proof (rule keepsI)
    fix s :: "('w, 'db, 'z) tm_state_scheme" assume R: "R (txdb s) (nonces s)"
    have "tx_inv (te_store (ge_tm env)) (txdb s)" using R add unfolding lets_add_def by blast
    moreover have "tx_collection (te_store (ge_tm env))" "sign_faithful (ge_tm env)" using env by (auto simp: trusted_env_def)
    ultimately have "wp (sendTransaction (ge_tm env) d) (\<lambda>_. tm_kept (ge_tm env) P s) (\<lambda>_. tm_kept (ge_tm env) P s) s"
      by (intro wp_mono [OF sendTransaction_wp]) (auto intro: tm_kept_mono P)
    then show "wp (sendTransaction (ge_tm env) d) (\<lambda>_ t. R (txdb t) (nonces t)) (\<lambda>_ t. R (txdb t) (nonces t)) s"
      by (rule wp_mono) (auto intro: lets_addD [OF add R])
  qed
  then have "keeps (\<lambda>s. R (txdb s) (nonces s) \<and> contract_instances s = i \<and> owner_ok env s \<and> J (rg_state.more s)) (sendTransaction (ge_tm env) d)"
    by (intro keeps_conj tm_frame_send [OF owner_ok_tm_frame])
  then show "keeps (policy env R i J) (sendTransaction (ge_tm env) d)" unfolding policy_def [abs_def] .
  then show "keeps (policy env R i J) (send_hash env d)"
    unfolding send_hash_def by (intro keeps_intros)
qed

lemmas policy_ci = ci_frame_ops [OF policy_ci_frame] ci_frame_contracts [OF policy_ci_frame] ci_frame_world [OF policy_ci_frame]

lemma policy_instance:
  "(\<And>a. f i = Some a \<Longrightarrow> keeps (policy env R i J) (k a)) \<Longrightarrow> keeps (policy env R i J) (with_instance f k)"
  by (rule keeps_with_instance) (auto simp: policy_instances)

lemma policy_owner_bnd:
  assumes "\<And>o1. (case o1 of None \<Rightarrow> True | Some a \<Rightarrow> a = ZERO_ADDRESS \<or> to_owner env a) \<Longrightarrow> keeps (policy env R i J) (k o1)"
  shows "keeps (policy env R i J) (bnd (gets rg_ownerAddress) k)"
  by (rule keeps_gets_bnd, rule keeps_wpD [OF assms]) (simp_all add: policy_def owner_ok_def)

lemma policy_pending: "keeps (policy env R i J) (is_pending env action blk dst)"
  unfolding is_pending_def by (rule keeps_gets)

section \<open>The operations\<close>

lemma policy_refreshBalance: "keeps (policy env R i J) (refreshBalance env)"
  unfolding refreshBalance_def by (intro keeps_intros policy_ci policy_modify) simp

lemma policy_authorizeHub:
  assumes "trusted_env env" and "lets_add (ge_tm env) P R"
    and "\<And>x. st_serverAction x = AUTHORIZE_HUB \<Longrightarrow> allowed env i x \<Longrightarrow> P x"
  shows "keeps (policy env R i J) (authorizeHub env blk)"
  unfolding authorizeHub_def
  by (intro keeps_intros policy_pending policy_instance policy_send [OF assms(1,2)])
    (auto simp: sent_allowed intro!: assms(3))

lemma policy_refreshStake:
  assumes "trusted_env env" and "lets_add (ge_tm env) P R"
    and "\<And>x. st_serverAction x = AUTHORIZE_HUB \<Longrightarrow> allowed env i x \<Longrightarrow> P x"
  shows "keeps (policy env R i J) (refreshStake env blk)"
  unfolding refreshStake_def
proof (intro keeps_intros policy_ci policy_authorizeHub [OF assms] policy_modify)
  fix si :: StakeInfo and s
  assume ok: "\<not> (si_owner si \<noteq> ZERO_ADDRESS \<and> \<not> isSameAddress (si_owner si) (sc_ownerAddress (ge_config env)))"
    and s: "policy env R i J s"
  let ?t = "s\<lparr>isStakeLocked := si_withdrawTime si = 0,
              stakeRequired := set_currentValue (ge_formats env) (si_stake si) (stakeRequired s)\<rparr>"
  have t: "policy env R i J ?t" using s by simp
  show "policy env R i J (s\<lparr>isStakeLocked := si_withdrawTime si = 0,
              stakeRequired := set_currentValue (ge_formats env) (si_stake si) (stakeRequired s),
              rg_ownerAddress := (case rg_ownerAddress s of None \<Rightarrow> Some (si_owner si) | Some a \<Rightarrow> Some a)\<rparr>)"
  proof (cases "rg_ownerAddress s")
    case None
    then show ?thesis using policy_owner [OF t, of "si_owner si"] ok by (auto simp: to_owner_def)
  next
    case (Some a)
    then have "a = ZERO_ADDRESS \<or> to_owner env a" using s by (simp add: policy_def owner_ok_def)
    then show ?thesis using policy_owner [OF t] Some by simp
  qed
qed simp_all

lemma policy_transfer:
  assumes "trusted_env env" and "lets_add (ge_tm env) P R" and "signer \<in> {managerAddress env, workerAddress env}"
    and P: "\<And>x. st_serverAction x = VALUE_TRANSFER \<Longrightarrow> allowed env i x \<Longrightarrow> P x"
  shows "keeps (policy env R i J) (transfer_to_owner env signer blk)"
  unfolding transfer_to_owner_def validateBalance_def Let_def
proof (rule policy_owner_bnd policy_ci keeps_intros policy_send [OF assms(1,2)])+
  fix g b o1 a x
  assume "o1 = Some a" and "case o1 of None \<Rightarrow> True | Some a \<Rightarrow> a = ZERO_ADDRESS \<or> to_owner env a"
    and "made_from ((tx_details signer VALUE_TRANSFER a blk)\<lparr>sd_gasLimit := Some mintxgascost,
         sd_maxFeePerGas := Some (int_to_string g), sd_maxPriorityFeePerGas := Some (int_to_string g),
         sd_value := Some (int_to_hex (b - mintxgascost * g))\<rparr>) x"
  then show "P x" using assms(3) by (intro P) (auto simp: sent_allowed)
qed (rule keeps_ret)

lemma policy_withdrawEstimate: "keeps (policy env R i J) (withdrawHubBalanceEstimateGas env amount dst m g)"
  unfolding withdrawHubBalanceEstimateGas_def Let_def by (intro keeps_with_instance_any keeps_intros policy_ci)

text \<open>The call that the estimate was made for is the one that is sent.\<close>

lemma estimate_call:
  "wp (withdrawHubBalanceEstimateGas env amount dst m g)
     (\<lambda>(cost, limit, call) _. call = enc_withdraw (ge_abi env) dst (int_to_string amount)) (\<lambda>_ _. True) s"
  unfolding withdrawHubBalanceEstimateGas_def with_instance_def Let_def
  by (rule wp_skip | rule wp_lift_step | simp add: wp_simps)+

lemma policy_estimate_bnd:
  fixes k :: "int \<times> int \<times> string \<Rightarrow> (('w, 'db, 'z) rg_state_scheme, 'a) eff"
  assumes "\<And>cost limit. keeps (policy env R i J) (k (cost, limit, enc_withdraw (ge_abi env) dst (int_to_string amount)))"
  shows "keeps (policy env R i J) (bnd (withdrawHubBalanceEstimateGas env amount dst m g) k)"
proof (rule keepsI)
  fix s :: "('w, 'db, 'z) rg_state_scheme" assume s: "policy env R i J s"
  show "wp (bnd (withdrawHubBalanceEstimateGas env amount dst m g) k) (\<lambda>_. policy env R i J) (\<lambda>_. policy env R i J) s"
    unfolding wp_bnd
    by (rule wp_mono [OF wp_conj [OF estimate_call keeps_wpD [OF policy_withdrawEstimate s]]])
      (auto intro: keeps_wpD [OF assms])
qed

lemma policy_hubBalance:
  assumes "trusted_env env" and "lets_add (ge_tm env) P R"
    and P: "\<And>x. st_serverAction x = DEPOSIT_WITHDRAWAL \<Longrightarrow> allowed env i x \<Longrightarrow> P x"
  shows "keeps (policy env R i J) (sendManagerHubBalanceToOwner env blk amount)"
  unfolding sendManagerHubBalanceToOwner_def
proof (rule policy_owner_bnd policy_estimate_bnd policy_ci keeps_intros policy_send [OF assms(1,2)])+
  fix o1 a g b c cost limit n call x
  assume "o1 = Some a" and "case o1 of None \<Rightarrow> True | Some a \<Rightarrow> a = ZERO_ADDRESS \<or> to_owner env a"
    and "(cost, limit, enc_withdraw (ge_abi env) a (int_to_string c)) = (g, b)"
    and "b = (n, call)"
    and "made_from ((tx_details (managerAddress env) DEPOSIT_WITHDRAWAL (sc_relayHubAddress (ge_config env)) blk)
             \<lparr>sd_gasLimit := Some n, sd_method := Some call\<rparr>) x"
  then show "P x" by (intro P) (auto simp: sent_allowed)
qed (rule keeps_ret)

lemma policy_withdrawAllFunds:
  assumes "trusted_env env" and "lets_add (ge_tm env) P R"
    and P: "\<And>x. st_serverAction x \<in> {DEPOSIT_WITHDRAWAL, VALUE_TRANSFER} \<Longrightarrow> allowed env i x \<Longrightarrow> P x"
  shows "keeps (policy env R i J) (withdrawAllFunds env b blk)"
  unfolding withdrawAllFunds_def sendWorkersEthBalancesToOwner_def sendManagerEthBalanceToOwner_def
  by (intro keeps_intros policy_hubBalance [OF assms(1,2)] policy_transfer [OF assms(1,2)] policy_modify) (auto intro: P)

lemma policy_register:
  assumes "trusted_env env" and "lets_add (ge_tm env) P R"
    and P: "\<And>x. st_serverAction x \<in> {ADD_WORKER, REGISTER_SERVER} \<Longrightarrow> allowed env i x \<Longrightarrow> P x"
  shows "keeps (policy env R i J) (registerRelay env blk)"
proof -
  have add: "keeps (policy env R i J) (addRelayWorker env blk)"
    unfolding addRelayWorker_def
    by (intro policy_instance policy_send [OF assms(1,2)]) (auto simp: sent_allowed intro!: P)
  show ?thesis
    unfolding registerRelay_def isWorkerValid_def Let_def
    by (intro keeps_intros policy_ci policy_pending add policy_instance policy_send [OF assms(1,2)])
      (auto simp: sent_allowed intro!: P)
qed

lemma policy_attempt:
  assumes "trusted_env env" and "lets_add (ge_tm env) P R"
    and P: "\<And>x. st_serverAction x \<in> {ADD_WORKER, REGISTER_SERVER, AUTHORIZE_HUB} \<Longrightarrow> allowed env i x \<Longrightarrow> P x"
  shows "keeps (policy env R i J) (attemptRegistration env blk)"
  unfolding attemptRegistration_def
  by (intro keeps_intros policy_ci policy_refreshStake [OF assms(1,2)] policy_refreshBalance policy_register [OF assms(1,2)]) (auto intro: P)

lemma policy_setOwner:
  assumes "trusted_env env" and "lets_add (ge_tm env) P R"
    and P: "\<And>x. st_serverAction x = SET_OWNER \<Longrightarrow> allowed env i x \<Longrightarrow> P x"
  shows "keeps (policy env R i J) (set_owner_once env blk)"
  unfolding set_owner_once_def setOwnerInStakeManager_def
  by (intro keeps_intros policy_modify policy_instance policy_send [OF assms(1,2)])
    (auto simp: sent_allowed intro!: P)

lemma policy_event:
  assumes "trusted_env env" and "lets_add (ge_tm env) P R" and P: "\<And>x. allowed env i x \<Longrightarrow> P x"
  shows "keeps (policy env R i J) (handle_manager_event env blk e)" "keeps (policy env R i J) (handle_due_event env blk e)"
  unfolding handle_manager_event_def handle_due_event_def handleHubAuthorizedEvent_def
  by (intro keeps_intros policy_modify policy_refreshStake [OF assms(1,2)] policy_withdrawAllFunds [OF assms(1,2)]; simp add: P)+

lemma policy_handlePastEvents:
  assumes "trusted_env env" and "lets_add (ge_tm env) P R" and P: "\<And>x. allowed env i x \<Longrightarrow> P x"
  shows "keeps (policy env R i J) (handlePastEvents env l blk force)"
  unfolding handlePastEvents_def extractDuePendingEvents_def refreshRegistrarRelayInfo_def
  by (intro keeps_intros policy_ci policy_setOwner [OF assms(1,2)] policy_event [OF assms(1,2)] policy_attempt [OF assms(1,2)]
      policy_pending policy_modify; simp add: P)

lemma attempt_without_prerequisites:
  assumes env: "trusted_env env" and add: "lets_add (ge_tm env) (\<lambda>x. st_serverAction x = AUTHORIZE_HUB) R"
    and s: "policy env R i J s" and no: "\<not> prerequisites s"
  shows "wp (attemptRegistration env blk) (\<lambda>r t. r = [] \<and> policy env R i J t)
    (\<lambda>_ t. policy env R i J t) s"
proof -
  let ?I = "policy env R i J"
  have "ci_frame (\<lambda>t. ?I t \<and> \<not> prerequisites t)"
    using policy_ci_frame [of env R i] by (auto simp: ci_frame_def prerequisites_def)
  from keeps_wpD [OF ci_frame_contracts(8) [OF this]] s no
  have first: "wp (isRelayManagerStakedOnHub (ge_chain env) (te_lib (ge_tm env)) (managerAddress env))
      (\<lambda>_ t. ?I t \<and> \<not> prerequisites t) (\<lambda>_ t. ?I t \<and> \<not> prerequisites t) s" by blast
  have rest: "wp (bnd (refreshStake env blk) (\<lambda>_. bnd (refreshBalance env) (\<lambda>_. ret []))) (\<lambda>r t. r = [] \<and> ?I t) (\<lambda>_ t. ?I t) t"
    if "?I t" for t
    unfolding wp_bnd wp_ret
    by (rule wp_mono [OF keeps_wpD [OF policy_refreshStake [OF env add] that]])
      (auto intro: wp_mono [OF keeps_wpD [OF policy_refreshBalance]])
  show ?thesis
    unfolding attemptRegistration_def wp_bnd wp_gets
    by (rule wp_mono [OF first]) (auto simp: rest)
qed

section \<open>Properties\<close>

text \<open>
  whatever the events, the node and the contracts say, a round of the registration manager stores only transactions
  that are \<open>allowed\<close>: value leaves the manager and the worker only to the configured owner (or from the manager
  to its own worker), deposits on the hub are withdrawn only to the manager or the owner, and the other calls
  go to the stake manager, the hub and the registrar of the deployment with the arguments of the
  configuration. On every outcome nothing stored is lost or changed, and the owner that is worked for stays
  unknown, zero or the configured one.
\<close>

theorem handlePastEvents_allowed:
  assumes "trusted_env env" and "tx_inv (te_store (ge_tm env)) (txdb s)" and "owner_ok env s"
  shows "tm_kept (ge_tm env) (allowed env (contract_instances s)) s (snd (handlePastEvents env lastScanned blk force s))
    \<and> owner_ok env (snd (handlePastEvents env lastScanned blk force s))"
  using keeps_wpD [OF policy_handlePastEvents [OF assms(1) lets_add_kept_from] policy_start [OF assms(2,3)]]
  by (simp add: wp_same policy_def kept_from_iff)

text \<open>
  without the prerequisites (hub authorised, stake locked, stake and balance sufficient) \<open>attemptRegistration\<close>
  registers nothing and adds no worker: it returns no hash and the only transaction it can store is the one
  that authorises the hub.
\<close>

theorem attemptRegistration_guarded:
  assumes "trusted_env env" and "tx_inv (te_store (ge_tm env)) (txdb s)" and "owner_ok env s" and "\<not> prerequisites s"
  shows "case attemptRegistration env blk s of (r, t) \<Rightarrow>
     tm_kept (ge_tm env) (\<lambda>x. st_serverAction x = AUTHORIZE_HUB) s t \<and> (case r of Inr hashes \<Rightarrow> hashes = [] | Inl _ \<Rightarrow> True)"
  using attempt_without_prerequisites [OF assms(1) lets_add_kept_from policy_start [OF assms(2,3)] assms(4), of blk]
  by (auto simp: wp_def policy_def kept_from_iff split: prod.splits sum.splits)

text \<open>A server for witnesses.\<close>

definition sample_formats :: formats where
  "sample_formats = \<lparr>f_fromWei = int_to_string, f_boolString = (\<lambda>b. if b then ''good'' else ''wrong'')\<rparr>"

definition sample_abi :: server_abi where
  "sample_abi = \<lparr>enc_registerRelayServer = (\<lambda>h us. ''0x01'' @ concat us), enc_authorizeHubByManager = (\<lambda>h. ''0x02''),
     enc_addRelayWorkers = (\<lambda>ws. ''0x03'' @ concat ws), enc_setRelayManagerOwner = (\<lambda>a. ''0x04'' @ a),
     enc_withdraw = (\<lambda>a n. ''0x05'' @ a @ n)\<rparr>"

definition sample_rg_env :: "(unit, StoredTransaction list) rg_env" where
  "sample_rg_env = \<lparr>ge_tm = sample_env, ge_formats = sample_formats, ge_abi = sample_abi\<rparr>"

definition sample_rg_state :: "(unit, StoredTransaction list) rg_state" where
  "sample_rg_state = tm_state.extend sample_state
     \<lparr>balanceRequired = newAmountRequired ''Balance'' 5 True ether, stakeRequired = newAmountRequired ''Stake'' 7 True ether,
      isSetOwnerCalled = False, isOwnerSetOnStakeManager = False, isHubAuthorized = False, isStakeLocked = False,
      rg_isInitialized = True, rg_ownerAddress = None, currentRelayInfo = None, delayedEvents = [], unstaked_events = 0\<rparr>"

lemma sample_rg_env_trusted: "trusted_env sample_rg_env"
  by (simp add: trusted_env_def sample_rg_env_def sample_env_coll sample_env_sign)

lemma sample_rg_inv: "tx_inv (te_store (ge_tm sample_rg_env)) (txdb sample_rg_state)"
  using sample_env_inv by (simp add: sample_rg_env_def sample_rg_state_def tm_state.defs)

lemma sample_rg_owner: "owner_ok sample_rg_env sample_rg_state"
  by (simp add: owner_ok_def sample_rg_state_def tm_state.defs)

theorem handlePastEvents_allowed_witness:
  "tm_kept (ge_tm sample_rg_env) (allowed sample_rg_env (contract_instances sample_rg_state)) sample_rg_state
      (snd (handlePastEvents sample_rg_env 4 \<lparr>bi_hash = [], bi_number = 50, bi_timestamp = 5000\<rparr> True sample_rg_state))
    \<and> owner_ok sample_rg_env
      (snd (handlePastEvents sample_rg_env 4 \<lparr>bi_hash = [], bi_number = 50, bi_timestamp = 5000\<rparr> True sample_rg_state))"
  by (rule handlePastEvents_allowed [OF sample_rg_env_trusted sample_rg_inv sample_rg_owner])

theorem attemptRegistration_guarded_witness:
  "case attemptRegistration sample_rg_env \<lparr>bi_hash = [], bi_number = 50, bi_timestamp = 5000\<rparr> sample_rg_state of (r, t) \<Rightarrow>
     tm_kept (ge_tm sample_rg_env) (\<lambda>x. st_serverAction x = AUTHORIZE_HUB) sample_rg_state t
       \<and> (case r of Inr hashes \<Rightarrow> hashes = [] | Inl _ \<Rightarrow> True)"
  by (rule attemptRegistration_guarded [OF sample_rg_env_trusted sample_rg_inv sample_rg_owner])
    (simp add: prerequisites_def sample_rg_state_def tm_state.defs)

end
