(* ===== verification/RelayServer.thy ===== *)
theory RelayServer imports RegistrationManager Reputation begin

text \<open>
  \<open>packages/relay/src/RelayServer.ts\<close>, first part: the state of the server, pings, the checks of a relay request and
  \<open>createRelayTransaction\<close>. The state extends the one of the registration manager by the reputation store and
  the fields of the class; operations of all components run on it unchanged. Log messages and \<open>sleep\<close> times
  aside, every statement of the handlers is here. Time is read off the world (\<open>se_now\<close>, milliseconds).
\<close>

section \<open>State and environment\<close>

record ReadinessInfo =
  runningSince :: int
  currentStateTimestamp :: int
  totalReadyTime :: int
  totalNotReadyTime :: int
  totalReadinessChanges :: int

record ('w, 'db, 'rep) sv_state = "('w, 'db) rg_state" +
  repdb :: 'rep
  lastScannedBlock :: int
  lastRefreshBlock :: int
  ready :: bool
  minMaxPriorityFeePerGas :: int
  minMaxFeePerGas :: "int option"
  alerted :: bool
  alertedByTransactionBlockTimestamp :: int
  sv_initialized :: bool
  sv_transactionType :: TransactionType
  maxGasLimit :: int
  relayHubContract :: "string option"
  sv_networkId :: int
  sv_chainId :: int
  trustedPaymasters :: "(string \<times> GasAndDataLimits) list"
  workerBalanceRequired :: amount_required
  readinessInfo :: ReadinessInfo
  running :: bool
  pollScheduled :: bool
  errorListener :: bool

record block_info = ShortBlockInfo +
  bk_gasLimit :: int
  bk_baseFeePerGas :: "int option"

text \<open>What the server asks of the node and the hub beyond the contract interactor.\<close>

record 'w server_chain =
  sv_latestBlock :: "('w, block_info) eff"
  sv_getGasAndDataLimits :: "string \<Rightarrow> ('w, GasAndDataLimits) eff"
  sv_calculateCharge :: "string \<Rightarrow> int \<Rightarrow> RelayData \<Rightarrow> string \<Rightarrow> ('w, int) eff"
  sv_relayCallPending :: "string \<Rightarrow> RelayCallABI \<Rightarrow> string \<Rightarrow> gas_fees \<Rightarrow> int \<Rightarrow> ('w, bool \<times> string) eff"
  sv_sleep :: "int \<Rightarrow> ('w, unit) eff"
  sv_now :: "'w \<Rightarrow> int"
  sv_random :: "'w \<Rightarrow> rat"

record ('w, 'db, 'rep) sv_env = "('w, 'db) rg_env" +
  se_chain :: "'w server_chain"
  se_rep :: "'rep rep_store_ops"
  se_repConfig :: ReputationManagerConfiguration
  se_erc165 :: erc165_ids
  se_version :: string

definition on_rep :: "('rep, 'a) eff \<Rightarrow> (('w, 'db, 'rep, 'z) sv_state_scheme, 'a) eff" where
  "on_rep m = zoom repdb (\<lambda>db s. s\<lparr>repdb := db\<rparr>) m"

lemma wp_on_rep [wp_simps]:
  "wp (on_rep m) Q E s = wp m (\<lambda>a db. Q a (s\<lparr>repdb := db\<rparr>)) (\<lambda>e db. E e (s\<lparr>repdb := db\<rparr>)) (repdb s)"
  by (simp add: on_rep_def wp_zoom)

definition date_now :: "('w, 'db, 'rep, 'e) sv_env_scheme \<Rightarrow> (('w, 'z) ci_state_scheme, int) eff" where
  "date_now env = gets (\<lambda>s. sv_now (se_chain env) (world s))"

text \<open>\<open>this.relayHubContract.address\<close>\<close>

definition with_hub :: "(string \<Rightarrow> (('w, 'db, 'rep, 'z) sv_state_scheme, 'a) eff) \<Rightarrow> (('w, 'db, 'rep, 'z) sv_state_scheme, 'a) eff" where
  "with_hub k = bnd (gets relayHubContract) (\<lambda>a. bnd (lift_result (instance_address a)) k)"

section \<open>Readiness, pings and statistics\<close>

definition setReadyState :: "('w, 'db, 'rep, 'e) sv_env_scheme \<Rightarrow> bool \<Rightarrow> (('w, 'db, 'rep, 'z) sv_state_scheme, unit) eff" where
  "setReadyState env isReady =
     bnd (date_now env) (\<lambda>now.
     modify (\<lambda>s.
       (if ready s \<noteq> isReady then
          s\<lparr>readinessInfo := (let i = readinessInfo s; elapsed = now - currentStateTimestamp i in
              (if isReady then i\<lparr>totalNotReadyTime := totalNotReadyTime i + elapsed\<rparr>
               else i\<lparr>totalReadyTime := totalReadyTime i + elapsed\<rparr>)
              \<lparr>currentStateTimestamp := now, totalReadinessChanges := totalReadinessChanges i + 1\<rparr>)\<rparr>
        else s)\<lparr>ready := isReady\<rparr>))"

text \<open>The totals up to now, and the total uptime.\<close>

definition statsHandler :: "int \<Rightarrow> ('w, 'db, 'rep, 'z) sv_state_scheme \<Rightarrow> ReadinessInfo \<times> int" where
  "statsHandler now s =
     (let i = readinessInfo s; elapsed = now - currentStateTimestamp i
      in (if ready s then i\<lparr>totalReadyTime := totalReadyTime i + elapsed\<rparr>
          else i\<lparr>totalNotReadyTime := totalNotReadyTime i + elapsed\<rparr>, now - runningSince i))"

definition isTrustedPaymaster :: "('w, 'db, 'rep, 'z) sv_state_scheme \<Rightarrow> string \<Rightarrow> bool" where
  "isTrustedPaymaster s paymaster \<longleftrightarrow> map_of (trustedPaymasters s) (toLowerCase paymaster) \<noteq> None"

definition getPaymasterMaxAcceptanceBudget ::
  "('w, 'db, 'rep, 'e) sv_env_scheme \<Rightarrow> ('w, 'db, 'rep, 'z) sv_state_scheme \<Rightarrow> string option \<Rightarrow> string" where
  "getPaymasterMaxAcceptanceBudget env s paymaster =
     (case Option.bind paymaster (\<lambda>p. map_of (trustedPaymasters s) (toLowerCase p)) of
        Some limits \<Rightarrow> int_to_string (gl_acceptanceBudget limits)
      | None \<Rightarrow> int_to_string (sc_maxAcceptanceBudget (ge_config env)))"

definition status_message :: "PaymasterStatus \<Rightarrow> string" where
  "status_message status =
     (case status of
        ABUSED \<Rightarrow> ''This paymaster has failed a lot of transactions recently is temporarily blocked by this relay''
      | THROTTLED \<Rightarrow> ''This paymaster only had a small number of successful transactions and is therefore throttled by this relay''
      | _ \<Rightarrow> ''This paymaster had too many unsuccessful transactions and is now permanently blocked by this relay'')"

definition validatePaymasterReputation ::
  "('w, 'db, 'rep, 'e) sv_env_scheme \<Rightarrow> string \<Rightarrow> int \<Rightarrow> (('w, 'db, 'rep, 'z) sv_state_scheme, unit) eff" where
  "validatePaymasterReputation env paymaster currentBlockNumber =
     bnd (gets (\<lambda>s. isTrustedPaymaster s paymaster)) (\<lambda>trusted.
     if trusted then ret ()
     else
       bnd (date_now env) (\<lambda>now.
       bnd (on_rep (getPaymasterStatus (se_repConfig env) (se_rep env) now paymaster currentBlockNumber)) (\<lambda>status.
       if status = GOOD then ret ()
       else throw (''Refusing to serve transactions for paymaster at '' @ paymaster @ '': '' @ status_message status))))"

definition pingHandler ::
  "('w, 'db, 'rep, 'e) sv_env_scheme \<Rightarrow> string option \<Rightarrow> (('w, 'db, 'rep, 'z) sv_state_scheme, PingResponse) eff" where
  "pingHandler env paymaster =
     bnd (gets lastScannedBlock) (\<lambda>scanned.
     bnd (case paymaster of
            Some p \<Rightarrow> when_eff (sc_runPaymasterReputations (ge_config env)) (validatePaymasterReputation env p scanned)
          | None \<Rightarrow> ret ()) (\<lambda>_.
     gets (\<lambda>s.
       \<lparr>pr_relayWorkerAddress = workerAddress env, pr_relayManagerAddress = managerAddress env,
        pr_relayHubAddress = (case relayHubContract s of Some a \<Rightarrow> a | None \<Rightarrow> []),
        pr_ownerAddress = sc_ownerAddress (ge_config env),
        pr_maxMaxFeePerGas = sc_maxMaxFeePerGas (ge_config env),
        pr_minMaxFeePerGas = (case minMaxFeePerGas s of Some n \<Rightarrow> int_to_string n | None \<Rightarrow> ''NaN''),
        pr_minMaxPriorityFeePerGas = int_to_string (minMaxPriorityFeePerGas s),
        pr_maxAcceptanceBudget = getPaymasterMaxAcceptanceBudget env s paymaster,
        pr_networkId = Some (int_to_string (sv_networkId s)), pr_chainId = Some (int_to_string (sv_chainId s)),
        pr_ready = ready s, pr_version = se_version env\<rparr>)))"

section \<open>The checks of a request\<close>

definition validateRequestTxType :: "RelayTransactionRequest \<Rightarrow> (('w, 'db, 'rep, 'z) sv_state_scheme, unit) eff" where
  "validateRequestTxType req =
     bnd (gets (\<lambda>s. (sv_transactionType s, sv_chainId s))) (\<lambda>(tt, chainId).
     let d = rr_relayData (rtr_relayRequest req)
     in if tt = LEGACY \<and> rd_maxFeePerGas d \<noteq> rd_maxPriorityFeePerGas d then
          throw (''Current network ('' @ int_to_string chainId @ '') does not support EIP-1559 transactions.'')
        else ret ())"

definition lower_member :: "string \<Rightarrow> string list \<Rightarrow> bool" where
  "lower_member a xs \<longleftrightarrow> toLowerCase a \<in> set (map toLowerCase xs)"

definition isBlacklistedPaymaster :: "ServerConfigParams \<Rightarrow> string \<Rightarrow> bool" where
  "isBlacklistedPaymaster cfg paymaster \<longleftrightarrow> lower_member paymaster (sc_blacklistedPaymasters cfg)"

definition isBlacklistedRecipient :: "ServerConfigParams \<Rightarrow> string \<Rightarrow> bool" where
  "isBlacklistedRecipient cfg recipient \<longleftrightarrow> lower_member recipient (sc_blacklistedRecipients cfg)"

definition isWhitelistedPaymaster :: "ServerConfigParams \<Rightarrow> string \<Rightarrow> bool" where
  "isWhitelistedPaymaster cfg paymaster \<longleftrightarrow>
     length (sc_whitelistedPaymasters cfg) = 0 \<or> lower_member paymaster (sc_whitelistedPaymasters cfg)"

definition isWhitelistedRecipient :: "ServerConfigParams \<Rightarrow> string \<Rightarrow> bool" where
  "isWhitelistedRecipient cfg recipient \<longleftrightarrow>
     length (sc_whitelistedRecipients cfg) = 0 \<or> lower_member recipient (sc_whitelistedRecipients cfg)"

definition validateWhitelistsAndBlacklists :: "ServerConfigParams \<Rightarrow> RelayRequest \<Rightarrow> js_error + unit" where
  "validateWhitelistsAndBlacklists cfg relayRequest =
     (let paymaster = rd_paymaster (rr_relayData relayRequest); recipient = fr_to (rr_request relayRequest)
      in if isBlacklistedPaymaster cfg paymaster then
           Inl (Error (''Paymaster '' @ paymaster @ '' is blacklisted!''))
         else if isBlacklistedRecipient cfg recipient then
           Inl (Error (''Recipient '' @ recipient @ '' is blacklisted!''))
         else if length (sc_url cfg) = 0 then
           (if \<not> isWhitelistedPaymaster cfg paymaster then
              Inl (Error (''Paymaster '' @ paymaster @ '' is not whitelisted!''))
            else if \<not> isWhitelistedRecipient cfg recipient then
              Inl (Error (''Recipient '' @ recipient @ '' is not whitelisted!''))
            else Inr ())
         else Inr ())"

text \<open>Fees are parsed numbers: every comparison with one that is \<open>NaN\<close> lets the request pass.\<close>

definition validateGasFees :: "ServerConfigParams \<Rightarrow> int \<Rightarrow> int option \<Rightarrow> RelayRequest \<Rightarrow> js_error + unit" where
  "validateGasFees cfg minPriorityFee minFee relayRequest =
     (let requestPriorityFee = parseInt (rd_maxPriorityFeePerGas (rr_relayData relayRequest));
          requestMaxFee = parseInt (rd_maxFeePerGas (rr_relayData relayRequest))
      in if js_less requestPriorityFee (Some minPriorityFee) then
           Inl (Error ''priorityFee given too low. Minimum maxPriorityFee server accepts'')
         else if js_less requestMaxFee minFee then
           Inl (Error ''maxFeePerGas given too low. Minimum maxFeePerGas server accepts'')
         else if js_less (parseInt (sc_maxMaxFeePerGas cfg)) requestMaxFee then Inl (Error ''maxFee given too high'')
         else if js_less requestMaxFee requestPriorityFee then
           Inl (Error ''maxFee cannot be lower than priorityFee'')
         else Inr ())"

definition validateInput ::
  "('w, 'db, 'rep, 'e) sv_env_scheme \<Rightarrow> RelayTransactionRequest \<Rightarrow> (('w, 'db, 'rep, 'z) sv_state_scheme, unit) eff" where
  "validateInput env req =
     with_hub (\<lambda>hub.
     if rm_relayHubAddress (rtr_metadata req) \<noteq> hub then
       throw (''Wrong hub address. Relay server hub address: '' @ hub @ '', request hub address: ''
         @ rm_relayHubAddress (rtr_metadata req))
     else if \<not> isSameAddress (toLowerCase (rd_relayWorker (rr_relayData (rtr_relayRequest req)))) (toLowerCase (workerAddress env)) then
       throw (''Wrong worker address: '' @ rd_relayWorker (rr_relayData (rtr_relayRequest req)))
     else
       bnd (gets (\<lambda>s. validateGasFees (ge_config env) (minMaxPriorityFeePerGas s) (minMaxFeePerGas s) (rtr_relayRequest req))) (\<lambda>r.
       bnd (lift_result r) (\<lambda>_.
       bnd (lift_result (validateWhitelistsAndBlacklists (ge_config env) (rtr_relayRequest req))) (\<lambda>_.
       bnd (date_now env) (\<lambda>now.
       let secondsNow = math_round (of_int now / 1000);
           expiredInSeconds = js_minus (parseInt (fr_validUntilTime (rr_request (rtr_relayRequest req)))) (Some secondsNow)
       in if js_less expiredInSeconds (Some (sc_requestMinValidSeconds (ge_config env))) then
            throw ''Request expired (or too close)''
          else ret ())))))"

definition validateMaxNonce ::
  "('w, 'db, 'rep, 'e) sv_env_scheme \<Rightarrow> int \<Rightarrow> (('w, 'db, 'rep, 'z) sv_state_scheme, unit) eff" where
  "validateMaxNonce env relayMaxNonce =
     bnd (pollNonce (ge_tm env) (workerAddress env)) (\<lambda>nonce.
     if js_less (Some relayMaxNonce) nonce then
       throw (''Unacceptable relayMaxNonce: '' @ int_to_string relayMaxNonce @ ''. current nonce: ''
         @ (case nonce of Some n \<Rightarrow> int_to_string n | None \<Rightarrow> ''undefined''))
     else ret ())"

definition paymaster_error :: "string \<Rightarrow> js_error \<Rightarrow> string" where
  "paymaster_error paymaster e =
     (if str_includes (''Returned values aren'' @ [CHR 0x27] @ ''t valid, did it run Out of Gas?'') (error_message e) then
        ''not a valid paymaster contract: '' @ paymaster
      else if str_includes ''no code at address'' (error_message e) then
        [CHR 0x27] @ ''non-existent paymaster contract: '' @ paymaster
      else ''unknown paymaster error: '' @ error_message e)"

definition GAS_FACTOR :: rat where
  "GAS_FACTOR = 11 / 10"

definition GAS_RESERVE :: int where
  "GAS_RESERVE = 100000"

definition relayCallAbi :: "RelayTransactionRequest \<Rightarrow> int \<Rightarrow> RelayCallABI" where
  "relayCallAbi req budget =
     \<lparr>abi_domainSeparatorName = rm_domainSeparatorName (rtr_metadata req), abi_signature = rm_signature (rtr_metadata req),
      abi_relayRequest = rtr_relayRequest req, abi_approvalData = rm_approvalData (rtr_metadata req),
      abi_maxAcceptanceBudget = int_to_string budget\<rparr>"

text \<open>The limits of the paymaster and the acceptance budget to use.\<close>

definition paymaster_limits ::
  "('w, 'db, 'rep, 'e) sv_env_scheme \<Rightarrow> string \<Rightarrow> string \<Rightarrow> (('w, 'db, 'rep, 'z) sv_state_scheme, GasAndDataLimits \<times> int) eff" where
  "paymaster_limits env paymaster msgData =
     (let maxBudget = sc_maxAcceptanceBudget (ge_config env)
      in bnd (gets (\<lambda>s. map_of (trustedPaymasters s) paymaster)) (\<lambda>known. case known of
        Some limits \<Rightarrow> ret (limits, gl_acceptanceBudget limits)
      | None \<Rightarrow>
          bnd (try_catch
                 (bnd (on_world (ch_contractAt (ge_chain env) ''IPaymaster'' paymaster)) (\<lambda>_.
                  on_world (sv_getGasAndDataLimits (se_chain env) paymaster)))
                 (\<lambda>e. throw (paymaster_error paymaster e))) (\<lambda>limits.
          let msgDataGasCostInsideTransaction = int (length (hex_bytes (removeHexPrefix msgData)))
                * env_dataOnChainHandlingGasCostPerByte (ic_environment (te_interactor (ge_tm env)));
              effectiveAcceptanceBudget = gl_acceptanceBudget limits + msgDataGasCostInsideTransaction
                + calculateCalldataCost (te_interactor (ge_tm env)) msgData
          in if effectiveAcceptanceBudget > maxBudget then
               bnd (gets (\<lambda>s. isTrustedPaymaster s paymaster)) (\<lambda>trusted.
               if \<not> trusted then
                 throw (''paymaster acceptance budget + msg.data gas cost too high. given: ''
                   @ int_to_string effectiveAcceptanceBudget @ '' max allowed: '' @ int_to_string maxBudget)
               else ret (limits, gl_acceptanceBudget limits))
             else ret (limits, maxBudget))))"

text \<open>The acceptance budget and the gas limit.\<close>

definition validatePaymasterGasAndDataLimits ::
  "('w, 'db, 'rep, 'e) sv_env_scheme \<Rightarrow> RelayTransactionRequest \<Rightarrow> (('w, 'db, 'rep, 'z) sv_state_scheme, int \<times> int) eff" where
  "validatePaymasterGasAndDataLimits env req =
     (let relayData = rr_relayData (rtr_relayRequest req); paymaster = rd_paymaster relayData;
          msgData = lib_encodeRelayCall (te_lib (ge_tm env)) (relayCallAbi req (sc_maxAcceptanceBudget (ge_config env)));
          calldataCost = calculateCalldataCost (te_interactor (ge_tm env)) msgData
      in bnd (lift_result (toBN_string (rd_transactionCalldataGasUsed relayData))) (\<lambda>signedCost.
      if calldataCost > signedCost then throw ''Refusing to relay a transaction due to calldata cost.''
      else
        bnd (paymaster_limits env paymaster msgData) (\<lambda>(limits, acceptanceBudget).
        bnd (gets ci_relayHubConfiguration) (\<lambda>hubConfig. case hubConfig of
          None \<Rightarrow> throw ''Cannot read properties of undefined (reading gasOverhead)''
        | Some hc \<Rightarrow>
            (case calculateTransactionMaxPossibleGas (te_interactor (ge_tm env)) hc msgData limits
                   (fr_gas (rr_request (rtr_relayRequest req))) of
               None \<Rightarrow> throw ''invalid number value (arg=maxPossibleGas, value=NaN)''
             | Some tmp \<Rightarrow>
                 let maxPossibleGas = GAS_RESERVE + \<lfloor>of_int tmp * GAS_FACTOR\<rfloor>
                 in bnd (gets maxGasLimit) (\<lambda>limit.
                    if maxPossibleGas > limit then
                      throw (''maxPossibleGas ('' @ int_to_string maxPossibleGas @ '') exceeds maxGasLimit ('' @ int_to_string limit @ '')'')
                    else
                      with_hub (\<lambda>hub.
                      bnd (on_world (sv_calculateCharge (se_chain env) hub maxPossibleGas relayData (rd_maxFeePerGas relayData))) (\<lambda>maxCharge.
                      bnd (on_world (ch_hubBalanceOf (ge_chain env) hub paymaster)) (\<lambda>paymasterBalance.
                      if paymasterBalance < maxCharge then
                        throw (''paymaster balance too low: '' @ int_to_string paymasterBalance @ '', maxCharge: '' @ int_to_string maxCharge)
                      else ret (acceptanceBudget, maxPossibleGas))))))))))"

definition validateViewCallSucceeds ::
  "('w, 'db, 'rep, 'e) sv_env_scheme \<Rightarrow> RelayTransactionRequest \<Rightarrow> int \<Rightarrow> int \<Rightarrow> (('w, 'db, 'rep, 'z) sv_state_scheme, unit) eff" where
  "validateViewCallSucceeds env req maxAcceptanceBudget maxPossibleGas =
     with_hub (\<lambda>hub.
     bnd (gets sv_transactionType) (\<lambda>tt.
     let d = rr_relayData (rtr_relayRequest req);
         fees = (if tt = TYPE_TWO then
             \<lparr>gf_gasPrice = None, gf_maxFeePerGas = Some (rd_maxFeePerGas d), gf_maxPriorityFeePerGas = Some (rd_maxPriorityFeePerGas d)\<rparr>
           else \<lparr>gf_gasPrice = Some (rd_maxFeePerGas d), gf_maxFeePerGas = None, gf_maxPriorityFeePerGas = None\<rparr>)
     in bnd (try_catch
               (on_world (sv_relayCallPending (se_chain env) hub (relayCallAbi req maxAcceptanceBudget) (workerAddress env) fees maxPossibleGas))
               (\<lambda>e. throw (''relayCall reverted in server: '' @ error_message e))) (\<lambda>(paymasterAccepted, returnValue).
        if \<not> paymasterAccepted then
          bnd (lift_result (decodeRevertReason (lib_decodeString (te_lib (ge_tm env))) (Some returnValue) False)) (\<lambda>reason.
          throw (''Paymaster rejected in server: '' @ (case reason of Some r \<Rightarrow> r | None \<Rightarrow> ''null'')))
        else ret ())))"

end
