(* ===== verification/ServerRounds.thy ===== *)
theory ServerRounds imports RelayServer begin

text \<open>
  \<open>packages/relay/src/RelayServer.ts\<close>, second part: relaying a request, replenishing the worker, and the rounds of
  the server over new blocks. \<open>pollScheduled\<close> says that a call of \<open>intervalHandler\<close> is scheduled by
  \<open>setTimeout\<close>.
\<close>

section \<open>Replenishing\<close>

definition replenishWorker ::
  "('w, 'db, 'e) rg_env_scheme \<Rightarrow> int \<Rightarrow> ShortBlockInfo \<Rightarrow> (('w, 'db, 'z) rg_state_scheme, string list) eff" where
  "replenishWorker env workerReplenishAmount currentBlock =
     send_hash env ((tx_details (managerAddress env) VALUE_TRANSFER (workerAddress env) currentBlock)
       \<lparr>sd_value := Some (int_to_hex workerReplenishAmount)\<rparr>)"

definition withdrawHubDeposit ::
  "('w, 'db, 'rep, 'e) sv_env_scheme \<Rightarrow> int \<Rightarrow> ShortBlockInfo \<Rightarrow> (('w, 'db, 'rep, 'z) sv_state_scheme, string list) eff" where
  "withdrawHubDeposit env managerHubBalance currentBlock =
     with_hub (\<lambda>hub.
     send_hash env ((tx_details (managerAddress env) DEPOSIT_WITHDRAWAL hub currentBlock)
       \<lparr>sd_method := Some (enc_withdraw (ge_abi env) (managerAddress env) (int_to_hex managerHubBalance))\<rparr>))"

record replenish_plan =
  rp_mustReplenishManager :: bool
  rp_mustReplenishWorker :: bool
  rp_mustWithdrawHubDeposit :: bool
  rp_workerReplenishAmount :: int

definition plan_replenish :: "ServerConfigParams \<Rightarrow> int \<Rightarrow> int \<Rightarrow> amount_required \<Rightarrow> bool \<Rightarrow> bool \<Rightarrow> replenish_plan" where
  "plan_replenish cfg managerEthBalance managerHubBalance worker isWithdrawalPending isReplenishPendingForWorker =
     (let mustReplenishWorker = (\<not> isSatisfied worker \<and> \<not> isReplenishPendingForWorker);
          mustReplenishManager = (sc_managerMinBalance cfg > managerEthBalance \<and> \<not> isWithdrawalPending);
          workerReplenishAmount = sc_workerTargetBalance cfg - ar_currentValue worker;
          managerReplenishAmount = sc_managerTargetBalance cfg - managerEthBalance;
          canReplenishManager = (managerHubBalance \<ge> managerReplenishAmount);
          cantReplenishWorkerFromBalance = (managerEthBalance - sc_managerMinBalance cfg < workerReplenishAmount);
          canReplenishWorkerFromHubAndBalance =
            (managerHubBalance + managerEthBalance - sc_managerMinBalance cfg \<ge> workerReplenishAmount)
      in \<lparr>rp_mustReplenishManager = mustReplenishManager, rp_mustReplenishWorker = mustReplenishWorker,
          rp_mustWithdrawHubDeposit = (mustReplenishManager \<and> canReplenishManager
            \<or> mustReplenishWorker \<and> cantReplenishWorkerFromBalance \<and> canReplenishWorkerFromHubAndBalance),
          rp_workerReplenishAmount = workerReplenishAmount\<rparr>)"

definition replenishServer ::
  "('w, 'db, 'rep, 'e) sv_env_scheme \<Rightarrow> ShortBlockInfo \<Rightarrow> (('w, 'db, 'rep, 'z) sv_state_scheme, string list) eff" where
  "replenishServer env currentBlock =
     bnd (gets (ar_currentValue \<circ> balanceRequired)) (\<lambda>managerEthBalance.
     bnd (with_hub (\<lambda>hub. on_world (ch_hubBalanceOf (ge_chain env) hub (managerAddress env)))) (\<lambda>managerHubBalance.
     bnd (is_pending env DEPOSIT_WITHDRAWAL currentBlock None) (\<lambda>isWithdrawalPending.
     bnd (is_pending env VALUE_TRANSFER currentBlock (Some (workerAddress env))) (\<lambda>isReplenishPendingForWorker.
     bnd (gets (\<lambda>s. plan_replenish (ge_config env) managerEthBalance managerHubBalance (workerBalanceRequired s)
            isWithdrawalPending isReplenishPendingForWorker)) (\<lambda>plan.
     if \<not> rp_mustReplenishManager plan \<and> \<not> rp_mustReplenishWorker plan then ret []
     else
       bnd (if rp_mustWithdrawHubDeposit plan then
              bnd (withdrawHubDeposit env managerHubBalance currentBlock) (\<lambda>h.
              bnd (refreshBalance env) (\<lambda>_. ret h))
            else ret []) (\<lambda>h1.
       bnd (gets (ar_currentValue \<circ> balanceRequired)) (\<lambda>managerEthBalance'.
       if rp_mustReplenishWorker plan
          \<and> rp_workerReplenishAmount plan < managerEthBalance' - sc_managerMinBalance (ge_config env)
       then bnd (replenishWorker env (rp_workerReplenishAmount plan) currentBlock) (\<lambda>h2. ret (h1 @ h2))
       else ret h1)))))))"

definition withdrawToOwnerIfNeeded ::
  "('w, 'db, 'rep, 'e) sv_env_scheme \<Rightarrow> ShortBlockInfo \<Rightarrow> (('w, 'db, 'rep, 'z) sv_state_scheme, string list) eff" where
  "withdrawToOwnerIfNeeded env currentBlock =
     try_catch
       (bnd (gets ready) (\<lambda>isReady.
        case sc_withdrawToOwnerOnBalance (ge_config env) of None \<Rightarrow> ret []
        | Some withdrawToOwnerOnBalance \<Rightarrow>
            if \<not> isReady then ret []
            else
              (let reserveBalance = sc_managerTargetBalance (ge_config env) + sc_workerTargetBalance (ge_config env);
                   effectiveWithdrawOnBalance = withdrawToOwnerOnBalance + reserveBalance
               in bnd (with_hub (\<lambda>hub. on_world (ch_hubBalanceOf (ge_chain env) hub (managerAddress env)))) (\<lambda>managerHubBalance.
                  if managerHubBalance < effectiveWithdrawOnBalance then ret []
                  else sendManagerHubBalanceToOwner env currentBlock (Some (managerHubBalance - reserveBalance))))))
       (\<lambda>_. ret [])"

section \<open>Relaying\<close>

definition createRelayTransaction ::
  "('w, 'db, 'rep, 'e) sv_env_scheme \<Rightarrow> RelayTransactionRequest \<Rightarrow>
   (('w, 'db, 'rep, 'z) sv_state_scheme, string \<times> (int \<times> string) list) eff" where
  "createRelayTransaction env req =
     (let relayData = rr_relayData (rtr_relayRequest req); cfg = ge_config env in
      bnd (gets ready) (\<lambda>isReady.
      if \<not> isReady then throw ''relay not ready''
      else
        bnd (validateRequestTxType req) (\<lambda>_.
        bnd (gets alerted) (\<lambda>isAlerted.
        bnd (gets (\<lambda>s. sv_random (se_chain env) (world s))) (\<lambda>rnd.
        bnd (when_eff isAlerted (on_world (sv_sleep (se_chain env)
               (randomInRange rnd (sc_minAlertedDelayMS cfg) (sc_maxAlertedDelayMS cfg))))) (\<lambda>_.
        bnd (on_world (sv_latestBlock (se_chain env))) (\<lambda>block.
        let currentBlock = \<lparr>bi_hash = bi_hash block, bi_number = bi_number block, bi_timestamp = bi_timestamp block\<rparr> in
        bnd (validateInput env req) (\<lambda>_.
        bnd (validateMaxNonce env (rm_relayMaxNonce (rtr_metadata req))) (\<lambda>_.
        bnd (gets lastScannedBlock) (\<lambda>scanned.
        bnd (when_eff (sc_runPaymasterReputations cfg) (validatePaymasterReputation env (rd_paymaster relayData) scanned)) (\<lambda>_.
        bnd (validatePaymasterGasAndDataLimits env req) (\<lambda>(acceptanceBudget, maxPossibleGas).
        bnd (validateViewCallSucceeds env req acceptanceBudget maxPossibleGas) (\<lambda>_.
        bnd (date_now env) (\<lambda>now.
        bnd (when_eff (sc_runPaymasterReputations cfg)
               (on_rep (onRelayRequestAccepted (se_rep env) now (rd_paymaster relayData)))) (\<lambda>_.
        bnd (sendTransaction (ge_tm env) ((tx_details (workerAddress env) RELAY_CALL (rm_relayHubAddress (rtr_metadata req)) currentBlock)
               \<lparr>sd_method := Some (lib_encodeRelayCall (te_lib (ge_tm env)) (relayCallAbi req acceptanceBudget)),
                sd_gasLimit := Some maxPossibleGas, sd_maxFeePerGas := Some (rd_maxFeePerGas relayData),
                sd_maxPriorityFeePerGas := Some (rd_maxPriorityFeePerGas relayData)\<rparr>)) (\<lambda>details.
        bnd (getNonceGapFilled (ge_tm env) (workerAddress env) (rm_relayLastKnownNonce (rtr_metadata req)) (std_nonce details - 1)) (\<lambda>nonceGapFilled.
        bnd (replenishServer env currentBlock) (\<lambda>_.
        ret (std_signedTx details, nonceGapFilled)))))))))))))))))))"

section \<open>Rounds\<close>

definition getWorkerBalance :: "('w, 'db, 'e) rg_env_scheme \<Rightarrow> (('w, 'z) ci_state_scheme, int) eff" where
  "getWorkerBalance env = getBalance (ge_chain env) (workerAddress env) ''pending''"

definition refreshAndCheckBalances :: "('w, 'db, 'rep, 'e) sv_env_scheme \<Rightarrow> (('w, 'db, 'rep, 'z) sv_state_scheme, bool) eff" where
  "refreshAndCheckBalances env =
     bnd (gets shouldRefreshBalances) (\<lambda>refresh.
     if \<not> refresh then ret True
     else
       bnd (refreshBalance env) (\<lambda>_.
       bnd (getWorkerBalance env) (\<lambda>w.
       bnd (modify (\<lambda>s. s\<lparr>workerBalanceRequired := set_currentValue (ge_formats env) w (workerBalanceRequired s)\<rparr>)) (\<lambda>_.
       bnd (gets (ar_currentValue \<circ> balanceRequired)) (\<lambda>m.
       let isManagerBalanceReady = (m \<ge> bn_div (sc_managerMinBalance (ge_config env)) 2);
           isWorkerBalanceReady = (w \<ge> bn_div (sc_workerMinBalance (ge_config env)) 2)
       in bnd (when_eff (\<not> isManagerBalanceReady \<or> \<not> isWorkerBalanceReady) (setReadyState env False)) (\<lambda>_.
          bnd (modify (\<lambda>s. s\<lparr>shouldRefreshBalances :=
            m < sc_managerMinBalance (ge_config env) \<or> w < sc_workerMinBalance (ge_config env)\<rparr>)) (\<lambda>_.
          ret isManagerBalanceReady)))))))"

definition refreshGasFees :: "('w, 'db, 'rep, 'e) sv_env_scheme \<Rightarrow> (('w, 'db, 'rep, 'z) sv_state_scheme, unit) eff" where
  "refreshGasFees env =
     (let cfg = ge_config env; cap = parseInt (sc_maxMaxFeePerGas cfg); dflt = parseInt (sc_defaultPriorityFee cfg) in
      bnd (getGasFees (ge_chain env) (te_interactor (ge_tm env)) (sc_getGasFeesBlocks cfg) (sc_getGasFeesPercentile cfg)) (\<lambda>(baseFeePerGas, priorityFeePerGas).
      let fromNode = \<lfloor>of_int priorityFeePerGas * sc_gasPriceFactor cfg\<rfloor>;
          priority = (case dflt of Some d \<Rightarrow> (if fromNode = 0 \<and> d > 0 then d else fromNode) | None \<Rightarrow> fromNode)
      in bnd (modify (\<lambda>s. s\<lparr>minMaxFeePerGas := baseFeePerGas, minMaxPriorityFeePerGas := priority\<rparr>)) (\<lambda>_.
         if js_less cap (Some priority) then throw ''network maxPriorityFeePerGas is higher than config.maxMaxFeePerGas''
         else if js_less cap baseFeePerGas then throw ''network minMaxFeePerGas is higher than config.maxMaxFeePerGas''
         else ret ())))"

definition shouldRegisterAgain ::
  "('w, 'db, 'rep, 'e) sv_env_scheme \<Rightarrow> ShortBlockInfo \<Rightarrow> (('w, 'db, 'rep, 'z) sv_state_scheme, bool) eff" where
  "shouldRegisterAgain env currentBlock =
     bnd (getRelayRegistrationMaxAge (ge_chain env)) (\<lambda>relayRegistrationMaxAge.
     bnd (try_catch (bnd (getRelayInfo (ge_chain env) (managerAddress env)) (\<lambda>i. ret (ri_lastSeenTimestamp i)))
            (\<lambda>e. if str_includes ''relayManager not found'' (error_message e) then ret 0 else raise e)) (\<lambda>lastSeen.
     bnd (is_pending env REGISTER_SERVER currentBlock None) (\<lambda>isPendingRegistration.
     ret (bi_timestamp currentBlock - lastSeen \<ge> relayRegistrationMaxAge \<and> \<not> isPendingRegistration))))"

definition shouldRefreshState :: "('w, 'db, 'rep, 'e) sv_env_scheme \<Rightarrow> ShortBlockInfo \<Rightarrow> ('w, 'db, 'rep, 'z) sv_state_scheme \<Rightarrow> bool" where
  "shouldRefreshState env currentBlock s \<longleftrightarrow>
     bi_number currentBlock - lastRefreshBlock s \<ge> sc_refreshStateTimeoutBlocks (ge_config env) \<or> \<not> ready s"

definition handleTransactionRejectedByPaymasterEvent ::
  "('w, 'db, 'rep, 'e) sv_env_scheme \<Rightarrow> string \<Rightarrow> int \<Rightarrow> (('w, 'db, 'rep, 'z) sv_state_scheme, unit) eff" where
  "handleTransactionRejectedByPaymasterEvent env paymaster eventBlockNumber =
     bnd (modify (\<lambda>s. s\<lparr>alerted := True\<rparr>)) (\<lambda>_.
     bnd (getBlock (ge_chain env) eventBlockNumber) (\<lambda>block.
     bnd (modify (\<lambda>s. s\<lparr>alertedByTransactionBlockTimestamp := bi_timestamp block\<rparr>)) (\<lambda>_.
     when_eff (sc_runPaymasterReputations (ge_config env))
       (on_rep (updatePaymasterStatus (se_repConfig env) (se_rep env) paymaster False eventBlockNumber)))))"

definition handleTransactionRelayedEvent ::
  "('w, 'db, 'rep, 'e) sv_env_scheme \<Rightarrow> string \<Rightarrow> int \<Rightarrow> (('w, 'db, 'rep, 'z) sv_state_scheme, unit) eff" where
  "handleTransactionRelayedEvent env paymaster eventBlockNumber =
     when_eff (sc_runPaymasterReputations (ge_config env))
       (on_rep (updatePaymasterStatus (se_repConfig env) (se_rep env) paymaster True eventBlockNumber))"

definition handlePastHubEvents ::
  "('w, 'db, 'rep, 'e) sv_env_scheme \<Rightarrow> event_data list \<Rightarrow> (('w, 'db, 'rep, 'z) sv_state_scheme, unit) eff" where
  "handlePastHubEvents env hubEventsSinceLastScan =
     for_each (\<lambda>e.
       if ed_event e = ''TransactionRejectedByPaymaster'' then
         handleTransactionRejectedByPaymasterEvent env (ret_val ''paymaster'' e) (ed_blockNumber e)
       else if ed_event e = ''TransactionRelayed'' then
         handleTransactionRelayedEvent env (ret_val ''paymaster'' e) (ed_blockNumber e)
       else ret ()) hubEventsSinceLastScan"

definition ActiveManagerEvents :: "string list" where
  "ActiveManagerEvents = [''RelayWorkersAdded'', ''TransactionRelayed'', ''TransactionRejectedByPaymaster'']"

definition getAllHubEventsSinceLastScan ::
  "('w, 'db, 'rep, 'e) sv_env_scheme \<Rightarrow> (('w, 'db, 'rep, 'z) sv_state_scheme, event_data list) eff" where
  "getAllHubEventsSinceLastScan env =
     bnd (gets lastScannedBlock) (\<lambda>scanned.
     let topics = [Topic (address2topic (managerAddress env))]; fromBlock = Some (Block (scanned + 1));
         toBlock = Some (Tag ''latest'')
     in bnd (getPastEventsForHub (ge_chain env) (te_interactor (ge_tm env)) topics fromBlock toBlock ActiveManagerEvents) (\<lambda>hubEvents.
        bnd (getPastEventsForRegistrar (ge_chain env) (te_interactor (ge_tm env)) topics fromBlock toBlock [''RelayServerRegistered'']) (\<lambda>regEvents.
        ret (hubEvents @ regEvents))))"

text \<open>The boosted transactions of the manager and the worker, in one map.\<close>

definition boostStuckPendingTransactions ::
  "('w, 'db, 'rep, 'e) sv_env_scheme \<Rightarrow> ShortBlockInfo \<Rightarrow>
   (('w, 'db, 'rep, 'z) sv_state_scheme, (string \<times> SignedTransactionDetails) list) eff" where
  "boostStuckPendingTransactions env currentBlock =
     bnd (gets minMaxPriorityFeePerGas) (\<lambda>fee.
     bnd (boostUnderpricedPendingTransactionsForSigner (ge_tm env) (managerAddress env) currentBlock fee) (\<lambda>b1.
     bnd (boostUnderpricedPendingTransactionsForSigner (ge_tm env) (workerAddress env) currentBlock fee) (\<lambda>b2.
     ret (foldl (\<lambda>m (h, d). map_set h d m) [] (b1 @ b2)))))"

definition leave_alerted ::
  "('w, 'db, 'rep, 'e) sv_env_scheme \<Rightarrow> ShortBlockInfo \<Rightarrow> (('w, 'db, 'rep, 'z) sv_state_scheme, unit) eff" where
  "leave_alerted env currentBlock =
     modify (\<lambda>s. if alerted s
         \<and> alertedByTransactionBlockTimestamp s + sc_alertedDelaySeconds (ge_config env) < bi_timestamp currentBlock
       then s\<lparr>alerted := False\<rparr> else s)"

definition handleChanges ::
  "('w, 'db, 'rep, 'e) sv_env_scheme \<Rightarrow> ShortBlockInfo \<Rightarrow> (('w, 'db, 'rep, 'z) sv_state_scheme, string list) eff" where
  "handleChanges env currentBlock =
     bnd (getAllHubEventsSinceLastScan env) (\<lambda>hubEvents.
     bnd (shouldRegisterAgain env currentBlock) (\<lambda>registerAgain.
     bnd (gets lastScannedBlock) (\<lambda>scanned.
     bnd (handlePastEvents env scanned currentBlock registerAgain) (\<lambda>h1.
     bnd (fillMinedBlockDetailsForTransactions (ge_tm env) currentBlock) (\<lambda>_.
     bnd (tm_removeArchivedTransactions (ge_tm env) currentBlock) (\<lambda>_.
     bnd (boostStuckPendingTransactions env currentBlock) (\<lambda>_.
     bnd (modify (\<lambda>s. s\<lparr>lastScannedBlock := bi_number currentBlock\<rparr>)) (\<lambda>_.
     bnd (gets (isRegistered env)) (\<lambda>registered.
     if \<not> registered then bnd (setReadyState env False) (\<lambda>_. ret h1)
     else
       bnd (handlePastHubEvents env hubEvents) (\<lambda>_.
       bnd (replenishServer env currentBlock) (\<lambda>h2.
       bnd (refreshAndCheckBalances env) (\<lambda>_.
       bnd (setReadyState env True) (\<lambda>_.
       bnd (leave_alerted env currentBlock) (\<lambda>_. ret (h1 @ h2)))))))))))))))"

definition worker_round ::
  "('w, 'db, 'rep, 'e) sv_env_scheme \<Rightarrow> ShortBlockInfo \<Rightarrow> (('w, 'db, 'rep, 'z) sv_state_scheme, string list) eff" where
  "worker_round env block =
     bnd (gets (\<lambda>s. (sv_initialized s, lastScannedBlock s, shouldRefreshState env block s))) (\<lambda>(initialized, scanned, refresh).
     if \<not> initialized then throw ''Please run init() first''
     else if bi_number block \<le> scanned then throw ''Attempt to scan older block, aborting''
     else if \<not> refresh then ret []
     else
       bnd (withdrawToOwnerIfNeeded env block) (\<lambda>_.
       bnd (modify (\<lambda>s. s\<lparr>lastRefreshBlock := bi_number block\<rparr>)) (\<lambda>_.
       bnd (refreshGasFees env) (\<lambda>_.
       bnd (refreshAndCheckBalances env) (\<lambda>isManagerBalanceReady.
       if \<not> isManagerBalanceReady then ret [] else handleChanges env block)))))"

definition short_block :: "block_info \<Rightarrow> ShortBlockInfo" where
  "short_block b = \<lparr>bi_hash = bi_hash b, bi_number = bi_number b, bi_timestamp = bi_timestamp b\<rparr>"

text \<open>The scheduled call is used up at the start; \<open>finally\<close> schedules the next one.\<close>

definition checkNewBlock :: "('w, 'db, 'rep, 'e) sv_env_scheme \<Rightarrow> (('w, 'db, 'rep, 'z) sv_state_scheme, unit) eff" where
  "checkNewBlock env =
     bnd (on_world (sv_latestBlock (se_chain env))) (\<lambda>block.
     bnd (gets lastScannedBlock) (\<lambda>scanned.
     when_eff (bi_number block > scanned) (bnd (worker_round env (short_block block)) (\<lambda>_. ret ()))))"

text \<open>An emitter throws the error of an event \<open>error\<close> that nobody listens to.\<close>

definition emit_error :: "js_error \<Rightarrow> (('w, 'db, 'rep, 'z) sv_state_scheme, unit) eff" where
  "emit_error e = bnd (gets errorListener) (\<lambda>listening. if listening then ret () else raise e)"

definition finally_eff :: "('s, unit) eff \<Rightarrow> ('s, unit) eff \<Rightarrow> ('s, unit) eff" where
  "finally_eff m fin = bnd (try_catch m (\<lambda>e. bnd fin (\<lambda>_. raise e))) (\<lambda>_. fin)"

definition intervalHandler :: "('w, 'db, 'rep, 'e) sv_env_scheme \<Rightarrow> (('w, 'db, 'rep, 'z) sv_state_scheme, unit) eff" where
  "intervalHandler env =
     bnd (modify (\<lambda>s. s\<lparr>pollScheduled := False\<rparr>)) (\<lambda>_.
     finally_eff
       (try_catch (checkNewBlock env) (\<lambda>e. bnd (emit_error e) (\<lambda>_. setReadyState env False)))
       (modify (\<lambda>s. s\<lparr>pollScheduled := running s\<rparr>)))"

definition sv_start :: "(('w, 'db, 'rep, 'z) sv_state_scheme, unit) eff" where
  "sv_start = modify (\<lambda>s. s\<lparr>running := True, pollScheduled := True\<rparr>)"

definition sv_stop :: "(('w, 'db, 'rep, 'z) sv_state_scheme, unit) eff" where
  "sv_stop = bnd (gets running) (\<lambda>r. if \<not> r then throw ''Server not started'' else modify (\<lambda>s. s\<lparr>running := False\<rparr>))"

section \<open>Initialisation\<close>

definition initTrustedPaymasters ::
  "('w, 'db, 'rep, 'e) sv_env_scheme \<Rightarrow> string list \<Rightarrow> (('w, 'db, 'rep, 'z) sv_state_scheme, unit) eff" where
  "initTrustedPaymasters env paymasters =
     bnd (modify (\<lambda>s. s\<lparr>trustedPaymasters := []\<rparr>)) (\<lambda>_.
     for_each (\<lambda>paymasterAddress.
       bnd (on_world (ch_contractAt (ge_chain env) ''IPaymaster'' paymasterAddress)) (\<lambda>_.
       bnd (try_catch (on_world (sv_getGasAndDataLimits (se_chain env) paymasterAddress))
              (\<lambda>e. throw (''not a valid paymaster address in trustedPaymasters list: '' @ paymasterAddress @ '': '' @ error_message e))) (\<lambda>limits.
       modify (\<lambda>s. s\<lparr>trustedPaymasters := map_set (toLowerCase paymasterAddress) limits (trustedPaymasters s)\<rparr>)))) paymasters)"

text \<open>\<open>fatal\<close> ends the process; here it throws.\<close>

definition sv_init :: "('w, 'db, 'rep, 'e) sv_env_scheme \<Rightarrow> (('w, 'db, 'rep, 'z) sv_state_scheme, string list) eff" where
  "sv_init env =
     bnd (gets sv_initialized) (\<lambda>initialized.
     if initialized then throw ''_init was already called''
     else
       bnd (on_world (sv_latestBlock (se_chain env))) (\<lambda>latestBlock.
       bnd (modify (\<lambda>s. s\<lparr>lastScannedBlock := (if bi_number latestBlock - 10 < 0 then 0 else bi_number latestBlock - 10),
              sv_transactionType := (if bk_baseFeePerGas latestBlock \<noteq> None then TYPE_TWO else sv_transactionType s)\<rparr>)) (\<lambda>_.
       bnd (gets sv_transactionType) (\<lambda>tt.
       bnd (tm_init tt) (\<lambda>_.
       bnd (initTrustedPaymasters env (sc_trustedPaymasters (ge_config env))) (\<lambda>_.
       bnd (when_eff (\<not> sc_skipErc165Check (ge_config env)) (validateERC165InterfacesRelay (ge_chain env) (se_erc165 env))) (\<lambda>_.
       bnd (modify (\<lambda>s. s\<lparr>relayHubContract := in_relayHub (contract_instances s)\<rparr>)) (\<lambda>_.
       with_hub (\<lambda>hub.
       bnd (on_world (ch_getCode (ge_chain env) hub)) (\<lambda>code.
       if length code < 10 then throw (''FATAL: No RelayHub deployed at address '' @ hub)
       else
         bnd (rg_init env (short_block latestBlock)) (\<lambda>transactionHashes.
         bnd getRawTxOptions (\<lambda>(chainId, networkId).
         bnd (modify (\<lambda>s. s\<lparr>sv_chainId := chainId, sv_networkId := networkId,
                maxGasLimit := \<lfloor>3 / 4 * of_int (bk_gasLimit latestBlock) :: rat\<rfloor>, sv_initialized := True\<rparr>)) (\<lambda>_.
         ret transactionHashes)))))))))))))"

end
