(* ===== verification/ServerProps.thy ===== *)
theory ServerProps imports ServerRounds RegistrationProps begin

text \<open>
  Properties of the relay server: what any round or request can store, what a request must satisfy to be relayed,
  readiness and its accounting, replenishment.
\<close>

section \<open>The policy for the server\<close>

lemma allowed_same_tx: "same_tx x y \<Longrightarrow> allowed env i x \<Longrightarrow> allowed env i y"
  by (cases "st_serverAction y")
    (auto simp: allowed_def same_tx_def goes_to_def goes_to_instance_def carries_def withdraw_data_def to_owner_def
      isSameAddress_def split: option.splits)

text \<open>Everything stored is a transaction of the start, boosted or mined perhaps, or one of kind \<open>P\<close>.\<close>

definition stored_from ::
  "('w, 'db) tm_env \<Rightarrow> (StoredTransaction \<Rightarrow> bool) \<Rightarrow> 'db \<Rightarrow> 'db \<Rightarrow> (string \<times> int) list \<Rightarrow> bool" where
  "stored_from env P db0 db ns \<longleftrightarrow>
     tx_inv (te_store env) db
     \<and> (\<forall>k y. slot (te_store env) db k = Some y \<longrightarrow>
          (\<exists>x. slot (te_store env) db0 k = Some x \<and> same_tx x y) \<or> P y)"

lemma stored_from_refl: "tx_inv (te_store env) db \<Longrightarrow> stored_from env P db db ns"
  by (auto simp: stored_from_def intro: same_tx_refl)

lemma lets_add_stored_from: "lets_add env P (stored_from env P db0)"
  unfolding lets_add_def
proof (intro conjI allI impI)
  fix s t :: "('a, 'b) tm_state"
  assume s: "stored_from env P db0 (txdb s) (nonces s)" and t: "tm_kept env P s t"
  show "stored_from env P db0 (txdb t) (nonces t)"
    unfolding stored_from_def
  proof (intro conjI allI impI)
    show "tx_inv (te_store env) (txdb t)" using t by (simp add: tm_kept_def)
    fix k y assume "slot (te_store env) (txdb t) k = Some y"
    then have "slot (te_store env) (txdb s) k = Some y \<or> P y"
      using t by (auto simp: tm_kept_def slots_add_def)
    then show "(\<exists>x. slot (te_store env) db0 k = Some x \<and> same_tx x y) \<or> P y"
      using s unfolding stored_from_def by blast
  qed
qed (simp add: stored_from_def)

lemma stored_from_upkeep:
  assumes s: "stored_from env P db0 (txdb s) ns" and t: "upkeep env (txdb s) t" and P: "\<And>x y. same_tx x y \<Longrightarrow> P x \<Longrightarrow> P y"
  shows "stored_from env P db0 (txdb t) ns'"
  unfolding stored_from_def
proof (intro conjI allI impI)
  show "tx_inv (te_store env) (txdb t)" using t by (simp add: upkeep_def)
  fix k y assume y: "slot (te_store env) (txdb t) k = Some y"
  have "rel_option same_tx (slot (te_store env) (txdb s) k) (slot (te_store env) (txdb t) k)"
    using t by (simp add: upkeep_def same_slots_def)
  then obtain x where x: "slot (te_store env) (txdb s) k = Some x" "same_tx x y"
    using y by (cases "slot (te_store env) (txdb s) k") auto
  then consider x0 where "slot (te_store env) db0 k = Some x0" "same_tx x0 x" | "P x"
    using s unfolding stored_from_def by blast
  then show "(\<exists>x. slot (te_store env) db0 k = Some x \<and> same_tx x y) \<or> P y"
    by cases (use x(2) P same_tx_trans in blast)+
qed

lemma removed_slots:
  assumes "tx_collection N" and "tx_inv N db"
  shows "tx_inv N (removeArchivedTransactions N b ts db)"
    and "slot N (removeArchivedTransactions N b ts db) k = Some y \<Longrightarrow> slot N db k = Some y"
proof -
  show inv: "tx_inv N (removeArchivedTransactions N b ts db)"
    using tx_collection.tx_inv_remove [OF assms] by (simp add: removeArchivedTransactions_def)
  have "docs N (removeArchivedTransactions N b ts db) = {# d \<in># docs N db. \<not> archived b ts d #}"
    using assms(1) unfolding tx_collection_def removeArchivedTransactions_def by (rule nedb.remove_docs)
  then show "slot N db k = Some y" if "slot N (removeArchivedTransactions N b ts db) k = Some y"
    using that by (simp add: tx_collection.slot_Some [OF assms] tx_collection.slot_Some [OF assms(1) inv])
qed

text \<open>Ready and not-ready time add up to the time since the start.\<close>

definition accounted :: "ReadinessInfo \<Rightarrow> bool" where
  "accounted i \<longleftrightarrow> totalReadyTime i + totalNotReadyTime i = currentStateTimestamp i - runningSince i"

text \<open>The fields of the server, seen as the extension of the state of the registration manager.\<close>

definition hub_is :: "string option \<Rightarrow> ('rep, 'z) sv_state_ext \<Rightarrow> bool" where
  "hub_is h z \<longleftrightarrow> (\<forall>s :: (unit, unit, 'rep, 'z) sv_state_scheme. rg_state.more s = z \<longrightarrow>
     relayHubContract s = h \<and> accounted (readinessInfo s))"

lemma hub_is_more [simp]:
  "hub_is h (rg_state.more (s :: ('w, 'db, 'rep, 'z) sv_state_scheme)) \<longleftrightarrow>
     relayHubContract s = h \<and> accounted (readinessInfo s)"
proof -
  have same: "relayHubContract t = relayHubContract s \<and> readinessInfo t = readinessInfo s"
    if "rg_state.more t = rg_state.more s" for t :: "(unit, unit, 'rep, 'z) sv_state_scheme"
    using that by (cases t; cases s) simp
  obtain u :: "(unit, unit) rg_state" where "True" by blast
  have "rg_state.more (rg_state.extend u (rg_state.more s)) = rg_state.more s"
    by (simp add: rg_state.defs)
  then show ?thesis using same unfolding hub_is_def by metis
qed

abbreviation sv_policy where
  "sv_policy env R i h \<equiv> policy env R i (hub_is h)"

lemma sv_policy_updates [simp]:
  "sv_policy env R i h (s\<lparr>repdb := a1\<rparr>) = sv_policy env R i h s"
  "sv_policy env R i h (s\<lparr>lastScannedBlock := a2\<rparr>) = sv_policy env R i h s"
  "sv_policy env R i h (s\<lparr>lastRefreshBlock := a2\<rparr>) = sv_policy env R i h s"
  "sv_policy env R i h (s\<lparr>ready := b\<rparr>) = sv_policy env R i h s"
  "sv_policy env R i h (s\<lparr>minMaxPriorityFeePerGas := a2\<rparr>) = sv_policy env R i h s"
  "sv_policy env R i h (s\<lparr>minMaxFeePerGas := a3\<rparr>) = sv_policy env R i h s"
  "sv_policy env R i h (s\<lparr>alerted := b\<rparr>) = sv_policy env R i h s"
  "sv_policy env R i h (s\<lparr>alertedByTransactionBlockTimestamp := a2\<rparr>) = sv_policy env R i h s"
  "sv_policy env R i h (s\<lparr>workerBalanceRequired := a4\<rparr>) = sv_policy env R i h s"
  "sv_policy env R i h (s\<lparr>running := b\<rparr>) = sv_policy env R i h s"
  "sv_policy env R i h (s\<lparr>pollScheduled := b\<rparr>) = sv_policy env R i h s"
  "sv_policy env R i h (s\<lparr>errorListener := b\<rparr>) = sv_policy env R i h s"
  "sv_policy env R i h (s\<lparr>shouldRefreshBalances := b\<rparr>) = sv_policy env R i h s"
  by (simp_all add: policy_def owner_ok_def)

section \<open>Rules for the operations of the server\<close>

lemma keeps_never:
  assumes "\<And>s. I s \<Longrightarrow> wp m (\<lambda>_ _. False) (\<lambda>_. I) s"
  shows "keeps I (bnd m f)"
  by (rule keepsI) (simp add: wp_bnd, rule wp_mono [OF assms], auto)

lemma keeps_with_hub:
  assumes "\<And>a. h = Some a \<Longrightarrow> keeps (sv_policy env R i h) (k a)"
  shows "keeps (sv_policy env R i h) (with_hub k)"
  unfolding with_hub_def
proof (rule keeps_gets_bnd)
  fix s :: "('a, 'b, 'c, 'd) sv_state_scheme" assume s: "sv_policy env R i h s"
  then have "relayHubContract s = h" by (simp add: policy_def)
  then show "wp (bnd (lift_result (instance_address (relayHubContract s))) k) (\<lambda>_. sv_policy env R i h) (\<lambda>_. sv_policy env R i h) s"
    using keeps_wpD [OF assms s] s by (auto simp: wp_simps instance_address_def split: option.split)
qed

lemma keeps_date_now: "keeps I (date_now env)"
  unfolding date_now_def by (rule keeps_gets)

lemma sv_on_rep: "keeps (sv_policy env R i h) (on_rep m)"
  unfolding on_rep_def by (rule keeps_zoom) simp

lemma sv_setReady: "keeps (sv_policy env R i h) (setReadyState env' b)"
  unfolding setReadyState_def
  by (intro keeps_intros keeps_date_now policy_modify) (simp add: policy_def owner_ok_def accounted_def Let_def)

lemmas sv_ci = policy_ci [where J = "hub_is h" for h]

text \<open>Boosting, mined blocks and archiving.\<close>

lemma sv_upkeep:
  fixes env :: "('w, 'db, 'e) rg_env_scheme" and J :: "'z \<Rightarrow> bool"
  assumes env: "trusted_env env" and P: "\<And>x y. same_tx x y \<Longrightarrow> P x \<Longrightarrow> P y"
  shows "keeps (policy env (stored_from (ge_tm env) P db0) i J) (boostUnderpricedPendingTransactionsForSigner (ge_tm env) a blk fee)"
    and "keeps (policy env (stored_from (ge_tm env) P db0) i J) (fillMinedBlockDetailsForTransactions (ge_tm env) blk)"
    and "keeps (policy env (stored_from (ge_tm env) P db0) i J) (tm_removeArchivedTransactions (ge_tm env) blk)"
proof -
  have coll: "tx_collection (te_store (ge_tm env))" and faithful: "sign_faithful (ge_tm env)"
    using env by (auto simp: trusted_env_def)
  let ?R = "\<lambda>s :: ('w, 'db, 'z) rg_state_scheme. stored_from (ge_tm env) P db0 (txdb s) (nonces s)"
  let ?F = "\<lambda>s :: ('w, 'db, 'z) rg_state_scheme. contract_instances s = i \<and> owner_ok env s \<and> J (rg_state.more s)"
  have up: "keeps ?R m" if m: "\<And>s. tx_inv (te_store (ge_tm env)) (txdb s) \<Longrightarrow>
      wp m (\<lambda>_. upkeep (ge_tm env) (txdb s)) (\<lambda>_. upkeep (ge_tm env) (txdb s)) s"
    for m :: "(('w, 'db, 'z) rg_state_scheme, 'a) eff"
  proof (rule keepsI)
    fix s assume s: "?R s"
    then have "tx_inv (te_store (ge_tm env)) (txdb s)" by (simp add: stored_from_def)
    from m [OF this] show "wp m (\<lambda>_. ?R) (\<lambda>_. ?R) s"
      by (rule wp_mono) (auto intro: stored_from_upkeep [OF s _ P])
  qed
  have arch: "keeps ?R (tm_removeArchivedTransactions (ge_tm env) blk)"
    unfolding tm_removeArchivedTransactions_def Let_def
  proof (rule keeps_modify)
    fix s assume s: "?R s"
    then have "tx_inv (te_store (ge_tm env)) (txdb s)" by (simp add: stored_from_def)
    note r = removed_slots [OF coll this]
    show "?R (s\<lparr>txdb := removeArchivedTransactions (te_store (ge_tm env))
        (bi_number blk - sc_dbPruneTxAfterBlocks (te_config (ge_tm env)))
        (bi_timestamp blk - sc_dbPruneTxAfterSeconds (te_config (ge_tm env))) (txdb s)\<rparr>)"
      using s r by (simp add: stored_from_def)
  qed
  note frame = tm_frame_boost [OF owner_ok_tm_frame [of i env J]]
  have "keeps (\<lambda>s. ?R s \<and> ?F s) (boostUnderpricedPendingTransactionsForSigner (ge_tm env) a blk fee)"
    by (intro keeps_conj up boost_upkeep frame coll faithful)
  moreover have "keeps (\<lambda>s. ?R s \<and> ?F s) (fillMinedBlockDetailsForTransactions (ge_tm env) blk)"
    by (intro keeps_conj up fillMined_upkeep frame coll)
  moreover have "keeps (\<lambda>s. ?R s \<and> ?F s) (tm_removeArchivedTransactions (ge_tm env) blk)"
    by (intro keeps_conj arch frame)
  ultimately show "keeps (policy env (stored_from (ge_tm env) P db0) i J) (boostUnderpricedPendingTransactionsForSigner (ge_tm env) a blk fee)"
    and "keeps (policy env (stored_from (ge_tm env) P db0) i J) (fillMinedBlockDetailsForTransactions (ge_tm env) blk)"
    and "keeps (policy env (stored_from (ge_tm env) P db0) i J) (tm_removeArchivedTransactions (ge_tm env) blk)"
    unfolding policy_def [abs_def] .
qed

section \<open>Requests and rounds\<close>

lemma policy_pollNonce: "lets_add (ge_tm env) P R \<Longrightarrow> keeps (policy env R i J) (pollNonce (ge_tm env) a)"
proof (rule keepsI)
  fix s assume add: "lets_add (ge_tm env) P R" and s: "policy env R i J s"
  have inv: "tx_inv (te_store (ge_tm env)) (txdb s)" using add s unfolding lets_add_def policy_def by blast
  have frame: "wp (pollNonce (ge_tm env) a) (\<lambda>_ t. contract_instances t = i \<and> owner_ok env t \<and> J (rg_state.more t))
      (\<lambda>_ t. contract_instances t = i \<and> owner_ok env t \<and> J (rg_state.more t)) s"
    using keeps_wpD [OF tm_frame_send(2) [OF owner_ok_tm_frame [of i env J]]] s by (simp add: policy_def)
  have kept: "R (txdb t) (nonces t)" if "nonces_le s t" "txdb t = txdb s" for t
    using lets_addD [OF add, of s t] s that inv by (simp add: policy_def tm_kept_def slots_kept_def)
  show "wp (pollNonce (ge_tm env) a) (\<lambda>_. policy env R i J) (\<lambda>_. policy env R i J) s"
    by (rule wp_mono [OF wp_conj [OF pollNonce_wp frame]]) (use kept in \<open>auto simp: policy_def\<close>)
qed

lemma validateInput_hub:
  assumes s: "sv_policy env R i h s" and no: "h \<noteq> Some (rm_relayHubAddress (rtr_metadata req))"
  shows "wp (validateInput env req) (\<lambda>_ _. False) (\<lambda>_. sv_policy env R i h) s"
  unfolding validateInput_def with_hub_def
  using s no by (auto simp: wp_simps policy_def instance_address_def split: option.split)

lemma sv_replenish:
  assumes env: "trusted_env env" and add: "lets_add (ge_tm env) P R" and h: "h = in_relayHub i"
    and P: "\<And>x. allowed env i x \<Longrightarrow> P x"
  shows "keeps (sv_policy env R i h) (replenishServer env blk)"
proof -
  have dep: "keeps (sv_policy env R i h) (withdrawHubDeposit env b blk)" for b
    unfolding withdrawHubDeposit_def
    by (intro keeps_with_hub policy_send(2) [OF env add] P)
      (auto simp: sent_allowed h)
  have rep: "keeps (sv_policy env R i h) (replenishWorker env b blk)" for b
    unfolding replenishWorker_def
    by (intro policy_send(2) [OF env add] P) (auto simp: sent_allowed)
  show ?thesis
    unfolding replenishServer_def
    by (intro keeps_intros keeps_with_hub policy_ci policy_pending dep rep policy_refreshBalance)
qed

lemma sv_checks:
  assumes "lets_add (ge_tm env) P R"
  shows "keeps (sv_policy env R i h) (validateRequestTxType req)" and "keeps (sv_policy env R i h) (validateInput env req)"
    and "keeps (sv_policy env R i h) (validateMaxNonce env n)" and "keeps (sv_policy env R i h) (validatePaymasterReputation env p n)"
    and "keeps (sv_policy env R i h) (validatePaymasterGasAndDataLimits env req)"
    and "keeps (sv_policy env R i h) (validateViewCallSucceeds env req b g)"
  unfolding validateRequestTxType_def validateInput_def validateMaxNonce_def validatePaymasterReputation_def
    validatePaymasterGasAndDataLimits_def paymaster_limits_def validateViewCallSucceeds_def Let_def
  by (intro keeps_intros keeps_with_hub policy_ci keeps_date_now sv_on_rep policy_pollNonce [OF assms])+

lemma sv_create:
  assumes env: "trusted_env env" and add: "lets_add (ge_tm env) P R" and h: "h = in_relayHub i"
    and P: "\<And>x. allowed env i x \<Longrightarrow> P x"
  shows "keeps (sv_policy env R i h) (createRelayTransaction env req)"
proof (cases "h = Some (rm_relayHubAddress (rtr_metadata req))")
  case True
  have send: "keeps (sv_policy env R i h) (sendTransaction (ge_tm env)
      ((tx_details (workerAddress env) RELAY_CALL (rm_relayHubAddress (rtr_metadata req)) blk)
         \<lparr>sd_method := m, sd_gasLimit := g, sd_maxFeePerGas := f, sd_maxPriorityFeePerGas := p\<rparr>))" for blk m g f p
    using True h by (intro policy_send(1) [OF env add] P) (auto simp: sent_allowed)
  show ?thesis
    unfolding createRelayTransaction_def getNonceGapFilled_def Let_def
    by (intro keeps_intros sv_checks [OF add] policy_ci keeps_date_now sv_on_rep send sv_replenish [OF env add h P])
next
  case False
  have never: "keeps (sv_policy env R i h) (bnd (validateInput env req) k)" for k
    by (rule keeps_never) (rule validateInput_hub [OF _ False])
  show ?thesis
    unfolding createRelayTransaction_def Let_def
    by (rule never keeps_intros sv_checks [OF add] policy_ci keeps_date_now)+
qed

lemma sv_pending: "keeps (sv_policy env R i h) (is_pending env action blk dst)"
  by (rule policy_pending)

lemma sv_balances: "keeps (sv_policy env R i h) (refreshAndCheckBalances env)"
  unfolding refreshAndCheckBalances_def getWorkerBalance_def Let_def
  by (intro keeps_intros policy_refreshBalance policy_ci policy_modify sv_setReady) simp_all

lemma sv_hubEvents: "keeps (sv_policy env R i h) (handlePastHubEvents env es)"
  unfolding handlePastHubEvents_def handleTransactionRejectedByPaymasterEvent_def handleTransactionRelayedEvent_def
  by (intro keeps_intros policy_ci policy_modify sv_on_rep) simp_all

lemma sv_refreshGasFees: "keeps (sv_policy env R i h) (refreshGasFees env)"
  unfolding refreshGasFees_def Let_def
  by (intro keeps_intros policy_ci policy_modify) simp

lemma sv_withdraw:
  assumes env: "trusted_env env" and add: "lets_add (ge_tm env) P R" and P: "\<And>x. allowed env i x \<Longrightarrow> P x"
  shows "keeps (sv_policy env R i h) (withdrawToOwnerIfNeeded env blk)"
  unfolding withdrawToOwnerIfNeeded_def Let_def
  by (intro keeps_intros keeps_with_hub policy_ci policy_hubBalance [OF env add] P)

lemma sv_round:
  fixes env :: "('w, 'db, 'rep, 'e) sv_env_scheme" and db0 :: 'db
  assumes env: "trusted_env env" and h: "h = in_relayHub i"
  defines "R \<equiv> stored_from (ge_tm env) (allowed env i) db0"
  shows "keeps (sv_policy env R i h) (worker_round env blk)" and "keeps (sv_policy env R i h) (intervalHandler env)"
proof -
  have add: "lets_add (ge_tm env) (allowed env i) R" unfolding R_def by (rule lets_add_stored_from)
  note upkeep = sv_upkeep [of env "allowed env i" db0, OF env allowed_same_tx, folded R_def]
  have changes: "keeps (sv_policy env R i h) (handleChanges env blk)" for blk
    unfolding handleChanges_def getAllHubEventsSinceLastScan_def shouldRegisterAgain_def boostStuckPendingTransactions_def
      leave_alerted_def Let_def
    by (intro keeps_intros policy_ci policy_pending policy_handlePastEvents [OF env add] upkeep policy_modify sv_setReady
        sv_hubEvents sv_replenish [OF env add h] sv_balances) (auto split: if_split)
  show "keeps (sv_policy env R i h) (worker_round env blk)" for blk
    unfolding worker_round_def
    by (intro keeps_intros sv_withdraw [OF env add] policy_modify sv_refreshGasFees sv_balances changes) simp_all
  then show "keeps (sv_policy env R i h) (intervalHandler env)"
    unfolding intervalHandler_def checkNewBlock_def finally_eff_def emit_error_def
    by (intro keeps_intros policy_modify policy_ci sv_setReady) simp_all
qed

section \<open>Runs of the server\<close>

text \<open>What can happen to a server that is initialised: a scheduled tick, a request, a ping, start and stop.\<close>

datatype server_event = Tick | Relay RelayTransactionRequest | Ping "string option" | Start | Stop

fun sv_handle ::
  "('w, 'db, 'rep, 'e) sv_env_scheme \<Rightarrow> server_event \<Rightarrow> ('w, 'db, 'rep, 'z) sv_state_scheme \<Rightarrow>
   ('w, 'db, 'rep, 'z) sv_state_scheme" where
  "sv_handle env Tick s = snd (intervalHandler env s)"
| "sv_handle env (Relay req) s = snd (createRelayTransaction env req s)"
| "sv_handle env (Ping paymaster) s = snd (pingHandler env paymaster s)"
| "sv_handle env Start s = snd (sv_start s)"
| "sv_handle env Stop s = snd (sv_stop s)"

definition sv_run ::
  "('w, 'db, 'rep, 'e) sv_env_scheme \<Rightarrow> server_event list \<Rightarrow> ('w, 'db, 'rep, 'z) sv_state_scheme \<Rightarrow>
   ('w, 'db, 'rep, 'z) sv_state_scheme" where
  "sv_run env es s = foldl (\<lambda>t e. sv_handle env e t) s es"

lemma sv_run_policy:
  fixes env :: "('w, 'db, 'rep, 'e) sv_env_scheme" and db0 :: 'db and s :: "('w, 'db, 'rep, 'z) sv_state_scheme"
  assumes env: "trusted_env env" and h: "h = in_relayHub i"
    and s: "sv_policy env (stored_from (ge_tm env) (allowed env i) db0) i h s"
  shows "sv_policy env (stored_from (ge_tm env) (allowed env i) db0) i h (sv_run env es s)"
  using s
proof (induction es arbitrary: s)
  case (Cons e es)
  let ?I = "sv_policy env (stored_from (ge_tm env) (allowed env i) db0) i h :: ('w, 'db, 'rep, 'z) sv_state_scheme \<Rightarrow> bool"
  note add = lets_add_stored_from [of "ge_tm env" "allowed env i" db0]
  have ping: "keeps ?I (pingHandler env p)" for p
    unfolding pingHandler_def by (intro keeps_intros sv_checks [OF add])
  have "keeps ?I sv_start" "keeps ?I sv_stop"
    unfolding sv_start_def sv_stop_def by (intro keeps_intros policy_modify, simp)+
  moreover have "keeps ?I (createRelayTransaction env req)" for req by (rule sv_create [OF env add h])
  moreover note sv_round(2) [OF env h, of db0] ping
  ultimately have "?I (sv_handle env e s)"
    using Cons.prems unfolding keeps_def by (cases e) auto
  then show ?case using Cons.IH by (simp add: sv_run_def)
qed (simp add: sv_run_def)

section \<open>What it takes to be relayed\<close>

text \<open>What the checks of \<open>validateInput\<close> ask of the request and the state.\<close>

definition input_ok ::
  "('w, 'db, 'rep, 'e) sv_env_scheme \<Rightarrow> RelayTransactionRequest \<Rightarrow> ('w, 'db, 'rep, 'z) sv_state_scheme \<Rightarrow> bool" where
  "input_ok env req s \<longleftrightarrow>
     relayHubContract s = Some (rm_relayHubAddress (rtr_metadata req))
     \<and> isSameAddress (toLowerCase (rd_relayWorker (rr_relayData (rtr_relayRequest req)))) (toLowerCase (workerAddress env))
     \<and> validateGasFees (ge_config env) (minMaxPriorityFeePerGas s) (minMaxFeePerGas s) (rtr_relayRequest req) = Inr ()
     \<and> validateWhitelistsAndBlacklists (ge_config env) (rtr_relayRequest req) = Inr ()
     \<and> (\<exists>w. \<not> js_less (js_minus (parseInt (fr_validUntilTime (rr_request (rtr_relayRequest req))))
            (Some (math_round (of_int (sv_now (se_chain env) w) / 1000)))) (Some (sc_requestMinValidSeconds (ge_config env))))"

text \<open>The signed calldata cost covers the one the server computes.\<close>

definition calldata_ok :: "('w, 'db, 'rep, 'e) sv_env_scheme \<Rightarrow> RelayTransactionRequest \<Rightarrow> bool" where
  "calldata_ok env req \<longleftrightarrow>
     (case toBN_string (rd_transactionCalldataGasUsed (rr_relayData (rtr_relayRequest req))) of Inl _ \<Rightarrow> False
      | Inr c \<Rightarrow> calculateCalldataCost (te_interactor (ge_tm env))
          (lib_encodeRelayCall (te_lib (ge_tm env)) (relayCallAbi req (sc_maxAcceptanceBudget (ge_config env)))) \<le> c)"

text \<open>The node can answer the view call with the acceptance of the paymaster.\<close>

definition view_call_ok :: "('w, 'db, 'rep, 'e) sv_env_scheme \<Rightarrow> RelayTransactionRequest \<Rightarrow> bool" where
  "view_call_ok env req \<longleftrightarrow>
     (\<exists>hub budget gas fees w v w'. sv_relayCallPending (se_chain env) hub (relayCallAbi req budget) (workerAddress env) fees gas w
        = (Inr (True, v), w'))"

definition accepts ::
  "('w, 'db, 'rep, 'e) sv_env_scheme \<Rightarrow> RelayTransactionRequest \<Rightarrow> ('w, 'db, 'rep, 'z) sv_state_scheme \<Rightarrow> bool" where
  "accepts env req s \<longleftrightarrow>
     ready s
     \<and> (sv_transactionType s = LEGACY \<longrightarrow>
          rd_maxFeePerGas (rr_relayData (rtr_relayRequest req)) = rd_maxPriorityFeePerGas (rr_relayData (rtr_relayRequest req)))
     \<and> input_ok env req s \<and> calldata_ok env req \<and> view_call_ok env req"

definition unsent :: "('w, 'db, 'rep, 'z) sv_state_scheme \<Rightarrow> ('w, 'db, 'rep, 'z) sv_state_scheme \<Rightarrow> bool" where
  "unsent s t \<longleftrightarrow>
     txdb t = txdb s \<and> ready t = ready s \<and> sv_transactionType t = sv_transactionType s
     \<and> relayHubContract t = relayHubContract s \<and> minMaxPriorityFeePerGas t = minMaxPriorityFeePerGas s
     \<and> minMaxFeePerGas t = minMaxFeePerGas s"

lemma unsent_ci_frame: "ci_frame (unsent s)"
  by (simp add: ci_frame_def unsent_def)

lemma unsent_pollNonce: "unsent s u \<Longrightarrow> wp (pollNonce env a) (\<lambda>_. unsent s) (\<lambda>_. unsent s) u"
proof -
  assume u: "unsent s u"
  have "tm_frame (\<lambda>t. ready t = ready s \<and> sv_transactionType t = sv_transactionType s
     \<and> relayHubContract t = relayHubContract s \<and> minMaxPriorityFeePerGas t = minMaxPriorityFeePerGas s
     \<and> minMaxFeePerGas t = minMaxFeePerGas s)"
    by (simp add: tm_frame_def ci_frame_def)
  note other = keeps_wpD [OF tm_frame_send(2) [OF this], of u env a]
  show ?thesis
    by (rule wp_mono [OF wp_conj [OF pollNonce_wp other]]) (use u in \<open>simp_all add: unsent_def\<close>)
qed

lemma unsent_input:
  assumes u: "unsent s u"
  shows "wp (validateInput env req) (\<lambda>_ t. unsent s t \<and> input_ok env req s) (\<lambda>_. unsent s) u"
proof -
  have eq: "relayHubContract u = relayHubContract s" "minMaxPriorityFeePerGas u = minMaxPriorityFeePerGas s"
    "minMaxFeePerGas u = minMaxFeePerGas s" using u by (simp_all add: unsent_def)
  show ?thesis
    unfolding validateInput_def with_hub_def date_now_def Let_def
    apply (rule wp_gets_step, rule wp_lift_step, rule wp_guard, rule u, rule wp_guard, rule u)
     apply (rule wp_gets_step, rule wp_lift_step, rule wp_lift_step, rule wp_gets_step, rule wp_guard, rule u)
       apply (simp only: wp_ret u input_ok_def eq instance_address_def simp_thms not_not split: option.split_asm)
        apply (metis sum.distinct(1) sum.inject(2) old.unit.exhaust)+
     apply (rule u)+
    done
qed

lemma unsent_limits:
  assumes u: "unsent s u"
  shows "wp (validatePaymasterGasAndDataLimits env req) (\<lambda>_ t. unsent s t \<and> calldata_ok env req) (\<lambda>_. unsent s) u"
proof -
  note ci = ci_frame_ops [OF unsent_ci_frame] ci_frame_world [OF unsent_ci_frame]
  have hub: "keeps (unsent s) (with_hub k)" if "\<And>a. keeps (unsent s) (k a)" for k :: "string \<Rightarrow> (_, 'x) eff"
    unfolding with_hub_def by (intro keeps_intros that)
  have ok: "wp m (\<lambda>_ t. unsent s t \<and> calldata_ok env req) (\<lambda>_. unsent s) u"
    if "calldata_ok env req" and "keeps (unsent s) m" for m :: "(_, int \<times> int) eff"
    by (rule wp_mono [OF keeps_wpD [OF that(2) u]]) (simp_all add: that(1))
  show ?thesis
    unfolding validatePaymasterGasAndDataLimits_def paymaster_limits_def Let_def
    by (rule wp_lift_step, rule wp_guard, rule u, rule ok, force simp: calldata_ok_def, intro keeps_intros hub ci, rule u)
qed

lemma unsent_viewCall:
  assumes u: "unsent s u"
  shows "wp (validateViewCallSucceeds env req b g) (\<lambda>_ t. unsent s t \<and> view_call_ok env req) (\<lambda>_. unsent s) u"
proof -
  have w: "unsent s (u\<lparr>world := w\<rparr>)" for w using u by (simp add: unsent_def)
  have ok: "view_call_ok env req"
    if "sv_relayCallPending (se_chain env) hub (relayCallAbi req b) (workerAddress env) fees g x = (Inr (True, v), y)"
    for hub fees x v y using that unfolding view_call_ok_def by blast
  have call: "wp (on_world (sv_relayCallPending (se_chain env) hub (relayCallAbi req b) (workerAddress env) fees g))
     (\<lambda>r t. unsent s t \<and> (fst r \<longrightarrow> view_call_ok env req)) (\<lambda>_. unsent s) u" for hub fees
    unfolding wp_on_world by (auto simp: wp_def w split: prod.split sum.split dest: ok)
  show ?thesis
    unfolding validateViewCallSucceeds_def with_hub_def Let_def
    apply (rule wp_gets_step, rule wp_lift_step, rule wp_gets_step)
     apply (subst wp_bnd, subst wp_try_catch)
     apply (rule wp_mono [OF call])
      apply (auto simp: wp_simps u split: sum.split)
    done
qed

lemma refused_wp:
  assumes no: "\<not> accepts env req s"
  shows "wp (createRelayTransaction env req) (\<lambda>_ _. False) (\<lambda>_ t. txdb t = txdb s) s"
proof -
  have s: "unsent s s" by (simp add: unsent_def)
  have E: "unsent s t \<Longrightarrow> txdb t = txdb s" for t by (simp add: unsent_def)
  have rep: "keeps (unsent s) (on_rep m)" for m :: "('c, 'x) eff"
    unfolding on_rep_def by (rule keeps_zoom) (simp add: unsent_def)
  have reputation: "keeps (unsent s) (validatePaymasterReputation env p n)" for p n
    unfolding validatePaymasterReputation_def by (intro keeps_intros keeps_date_now rep)
  have nonce: "keeps (unsent s) (validateMaxNonce env n)" for n
    unfolding validateMaxNonce_def by (intro keeps_intros) (simp add: keeps_wp unsent_pollNonce)
  note world = ci_frame_world [OF unsent_ci_frame]
  have "wp (validateRequestTxType req) (\<lambda>_ t. unsent s t \<and> (sv_transactionType s = LEGACY \<longrightarrow>
      rd_maxFeePerGas (rr_relayData (rtr_relayRequest req)) = rd_maxPriorityFeePerGas (rr_relayData (rtr_relayRequest req))))
      (\<lambda>_. unsent s) s"
    unfolding validateRequestTxType_def Let_def by (auto simp: wp_simps s split: prod.split)
  note type = wp_known_step [OF this]
  show ?thesis
    unfolding createRelayTransaction_def Let_def
    apply (rule wp_gets_step, rule wp_guard, rule refl)
    apply (rule type)
     apply (rule wp_gets_step, rule wp_gets_step)
     apply (rule wp_keeps_step [where I = "unsent s"], intro keeps_intros world, assumption)
      apply (rule wp_keeps_step [where I = "unsent s"], rule world, assumption)
       apply (rule wp_known_step [OF unsent_input], assumption)
        apply (rule wp_keeps_step [where I = "unsent s"], rule nonce, assumption)
         apply (rule wp_gets_step)
         apply (rule wp_keeps_step [where I = "unsent s"], intro keeps_intros reputation, assumption)
          apply (rule wp_known_step [OF unsent_limits], assumption)
           apply (subst split_beta)
           apply (rule wp_known_step [OF unsent_viewCall], assumption)
            using no apply (simp add: accepts_def)
           apply (rule E, assumption)+
    done
qed

end
