(* ===== verification/ServerTheorems.thy ===== *)
theory ServerTheorems imports ServerProps begin

text \<open>
  The properties of the relay server: what any history of the server can store, what a request must satisfy to be
  relayed, readiness and its accounting, and when the worker is replenished.
\<close>

section \<open>Histories of the server\<close>

text \<open>Everything in the second store is a transaction of the first, boosted or mined perhaps, or an allowed one.\<close>

definition only_allowed ::
  "('w, 'db, 'e) rg_env_scheme \<Rightarrow> ('w, 'db, 'z) rg_state_scheme \<Rightarrow> ('w, 'db, 'z) rg_state_scheme \<Rightarrow> bool" where
  "only_allowed env s t \<longleftrightarrow>
     tx_inv (te_store (ge_tm env)) (txdb t)
     \<and> (\<forall>k y. slot (te_store (ge_tm env)) (txdb t) k = Some y \<longrightarrow>
          (\<exists>x. slot (te_store (ge_tm env)) (txdb s) k = Some x \<and> same_tx x y) \<or> allowed env (contract_instances s) y)"

definition sv_started :: "('w, 'db, 'rep, 'e) sv_env_scheme \<Rightarrow> ('w, 'db, 'rep, 'z) sv_state_scheme \<Rightarrow> bool" where
  "sv_started env s \<longleftrightarrow>
     tx_inv (te_store (ge_tm env)) (txdb s) \<and> owner_ok env s
     \<and> relayHubContract s = in_relayHub (contract_instances s) \<and> accounted (readinessInfo s)"

lemma sv_run_started:
  fixes env :: "('w, 'db, 'rep, 'e) sv_env_scheme" and s :: "('w, 'db, 'rep, 'z) sv_state_scheme"
  assumes env: "trusted_env env" and s: "sv_started env s"
  shows "only_allowed env s (sv_run env es s) \<and> sv_started env (sv_run env es s)"
proof -
  let ?i = "contract_instances s"
  let ?R = "stored_from (ge_tm env) (allowed env ?i) (txdb s)"
  have "sv_policy env ?R ?i (in_relayHub ?i) s"
    using s stored_from_refl by (auto simp: sv_started_def policy_def)
  from sv_run_policy [OF env refl this, of es] show ?thesis
    by (simp add: policy_def only_allowed_def sv_started_def stored_from_def)
qed

text \<open>
  whatever happens to an initialised server (ticks, relay requests with any content, pings, starts and stops in any
  order, and whatever the node and the contracts answer), its store holds only transactions that were
  there before or are \<open>allowed\<close>: relay calls go from the worker to the hub with no value, value goes only from
  the manager to its worker or to the configured owner, and the owner that is worked for stays unknown, zero or the
  configured one.
\<close>

theorem server_stays_allowed:
  assumes "trusted_env env" and "sv_started env s"
  shows "only_allowed env s (sv_run env es s) \<and> owner_ok env (sv_run env es s)"
  using sv_run_started [OF assms, of es] by (simp add: sv_started_def)

text \<open>
  the statistics never lose time. After any history the ready and the not-ready time that the statistics
  handler reports add up to the uptime it reports.
\<close>

theorem uptime_accounted:
  assumes "trusted_env env" and "sv_started env s"
  shows "case statsHandler now (sv_run env es s) of (info, totalUptime) \<Rightarrow>
     totalReadyTime info + totalNotReadyTime info = totalUptime"
  using sv_run_started [OF assms, of es] by (simp add: sv_started_def accounted_def statsHandler_def Let_def)

section \<open>Requests\<close>

text \<open>
  C10: a request is relayed only if the server \<open>accepts\<close> it: the server is ready, the fees fit the type of the network,
  the request names the hub and the worker of the server, its fees and addresses pass the checks of the
  configuration, it does not expire too soon, the signed calldata cost covers the computed one, and the paymaster
  can accept the view call. Otherwise the call throws and the store of transactions is the one of before.
\<close>

theorem refused_requests_leave_store:
  assumes "\<not> accepts env req s"
  shows "case createRelayTransaction env req s of (Inr _, _) \<Rightarrow> False | (Inl _, t) \<Rightarrow> txdb t = txdb s"
  using refused_wp [OF assms] by (simp add: wp_def)

text \<open>
  fees that are numbers pass exactly when the priority fee is at least the minimum of the server and at most the
  maximal fee, which lies between the minimum and the cap; fees that are not numbers pass whatever the limits are.
\<close>

theorem validateGasFees_spec:
  assumes "parseInt (sc_maxMaxFeePerGas cfg) = Some cap"
  shows "validateGasFees cfg minPriority (Some minFee) req = Inr () \<longleftrightarrow>
     (case (parseInt (rd_maxPriorityFeePerGas (rr_relayData req)), parseInt (rd_maxFeePerGas (rr_relayData req))) of
        (Some priority, Some fee) \<Rightarrow> minPriority \<le> priority \<and> priority \<le> fee \<and> minFee \<le> fee \<and> fee \<le> cap
      | (Some priority, None) \<Rightarrow> minPriority \<le> priority
      | (None, Some fee) \<Rightarrow> minFee \<le> fee \<and> fee \<le> cap
      | (None, None) \<Rightarrow> True)"
  using assms by (auto simp: validateGasFees_def Let_def js_less_def split: option.splits)

section \<open>Rounds\<close>

lemma not_ready_refuses: "\<not> ready t \<Longrightarrow> \<not> accepts env req t"
  by (simp add: accepts_def)

text \<open>
  C37: a failed round of the server is safe when somebody listens to its errors, as the HTTP server does: \<open>intervalHandler\<close> does
  not throw, the next call is scheduled unless the server was stopped, the server is not ready, and every relay request
  is refused and leaves the store as it is. When nobody listens, the error of the round is thrown out of the handler and
  the server stays as ready as the round left it, though the next call is scheduled all the same. A round that
  does not fail is followed by the next one too.
\<close>

theorem failed_round_is_safe:
  "case checkNewBlock env (s\<lparr>pollScheduled := False\<rparr>) of (q, v) \<Rightarrow> case intervalHandler env s of (r, t) \<Rightarrow>
     running t = running v \<and> (pollScheduled t \<longleftrightarrow> running t) \<and> txdb t = txdb v
     \<and> (case q of
          Inr _ \<Rightarrow> r = Inr () \<and> ready t = ready v
        | Inl e \<Rightarrow>
            if errorListener v then
              r = Inr () \<and> \<not> ready t
              \<and> (\<forall>req. case createRelayTransaction env req t of (Inr _, _) \<Rightarrow> False | (Inl _, u) \<Rightarrow> txdb u = txdb t)
            else r = Inl e \<and> ready t = ready v)"
proof -
  have refused: "case createRelayTransaction env req t of (Inr _, _) \<Rightarrow> False | (Inl _, u) \<Rightarrow> txdb u = txdb t"
    if "\<not> ready t" for req and t
    using refused_wp [OF not_ready_refuses [OF that], of env req] by (simp add: wp_def)
  obtain q v where q: "checkNewBlock env (s\<lparr>pollScheduled := False\<rparr>) = (q, v)" by fastforce
  obtain v' where v': "setReadyState env False v = (Inr (), v')" "running v' = running v" "\<not> ready v'" "txdb v' = txdb v"
    by (auto simp: setReadyState_def date_now_def bnd_def ret_def gets_def modify_def when_eff_def Let_def split: if_splits)
  show ?thesis
  proof (cases q)
    case (Inl e)
    show ?thesis
    proof (cases "errorListener v")
      case True
      have "intervalHandler env s = (Inr (), v'\<lparr>pollScheduled := running v'\<rparr>)"
        using q v' True Inl
        by (simp add: intervalHandler_def finally_eff_def emit_error_def bnd_def try_catch_def gets_def ret_def modify_def)
      then show ?thesis using q v' True Inl by (simp add: refused)
    next
      case False
      then show ?thesis
        using q Inl
        by (simp add: intervalHandler_def finally_eff_def emit_error_def bnd_def try_catch_def gets_def raise_def modify_def)
    qed
  next
    case (Inr a)
    then show ?thesis
      using q by (simp add: intervalHandler_def finally_eff_def bnd_def try_catch_def modify_def)
  qed
qed

lemma registered_frame: "tm_frame (isRegistered env)"
  by (simp add: tm_frame_def ci_frame_def isRegistered_def isRegistrationCorrect_def)

lemma registered_balances: "keeps (isRegistered env) (refreshAndCheckBalances env)"
  unfolding refreshAndCheckBalances_def refreshBalance_def getWorkerBalance_def setReadyState_def Let_def
  by (intro keeps_intros keeps_date_now keeps_modify ci_frame_ops [OF tm_frame_ci [OF registered_frame]])
    (simp_all add: isRegistered_def isRegistrationCorrect_def)

lemma registered_rep: "keeps (isRegistered env) (on_rep m)"
  unfolding on_rep_def by (rule keeps_zoom) (simp add: isRegistered_def isRegistrationCorrect_def)

lemma registered_rest:
  "keeps (isRegistered env) (handlePastHubEvents env es)" "keeps (isRegistered env) (replenishServer env blk)"
  "keeps (isRegistered env) (leave_alerted env blk)"
proof -
  note frames = ci_frame_ops [OF tm_frame_ci [OF registered_frame]] ci_frame_world [OF tm_frame_ci [OF registered_frame]]
    tm_frame_modify [OF registered_frame] tm_frame_send [OF registered_frame] ci_frame_contracts [OF tm_frame_ci [OF registered_frame]]

  show "keeps (isRegistered env) (handlePastHubEvents env es)"
    unfolding handlePastHubEvents_def handleTransactionRejectedByPaymasterEvent_def handleTransactionRelayedEvent_def
    by (intro keeps_intros registered_rep frames keeps_modify) (simp_all add: isRegistered_def isRegistrationCorrect_def)
  have bal: "keeps (isRegistered env) (refreshBalance env)"
    unfolding refreshBalance_def
    by (intro keeps_intros frames keeps_modify) (simp add: isRegistered_def isRegistrationCorrect_def)
  show "keeps (isRegistered env) (replenishServer env blk)"
    unfolding replenishServer_def withdrawHubDeposit_def replenishWorker_def with_hub_def send_hash_def is_pending_def
    by (intro keeps_intros frames bal)
  show "keeps (isRegistered env) (leave_alerted env blk)"
    unfolding leave_alerted_def
    by (intro keeps_modify) (simp add: isRegistered_def isRegistrationCorrect_def)
qed

text \<open>
  after a round that handled the changes of the chain the server is ready exactly when it is registered (stake
  sufficient and locked, hub authorised, registered with the configured URL). The balances of the manager and
  the worker have no say in it, although \<open>refreshAndCheckBalances\<close> of the same round has just marked the server not
  ready when they are too low.
\<close>

theorem handleChanges_ready_iff_registered:
  fixes env :: "('a, 'b, 'c, 'd) sv_env_scheme" and s :: "('a, 'b, 'c, 'e) sv_state_scheme"
  shows "case handleChanges env blk s of (Inr _, t) \<Rightarrow> ready t \<longleftrightarrow> isRegistered env t | (Inl _, _) \<Rightarrow> True"
proof -
  have alerted_ready: "wp (leave_alerted env blk) (\<lambda>_ t. ready t \<and> isRegistered env t) (\<lambda>_ _. True) t"
    if "ready t" "isRegistered env t" for t :: "('a, 'b, 'c, 'e) sv_state_scheme"
    using that by (simp add: leave_alerted_def wp_simps isRegistered_def isRegistrationCorrect_def)
  have set_ready: "wp (setReadyState env b) (\<lambda>_ t. (ready t \<longleftrightarrow> b) \<and> isRegistered env t = r) (\<lambda>_ _. True) t"
    if "isRegistered env t = r" for b r and t :: "('a, 'b, 'c, 'e) sv_state_scheme"
    using that by (simp add: setReadyState_def date_now_def wp_simps isRegistered_def isRegistrationCorrect_def Let_def)
  have registered: "wp (bnd (handlePastHubEvents env es) (\<lambda>_. bnd (replenishServer env blk) (\<lambda>h2. bnd (refreshAndCheckBalances env)
      (\<lambda>_. bnd (setReadyState env True) (\<lambda>_. bnd (leave_alerted env blk) (\<lambda>_. ret (h1 @ h2)))))))
      (\<lambda>_ t. ready t \<longleftrightarrow> isRegistered env t) (\<lambda>_ _. True) t"
    if t: "isRegistered env t" for es h1 and t :: "('a, 'b, 'c, 'e) sv_state_scheme"
    by (rule wp_keeps_step [OF registered_rest(1) t], rule wp_keeps_step [OF registered_rest(2)], assumption,
        rule wp_keeps_step [OF registered_balances], assumption, unfold wp_bnd wp_ret)
      (auto intro!: wp_mono [OF set_ready [of _ True]] wp_mono [OF alerted_ready])
  have "wp (handleChanges env blk) (\<lambda>_ t. ready t \<longleftrightarrow> isRegistered env t) (\<lambda>_ _. True) s"
    unfolding handleChanges_def
    apply (rule wp_skip, rule wp_skip, rule wp_gets_step, rule wp_skip, rule wp_skip, rule wp_skip, rule wp_skip)
           apply (rule wp_skip, rule wp_gets_step)
            apply (simp only: wp_if split: if_split, intro conjI impI)
             apply (simp only: wp_bnd, rule wp_mono [OF set_ready [where r = False]], simp, simp add: wp_ret, simp)
            apply (rule registered)
            apply (simp_all only: not_not)
    done
  then show ?thesis by (simp add: wp_def split: prod.splits sum.splits)
qed

section \<open>Replenishing\<close>

text \<open>
  when \<open>replenishServer\<close> can help the worker. When the worker must be replenished and the manager needs nothing
  itself, something is done in the round (a withdrawal from the hub, or the refill, of an unchanged manager
  balance) exactly when the funds above the minimum of the manager, with those on the hub, cover the amount and
  are not equal to it without the hub: in the case of equality neither the withdrawal nor the refill happens.
\<close>

theorem replenish_gap:
  assumes "rp_mustReplenishWorker (plan_replenish cfg eth hub worker withdrawing refilling)"
    and "\<not> rp_mustReplenishManager (plan_replenish cfg eth hub worker withdrawing refilling)" and "0 \<le> hub"
  shows "(rp_mustWithdrawHubDeposit (plan_replenish cfg eth hub worker withdrawing refilling)
       \<or> rp_workerReplenishAmount (plan_replenish cfg eth hub worker withdrawing refilling) < eth - sc_managerMinBalance cfg)
     \<longleftrightarrow> (sc_workerTargetBalance cfg - ar_currentValue worker \<le> hub + eth - sc_managerMinBalance cfg
       \<and> sc_workerTargetBalance cfg - ar_currentValue worker \<noteq> eth - sc_managerMinBalance cfg)"
  using assms by (auto simp: plan_replenish_def Let_def)

section \<open>A server for witnesses\<close>

definition sample_server_chain :: "unit server_chain" where
  "sample_server_chain =
     \<lparr>sv_latestBlock = ret \<lparr>bi_hash = [], bi_number = 50, bi_timestamp = 5000, bk_gasLimit = 30000000, bk_baseFeePerGas = None\<rparr>,
      sv_getGasAndDataLimits = (\<lambda>_. throw ''offline''), sv_calculateCharge = (\<lambda>_ _ _ _. ret 1000),
      sv_relayCallPending = (\<lambda>_ _ _ _ _. ret (True, [])), sv_sleep = (\<lambda>_. ret ()), sv_now = (\<lambda>_. 5000000), sv_random = (\<lambda>_. 0)\<rparr>"

definition sample_sv_env :: "(unit, StoredTransaction list, ReputationEntry list) sv_env" where
  "sample_sv_env = rg_env.extend sample_rg_env
     \<lparr>se_chain = sample_server_chain, se_rep = reputationStoreManager (list_nedb rep_clash), se_repConfig = sample_rep_config,
      se_erc165 = \<lparr>erc_forwarder = [], erc_paymaster = [], erc_penalizer = [], erc_relayRegistrar = [], erc_relayHub = [],
        erc_stakeManager = []\<rparr>, se_version = ''3.0.0''\<rparr>"

definition sample_sv_state :: "(unit, StoredTransaction list, ReputationEntry list) sv_state" where
  "sample_sv_state = rg_state.extend sample_rg_state
     \<lparr>repdb = [], lastScannedBlock = 40, lastRefreshBlock = 0, ready = False, minMaxPriorityFeePerGas = 10,
      minMaxFeePerGas = Some 100, alerted = False, alertedByTransactionBlockTimestamp = 0, sv_initialized = True,
      sv_transactionType = LEGACY, maxGasLimit = 22500000, relayHubContract = None, sv_networkId = 1, sv_chainId = 1,
      trustedPaymasters = [], workerBalanceRequired = newAmountRequired ''Worker'' 5 True ether,
      readinessInfo = \<lparr>runningSince = 1000, currentStateTimestamp = 4000, totalReadyTime = 1200, totalNotReadyTime = 1800,
        totalReadinessChanges = 3\<rparr>, running = True, pollScheduled = True, errorListener = True\<rparr>"

definition sample_request :: "string \<Rightarrow> string \<Rightarrow> RelayTransactionRequest" where
  "sample_request fee priority =
     \<lparr>rtr_relayRequest =
        \<lparr>rr_request = \<lparr>fr_from = ''0x11'', fr_to = ''0x22'', fr_data = ''0x'', fr_value = ''0'', fr_nonce = ''0'', fr_gas = ''50000'',
           fr_validUntilTime = ''9000''\<rparr>,
         rr_relayData = \<lparr>rd_maxFeePerGas = fee, rd_maxPriorityFeePerGas = priority, rd_transactionCalldataGasUsed = ''100000'',
           rd_relayWorker = ''0xcc'', rd_paymaster = ''0x33'', rd_paymasterData = ''0x'', rd_clientId = ''1'', rd_forwarder = ''0x44''\<rparr>\<rparr>,
      rtr_metadata = \<lparr>rm_approvalData = ''0x'', rm_relayHubAddress = ''0xdd'', rm_relayLastKnownNonce = 0, rm_relayMaxNonce = 5,
        rm_signature = ''0x'', rm_maxAcceptanceBudget = ''285252'', rm_domainSeparatorName = ''GSN''\<rparr>\<rparr>"

lemma sample_sv_env_trusted: "trusted_env sample_sv_env"
  using sample_rg_env_trusted by (simp add: trusted_env_def sample_sv_env_def rg_env.defs sample_rg_env_def)

lemma sample_sv_started: "sv_started sample_sv_env sample_sv_state"
  using sample_rg_inv
  by (simp add: sv_started_def sample_sv_env_def sample_sv_state_def owner_ok_def accounted_def rg_env.defs rg_state.defs
      sample_rg_env_def sample_rg_state_def tm_state.defs sample_state_def no_instances_def)

theorem server_stays_allowed_witness:
  "only_allowed sample_sv_env sample_sv_state
      (sv_run sample_sv_env [Ping None, Tick, Relay (sample_request ''100'' ''10''), Stop] sample_sv_state)
   \<and> owner_ok sample_sv_env (sv_run sample_sv_env [Ping None, Tick, Relay (sample_request ''100'' ''10''), Stop] sample_sv_state)"
  by (rule server_stays_allowed [OF sample_sv_env_trusted sample_sv_started])

theorem uptime_accounted_witness:
  "case statsHandler 6000 (sv_run sample_sv_env [Tick, Stop, Start, Tick] sample_sv_state) of (info, totalUptime) \<Rightarrow>
     totalReadyTime info + totalNotReadyTime info = totalUptime"
  by (rule uptime_accounted [OF sample_sv_env_trusted sample_sv_started])

theorem refused_requests_leave_store_witness:
  "case createRelayTransaction sample_sv_env (sample_request ''100'' ''10'') sample_sv_state of
     (Inr _, _) \<Rightarrow> False | (Inl _, t) \<Rightarrow> txdb t = txdb sample_sv_state"
  by (rule refused_requests_leave_store) (simp add: accepts_def sample_sv_state_def rg_state.defs)

lemma sample_numbers: "parseInt ''500000000000'' = Some 500000000000" "parseInt ''100'' = Some 100" "parseInt ''10'' = Some 10"
  by (simp_all add: parseInt_def strip_sign_def has_hex_prefix_def starts_with_def is_space_char_def parse_prefix_def
      digits_val_def digit_val_def)

theorem validateGasFees_spec_witness:
  "validateGasFees serverDefaultConfiguration 11 (Some 90) (rtr_relayRequest (sample_request ''100'' ''10'')) \<noteq> Inr ()
   \<and> validateGasFees serverDefaultConfiguration 10 (Some 90) (rtr_relayRequest (sample_request ''100'' ''10'')) = Inr ()"
  using validateGasFees_spec [of serverDefaultConfiguration 500000000000 11 90 "rtr_relayRequest (sample_request ''100'' ''10'')"]
    validateGasFees_spec [of serverDefaultConfiguration 500000000000 10 90 "rtr_relayRequest (sample_request ''100'' ''10'')"]
  by (simp add: sample_request_def sample_numbers serverDefaultConfiguration_def)

theorem replenish_gap_witness:
  "\<not> rp_mustWithdrawHubDeposit (plan_replenish (serverDefaultConfiguration\<lparr>sc_managerMinBalance := 100, sc_workerTargetBalance := 300\<rparr>)
        200 50 (set_currentValue sample_formats 200 (newAmountRequired ''Worker'' 250 True ether)) False False)
   \<and> \<not> rp_workerReplenishAmount (plan_replenish (serverDefaultConfiguration\<lparr>sc_managerMinBalance := 100, sc_workerTargetBalance := 300\<rparr>)
        200 50 (set_currentValue sample_formats 200 (newAmountRequired ''Worker'' 250 True ether)) False False) < 200 - 100"
  using replenish_gap [of "serverDefaultConfiguration\<lparr>sc_managerMinBalance := 100, sc_workerTargetBalance := 300\<rparr>" 200 50
      "set_currentValue sample_formats 200 (newAmountRequired ''Worker'' 250 True ether)" False False]
  by (simp add: plan_replenish_def Let_def set_currentValue_def newAmountRequired_def isSatisfied_def)

end
