(* ===== verification/PenalizerCache.thy ===== *)
theory PenalizerCache imports GsnUtils Nedb begin

text \<open>
  \<open>TransactionDataCache.ts\<close>, \<open>EtherscanCachedService.ts\<close> and \<open>BlockExplorerInterface.ts\<close> of
  \<open>packages/relay/src/penalizer\<close>: finding the transaction an account has sent with a nonce, in a local cache and then
  page by page at a block explorer. The cache is two Nedb collections; the explorer is an effect on the world.
\<close>

section \<open>Data\<close>

record TransactionData =
  xd_blockNumber :: string
  xd_timeStamp :: string
  xd_hash :: string
  xd_nonce :: string
  xd_blockHash :: string
  xd_transactionIndex :: string
  xd_from :: string
  xd_to :: string
  xd_value :: string
  xd_gas :: string
  xd_gasPrice :: string
  xd_isError :: string
  xd_txreceipt_status :: string
  xd_input :: string
  xd_contractAddress :: string
  xd_cumulativeGasUsed :: string
  xd_gasUsed :: string
  xd_confirmations :: string

text \<open>A result that is missing, or not an array, is \<open>None\<close>.\<close>

record EtherscanResponse =
  er_status :: string
  er_message :: "string option"
  er_result :: "TransactionData list option"

record PagesQueried =
  pq_sender :: string
  pq_page :: int

text \<open>The unique indexes.\<close>

definition data_clash :: "TransactionData \<Rightarrow> TransactionData \<Rightarrow> bool" where
  "data_clash a b \<longleftrightarrow> xd_hash a = xd_hash b"

definition pages_clash :: "PagesQueried \<Rightarrow> PagesQueried \<Rightarrow> bool" where
  "pages_clash a b \<longleftrightarrow> pq_sender a = pq_sender b"

record ('t, 'p) data_stores =
  ds_tx :: "(TransactionData, 't) nedb_ops"
  ds_pages :: "(PagesQueried, 'p) nedb_ops"

record ('w, 't, 'p) explorer_state =
  ex_world :: 'w
  ex_txstore :: 't
  ex_pagesStore :: 'p

section \<open>The cache\<close>

definition insert_page :: "('t, 'p) data_stores \<Rightarrow> PagesQueried \<Rightarrow> (('w, 't, 'p) explorer_state, unit) eff" where
  "insert_page D d =
     bnd (gets (\<lambda>s. ninsert (ds_pages D) d (ex_pagesStore s))) (\<lambda>r.
     bnd (lift_result r) (\<lambda>db. modify (\<lambda>s. s\<lparr>ex_pagesStore := db\<rparr>)))"

definition insert_tx :: "('t, 'p) data_stores \<Rightarrow> TransactionData \<Rightarrow> (('w, 't, 'p) explorer_state, unit) eff" where
  "insert_tx D d =
     bnd (gets (\<lambda>s. ninsert (ds_tx D) d (ex_txstore s))) (\<lambda>r.
     bnd (lift_result r) (\<lambda>db. modify (\<lambda>s. s\<lparr>ex_txstore := db\<rparr>)))"

text \<open>The code changes \<open>from\<close> of the transactions it is given in place.\<close>

definition lower_from :: "TransactionData \<Rightarrow> TransactionData" where
  "lower_from d = d\<lparr>xd_from := toLowerCase (xd_from d)\<rparr>"

definition putTransactions ::
  "('t, 'p) data_stores \<Rightarrow> TransactionData list \<Rightarrow> string \<Rightarrow> int \<Rightarrow> (('w, 't, 'p) explorer_state, unit) eff" where
  "putTransactions D transactions sender page =
     bnd (gets (\<lambda>s. nfindOne (ds_pages D) (\<lambda>d. pq_sender d = sender) (ex_pagesStore s))) (\<lambda>existing.
     bnd (case existing of
            None \<Rightarrow> insert_page D \<lparr>pq_sender = sender, pq_page = page\<rparr>
          | Some e \<Rightarrow>
              if pq_page e \<ge> page then
                throw (''Trying to cache page '' @ int_to_string page @ '' when already have '' @ int_to_string (pq_page e)
                  @ '' pages for sender '' @ sender)
              else ret ()) (\<lambda>_.
     for_each (\<lambda>transaction. insert_tx D (lower_from transaction)) transactions))"

definition getLastPageQueried :: "('t, 'p) data_stores \<Rightarrow> string \<Rightarrow> (('w, 't, 'p) explorer_state, int) eff" where
  "getLastPageQueried D sender =
     gets (\<lambda>s. case nfindOne (ds_pages D) (\<lambda>d. pq_sender d = toLowerCase sender) (ex_pagesStore s) of
       None \<Rightarrow> 0 | Some lastPageQueried \<Rightarrow> pq_page lastPageQueried)"

definition cached_by_nonce ::
  "('t, 'p) data_stores \<Rightarrow> string \<Rightarrow> int \<Rightarrow> (('w, 't, 'p) explorer_state, TransactionData option) eff" where
  "cached_by_nonce D address nonce =
     gets (\<lambda>s. nfindOne (ds_tx D) (\<lambda>d. xd_from d = toLowerCase address \<and> xd_nonce d = int_to_string nonce) (ex_txstore s))"

definition clearAll :: "('t, 'p) data_stores \<Rightarrow> (('w, 't, 'p) explorer_state, unit) eff" where
  "clearAll D = modify (\<lambda>s. s\<lparr>ex_txstore := nremove (ds_tx D) (\<lambda>_. True) (ex_txstore s),
     ex_pagesStore := nremove (ds_pages D) (\<lambda>_. True) (ex_pagesStore s)\<rparr>)"

section \<open>The explorer\<close>

text \<open>One page of the account, ten transactions at most: \<open>axios.get\<close> of address and page.\<close>

record ('w, 't, 'p) explorer =
  xp_url :: string
  xp_stores :: "('t, 'p) data_stores"
  xp_get :: "string \<Rightarrow> int \<Rightarrow> ('w, EtherscanResponse) eff"

definition pageSize :: nat where
  "pageSize = 10"

definition queryCachedTransactions ::
  "('w, 't, 'p) explorer \<Rightarrow> string \<Rightarrow> int \<Rightarrow> (('w, 't, 'p) explorer_state, TransactionData option \<times> int) eff" where
  "queryCachedTransactions X address nonce =
     bnd (cached_by_nonce (xp_stores X) address nonce) (\<lambda>transaction.
     bnd (getLastPageQueried (xp_stores X) address) (\<lambda>lastPageQueried. ret (transaction, lastPageQueried)))"

text \<open>One turn of the loop: the transaction, if it is on the page, and whether there may be more pages.\<close>

definition search_page ::
  "('w, 't, 'p) explorer \<Rightarrow> string \<Rightarrow> int \<Rightarrow> int \<Rightarrow> (('w, 't, 'p) explorer_state, TransactionData option \<times> bool) eff" where
  "search_page X address nonce page =
     bnd (zoom ex_world (\<lambda>w s. s\<lparr>ex_world := w\<rparr>) (xp_get X address page)) (\<lambda>response. case er_result response of
       None \<Rightarrow> throw (''Failed to query '' @ xp_url X @ '': returned '' @ er_status response @ '' ''
         @ (case er_message response of Some m \<Rightarrow> m | None \<Rightarrow> ''undefined''))
     | Some result \<Rightarrow>
         (let outgoingTransactions = filter (\<lambda>it. isSameAddress (xd_from it) address) result
          in bnd (putTransactions (xp_stores X) outgoingTransactions address page) (\<lambda>_.
             ret (find (\<lambda>it. parseInt (xd_nonce it) = Some nonce) (map lower_from outgoingTransactions),
                  pageSize \<le> length result))))"

text \<open>The loop runs as long as the explorer has full pages: \<open>None\<close> when that is for ever.\<close>

partial_function (option) search_pages ::
  "('w, 't, 'p) explorer \<Rightarrow> string \<Rightarrow> int \<Rightarrow> int \<Rightarrow> ('w, 't, 'p) explorer_state \<Rightarrow>
   ((js_error + TransactionData option) \<times> ('w, 't, 'p) explorer_state) option" where
  "search_pages X address nonce page s =
     (case search_page X address nonce page s of
        (Inl e, t) \<Rightarrow> Some (Inl e, t)
      | (Inr r, t) \<Rightarrow>
          (case fst r of Some transaction \<Rightarrow> Some (Inr (Some transaction), t)
           | None \<Rightarrow> if snd r then search_pages X address nonce (page + 1) t else Some (Inr None, t)))"

definition getTransactionByNonce ::
  "('w, 't, 'p) explorer \<Rightarrow> string \<Rightarrow> int \<Rightarrow> ('w, 't, 'p) explorer_state \<Rightarrow>
   ((js_error + TransactionData option) \<times> ('w, 't, 'p) explorer_state) option" where
  "getTransactionByNonce X address nonce s =
     (case queryCachedTransactions X address nonce s of
        (Inl e, t) \<Rightarrow> Some (Inl e, t)
      | (Inr (Some transaction, lastPageQueried), t) \<Rightarrow> Some (Inr (Some transaction), t)
      | (Inr (None, lastPageQueried), t) \<Rightarrow> search_pages X address nonce (lastPageQueried + 1) t)"

section \<open>What the cache keeps\<close>

text \<open>The contract of the two collections; the client of this interface is the cache.\<close>

locale explorer_stores =
  fixes D :: "('t, 'p) data_stores"
  assumes tx_laws: "nedb (ds_tx D) data_clash" and pages_laws: "nedb (ds_pages D) pages_clash"

definition stored :: "('t, 'p) data_stores \<Rightarrow> ('w, 't, 'p) explorer_state \<Rightarrow> TransactionData multiset" where
  "stored D s = docs (ds_tx D) (ex_txstore s)"

definition page_row :: "('t, 'p) data_stores \<Rightarrow> ('w, 't, 'p) explorer_state \<Rightarrow> string \<Rightarrow> int option" where
  "page_row D s a = map_option pq_page (nfindOne (ds_pages D) (\<lambda>d. pq_sender d = a) (ex_pagesStore s))"

context explorer_stores begin

lemma insert_tx_wp:
  fixes s :: "('w, 't, 'p) explorer_state"
  shows "wp (insert_tx D d)
    (\<lambda>_ t. ex_pagesStore t = ex_pagesStore s \<and> stored D t = add_mset d (stored D s)) (\<lambda>_ t. t = s) s"
  using nedb.insert_ok [OF tx_laws, of "ex_txstore s" d] nedb.insert_clash [OF tx_laws, of _ "ex_txstore s" d]
  by (cases "\<forall>e\<in>#docs (ds_tx D) (ex_txstore s). \<not> data_clash e d")
    (force simp: insert_tx_def wp_simps stored_def)+

lemma insert_tx_clash:
  "e \<in># stored D s \<Longrightarrow> xd_hash e = xd_hash d \<Longrightarrow> wp (insert_tx D d) (\<lambda>_ _. False) (\<lambda>_ t. t = s) s"
  using nedb.insert_clash [OF tx_laws, of e "ex_txstore s" d]
  by (auto simp: insert_tx_def wp_simps stored_def data_clash_def split: sum.split)

lemma insert_all_wp:
  fixes s :: "('w, 't, 'p) explorer_state"
  shows "wp (for_each (\<lambda>d. insert_tx D (lower_from d)) ds)
    (\<lambda>_ t. ex_pagesStore t = ex_pagesStore s \<and> stored D t = stored D s + mset (map lower_from ds))
    (\<lambda>_ t. ex_pagesStore t = ex_pagesStore s \<and> stored D s \<subseteq># stored D t) s"
proof (induction ds arbitrary: s)
  case (Cons d ds)
  show ?case
    unfolding for_each.simps wp_bnd
  proof (rule wp_mono [OF insert_tx_wp])
    fix t :: "('w, 't, 'p) explorer_state"
    assume t: "ex_pagesStore t = ex_pagesStore s \<and> stored D t = add_mset (lower_from d) (stored D s)"
    have "stored D s \<subseteq># stored D u" if "add_mset (lower_from d) (stored D s) \<subseteq># stored D u" for u :: "('w, 't, 'p) explorer_state"
      using that by (metis mset_subset_eq_insertD subset_mset.less_imp_le)
    then show "wp (for_each (\<lambda>d. insert_tx D (lower_from d)) ds)
      (\<lambda>_ u. ex_pagesStore u = ex_pagesStore s \<and> stored D u = stored D s + mset (map lower_from (d # ds)))
      (\<lambda>_ u. ex_pagesStore u = ex_pagesStore s \<and> stored D s \<subseteq># stored D u) t"
      using t by (intro wp_mono [OF Cons.IH [of t]]) auto
  qed simp
qed (simp add: wp_ret)

lemma insert_all_clash:
  fixes s :: "('w, 't, 'p) explorer_state"
  assumes "d \<in> set ds" and "e \<in># stored D s" and "xd_hash e = xd_hash d"
  shows "wp (for_each (\<lambda>d. insert_tx D (lower_from d)) ds) (\<lambda>_ _. False) (\<lambda>_ _. True) s"
  using assms(1,2)
proof (induction ds arbitrary: s)
  case (Cons x xs)
  show ?case
  proof (cases "x = d")
    case True
    have "xd_hash e = xd_hash (lower_from x)" using assms(3) True by (simp add: lower_from_def)
    then show ?thesis
      unfolding for_each.simps wp_bnd by (rule wp_mono [OF insert_tx_clash [OF Cons.prems(2)]]) simp_all
  next
    case False
    then show ?thesis
      unfolding for_each.simps wp_bnd using Cons by (intro wp_mono [OF insert_tx_wp]) auto
  qed
qed simp

lemma insert_page_row:
  fixes s :: "('w, 't, 'p) explorer_state"
  assumes "page_row D s a = None"
  shows "wp (insert_page D \<lparr>pq_sender = a, pq_page = p\<rparr>) (\<lambda>_ t. stored D t = stored D s \<and> page_row D t a = Some p) (\<lambda>_ _. False) s"
proof -
  let ?new = "\<lparr>pq_sender = a, pq_page = p\<rparr>"
  have none: "\<forall>e\<in>#docs (ds_pages D) (ex_pagesStore s). pq_sender e \<noteq> a"
    using assms nedb.findOne_eq_None [OF pages_laws] by (auto simp: page_row_def)
  then have "\<forall>e\<in>#docs (ds_pages D) (ex_pagesStore s). \<not> pages_clash e ?new" by (simp add: pages_clash_def)
  then obtain db where db: "ninsert (ds_pages D) ?new (ex_pagesStore s) = Inr db"
      "docs (ds_pages D) db = add_mset ?new (docs (ds_pages D) (ex_pagesStore s))"
    using nedb.insert_ok [OF pages_laws] by blast
  obtain d where d: "nfindOne (ds_pages D) (\<lambda>d. pq_sender d = a) db = Some d"
    using nedb.findOne_eq_None [OF pages_laws, of "\<lambda>d. pq_sender d = a" db] db(2)
    by (cases "nfindOne (ds_pages D) (\<lambda>d. pq_sender d = a) db") auto
  then have "d = ?new" using nedb.findOne_Some [OF pages_laws d] none db(2) by auto
  then show ?thesis using db d by (simp add: insert_page_def wp_simps page_row_def stored_def)
qed

text \<open>The row of an account is written once: a later page never gets into it.\<close>

lemma put_wp:
  fixes s :: "('w, 't, 'p) explorer_state"
  shows "wp (putTransactions D ds a p)
    (\<lambda>_ t. stored D t = stored D s + mset (map lower_from ds)
       \<and> page_row D t a = Some (case page_row D s a of None \<Rightarrow> p | Some q \<Rightarrow> q))
    (\<lambda>_ t. stored D s \<subseteq># stored D t \<and> (case page_row D s a of None \<Rightarrow> True | Some q \<Rightarrow> page_row D t a = Some q)) s"
proof (cases "nfindOne (ds_pages D) (\<lambda>d. pq_sender d = a) (ex_pagesStore s)")
  case None
  then have none: "page_row D s a = None" by (simp add: page_row_def)
  have row: "ex_pagesStore u = ex_pagesStore t \<Longrightarrow> page_row D u a = page_row D t a" for t u :: "('w, 't, 'p) explorer_state"
    by (simp add: page_row_def)
  show ?thesis
    unfolding putTransactions_def wp_bnd wp_gets None option.case none
    by (rule wp_mono [OF insert_page_row [OF none]], rule wp_mono [OF insert_all_wp]) (auto dest: row)
next
  case (Some e)
  then have some: "page_row D s a = Some (pq_page e)" by (simp add: page_row_def)
  have row: "ex_pagesStore u = ex_pagesStore s \<Longrightarrow> page_row D u a = page_row D s a" for u :: "('w, 't, 'p) explorer_state"
    by (simp add: page_row_def)
  show ?thesis
    unfolding putTransactions_def wp_bnd wp_gets Some option.case some
    by (auto simp: wp_simps some intro!: wp_mono [OF insert_all_wp] dest: row)
qed

lemma search_page_row:
  fixes s :: "('w, 't, 'p) explorer_state"
  assumes "search_page X a n p s = (Inr r, t)" and "xp_stores X = D"
  shows "stored D s \<subseteq># stored D t" and "page_row D t a = Some (case page_row D s a of None \<Rightarrow> p | Some q \<Rightarrow> q)"
proof -
  have "wp (search_page X a n p) (\<lambda>_ t. stored D s \<subseteq># stored D t
      \<and> page_row D t a = Some (case page_row D s a of None \<Rightarrow> p | Some q \<Rightarrow> q)) (\<lambda>_ _. True) s"
    unfolding search_page_def wp_bnd wp_zoom Let_def
  proof (rule wp_all)
    fix resp w
    let ?s = "s\<lparr>ex_world := w\<rparr>"
    have same: "stored D ?s = stored D s" "page_row D ?s a = page_row D s a" by (simp_all add: stored_def page_row_def)
    show "wp (case er_result resp of None \<Rightarrow> throw (''Failed to query '' @ xp_url X @ '': returned '' @ er_status resp @ '' ''
           @ (case er_message resp of Some m \<Rightarrow> m | None \<Rightarrow> ''undefined''))
       | Some result \<Rightarrow> bnd (putTransactions (xp_stores X) (filter (\<lambda>it. isSameAddress (xd_from it) a) result) a p)
           (\<lambda>_. ret (find (\<lambda>it. parseInt (xd_nonce it) = Some n) (map lower_from (filter (\<lambda>it. isSameAddress (xd_from it) a) result)),
              pageSize \<le> length result)))
      (\<lambda>_ t. stored D s \<subseteq># stored D t \<and> page_row D t a = Some (case page_row D s a of None \<Rightarrow> p | Some q \<Rightarrow> q)) (\<lambda>_ _. True) ?s"
      using wp_mono [OF put_wp [where s = ?s and a = a and p = p]] assms(2)
      by (cases "er_result resp") (simp_all add: wp_bnd wp_ret wp_throw same wp_mono [OF put_wp])
  qed simp
  then show "stored D s \<subseteq># stored D t" "page_row D t a = Some (case page_row D s a of None \<Rightarrow> p | Some q \<Rightarrow> q)"
    using assms(1) by (simp_all add: wp_def)
qed

lemma search_pages_grow:
  assumes "search_pages X a n p s = Some y" and "xp_stores X = D" and "page_row D s a = Some q"
  shows "case y of (Inr r, t) \<Rightarrow> stored D s \<subseteq># stored D t \<and> page_row D t a = Some q | _ \<Rightarrow> True"
  using assms
proof (induction X a n p s y rule: search_pages.raw_induct [rotated, consumes 1])
  case (1 search X a n p s y)
  note IH = 1(1) and run = 1(2) and X = 1(3,4)
  obtain o1 u where o1: "search_page X a n p s = (o1, u)" by fastforce
  show "case y of (Inr r, t) \<Rightarrow> stored D s \<subseteq># stored D t \<and> page_row D t a = Some q | _ \<Rightarrow> True"
  proof (cases o1)
    case (Inr v)
    have u: "stored D s \<subseteq># stored D u" "page_row D u a = Some q"
      using search_page_row [of X a n p s v u] o1 Inr X by simp_all
    show ?thesis
    proof (cases "fst v = None \<and> snd v")
      case True
      then have "search X a n (p + 1) u = Some y" using run o1 Inr by simp
      from IH [OF this X(1) u(2)] u(1) show ?thesis
        by (auto intro: subset_mset.order_trans split: prod.splits sum.splits)
    next
      case False
      then have "y = (Inr (fst v), u)" using run o1 Inr by (auto split: option.splits)
      then show ?thesis using u by simp
    qed
  qed (use run o1 in auto)
qed

lemma put_clash:
  assumes "page_row D s a = Some q" and "q < p" and "d \<in> set ds" and "e \<in># stored D s" and "xd_hash e = xd_hash d"
  shows "wp (putTransactions D ds a p) (\<lambda>_ _. False) (\<lambda>_ _. True) s"
  using assms insert_all_clash [OF assms(3-5)]
  by (auto simp: putTransactions_def wp_simps page_row_def)

text \<open>A page that is queried: the transactions of the account on it are stored afterwards.\<close>

lemma search_page_stores:
  fixes s :: "('w, 't, 'p) explorer_state"
  assumes get: "xp_get X a p = ret resp" and X: "xp_stores X = D" and ys: "er_result resp = Some ys"
    and d: "d \<in> set ys" "isSameAddress (xd_from d) a"
  shows "wp (search_page X a n p) (\<lambda>r t. lower_from d \<in># stored D t \<and> snd r = (pageSize \<le> length ys)) (\<lambda>_ _. True) s"
    and "page_row D s a = Some q \<Longrightarrow> q < p \<Longrightarrow> e \<in># stored D s \<Longrightarrow> xd_hash e = xd_hash d \<Longrightarrow>
      wp (search_page X a n p) (\<lambda>_ _. False) (\<lambda>_ _. True) s"
proof -
  let ?out = "filter (\<lambda>it. isSameAddress (xd_from it) a) ys"
  have same: "s\<lparr>ex_world := ex_world s\<rparr> = s" by simp
  have ret_wp: "wp (ret x) Q E = Q x" for x :: 'b and Q and E :: "js_error \<Rightarrow> ('w, 't, 'p) explorer_state \<Rightarrow> bool"
    by (simp add: wp_ret fun_eq_iff)
  have eq: "wp (search_page X a n p) Q E s = wp (putTransactions D ?out a p)
      (\<lambda>_ t. Q (find (\<lambda>it. parseInt (xd_nonce it) = Some n) (map lower_from ?out), pageSize \<le> length ys) t) E s" for Q E
    by (simp add: search_page_def get wp_bnd wp_zoom wp_ret ys X Let_def same ret_wp)
  show "wp (search_page X a n p) (\<lambda>r t. lower_from d \<in># stored D t \<and> snd r = (pageSize \<le> length ys)) (\<lambda>_ _. True) s"
    unfolding eq using d by (intro wp_mono [OF put_wp]) auto
  show "wp (search_page X a n p) (\<lambda>_ _. False) (\<lambda>_ _. True) s"
    if "page_row D s a = Some q" "q < p" "e \<in># stored D s" "xd_hash e = xd_hash d"
    unfolding eq using put_clash [OF that(1,2) _ that(3,4), of ?out] d by simp
qed

lemma search_page_full:
  fixes s :: "('w, 't, 'p) explorer_state"
  assumes "xp_get X a p = ret resp" and "er_result resp = Some ys"
  shows "wp (search_page X a n p) (\<lambda>r _. snd r = (pageSize \<le> length ys)) (\<lambda>_ _. True) s"
  by (auto simp: search_page_def assms wp_simps Let_def intro: wp_all)

lemma second_search_fails:
  assumes get: "\<And>p. xp_get X a p = ret (resp p)" and X: "xp_stores X = D" and a: "toLowerCase a = a"
    and fresh: "page_row D s a = None" and run: "getTransactionByNonce X a n s = Some (Inr None, t)"
    and one: "er_result (resp 1) = Some xs" "pageSize \<le> length xs"
    and two: "er_result (resp 2) = Some ys" "d \<in> set ys" "isSameAddress (xd_from d) a"
    and uncached: "fst (cached_by_nonce D a n' t) = Inr None"
  shows "\<exists>e u. getTransactionByNonce X a n' t = Some (Inl e, u)"
proof -
  have cached: "nfindOne (ds_tx D) (\<lambda>d. xd_from d = a \<and> xd_nonce d = int_to_string n) (ex_txstore s) = None"
    "nfindOne (ds_tx D) (\<lambda>d. xd_from d = a \<and> xd_nonce d = int_to_string n') (ex_txstore t) = None"
    using run uncached X a
    by (auto simp: getTransactionByNonce_def queryCachedTransactions_def cached_by_nonce_def getLastPageQueried_def bnd_def
        split: option.splits)
  have first: "search_pages X a n 1 s = Some (Inr None, t)"
    using run cached(1) fresh X a
    by (simp add: getTransactionByNonce_def queryCachedTransactions_def cached_by_nonce_def getLastPageQueried_def bnd_def
        page_row_def)
  obtain r1 u where u: "search_page X a n 1 s = (Inr r1, u)" and more: "search_pages X a n 2 u = Some (Inr None, t)"
  proof -
    obtain o1 u where o1: "search_page X a n 1 s = (o1, u)" by fastforce
    then obtain r1 where r1: "o1 = Inr r1" using first by (subst (asm) search_pages.simps) (auto split: sum.splits)
    have "snd r1" using search_page_full [OF get one(1), of n s] o1 r1 one(2) by (simp add: wp_def)
    then have "search_pages X a n 2 u = Some (Inr None, t)"
      using first o1 r1 by (subst (asm) search_pages.simps) (auto split: option.splits)
    then show ?thesis using that o1 r1 by simp
  qed
  have row1: "page_row D u a = Some 1" using search_page_row [OF u X] fresh by simp
  obtain r2 v where v: "search_page X a n 2 u = (Inr r2, v)" and last: "search_pages X a n 3 v = Some (Inr None, t) \<or> t = v"
    using more by (cases "search_page X a n 2 u"; subst (asm) search_pages.simps) (auto split: sum.splits option.splits if_splits)
  have row2: "page_row D v a = Some 1" using search_page_row [OF v X] row1 by simp
  have "lower_from d \<in># stored D v"
    using search_page_stores(1) [OF get X two, of n u] v by (simp add: wp_def)
  then have dt: "lower_from d \<in># stored D t" and row: "page_row D t a = Some 1"
    using last search_pages_grow [of X a n 3 v "(Inr None, t)" 1] row2 X by (auto dest: mset_subset_eqD)
  have "wp (search_page X a n' 2) (\<lambda>_ _. False) (\<lambda>_ _. True) t"
    by (rule search_page_stores(2) [OF get X two row _ dt]) (simp_all add: lower_from_def)
  then obtain e w where "search_page X a n' 2 t = (Inl e, w)" by (auto simp: wp_def split: prod.splits sum.splits)
  then have "search_pages X a n' 2 t = Some (Inl e, w)" by (subst search_pages.simps) simp
  then show ?thesis
    using cached(2) row X a
    by (auto simp: getTransactionByNonce_def queryCachedTransactions_def cached_by_nonce_def getLastPageQueried_def bnd_def
        page_row_def)
qed

end

interpretation list_explorer: explorer_stores "\<lparr>ds_tx = list_nedb data_clash, ds_pages = list_nedb pages_clash\<rparr>"
  by (rule explorer_stores.intro; simp only: data_stores.select_convs; rule list_nedb_laws; simp add: data_clash_def pages_clash_def)

section \<open>Properties\<close>

lemma search_page_right:
  assumes "search_page X a n p s = (Inr r, t)" and "fst r = Some d"
  shows "isSameAddress (xd_from d) a \<and> parseInt (xd_nonce d) = Some n"
proof -
  have found: "isSameAddress (xd_from d) a \<and> parseInt (xd_nonce d) = Some n"
    if "find (\<lambda>it. parseInt (xd_nonce it) = Some n) (map lower_from (filter (\<lambda>it. isSameAddress (xd_from it) a) ys)) = Some d"
    for ys d
  proof -
    have "d \<in> set (map lower_from (filter (\<lambda>it. isSameAddress (xd_from it) a) ys))" "parseInt (xd_nonce d) = Some n"
      using that by (auto simp only: find_Some_iff nth_mem)
    then show ?thesis by (auto simp: lower_from_def isSameAddress_def)
  qed
  have "wp (search_page X a n p) (\<lambda>r _. \<forall>d. fst r = Some d \<longrightarrow> isSameAddress (xd_from d) a \<and> parseInt (xd_nonce d) = Some n)
      (\<lambda>_ _. True) s"
    unfolding search_page_def wp_bnd Let_def
    apply (rule wp_all)
    subgoal for resp t
      apply (cases "er_result resp"; simp only: option.case wp_throw wp_bnd)
      apply (rule wp_all)
       apply (unfold wp_ret fst_conv, intro allI impI, erule found, rule TrueI)
      done
    apply (rule TrueI)
    done
  then show ?thesis using assms by (simp add: wp_def)
qed

lemma search_pages_right:
  assumes "search_pages X a n p s = Some y"
  shows "case y of (Inr (Some d), t) \<Rightarrow> isSameAddress (xd_from d) a \<and> parseInt (xd_nonce d) = Some n | _ \<Rightarrow> True"
  using assms
proof (induction X a n p s y rule: search_pages.raw_induct [rotated, consumes 1])
  case (1 search X a n p s y)
  obtain o1 u where o1: "search_page X a n p s = (o1, u)" by fastforce
  show ?case
  proof (cases o1)
    case (Inr r)
    show ?thesis
    proof (cases "fst r = None \<and> snd r")
      case True
      then show ?thesis using 1 o1 Inr by simp
    next
      case False
      then have "y = (Inr (fst r), u)" using 1(2) o1 Inr by (auto split: option.splits)
      then show ?thesis using search_page_right [of X a n p s r u] o1 Inr by (simp split: option.split)
    qed
  qed (use 1(2) o1 in auto)
qed

text \<open>
  a transaction that is found, in the cache or at the explorer, is one the account has sent with that nonce.
\<close>

theorem found_transaction_matches:
  assumes "explorer_stores (xp_stores X)" and "getTransactionByNonce X address nonce s = Some (Inr (Some d), t)"
  shows "isSameAddress (xd_from d) address \<and> parseInt (xd_nonce d) = Some nonce"
proof (cases "nfindOne (ds_tx (xp_stores X)) (\<lambda>d. xd_from d = toLowerCase address \<and> xd_nonce d = int_to_string nonce) (ex_txstore s)")
  case None
  then obtain p u where "search_pages X address nonce p u = Some (Inr (Some d), t)"
    using assms(2) by (auto simp: getTransactionByNonce_def queryCachedTransactions_def cached_by_nonce_def
        getLastPageQueried_def bnd_def)
  from search_pages_right [OF this] show ?thesis by simp
next
  case (Some e)
  then have "e = d" using assms(2) by (auto simp: getTransactionByNonce_def queryCachedTransactions_def cached_by_nonce_def
        getLastPageQueried_def bnd_def)
  then show ?thesis
    using nedb.findOne_Some [OF explorer_stores.tx_laws [OF assms(1)] Some] by (auto simp: isSameAddress_def parseInt_int_to_string)
qed

text \<open>
  the search is undone by its own cache. The store of pages keeps the first page of an account for ever, so every
  search after the first one starts at page 2 again, whose transactions are in the cache already: if a search for an
  account the cache did not know has passed page 1 without an answer, and page 2 has a transaction of the account,
  then every later search for a nonce that is not in the cache throws.
\<close>

theorem repeated_search_fails:
  assumes "explorer_stores (xp_stores X)" and "\<And>p. xp_get X a p = ret (resp p)" and "toLowerCase a = a"
    and "page_row (xp_stores X) s a = None" and "getTransactionByNonce X a n s = Some (Inr None, t)"
    and "er_result (resp 1) = Some xs" and "pageSize \<le> length xs"
    and "er_result (resp 2) = Some ys" and "d \<in> set ys" and "isSameAddress (xd_from d) a"
    and "fst (cached_by_nonce (xp_stores X) a n' t) = Inr None"
  shows "\<exists>e u. getTransactionByNonce X a n' t = Some (Inl e, u)"
  using explorer_stores.second_search_fails [OF assms(1,2) refl assms(3-11)] .

definition sample_data :: "string \<Rightarrow> string \<Rightarrow> TransactionData" where
  "sample_data h n = \<lparr>xd_blockNumber = ''5'', xd_timeStamp = [], xd_hash = h, xd_nonce = n, xd_blockHash = [], xd_transactionIndex = [],
     xd_from = ''0xAB'', xd_to = [], xd_value = [], xd_gas = [], xd_gasPrice = [], xd_isError = [], xd_txreceipt_status = [],
     xd_input = [], xd_contractAddress = [], xd_cumulativeGasUsed = [], xd_gasUsed = [], xd_confirmations = []\<rparr>"

definition list_stores :: "(TransactionData list, PagesQueried list) data_stores" where
  "list_stores = \<lparr>ds_tx = list_nedb data_clash, ds_pages = list_nedb pages_clash\<rparr>"

text \<open>An account with two pages: ten transactions of others and its own one of nonce 0.\<close>

definition sample_pages :: "int \<Rightarrow> EtherscanResponse" where
  "sample_pages p = \<lparr>er_status = ''1'', er_message = None,
     er_result = Some (if p = 1 then replicate 10 (sample_data ''0x1'' ''9''\<lparr>xd_from := ''0xee''\<rparr>) else [sample_data ''0x2'' ''0''])\<rparr>"

definition sample_explorer :: "(unit, TransactionData list, PagesQueried list) explorer" where
  "sample_explorer = \<lparr>xp_url = ''https://api'', xp_stores = list_stores, xp_get = (\<lambda>a p. ret (sample_pages p))\<rparr>"

definition empty_explorer :: "(unit, TransactionData list, PagesQueried list) explorer_state" where
  "empty_explorer = \<lparr>ex_world = (), ex_txstore = [], ex_pagesStore = []\<rparr>"

lemma list_stores_ok: "explorer_stores list_stores"
  unfolding list_stores_def by (rule list_explorer.explorer_stores_axioms)

definition searched_once :: "(unit, TransactionData list, PagesQueried list) explorer_state" where
  "searched_once = \<lparr>ex_world = (), ex_txstore = [lower_from (sample_data ''0x2'' ''0'')],
     ex_pagesStore = [\<lparr>pq_sender = ''0xab'', pq_page = 1\<rparr>]\<rparr>"

lemma sample_numbers0: "parseInt ''0'' = Some 0" "parseInt ''9'' = Some 9"
  by code_simp+
lemma small_strings: "int_to_string 0 = ''0''" "int_to_string 2 = ''2''"
  by code_simp+

lemma lowers: "toLowerCase ''0xAB'' = ''0xab''" "toLowerCase ''0xab'' = ''0xab''" "toLowerCase ''0xee'' = ''0xee''"
  by code_simp+

lemmas explorer_run = getTransactionByNonce_def queryCachedTransactions_def cached_by_nonce_def getLastPageQueried_def bnd_def
  search_page_def putTransactions_def insert_page_def insert_tx_def zoom_def sample_explorer_def list_stores_def
lemma search_first_page: "search_page sample_explorer ''0xab'' 1 1 empty_explorer = (Inr (None, True), \<lparr>ex_world = (), ex_txstore = [], ex_pagesStore = [\<lparr>pq_sender = ''0xab'', pq_page = 1\<rparr>]\<rparr>)"
  by (simp add: explorer_run sample_pages_def isSameAddress_def lowers sample_data_def empty_explorer_def pageSize_def list_nedb_def Let_def)
lemma search_second_page: "search_page sample_explorer ''0xab'' 1 2 \<lparr>ex_world = (), ex_txstore = [], ex_pagesStore = [\<lparr>pq_sender = ''0xab'', pq_page = 1\<rparr>]\<rparr> = (Inr (None, False), searched_once)"
  by (simp add: explorer_run sample_pages_def isSameAddress_def lowers sample_data_def searched_once_def pageSize_def list_nedb_def Let_def lower_from_def sample_numbers0)
lemma first_search: "getTransactionByNonce sample_explorer ''0xab'' 1 empty_explorer = Some (Inr None, searched_once)"
  apply (simp add: getTransactionByNonce_def queryCachedTransactions_def cached_by_nonce_def getLastPageQueried_def bnd_def
    sample_explorer_def [THEN arg_cong [where f = xp_stores]] list_stores_def empty_explorer_def [THEN arg_cong [where f = ex_txstore]] empty_explorer_def [THEN arg_cong [where f = ex_pagesStore]])
  apply (subst search_pages.simps, simp add: search_first_page)
  apply (subst search_pages.simps, simp add: search_second_page)
  done

theorem repeated_search_fails_witness:
  "\<exists>e u. getTransactionByNonce sample_explorer ''0xab'' 2 searched_once = Some (Inl e, u)"
proof (rule repeated_search_fails [where resp = sample_pages and s = empty_explorer and n = 1 and d = "sample_data ''0x2'' ''0''"
      and xs = "replicate 10 (sample_data ''0x1'' ''9''\<lparr>xd_from := ''0xee''\<rparr>)" and ys = "[sample_data ''0x2'' ''0'']"])
  show "getTransactionByNonce sample_explorer ''0xab'' 1 empty_explorer = Some (Inr None, searched_once)" by (rule first_search)
  show "fst (cached_by_nonce (xp_stores sample_explorer) ''0xab'' 2 searched_once) = Inr None"
    by (simp add: cached_by_nonce_def sample_explorer_def list_stores_def searched_once_def lower_from_def sample_data_def small_strings)
  show "explorer_stores (xp_stores sample_explorer)" by (simp add: sample_explorer_def list_stores_ok)
qed (simp_all add: sample_explorer_def sample_pages_def pageSize_def lowers page_row_def list_stores_def
    empty_explorer_def isSameAddress_def sample_data_def)

theorem found_transaction_matches_witness:
  "isSameAddress (xd_from (lower_from (sample_data ''0x2'' ''0''))) ''0xAB''
   \<and> parseInt (xd_nonce (lower_from (sample_data ''0x2'' ''0''))) = Some 0"
proof (rule found_transaction_matches [of sample_explorer _ _ searched_once _ searched_once])
  show "getTransactionByNonce sample_explorer ''0xAB'' 0 searched_once = Some (Inr (Some (lower_from (sample_data ''0x2'' ''0''))), searched_once)"
    by (simp add: explorer_run getTransactionByNonce_def searched_once_def lower_from_def sample_data_def lowers small_strings)
qed (simp add: sample_explorer_def list_stores_ok)

text \<open>The last page: an explorer that has finitely many pages of the account.\<close>

definition last_page :: "('w, 't, 'p) explorer \<Rightarrow> string \<Rightarrow> int \<Rightarrow> bool" where
  "last_page X address K \<longleftrightarrow>
     (\<forall>k\<ge>K. \<forall>w. case xp_get X address k w of (Inl _, _) \<Rightarrow> True
        | (Inr r, _) \<Rightarrow> (case er_result r of None \<Rightarrow> True | Some result \<Rightarrow> length result < pageSize))"

lemma last_page_stops:
  assumes "last_page X address K" and "K \<le> page" and "search_page X address nonce page s = (Inr r, t)"
  shows "\<not> snd r"
proof -
  have "wp (xp_get X address page) (\<lambda>resp _. case er_result resp of None \<Rightarrow> True | Some result \<Rightarrow> length result < pageSize)
      (\<lambda>_ _. True) w" for w
    using assms(1,2) by (auto simp: last_page_def wp_def split: prod.splits sum.splits)
  then have "wp (search_page X address nonce page) (\<lambda>r _. \<not> snd r) (\<lambda>_ _. True) s"
    unfolding search_page_def wp_bnd wp_zoom Let_def
    apply (rule wp_mono)
    subgoal for resp w
      apply (cases "er_result resp"; simp only: option.case wp_throw wp_bnd)
      apply (rule wp_all)
       apply (simp_all add: wp_ret)
      done
    apply (rule TrueI)
    done
  then show ?thesis using assms(3) by (simp add: wp_def)
qed

text \<open>
  a search always comes to an end when the explorer does not have full pages of the account for ever.
\<close>

theorem search_ends:
  assumes "last_page X address K"
  shows "getTransactionByNonce X address nonce s \<noteq> None"
proof -
  have pages: "search_pages X address nonce page u \<noteq> None" for page u
  proof (induction "nat (K - page)" arbitrary: page u rule: less_induct)
    case less
    obtain o1 t where o1: "search_page X address nonce page u = (o1, t)" by fastforce
    show ?case
    proof (cases "K \<le> page")
      case True
      then have "\<not> snd r" if "o1 = Inr r" for r
        using last_page_stops [OF assms _ o1 [unfolded that]] by simp
      then show ?thesis using o1
        by (subst search_pages.simps) (cases o1; simp split: option.split)
    next
      case False
      then have "search_pages X address nonce (page + 1) t \<noteq> None" by (intro less) simp
      then show ?thesis using o1 by (subst search_pages.simps) (auto split: sum.split option.split)
    qed
  qed
  then show ?thesis
    by (simp add: getTransactionByNonce_def split: prod.split sum.split option.split)
qed

theorem search_ends_witness: "getTransactionByNonce sample_explorer ''0xab'' 2 empty_explorer \<noteq> None"
  by (rule search_ends [of _ _ 2]) (simp add: last_page_def sample_explorer_def sample_pages_def pageSize_def)

end
