(* ===== verification/Penalizer.thy ===== *)
theory Penalizer imports PenalizerCache TxManagerProps begin

text \<open>
  \<open>packages/relay/src/penalizer/PenalizerService.ts\<close> and \<open>getDataAndSignature\<close> of \<open>packages/common/src/Utils.ts\<close>: a server
  that is told of a misbehaving relay commits to a penalization and carries it out when the commitment is old enough.
  The state extends the one of the transaction manager by the scheduled penalizations. A call of the penalizer contract
  is its ABI encoding. Transactions of \<open>@ethereumjs/tx\<close>, RLP, hashing and random numbers are outside.
\<close>

section \<open>Data\<close>

datatype PenalizationTypes = ILLEGAL_TRANSACTION | REPEATED_NONCE

record DelayedPenalization =
  dp_readyBlockNumber :: "string option"
  dp_type :: PenalizationTypes
  dp_commitHash :: string
  dp_methodArgs :: "string list"

text \<open>A legacy transaction: the fields, and what the library computes of it.\<close>

record eth_tx =
  et_nonce :: int
  et_fees :: tx_fees
  et_gasLimit :: int
  et_to :: "string option"
  et_value :: int
  et_data :: string
  et_v :: "int option"
  et_r :: "int option"
  et_s :: "int option"

text \<open>A transaction as web3 reports it; numbers are decimal strings.\<close>

record Web3CoreTransaction =
  w3_gas :: int
  w3_gasPrice :: string
  w3_to :: "string option"
  w3_input :: string
  w3_nonce :: int
  w3_value :: string
  w3_v :: "int option"
  w3_r :: "int option"
  w3_s :: "int option"

datatype rlp_item = NumItem int | BytesItem string

record ('w, 'db) pn_state = "('w, 'db) tm_state" +
  pn_initialized :: bool
  pn_workerTask :: bool
  scheduledPenalizations :: "DelayedPenalization list"

record ('w, 'db) pn_env =
  pe_tm :: "('w, 'db) tm_env"
  pe_etherscanApiUrl :: string
  pe_chainId :: int
  pe_fromSerializedTx :: "string \<Rightarrow> int \<times> int \<Rightarrow> js_error + eth_tx"
  pe_verifySignature :: "eth_tx \<Rightarrow> bool"
  pe_sender :: "eth_tx \<Rightarrow> js_error + string"
  pe_hash :: "eth_tx \<Rightarrow> string"
  pe_rlp :: "rlp_item list \<Rightarrow> string"
  pe_keccak :: "string \<Rightarrow> string"
  pe_random :: "('w, string) eff"
  pe_encode :: "PenalizationTypes \<Rightarrow> string list \<Rightarrow> string"
  pe_encodeCommit :: "string \<Rightarrow> string"
  pe_viewCall :: "string \<Rightarrow> ('w, unit) eff"
  pe_verifyStaked :: "string \<Rightarrow> string \<Rightarrow> ('w, unit) eff"
  pe_txByNonce :: "string \<Rightarrow> int \<Rightarrow> ('w, TransactionData option) eff"
  pe_getTransaction :: "string \<Rightarrow> ('w, Web3CoreTransaction option) eff"

definition INVALID_SIGNATURE :: string where
  "INVALID_SIGNATURE = ''Transaction does not have a valid signature''"

definition UNKNOWN_WORKER :: string where
  "UNKNOWN_WORKER = ''Transaction is sent by an unknown worker''"

definition UNSTAKED_RELAY :: string where
  "UNSTAKED_RELAY = ''Transaction is sent by an unstaked relay''"

definition MINED_TRANSACTION :: string where
  "MINED_TRANSACTION = ''Transaction is the one mined on the current chain and no conflicting transaction is known to this server''"

definition NONCE_FORWARD :: string where
  "NONCE_FORWARD = ''Transaction nonce is higher then current account nonce and no conflicting transaction is known to this server''"

section \<open>Transactions\<close>

definition createWeb3Transaction :: "Web3CoreTransaction \<Rightarrow> js_error + eth_tx" where
  "createWeb3Transaction transaction =
     (case toBN_string (w3_gasPrice transaction) of Inl e \<Rightarrow> Inl e
      | Inr gasPrice \<Rightarrow>
          map_sum id (\<lambda>value. \<lparr>et_nonce = w3_nonce transaction, et_fees = LegacyFee gasPrice, et_gasLimit = w3_gas transaction,
              et_to = (if w3_to transaction = Some [] then None else w3_to transaction), et_value = value, et_data = w3_input transaction,
              et_v = w3_v transaction, et_r = w3_r transaction, et_s = w3_s transaction\<rparr>)
            (toBN_string (w3_value transaction)))"

definition getDataAndSignature :: "(rlp_item list \<Rightarrow> string) \<Rightarrow> eth_tx \<Rightarrow> int \<Rightarrow> js_error + string \<times> string" where
  "getDataAndSignature rlp tx chainId =
     (case et_to tx of None \<Rightarrow> Inl (Error ''tx.to must be defined'')
      | Some to \<Rightarrow>
          (case (et_v tx, et_r tx, et_s tx) of
             (Some v, Some r, Some s) \<Rightarrow>
               (let fees = (case et_fees tx of LegacyFee gasPrice \<Rightarrow> [NumItem gasPrice]
                      | FeeMarket maxFee maxPriority \<Rightarrow> [NumItem maxPriority, NumItem maxFee]);
                    input = [NumItem (et_nonce tx)] @ fees @ [NumItem (et_gasLimit tx), BytesItem to, NumItem (et_value tx),
                      BytesItem (et_data tx), NumItem chainId, NumItem 0, NumItem 0];
                    vInt = (if v > 28 then v - (chainId * 2 + 8) else v)
                in Inr (''0x'' @ rlp input, signatureRSV2Hex r s vInt))
           | _ \<Rightarrow> Inl (Error ''tx signature must be defined'')))"

definition getPenalizeIllegalTransactionArguments ::
  "('w, 'db) pn_env \<Rightarrow> string \<Rightarrow> eth_tx \<Rightarrow> string \<Rightarrow> js_error + string list" where
  "getPenalizeIllegalTransactionArguments env hub requestTx randomValue =
     map_sum id (\<lambda>(data, signature). [data, signature, hub, randomValue]) (getDataAndSignature (pe_rlp env) requestTx (pe_chainId env))"

definition getPenalizeRepeatedNonceArguments ::
  "('w, 'db) pn_env \<Rightarrow> string \<Rightarrow> eth_tx \<Rightarrow> eth_tx \<Rightarrow> string \<Rightarrow> js_error + string list" where
  "getPenalizeRepeatedNonceArguments env hub minedTx requestTx randomValue =
     (case getDataAndSignature (pe_rlp env) minedTx (pe_chainId env) of Inl e \<Rightarrow> Inl e
      | Inr (unsignedMinedTx, minedTxSig) \<Rightarrow>
          map_sum id (\<lambda>(unsignedRequestTx, requestTxSig).
              [unsignedRequestTx, requestTxSig, unsignedMinedTx, minedTxSig, hub, randomValue])
            (getDataAndSignature (pe_rlp env) requestTx (pe_chainId env)))"

section \<open>Checks\<close>

definition isZeroAddress :: "string \<Rightarrow> bool" where
  "isZeroAddress a \<longleftrightarrow> a = ZERO_ADDRESS"

text \<open>\<open>None\<close> is a valid transaction, \<open>Some\<close> the error.\<close>

definition validateTransaction :: "('w, 'db) pn_env \<Rightarrow> eth_tx \<Rightarrow> (('w, 'db, 'z) tm_state_scheme, string option) eff" where
  "validateTransaction env requestTx =
     (if \<not> pe_verifySignature env requestTx then ret (Some INVALID_SIGNATURE)
      else
        bnd (lift_result (pe_sender env requestTx)) (\<lambda>relayWorker.
        with_instance in_relayHub (\<lambda>hub.
        bnd (on_world (ch_getWorkerManager (te_chain (pe_tm env)) hub relayWorker)) (\<lambda>relayManager.
        if isZeroAddress relayManager then ret (Some UNKNOWN_WORKER)
        else
          try_catch (bnd (on_world (pe_verifyStaked env hub relayManager)) (\<lambda>_. ret None))
            (\<lambda>_. ret (Some UNSTAKED_RELAY))))))"

definition isTransactionMined :: "('w, 'db) pn_env \<Rightarrow> eth_tx \<Rightarrow> (('w, 'db, 'z) tm_state_scheme, bool) eff" where
  "isTransactionMined env requestTx =
     bnd (on_world (pe_getTransaction env (pe_hash env requestTx))) (\<lambda>txFromNode. ret (txFromNode \<noteq> None))"

definition validatePenalization :: "('w, 'db) pn_env \<Rightarrow> string \<Rightarrow> (('w, 'db, 'z) tm_state_scheme, string option) eff" where
  "validatePenalization env method =
     try_catch (bnd (on_world (pe_viewCall env method)) (\<lambda>_. ret None)) (\<lambda>e. ret (Some (error_message e)))"

definition calculateCommitHash :: "('w, 'db) pn_env \<Rightarrow> string \<Rightarrow> string" where
  "calculateCommitHash env msgData =
     (let msgDataHash = ''0x'' @ pe_keccak env (removeHexPrefix msgData)
      in ''0x'' @ pe_keccak env (removeHexPrefix (msgDataHash @ toLowerCase (drop 2 (getAddress (te_managers (pe_tm env)) 0)))))"

section \<open>Sending\<close>

definition pn_broadcastTransaction ::
  "('w, 'db) pn_env \<Rightarrow> string \<Rightarrow> (('w, 'db, 'z) tm_state_scheme, string) eff" where
  "pn_broadcastTransaction env method =
     bnd (getBlockNumber (te_chain (pe_tm env))) (\<lambda>creationBlockNumber.
     bnd (getBlock (te_chain (pe_tm env)) creationBlockNumber) (\<lambda>block.
     with_instance in_penalizer (\<lambda>penalizer.
     bnd (sendTransaction (pe_tm env)
            \<lparr>sd_signer = getAddress (te_managers (pe_tm env)) 0, sd_serverAction = PENALIZATION, sd_method = Some method,
             sd_destination = penalizer, sd_value = None, sd_gasLimit = None, sd_maxFeePerGas = None,
             sd_maxPriorityFeePerGas = None,
             sd_creationBlock = \<lparr>bi_hash = bi_hash block, bi_number = creationBlockNumber, bi_timestamp = bi_timestamp block\<rparr>\<rparr>)
       (\<lambda>details. ret (std_transactionHash details)))))"

definition commitAndScheduleReveal :: "('w, 'db) pn_env \<Rightarrow> DelayedPenalization \<Rightarrow> (('w, 'db) pn_state, string) eff" where
  "commitAndScheduleReveal env delayedPenalization =
     bnd (modify (\<lambda>s. s\<lparr>scheduledPenalizations := scheduledPenalizations s @ [delayedPenalization]\<rparr>)) (\<lambda>_.
     with_instance in_penalizer (\<lambda>_.
     pn_broadcastTransaction env (pe_encodeCommit env (dp_commitHash delayedPenalization))))"

definition executeDelayedPenalization :: "('w, 'db) pn_env \<Rightarrow> DelayedPenalization \<Rightarrow> (('w, 'db) pn_state, string) eff" where
  "executeDelayedPenalization env p =
     with_instance in_penalizer (\<lambda>_. pn_broadcastTransaction env (pe_encode env (dp_type p) (dp_methodArgs p)))"

section \<open>Requests\<close>

text \<open>The end of both kinds of request: the commitment of a penalization.\<close>

definition commit_to ::
  "('w, 'db) pn_env \<Rightarrow> PenalizationTypes \<Rightarrow> string list \<Rightarrow> string \<Rightarrow> (('w, 'db) pn_state, AuditResponse) eff" where
  "commit_to env kind penalizationArguments method =
     bnd (commitAndScheduleReveal env \<lparr>dp_readyBlockNumber = None, dp_type = kind,
            dp_commitHash = calculateCommitHash env method, dp_methodArgs = penalizationArguments\<rparr>) (\<lambda>commitTxHash.
     ret \<lparr>au_commitTxHash = Some commitTxHash, au_message = None\<rparr>)"

definition audit_message :: "string \<Rightarrow> AuditResponse" where
  "audit_message m = \<lparr>au_commitTxHash = None, au_message = Some m\<rparr>"

definition parse_request :: "('w, 'db) pn_env \<Rightarrow> string \<Rightarrow> (('w, 'db, 'z) tm_state_scheme, eth_tx) eff" where
  "parse_request env signedTx =
     bnd getRawTxOptions (\<lambda>rawTxOptions. lift_result (pe_fromSerializedTx env signedTx rawTxOptions))"

text \<open>The arguments of the penalization for a nonce that is used twice, when there is something to penalize.\<close>

definition find_repeated_nonce ::
  "('w, 'db) pn_env \<Rightarrow> eth_tx \<Rightarrow> (('w, 'db, 'z) tm_state_scheme, string + string list) eff" where
  "find_repeated_nonce env requestTx =
     bnd (validateTransaction env requestTx) (\<lambda>invalid. case invalid of
       Some e \<Rightarrow> ret (Inl e)
     | None \<Rightarrow>
         bnd (isTransactionMined env requestTx) (\<lambda>isMinedTx.
         if isMinedTx then ret (Inl MINED_TRANSACTION)
         else
           bnd (lift_result (pe_sender env requestTx)) (\<lambda>relayWorker.
           bnd (getTransactionCount (te_chain (pe_tm env)) relayWorker ''pending'') (\<lambda>currentNonce.
           if 2 ^ 53 \<le> et_nonce requestTx then throw ''Number can only safely store up to 53 bits''
           else if et_nonce requestTx > currentNonce then ret (Inl NONCE_FORWARD)
           else
             bnd (on_world (pe_txByNonce env relayWorker (et_nonce requestTx))) (\<lambda>minedTransactionData. case minedTransactionData of
               None \<Rightarrow> throw (''TxByNonce service failed to fetch tx with nonce '' @ int_to_string (et_nonce requestTx)
                   @ '' of relayer '' @ relayWorker)
             | Some txdata \<Rightarrow>
                 bnd (on_world (pe_getTransaction env (xd_hash txdata))) (\<lambda>minedTx. case minedTx of
                   None \<Rightarrow> throw (''Failed to get transaction '' @ xd_hash txdata @ '' from node'')
                 | Some tx \<Rightarrow>
                     bnd (lift_result (createWeb3Transaction tx)) (\<lambda>minedTxBuffers.
                     bnd (on_world (pe_random env)) (\<lambda>randomValue.
                     with_instance in_relayHub (\<lambda>hub.
                     bnd (lift_result (getPenalizeRepeatedNonceArguments env hub minedTxBuffers requestTx randomValue)) (\<lambda>args.
                     ret (Inr args)))))))))))"

text \<open>The result of the view call is computed, but it is the earlier validation that is looked at again.\<close>

definition penalizeRepeatedNonce :: "('w, 'db) pn_env \<Rightarrow> string \<Rightarrow> (('w, 'db) pn_state, AuditResponse) eff" where
  "penalizeRepeatedNonce env signedTx =
     bnd (gets pn_initialized) (\<lambda>initialized.
     if \<not> initialized then throw ''PenalizerService is not initialized''
     else if pe_etherscanApiUrl env = [] then ret (audit_message ''Etherscan API URL is not set on this server!'')
     else
       bnd (parse_request env signedTx) (\<lambda>requestTx.
       bnd (find_repeated_nonce env requestTx) (\<lambda>found. case found of
         Inl e \<Rightarrow> ret (audit_message e)
       | Inr penalizationArguments \<Rightarrow>
           with_instance in_penalizer (\<lambda>_.
           let method = pe_encode env REPEATED_NONCE penalizationArguments
           in bnd (validatePenalization env method) (\<lambda>_. commit_to env REPEATED_NONCE penalizationArguments method)))))"

definition penalizeIllegalTransaction :: "('w, 'db) pn_env \<Rightarrow> string \<Rightarrow> (('w, 'db) pn_state, AuditResponse) eff" where
  "penalizeIllegalTransaction env signedTx =
     bnd (parse_request env signedTx) (\<lambda>requestTx.
     bnd (validateTransaction env requestTx) (\<lambda>invalid. case invalid of
       Some e \<Rightarrow> ret (audit_message e)
     | None \<Rightarrow>
         bnd (on_world (pe_random env)) (\<lambda>randomValue.
         with_instance in_relayHub (\<lambda>hub.
         bnd (lift_result (getPenalizeIllegalTransactionArguments env hub requestTx randomValue)) (\<lambda>args.
         with_instance in_penalizer (\<lambda>_.
         let method = pe_encode env ILLEGAL_TRANSACTION args
         in bnd (validatePenalization env method) (\<lambda>isInvalid. case isInvalid of
              Some e \<Rightarrow> ret (audit_message e)
            | None \<Rightarrow> commit_to env ILLEGAL_TRANSACTION args method)))))))"

section \<open>The worker\<close>

text \<open>The block number of an event is a decimal string; comparing it with a number converts it.\<close>

definition is_ready :: "int \<Rightarrow> DelayedPenalization \<Rightarrow> bool" where
  "is_ready currentBlockNumber p \<longleftrightarrow>
     (case dp_readyBlockNumber p of None \<Rightarrow> False | Some b \<Rightarrow> js_leq (parseInt b) (Some currentBlockNumber))"

definition confirm :: "event_data list \<Rightarrow> DelayedPenalization \<Rightarrow> DelayedPenalization" where
  "confirm commitments it =
     (if dp_readyBlockNumber it \<noteq> None then it
      else (case find (\<lambda>nmc. ret_val ''commitHash'' nmc = dp_commitHash it) commitments of
              None \<Rightarrow> it | Some c \<Rightarrow> it\<lparr>dp_readyBlockNumber := Some (ret_val ''readyBlockNumber'' c)\<rparr>))"

definition queryReadyBlocksForMinedCommitments :: "('w, 'db) pn_env \<Rightarrow> (('w, 'db) pn_state, unit) eff" where
  "queryReadyBlocksForMinedCommitments env =
     bnd (gets (filter (\<lambda>it. dp_readyBlockNumber it = None) \<circ> scheduledPenalizations)) (\<lambda>unconfirmed.
     when_eff (unconfirmed \<noteq> [])
       (bnd (getPastEventsForPenalizer (te_chain (pe_tm env)) (te_interactor (pe_tm env)) [''CommitAdded'']
              [Topic (address2topic (getAddress (te_managers (pe_tm env)) 0))] (Some (Block 1)) None) (\<lambda>commitments.
        modify (\<lambda>s. s\<lparr>scheduledPenalizations := map (confirm commitments) (scheduledPenalizations s)\<rparr>))))"

text \<open>\<open>splice(indexOf(p), 1)\<close>: an index of -1 stands for the last entry.\<close>

definition splice_out :: "'a \<Rightarrow> 'a list \<Rightarrow> 'a list" where
  "splice_out p xs = (if p \<in> set xs then remove1 p xs else butlast xs)"

fun execute_ready :: "('w, 'db) pn_env \<Rightarrow> DelayedPenalization list \<Rightarrow> (('w, 'db) pn_state, string list) eff" where
  "execute_ready env [] = ret []"
| "execute_ready env (penalization # rest) =
     bnd (modify (\<lambda>s. s\<lparr>scheduledPenalizations := splice_out penalization (scheduledPenalizations s)\<rparr>)) (\<lambda>_.
     bnd (executeDelayedPenalization env penalization) (\<lambda>penalizationTxHash.
     bnd (execute_ready env rest) (\<lambda>executed. ret (penalizationTxHash # executed))))"

definition executeReadyPenalizations :: "('w, 'db) pn_env \<Rightarrow> (('w, 'db) pn_state, string list) eff" where
  "executeReadyPenalizations env =
     bnd (getBlockNumber (te_chain (pe_tm env))) (\<lambda>currentBlockNumber.
     bnd (gets (filter (is_ready currentBlockNumber) \<circ> scheduledPenalizations)) (execute_ready env))"

definition pn_intervalHandler :: "('w, 'db) pn_env \<Rightarrow> (('w, 'db) pn_state, string list) eff" where
  "pn_intervalHandler env =
     bnd (gets scheduledPenalizations) (\<lambda>scheduled.
     if scheduled = [] then ret []
     else bnd (queryReadyBlocksForMinedCommitments env) (\<lambda>_. executeReadyPenalizations env))"

definition pn_init :: "bool \<Rightarrow> (('w, 'db) pn_state, unit) eff" where
  "pn_init startWorker =
     bnd (gets pn_initialized) (\<lambda>initialized.
     if initialized then ret ()
     else modify (\<lambda>s. s\<lparr>pn_workerTask := (startWorker \<or> pn_workerTask s), pn_initialized := True\<rparr>))"

definition pn_stop :: "(('w, 'db) pn_state, unit) eff" where
  "pn_stop = modify (\<lambda>s. s\<lparr>pn_workerTask := False\<rparr>)"

end
