(* ===== verification/PenalizerProps.thy ===== *)
theory PenalizerProps imports Penalizer Frames begin

text \<open>
  Properties of the penalizer: what a request schedules, that a revealed penalization is the one that was committed to,
  that a round carries out the ready penalizations, each by a call of its own.
\<close>

section \<open>Frames\<close>

definition pn_same :: "('w, 'db) pn_state \<Rightarrow> ('w, 'db) pn_state \<Rightarrow> bool" where
  "pn_same s t \<longleftrightarrow> scheduledPenalizations t = scheduledPenalizations s \<and> txdb t = txdb s \<and> nonces t = nonces s"

lemma pn_same_frame: "ci_frame (pn_same s)"
  by (simp add: ci_frame_def pn_same_def)

lemma pn_same_refl [simp]: "pn_same s s"
  by (simp add: pn_same_def)

lemma scheduled_frame: "tm_frame (\<lambda>t. scheduledPenalizations t = ps)"
  by (simp add: tm_frame_def ci_frame_def)

lemmas pn_same_ops = ci_frame_ops [OF pn_same_frame] ci_frame_world [OF pn_same_frame] keeps_with_instance_any keeps_intros

lemma pn_same_parse: "keeps (pn_same s) (parse_request env tx)"
  unfolding parse_request_def getRawTxOptions_def by (intro pn_same_ops)

lemma pn_same_validate: "keeps (pn_same s) (validateTransaction env tx)"
  unfolding validateTransaction_def by (intro pn_same_ops)

lemma pn_same_find: "keeps (pn_same s) (find_repeated_nonce env tx)"
  unfolding find_repeated_nonce_def isTransactionMined_def by (intro pn_same_ops pn_same_validate)

lemma pn_same_view: "keeps (pn_same s) (validatePenalization env m)"
  unfolding validatePenalization_def by (intro pn_same_ops)

lemma scheduled_broadcast: "keeps (\<lambda>t. scheduledPenalizations t = ps) (pn_broadcastTransaction env m)"
  unfolding pn_broadcastTransaction_def
  by (intro keeps_intros keeps_with_instance_any ci_frame_block [OF tm_frame_ci [OF scheduled_frame]]
      ci_frame_ops [OF tm_frame_ci [OF scheduled_frame]] tm_frame_send [OF scheduled_frame])

section \<open>Requests\<close>

text \<open>A penalization that can be revealed: its commitment is the hash of the call that will be made.\<close>

definition committed :: "('w, 'db) pn_env \<Rightarrow> DelayedPenalization \<Rightarrow> bool" where
  "committed env p \<longleftrightarrow> dp_commitHash p = calculateCommitHash env (pe_encode env (dp_type p) (dp_methodArgs p))"

definition one_scheduled ::
  "('w, 'db) pn_env \<Rightarrow> PenalizationTypes \<Rightarrow> ('w, 'db) pn_state \<Rightarrow> ('w, 'db) pn_state \<Rightarrow> bool" where
  "one_scheduled env kind s t \<longleftrightarrow>
     (\<exists>p. scheduledPenalizations t = scheduledPenalizations s @ [p] \<and> dp_type p = kind \<and> dp_readyBlockNumber p = None
        \<and> committed env p)"

definition audited ::
  "('w, 'db) pn_env \<Rightarrow> PenalizationTypes \<Rightarrow> ('w, 'db) pn_state \<Rightarrow> AuditResponse \<Rightarrow> ('w, 'db) pn_state \<Rightarrow> bool" where
  "audited env kind s r t \<longleftrightarrow>
     (case au_commitTxHash r of None \<Rightarrow> pn_same s t \<and> au_message r \<noteq> None | Some _ \<Rightarrow> one_scheduled env kind s t)"

lemma audited_message: "pn_same s t \<Longrightarrow> audited env kind s (audit_message m) t"
  by (simp add: audited_def audit_message_def)

lemma commit_wp:
  assumes "pn_same s u"
  shows "wp (commit_to env kind args (pe_encode env kind args)) (audited env kind s)
    (\<lambda>_ t. pn_same s t \<or> one_scheduled env kind s t) u"
proof -
  let ?p = "\<lparr>dp_readyBlockNumber = None, dp_type = kind, dp_commitHash = calculateCommitHash env (pe_encode env kind args),
    dp_methodArgs = args\<rparr>"
  let ?I = "\<lambda>t. scheduledPenalizations t = scheduledPenalizations s @ [?p]"
  have one: "?I t \<Longrightarrow> one_scheduled env kind s t" for t
    by (auto simp: one_scheduled_def committed_def)
  have "keeps ?I (with_instance in_penalizer (\<lambda>_. pn_broadcastTransaction env m))" for m
    by (intro keeps_with_instance_any scheduled_broadcast)
  note broadcast = keeps_wpD [OF this]
  have start: "?I (u\<lparr>scheduledPenalizations := scheduledPenalizations u @ [?p]\<rparr>)" using assms by (simp add: pn_same_def)
  show ?thesis
    unfolding commit_to_def commitAndScheduleReveal_def
    apply (subst wp_bnd, subst wp_bnd, subst wp_modify)
    apply (rule wp_mono [OF broadcast [OF start]])
     apply (simp add: wp_ret audited_def one)
    apply (rule disjI2, erule one)
    done
qed

lemma repeated_wp:
  "wp (penalizeRepeatedNonce env tx) (audited env REPEATED_NONCE s) (\<lambda>_ t. pn_same s t \<or> one_scheduled env REPEATED_NONCE s t) s"
proof -
  let ?I = "pn_same s"
  show ?thesis
    unfolding penalizeRepeatedNonce_def with_instance_def Let_def
    apply (rule wp_gets_step, rule wp_guard, simp)
    apply (simp only: wp_if if_bool_eq_conj, intro conjI impI)
     apply (simp add: wp_ret audited_message)
    apply (rule wp_keeps_step [where I = "pn_same s"], rule pn_same_parse, rule pn_same_refl)
     apply (rule wp_keeps_step [where I = "pn_same s"], rule pn_same_find, assumption)
    subgoal for a t found u
      apply (cases found; simp only: sum.case)
       apply (simp add: wp_ret audited_message)
      apply (rule wp_gets_step, rule wp_lift_step)
       apply (rule wp_keeps_step [where I = "pn_same s"], rule pn_same_view, assumption)
        apply (erule commit_wp)
       apply simp_all
      done
     apply simp_all
    done
qed

lemma illegal_wp:
  fixes s :: "('a, 'db) pn_state"
  shows "wp (penalizeIllegalTransaction env tx) (audited env ILLEGAL_TRANSACTION s)
    (\<lambda>_ t. pn_same s t \<or> one_scheduled env ILLEGAL_TRANSACTION s t) s"
proof -
  have world: "keeps (pn_same s) (on_world m)" for m :: "('a, string) eff" by (intro pn_same_ops)
  show ?thesis
    unfolding penalizeIllegalTransaction_def with_instance_def Let_def
    apply (rule wp_keeps_step [where I = "pn_same s"], rule pn_same_parse, rule pn_same_refl)
     apply (rule wp_keeps_step [where I = "pn_same s"], rule pn_same_validate, assumption)
    subgoal for a t invalid u
      apply (cases invalid; simp only: option.case)
       apply (rule wp_keeps_step [where I = "pn_same s"], rule world, assumption)
        apply (rule wp_gets_step, rule wp_lift_step, rule wp_lift_step, rule wp_gets_step, rule wp_lift_step)
           apply (rule wp_keeps_step [where I = "pn_same s"], rule pn_same_view, assumption)
      subgoal for b v c d e isInvalid w
        by (cases isInvalid) (simp_all add: wp_ret audited_message commit_wp)
            apply simp_all
      apply (simp add: wp_ret audited_message)
      done
     apply simp_all
    done
qed

section \<open>The worker\<close>

lemma scheduled_execute: "keeps (\<lambda>t. scheduledPenalizations t = ps) (executeDelayedPenalization env p)"
  unfolding executeDelayedPenalization_def by (intro keeps_with_instance_any scheduled_broadcast)

text \<open>The transaction that carries a penalization out: the manager calls the penalizer contract with it.\<close>

definition reveals ::
  "('w, 'db) pn_env \<Rightarrow> instances \<Rightarrow> DelayedPenalization \<Rightarrow> StoredTransaction \<Rightarrow> bool" where
  "reveals env i p x \<longleftrightarrow>
     st_from x = getAddress (te_managers (pe_tm env)) 0 \<and> st_serverAction x = PENALIZATION
     \<and> (case in_penalizer i of None \<Rightarrow> False | Some a \<Rightarrow> isSameAddress (st_to x) a)
     \<and> st_data x = buffer_hex (pe_encode env (dp_type p) (dp_methodArgs p))"

definition manager_slot :: "('w, 'db) pn_env \<Rightarrow> 'db \<Rightarrow> int \<Rightarrow> StoredTransaction option" where
  "manager_slot env db n =
     slot (te_store (pe_tm env)) db \<lparr>ns_nonce = n, ns_signer = toLowerCase (getAddress (te_managers (pe_tm env)) 0)\<rparr>"

definition revealed_at ::
  "('w, 'db) pn_env \<Rightarrow> instances \<Rightarrow> 'db \<Rightarrow> 'db \<Rightarrow> DelayedPenalization \<Rightarrow> int \<Rightarrow> bool" where
  "revealed_at env i db db' p n \<longleftrightarrow>
     manager_slot env db n = None \<and> (case manager_slot env db' n of None \<Rightarrow> False | Some x \<Rightarrow> reveals env i p x)"

text \<open>Between two stores each penalization of a list got a transaction of its own, at a nonce of the manager that was free.\<close>

definition revealed ::
  "('w, 'db) pn_env \<Rightarrow> instances \<Rightarrow> 'db \<Rightarrow> 'db \<Rightarrow> DelayedPenalization list \<Rightarrow> bool" where
  "revealed env i db db' ps \<longleftrightarrow> (\<exists>ns. distinct ns \<and> list_all2 (revealed_at env i db db') ps ns)"







lemma revealed_Nil [simp]: "revealed env i db db' []"
  by (auto simp: revealed_def intro: exI [of _ "[]"])



lemma splice_out_ready: "set (splice_out p xs) \<subseteq> set xs"
  by (auto simp: splice_out_def dest: in_set_butlastD notin_set_remove1 set_remove1_subset [THEN subsetD])



section \<open>Requests and rounds over time\<close>

text \<open>
  The server answers requests and runs its worker in some order; both catch what is thrown, so that the state the
  operation left is the state the next one starts in.
\<close>

datatype pn_event = RepeatedNonceRequest string | IllegalTransactionRequest string | WorkerRound

fun pn_step :: "('w, 'db) pn_env \<Rightarrow> pn_event \<Rightarrow> ('w, 'db) pn_state \<Rightarrow> ('w, 'db) pn_state" where
  "pn_step env (RepeatedNonceRequest tx) s = snd (penalizeRepeatedNonce env tx s)"
| "pn_step env (IllegalTransactionRequest tx) s = snd (penalizeIllegalTransaction env tx s)"
| "pn_step env WorkerRound s = snd (pn_intervalHandler env s)"

definition pn_run :: "('w, 'db) pn_env \<Rightarrow> pn_event list \<Rightarrow> ('w, 'db) pn_state \<Rightarrow> ('w, 'db) pn_state" where
  "pn_run env = fold (pn_step env)"

definition all_committed :: "('w, 'db) pn_env \<Rightarrow> ('w, 'db) pn_state \<Rightarrow> bool" where
  "all_committed env s \<longleftrightarrow> list_all (committed env) (scheduledPenalizations s)"

lemma wp_snd: "wp m Q E s \<Longrightarrow> (\<And>a t. Q a t \<Longrightarrow> P t) \<Longrightarrow> (\<And>e t. E e t \<Longrightarrow> P t) \<Longrightarrow> P (snd (m s))"
  by (auto simp: wp_def split: prod.splits sum.splits)

lemma committed_confirm [simp]: "committed env (confirm cs p) = committed env p"
  by (simp add: committed_def confirm_def split: option.split)

lemma all_committed_same: "pn_same s t \<Longrightarrow> all_committed env s \<Longrightarrow> all_committed env t"
  by (simp add: all_committed_def pn_same_def)

lemma all_committed_one: "one_scheduled env k s t \<Longrightarrow> all_committed env s \<Longrightarrow> all_committed env t"
  by (auto simp: all_committed_def one_scheduled_def)

lemma all_committed_audited: "audited env k s r t \<Longrightarrow> all_committed env s \<Longrightarrow> all_committed env t"
  by (auto simp: audited_def split: option.splits intro: all_committed_same all_committed_one)

lemma all_committed_subset:
  "set (scheduledPenalizations t) \<subseteq> set (scheduledPenalizations s) \<Longrightarrow> all_committed env s \<Longrightarrow> all_committed env t"
  by (auto simp: all_committed_def list_all_iff)

lemma all_committed_execute: "keeps (all_committed env) (execute_ready env ps)"
proof (induction ps)
  case (Cons p ps)
  have one: "keeps (all_committed env) (executeDelayedPenalization env p)"
  proof (rule keepsI)
    fix s assume "all_committed env s"
    then show "wp (executeDelayedPenalization env p) (\<lambda>_. all_committed env) (\<lambda>_. all_committed env) s"
      by (intro wp_mono [OF keeps_wpD [OF scheduled_execute [of "scheduledPenalizations s"] refl]]) (simp_all add: all_committed_def)
  qed
  have removed: "all_committed env (s\<lparr>scheduledPenalizations := splice_out p (scheduledPenalizations s)\<rparr>)" if "all_committed env s" for s
    by (rule all_committed_subset [OF _ that]) (simp add: splice_out_ready)
  show ?case
    unfolding execute_ready.simps by (intro keeps_intros keeps_modify removed one Cons.IH)
qed (simp add: keeps_ret del: ret_apply)

lemma all_committed_query: "keeps (all_committed env) (queryReadyBlocksForMinedCommitments env)"
proof -
  have frame: "ci_frame (all_committed env)" by (simp add: ci_frame_def all_committed_def)
  have confirmed: "all_committed env (s\<lparr>scheduledPenalizations := map (confirm cs) (scheduledPenalizations s)\<rparr>)"
    if "all_committed env s" for cs s
    using that by (simp add: all_committed_def list.pred_map o_def)
  show ?thesis
    unfolding queryReadyBlocksForMinedCommitments_def getPastEventsForPenalizer_def
    by (intro keeps_intros keeps_with_instance_any ci_frame_events [OF frame] keeps_modify confirmed)
qed

lemma all_committed_handler: "keeps (all_committed env) (pn_intervalHandler env)"
proof -
  have frame: "ci_frame (all_committed env)" by (simp add: ci_frame_def all_committed_def)
  have "keeps (all_committed env) (executeReadyPenalizations env)"
    unfolding executeReadyPenalizations_def by (intro keeps_intros ci_frame_block [OF frame] all_committed_execute)
  then show ?thesis
    unfolding pn_intervalHandler_def by (intro keeps_intros all_committed_query)
qed

lemma all_committed_step: "all_committed env s \<Longrightarrow> all_committed env (pn_step env e s)"
proof (cases e)
  case (RepeatedNonceRequest tx)
  moreover assume "all_committed env s"
  ultimately show ?thesis
    by simp (rule wp_snd [OF repeated_wp], auto intro: all_committed_same all_committed_one all_committed_audited)
next
  case (IllegalTransactionRequest tx)
  moreover assume "all_committed env s"
  ultimately show ?thesis
    by simp (rule wp_snd [OF illegal_wp], auto intro: all_committed_same all_committed_one all_committed_audited)
next
  case WorkerRound
  moreover assume "all_committed env s"
  ultimately show ?thesis using all_committed_handler [of env] by (simp add: keeps_def)
qed

lemma all_committed_run: "all_committed env s \<Longrightarrow> all_committed env (pn_run env es s)"
  unfolding pn_run_def by (induction es arbitrary: s) (simp_all add: all_committed_step)

section \<open>Properties\<close>

text \<open>C28: an audit either answers with a message, and then nothing was scheduled and no transaction was stored or signed, or
  with the hash of a commit transaction, and then exactly one penalization of the requested kind was put at the end
  of the schedule, not yet confirmed, and committed by the hash of the very call that will carry it out. When the
  request throws, at most that one penalization was scheduled.\<close>

theorem audit_requests:
  "(case penalizeRepeatedNonce env tx s of
      (Inr r, t) \<Rightarrow> audited env REPEATED_NONCE s r t
    | (Inl _, t) \<Rightarrow> pn_same s t \<or> one_scheduled env REPEATED_NONCE s t) \<and>
   (case penalizeIllegalTransaction env tx s of
      (Inr r, t) \<Rightarrow> audited env ILLEGAL_TRANSACTION s r t
    | (Inl _, t) \<Rightarrow> pn_same s t \<or> one_scheduled env ILLEGAL_TRANSACTION s t)"
  using repeated_wp [of env tx s] illegal_wp [of env tx s] by (simp add: wp_def split: prod.splits sum.splits)

text \<open>whatever requests arrive and whenever the worker runs, every scheduled penalization is the one it was committed
  as: its commitment is the hash of the encoded call its kind and arguments will make.\<close>

theorem reveals_match_commitments:
  "all_committed env (pn_run env events (s\<lparr>scheduledPenalizations := []\<rparr>))"
  by (rule all_committed_run) (simp add: all_committed_def)







lemma validate_throwing:
  "validatePenalization (env\<lparr>pe_viewCall := \<lambda>_. throw m\<rparr>) c = ret (Some m)"
  "validatePenalization (env\<lparr>pe_viewCall := \<lambda>_. ret ()\<rparr>) c = ret None"
  unfolding validatePenalization_def
  by (auto simp: fun_eq_iff on_world_def zoom_def throw_def raise_def ret_def bnd_def try_catch_def)

text \<open>the view call that tells whether the penalizer contract would accept the evidence has no influence on a
  penalization for a repeated nonce: a call that always fails leads to the same answer, the same state and the same
  commit transaction as one that always succeeds.\<close>

theorem repeated_nonce_view_call_ignored:
  fixes env :: "('a, 'b) pn_env"
  shows "penalizeRepeatedNonce (env\<lparr>pe_viewCall := \<lambda>_. throw m\<rparr>) tx s
     = penalizeRepeatedNonce (env\<lparr>pe_viewCall := \<lambda>_. ret ()\<rparr>) tx s"
proof -
  let ?e = "env\<lparr>pe_viewCall := \<lambda>_. throw m\<rparr>" and ?f = "env\<lparr>pe_viewCall := \<lambda>_. ret ()\<rparr>"
  have "parse_request ?e = (parse_request ?f :: _ \<Rightarrow> (('a, 'b) pn_state, _) eff)"
    by (simp add: parse_request_def fun_eq_iff)
  moreover have "find_repeated_nonce ?e = (find_repeated_nonce ?f :: _ \<Rightarrow> (('a, 'b) pn_state, _) eff)"
    by (simp add: find_repeated_nonce_def validateTransaction_def isTransactionMined_def getPenalizeRepeatedNonceArguments_def
        fun_eq_iff cong: option.case_cong if_cong sum.case_cong)
  moreover have "commit_to ?e = commit_to ?f"
    by (simp add: commit_to_def commitAndScheduleReveal_def calculateCommitHash_def pn_broadcastTransaction_def fun_eq_iff)
  ultimately show ?thesis
    by (simp add: penalizeRepeatedNonce_def validate_throwing cong: if_cong sum.case_cong)
qed

end
