(* ===== verification/HttpServer.thy ===== *)
theory HttpServer imports ServerRounds PenalizerProps begin

text \<open>
  \<open>packages/relay/src/HttpServer.ts\<close>: the HTTP interface of a relay server and a penalizer, and the shapes of requests
  it accepts (\<open>RelayTransactionRequest.ts\<close>, \<open>AuditRequest.ts\<close> in \<open>packages/common/src/types\<close>). The two services share
  one contract interactor and one transaction manager, so the penalizer runs on a view of the state of the server.
  A handler returns the one response it sends; the routing of express and the text of an error of \<open>ow\<close> are outside.
\<close>

section \<open>Shapes\<close>

datatype shape = StringShape | NumberShape | ObjectShape "(string \<times> shape) list"

text \<open>\<open>exactShape\<close>: every key of the shape is there with its shape, and no other key.\<close>

fun has_shape :: "shape \<Rightarrow> js_val \<Rightarrow> bool"
  and has_fields :: "(string \<times> shape) list \<Rightarrow> (string \<times> js_val) list \<Rightarrow> bool" where
  "has_shape StringShape v = (case v of JStr _ \<Rightarrow> True | _ \<Rightarrow> False)"
| "has_shape NumberShape v = (case v of JNum _ \<Rightarrow> True | _ \<Rightarrow> False)"
| "has_shape (ObjectShape ss) v =
     (case v of JObj fs \<Rightarrow> has_fields ss fs \<and> list_all (\<lambda>(k, _). map_of ss k \<noteq> None) fs | _ \<Rightarrow> False)"
| "has_fields [] fs = True"
| "has_fields ((k, sh) # ss) fs =
     ((case map_of fs k of None \<Rightarrow> False | Some v \<Rightarrow> has_shape sh v) \<and> has_fields ss fs)"

definition string_fields :: "string list \<Rightarrow> (string \<times> shape) list" where
  "string_fields = map (\<lambda>k. (k, StringShape))"

definition RelayTransactionRequestShape :: shape where
  "RelayTransactionRequestShape = ObjectShape
     [(''relayRequest'', ObjectShape
        [(''request'', ObjectShape (string_fields
           [''from'', ''to'', ''data'', ''value'', ''nonce'', ''gas'', ''validUntilTime''])),
         (''relayData'', ObjectShape (string_fields
           [''maxPriorityFeePerGas'', ''maxFeePerGas'', ''transactionCalldataGasUsed'', ''relayWorker'', ''paymaster'',
            ''paymasterData'', ''clientId'', ''forwarder'']))]),
      (''metadata'', ObjectShape
        [(''domainSeparatorName'', StringShape), (''relayLastKnownNonce'', NumberShape), (''approvalData'', StringShape),
         (''relayHubAddress'', StringShape), (''relayMaxNonce'', NumberShape), (''signature'', StringShape),
         (''maxAcceptanceBudget'', StringShape)])]"

definition AuditRequestShape :: shape where
  "AuditRequestShape = ObjectShape [(''signedTx'', StringShape)]"

text \<open>A body of the right shape is used at its type: these are its properties.\<close>

definition prop_of :: "js_val \<Rightarrow> string \<Rightarrow> js_val" where
  "prop_of v k = (case v of JObj fs \<Rightarrow> (case map_of fs k of Some w \<Rightarrow> w | None \<Rightarrow> JNull) | _ \<Rightarrow> JNull)"

definition str_of :: "js_val \<Rightarrow> string \<Rightarrow> string" where
  "str_of v k = (case prop_of v k of JStr s \<Rightarrow> s | _ \<Rightarrow> [])"

definition int_of :: "js_val \<Rightarrow> string \<Rightarrow> int" where
  "int_of v k = (case prop_of v k of JNum n \<Rightarrow> n | _ \<Rightarrow> 0)"

definition as_RelayTransactionRequest :: "js_val \<Rightarrow> RelayTransactionRequest" where
  "as_RelayTransactionRequest body =
     (let relayRequest = prop_of body ''relayRequest''; request = prop_of relayRequest ''request'';
          relayData = prop_of relayRequest ''relayData''; metadata = prop_of body ''metadata''
      in \<lparr>rtr_relayRequest = \<lparr>
            rr_request = \<lparr>fr_from = str_of request ''from'', fr_to = str_of request ''to'', fr_data = str_of request ''data'',
              fr_value = str_of request ''value'', fr_nonce = str_of request ''nonce'', fr_gas = str_of request ''gas'',
              fr_validUntilTime = str_of request ''validUntilTime''\<rparr>,
            rr_relayData = \<lparr>rd_maxFeePerGas = str_of relayData ''maxFeePerGas'',
              rd_maxPriorityFeePerGas = str_of relayData ''maxPriorityFeePerGas'',
              rd_transactionCalldataGasUsed = str_of relayData ''transactionCalldataGasUsed'',
              rd_relayWorker = str_of relayData ''relayWorker'', rd_paymaster = str_of relayData ''paymaster'',
              rd_paymasterData = str_of relayData ''paymasterData'', rd_clientId = str_of relayData ''clientId'',
              rd_forwarder = str_of relayData ''forwarder''\<rparr>\<rparr>,
          rtr_metadata = \<lparr>rm_approvalData = str_of metadata ''approvalData'', rm_relayHubAddress = str_of metadata ''relayHubAddress'',
            rm_relayLastKnownNonce = int_of metadata ''relayLastKnownNonce'', rm_relayMaxNonce = int_of metadata ''relayMaxNonce'',
            rm_signature = str_of metadata ''signature'', rm_maxAcceptanceBudget = str_of metadata ''maxAcceptanceBudget'',
            rm_domainSeparatorName = str_of metadata ''domainSeparatorName''\<rparr>\<rparr>)"

section \<open>State\<close>

record ('w, 'db, 'rep) node_state =
  nd_server :: "('w, 'db, 'rep) sv_state"
  nd_penalizerInitialized :: bool
  nd_penalizerWorker :: bool
  nd_scheduled :: "DelayedPenalization list"
  nd_listening :: bool

record ('w, 'db, 'rep) http_env =
  ho_relayService :: "('w, 'db, 'rep) sv_env option"
  ho_penalizerService :: "('w, 'db) pn_env option"
  ho_shapeError :: "shape \<Rightarrow> js_val \<Rightarrow> string"

definition pn_view :: "('w, 'db, 'rep) node_state \<Rightarrow> ('w, 'db) pn_state" where
  "pn_view s = tm_state.extend (tm_state.truncate (nd_server s))
     (pn_state.fields (nd_penalizerInitialized s) (nd_penalizerWorker s) (nd_scheduled s))"

definition pn_update :: "('w, 'db) pn_state \<Rightarrow> ('w, 'db, 'rep) node_state \<Rightarrow> ('w, 'db, 'rep) node_state" where
  "pn_update p s = s\<lparr>nd_server := tm_state.extend (tm_state.truncate p) (tm_state.more (nd_server s)),
     nd_penalizerInitialized := pn_initialized p, nd_penalizerWorker := pn_workerTask p,
     nd_scheduled := scheduledPenalizations p\<rparr>"

definition on_server :: "(('w, 'db, 'rep) sv_state, 'a) eff \<Rightarrow> (('w, 'db, 'rep) node_state, 'a) eff" where
  "on_server m = zoom nd_server (\<lambda>t s. s\<lparr>nd_server := t\<rparr>) m"

definition on_penalizer :: "(('w, 'db) pn_state, 'a) eff \<Rightarrow> (('w, 'db, 'rep) node_state, 'a) eff" where
  "on_penalizer m = zoom pn_view pn_update m"

section \<open>Handlers\<close>

datatype http_response =
    PingReply PingResponse | StatsReply ReadinessInfo int | RelayReply string "(int \<times> string) list"
  | AuditReply "string option" string | MessageReply string | ErrorReply string

definition check_shape :: "('w, 'db, 'rep) http_env \<Rightarrow> shape \<Rightarrow> js_val \<Rightarrow> js_error + unit" where
  "check_shape env sh body = (if has_shape sh body then Inr () else Inl (Error (ho_shapeError env sh body)))"

definition http_pingHandler ::
  "('w, 'db, 'rep) http_env \<Rightarrow> js_val \<Rightarrow> (('w, 'db, 'rep) node_state, http_response) eff" where
  "http_pingHandler env query =
     (case ho_relayService env of None \<Rightarrow> throw ''RelayServer not initialized''
      | Some relayService \<Rightarrow>
          (let ping = (\<lambda>paymaster. try_catch
             (bnd (on_server (pingHandler relayService paymaster)) (\<lambda>pingResponse. ret (PingReply pingResponse)))
             (\<lambda>e. ret (MessageReply (error_message e))))
           in case prop_of query ''paymaster'' of
                JNull \<Rightarrow> ping None
              | JStr paymaster \<Rightarrow> ping (Some paymaster)
              | _ \<Rightarrow> throw ''Paymaster address is not a valid string''))"

definition http_statsHandler :: "('w, 'db, 'rep) http_env \<Rightarrow> (('w, 'db, 'rep) node_state, http_response) eff" where
  "http_statsHandler env =
     (case ho_relayService env of None \<Rightarrow> throw ''RelayServer not initialized''
      | Some relayService \<Rightarrow>
          bnd (on_server (date_now relayService)) (\<lambda>now.
          bnd (on_server (gets (statsHandler now))) (\<lambda>(info, totalUptime). ret (StatsReply info totalUptime))))"

definition relayHandler ::
  "('w, 'db, 'rep) http_env \<Rightarrow> js_val \<Rightarrow> (('w, 'db, 'rep) node_state, http_response) eff" where
  "relayHandler env body =
     (case ho_relayService env of None \<Rightarrow> throw ''RelayServer not initialized''
      | Some relayService \<Rightarrow>
          try_catch
            (bnd (lift_result (check_shape env RelayTransactionRequestShape body)) (\<lambda>_.
             bnd (on_server (createRelayTransaction relayService (as_RelayTransactionRequest body))) (\<lambda>(signedTx, nonceGapFilled).
             ret (RelayReply signedTx nonceGapFilled))))
            (\<lambda>e. ret (ErrorReply (error_message e))))"

definition message_or_empty :: "AuditResponse \<Rightarrow> string" where
  "message_or_empty r = (case au_message r of Some m \<Rightarrow> m | None \<Rightarrow> [])"

definition auditHandler ::
  "('w, 'db, 'rep) http_env \<Rightarrow> js_val \<Rightarrow> (('w, 'db, 'rep) node_state, http_response) eff" where
  "auditHandler env body =
     (case ho_penalizerService env of None \<Rightarrow> throw ''PenalizerService not initialized''
      | Some penalizerService \<Rightarrow>
          try_catch
            (bnd (lift_result (check_shape env AuditRequestShape body)) (\<lambda>_.
             let signedTx = str_of body ''signedTx'' in
             bnd (on_penalizer (penalizeRepeatedNonce penalizerService signedTx)) (\<lambda>first.
             if au_commitTxHash first = None then
               bnd (on_penalizer (penalizeIllegalTransaction penalizerService signedTx)) (\<lambda>second.
               ret (AuditReply (au_commitTxHash second) (message_or_empty first @ message_or_empty second)))
             else ret (AuditReply (au_commitTxHash first) (message_or_empty first)))))
            (\<lambda>e. ret (MessageReply (error_message e))))"

section \<open>Life cycle\<close>

text \<open>Its constructor makes the HTTP server listen to the errors of the relay service.\<close>

definition newHttpServer :: "('w, 'db, 'rep) http_env \<Rightarrow> (('w, 'db, 'rep) node_state, unit) eff" where
  "newHttpServer env =
     when_eff (ho_relayService env \<noteq> None) (on_server (modify (\<lambda>s. s\<lparr>errorListener := True\<rparr>)))"

definition http_start :: "('w, 'db, 'rep) http_env \<Rightarrow> (('w, 'db, 'rep) node_state, unit) eff" where
  "http_start env =
     bnd (modify (\<lambda>s. s\<lparr>nd_listening := True\<rparr>)) (\<lambda>_. when_eff (ho_relayService env \<noteq> None) (on_server sv_start))"

definition http_stop :: "(('w, 'db, 'rep) node_state, unit) eff" where
  "http_stop = modify (\<lambda>s. s\<lparr>nd_listening := False\<rparr>)"

definition http_close :: "('w, 'db, 'rep) http_env \<Rightarrow> (('w, 'db, 'rep) node_state, unit) eff" where
  "http_close env =
     bnd (when_eff (ho_relayService env \<noteq> None) (on_server sv_stop)) (\<lambda>_.
     when_eff (ho_penalizerService env \<noteq> None) (on_penalizer pn_stop))"

section \<open>Requests that are posted\<close>

text \<open>The JSON a client posts for a relay request.\<close>

definition request_json :: "RelayTransactionRequest \<Rightarrow> js_val" where
  "request_json req =
     (let r = rr_request (rtr_relayRequest req); d = rr_relayData (rtr_relayRequest req); m = rtr_metadata req
      in JObj
       [(''relayRequest'', JObj
          [(''request'', JObj [(''from'', JStr (fr_from r)), (''to'', JStr (fr_to r)), (''data'', JStr (fr_data r)),
              (''value'', JStr (fr_value r)), (''nonce'', JStr (fr_nonce r)), (''gas'', JStr (fr_gas r)),
              (''validUntilTime'', JStr (fr_validUntilTime r))]),
           (''relayData'', JObj [(''maxFeePerGas'', JStr (rd_maxFeePerGas d)),
              (''maxPriorityFeePerGas'', JStr (rd_maxPriorityFeePerGas d)),
              (''transactionCalldataGasUsed'', JStr (rd_transactionCalldataGasUsed d)),
              (''relayWorker'', JStr (rd_relayWorker d)), (''paymaster'', JStr (rd_paymaster d)),
              (''paymasterData'', JStr (rd_paymasterData d)), (''clientId'', JStr (rd_clientId d)),
              (''forwarder'', JStr (rd_forwarder d))])]),
        (''metadata'', JObj
          [(''domainSeparatorName'', JStr (rm_domainSeparatorName m)), (''maxAcceptanceBudget'', JStr (rm_maxAcceptanceBudget m)),
           (''relayHubAddress'', JStr (rm_relayHubAddress m)), (''signature'', JStr (rm_signature m)),
           (''approvalData'', JStr (rm_approvalData m)), (''relayMaxNonce'', JNum (rm_relayMaxNonce m)),
           (''relayLastKnownNonce'', JNum (rm_relayLastKnownNonce m))])])"

lemma request_json_shape: "has_shape RelayTransactionRequestShape (request_json req)"
  by (simp add: RelayTransactionRequestShape_def request_json_def Let_def string_fields_def)

lemma request_json_fields: "as_RelayTransactionRequest (request_json req) = req"
  by (simp add: as_RelayTransactionRequest_def request_json_def Let_def prop_of_def str_of_def int_of_def)

text \<open>C5: a relay request that is posted reaches the relay service as it was, with every field under its name, and the answer
  is the signed transaction with the gap the service returned, or the message of the error; the server is left in the state
  the service left.\<close>

theorem posted_request_served:
  "relayHandler (env\<lparr>ho_relayService := Some relayService\<rparr>) (request_json req) s =
     (case createRelayTransaction relayService req (nd_server s) of
        (Inl e, u) \<Rightarrow> (Inr (ErrorReply (error_message e)), s\<lparr>nd_server := u\<rparr>)
      | (Inr (signedTx, nonceGapFilled), u) \<Rightarrow> (Inr (RelayReply signedTx nonceGapFilled), s\<lparr>nd_server := u\<rparr>))"
  by (simp add: relayHandler_def check_shape_def request_json_shape request_json_fields on_server_def run_simps ret_def
      lift_result_def split: prod.splits sum.splits)

section \<open>Routes\<close>

datatype http_handler = PingRoute | StatsRoute | RelayRoute | AuditRoute

definition routes :: "'a option \<Rightarrow> 'b option \<Rightarrow> ((string \<times> string) \<times> http_handler) list" where
  "routes relayService penalizerService =
     (if relayService \<noteq> None then
        [((''post'', ''/getaddr''), PingRoute), ((''get'', ''/getaddr''), PingRoute), ((''post'', ''/stats''), StatsRoute),
         ((''get'', ''/stats''), StatsRoute), ((''post'', ''/relay''), RelayRoute)]
      else [])
     @ (if penalizerService \<noteq> None then [((''post'', ''/audit''), AuditRoute)] else [])"

text \<open>No handler is reached without the service it asks for.\<close>

lemma routed_has_service:
  "map_of (routes relayService penalizerService) request = Some handler \<Longrightarrow>
   (if handler = AuditRoute then penalizerService \<noteq> None else relayService \<noteq> None)"
  by (auto simp: routes_def split: if_splits)

section \<open>Audits\<close>

lemma pn_view_update [simp]: "pn_view (pn_update p s) = p"
  by (cases p) (simp add: pn_view_def pn_update_def tm_state.defs pn_state.defs)

lemma pn_view_fields [simp]:
  "scheduledPenalizations (pn_view s) = nd_scheduled s" "txdb (pn_view s) = txdb (nd_server s)" "nonces (pn_view s) = nonces (nd_server s)"
  by (simp_all add: pn_view_def tm_state.defs pn_state.defs)

lemma pn_update_fields [simp]:
  "nd_scheduled (pn_update p s) = scheduledPenalizations p" "txdb (nd_server (pn_update p s)) = txdb p"
  "nonces (nd_server (pn_update p s)) = nonces p"
  by (simp_all add: pn_update_def tm_state.defs)

lemma wp_on_penalizer [wp_simps]:
  "wp (on_penalizer m) Q E s = wp m (\<lambda>a p. Q a (pn_update p s)) (\<lambda>e p. E e (pn_update p s)) (pn_view s)"
  by (simp add: on_penalizer_def wp_zoom)

text \<open>Nothing was scheduled, stored or signed; and exactly one penalization was scheduled.\<close>

definition nd_same :: "('w, 'db, 'rep) node_state \<Rightarrow> ('w, 'db, 'rep) node_state \<Rightarrow> bool" where
  "nd_same s t \<longleftrightarrow> nd_scheduled t = nd_scheduled s \<and> txdb (nd_server t) = txdb (nd_server s)
     \<and> nonces (nd_server t) = nonces (nd_server s)"

definition nd_one :: "('w, 'db) pn_env \<Rightarrow> ('w, 'db, 'rep) node_state \<Rightarrow> ('w, 'db, 'rep) node_state \<Rightarrow> bool" where
  "nd_one env s t \<longleftrightarrow>
     (\<exists>p. nd_scheduled t = nd_scheduled s @ [p] \<and> dp_readyBlockNumber p = None \<and> committed env p)"

lemma nd_same_update: "nd_same s u \<Longrightarrow> pn_same (pn_view u) p \<Longrightarrow> nd_same s (pn_update p u)"
  by (simp add: nd_same_def pn_same_def)

lemma nd_one_update: "nd_same s u \<Longrightarrow> one_scheduled env k (pn_view u) p \<Longrightarrow> nd_one env s (pn_update p u)"
  by (auto simp: nd_same_def nd_one_def one_scheduled_def)

lemma audit_wp:
  "wp (auditHandler (env\<lparr>ho_penalizerService := Some ps\<rparr>) body)
     (\<lambda>reply t. case reply of AuditReply (Some _) _ \<Rightarrow> nd_one ps s t | AuditReply None _ \<Rightarrow> nd_same s t
        | MessageReply _ \<Rightarrow> nd_same s t \<or> nd_one ps s t | _ \<Rightarrow> False)
     (\<lambda>_ _. False) s"
proof -
  let ?Q = "\<lambda>reply t. case reply of AuditReply (Some _) _ \<Rightarrow> nd_one ps s t | AuditReply None _ \<Rightarrow> nd_same s t
        | MessageReply _ \<Rightarrow> nd_same s t \<or> nd_one ps s t | _ \<Rightarrow> False"
  let ?E = "\<lambda>_ t. nd_same s t \<or> nd_one ps s t"
  have refl: "nd_same s s" by (simp add: nd_same_def)
  have second: "wp (bnd (on_penalizer (penalizeIllegalTransaction ps tx)) (\<lambda>second.
      ret (AuditReply (au_commitTxHash second) (m @ message_or_empty second)))) ?Q ?E u"
    if u: "nd_same s u" for u :: "('a, 'b, 'c) node_state" and tx m
    unfolding wp_bnd wp_on_penalizer
    by (rule wp_mono [OF illegal_wp])
      (auto simp: wp_ret audited_def nd_same_update [OF u] nd_one_update [OF u] split: option.splits)
  have first: "wp (bnd (on_penalizer (penalizeRepeatedNonce ps tx)) (\<lambda>first.
      if au_commitTxHash first = None then bnd (on_penalizer (penalizeIllegalTransaction ps tx)) (\<lambda>second.
          ret (AuditReply (au_commitTxHash second) (message_or_empty first @ message_or_empty second)))
      else ret (AuditReply (au_commitTxHash first) (message_or_empty first)))) ?Q ?E s" for tx
    unfolding wp_bnd [of "on_penalizer (penalizeRepeatedNonce ps tx)"] wp_on_penalizer
  proof (rule wp_mono [OF repeated_wp])
    fix r t assume r: "audited ps REPEATED_NONCE (pn_view s) r t"
    show "wp (if au_commitTxHash r = None then bnd (on_penalizer (penalizeIllegalTransaction ps tx)) (\<lambda>second.
          ret (AuditReply (au_commitTxHash second) (message_or_empty r @ message_or_empty second)))
      else ret (AuditReply (au_commitTxHash r) (message_or_empty r))) ?Q ?E (pn_update t s)"
      using r second [OF nd_same_update [OF refl]]
      by (auto simp: audited_def wp_ret nd_one_update [OF refl] split: option.splits)
  qed (auto simp: nd_same_update [OF refl] nd_one_update [OF refl])
  show ?thesis
    unfolding auditHandler_def Let_def
    by (auto simp: wp_try_catch wp_bnd [of "lift_result _"] wp_lift_result check_shape_def wp_ret refl
        intro!: wp_mono [OF first])
qed

text \<open>C12: a request to audit a transaction is always answered, and it schedules at most one penalization, although it tries two
  kinds: an answer with the hash of a commit transaction means exactly one, an answer without one that nothing was
  scheduled, stored or signed.\<close>

theorem audit_schedules_at_most_one:
  "case auditHandler (env\<lparr>ho_penalizerService := Some penalizerService\<rparr>) body s of
     (Inl _, _) \<Rightarrow> False
   | (Inr (AuditReply (Some _) _), t) \<Rightarrow> nd_one penalizerService s t
   | (Inr (AuditReply None _), t) \<Rightarrow> nd_same s t
   | (Inr (MessageReply _), t) \<Rightarrow> nd_same s t \<or> nd_one penalizerService s t
   | _ \<Rightarrow> False"
  using audit_wp [where env = env and ps = penalizerService and body = body and s = s]
  by (simp add: wp_def split: prod.splits sum.splits http_response.splits option.splits)

section \<open>A node over time\<close>

text \<open>Requests of all kinds and the rounds of both services, in any order.\<close>

datatype node_event =
    PingRequest js_val | RelayRequestPosted js_val | AuditRequestPosted js_val | ServerRound | PenalizerRound

fun node_step ::
  "('w, 'db, 'rep) http_env \<Rightarrow> ('w, 'db, 'rep) sv_env \<Rightarrow> ('w, 'db) pn_env \<Rightarrow> node_event \<Rightarrow>
   ('w, 'db, 'rep) node_state \<Rightarrow> ('w, 'db, 'rep) node_state" where
  "node_step env rs ps (PingRequest q) s = snd (http_pingHandler env q s)"
| "node_step env rs ps (RelayRequestPosted b) s = snd (relayHandler env b s)"
| "node_step env rs ps (AuditRequestPosted b) s = snd (auditHandler env b s)"
| "node_step env rs ps ServerRound s = snd (on_server (intervalHandler rs) s)"
| "node_step env rs ps PenalizerRound s = snd (on_penalizer (pn_intervalHandler ps) s)"

definition node_run ::
  "('w, 'db, 'rep) http_env \<Rightarrow> ('w, 'db, 'rep) sv_env \<Rightarrow> ('w, 'db) pn_env \<Rightarrow> node_event list \<Rightarrow>
   ('w, 'db, 'rep) node_state \<Rightarrow> ('w, 'db, 'rep) node_state" where
  "node_run env rs ps = fold (node_step (env\<lparr>ho_relayService := Some rs, ho_penalizerService := Some ps\<rparr>) rs ps)"

definition nd_committed :: "('w, 'db) pn_env \<Rightarrow> ('w, 'db, 'rep) node_state \<Rightarrow> bool" where
  "nd_committed ps s \<longleftrightarrow> list_all (committed ps) (nd_scheduled s)"

lemma nd_committed_server: "keeps (nd_committed ps) (on_server m)"
  unfolding on_server_def by (rule keeps_zoom) (simp add: nd_committed_def)

lemma nd_committed_penalizer:
  assumes "keeps (all_committed ps) m"
  shows "keeps (nd_committed ps) (on_penalizer m)"
proof (rule keepsI)
  fix s :: "('a, 'b, 'd) node_state"
  assume "nd_committed ps s"
  then have "all_committed ps (pn_view s)" by (simp add: nd_committed_def all_committed_def)
  from keeps_wpD [OF assms this] show "wp (on_penalizer m) (\<lambda>_. nd_committed ps) (\<lambda>_. nd_committed ps) s"
    unfolding wp_on_penalizer by (simp add: nd_committed_def all_committed_def)
qed

lemma nd_committed_audits:
  "keeps (all_committed ps) (penalizeRepeatedNonce ps tx)" "keeps (all_committed ps) (penalizeIllegalTransaction ps tx)"
  by (rule keepsI, rule wp_mono [OF repeated_wp], auto intro: all_committed_same all_committed_one all_committed_audited)
    (rule keepsI, rule wp_mono [OF illegal_wp], auto intro: all_committed_same all_committed_one all_committed_audited)

lemma keeps_snd: "keeps I m \<Longrightarrow> I s \<Longrightarrow> I (snd (m s))"
  by (simp add: keeps_def)

lemma nd_committed_step:
  "nd_committed ps s \<Longrightarrow> nd_committed ps (node_step (env\<lparr>ho_relayService := Some rs, ho_penalizerService := Some ps\<rparr>) rs ps e s)"
proof (cases e)
  case (PingRequest q)
  have "keeps (nd_committed ps) (http_pingHandler (env\<lparr>ho_relayService := Some rs, ho_penalizerService := Some ps\<rparr>) q)"
    unfolding http_pingHandler_def Let_def by (auto split: js_val.split intro!: keeps_intros nd_committed_server)
  then show "nd_committed ps s \<Longrightarrow> ?thesis" using PingRequest by (simp add: keeps_def)
next
  case (RelayRequestPosted b)
  have "keeps (nd_committed ps) (relayHandler (env\<lparr>ho_relayService := Some rs, ho_penalizerService := Some ps\<rparr>) b)"
    unfolding relayHandler_def by (auto intro!: keeps_intros nd_committed_server)
  then show "nd_committed ps s \<Longrightarrow> ?thesis" using RelayRequestPosted by (simp add: keeps_def)
next
  case (AuditRequestPosted b)
  have "keeps (nd_committed ps) (auditHandler (env\<lparr>ho_relayService := Some rs, ho_penalizerService := Some ps\<rparr>) b)"
    unfolding auditHandler_def Let_def
    by (auto intro!: keeps_intros nd_committed_penalizer nd_committed_audits)
  then show "nd_committed ps s \<Longrightarrow> ?thesis" using AuditRequestPosted by (simp add: keeps_def)
next
  case ServerRound
  then show "nd_committed ps s \<Longrightarrow> ?thesis" using nd_committed_server [of ps "intervalHandler rs"] by (simp add: keeps_def)
next
  case PenalizerRound
  then show "nd_committed ps s \<Longrightarrow> ?thesis"
    by simp (rule keeps_snd [OF nd_committed_penalizer [OF all_committed_handler]])
qed

text \<open>C11: on a node that answers pings, relay requests and audits and runs the rounds of its server and its penalizer, in any
  order and with any errors, every scheduled penalization is the one it was committed as: the hash it was committed by
  is the hash of the encoded call its kind and arguments will make.\<close>

theorem node_reveals_match_commitments:
  "nd_committed ps (node_run env rs ps events (s\<lparr>nd_scheduled := []\<rparr>))"
proof -
  have "nd_committed ps t \<Longrightarrow> nd_committed ps (node_run env rs ps events t)" for t
    unfolding node_run_def by (induction events arbitrary: t) (simp_all add: nd_committed_step)
  then show ?thesis by (simp add: nd_committed_def)
qed

end
