(* ===== verification/ClientConfig.thy ===== *)
theory ClientConfig imports DataTypes begin

text \<open>
  The configuration of the client: \<open>GSNConfig\<close> of \<open>packages/common/src/ConfigResponse.ts\<close> and the defaults of
  \<open>packages/provider/src/GSNConfigurator.ts\<close>. The configuration of the logger is left out.
\<close>

record GSNConfig =
  gc_preferredRelays :: "string list"
  gc_blacklistedRelays :: "string list"
  gc_pastEventsQueryMaxPageSize :: int
  gc_pastEventsQueryMaxPageCount :: int
  gc_methodSuffix :: string
  gc_jsonStringifyRequest :: bool
  gc_requiredVersionRange :: "string option"
  gc_relayTimeoutGrace :: int
  gc_gasPriceFactorPercent :: int
  gc_getGasFeesBlocks :: int
  gc_getGasFeesPercentile :: rat
  gc_gasPriceOracleUrl :: string
  gc_gasPriceOraclePath :: string
  gc_minMaxPriorityFeePerGas :: "int option"
  gc_maxRelayNonceGap :: int
  gc_paymasterAddress :: "string option"
  gc_tokenPaymasterAddress :: string
  gc_tokenPaymasterDomainSeparators :: "(string \<times> EIP712Domain) list"
  gc_skipErc165Check :: bool
  gc_clientId :: string
  gc_auditorsCount :: int
  gc_requestValidSeconds :: int
  gc_maxViewableGasLimit :: string
  gc_environment :: Environment
  gc_maxApprovalDataLength :: int
  gc_maxPaymasterDataLength :: int
  gc_clientDefaultConfigUrl :: string
  gc_useClientDefaultConfigUrl :: bool
  gc_performDryRunViewRelayCall :: bool
  gc_waitForSuccessSliceSize :: int
  gc_waitForSuccessPingGrace :: int
  gc_domainSeparatorName :: string

definition gsnRequiredVersion :: string where
  "gsnRequiredVersion = ''^3.0.0-beta.2''"

definition gsnRuntimeVersion :: string where
  "gsnRuntimeVersion = ''3.0.0-beta.2''"

definition defaultGsnConfig :: GSNConfig where
  "defaultGsnConfig =
     \<lparr>gc_preferredRelays = [], gc_blacklistedRelays = [], gc_pastEventsQueryMaxPageSize = 9007199254740991,
      gc_pastEventsQueryMaxPageCount = 20, gc_methodSuffix = ''_v4'', gc_jsonStringifyRequest = True,
      gc_requiredVersionRange = Some gsnRequiredVersion, gc_relayTimeoutGrace = 1800, gc_gasPriceFactorPercent = 20,
      gc_getGasFeesBlocks = 5, gc_getGasFeesPercentile = 50, gc_gasPriceOracleUrl = [], gc_gasPriceOraclePath = [],
      gc_minMaxPriorityFeePerGas = Some 1000000000, gc_maxRelayNonceGap = 3, gc_paymasterAddress = None,
      gc_tokenPaymasterAddress = [], gc_tokenPaymasterDomainSeparators = [], gc_skipErc165Check = False, gc_clientId = ''1'', gc_auditorsCount = 0,
      gc_requestValidSeconds = 172800, gc_maxViewableGasLimit = ''12000000'', gc_environment = ganacheLocal,
      gc_maxApprovalDataLength = 0, gc_maxPaymasterDataLength = 0,
      gc_clientDefaultConfigUrl = ''https://client-config.opengsn.org/'' @ gsnRuntimeVersion @ ''/client-config.json'',
      gc_useClientDefaultConfigUrl = True, gc_performDryRunViewRelayCall = True, gc_waitForSuccessSliceSize = 3,
      gc_waitForSuccessPingGrace = 3000, gc_domainSeparatorName = ''GSN Relayed Transaction''\<rparr>"

end
