(* ===== verification/KnownRelays.thy ===== *)
theory KnownRelays imports ClientConfig begin

text \<open>
  \<open>packages/provider/src/KnownRelaysManager.ts\<close>: the relays the client knows, the failures it remembers, the order
  in which relays are tried and the choice of auditors. The parser of URLs is outside: \<open>urlProtocol\<close> gives the protocol
  of a URL, nothing when \<open>new URL\<close> throws. \<open>Math.random()\<close> is a stream of numbers.
\<close>

section \<open>State\<close>

record RelayFailureInfo =
  rf_lastErrorTime :: int
  rf_relayManager :: string
  rf_relayUrl :: string

text \<open>\<open>RelayInfoUrl\<close>: an entry of the preferred relays, or one of the registrar.\<close>

datatype RelayInfoUrl = UrlOnly string | FromRegistrar RegistrarRelayInfo

fun relayUrl_of :: "RelayInfoUrl \<Rightarrow> string" where
  "relayUrl_of (UrlOnly u) = u"
| "relayUrl_of (FromRegistrar i) = ri_relayUrl i"

fun isInfoFromEvent :: "RelayInfoUrl \<Rightarrow> bool" where
  "isInfoFromEvent (UrlOnly u) = False"
| "isInfoFromEvent (FromRegistrar i) = True"

record known_relays =
  kr_relayFailures :: "(string \<times> RelayFailureInfo list) list"
  kr_preferredRelayers :: "string list"
  kr_allRelayers :: "RegistrarRelayInfo list"

definition new_known_relays :: known_relays where
  "new_known_relays = \<lparr>kr_relayFailures = [], kr_preferredRelayers = [], kr_allRelayers = []\<rparr>"

definition validateRelayUrl :: "(string \<Rightarrow> string option) \<Rightarrow> string \<Rightarrow> bool" where
  "validateRelayUrl urlProtocol relayUrl =
     (case urlProtocol relayUrl of None \<Rightarrow> False | Some p \<Rightarrow> p = ''http:'' \<or> p = ''https:'')"

section \<open>Refreshing\<close>

definition getRelayInfoForManager :: "known_relays \<Rightarrow> string \<Rightarrow> RegistrarRelayInfo option" where
  "getRelayInfoForManager k address = find (\<lambda>info. isSameAddress (ri_relayManager info) address) (kr_allRelayers k)"

definition is_blacklisted :: "GSNConfig \<Rightarrow> RegistrarRelayInfo \<Rightarrow> bool" where
  "is_blacklisted cfg info \<longleftrightarrow>
     list_ex (\<lambda>relay. str_includes (toLowerCase relay) (toLowerCase (ri_relayUrl info))) (gc_blacklistedRelays cfg)
     \<or> list_ex (\<lambda>relay. isSameAddress (ri_relayManager info) relay) (gc_blacklistedRelays cfg)"

definition filter_relays :: "GSNConfig \<Rightarrow> (RegistrarRelayInfo \<Rightarrow> bool) \<Rightarrow> RegistrarRelayInfo list \<Rightarrow> RegistrarRelayInfo list" where
  "filter_relays cfg relayFilter relayInfos =
     filter relayFilter (filter (\<lambda>info. \<not> is_blacklisted cfg info) relayInfos)"

definition refreshFailures :: "GSNConfig \<Rightarrow> int \<Rightarrow> known_relays \<Rightarrow> known_relays" where
  "refreshFailures cfg now k =
     k\<lparr>kr_relayFailures := map (\<lambda>(key, value).
         (key, filter (\<lambda>failure. of_int (now - rf_lastErrorTime failure) / 1000 < (of_int (gc_relayTimeoutGrace cfg) :: rat)) value))
       (kr_relayFailures k)\<rparr>"

text \<open>The relays of the registrar are an argument: the state is the one of after the call that fetched them.\<close>

definition kr_refresh ::
  "GSNConfig \<Rightarrow> (RegistrarRelayInfo \<Rightarrow> bool) \<Rightarrow> int \<Rightarrow> RegistrarRelayInfo list \<Rightarrow> known_relays \<Rightarrow> known_relays" where
  "kr_refresh cfg relayFilter now registered k =
     (refreshFailures cfg now k)\<lparr>kr_preferredRelayers := gc_preferredRelays cfg,
        kr_allRelayers := filter_relays cfg relayFilter registered\<rparr>"

definition saveRelayFailure :: "int \<Rightarrow> string \<Rightarrow> string \<Rightarrow> known_relays \<Rightarrow> known_relays" where
  "saveRelayFailure lastErrorTime relayManager relayUrl k =
     (let newFailureInfo = \<lparr>rf_lastErrorTime = lastErrorTime, rf_relayManager = relayManager, rf_relayUrl = relayUrl\<rparr>
      in k\<lparr>kr_relayFailures := (case map_of (kr_relayFailures k) relayUrl of
            None \<Rightarrow> map_set relayUrl [newFailureInfo] (kr_relayFailures k)
          | Some fs \<Rightarrow> map_set relayUrl (fs @ [newFailureInfo]) (kr_relayFailures k))\<rparr>)"

definition isPreferred :: "known_relays \<Rightarrow> string \<Rightarrow> bool" where
  "isPreferred k relayUrl \<longleftrightarrow> list_ex (\<lambda>u. toLowerCase u = toLowerCase relayUrl) (kr_preferredRelayers k)"

section \<open>The order of relays\<close>

definition hasFailure :: "known_relays \<Rightarrow> RegistrarRelayInfo \<Rightarrow> bool" where
  "hasFailure k it \<longleftrightarrow> map_of (kr_relayFailures k) (ri_relayUrl it) \<noteq> None"

definition getRelaysShuffledForTransaction ::
  "(string \<Rightarrow> string option) \<Rightarrow> (nat \<Rightarrow> rat) \<Rightarrow> (nat \<Rightarrow> rat) \<Rightarrow> known_relays \<Rightarrow> RelayInfoUrl list list" where
  "getRelaysShuffledForTransaction urlProtocol rnd1 rnd2 k =
     map (filter (\<lambda>it. validateRelayUrl urlProtocol (relayUrl_of it)))
       [map UrlOnly (kr_preferredRelayers k),
        shuffle rnd1 (map FromRegistrar (filter (\<lambda>it. \<not> hasFailure k it) (kr_allRelayers k))),
        shuffle rnd2 (map FromRegistrar (filter (hasFailure k) (kr_allRelayers k)))]"

section \<open>Auditors\<close>

text \<open>The loop that draws auditors need not end: \<open>None\<close> when it never draws enough different indexes.\<close>

partial_function (option) draw_auditors ::
  "(nat \<Rightarrow> rat) \<Rightarrow> nat \<Rightarrow> string list \<Rightarrow> nat \<Rightarrow> nat list \<Rightarrow> string list \<Rightarrow> string list option" where
  "draw_auditors rnd draw flatRelayers needed indexes auditors =
     (let index = nat \<lfloor>rnd draw * of_nat (length flatRelayers)\<rfloor>;
          (auditors', indexes') = (if index \<in> set indexes then (auditors, indexes)
            else (auditors @ [flatRelayers ! index], indexes @ [index]))
      in if length auditors' < needed then draw_auditors rnd (Suc draw) flatRelayers needed indexes' auditors'
         else Some auditors')"

text \<open>\<open>self.indexOf(value) === index\<close> keeps the first of each.\<close>

definition flat_relayers :: "known_relays \<Rightarrow> string list \<Rightarrow> string list" where
  "flat_relayers k excludeUrls =
     rev (remdups (rev (filter (\<lambda>u. u \<notin> set excludeUrls) (kr_preferredRelayers k @ map ri_relayUrl (kr_allRelayers k)))))"

definition getAuditors :: "GSNConfig \<Rightarrow> (nat \<Rightarrow> rat) \<Rightarrow> string list \<Rightarrow> known_relays \<Rightarrow> string list option" where
  "getAuditors cfg rnd excludeUrls k =
     (if gc_auditorsCount cfg = 0 then Some []
      else
        (let flatRelayers = flat_relayers k excludeUrls
         in if int (length flatRelayers) \<le> gc_auditorsCount cfg then Some flatRelayers
            else draw_auditors rnd 0 flatRelayers (nat (gc_auditorsCount cfg)) [] []))"

section \<open>Properties\<close>

lemma map_of_map_value: "map_of (map (\<lambda>(k, v). (k, f v)) m) x = map_option f (map_of m x)"
  by (induction m) auto

lemma hasFailure_refresh: "hasFailure (kr_refresh cfg relayFilter now registered k) it = hasFailure k it"
proof -
  have "map_of (kr_relayFailures (kr_refresh cfg relayFilter now registered k)) u \<noteq> None \<longleftrightarrow> map_of (kr_relayFailures k) u \<noteq> None" for u
    by (simp add: kr_refresh_def refreshFailures_def map_of_map_value)
  then show ?thesis by (simp add: hasFailure_def)
qed

lemma hasFailure_save: "hasFailure (saveRelayFailure time manager url k) it \<longleftrightarrow> hasFailure k it \<or> url = ri_relayUrl it"
  by (auto simp: hasFailure_def saveRelayFailure_def Let_def split: option.splits)

text \<open>What happens to the manager between two requests.\<close>

datatype known_event = Refresh int "RegistrarRelayInfo list" | Failure int string string

fun kr_handle :: "GSNConfig \<Rightarrow> (RegistrarRelayInfo \<Rightarrow> bool) \<Rightarrow> known_event \<Rightarrow> known_relays \<Rightarrow> known_relays" where
  "kr_handle cfg relayFilter (Refresh now registered) k = kr_refresh cfg relayFilter now registered k"
| "kr_handle cfg relayFilter (Failure time manager url) k = saveRelayFailure time manager url k"

fun failure_of :: "string \<Rightarrow> known_event \<Rightarrow> bool" where
  "failure_of url (Failure time manager u) \<longleftrightarrow> u = url"
| "failure_of url (Refresh now registered) \<longleftrightarrow> False"

lemma failures_kept:
  "hasFailure (fold (kr_handle cfg relayFilter) es k) it \<longleftrightarrow> hasFailure k it \<or> list_ex (failure_of (ri_relayUrl it)) es"
proof (induction es arbitrary: k)
  case (Cons e es)
  then show ?case by (cases e) (auto simp: hasFailure_refresh hasFailure_save)
qed simp

text \<open>
  failures of relays are never forgotten. A relay counts as failed exactly when some failure of its URL was ever
  saved, however long ago and whatever \<open>relayTimeoutGrace\<close> is: refreshing empties its list of failures but keeps its key,
  and only the key is looked at.
\<close>

theorem failures_never_forgotten:
  "hasFailure (fold (kr_handle cfg relayFilter) es new_known_relays) it \<longleftrightarrow> list_ex (failure_of (ri_relayUrl it)) es"
  unfolding failures_kept by (simp add: hasFailure_def new_known_relays_def)

lemma mset_filter_shuffle: "unit_interval rnd \<Longrightarrow> mset (filter P (shuffle rnd xs)) = mset (filter P xs)"
  using mset_shuffle [of rnd xs] by simp

text \<open>
  the order in which relays are tried. The result is three groups: the preferred relays as configured, the
  registered relays without a remembered failure, and those with one, the latter two in some order; exactly the
  entries with an HTTP or HTTPS URL are in them, each as often as it is known.
\<close>

theorem relays_for_transaction:
  assumes "unit_interval rnd1" and "unit_interval rnd2"
  shows "case getRelaysShuffledForTransaction urlProtocol rnd1 rnd2 k of [preferred, fresh, failed] \<Rightarrow>
       preferred = map UrlOnly (filter (validateRelayUrl urlProtocol) (kr_preferredRelayers k))
       \<and> mset fresh = image_mset FromRegistrar (mset (filter (\<lambda>it. \<not> hasFailure k it \<and> validateRelayUrl urlProtocol (ri_relayUrl it)) (kr_allRelayers k)))
       \<and> mset failed = image_mset FromRegistrar (mset (filter (\<lambda>it. hasFailure k it \<and> validateRelayUrl urlProtocol (ri_relayUrl it)) (kr_allRelayers k)))
     | _ \<Rightarrow> False"
  using assms
  by (simp add: getRelaysShuffledForTransaction_def mset_filter_shuffle filter_map o_def filter_filter conj_commute
      flip: mset_map mset_filter)

text \<open>The state of the loop that draws auditors.\<close>

definition drawn :: "string list \<Rightarrow> nat list \<Rightarrow> string list \<Rightarrow> bool" where
  "drawn flatRelayers indexes auditors \<longleftrightarrow>
     distinct indexes \<and> (\<forall>i\<in>set indexes. i < length flatRelayers) \<and> auditors = map ((!) flatRelayers) indexes"

definition index_of_draw :: "(nat \<Rightarrow> rat) \<Rightarrow> nat \<Rightarrow> nat \<Rightarrow> nat" where
  "index_of_draw rnd n k = nat \<lfloor>rnd k * of_nat n\<rfloor>"

lemma draw_step:
  "draw_auditors rnd k fl needed ix as =
     (let i = index_of_draw rnd (length fl) k
      in if i \<in> set ix then (if length as < needed then draw_auditors rnd (Suc k) fl needed ix as else Some as)
         else if Suc (length as) < needed then draw_auditors rnd (Suc k) fl needed (ix @ [i]) (as @ [fl ! i])
         else Some (as @ [fl ! i]))"
  by (subst draw_auditors.simps) (auto simp: Let_def index_of_draw_def)

lemma drawn_add: "drawn fl ix as \<Longrightarrow> i \<notin> set ix \<Longrightarrow> i < length fl \<Longrightarrow> drawn fl (ix @ [i]) (as @ [fl ! i])"
  by (auto simp: drawn_def)

lemma drawn_result: "distinct fl \<Longrightarrow> drawn fl ix as \<Longrightarrow> distinct as \<and> set as \<subseteq> set fl \<and> length as = length ix"
  by (auto simp: drawn_def distinct_map inj_on_def nth_eq_iff_index_eq)

lemma draw_partial:
  assumes ret: "draw_auditors rnd k fl needed ix as = Some r"
  shows "unit_interval rnd \<longrightarrow> fl \<noteq> [] \<longrightarrow> drawn fl ix as \<longrightarrow> length as < needed \<longrightarrow> (\<exists>ix'. drawn fl ix' r) \<and> length r = needed"
proof (rule draw_auditors.raw_induct [where P = "\<lambda>rnd k fl needed ix as r. unit_interval rnd \<longrightarrow> fl \<noteq> [] \<longrightarrow>
    drawn fl ix as \<longrightarrow> length as < needed \<longrightarrow> (\<exists>ix'. drawn fl ix' r) \<and> length r = needed", OF _ ret])
  fix f rnd k needed r and fl as :: "string list" and ix
  assume IH: "\<And>rnd k fl needed ix as r. f rnd k fl needed ix as = Some r \<Longrightarrow> unit_interval rnd \<longrightarrow> fl \<noteq> [] \<longrightarrow>
      drawn fl ix as \<longrightarrow> length as < needed \<longrightarrow> (\<exists>ix'. drawn fl ix' r) \<and> length r = needed"
    and eq: "(let index = nat \<lfloor>rnd k * of_nat (length fl)\<rfloor>;
          (auditors', indexes') = (if index \<in> set ix then (as, ix) else (as @ [fl ! index], ix @ [index]))
      in if length auditors' < needed then f rnd (Suc k) fl needed indexes' auditors' else Some auditors') = Some r"
  show "unit_interval rnd \<longrightarrow> fl \<noteq> [] \<longrightarrow> drawn fl ix as \<longrightarrow> length as < needed \<longrightarrow> (\<exists>ix'. drawn fl ix' r) \<and> length r = needed"
  proof (intro impI)
  assume h: "unit_interval rnd" "fl \<noteq> []" "drawn fl ix as" "length as < needed"
  let ?i = "nat \<lfloor>rnd k * of_nat (length fl)\<rfloor>"
  have i: "?i < length fl" using h(1,2) by (intro random_index_less) (auto simp: unit_interval_def)
  show "(\<exists>ix'. drawn fl ix' r) \<and> length r = needed"
  proof (cases "?i \<in> set ix")
    case True
    then show ?thesis using IH eq h by (simp add: Let_def)
  next
    case False
    then show ?thesis using IH eq h drawn_add [OF h(3) False i]
      by (auto simp: Let_def split: if_splits)
  qed
  qed
qed

text \<open>If every index is drawn again and again, the loop ends.\<close>

lemma draw_returns:
  assumes all: "\<And>i k. i < length fl \<Longrightarrow> \<exists>j\<ge>k. index_of_draw rnd (length fl) j = i" and "needed \<le> length fl"
    and rnd: "unit_interval rnd" and "drawn fl ix as" and "length as < needed"
  shows "\<exists>r. draw_auditors rnd k fl needed ix as = Some r"
  using assms(4,5)
proof (induction "needed - length as" arbitrary: k ix as)
  case (Suc m)
  have "length ix = length as" and "distinct ix" using Suc.prems by (auto simp: drawn_def)
  then have "card (set ix) < card {..<length fl}" using Suc.prems assms(2) by (simp add: distinct_card)
  then obtain i where i: "i < length fl" "i \<notin> set ix" using card_mono [of "set ix" "{..<length fl}"] by fastforce
  obtain j where j: "k \<le> j" "index_of_draw rnd (length fl) j = i" using all [OF i(1)] by blast
  have new: "\<exists>r. draw_auditors rnd k fl needed ix as = Some r" if "index_of_draw rnd (length fl) k \<notin> set ix" for k
  proof -
    have "index_of_draw rnd (length fl) k < length fl"
      using rnd i(1) unfolding index_of_draw_def by (intro random_index_less) (auto simp: unit_interval_def)
    from drawn_add [OF Suc.prems(1) that this] show ?thesis
      using Suc.hyps(1) [of "as @ [fl ! index_of_draw rnd (length fl) k]" "ix @ [index_of_draw rnd (length fl) k]" "Suc k"]
        Suc.hyps(2) that by (subst draw_step) (auto simp: Let_def)
  qed
  have less: "length as < needed" by (rule Suc.prems)
  from j show ?case
  proof (induction "j - k" arbitrary: k)
    case 0
    then show ?case using new [of k] i by simp
  next
    case (Suc d)
    show ?case
    proof (cases "index_of_draw rnd (length fl) k \<in> set ix")
      case True
      then show ?thesis using Suc.hyps(1) [of "Suc k"] Suc.hyps(2) Suc.prems less
        by (subst draw_step) (auto simp: Let_def)
    qed (rule new)
  qed
qed simp

lemma flat_relayers_set: "set (flat_relayers k ex) = (set (kr_preferredRelayers k) \<union> ri_relayUrl ` set (kr_allRelayers k)) - set ex"
  by (auto simp: flat_relayers_def)

lemma flat_relayers_distinct: "distinct (flat_relayers k ex)"
  by (simp add: flat_relayers_def)

text \<open>
  the auditors. Whatever is drawn, if the choice returns it gives distinct URLs of known relays, none of them
  excluded, as many as configured or as there are; and it does return if the random source gives every index
  again and again.
\<close>

theorem getAuditors_spec:
  assumes "unit_interval rnd" and "0 \<le> gc_auditorsCount cfg"
  shows "(case getAuditors cfg rnd ex k of None \<Rightarrow> True
     | Some as \<Rightarrow> distinct as \<and> set as \<subseteq> (set (kr_preferredRelayers k) \<union> ri_relayUrl ` set (kr_allRelayers k)) - set ex
         \<and> int (length as) = min (gc_auditorsCount cfg) (int (length (flat_relayers k ex))))
    \<and> ((\<forall>i<length (flat_relayers k ex). \<forall>n. \<exists>j\<ge>n. index_of_draw rnd (length (flat_relayers k ex)) j = i) \<longrightarrow>
         getAuditors cfg rnd ex k \<noteq> None)"
proof -
  let ?fl = "flat_relayers k ex" and ?n = "nat (gc_auditorsCount cfg)"
  have start: "drawn ?fl [] []" by (simp add: drawn_def)
  consider (none) "gc_auditorsCount cfg = 0" | (all) "gc_auditorsCount cfg \<noteq> 0" "int (length ?fl) \<le> gc_auditorsCount cfg"
    | (draw) "gc_auditorsCount cfg \<noteq> 0" "gc_auditorsCount cfg < int (length ?fl)" by linarith
  then show ?thesis
  proof cases
    case draw
    then have eq: "getAuditors cfg rnd ex k = draw_auditors rnd 0 ?fl ?n [] []"
      and n: "0 < ?n" "?n \<le> length ?fl" "?fl \<noteq> []" using assms(2) by (auto simp: getAuditors_def Let_def)
    have "distinct r \<and> set r \<subseteq> set ?fl \<and> length r = ?n" if "draw_auditors rnd 0 ?fl ?n [] [] = Some r" for r
      using draw_partial [OF that] assms(1) n start drawn_result [OF flat_relayers_distinct] by fastforce
    moreover have "\<exists>r. draw_auditors rnd 0 ?fl ?n [] [] = Some r"
      if "\<forall>i<length ?fl. \<forall>n. \<exists>j\<ge>n. index_of_draw rnd (length ?fl) j = i"
      using that n by (intro draw_returns [OF _ _ assms(1) start]) auto
    ultimately show ?thesis using eq draw assms(2) by (auto simp: flat_relayers_set split: option.split)
  qed (auto simp: getAuditors_def Let_def flat_relayers_set flat_relayers_distinct)
qed

section \<open>Relays for witnesses\<close>

definition sample_relay :: "string \<Rightarrow> string \<Rightarrow> RegistrarRelayInfo" where
  "sample_relay manager url =
     \<lparr>ri_lastSeenBlockNumber = 9, ri_lastSeenTimestamp = 90, ri_firstSeenBlockNumber = 1, ri_firstSeenTimestamp = 10,
      ri_relayUrl = url, ri_relayManager = manager\<rparr>"

definition sample_known :: known_relays where
  "sample_known =
     \<lparr>kr_relayFailures = [(''http://b'', [])], kr_preferredRelayers = [''http://p''],
      kr_allRelayers = [sample_relay ''0xA1'' ''http://a'', sample_relay ''0xB1'' ''http://b'', sample_relay ''0xC1'' ''ftp://c'']\<rparr>"

definition sample_protocol :: "string \<Rightarrow> string option" where
  "sample_protocol u = (if starts_with ''http:'' u then Some ''http:'' else Some ''ftp:'')"

theorem relays_for_transaction_witness:
  "case getRelaysShuffledForTransaction sample_protocol (\<lambda>_. 0) (\<lambda>_. 1 / 2) sample_known of [preferred, fresh, failed] \<Rightarrow>
       preferred = map UrlOnly (filter (validateRelayUrl sample_protocol) (kr_preferredRelayers sample_known))
       \<and> mset fresh = image_mset FromRegistrar (mset (filter (\<lambda>it. \<not> hasFailure sample_known it
            \<and> validateRelayUrl sample_protocol (ri_relayUrl it)) (kr_allRelayers sample_known)))
       \<and> mset failed = image_mset FromRegistrar (mset (filter (\<lambda>it. hasFailure sample_known it
            \<and> validateRelayUrl sample_protocol (ri_relayUrl it)) (kr_allRelayers sample_known)))
     | _ \<Rightarrow> False"
  by (rule relays_for_transaction) (simp_all add: unit_interval_def)

theorem getAuditors_spec_witness:
  "case getAuditors (defaultGsnConfig\<lparr>gc_auditorsCount := 2\<rparr>) (\<lambda>_. 1 / 2) [''http://a''] sample_known of None \<Rightarrow> True
   | Some as \<Rightarrow> distinct as \<and> set as \<subseteq> (set (kr_preferredRelayers sample_known) \<union> ri_relayUrl ` set (kr_allRelayers sample_known))
         - set [''http://a'']
       \<and> int (length as) = min 2 (int (length (flat_relayers sample_known [''http://a''])))"
  using getAuditors_spec [of "\<lambda>_. 1 / 2" "defaultGsnConfig\<lparr>gc_auditorsCount := 2\<rparr>" sample_known "[''http://a'']"]
  by (simp add: unit_interval_def cong: option.case_cong)

end
