(* ===== verification/RelaySelection.thy ===== *)
theory RelaySelection imports KnownRelays Async Interactor begin

text \<open>
  \<open>packages/provider/src/RelaySelectionManager.ts\<close> with the client side of \<open>packages/common/src/HttpClient.ts\<close>:
  pinging relays in slices and choosing one. The relays of a slice are pinged at once; \<open>waitForSuccess\<close> of
  theory Async runs on the answers, in an order of events (\<open>race_event\<close>) that is an argument. What the order
  leaves out happens at its end: every ping settles and is counted, so the race always ends.
\<close>

section \<open>HTTP\<close>

record relay_response =
  rs_signedTx :: "string option"
  rs_nonceGapFilled :: "(string \<times> string) list"
  rs_error :: "string option"

text \<open>\<open>HttpWrapper.sendPromise\<close> by the type of its answer; a ping may have no body.\<close>

record 'w http =
  hw_ping :: "string \<Rightarrow> ('w, PingResponse option) eff"
  hw_relay :: "string \<Rightarrow> RelayTransactionRequest \<Rightarrow> ('w, relay_response) eff"
  hw_audit :: "string \<Rightarrow> string \<Rightarrow> ('w, AuditResponse) eff"
  hw_config :: "string \<Rightarrow> ('w, (int \<times> js_val) list) eff"

definition getPingResponse :: "'w http \<Rightarrow> string \<Rightarrow> string option \<Rightarrow> ('w, PingResponse) eff" where
  "getPingResponse http relayUrl paymaster =
     (let paymasterSuffix = (case paymaster of None \<Rightarrow> [] | Some p \<Rightarrow> ''?paymaster='' @ p)
      in bnd (hw_ping http (relayUrl @ ''/getaddr'' @ paymasterSuffix)) (\<lambda>r. case r of
           None \<Rightarrow> throw ''Relay responded without a body'' | Some p \<Rightarrow> ret p))"

definition http_relayTransaction ::
  "'w http \<Rightarrow> string \<Rightarrow> RelayTransactionRequest \<Rightarrow> ('w, string \<times> (string \<times> string) list) eff" where
  "http_relayTransaction http relayUrl request =
     bnd (hw_relay http (relayUrl @ ''/relay'') request) (\<lambda>r.
     case rs_error r of Some e \<Rightarrow> throw (''Got error response from relay: '' @ e)
     | None \<Rightarrow> (case rs_signedTx r of None \<Rightarrow> throw ''body.signedTx field missing.''
        | Some signedTx \<Rightarrow> ret (signedTx, rs_nonceGapFilled r)))"

definition http_auditTransaction :: "'w http \<Rightarrow> string \<Rightarrow> string \<Rightarrow> ('w, AuditResponse) eff" where
  "http_auditTransaction http relayUrl signedTx = hw_audit http (relayUrl @ ''/audit'') signedTx"

definition getNetworkConfiguration :: "'w http \<Rightarrow> string \<Rightarrow> ('w, (int \<times> js_val) list) eff" where
  "getNetworkConfiguration http clientDefaultConfigUrl = hw_config http clientDefaultConfigUrl"

section \<open>State\<close>

record PartialRelayInfo =
  pi_relayInfo :: RelayInfoUrl
  pi_pingResponse :: PingResponse

record selection =
  remainingRelays :: "RelayInfoUrl list list"
  sel_isInitialized :: bool
  sel_errors :: "(string \<times> js_error) list"

definition new_selection :: selection where
  "new_selection = \<lparr>remainingRelays = [], sel_isInitialized = False, sel_errors = []\<rparr>"

definition sel_init :: "RelayInfoUrl list list \<Rightarrow> selection \<Rightarrow> selection" where
  "sel_init shuffled s = s\<lparr>remainingRelays := shuffled, sel_isInitialized := True\<rparr>"

definition relaysLeft :: "selection \<Rightarrow> RelayInfoUrl list" where
  "relaysLeft s = concat (remainingRelays s)"

text \<open>\<open>relays.slice(0, bulkSize)\<close>; a negative size counts from the end.\<close>

definition bulk_slice :: "int \<Rightarrow> 'a list \<Rightarrow> 'a list" where
  "bulk_slice n relays =
     (let bulkSize = min n (int (length relays))
      in take (nat (if bulkSize < 0 then int (length relays) + bulkSize else bulkSize)) relays)"

fun first_slice :: "int \<Rightarrow> RelayInfoUrl list list \<Rightarrow> RelayInfoUrl list" where
  "first_slice n [] = []"
| "first_slice n (relays # rest) = (if bulk_slice n relays = [] then first_slice n rest else bulk_slice n relays)"

definition getNextSlice :: "GSNConfig \<Rightarrow> selection \<Rightarrow> js_error + RelayInfoUrl list" where
  "getNextSlice cfg s =
     (if \<not> sel_isInitialized s then Inl (Error ''init() not called'')
      else Inr (first_slice (gc_waitForSuccessSliceSize cfg) (remainingRelays s)))"

section \<open>Pings\<close>

text \<open>The message of a relay that is not ready goes on with the JSON of its response, which is left out.\<close>

definition getRelayAddressPing ::
  "'w http \<Rightarrow> (PingResponse \<Rightarrow> js_error + unit) \<Rightarrow> string \<Rightarrow> string option \<Rightarrow> RelayInfoUrl \<Rightarrow> ('w, PartialRelayInfo) eff" where
  "getRelayAddressPing http pingFilter relayHub paymaster relay =
     bnd (getPingResponse http (relayUrl_of relay) paymaster) (\<lambda>response.
     if \<not> pr_ready response then throw ''Relay not ready''
     else if \<not> isSameAddress relayHub (pr_relayHubAddress response) then
       throw (''Client is using RelayHub '' @ relayHub @ '' while the server responded with RelayHub address ''
         @ pr_relayHubAddress response)
     else bnd (lift_result (pingFilter response)) (\<lambda>_.
       ret \<lparr>pi_relayInfo = relay, pi_pingResponse = response\<rparr>))"

text \<open>\<open>Array.from(asMap.values())\<close> keeps the last relay of each URL, at the place of the first.\<close>

definition unique_relays :: "RelayInfoUrl list \<Rightarrow> RelayInfoUrl list" where
  "unique_relays relays = map snd (foldl (\<lambda>m it. map_set (relayUrl_of it) it m) [] relays)"

definition settled :: "('s, 'a) eff \<Rightarrow> ('s, js_error + 'a) eff" where
  "settled m s = (case m s of (r, t) \<Rightarrow> (Inr r, t))"

datatype race_event = Settle nat | Count nat | Grace

definition race_handler :: "(js_error + 'a) list \<Rightarrow> race_event \<Rightarrow> 'a wfs_event" where
  "race_handler outcomes e =
     (case e of Settle i \<Rightarrow> (if i < length outcomes then (case outcomes ! i of Inr v \<Rightarrow> Then i v | Inl err \<Rightarrow> Catch i err) else Finally i)
      | Count i \<Rightarrow> Finally i | Grace \<Rightarrow> GraceTimer)"

fun run_race ::
  "(nat \<Rightarrow> rat) \<Rightarrow> string list \<Rightarrow> (js_error + 'a) list \<Rightarrow> race_event list \<Rightarrow> 'a wfs \<Rightarrow> 'a wfs" where
  "run_race rnd keys outcomes [] w = w"
| "run_race rnd keys outcomes (e # es) w =
     (if wf_resolved w \<noteq> None then w
      else (case wfs_step rnd keys (race_handler outcomes e) w of
              Some w' \<Rightarrow> run_race rnd keys outcomes es w' | None \<Rightarrow> run_race rnd keys outcomes es w))"

definition all_settle :: "nat \<Rightarrow> race_event list" where
  "all_settle n = map Settle [0..<n] @ map Count [0..<n]"

definition sel_waitForSuccess ::
  "(nat \<Rightarrow> rat) \<Rightarrow> race_event list \<Rightarrow> string list \<Rightarrow> (js_error + PartialRelayInfo) list \<Rightarrow>
   js_error + (PartialRelayInfo option \<times> PartialRelayInfo list \<times> (string \<times> js_error) list)" where
  "sel_waitForSuccess rnd order errorKeys outcomes =
     (case waitForSuccess (length outcomes) errorKeys of Inl e \<Rightarrow> Inl e
      | Inr w \<Rightarrow> (case wf_resolved (run_race rnd errorKeys outcomes (order @ all_settle (length outcomes)) w) of
            Some r \<Rightarrow> Inr r | None \<Rightarrow> Inr (None, [], [])))"

definition handleWaitForSuccessResults ::
  "PartialRelayInfo option \<Rightarrow> (string \<times> js_error) list \<Rightarrow> selection \<Rightarrow> js_error + selection" where
  "handleWaitForSuccessResults winner errors s =
     (if \<not> sel_isInitialized s then Inl (Error ''init() not called'')
      else Inr (s\<lparr>sel_errors := foldl (\<lambda>m (k, e). map_set k e m) (sel_errors s) errors,
             remainingRelays := map (filter (\<lambda>it. map_of errors (relayUrl_of it) = None)
                \<circ> filter (\<lambda>it. case winner of None \<Rightarrow> True | Some w \<Rightarrow> relayUrl_of it \<noteq> relayUrl_of (pi_relayInfo w)))
               (remainingRelays s)\<rparr>))"

section \<open>Choosing the next relay\<close>

record 'w sel_state = "'w ci_state" +
  sl_known :: known_relays
  sl_selection :: selection
  sl_draws :: nat

text \<open>\<open>cl_random k\<close> and \<open>cl_order k\<close> are the random numbers and the order of events of the \<open>k\<close>-th use.\<close>

record 'w sel_env =
  cl_http :: "'w http"
  cl_pingFilter :: "PingResponse \<Rightarrow> GsnTransactionDetails \<Rightarrow> js_error + unit"
  cl_config :: GSNConfig
  cl_random :: "nat \<Rightarrow> nat \<Rightarrow> rat"
  cl_order :: "nat \<Rightarrow> race_event list"

definition next_draw :: "(('w, 'z) sel_state_scheme, nat) eff" where
  "next_draw = bnd (gets sl_draws) (\<lambda>k. bnd (modify (\<lambda>s. s\<lparr>sl_draws := Suc k\<rparr>)) (\<lambda>_. ret k))"

definition ping_race ::
  "('w, 'e) sel_env_scheme \<Rightarrow> GsnTransactionDetails \<Rightarrow> string \<Rightarrow> string option \<Rightarrow> RelayInfoUrl list \<Rightarrow>
   (('w, 'z) sel_state_scheme, PartialRelayInfo option \<times> PartialRelayInfo list \<times> (string \<times> js_error) list) eff" where
  "ping_race env details relayHub paymaster relays =
     (let asArray = unique_relays relays
      in bnd (on_world (map_eff (\<lambda>relay. settled
               (getRelayAddressPing (cl_http env) (\<lambda>p. cl_pingFilter env p details) relayHub paymaster relay)) asArray)) (\<lambda>outcomes.
         bnd next_draw (\<lambda>k.
         lift_result (sel_waitForSuccess (cl_random env k) (cl_order env k) (map relayUrl_of asArray) outcomes))))"

definition nextRelayInternal ::
  "('w, 'e) sel_env_scheme \<Rightarrow> GsnTransactionDetails \<Rightarrow> string \<Rightarrow> string option \<Rightarrow> RelayInfoUrl list \<Rightarrow>
   (('w, 'z) sel_state_scheme, RelayInfo option) eff" where
  "nextRelayInternal env details relayHub paymaster relays =
     bnd (ping_race env details relayHub paymaster relays) (\<lambda>(winner, results, errors).
     bnd (gets (\<lambda>s. handleWaitForSuccessResults winner errors (sl_selection s))) (\<lambda>r.
     bnd (lift_result r) (\<lambda>sel.
     bnd (modify (\<lambda>s. s\<lparr>sl_selection := sel\<rparr>)) (\<lambda>_.
     case winner of None \<Rightarrow> ret None
     | Some w \<Rightarrow> (case pi_relayInfo w of
          FromRegistrar info \<Rightarrow> ret (Some \<lparr>relayInfo = info, pingResponse = pi_pingResponse w\<rparr>)
        | UrlOnly url \<Rightarrow>
            bnd (gets (\<lambda>s. getRelayInfoForManager (sl_known s) (pr_relayManagerAddress (pi_pingResponse w)))) (\<lambda>event.
            ret (case event of None \<Rightarrow> None
              | Some info \<Rightarrow> Some \<lparr>relayInfo = info\<lparr>ri_relayUrl := url\<rparr>, pingResponse = pi_pingResponse w\<rparr>)))))))"

text \<open>
  The loop of \<open>selectNextRelay\<close>; \<open>None\<close> when the fuel is used up. Every turn drops a relay, so one turn more than there
  are relays is enough (\<open>selectNextRelay_returns\<close>).
\<close>

fun select_loop ::
  "('w, 'e) sel_env_scheme \<Rightarrow> GsnTransactionDetails \<Rightarrow> string \<Rightarrow> string option \<Rightarrow> nat \<Rightarrow>
   (('w, 'z) sel_state_scheme, RelayInfo option option) eff" where
  "select_loop env details relayHub paymaster 0 = ret None"
| "select_loop env details relayHub paymaster (Suc fuel) =
     bnd (gets (\<lambda>s. getNextSlice (cl_config env) (sl_selection s))) (\<lambda>r.
     bnd (lift_result r) (\<lambda>slice.
     if slice = [] then ret (Some None)
     else
       bnd (nextRelayInternal env details relayHub paymaster slice) (\<lambda>next. case next of
         None \<Rightarrow> select_loop env details relayHub paymaster fuel
       | Some i \<Rightarrow> ret (Some (Some i)))))"

definition selectNextRelay ::
  "('w, 'e) sel_env_scheme \<Rightarrow> GsnTransactionDetails \<Rightarrow> string \<Rightarrow> string option \<Rightarrow>
   (('w, 'z) sel_state_scheme, RelayInfo option option) eff" where
  "selectNextRelay env details relayHub paymaster =
     bnd (gets (\<lambda>s. Suc (length (relaysLeft (sl_selection s))))) (select_loop env details relayHub paymaster)"

end
