(* ===== verification/ResponseValidator.thy ===== *)
theory ResponseValidator imports ClientConfig Interactor begin

text \<open>
  \<open>packages/provider/src/RelayedTransactionValidator.ts\<close>: what the client checks of the transaction a relay has signed
  and of the transactions that fill the gap of nonces before it. Parsing transactions and the ABI are outside
  (\<open>tx_libs\<close>); a transaction without a valid signature has no sender.
\<close>

datatype gas_kind = LegacyTx int | FeeMarketTx int int | OtherTx

record signed_tx =
  sx_to :: "string option"
  sx_sender :: "js_error + string"
  sx_data :: string
  sx_nonce :: int
  sx_gas :: gas_kind
  sx_hash :: string
  sx_serialized :: string

record tx_libs =
  xl_parse :: "string \<Rightarrow> int \<times> int \<Rightarrow> js_error + signed_tx"
  xl_encode :: "RelayCallABI \<Rightarrow> string"
  xl_relayCallSelector :: string

record GasPriceValidationResult =
  gv_isTransactionTypeValid :: bool
  gv_isFeeMarket1559Transaction :: bool
  gv_isLegacyGasPriceValid :: bool
  gv_isMaxFeePerGasValid :: bool
  gv_isMaxPriorityFeePerGasValid :: bool

datatype TransactionValidationResult = ValidationResult
  (tv_gasPriceValidationResult: GasPriceValidationResult)
  (tv_nonceGapFilledValidationResult: "TransactionValidationResult list")
  (tv_isNonceGapFilledSizeValid: bool) (tv_isTransactionTargetValid: bool) (tv_isTransactionSenderValid: bool)
  (tv_isTransactionContentValid: bool) (tv_isTransactionNonceValid: bool)

definition isGasPriceValid :: "GasPriceValidationResult \<Rightarrow> bool" where
  "isGasPriceValid g \<longleftrightarrow>
     gv_isTransactionTypeValid g
     \<and> (gv_isLegacyGasPriceValid g
        \<or> gv_isFeeMarket1559Transaction g \<and> gv_isMaxFeePerGasValid g \<and> gv_isMaxPriorityFeePerGasValid g)"

fun isTransactionValid :: "TransactionValidationResult \<Rightarrow> bool" where
  "isTransactionValid (ValidationResult gas gap gapSize target sender content nonce) =
     (isGasPriceValid gas \<and> False \<notin> set (map isTransactionValid gap) \<and> target \<and> sender \<and> content \<and> gapSize \<and> nonce)"

section \<open>The checks\<close>

definition parse_transaction :: "tx_libs \<Rightarrow> (int \<times> int) option \<Rightarrow> string \<Rightarrow> js_error + signed_tx" where
  "parse_transaction lib rawTxOptions raw =
     (case rawTxOptions of None \<Rightarrow> Inl (Error ''_init not called'') | Some opts \<Rightarrow> xl_parse lib raw opts)"

definition validateTransactionTarget :: "string option \<Rightarrow> signed_tx \<Rightarrow> bool" where
  "validateTransactionTarget relayHubAddress transaction =
     (case (sx_to transaction, relayHubAddress) of (Some to, Some hub) \<Rightarrow> isSameAddress to hub | _ \<Rightarrow> False)"

definition validateTransactionSender :: "RelayTransactionRequest \<Rightarrow> signed_tx \<Rightarrow> js_error + bool" where
  "validateTransactionSender request transaction =
     map_sum id (isSameAddress (rd_relayWorker (rr_relayData (rtr_relayRequest request)))) (sx_sender transaction)"

definition validateTransactionMethodSignature :: "tx_libs \<Rightarrow> signed_tx \<Rightarrow> bool" where
  "validateTransactionMethodSignature lib transaction = starts_with (xl_relayCallSelector lib) (sx_data transaction)"

definition validateTransactionContent :: "tx_libs \<Rightarrow> RelayTransactionRequest \<Rightarrow> signed_tx \<Rightarrow> bool" where
  "validateTransactionContent lib request transaction \<longleftrightarrow> xl_encode lib (asRelayCallAbi request) = sx_data transaction"

definition validateNonceGapGasPrice :: GasPriceValidationResult where
  "validateNonceGapGasPrice =
     \<lparr>gv_isTransactionTypeValid = True, gv_isFeeMarket1559Transaction = True, gv_isLegacyGasPriceValid = True,
      gv_isMaxFeePerGasValid = True, gv_isMaxPriorityFeePerGasValid = True\<rparr>"

definition validateGasPrice :: "RelayTransactionRequest \<Rightarrow> signed_tx \<Rightarrow> js_error + GasPriceValidationResult" where
  "validateGasPrice request transaction =
     (let d = rr_relayData (rtr_relayRequest request);
          result = \<lparr>gv_isTransactionTypeValid = True, gv_isFeeMarket1559Transaction = False, gv_isLegacyGasPriceValid = False,
            gv_isMaxFeePerGasValid = False, gv_isMaxPriorityFeePerGasValid = False\<rparr>
      in case sx_gas transaction of
           LegacyTx gasPrice \<Rightarrow>
             map_sum id (\<lambda>fee. result\<lparr>gv_isLegacyGasPriceValid := gasPrice \<ge> fee\<rparr>) (toBN_string (rd_maxFeePerGas d))
         | FeeMarketTx maxFee maxPriorityFee \<Rightarrow>
             (case toBN_string (rd_maxPriorityFeePerGas d) of Inl e \<Rightarrow> Inl e
              | Inr priority \<Rightarrow>
                  map_sum id (\<lambda>fee. result\<lparr>gv_isFeeMarket1559Transaction := True,
                      gv_isMaxPriorityFeePerGasValid := maxPriorityFee \<ge> priority, gv_isMaxFeePerGasValid := maxFee \<ge> fee\<rparr>)
                    (toBN_string (rd_maxFeePerGas d)))
         | OtherTx \<Rightarrow> Inr (result\<lparr>gv_isTransactionTypeValid := False\<rparr>))"

definition validateTransactionInNonceGap ::
  "tx_libs \<Rightarrow> string option \<Rightarrow> RelayTransactionRequest \<Rightarrow> signed_tx \<Rightarrow> int \<Rightarrow> js_error + TransactionValidationResult" where
  "validateTransactionInNonceGap lib hub request transaction expectedNonce =
     map_sum id (\<lambda>senderValid. ValidationResult validateNonceGapGasPrice [] True (validateTransactionTarget hub transaction)
         senderValid (validateTransactionMethodSignature lib transaction) (sx_nonce transaction = expectedNonce))
       (validateTransactionSender request transaction)"

fun validateNonceGapFilled ::
  "tx_libs \<Rightarrow> string option \<Rightarrow> (int \<times> int) option \<Rightarrow> RelayTransactionRequest \<Rightarrow> int \<Rightarrow> string list \<Rightarrow>
   js_error + TransactionValidationResult list" where
  "validateNonceGapFilled lib hub opts request expectedNonce [] = Inr []"
| "validateNonceGapFilled lib hub opts request expectedNonce (raw # rest) =
     (case parse_transaction lib opts raw of Inl e \<Rightarrow> Inl e
      | Inr transaction \<Rightarrow> (case validateTransactionInNonceGap lib hub request transaction expectedNonce of Inl e \<Rightarrow> Inl e
         | Inr v \<Rightarrow> map_sum id (Cons v) (validateNonceGapFilled lib hub opts request (expectedNonce + 1) rest)))"

definition validateRelayResponse ::
  "tx_libs \<Rightarrow> string option \<Rightarrow> (int \<times> int) option \<Rightarrow> RelayTransactionRequest \<Rightarrow> string \<Rightarrow> (string \<times> string) list \<Rightarrow>
   js_error + TransactionValidationResult" where
  "validateRelayResponse lib hub opts request returnedTx nonceGapFilled =
     (case parse_transaction lib opts returnedTx of Inl e \<Rightarrow> Inl e
      | Inr transaction \<Rightarrow>
          (let nonce = sx_nonce transaction; lastKnown = rm_relayLastKnownNonce (rtr_metadata request);
               expectedNonceGapLength = nonce - lastKnown;
               gapSizeValid = (int (length nonceGapFilled) = expectedNonceGapLength);
               targetValid = validateTransactionTarget hub transaction
           in case validateTransactionSender request transaction of Inl e \<Rightarrow> Inl e
              | Inr senderValid \<Rightarrow>
                  (let contentValid = validateTransactionContent lib request transaction
                   in case validateGasPrice request transaction of Inl e \<Rightarrow> Inl e
                      | Inr gas \<Rightarrow>
                          (let nonceValid = (nonce \<le> rm_relayMaxNonce (rtr_metadata request))
                           in map_sum id (\<lambda>gap. ValidationResult gas gap gapSizeValid targetValid senderValid contentValid nonceValid)
                                (validateNonceGapFilled lib hub opts request lastKnown (map snd nonceGapFilled))))))"

section \<open>What a valid response is\<close>

text \<open>A transaction that fills the gap: from the worker to the hub, a relay call, with the nonce that is due.\<close>

definition gap_tx_ok :: "tx_libs \<Rightarrow> string option \<Rightarrow> RelayTransactionRequest \<Rightarrow> int \<Rightarrow> signed_tx \<Rightarrow> bool" where
  "gap_tx_ok lib hub request n tx \<longleftrightarrow>
     sx_nonce tx = n \<and> validateTransactionTarget hub tx \<and> validateTransactionSender request tx = Inr True
     \<and> starts_with (xl_relayCallSelector lib) (sx_data tx)"

definition fees_ok :: "RelayTransactionRequest \<Rightarrow> signed_tx \<Rightarrow> bool" where
  "fees_ok request tx \<longleftrightarrow>
     (case sx_gas tx of
        LegacyTx gasPrice \<Rightarrow> (case toBN_string (rd_maxFeePerGas (rr_relayData (rtr_relayRequest request))) of
          Inr fee \<Rightarrow> fee \<le> gasPrice | Inl _ \<Rightarrow> False)
      | FeeMarketTx maxFee maxPriority \<Rightarrow>
          (case (toBN_string (rd_maxFeePerGas (rr_relayData (rtr_relayRequest request))),
                 toBN_string (rd_maxPriorityFeePerGas (rr_relayData (rtr_relayRequest request)))) of
             (Inr fee, Inr priority) \<Rightarrow> fee \<le> maxFee \<and> priority \<le> maxPriority | _ \<Rightarrow> False)
      | OtherTx \<Rightarrow> False)"

fun gap_ok ::
  "tx_libs \<Rightarrow> string option \<Rightarrow> (int \<times> int) option \<Rightarrow> RelayTransactionRequest \<Rightarrow> int \<Rightarrow> string list \<Rightarrow> bool" where
  "gap_ok lib hub opts request n [] \<longleftrightarrow> True"
| "gap_ok lib hub opts request n (raw # rest) \<longleftrightarrow>
     (case parse_transaction lib opts raw of Inl _ \<Rightarrow> False | Inr tx \<Rightarrow> gap_tx_ok lib hub request n tx)
     \<and> gap_ok lib hub opts request (n + 1) rest"

lemma gap_valid:
  "(case validateNonceGapFilled lib hub opts request n raws of Inl _ \<Rightarrow> False | Inr vs \<Rightarrow> \<forall>v\<in>set vs. isTransactionValid v)
   \<longleftrightarrow> gap_ok lib hub opts request n raws"
proof (induction raws arbitrary: n)
  case (Cons raw rest)
  show ?case
  proof (cases "parse_transaction lib opts raw")
    case (Inr tx)
    then show ?thesis using Cons [of "n + 1"]
      by (cases "validateTransactionSender request tx")
        (auto simp: validateTransactionInNonceGap_def validateNonceGapGasPrice_def isGasPriceValid_def gap_tx_ok_def
            validateTransactionMethodSignature_def split: sum.splits)
  qed simp
qed simp

lemma validate_valid:
  "(case validateRelayResponse lib hub opts request returnedTx gapFilled of Inl _ \<Rightarrow> False | Inr r \<Rightarrow> isTransactionValid r)
   \<longleftrightarrow> (case parse_transaction lib opts returnedTx of Inl _ \<Rightarrow> False
        | Inr tx \<Rightarrow> validateTransactionTarget hub tx \<and> validateTransactionSender request tx = Inr True
            \<and> xl_encode lib (asRelayCallAbi request) = sx_data tx \<and> fees_ok request tx
            \<and> sx_nonce tx \<le> rm_relayMaxNonce (rtr_metadata request)
            \<and> sx_nonce tx = rm_relayLastKnownNonce (rtr_metadata request) + int (length gapFilled)
            \<and> gap_ok lib hub opts request (rm_relayLastKnownNonce (rtr_metadata request)) (map snd gapFilled))"
proof (cases "parse_transaction lib opts returnedTx")
  case (Inr tx)
  have gas: "(case validateGasPrice request tx of Inl _ \<Rightarrow> False | Inr g \<Rightarrow> isGasPriceValid g) \<longleftrightarrow> fees_ok request tx"
    by (auto simp: validateGasPrice_def Let_def isGasPriceValid_def fees_ok_def split: gas_kind.split sum.split)
  show ?thesis
    using gap_valid [of lib hub opts request "rm_relayLastKnownNonce (rtr_metadata request)" "map snd gapFilled"] gas
    by (cases "validateTransactionSender request tx"; cases "validateGasPrice request tx")
      (auto simp: validateRelayResponse_def Inr Let_def validateTransactionContent_def split: sum.splits)
qed (simp add: validateRelayResponse_def)

text \<open>
  C34: the client accepts the answer of a relay exactly when the returned transaction is from the worker of the request to
  the hub, carries the encoded request, offers at least the requested fees, has a nonce that is at most the agreed
  maximum, and the transactions that fill the gap are relay calls of the same worker to the hub with exactly the
  nonces from the last known one up to it.
\<close>

theorem validateRelayResponse_iff:
  "(case validateRelayResponse lib hub opts request returnedTx gapFilled of Inl _ \<Rightarrow> False | Inr r \<Rightarrow> isTransactionValid r)
   \<longleftrightarrow> (case parse_transaction lib opts returnedTx of Inl _ \<Rightarrow> False
        | Inr tx \<Rightarrow> validateTransactionTarget hub tx \<and> validateTransactionSender request tx = Inr True
            \<and> xl_encode lib (asRelayCallAbi request) = sx_data tx \<and> fees_ok request tx
            \<and> sx_nonce tx \<le> rm_relayMaxNonce (rtr_metadata request)
            \<and> sx_nonce tx = rm_relayLastKnownNonce (rtr_metadata request) + int (length gapFilled)
            \<and> gap_ok lib hub opts request (rm_relayLastKnownNonce (rtr_metadata request)) (map snd gapFilled))"
  by (rule validate_valid)

end
