(* ===== verification/Accounts.thy ===== *)
theory Accounts imports DataTypes Interactor begin

text \<open>
  \<open>packages/provider/src/AccountManager.ts\<close>: the keys the client holds and signing with them or with the provider.
  Wallets, signatures and their recovery are outside (\<open>account_libs\<close>).
\<close>

record AccountKeypair =
  ak_privateKey :: string
  ak_address :: string

text \<open>What \<open>signTransaction\<close> reads of the transaction it is given.\<close>

record TransactionToSign =
  ts_chainId :: "int option"
  ts_gasPrice :: "string option"
  ts_gas :: "string option"
  ts_fields :: "(string \<times> string) list"

datatype UnsignedTransaction = LegacyUnsigned TransactionToSign int | FeeMarketUnsigned TransactionToSign int

record 'w account_libs =
  al_toAddress :: "string \<Rightarrow> js_error + string"
  al_generate :: "('w, string) eff"
  al_personalSign :: "string \<Rightarrow> string \<Rightarrow> string"
  al_signTypedData :: "string \<Rightarrow> TypedRequestData \<Rightarrow> js_error + string"
  al_recoverTypedSignature :: "TypedRequestData \<Rightarrow> string \<Rightarrow> js_error + string"
  al_getEip712Signature :: "string \<Rightarrow> bool \<Rightarrow> TypedRequestData \<Rightarrow> ('w, string) eff"
  al_signSerialize :: "string \<Rightarrow> UnsignedTransaction \<Rightarrow> js_error + string"

definition am_addAccount :: "'w account_libs \<Rightarrow> string \<Rightarrow> AccountKeypair list \<Rightarrow> js_error + AccountKeypair \<times> AccountKeypair list" where
  "am_addAccount lib privateKey accounts =
     (case al_toAddress lib privateKey of Inl e \<Rightarrow> Inl e
      | Inr address \<Rightarrow>
          (let keypair = \<lparr>ak_privateKey = privateKey, ak_address = address\<rparr> in Inr (keypair, accounts @ [keypair])))"

definition find_account :: "AccountKeypair list \<Rightarrow> string \<Rightarrow> AccountKeypair option" where
  "find_account accounts from0 = find (\<lambda>account. isSameAddress (ak_address account) from0) accounts"

definition findPrivateKey :: "AccountKeypair list \<Rightarrow> string \<Rightarrow> js_error + string" where
  "findPrivateKey accounts from0 =
     (case find_account accounts from0 of None \<Rightarrow> Inl (Error (''Account '' @ from0 @ '' not found''))
      | Some k \<Rightarrow> Inr (ak_privateKey k))"

definition am_signMessage :: "'w account_libs \<Rightarrow> AccountKeypair list \<Rightarrow> string \<Rightarrow> string \<Rightarrow> js_error + string" where
  "am_signMessage lib accounts message from0 =
     map_sum id (\<lambda>key. al_personalSign lib (removeHexPrefix key) message) (findPrivateKey accounts from0)"

definition check_chainId :: "int \<Rightarrow> TransactionToSign \<Rightarrow> js_error + unit" where
  "check_chainId chainId transactionConfig =
     (case ts_chainId transactionConfig of None \<Rightarrow> Inr ()
      | Some c \<Rightarrow>
          if c \<noteq> chainId then
            Inl (Error (''This provider is initialized for chainId '' @ int_to_string chainId
              @ '' but transaction targets chainId '' @ int_to_string c))
          else Inr ())"

definition am_signTransaction ::
  "'w account_libs \<Rightarrow> int \<Rightarrow> AccountKeypair list \<Rightarrow> TransactionToSign \<Rightarrow> string \<Rightarrow> js_error + string \<times> UnsignedTransaction" where
  "am_signTransaction lib chainId accounts transactionConfig from0 =
     (case check_chainId chainId transactionConfig of Inl e \<Rightarrow> Inl e
      | Inr _ \<Rightarrow>
          (let transaction = (if ts_gasPrice transactionConfig \<noteq> None then LegacyUnsigned transactionConfig chainId
             else FeeMarketUnsigned transactionConfig chainId)
           in case findPrivateKey accounts from0 of Inl e \<Rightarrow> Inl e
              | Inr key \<Rightarrow> map_sum id (\<lambda>raw. (''0x'' @ raw, transaction)) (al_signSerialize lib (removeHexPrefix key) transaction)))"

definition am_signTypedData :: "'w account_libs \<Rightarrow> AccountKeypair list \<Rightarrow> TypedRequestData \<Rightarrow> string \<Rightarrow> js_error + string" where
  "am_signTypedData lib accounts typedMessage from0 =
     (case findPrivateKey accounts from0 of Inl e \<Rightarrow> Inl e
      | Inr key \<Rightarrow> al_signTypedData lib (removeHexPrefix key) typedMessage)"

definition getAccounts :: "AccountKeypair list \<Rightarrow> string list" where
  "getAccounts accounts = map ak_address accounts"

text \<open>Signing a relay request, with the check of the signer that is recovered.\<close>

definition am_sign ::
  "'w account_libs \<Rightarrow> string \<Rightarrow> bool \<Rightarrow> int \<Rightarrow> AccountKeypair list \<Rightarrow> string \<Rightarrow> RelayRequest \<Rightarrow> ('w, string) eff" where
  "am_sign lib methodSuffix jsonStringify chainId accounts domainSeparatorName relayRequest =
     (let sender = fr_from (rr_request relayRequest);
          signedData = newTypedRequestData domainSeparatorName chainId (rd_forwarder (rr_relayData relayRequest))
            (cloneRelayRequest relayRequest)
      in bnd (try_catch
            (bnd (case find_account accounts sender of
                    Some keypair \<Rightarrow> lift_result (al_signTypedData lib (removeHexPrefix (ak_privateKey keypair)) signedData)
                  | None \<Rightarrow> al_getEip712Signature lib methodSuffix jsonStringify signedData) (\<lambda>signature.
             bnd (lift_result (al_recoverTypedSignature lib signedData signature)) (\<lambda>rec.
             ret (signature, rec))))
            (\<lambda>e. throw (''Failed to sign relayed transaction for '' @ sender @ '': Error: '' @ error_message e))) (\<lambda>(signature, rec).
         if \<not> isSameAddress (toLowerCase sender) rec then
           throw (''Internal RelayClient exception: signature is not correct: sender='' @ sender @ '', recovered='' @ rec)
         else ret signature))"

definition am_newAccount :: "'w account_libs \<Rightarrow> AccountKeypair list \<Rightarrow> ('w, AccountKeypair \<times> AccountKeypair list) eff" where
  "am_newAccount lib accounts =
     bnd (al_generate lib) (\<lambda>privateKey.
     bnd (lift_result (am_addAccount lib privateKey accounts)) (\<lambda>(_, accounts').
     bnd (lift_result (al_toAddress lib privateKey)) (\<lambda>address.
     ret (\<lparr>ak_privateKey = privateKey, ak_address = address\<rparr>, accounts'))))"

section \<open>Properties\<close>

text \<open>
  a signature the client hands out is one of the sender: if \<open>sign\<close> returns, the recovered signer of the typed data of
  the request, under the domain and the forwarder of the request, is the sender, whoever made the signature.
\<close>

theorem sign_recovers_sender:
  "case am_sign lib suffix json chainId accounts domain req w of (Inl _, _) \<Rightarrow> True
   | (Inr signature, _) \<Rightarrow>
       (case al_recoverTypedSignature lib
          (newTypedRequestData domain chainId (rd_forwarder (rr_relayData req)) (cloneRelayRequest req)) signature of
          Inl _ \<Rightarrow> False | Inr rec \<Rightarrow> isSameAddress (fr_from (rr_request req)) rec)"
proof -
  have recovered: "wp (bnd m (\<lambda>signature. bnd (lift_result (r signature)) (\<lambda>rec. ret (signature, rec))))
    (\<lambda>(signature, rec) _. r signature = Inr rec) (\<lambda>_ _. True) w" for m :: "('a, string) eff" and r :: "string \<Rightarrow> js_error + string"
    by (rule wp_skip wp_lift_step | simp add: wp_ret)+
  have "wp (am_sign lib suffix json chainId accounts domain req)
    (\<lambda>signature _. case al_recoverTypedSignature lib
          (newTypedRequestData domain chainId (rd_forwarder (rr_relayData req)) (cloneRelayRequest req)) signature of
          Inl _ \<Rightarrow> False | Inr rec \<Rightarrow> isSameAddress (fr_from (rr_request req)) rec) (\<lambda>_ _. True) w"
    unfolding am_sign_def Let_def wp_bnd [of "try_catch _ _"] wp_try_catch
    by (rule wp_mono [OF recovered]) (auto simp: wp_simps)
  then show ?thesis by (simp add: wp_def split: prod.splits sum.splits)
qed

lemma find_account_added:
  "find_account (accounts @ [k]) a = (case find_account accounts a of Some x \<Rightarrow> Some x
     | None \<Rightarrow> if isSameAddress (ak_address k) a then Some k else None)"
  by (induction accounts) (auto simp: find_account_def)

text \<open>
  after adding a key, messages of its address are signed with a key of that address, the first that was added for it,
  and the keys of all other addresses stay the same.
\<close>

theorem addAccount_finds:
  assumes "am_addAccount lib key accounts = Inr (kp, accounts')"
  shows "findPrivateKey accounts' a =
    (if isSameAddress (ak_address kp) a \<and> find_account accounts a = None then Inr key else findPrivateKey accounts a)
    \<and> al_toAddress lib key = Inr (ak_address kp)"
  using assms
  by (auto simp: am_addAccount_def Let_def findPrivateKey_def find_account_added split: sum.splits option.splits if_splits)

definition sample_account_libs :: "unit account_libs" where
  "sample_account_libs = \<lparr>al_toAddress = (\<lambda>k. Inr (''0x'' @ drop 2 k)), al_generate = ret ''0x77'',
     al_personalSign = (\<lambda>k m. k @ m), al_signTypedData = (\<lambda>k d. Inr (''0x'' @ k)),
     al_recoverTypedSignature = (\<lambda>d s. Inr s), al_getEip712Signature = (\<lambda>_ _ _. throw ''no provider''),
     al_signSerialize = (\<lambda>k t. Inr k)\<rparr>"

theorem addAccount_finds_witness:
  "findPrivateKey [\<lparr>ak_privateKey = ''0xa1'', ak_address = ''0xa1''\<rparr>] ''0xa1'' = Inr ''0xa1''
   \<and> al_toAddress sample_account_libs ''0xa1'' = Inr ''0xa1''"
  using addAccount_finds [of sample_account_libs "''0xa1''" "[]" "\<lparr>ak_privateKey = ''0xa1'', ak_address = ''0xa1''\<rparr>"
      "[\<lparr>ak_privateKey = ''0xa1'', ak_address = ''0xa1''\<rparr>]" "''0xa1''"]
  by (simp add: am_addAccount_def sample_account_libs_def find_account_def Let_def)

end
