(* ===== verification/RelayClient.thy ===== *)
theory RelayClient imports RelaySelection ResponseValidator Accounts InteractorInit begin

text \<open>
  \<open>packages/provider/src/RelayClient.ts\<close>: preparing a relay request, trying relays one after another, and checking and
  broadcasting what a relay returns; \<open>packages/provider/src/GsnEvents.ts\<close>. The state extends the one of the choice of
  relays by the accounts and the events that were emitted; \<open>rc_relayRequest\<close> is the request object that
  \<open>fillRelayInfo\<close> changes in place. The audit a relaying attempt starts runs on its own: the attempt records which
  transaction it was started for, and \<open>auditTransaction\<close> is what it does.
\<close>

section \<open>Events, configuration, state\<close>

datatype GsnEvent =
    GsnInitEvent | GsnRefreshRelaysEvent | GsnDoneRefreshRelaysEvent nat | GsnNextRelayEvent string | GsnSignRequestEvent
  | GsnValidateRequestEvent | GsnSendToRelayerEvent string | GsnRelayerResponseEvent bool

fun event_step :: "GsnEvent \<Rightarrow> nat" where
  "event_step GsnInitEvent = 0"
| "event_step GsnRefreshRelaysEvent = 1"
| "event_step (GsnDoneRefreshRelaysEvent n) = 2"
| "event_step (GsnNextRelayEvent u) = 3"
| "event_step GsnSignRequestEvent = 4"
| "event_step GsnValidateRequestEvent = 5"
| "event_step (GsnSendToRelayerEvent u) = 6"
| "event_step (GsnRelayerResponseEvent b) = 7"

record 'w rc_state = "'w sel_state" +
  rc_initialized :: bool
  rc_accounts :: "AccountKeypair list"
  rc_events :: "GsnEvent list"
  rc_relayRequest :: RelayRequest

record 'w rc_env = "'w sel_env" +
  rc_chain :: "'w chain"
  rc_lib :: libs
  rc_interactor :: interactor_config
  rc_erc165 :: erc165_ids
  rc_txLib :: tx_libs
  rc_accountLib :: "'w account_libs"
  rc_chainId :: int
  rc_urlProtocol :: "string \<Rightarrow> string option"
  rc_relayFilter :: "RegistrarRelayInfo \<Rightarrow> bool"
  rc_asyncApprovalData :: "RelayRequest \<Rightarrow> ('w, string) eff"
  rc_asyncPaymasterData :: "RelayRequest \<Rightarrow> ('w, string) eff"
  rc_now :: "'w \<Rightarrow> int"
  rc_hash :: "string \<Rightarrow> string \<Rightarrow> string \<Rightarrow> string"
  rc_getReceipt :: "string \<Rightarrow> ('w, bool) eff"
  rc_pendingTransactions :: "('w, string list) eff"
  rc_sendSigned :: "string \<Rightarrow> ('w, unit) eff"

text \<open>\<open>_resolveConfiguration\<close>: the objects are spread over each other, the client's own without its null values.\<close>

definition spread :: "(string \<times> js_val) list \<Rightarrow> (string \<times> js_val) list \<Rightarrow> (string \<times> js_val) list" where
  "spread m fs = foldl (\<lambda>m (k, v). map_set k v m) m fs"

definition resolveConfigurationFromServer :: "'w http \<Rightarrow> int \<Rightarrow> string \<Rightarrow> ('w, (string \<times> js_val) list) eff" where
  "resolveConfigurationFromServer http chainId clientDefaultConfigUrl =
     try_catch
       (bnd (getNetworkConfiguration http clientDefaultConfigUrl) (\<lambda>networks. ret (case map_of networks chainId of
          Some (JObj gsnConfig) \<Rightarrow> gsnConfig | _ \<Rightarrow> [])))
       (\<lambda>_. ret [])"

definition resolveConfiguration ::
  "'w http \<Rightarrow> int \<Rightarrow> (string \<times> js_val) list \<Rightarrow> (string \<times> js_val) list \<Rightarrow> ('w, (string \<times> js_val) list) eff" where
  "resolveConfiguration http chainId defaults config =
     (let useDefaultUrl = (case map_of config ''useClientDefaultConfigUrl'' of
            Some (JBool b) \<Rightarrow> b | _ \<Rightarrow> map_of defaults ''useClientDefaultConfigUrl'' = Some (JBool True))
      in bnd (if useDefaultUrl then resolveConfigurationFromServer http chainId
               (case map_of defaults ''clientDefaultConfigUrl'' of Some (JStr u) \<Rightarrow> u | _ \<Rightarrow> [])
             else ret []) (\<lambda>configFromServer.
         ret (spread (spread defaults configFromServer) (remove_null_fields False config))))"

definition emit :: "GsnEvent \<Rightarrow> (('w, 'z) rc_state_scheme, unit) eff" where
  "emit e = modify (\<lambda>s. s\<lparr>rc_events := rc_events s @ [e]\<rparr>)"

definition client_init :: "('w, 'e) rc_env_scheme \<Rightarrow> (('w, 'z) rc_state_scheme, unit) eff" where
  "client_init env =
     bnd (gets rc_initialized) (\<lambda>initialized.
     if initialized then throw ''init() already called''
     else
       bnd (emit GsnInitEvent) (\<lambda>_.
       bnd (ci_init (rc_chain env) (rc_lib env) (rc_interactor env)) (\<lambda>_.
       bnd (when_eff (\<not> gc_skipErc165Check (cl_config env)) (validateERC165InterfacesClient (rc_chain env) (rc_erc165 env) False)) (\<lambda>_.
       modify (\<lambda>s. s\<lparr>rc_initialized := True\<rparr>)))))"

definition GasPricePingFilter :: "PingResponse \<Rightarrow> GsnTransactionDetails \<Rightarrow> js_error + unit" where
  "GasPricePingFilter ping details =
     (if js_less (parseInt (td_maxPriorityFeePerGas details)) (parseInt (pr_minMaxPriorityFeePerGas ping)) then
        Inl (Error (''Proposed priority gas fee: '' @ num_to_string (parseInt (td_maxPriorityFeePerGas details))
          @ ''; relay's minMaxPriorityFeePerGas: '' @ pr_minMaxPriorityFeePerGas ping))
      else if js_less (parseInt (pr_maxMaxFeePerGas ping)) (parseInt (td_maxFeePerGas details)) then
        Inl (Error (''Proposed fee per gas: '' @ num_to_string (parseInt (td_maxFeePerGas details))
          @ ''; relay's configured maxMaxFeePerGas: '' @ pr_maxMaxFeePerGas ping))
      else if js_less (parseInt (td_maxFeePerGas details)) (parseInt (pr_minMaxFeePerGas ping)) then
        Inl (Error (''Proposed fee per gas: '' @ num_to_string (parseInt (td_maxFeePerGas details))
          @ ''; relay's minMaxFeePerGas: '' @ pr_minMaxFeePerGas ping))
      else Inr ())"

text \<open>The fees as hex strings; a base fee that is not known gives \<open>0xNaN\<close>.\<close>

definition client_calculateGasFees :: "('w, 'e) rc_env_scheme \<Rightarrow> (('w, 'z) rc_state_scheme, string \<times> string) eff" where
  "client_calculateGasFees env =
     (let cfg = cl_config env; pct = gc_gasPriceFactorPercent cfg
      in bnd (getGasFees (rc_chain env) (rc_interactor env) (gc_getGasFeesBlocks cfg) (gc_getGasFeesPercentile cfg)) (\<lambda>(baseFee, nodePriority).
         let fromNode = math_round (of_int (nodePriority * (pct + 100)) / 100);
             priorityFee = (case gc_minMaxPriorityFeePerGas cfg of Some m \<Rightarrow> if fromNode < m then m else fromNode | None \<Rightarrow> fromNode);
             maxPriorityFeePerGas = int_to_hex priorityFee;
             maxFee = map_option (\<lambda>b. math_round (of_int ((b + priorityFee) * (pct + 100)) / 100)) baseFee
         in ret (case maxFee of None \<Rightarrow> ''0xNaN'' | Some m \<Rightarrow> if m = 0 then maxPriorityFeePerGas else int_to_hex m,
                 maxPriorityFeePerGas)))"

section \<open>Broadcasting\<close>

record broadcast_result =
  br_hasReceipt :: bool
  br_broadcastError :: "js_error option"
  br_wrongNonce :: bool

definition isAlreadySubmitted :: "('w, 'e) rc_env_scheme \<Rightarrow> string \<Rightarrow> (('w, 'z) rc_state_scheme, bool) eff" where
  "isAlreadySubmitted env txHash =
     bnd (on_world (rc_getReceipt env txHash)) (\<lambda>mined.
     bnd (on_world (rc_pendingTransactions env)) (\<lambda>pending.
     ret (mined \<or> txHash \<in> set pending)))"

definition broadcastRawTx :: "('w, 'e) rc_env_scheme \<Rightarrow> signed_tx \<Rightarrow> (('w, 'z) rc_state_scheme, broadcast_result) eff" where
  "broadcastRawTx env transaction =
     try_catch
       (bnd (isAlreadySubmitted env (sx_hash transaction)) (\<lambda>submitted.
        let ok = \<lparr>br_hasReceipt = True, br_broadcastError = None, br_wrongNonce = False\<rparr>
        in if submitted then ret ok
           else bnd (on_world (rc_sendSigned env (sx_serialized transaction))) (\<lambda>_. ret ok)))
       (\<lambda>e. ret \<lparr>br_hasReceipt = False, br_broadcastError = Some e,
          br_wrongNonce = (str_includes ''the tx doesn't have the correct nonce'' (error_message e)
            \<or> str_includes ''known transaction'' (error_message e))\<rparr>)"

section \<open>The request\<close>

definition estimation_of :: "GsnTransactionDetails \<Rightarrow> TransactionConfig" where
  "estimation_of d = \<lparr>tc_from = td_from d, tc_to = td_to d, tc_data = td_data d, tc_value = td_value d,
     tc_maxFeePerGas = Some (td_maxFeePerGas d), tc_maxPriorityFeePerGas = Some (td_maxPriorityFeePerGas d)\<rparr>"

definition prepareRelayRequest ::
  "('w, 'e) rc_env_scheme \<Rightarrow> GsnTransactionDetails \<Rightarrow> (('w, 'z) rc_state_scheme, RelayRequest) eff" where
  "prepareRelayRequest env details =
     bnd (gets ci_deployment) (\<lambda>d. case (dep_relayHubAddress d, dep_paymasterAddress d, dep_forwarderAddress d) of
       (Some _, Some paymaster, Some forwarder) \<Rightarrow>
         bnd (getSenderNonce (rc_chain env) (td_from details) forwarder) (\<lambda>senderNonce.
         case td_gas details of None \<Rightarrow>
           throw ''RelayClient internal exception.  gas fees or gas limit still not calculated. Cannot happen.''
         | Some gasLimitHex \<Rightarrow>
           if \<not> starts_with ''0x'' (td_maxFeePerGas details) then
             throw (''Invalid maxFeePerGas hex string: '' @ td_maxFeePerGas details)
           else if \<not> starts_with ''0x'' (td_maxPriorityFeePerGas details) then
             throw (''Invalid maxPriorityFeePerGas hex string: '' @ td_maxPriorityFeePerGas details)
           else if \<not> starts_with ''0x'' gasLimitHex then throw (''Invalid gasLimit hex string: '' @ gasLimitHex)
           else
             bnd (gets (\<lambda>s. math_round (of_int (rc_now env (world s)) / 1000))) (\<lambda>secondsNow.
             let request = \<lparr>fr_from = td_from details, fr_to = td_to details, fr_data = td_data details,
                   fr_value = (case td_value details of Some v \<Rightarrow> v | None \<Rightarrow> ''0''), fr_nonce = senderNonce,
                   fr_gas = num_to_string (parseInt16 gasLimitHex),
                   fr_validUntilTime = int_to_string (secondsNow + gc_requestValidSeconds (cl_config env))\<rparr>;
                 relayData = \<lparr>rd_maxFeePerGas = num_to_string (parseInt16 (td_maxFeePerGas details)),
                   rd_maxPriorityFeePerGas = num_to_string (parseInt16 (td_maxPriorityFeePerGas details)),
                   rd_transactionCalldataGasUsed = [], rd_relayWorker = [], rd_paymaster = paymaster, rd_paymasterData = [],
                   rd_clientId = gc_clientId (cl_config env), rd_forwarder = forwarder\<rparr>
             in bnd (on_world (rc_asyncPaymasterData env \<lparr>rr_request = request, rr_relayData = relayData\<rparr>)) (\<lambda>paymasterData.
                ret \<lparr>rr_request = request, rr_relayData = relayData\<lparr>rd_paymasterData := paymasterData\<rparr>\<rparr>)))
     | _ \<Rightarrow> throw ''Contract addresses are not initialized!'')"

text \<open>The worker and the calldata cost; both overwrite what an earlier relay left.\<close>

definition with_relay :: "('w, 'e) rc_env_scheme \<Rightarrow> string \<Rightarrow> RelayRequest \<Rightarrow> RelayRequest" where
  "with_relay env relayWorker r =
     (let r' = r\<lparr>rr_relayData := (rr_relayData r)\<lparr>rd_relayWorker := relayWorker\<rparr>\<rparr>
      in r'\<lparr>rr_relayData := (rr_relayData r')\<lparr>rd_transactionCalldataGasUsed :=
           estimateCalldataCostForRequest (rc_lib env) (rc_interactor env) r'
             (nat (gc_maxApprovalDataLength (cl_config env))) (nat (gc_maxPaymasterDataLength (cl_config env)))\<rparr>\<rparr>)"

definition fillRelayInfo :: "('w, 'e) rc_env_scheme \<Rightarrow> string \<Rightarrow> (('w, 'z) rc_state_scheme, unit) eff" where
  "fillRelayInfo env relayWorker = modify (\<lambda>s. s\<lparr>rc_relayRequest := with_relay env relayWorker (rc_relayRequest s)\<rparr>)"

definition prepareRelayHttpRequest ::
  "('w, 'e) rc_env_scheme \<Rightarrow> RelayInfo \<Rightarrow> (('w, 'z) rc_state_scheme, RelayTransactionRequest) eff" where
  "prepareRelayHttpRequest env info =
     (let cfg = cl_config env
      in bnd (emit GsnSignRequestEvent) (\<lambda>_.
         bnd (gets rc_relayRequest) (\<lambda>relayRequest.
         bnd (gets rc_accounts) (\<lambda>accounts.
         bnd (on_world (am_sign (rc_accountLib env) (gc_methodSuffix cfg) (gc_jsonStringifyRequest cfg) (rc_chainId env) accounts
                (gc_domainSeparatorName cfg) relayRequest)) (\<lambda>signature.
         bnd (on_world (rc_asyncApprovalData env relayRequest)) (\<lambda>approvalData.
         bnd (lift_result (toBuffer_length (rd_paymasterData (rr_relayData relayRequest)))) (\<lambda>paymasterDataLength.
         if paymasterDataLength > gc_maxPaymasterDataLength cfg then
           throw ''actual paymasterData larger than maxPaymasterDataLength''
         else
           bnd (lift_result (toBuffer_length approvalData)) (\<lambda>approvalDataLength.
           if approvalDataLength > gc_maxApprovalDataLength cfg then
             throw ''actual approvalData larger than maxApprovalDataLength''
           else
             bnd (getTransactionCount (rc_chain env) (pr_relayWorkerAddress (pingResponse info)) ''latest'') (\<lambda>relayLastKnownNonce.
             bnd (gets ci_deployment) (\<lambda>d.
             ret \<lparr>rtr_relayRequest = relayRequest,
                  rtr_metadata = \<lparr>rm_approvalData = approvalData,
                    rm_relayHubAddress = (case dep_relayHubAddress d of Some h \<Rightarrow> h | None \<Rightarrow> []),
                    rm_relayLastKnownNonce = relayLastKnownNonce, rm_relayMaxNonce = relayLastKnownNonce + gc_maxRelayNonceGap cfg,
                    rm_signature = signature, rm_maxAcceptanceBudget = pr_maxAcceptanceBudget (pingResponse info),
                    rm_domainSeparatorName = gc_domainSeparatorName cfg\<rparr>\<rparr>))))))))))"

section \<open>View calls\<close>

definition quote :: "string \<Rightarrow> string" where
  "quote s = [CHR 0x27] @ s @ [CHR 0x27]"

definition verifyViewCallSuccessful ::
  "('w, 'e) rc_env_scheme \<Rightarrow> RelayCallABI \<Rightarrow> bool \<Rightarrow> (('w, 'z) rc_state_scheme, js_error option) eff" where
  "verifyViewCallSuccessful env relayCallABI isDryRun =
     bnd (lift_result (toBN_string (gc_maxViewableGasLimit (cl_config env)))) (\<lambda>gasLimit.
     bnd (validateRelayCall (rc_chain env) (rc_lib env) relayCallABI gasLimit isDryRun) (\<lambda>r.
     if \<not> vc_paymasterAccepted r \<or> vc_recipientReverted r then
       (let run = (if isDryRun then ''DRY-RUN'' else ''local'');
            message = (if vc_relayHubReverted r then run @ '' view call to '' @ quote ''relayCall()'' @ '' reverted''
              else if vc_recipientReverted r then
                ''paymaster accepted but recipient reverted in '' @ run @ '' view call to '' @ quote ''relayCall()''
              else ''paymaster rejected in '' @ run @ '' view call to '' @ quote ''relayCall()'');
            hint = (if isDryRun then [CHR 0x0A]
                @ ''(You can set '' @ quote ''performDryRunViewRelayCall'' @ '' to '' @ quote ''false'' @ '' if your want to skip the DRY-RUN step)'' @ [CHR 0x0A]
                @ ''Reported reason: ''
              else [])
        in bnd (lift_result (decodeRevertReason (lib_decodeString (rc_lib env)) (Some (vc_returnValue r)) False)) (\<lambda>reason.
           ret (Some (Error (message @ hint @ '': '' @ (case reason of Some x \<Rightarrow> x | None \<Rightarrow> ''null''))))))
     else ret None))"

definition verifyDryRunSuccessful :: "('w, 'e) rc_env_scheme \<Rightarrow> (('w, 'z) rc_state_scheme, js_error option) eff" where
  "verifyDryRunSuccessful env =
     bnd (fillRelayInfo env DRY_RUN_ADDRESS) (\<lambda>_.
     bnd (gets rc_relayRequest) (\<lambda>relayRequest.
     verifyViewCallSuccessful env
       \<lparr>abi_domainSeparatorName = gc_domainSeparatorName (cl_config env), abi_signature = ''0x'', abi_relayRequest = relayRequest,
        abi_approvalData = ''0x'', abi_maxAcceptanceBudget = gc_maxViewableGasLimit (cl_config env)\<rparr> True))"

section \<open>One attempt\<close>

text \<open>An audit that was started: the signed transaction and the URL of the relay that signed it.\<close>

record RelayingAttempt =
  ra_relayRequestID :: "string option"
  ra_validUntilTime :: "string option"
  ra_transaction :: "signed_tx option"
  ra_isRelayError :: bool
  ra_error :: "js_error option"
  ra_audit :: "(string \<times> string) option"

definition attempt_failed :: "js_error \<Rightarrow> bool \<Rightarrow> (string \<times> string) option \<Rightarrow> RelayingAttempt" where
  "attempt_failed e isRelayError audit =
     \<lparr>ra_relayRequestID = None, ra_validUntilTime = None, ra_transaction = None, ra_isRelayError = isRelayError,
      ra_error = Some e, ra_audit = audit\<rparr>"

definition send_to_relay ::
  "('w, 'e) rc_env_scheme \<Rightarrow> string \<Rightarrow> RelayTransactionRequest \<Rightarrow>
   (('w, 'z) rc_state_scheme, string \<times> (string \<times> string) list \<times> signed_tx) eff" where
  "send_to_relay env relayUrl httpRequest =
     bnd (on_world (http_relayTransaction (cl_http env) relayUrl httpRequest)) (\<lambda>(signedTx, nonceGapFilled).
     bnd (gets ci_rawTxOptions) (\<lambda>opts.
     bnd (lift_result (parse_transaction (rc_txLib env) opts signedTx)) (\<lambda>transaction.
     ret (signedTx, nonceGapFilled, transaction))))"

definition save_failure :: "('w, 'e) rc_env_scheme \<Rightarrow> RelayInfo \<Rightarrow> (('w, 'z) rc_state_scheme, unit) eff" where
  "save_failure env info =
     modify (\<lambda>s. s\<lparr>sl_known := saveRelayFailure (rc_now env (world s)) (ri_relayManager (relayInfo info))
       (ri_relayUrl (relayInfo info)) (sl_known s)\<rparr>)"

fun js_join :: "string \<Rightarrow> string list \<Rightarrow> string" where
  "js_join sep [] = []"
| "js_join sep [x] = x"
| "js_join sep (x # y # xs) = x @ sep @ js_join sep (y # xs)"

text \<open>\<open>JSON.stringify\<close> of the results of the validation, which goes into the message of the error.\<close>

fun show_validation :: "TransactionValidationResult \<Rightarrow> string" where
  "show_validation (ValidationResult gas gap gapSize target sender content nonce) =
     (let b = (\<lambda>x. if x then ''true'' else ''false'')
      in ''{\"gasPriceValidationResult\":{\"isTransactionTypeValid\":'' @ b (gv_isTransactionTypeValid gas)
         @ '',\"isFeeMarket1559Transaction\":'' @ b (gv_isFeeMarket1559Transaction gas)
         @ '',\"isLegacyGasPriceValid\":'' @ b (gv_isLegacyGasPriceValid gas)
         @ '',\"isMaxFeePerGasValid\":'' @ b (gv_isMaxFeePerGasValid gas)
         @ '',\"isMaxPriorityFeePerGasValid\":'' @ b (gv_isMaxPriorityFeePerGasValid gas)
         @ ''},\"isTransactionTargetValid\":'' @ b target @ '',\"isTransactionSenderValid\":'' @ b sender
         @ '',\"isTransactionContentValid\":'' @ b content @ '',\"isTransactionNonceValid\":'' @ b nonce
         @ '',\"isNonceGapFilledSizeValid\":'' @ b gapSize @ '',\"nonceGapFilledValidationResult\":[''
         @ js_join '','' (map show_validation gap) @ '']}'')"

definition check_response ::
  "('w, 'e) rc_env_scheme \<Rightarrow> RelayInfo \<Rightarrow> RelayTransactionRequest \<Rightarrow> string \<Rightarrow> string \<times> (string \<times> string) list \<times> signed_tx \<Rightarrow>
   (('w, 'z) rc_state_scheme, RelayingAttempt) eff" where
  "check_response env info httpRequest relayRequestID = (\<lambda>(signedTx, nonceGapFilled, transaction).
     bnd (gets (\<lambda>s. validateRelayResponse (rc_txLib env) (dep_relayHubAddress (ci_deployment s)) (ci_rawTxOptions s)
            httpRequest signedTx nonceGapFilled)) (\<lambda>r.
     bnd (lift_result r) (\<lambda>validationResponse.
     let audit = Some (signedTx, ri_relayUrl (relayInfo info))
     in if \<not> isTransactionValid validationResponse then
          bnd (emit (GsnRelayerResponseEvent False)) (\<lambda>_.
          bnd (save_failure env info) (\<lambda>_.
          ret (attempt_failed (Error (''Transaction response verification failed. Validation results: ''
            @ show_validation validationResponse)) True audit)))
        else
          bnd (emit (GsnRelayerResponseEvent True)) (\<lambda>_.
          bnd (broadcastRawTx env transaction) (\<lambda>_.
          ret \<lparr>ra_relayRequestID = Some relayRequestID,
               ra_validUntilTime = Some (fr_validUntilTime (rr_request (rtr_relayRequest httpRequest))),
               ra_transaction = Some transaction, ra_isRelayError = False, ra_error = None, ra_audit = audit\<rparr>)))))"

definition attemptRelay :: "('w, 'e) rc_env_scheme \<Rightarrow> RelayInfo \<Rightarrow> (('w, 'z) rc_state_scheme, RelayingAttempt) eff" where
  "attemptRelay env info =
     bnd (fillRelayInfo env (pr_relayWorkerAddress (pingResponse info))) (\<lambda>_.
     bnd (prepareRelayHttpRequest env info) (\<lambda>httpRequest.
     bnd (emit GsnValidateRequestEvent) (\<lambda>_.
     bnd (verifyViewCallSuccessful env (asRelayCallAbi httpRequest) False) (\<lambda>error. case error of
       Some e \<Rightarrow> ret (attempt_failed e False None)
     | None \<Rightarrow>
         bnd (emit (GsnSendToRelayerEvent (ri_relayUrl (relayInfo info)))) (\<lambda>_.
         let request = rr_request (rtr_relayRequest httpRequest);
             relayRequestID = getRelayRequestID (rc_hash env) (fr_from request) (fr_nonce request) (rm_signature (rtr_metadata httpRequest))
         in bnd (settled (send_to_relay env (ri_relayUrl (relayInfo info)) httpRequest)) (\<lambda>sent. case sent of
              Inl e \<Rightarrow>
                bnd (when_eff (str_includes ''timeout'' (error_message e)) (save_failure env info)) (\<lambda>_.
                ret (attempt_failed e True None))
            | Inr response \<Rightarrow> check_response env info httpRequest relayRequestID response))))))"

section \<open>Audits\<close>

fun audit_loop ::
  "'w http \<Rightarrow> string \<Rightarrow> string list \<Rightarrow> nat \<Rightarrow> ('w, AuditResponse option \<times> nat) eff" where
  "audit_loop http hexTransaction [] failed = ret (None, failed)"
| "audit_loop http hexTransaction (auditor # rest) failed =
     bnd (settled (http_auditTransaction http auditor hexTransaction)) (\<lambda>r. case r of
       Inl _ \<Rightarrow> audit_loop http hexTransaction rest (Suc failed)
     | Inr penalizeResponse \<Rightarrow>
         if au_commitTxHash penalizeResponse \<noteq> None then ret (Some penalizeResponse, failed)
         else audit_loop http hexTransaction rest failed)"

text \<open>\<open>None\<close> when the drawing of auditors does not end.\<close>

definition auditTransaction ::
  "('w, 'e) rc_env_scheme \<Rightarrow> string \<Rightarrow> string \<Rightarrow> (('w, 'z) rc_state_scheme, AuditResponse option) eff" where
  "auditTransaction env hexTransaction sourceRelayUrl =
     bnd next_draw (\<lambda>k.
     bnd (gets (\<lambda>s. getAuditors (cl_config env) (cl_random env k) [sourceRelayUrl] (sl_known s))) (\<lambda>drawn.
     case drawn of None \<Rightarrow> ret None
     | Some auditors \<Rightarrow>
         bnd (on_world (audit_loop (cl_http env) hexTransaction auditors 0)) (\<lambda>(found, failed).
         ret (Some (case found of Some penalizeResponse \<Rightarrow> penalizeResponse
           | None \<Rightarrow> \<lparr>au_commitTxHash = None, au_message = Some (''Transaction was not audited. Failed audit calls: ''
               @ int_to_string (int failed) @ ''/'' @ int_to_string (int (length auditors)))\<rparr>)))))"

section \<open>Relaying\<close>

record RelayingResult =
  rg_relayRequestID :: "string option"
  rg_submissionBlock :: "int option"
  rg_validUntilTime :: "string option"
  rg_transaction :: "signed_tx option"
  rg_pingErrors :: "(string \<times> js_error) list"
  rg_relayingErrors :: "(string \<times> js_error) list"
  rg_auditPromises :: "(string \<times> string) list"

definition no_relay_result :: "(string \<times> js_error) list \<Rightarrow> RelayingResult" where
  "no_relay_result errors =
     \<lparr>rg_relayRequestID = None, rg_submissionBlock = None, rg_validUntilTime = None, rg_transaction = None,
      rg_pingErrors = [], rg_relayingErrors = errors, rg_auditPromises = []\<rparr>"

text \<open>\<open>knownRelaysManager.refresh()\<close>: if the registrar cannot be read the rest is refreshed all the same.\<close>

definition refresh_known :: "('w, 'e) rc_env_scheme \<Rightarrow> (('w, 'z) rc_state_scheme, unit) eff" where
  "refresh_known env =
     (let cfg = cl_config env
      in bnd (modify (\<lambda>s. s\<lparr>sl_known := (refreshFailures cfg (rc_now env (world s)) (sl_known s))
              \<lparr>kr_preferredRelayers := gc_preferredRelays cfg\<rparr>\<rparr>)) (\<lambda>_.
         bnd (getRegisteredRelays (rc_chain env)) (\<lambda>registered.
         modify (\<lambda>s. s\<lparr>sl_known := (sl_known s)\<lparr>kr_allRelayers := filter_relays cfg (rc_relayFilter env) registered\<rparr>\<rparr>))))"

definition start_selection :: "('w, 'e) rc_env_scheme \<Rightarrow> (('w, 'z) rc_state_scheme, unit) eff" where
  "start_selection env =
     bnd next_draw (\<lambda>k1. bnd next_draw (\<lambda>k2.
     modify (\<lambda>s. s\<lparr>sl_selection := sel_init
       (getRelaysShuffledForTransaction (rc_urlProtocol env) (cl_random env k1) (cl_random env k2) (sl_known s)) new_selection\<rparr>)))"

text \<open>
  The loop over relays. Every turn uses up the URL of a relay, so one turn more than there are relays is enough;
  without one the result would be \<open>None\<close> (\<open>relayTransaction_returns\<close>). The second fuel, of the choice, gives \<open>None\<close> too.
\<close>

fun relay_loop ::
  "('w, 'e) rc_env_scheme \<Rightarrow> GsnTransactionDetails \<Rightarrow> string option \<Rightarrow> int \<Rightarrow> nat \<Rightarrow> (string \<times> js_error) list \<Rightarrow>
   (string \<times> string) list \<Rightarrow> (('w, 'z) rc_state_scheme, RelayingResult option) eff" where
  "relay_loop env details paymaster submissionBlock 0 errors audits = ret None"
| "relay_loop env details paymaster submissionBlock (Suc fuel) errors audits =
     bnd (gets (\<lambda>s. case dep_relayHubAddress (ci_deployment s) of Some h \<Rightarrow> h | None \<Rightarrow> [])) (\<lambda>relayHub.
     bnd (selectNextRelay env details relayHub paymaster) (\<lambda>selected.
     let result = (\<lambda>attempt errors audits. bnd (gets (sel_errors \<circ> sl_selection)) (\<lambda>pingErrors.
           ret (Some \<lparr>rg_relayRequestID = Option.bind attempt ra_relayRequestID, rg_submissionBlock = Some submissionBlock,
             rg_validUntilTime = Option.bind attempt ra_validUntilTime, rg_transaction = Option.bind attempt ra_transaction,
             rg_pingErrors = pingErrors, rg_relayingErrors = errors, rg_auditPromises = audits\<rparr>)))
     in case selected of
          None \<Rightarrow> ret None
        | Some None \<Rightarrow> result None errors audits
        | Some (Some activeRelay) \<Rightarrow>
            (let url = ri_relayUrl (relayInfo activeRelay)
             in bnd (emit (GsnNextRelayEvent url)) (\<lambda>_.
                bnd (settled (attemptRelay env activeRelay)) (\<lambda>r.
                let attempt = (case r of Inl e \<Rightarrow> attempt_failed e False None | Inr a \<Rightarrow> a);
                    audits' = audits @ (case ra_audit attempt of None \<Rightarrow> [] | Some a \<Rightarrow> [a])
                in if ra_transaction attempt = None then
                     (let errors' = map_set url (case ra_error attempt of Some e \<Rightarrow> e
                            | None \<Rightarrow> Error ''No error reason was given'') errors
                      in if ra_isRelayError attempt then relay_loop env details paymaster submissionBlock fuel errors' audits'
                         else result (Some attempt) errors' audits')
                   else result (Some attempt) errors audits')))))"

definition with_hex_fees :: "libs \<Rightarrow> GsnTransactionDetails \<Rightarrow> GsnTransactionDetails" where
  "with_hex_fees lib d =
     d\<lparr>td_maxFeePerGas := lib_toHex lib (td_maxFeePerGas d), td_maxPriorityFeePerGas := lib_toHex lib (td_maxPriorityFeePerGas d)\<rparr>"

definition with_gas ::
  "('w, 'e) rc_env_scheme \<Rightarrow> GsnTransactionDetails \<Rightarrow> (('w, 'z) rc_state_scheme, GsnTransactionDetails) eff" where
  "with_gas env d =
     (if td_gas d = None then
        bnd (estimateGasWithoutCalldata (rc_chain env) (rc_interactor env) (estimation_of d)) (\<lambda>estimated.
        ret (d\<lparr>td_gas := Some (int_to_hex estimated)\<rparr>))
      else ret d)"

definition try_relays ::
  "('w, 'e) rc_env_scheme \<Rightarrow> GsnTransactionDetails \<Rightarrow> (('w, 'z) rc_state_scheme, RelayingResult option) eff" where
  "try_relays env details =
     bnd (start_selection env) (\<lambda>_.
     bnd (gets (length \<circ> relaysLeft \<circ> sl_selection)) (\<lambda>n.
     bnd (emit (GsnDoneRefreshRelaysEvent n)) (\<lambda>_.
     if n = 0 then throw ''no registered relayers''
     else
       bnd (gets (dep_paymasterAddress \<circ> ci_deployment)) (\<lambda>paymaster.
       bnd (getBlockNumberRightNow (rc_chain env)) (\<lambda>submissionBlock.
       relay_loop env details paymaster submissionBlock (Suc n) [] [])))))"

definition dry_run :: "('w, 'e) rc_env_scheme \<Rightarrow> (('w, 'z) rc_state_scheme, js_error option) eff" where
  "dry_run env = (if gc_performDryRunViewRelayCall (cl_config env) then verifyDryRunSuccessful env else ret None)"

definition relayTransaction ::
  "('w, 'e) rc_env_scheme \<Rightarrow> GsnTransactionDetails \<Rightarrow> (('w, 'z) rc_state_scheme, RelayingResult option) eff" where
  "relayTransaction env gsnTransactionDetails =
     bnd (gets rc_initialized) (\<lambda>initialized.
     bnd (when_eff (\<not> initialized) (client_init env)) (\<lambda>_.
     bnd (emit GsnRefreshRelaysEvent) (\<lambda>_.
     bnd (refresh_known env) (\<lambda>_.
     bnd (with_gas env (with_hex_fees (rc_lib env) gsnTransactionDetails)) (\<lambda>details.
     bnd (settled (prepareRelayRequest env details)) (\<lambda>prepared. case prepared of
       Inl e \<Rightarrow> ret (Some (no_relay_result [(DRY_RUN_KEY, e)]))
     | Inr relayRequest \<Rightarrow>
         bnd (modify (\<lambda>s. s\<lparr>rc_relayRequest := relayRequest\<rparr>)) (\<lambda>_.
         bnd (dry_run env) (\<lambda>dryRunError. case dryRunError of
           Some e \<Rightarrow> ret (Some (no_relay_result [(DRY_RUN_KEY, e)]))
         | None \<Rightarrow> try_relays env details))))))))"

definition verifyInitialized :: "(('w, 'z) rc_state_scheme, unit) eff" where
  "verifyInitialized =
     bnd (gets rc_initialized) (\<lambda>i. if \<not> i then throw ''not initialized. must call RelayClient.init()'' else ret ())"

definition client_newAccount :: "('w, 'e) rc_env_scheme \<Rightarrow> (('w, 'z) rc_state_scheme, AccountKeypair) eff" where
  "client_newAccount env =
     bnd verifyInitialized (\<lambda>_.
     bnd (gets rc_accounts) (\<lambda>accounts.
     bnd (on_world (am_newAccount (rc_accountLib env) accounts)) (\<lambda>(keypair, accounts').
     bnd (modify (\<lambda>s. s\<lparr>rc_accounts := accounts'\<rparr>)) (\<lambda>_. ret keypair))))"

definition client_addAccount :: "('w, 'e) rc_env_scheme \<Rightarrow> string \<Rightarrow> (('w, 'z) rc_state_scheme, AccountKeypair) eff" where
  "client_addAccount env privateKey =
     bnd verifyInitialized (\<lambda>_.
     bnd (gets rc_accounts) (\<lambda>accounts.
     bnd (lift_result (am_addAccount (rc_accountLib env) privateKey accounts)) (\<lambda>(keypair, accounts').
     bnd (modify (\<lambda>s. s\<lparr>rc_accounts := accounts'\<rparr>)) (\<lambda>_. ret keypair))))"

text \<open>\<open>stack\<close> is the property of that name of an error.\<close>

definition dumpRelayingResult :: "(js_error \<Rightarrow> string) \<Rightarrow> RelayingResult \<Rightarrow> string" where
  "dumpRelayingResult stack r =
     (let nl = [CHR 0x0A]
      in (if rg_pingErrors r \<noteq> [] then
            ''Ping errors ('' @ int_to_string (int (length (rg_pingErrors r))) @ ''):''
            @ concat (map (\<lambda>(e, err). nl @ e @ '' => '' @ error_message err @ '' stack:'' @ stack err @ nl) (rg_pingErrors r))
          else [])
         @ (if rg_relayingErrors r \<noteq> [] then
            ''Relaying errors ('' @ int_to_string (int (length (rg_relayingErrors r))) @ ''):'' @ nl
            @ concat (map (\<lambda>(e, err). e @ '' => '' @ error_message err @ '' stack:'' @ stack err) (rg_relayingErrors r))
          else []))"

end
