(* ===== verification/RelayProvider.thy ===== *)
theory RelayProvider imports RelayClient begin

text \<open>
  \<open>packages/provider/src/RelayProvider.ts\<close>: the JSON-RPC provider that turns the requests of a dapp into relayed
  transactions and translates what it is asked about them later. The state extends the one of the relay client by the
  submitted requests. A request is answered by one call of its callback, the value of an operation; an asynchronous
  handler that throws is a promise nobody waits for, so that the callback is not called (\<open>None\<close>). The original provider,
  the receipts of the node and the decoding of logs are parameters.
\<close>

section \<open>Requests and answers\<close>

text \<open>A number that is not one is \<open>NumId None\<close>.\<close>

datatype rpc_id = NumId "int option" | StrId string

text \<open>
  The details of a transaction as the dapp passes them: any field may be missing (\<open>undefined\<close>). A \<open>null\<close> in place of an
  address, which the type of the details does not allow, is not represented.
\<close>

record tx_params =
  xp_from :: string
  xp_data :: string
  xp_to :: "string option"
  xp_value :: "string option"
  xp_gas :: "string option"
  xp_gasPrice :: "string option"
  xp_maxFeePerGas :: "string option"
  xp_maxPriorityFeePerGas :: "string option"
  xp_paymasterData :: "string option"
  xp_clientId :: "string option"
  xp_useGSN :: "bool option"

datatype rpc_param =
    NullParam | TxParam tx_params | TextParam string | SignParam "string option" TransactionToSign "bool option"
  | TypedDataParam TypedRequestData

record JsonRpcPayload =
  jp_jsonrpc :: string
  jp_method :: string
  jp_params :: "rpc_param list option"
  jp_id :: "rpc_id option"

record log_entry =
  le_address :: string
  le_topics :: "string list"
  le_data :: string

datatype receipt_status = StatusText string | StatusBool bool

record TransactionReceipt =
  tr_to :: string
  tr_from :: string
  tr_contractAddress :: string
  tr_logsBloom :: string
  tr_blockHash :: string
  tr_transactionHash :: string
  tr_actualTransactionHash :: "string option"
  tr_transactionIndex :: int
  tr_gasUsed :: int
  tr_logs :: "log_entry list"
  tr_blockNumber :: int
  tr_cumulativeGasUsed :: int
  tr_effectiveGasPrice :: int
  tr_status :: receipt_status

record rpc_tx =
  rt_hash :: string
  rt_actualTransactionHash :: "string option"
  rt_fields :: "(string \<times> string) list"

datatype rpc_value =
    NullValue | TextValue string | AccountsValue "string list" | ReceiptValue TransactionReceipt | TxValue rpc_tx
  | SignedTxValue string UnsignedTransaction | OtherValue js_val

record JsonRpcResponse =
  jr_jsonrpc :: string
  jr_id :: "rpc_id option"
  jr_result :: rpc_value

text \<open>The arguments of the callback.\<close>

type_synonym rpc_answer = "js_error option \<times> JsonRpcResponse option"

record decoded_log =
  dl_name :: string
  dl_events :: "(string \<times> string) list"

record SubmittedRelayRequestInfo =
  sr_submissionBlock :: int
  sr_validUntilTime :: string

record 'w rp_state = "'w rc_state" +
  submittedRelayRequests :: "(string \<times> SubmittedRelayRequestInfo) list"
  sendId :: int

record 'w rp_env = "'w rc_env" +
  pv_send :: "JsonRpcPayload \<Rightarrow> ('w, rpc_answer) eff"
  pv_getTransactionReceipt :: "string \<Rightarrow> ('w, TransactionReceipt option) eff"
  pv_decodeLogs :: "log_entry list \<Rightarrow> decoded_log option list"
  pv_stack :: "js_error \<Rightarrow> string"

definition TX_FUTURE :: string where
  "TX_FUTURE = ''tx-future''"

definition TX_NOTFOUND :: string where
  "TX_NOTFOUND = ''tx-notfound''"

definition BLOCKS_FOR_LOOKUP :: int where
  "BLOCKS_FOR_LOOKUP = 5000"

definition param :: "nat \<Rightarrow> JsonRpcPayload \<Rightarrow> rpc_param option" where
  "param n payload = Option.bind (jp_params payload) (\<lambda>ps. if n < length ps then Some (ps ! n) else None)"

definition type_error :: "string \<Rightarrow> ('s, 'a) eff" where
  "type_error what = throw (''Cannot read properties of '' @ what)"

text \<open>\<open>(typeof id === 'string' ? parseInt(id) : id) ?? -1\<close>\<close>

definition numeric_id :: "JsonRpcPayload \<Rightarrow> rpc_id" where
  "numeric_id payload = (case jp_id payload of None \<Rightarrow> NumId (Some (-1)) | Some (StrId s) \<Rightarrow> NumId (parseInt s) | Some n \<Rightarrow> n)"

definition rpc_result :: "JsonRpcPayload \<Rightarrow> rpc_value \<Rightarrow> rpc_answer" where
  "rpc_result payload v = (None, Some \<lparr>jr_jsonrpc = ''2.0'', jr_id = Some (numeric_id payload), jr_result = v\<rparr>)"

definition rpc_failure :: "string \<Rightarrow> rpc_answer" where
  "rpc_failure m = (Some (Error m), None)"

definition asCallback :: "JsonRpcPayload \<Rightarrow> rpc_value \<Rightarrow> rpc_answer" where
  "asCallback payload v = (None, Some \<lparr>jr_jsonrpc = jp_jsonrpc payload, jr_id = jp_id payload, jr_result = v\<rparr>)"

definition detached :: "('s, rpc_answer option) eff \<Rightarrow> ('s, rpc_answer option) eff" where
  "detached m = try_catch m (\<lambda>_. ret None)"

definition answered :: "('s, rpc_answer) eff \<Rightarrow> ('s, rpc_answer option) eff" where
  "answered m = bnd m (\<lambda>a. ret (Some a))"

section \<open>The original provider\<close>

definition origProviderSend :: "'w rp_env \<Rightarrow> JsonRpcPayload \<Rightarrow> ('w rp_state, rpc_answer) eff" where
  "origProviderSend env payload = on_world (pv_send env payload)"

definition origSend :: "'w rp_env \<Rightarrow> string \<Rightarrow> rpc_param list \<Rightarrow> ('w rp_state, rpc_value) eff" where
  "origSend env method params =
     bnd (gets sendId) (\<lambda>n.
     bnd (modify (\<lambda>s. s\<lparr>sendId := n + 1\<rparr>)) (\<lambda>_.
     bnd (origProviderSend env \<lparr>jp_jsonrpc = ''2.0'', jp_method = method, jp_params = Some params, jp_id = Some (NumId (Some n))\<rparr>) (\<lambda>(error, result).
     case error of Some e \<Rightarrow> raise e
     | None \<Rightarrow> ret (case result of None \<Rightarrow> NullValue | Some r \<Rightarrow> jr_result r))))"

definition rp_init :: "'w rp_env \<Rightarrow> ('w rp_state, unit) eff" where
  "rp_init env = client_init env"

section \<open>Sending transactions\<close>

definition useGSN :: "JsonRpcPayload \<Rightarrow> bool" where
  "useGSN payload \<longleftrightarrow>
     (if jp_method payload = ''eth_accounts'' then True
      else case param 0 payload of
          None \<Rightarrow> False
        | Some (TxParam d) \<Rightarrow> (case xp_useGSN d of Some b \<Rightarrow> b | None \<Rightarrow> True)
        | Some (SignParam _ _ u) \<Rightarrow> (case u of Some b \<Rightarrow> b | None \<Rightarrow> True)
        | Some _ \<Rightarrow> True)"

definition with_fees :: "tx_params \<Rightarrow> string \<Rightarrow> string \<Rightarrow> GsnTransactionDetails" where
  "with_fees d maxFeePerGas maxPriorityFeePerGas =
     \<lparr>td_from = xp_from d, td_data = xp_data d, td_to = (case xp_to d of Some t \<Rightarrow> t | None \<Rightarrow> []), td_value = xp_value d,
      td_gas = xp_gas d, td_maxFeePerGas = maxFeePerGas, td_maxPriorityFeePerGas = maxPriorityFeePerGas,
      td_paymasterData = xp_paymasterData d, td_clientId = xp_clientId d, td_useGSN = xp_useGSN d\<rparr>"

definition fixGasFees :: "'w rp_env \<Rightarrow> tx_params \<Rightarrow> ('w rp_state, GsnTransactionDetails) eff" where
  "fixGasFees env txDetails =
     (case (xp_gasPrice txDetails, xp_maxFeePerGas txDetails, xp_maxPriorityFeePerGas txDetails) of
        (_, Some maxFee, Some maxPriority) \<Rightarrow> ret (with_fees txDetails maxFee maxPriority)
      | (Some gasPrice, None, None) \<Rightarrow> ret (with_fees txDetails gasPrice gasPrice)
      | (None, None, None) \<Rightarrow>
          bnd (client_calculateGasFees env) (\<lambda>(maxFee, maxPriority). ret (with_fees txDetails maxFee maxPriority))
      | _ \<Rightarrow> throw ''Relay Provider: cannot provide only one of maxFeePerGas and maxPriorityFeePerGas'')"

definition cacheSubmittedTransactionDetails :: "RelayingResult \<Rightarrow> ('w rp_state, unit) eff" where
  "cacheSubmittedTransactionDetails r =
     (case (rg_relayRequestID r, rg_submissionBlock r, rg_validUntilTime r) of
        (Some relayRequestID, Some submissionBlock, Some validUntilTime) \<Rightarrow>
          modify (\<lambda>s. s\<lparr>submittedRelayRequests := map_set relayRequestID
            \<lparr>sr_submissionBlock = submissionBlock, sr_validUntilTime = validUntilTime\<rparr> (submittedRelayRequests s)\<rparr>)
      | _ \<Rightarrow> throw ''Missing info in RelayingResult - internal GSN error, should not happen'')"

definition onRelayTransactionFulfilled ::
  "'w rp_env \<Rightarrow> RelayingResult \<Rightarrow> JsonRpcPayload \<Rightarrow> ('w rp_state, rpc_answer) eff" where
  "onRelayTransactionFulfilled env relayingResult payload =
     (case rg_relayRequestID relayingResult of
        Some relayRequestID \<Rightarrow>
          bnd (cacheSubmittedTransactionDetails relayingResult) (\<lambda>_. ret (rpc_result payload (TextValue relayRequestID)))
      | None \<Rightarrow> ret (rpc_failure (''Failed to relay call. Results:'' @ [CHR 0x0A] @ dumpRelayingResult (pv_stack env) relayingResult)))"

definition onRelayTransactionRejected :: "js_error \<Rightarrow> rpc_answer" where
  "onRelayTransactionRejected reason = rpc_failure (''Rejected relayTransaction call with reason: '' @ error_message reason)"

text \<open>\<open>relayTransaction\<close> gives \<open>None\<close> only if the fuel of its loop is used up, which never happens.\<close>

definition ethSendTransaction ::
  "'w rp_env \<Rightarrow> JsonRpcPayload \<Rightarrow> tx_params \<Rightarrow> ('w rp_state, rpc_answer option) eff" where
  "ethSendTransaction env payload params =
     bnd (settled (fixGasFees env params)) (\<lambda>fixed. case fixed of
       Inl e \<Rightarrow> ret (Some (Some e, None))
     | Inr gsnTransactionDetails \<Rightarrow>
         try_catch
           (bnd (relayTransaction env gsnTransactionDetails) (\<lambda>r. case r of
              None \<Rightarrow> ret None
            | Some relayingResult \<Rightarrow> answered (onRelayTransactionFulfilled env relayingResult payload)))
           (\<lambda>reason. ret (Some (onRelayTransactionRejected reason))))"

section \<open>Looking relayed transactions up\<close>

definition getSubmissionDetailsForRelayRequestId ::
  "'w rp_env \<Rightarrow> string \<Rightarrow> ('w rp_state, SubmittedRelayRequestInfo) eff" where
  "getSubmissionDetailsForRelayRequestId env relayRequestID =
     bnd (gets (\<lambda>s. map_of (submittedRelayRequests s) relayRequestID)) (\<lambda>submissionDetails. case submissionDetails of
       Some d \<Rightarrow> ret d
     | None \<Rightarrow>
         bnd (on_world (ch_getBlockNumber (rc_chain env))) (\<lambda>blockNumber.
         ret \<lparr>sr_submissionBlock = max 1 (blockNumber - BLOCKS_FOR_LOOKUP), sr_validUntilTime = ''9007199254740991''\<rparr>))"

text \<open>The sort is stable, so that among rejections in the same block the first of the list comes first.\<close>

definition pickSingleEvent :: "event_data list \<Rightarrow> string \<Rightarrow> js_error + event_data option" where
  "pickSingleEvent events relayRequestID =
     (case filter (\<lambda>it. ed_event it = ''TransactionRelayed'') events of
        [] \<Rightarrow> Inr (case sort_key (\<lambda>e. - ed_blockNumber e) events of [] \<Rightarrow> None | e # _ \<Rightarrow> Some e)
      | [success] \<Rightarrow> Inr (Some success)
      | _ \<Rightarrow> Inl (Error (''Multiple TransactionRelayed events with the same '' @ relayRequestID @ '' found!'')))"

definition getTransactionIdFromRequestId ::
  "'w rp_env \<Rightarrow> string \<Rightarrow> SubmittedRelayRequestInfo \<Rightarrow> ('w rp_state, string) eff" where
  "getTransactionIdFromRequestId env relayRequestID submissionDetails =
     bnd (getPastEventsForHub (rc_chain env) (rc_interactor env) [AnyTopic, AnyTopic, AnyOf [relayRequestID]]
            (Some (Block (sr_submissionBlock submissionDetails))) None [''TransactionRelayed'', ''TransactionRejectedByPaymaster'']) (\<lambda>events.
     if events = [] then
       gets (\<lambda>s. if js_less (Some (rc_now env (world s))) (parseInt (sr_validUntilTime submissionDetails)) then TX_FUTURE else TX_NOTFOUND)
     else
       bnd (lift_result (pickSingleEvent events relayRequestID)) (\<lambda>picked. case picked of
         Some e \<Rightarrow> ret (ed_transactionHash e) | None \<Rightarrow> type_error ''undefined''))"

definition createTransactionRevertedReceipt :: TransactionReceipt where
  "createTransactionRevertedReceipt =
     \<lparr>tr_to = [], tr_from = [], tr_contractAddress = [], tr_logsBloom = [], tr_blockHash = [], tr_transactionHash = [],
      tr_actualTransactionHash = None, tr_transactionIndex = 0, tr_gasUsed = 0, tr_logs = [], tr_blockNumber = 0,
      tr_cumulativeGasUsed = 0, tr_effectiveGasPrice = 0, tr_status = StatusBool False\<rparr>"

definition log_named :: "string \<Rightarrow> decoded_log option list \<Rightarrow> decoded_log option" where
  "log_named name logs = Option.bind (find (\<lambda>e. case e of None \<Rightarrow> False | Some l \<Rightarrow> dl_name l = name) logs) id"

definition getTranslatedGsnResponseResult ::
  "'w rp_env \<Rightarrow> TransactionReceipt \<Rightarrow> string option \<Rightarrow> TransactionReceipt" where
  "getTranslatedGsnResponseResult env respResult relayRequestID =
     (let fixed = respResult\<lparr>tr_actualTransactionHash := Some (tr_transactionHash respResult),
            tr_transactionHash := (case relayRequestID of Some r \<Rightarrow> r | None \<Rightarrow> tr_transactionHash respResult),
            tr_status := StatusText ''1''\<rparr>;
          failed = fixed\<lparr>tr_status := StatusText ''0''\<rparr>;
          logs = pv_decodeLogs env (tr_logs respResult)
      in if tr_logs respResult = [] then fixed
         else case log_named ''TransactionRejectedByPaymaster'' logs of
           Some rejected \<Rightarrow> if map_of (dl_events rejected) ''reason'' \<noteq> None then failed else fixed
         | None \<Rightarrow>
             (case log_named ''TransactionRelayed'' logs of
                None \<Rightarrow> fixed
              | Some relayed \<Rightarrow>
                  (case map_of (dl_events relayed) ''status'' of
                     None \<Rightarrow> fixed | Some status \<Rightarrow> if status \<noteq> ''0'' then failed else fixed)))"

text \<open>\<open>None\<close> is the \<open>null\<close> of a transaction that may still be mined.\<close>

definition createTransactionReceiptForRelayRequestID ::
  "'w rp_env \<Rightarrow> string \<Rightarrow> ('w rp_state, TransactionReceipt option) eff" where
  "createTransactionReceiptForRelayRequestID env relayRequestID =
     bnd (getSubmissionDetailsForRelayRequestId env relayRequestID) (\<lambda>submissionDetails.
     bnd (getTransactionIdFromRequestId env relayRequestID submissionDetails) (\<lambda>transactionHash.
     if transactionHash = TX_FUTURE then ret None
     else if transactionHash = TX_NOTFOUND then ret (Some createTransactionRevertedReceipt)
     else
       bnd (on_world (pv_getTransactionReceipt env transactionHash)) (\<lambda>original. case original of
         None \<Rightarrow> type_error ''undefined (reading 'length')''
       | Some r \<Rightarrow> ret (Some (getTranslatedGsnResponseResult env r (Some relayRequestID))))))"

definition ethGetTransactionByHash :: "'w rp_env \<Rightarrow> JsonRpcPayload \<Rightarrow> ('w rp_state, rpc_answer) eff" where
  "ethGetTransactionByHash env payload =
     (case param 0 payload of
        Some (TextParam relayRequestID) \<Rightarrow>
          bnd (getSubmissionDetailsForRelayRequestId env relayRequestID) (\<lambda>submissionDetails.
          bnd (getTransactionIdFromRequestId env relayRequestID submissionDetails) (\<lambda>found.
          let txHash = (if starts_with ''0x'' found then found else relayRequestID)
          in bnd (origSend env ''eth_getTransactionByHash'' [TextParam txHash]) (\<lambda>tx.
             ret (asCallback payload (case tx of
               TxValue t \<Rightarrow> TxValue (t\<lparr>rt_hash := relayRequestID, rt_actualTransactionHash := Some txHash\<rparr>) | v \<Rightarrow> v)))))
      | _ \<Rightarrow> type_error ''a parameter that is not a string'')"

definition ethGetTransactionReceiptWithTransactionHash :: "'w rp_env \<Rightarrow> JsonRpcPayload \<Rightarrow> ('w rp_state, rpc_answer) eff" where
  "ethGetTransactionReceiptWithTransactionHash env payload =
     bnd (origProviderSend env payload) (\<lambda>(error, rpcResponse).
     case (error, rpcResponse) of
       (None, Some response) \<Rightarrow>
         (case jr_result response of
            NullValue \<Rightarrow> ret (error, rpcResponse)
          | ReceiptValue r \<Rightarrow>
              ret (None, Some (response\<lparr>jr_result := ReceiptValue (getTranslatedGsnResponseResult env r None)\<rparr>))
          | _ \<Rightarrow> type_error ''undefined (reading 'length')'')
     | _ \<Rightarrow> ret (error, rpcResponse))"

definition ethGetTransactionReceipt :: "'w rp_env \<Rightarrow> JsonRpcPayload \<Rightarrow> ('w rp_state, rpc_answer) eff" where
  "ethGetTransactionReceipt env payload =
     (case param 0 payload of
        Some (TextParam relayRequestID) \<Rightarrow>
          if \<not> str_includes ''0x00000000'' relayRequestID then ethGetTransactionReceiptWithTransactionHash env payload
          else
            try_catch
              (bnd (createTransactionReceiptForRelayRequestID env relayRequestID) (\<lambda>result.
               ret (rpc_result payload (case result of None \<Rightarrow> NullValue | Some r \<Rightarrow> ReceiptValue r))))
              (\<lambda>error. ret (Some error, None))
      | _ \<Rightarrow> type_error ''a parameter that is not a string'')"

section \<open>Accounts and signing\<close>

definition isEphemeralAccount :: "AccountKeypair list \<Rightarrow> string \<Rightarrow> bool" where
  "isEphemeralAccount accounts account \<longleftrightarrow> find (\<lambda>it. isSameAddress account it) (getAccounts accounts) \<noteq> None"

text \<open>The three kinds of signing: with the key of an account the client holds, or by the original provider.\<close>

definition sign_or_forward ::
  "'w rp_env \<Rightarrow> JsonRpcPayload \<Rightarrow> string option \<Rightarrow> (AccountKeypair list \<Rightarrow> string \<Rightarrow> js_error + rpc_value) \<Rightarrow> ('w rp_state, rpc_answer) eff" where
  "sign_or_forward env payload from0 sign =
     bnd (gets rc_accounts) (\<lambda>accounts. case from0 of
       None \<Rightarrow> origProviderSend env payload
     | Some a \<Rightarrow>
         if isEphemeralAccount accounts a then
           bnd (lift_result (sign accounts a)) (\<lambda>result. ret (rpc_result payload result))
         else origProviderSend env payload)"

definition text_param :: "nat \<Rightarrow> JsonRpcPayload \<Rightarrow> string option" where
  "text_param n payload = (case param n payload of Some (TextParam t) \<Rightarrow> Some t | _ \<Rightarrow> None)"

definition rp_sign :: "'w rp_env \<Rightarrow> JsonRpcPayload \<Rightarrow> ('w rp_state, rpc_answer) eff" where
  "rp_sign env payload =
     sign_or_forward env payload (text_param 0 payload) (\<lambda>accounts from0.
       map_sum id TextValue (am_signMessage (rc_accountLib env) accounts
         (case text_param 1 payload of Some m \<Rightarrow> m | None \<Rightarrow> ''undefined'') from0))"

definition rp_signTransaction :: "'w rp_env \<Rightarrow> JsonRpcPayload \<Rightarrow> ('w rp_state, rpc_answer) eff" where
  "rp_signTransaction env payload =
     (case param 0 payload of
        Some (SignParam from0 transactionConfig _) \<Rightarrow>
          sign_or_forward env payload from0 (\<lambda>accounts a.
            map_sum id (\<lambda>(raw, tx). SignedTxValue raw tx)
              (am_signTransaction (rc_accountLib env) (rc_chainId env) accounts transactionConfig a))
      | _ \<Rightarrow> origProviderSend env payload)"

definition rp_signTypedData :: "'w rp_env \<Rightarrow> JsonRpcPayload \<Rightarrow> ('w rp_state, rpc_answer) eff" where
  "rp_signTypedData env payload =
     sign_or_forward env payload (text_param 0 payload) (\<lambda>accounts from0.
       case param 1 payload of
         Some (TypedDataParam typedData) \<Rightarrow> map_sum id TextValue (am_signTypedData (rc_accountLib env) accounts typedData from0)
       | _ \<Rightarrow> Inl (Error ''Cannot read properties of undefined''))"

definition rp_getAccounts :: "'w rp_env \<Rightarrow> JsonRpcPayload \<Rightarrow> ('w rp_state, rpc_answer) eff" where
  "rp_getAccounts env payload =
     bnd (origProviderSend env payload) (\<lambda>(error, rpcResponse).
     bnd (gets rc_accounts) (\<lambda>accounts.
     ret (error, map_option (\<lambda>r. case jr_result r of
         AccountsValue as \<Rightarrow> r\<lparr>jr_result := AccountsValue (as @ getAccounts accounts)\<rparr> | _ \<Rightarrow> r) rpcResponse)))"

section \<open>Dispatch\<close>

definition rp_send :: "'w rp_env \<Rightarrow> JsonRpcPayload \<Rightarrow> ('w rp_state, rpc_answer option) eff" where
  "rp_send env payload =
     (let method = jp_method payload
      in if useGSN payload \<and> method = ''eth_sendTransaction'' then
           (case param 0 payload of
              Some NullParam \<Rightarrow> type_error ''null (reading 'to')''
            | Some (TxParam params) \<Rightarrow>
                (if xp_to params = None then
                   ret (Some (rpc_failure ''GSN cannot relay contract deployment transactions. Add {from: accountWithEther, useGSN: false}.''))
                 else detached (ethSendTransaction env payload params))
            | _ \<Rightarrow> ret (Some (rpc_failure ''GSN cannot relay contract deployment transactions. Add {from: accountWithEther, useGSN: false}.'')))
         else if useGSN payload \<and> method = ''eth_getTransactionReceipt'' then detached (answered (ethGetTransactionReceipt env payload))
         else if useGSN payload \<and> method = ''eth_getTransactionByHash'' then detached (answered (ethGetTransactionByHash env payload))
         else if method = ''eth_accounts'' then answered (rp_getAccounts env payload)
         else if useGSN payload \<and> method = ''eth_sign'' then answered (rp_sign env payload)
         else if useGSN payload \<and> method = ''eth_signTransaction'' then answered (rp_signTransaction env payload)
         else if useGSN payload \<and> method = ''eth_signTypedData'' then answered (rp_signTypedData env payload)
         else answered (origProviderSend env payload))"

definition rp_newAccount :: "'w rp_env \<Rightarrow> ('w rp_state, AccountKeypair) eff" where
  "rp_newAccount env = client_newAccount env"

definition rp_addAccount :: "'w rp_env \<Rightarrow> string \<Rightarrow> ('w rp_state, AccountKeypair) eff" where
  "rp_addAccount env privateKey = client_addAccount env privateKey"

definition rp_calculateGasFees :: "'w rp_env \<Rightarrow> ('w rp_state, string \<times> string) eff" where
  "rp_calculateGasFees env = client_calculateGasFees env"

end
