(* ===== verification/RelaySelectionProps.thy ===== *)
theory RelaySelectionProps imports RelaySelection begin

text \<open>
  Properties of the choice of relays: a race between pings always ends, with a relay that answered or with an error
  for every relay of the slice; the loop over slices ends; no relay is chosen twice.
\<close>

section \<open>The race\<close>

lemma run_race_over: "wf_resolved w \<noteq> None \<Longrightarrow> run_race rnd keys outs es w = w"
  by (cases es) auto

lemma run_race_append:
  "run_race rnd keys outs (es @ fs) w = run_race rnd keys outs fs (run_race rnd keys outs es w)"
proof (induction es arbitrary: w)
  case (Cons e es)
  then show ?case by (auto simp: run_race_over split: option.split)
qed simp

lemma run_race_keeps:
  assumes "\<And>e w w'. I w \<Longrightarrow> wfs_step rnd keys (race_handler outs e) w = Some w' \<Longrightarrow> I w'" and "I w"
  shows "I (run_race rnd keys outs es w)"
  using assms(2) by (induction es arbitrary: w) (auto intro: assms(1) split: option.split)

text \<open>Handlers only move on.\<close>

definition phase_rank :: "phase \<Rightarrow> nat" where
  "phase_rank p = (case p of Pending \<Rightarrow> 0 | Handled \<Rightarrow> 1 | Finished \<Rightarrow> 2)"

lemma step_phases:
  assumes "wfs_step rnd keys e w = Some w'"
  shows "length (wf_phases w') = length (wf_phases w)"
    and "i < length (wf_phases w) \<Longrightarrow> phase_rank (wf_phases w ! i) \<le> phase_rank (wf_phases w' ! i)"
  using assms by (cases e; auto simp: Let_def nth_list_update phase_rank_def split: if_splits phase.splits)+

lemma run_race_phases:
  "length (wf_phases (run_race rnd keys outs es w)) = length (wf_phases w)"
  "i < length (wf_phases w) \<Longrightarrow> phase_rank (wf_phases w ! i) \<le> phase_rank (wf_phases (run_race rnd keys outs es w) ! i)"
proof (induction es arbitrary: w)
  case (Cons e es)
  { case 1 show ?case using Cons(1) step_phases(1) by (auto split: option.split) }
  { case 2
    have "phase_rank (wf_phases w ! i) \<le> phase_rank (wf_phases (run_race rnd keys outs es w') ! i)"
      if "wfs_step rnd keys (race_handler outs e) w = Some w'" for w'
      using order_trans [OF step_phases(2) [OF that 2] Cons(2)] step_phases(1) [OF that] 2 by simp
    then show ?case using Cons(2) 2 by (auto split: option.split) }
qed simp_all

text \<open>After an event every relay it names has reached the phase, unless the race is over.\<close>

lemma run_race_settles:
  assumes "length outs = length (wf_phases w)" and "i \<in> set is" and "set is \<subseteq> {..<length outs}"
  shows "wf_resolved (run_race rnd keys outs (map Settle is) w) \<noteq> None
    \<or> 1 \<le> phase_rank (wf_phases (run_race rnd keys outs (map Settle is) w) ! i)"
  using assms
proof (induction "is" arbitrary: w)
  case (Cons j js)
  let ?h = "race_handler outs (Settle j)"
  show ?case
  proof (cases "wf_resolved w")
    case None
    define w' where "w' = (case wfs_step rnd keys ?h w of Some w' \<Rightarrow> w' | None \<Rightarrow> w)"
    have run: "run_race rnd keys outs (map Settle (j # js)) w = run_race rnd keys outs (map Settle js) w'"
      using None by (auto simp: w'_def split: option.split)
    have len: "length (wf_phases w') = length (wf_phases w)"
      using step_phases(1) by (auto simp: w'_def split: option.split)
    have j: "j < length (wf_phases w)" using Cons.prems by auto
    have "1 \<le> phase_rank (wf_phases w' ! j)"
    proof (cases "wf_phases w ! j = Pending")
      case True
      then show ?thesis using j Cons.prems(1)
        by (auto simp: w'_def race_handler_def phase_rank_def Let_def split: sum.split)
    next
      case False
      then have "1 \<le> phase_rank (wf_phases w ! j)" by (cases "wf_phases w ! j") (auto simp: phase_rank_def)
      then show ?thesis using step_phases(2) [of rnd keys ?h w w' j] j
        by (auto simp: w'_def split: option.splits intro: order_trans)
    qed
    then have "i = j \<Longrightarrow> ?thesis"
      using run_race_phases(2) [of j w' rnd keys outs "map Settle js"] j len run by simp
    moreover have "i \<noteq> j \<Longrightarrow> ?thesis" using Cons.IH [of w'] Cons.prems len run by simp
    ultimately show ?thesis by blast
  qed simp
qed simp

lemma run_race_counts:
  assumes "length outs = length (wf_phases w)" and "i \<in> set is" and "set is \<subseteq> {..<length outs}"
    and "\<forall>i<length outs. 1 \<le> phase_rank (wf_phases w ! i)"
  shows "wf_resolved (run_race rnd keys outs (map Count is) w) \<noteq> None
    \<or> wf_phases (run_race rnd keys outs (map Count is) w) ! i = Finished"
  using assms
proof (induction "is" arbitrary: w)
  case (Cons j js)
  let ?h = "race_handler outs (Count j)"
  have fin: "p = Finished \<longleftrightarrow> 2 \<le> phase_rank p" for p by (cases p) (auto simp: phase_rank_def)
  show ?case
  proof (cases "wf_resolved w")
    case None
    define w' where "w' = (case wfs_step rnd keys ?h w of Some w' \<Rightarrow> w' | None \<Rightarrow> w)"
    have run: "run_race rnd keys outs (map Count (j # js)) w = run_race rnd keys outs (map Count js) w'"
      using None by (auto simp: w'_def split: option.split)
    have len: "length (wf_phases w') = length (wf_phases w)"
      using step_phases(1) by (auto simp: w'_def split: option.split)
    have up: "\<forall>i<length outs. 1 \<le> phase_rank (wf_phases w' ! i)"
      using Cons.prems(1,4) step_phases(2) [of rnd keys ?h w w'] order_trans
      by (fastforce simp: w'_def split: option.splits)
    have j: "j < length (wf_phases w)" "1 \<le> phase_rank (wf_phases w ! j)" using Cons.prems by auto
    have "2 \<le> phase_rank (wf_phases w' ! j)"
    proof (cases "wf_phases w ! j = Handled")
      case True
      then show ?thesis using j by (auto simp: w'_def race_handler_def phase_rank_def Let_def)
    next
      case False
      then have "2 \<le> phase_rank (wf_phases w ! j)" using j(2) by (cases "wf_phases w ! j") (auto simp: phase_rank_def)
      then show ?thesis using step_phases(2) [of rnd keys ?h w w' j] j
        by (auto simp: w'_def split: option.splits intro: order_trans)
    qed
    then have "i = j \<Longrightarrow> ?thesis"
      using run_race_phases(2) [of j w' rnd keys outs "map Count js"] j len run by (simp add: fin)
    moreover have "i \<noteq> j \<Longrightarrow> ?thesis" using Cons.IH [of w'] Cons.prems len run up by simp
    ultimately show ?thesis by blast
  qed simp
qed simp

text \<open>What is recorded comes from the pings.\<close>

definition recorded :: "(js_error + 'a) list \<Rightarrow> string list \<Rightarrow> 'a list \<Rightarrow> (string \<times> js_error) list \<Rightarrow> bool" where
  "recorded outs keys rs es \<longleftrightarrow>
     (\<forall>v\<in>set rs. Inr v \<in> set outs) \<and> fst ` set es \<subseteq> set keys \<and> distinct (map fst es)"

definition race_inv :: "(js_error + 'a) list \<Rightarrow> string list \<Rightarrow> 'a wfs \<Rightarrow> bool" where
  "race_inv outs keys w \<longleftrightarrow>
     wfs_inv keys w \<and> length outs = length keys \<and> recorded outs keys (wf_results w) (wf_errors w)
     \<and> (case wf_resolved w of None \<Rightarrow> True | Some (x, rs, es) \<Rightarrow> recorded outs keys rs es)"

lemma race_inv_step:
  assumes rnd: "unit_interval rnd" and w: "race_inv outs keys w" and step: "wfs_step rnd keys (race_handler outs e) w = Some w'"
  shows "race_inv outs keys w'"
proof -
  have inv: "wfs_inv keys w" and len: "length (wf_phases w) = length keys" "length outs = length keys"
    and rec: "recorded outs keys (wf_results w) (wf_errors w)"
    and res: "\<And>x rs es. wf_resolved w = Some (x, rs, es) \<Longrightarrow> recorded outs keys rs es"
    using w by (auto simp: race_inv_def wfs_inv_def wfs_core_def split: option.splits)
  have inv': "wfs_inv keys w'" by (rule wfs_step_inv [OF rnd inv step])
  have step_ok: "race_inv outs keys w'"
    if "recorded outs keys (wf_results w') (wf_errors w')"
      and "wf_resolved w' = wf_resolved w \<or> wf_resolved w' = Some (x, wf_results w', wf_errors w')" for x
    using that inv' len res by (auto simp: race_inv_def split: option.splits)
  have comp: "wf_resolved (complete rnd v) = wf_resolved v
      \<or> wf_resolved (complete rnd v) = Some (wf_winner (complete rnd v), wf_results v, wf_errors v)" for v :: "'a wfs"
    by (auto simp: complete_def Let_def split: option.split)
  show ?thesis
  proof (cases "race_handler outs e")
    case (Then i v)
    then have "i < length outs" "outs ! i = Inr v" by (auto simp: race_handler_def split: race_event.splits if_splits sum.splits)
    then have "Inr v \<in> set outs" by (metis nth_mem)
    then have "recorded outs keys (wf_results w @ [v]) (wf_errors w)" using rec by (simp add: recorded_def ball_Un)
    then show ?thesis using step Then
      by (intro step_ok [of None]) (auto simp: Let_def split: if_splits)
  next
    case (Catch i err)
    then have "i < length keys" and w': "wf_results w' = wf_results w" "wf_errors w' = map_set (keys ! i) err (wf_errors w)"
      "wf_resolved w' = wf_resolved w" using step len by (auto split: if_splits)
    then have "recorded outs keys (wf_results w') (wf_errors w')" using rec by (simp add: recorded_def distinct_map_set)
    then show ?thesis using w'(3) by (intro step_ok [of None]) simp_all
  next
    case (Finally i)
    then show ?thesis using step rec comp [of "w\<lparr>wf_phases := (wf_phases w)[i := Finished]\<rparr>"]
      by (intro step_ok [of "wf_winner w'"]) (auto simp: Let_def split: if_splits)
  next
    case GraceTimer
    then show ?thesis using step rec comp [of "w\<lparr>wf_timer_armed := False\<rparr>"]
      by (intro step_ok [of "wf_winner w'"]) (auto split: if_splits)
  qed
qed

lemma race_result:
  assumes rnd: "unit_interval rnd" and len: "length outs = length keys" and keys: "keys \<noteq> []" "distinct keys"
  shows "\<exists>win rs es. sel_waitForSuccess rnd order keys outs = Inr (win, rs, es) \<and> fst ` set es \<subseteq> set keys
    \<and> (case win of Some v \<Rightarrow> Inr v \<in> set outs | None \<Rightarrow> fst ` set es = set keys)"
proof -
  obtain w :: "PartialRelayInfo wfs" where w: "waitForSuccess (length outs) keys = Inr w"
    and w0: "wf_phases w = replicate (length keys) Pending" "wf_results w = []" "wf_errors w = []" "wf_resolved w = None"
    using index_of_distinct [of keys] keys(2) len by (auto simp: waitForSuccess_def)
  have inv: "race_inv outs keys w"
    using wfs_start_inv [OF w] w0 len by (simp add: race_inv_def recorded_def)
  let ?run = "run_race rnd keys outs"
  define u where "u = ?run (map Settle [0..<length outs]) (?run order w)"
  define v where "v = ?run (order @ all_settle (length outs)) w"
  have v_eq: "v = ?run (map Count [0..<length outs]) u"
    by (simp add: v_def u_def all_settle_def run_race_append)
  have "race_inv outs keys v"
    unfolding v_def by (rule run_race_keeps [where I = "race_inv outs keys", OF race_inv_step [OF rnd] inv])
  moreover have "wf_resolved v \<noteq> None"
  proof
    assume no: "wf_resolved v = None"
    have "wf_resolved u = None"
      using no run_race_over [of u rnd keys outs "map Count [0..<length outs]"] unfolding v_eq by metis
    then have handled: "1 \<le> phase_rank (wf_phases u ! i)" if "i < length outs" for i
      using run_race_settles [of outs "?run order w" i "[0..<length outs]" rnd keys] that w0 len
      unfolding u_def by (auto simp: run_race_phases(1) atLeast0LessThan)
    have "length (wf_phases u) = length outs" using w0 len by (simp add: u_def run_race_phases(1))
    then have "wf_phases v ! i = Finished" if "i < length outs" for i
      using run_race_counts [of outs u i "[0..<length outs]" rnd keys] handled no that
      unfolding v_eq by (auto simp: atLeast0LessThan)
    moreover have "length (wf_phases v) = length outs" using w0 len by (simp add: v_def run_race_phases(1))
    ultimately have "\<forall>p\<in>set (wf_phases v). p = Finished" by (metis in_set_conv_nth)
    then show False using \<open>race_inv outs keys v\<close> no keys(1) by (auto simp: race_inv_def wfs_inv_def)
  qed
  ultimately obtain win rs es where r: "wf_resolved v = Some (win, rs, es)" "recorded outs keys rs es"
      "wfs_outcome (length keys) (win, rs, es)"
    by (auto simp: race_inv_def wfs_inv_def split: option.splits)
  have "fst ` set es = set keys" if "win = None"
  proof (rule card_subset_eq)
    show "card (fst ` set es) = card (set keys)"
      using that r keys(2) by (simp add: wfs_outcome_def recorded_def distinct_card flip: set_map)
  qed (use r in \<open>simp_all add: recorded_def\<close>)
  then show ?thesis using r w
    by (auto simp: sel_waitForSuccess_def v_def wfs_outcome_def recorded_def split: option.splits)
qed

section \<open>One turn\<close>

definition keyed :: "(string \<times> RelayInfoUrl) list \<Rightarrow> bool" where
  "keyed m \<longleftrightarrow> distinct (map fst m) \<and> (\<forall>(k, r)\<in>set m. relayUrl_of r = k)"

lemma set_map_set: "set (map_set k v m) \<subseteq> insert (k, v) (set m)"
  by (induction k v m rule: map_set.induct) auto

lemma keyed_set: "keyed m \<Longrightarrow> keyed (map_set (relayUrl_of r) r m)"
  using set_map_set [of "relayUrl_of r" r m] by (auto simp: keyed_def distinct_map_set)

lemma keyed_fold:
  "keyed m \<Longrightarrow> keyed (foldl (\<lambda>m it. map_set (relayUrl_of it) it m) m rs)"
  "fst ` set (foldl (\<lambda>m it. map_set (relayUrl_of it) it m) m rs) = fst ` set m \<union> relayUrl_of ` set rs"
  "snd ` set (foldl (\<lambda>m it. map_set (relayUrl_of it) it m) m rs) \<subseteq> snd ` set m \<union> set rs"
proof (induction rs arbitrary: m)
  case (Cons r rs)
  { case 1 then show ?case using Cons(1) keyed_set by simp }
  { case 2 show ?case using Cons(2) by simp }
  { case 3
    have "snd ` set (map_set (relayUrl_of r) r m) \<subseteq> insert r (snd ` set m)"
      using image_mono [OF set_map_set [of "relayUrl_of r" r m], of snd] by simp
    then show ?case using Cons(3) [of "map_set (relayUrl_of r) r m"] by (simp add: subset_iff) blast }
qed simp_all

lemma keyed_urls: "keyed m \<Longrightarrow> map relayUrl_of (map snd m) = map fst m"
  by (auto simp: keyed_def)

lemma unique_relays_spec:
  "distinct (map relayUrl_of (unique_relays rs))"
  "relayUrl_of ` set (unique_relays rs) = relayUrl_of ` set rs"
  "set (unique_relays rs) \<subseteq> set rs"
proof -
  let ?m = "foldl (\<lambda>m it. map_set (relayUrl_of it) it m) [] rs"
  have m: "keyed ?m" by (rule keyed_fold) (simp add: keyed_def)
  have eq: "map relayUrl_of (unique_relays rs) = map fst ?m"
    using keyed_urls [OF m] by (simp only: unique_relays_def)
  show "distinct (map relayUrl_of (unique_relays rs))" using m by (simp only: eq keyed_def)
  have "relayUrl_of ` set (unique_relays rs) = set (map fst ?m)" by (simp only: eq flip: set_map)
  then show "relayUrl_of ` set (unique_relays rs) = relayUrl_of ` set rs" using keyed_fold(2) [of "[]" rs] by simp
  show "set (unique_relays rs) \<subseteq> set rs" using keyed_fold(3) [of "[]" rs] by (simp add: unique_relays_def)
qed

definition ping_ok :: "('w, 'e) sel_env_scheme \<Rightarrow> GsnTransactionDetails \<Rightarrow> string \<Rightarrow> PingResponse \<Rightarrow> bool" where
  "ping_ok env details relayHub p \<longleftrightarrow>
     pr_ready p \<and> isSameAddress relayHub (pr_relayHubAddress p) \<and> cl_pingFilter env p details = Inr ()"

lemma ping_wp:
  "wp (getRelayAddressPing http (\<lambda>p. cl_pingFilter env p details) relayHub paymaster relay)
     (\<lambda>v _. pi_relayInfo v = relay \<and> ping_ok env details relayHub (pi_pingResponse v)) (\<lambda>_ _. True) w"
  unfolding getRelayAddressPing_def
  by (rule wp_skip) (auto simp: wp_simps ping_ok_def split: sum.split)

lemma settled_all:
  assumes "\<And>r w. wp (m r) (\<lambda>v _. P r v) (\<lambda>_ _. True) w"
  shows "wp (map_eff (\<lambda>r. settled (m r)) rs)
    (\<lambda>outs _. list_all2 (\<lambda>r out. case out of Inr v \<Rightarrow> P r v | Inl _ \<Rightarrow> True) rs outs) (\<lambda>_ _. False) w"
proof (induction rs arbitrary: w)
  case (Cons r rs)
  have "wp (settled (m r)) (\<lambda>out _. case out of Inr v \<Rightarrow> P r v | Inl _ \<Rightarrow> True) (\<lambda>_ _. False) w"
    using assms [of r w] by (auto simp: wp_def settled_def split: prod.splits sum.splits)
  then show ?case
    unfolding map_eff.simps wp_bnd by (rule wp_mono) (auto intro!: wp_mono [OF Cons.IH] simp: wp_ret)
qed (simp add: wp_ret)

definition urls_left :: "('w, 'z) sel_state_scheme \<Rightarrow> string set" where
  "urls_left s = relayUrl_of ` set (relaysLeft (sl_selection s))"

lemma handled_results:
  assumes "sel_isInitialized s" and "handleWaitForSuccessResults winner errors s = r"
  shows "\<exists>t. r = Inr t \<and> sel_isInitialized t \<and> relaysLeft t = filter (\<lambda>it. (case winner of None \<Rightarrow> True
     | Some w \<Rightarrow> relayUrl_of it \<noteq> relayUrl_of (pi_relayInfo w)) \<and> map_of errors (relayUrl_of it) = None) (relaysLeft s)"
  using assms
  by (auto simp: handleWaitForSuccessResults_def relaysLeft_def filter_concat o_def intro!: arg_cong [where f = concat])

lemma ping_race_wp:
  assumes rnd: "\<And>k. unit_interval (cl_random env k)" and relays: "relays \<noteq> []"
  shows "wp (ping_race env details relayHub paymaster relays)
    (\<lambda>(win, _, es) t. sl_known t = sl_known s \<and> sl_selection t = sl_selection s \<and> fst ` set es \<subseteq> relayUrl_of ` set relays
       \<and> (case win of None \<Rightarrow> fst ` set es = relayUrl_of ` set relays
          | Some v \<Rightarrow> pi_relayInfo v \<in> set relays \<and> ping_ok env details relayHub (pi_pingResponse v)))
    (\<lambda>_ _. False) s"
proof -
  let ?rs = "unique_relays relays" let ?keys = "map relayUrl_of ?rs"
  have keys: "distinct ?keys" "set ?keys = relayUrl_of ` set relays" "set ?rs \<subseteq> set relays"
    using unique_relays_spec [of relays] by simp_all
  then have nonempty: "?keys \<noteq> []" using relays by (metis image_is_empty set_empty)
  have won: "pi_relayInfo v \<in> set relays \<and> ping_ok env details relayHub (pi_pingResponse v)"
    if all: "list_all2 (\<lambda>r out. case out of Inr v \<Rightarrow> pi_relayInfo v = r \<and> ping_ok env details relayHub (pi_pingResponse v) | Inl _ \<Rightarrow> True) ?rs outs"
      and v: "Inr v \<in> set outs" for v :: PartialRelayInfo and outs
  proof -
    obtain i where i: "i < length outs" "outs ! i = Inr v" using v by (auto simp: in_set_conv_nth)
    with list_all2_nthD2 [OF all i(1)] have "pi_relayInfo v = ?rs ! i" "ping_ok env details relayHub (pi_pingResponse v)" by auto
    moreover have "?rs ! i \<in> set ?rs" using list_all2_lengthD [OF all] i(1) by simp
    ultimately show ?thesis using keys(3) by auto
  qed
  show ?thesis
    unfolding ping_race_def Let_def next_draw_def wp_bnd wp_on_world
  proof (rule wp_mono [OF settled_all [OF ping_wp]])
    fix outs :: "(js_error + PartialRelayInfo) list" and w
    assume all: "list_all2 (\<lambda>r out. case out of Inr v \<Rightarrow> pi_relayInfo v = r \<and> ping_ok env details relayHub (pi_pingResponse v)
      | Inl _ \<Rightarrow> True) ?rs outs"
    then have "length outs = length ?keys" by (simp add: list_all2_lengthD)
    from race_result [OF rnd this nonempty keys(1), of "sl_draws s" "cl_order env (sl_draws s)"] keys(2) won [OF all]
    show "wp (gets sl_draws) (\<lambda>k. wp (modify (\<lambda>s. s\<lparr>sl_draws := Suc k\<rparr>)) (\<lambda>_. wp (ret k) (\<lambda>k.
        wp (lift_result (sel_waitForSuccess (cl_random env k) (cl_order env k) ?keys outs))
        (\<lambda>(win, _, es) t. sl_known t = sl_known s \<and> sl_selection t = sl_selection s \<and> fst ` set es \<subseteq> relayUrl_of ` set relays
           \<and> (case win of None \<Rightarrow> fst ` set es = relayUrl_of ` set relays
              | Some v \<Rightarrow> pi_relayInfo v \<in> set relays \<and> ping_ok env details relayHub (pi_pingResponse v)))
        (\<lambda>_ _. False)) (\<lambda>_ _. False)) (\<lambda>_ _. False)) (\<lambda>_ _. False) (s\<lparr>world := w\<rparr>)"
      by (auto simp: wp_gets wp_modify wp_ret wp_lift_result split: option.splits)
  qed simp
qed

text \<open>What a choice leaves: fewer relays, and none with the URL of the one that was chosen.\<close>

definition narrowed :: "('w, 'z) sel_state_scheme \<Rightarrow> ('w, 'z) sel_state_scheme \<Rightarrow> bool" where
  "narrowed s t \<longleftrightarrow>
     sl_known t = sl_known s \<and> sel_isInitialized (sl_selection t)
     \<and> set (relaysLeft (sl_selection t)) \<subseteq> set (relaysLeft (sl_selection s))
     \<and> length (relaysLeft (sl_selection t)) \<le> length (relaysLeft (sl_selection s))"

definition chosen ::
  "('w, 'e) sel_env_scheme \<Rightarrow> GsnTransactionDetails \<Rightarrow> string \<Rightarrow> ('w, 'z) sel_state_scheme \<Rightarrow> RelayInfo \<Rightarrow>
   ('w, 'z) sel_state_scheme \<Rightarrow> bool" where
  "chosen env details relayHub s i t \<longleftrightarrow>
     ri_relayUrl (relayInfo i) \<in> urls_left s - urls_left t \<and> ping_ok env details relayHub (pingResponse i)"

lemma narrowed_trans: "narrowed s t \<Longrightarrow> narrowed t u \<Longrightarrow> narrowed s u"
  by (auto simp: narrowed_def)

lemma narrowed_refl: "sel_isInitialized (sl_selection s) \<Longrightarrow> narrowed s s"
  by (simp add: narrowed_def)

lemma narrowed_urls: "narrowed s t \<Longrightarrow> urls_left t \<subseteq> urls_left s"
  unfolding narrowed_def urls_left_def by (blast intro: image_mono)

lemma nextRelay_wp:
  fixes s :: "('w, 'z) sel_state_scheme"
  assumes rnd: "\<And>k. unit_interval (cl_random env k)" and relays: "relays \<noteq> []"
    "set relays \<subseteq> set (relaysLeft (sl_selection s))" and "sel_isInitialized (sl_selection s)"
  shows "wp (nextRelayInternal env details relayHub paymaster relays)
    (\<lambda>r t. narrowed s t \<and> length (relaysLeft (sl_selection t)) < length (relaysLeft (sl_selection s))
       \<and> (case r of None \<Rightarrow> True | Some i \<Rightarrow> chosen env details relayHub s i t)) (\<lambda>_ _. False) s"
proof -
  let ?Q = "\<lambda>r t. narrowed s t \<and> length (relaysLeft (sl_selection t)) < length (relaysLeft (sl_selection s))
       \<and> (case r of None \<Rightarrow> True | Some i \<Rightarrow> chosen env details relayHub s i t)"
  have rest: "wp (bnd (gets (\<lambda>s. handleWaitForSuccessResults win es (sl_selection s)))
     (\<lambda>r. bnd (lift_result r) (\<lambda>sel. bnd (modify (\<lambda>s. s\<lparr>sl_selection := sel\<rparr>)) (\<lambda>_.
         case win of None \<Rightarrow> ret None
         | Some w \<Rightarrow> (case pi_relayInfo w of
              FromRegistrar info \<Rightarrow> ret (Some \<lparr>relayInfo = info, pingResponse = pi_pingResponse w\<rparr>)
            | UrlOnly url \<Rightarrow>
                bnd (gets (\<lambda>s. getRelayInfoForManager (sl_known s) (pr_relayManagerAddress (pi_pingResponse w)))) (\<lambda>event.
                ret (case event of None \<Rightarrow> None
                  | Some info \<Rightarrow> Some \<lparr>relayInfo = info\<lparr>ri_relayUrl := url\<rparr>, pingResponse = pi_pingResponse w\<rparr>)))))))
     ?Q (\<lambda>_ _. False) u"
  if u: "sl_known u = sl_known s" "sl_selection u = sl_selection s"
    and win: "case win of None \<Rightarrow> fst ` set es = relayUrl_of ` set relays
      | Some v \<Rightarrow> pi_relayInfo v \<in> set relays \<and> ping_ok env details relayHub (pi_pingResponse v)"
  for win :: "PartialRelayInfo option" and rs and es :: "(string \<times> js_error) list" and u :: "('w, 'z) sel_state_scheme"
  proof -
  let ?keep = "\<lambda>it. (case win of None \<Rightarrow> True | Some w \<Rightarrow> relayUrl_of it \<noteq> relayUrl_of (pi_relayInfo w))
    \<and> map_of es (relayUrl_of it) = None"
  obtain sel where sel: "handleWaitForSuccessResults win es (sl_selection u) = Inr sel" "sel_isInitialized sel"
      "relaysLeft sel = filter ?keep (relaysLeft (sl_selection s))"
    using handled_results [OF _ refl, of "sl_selection u" win es] assms(4) u(2) by auto
  obtain it where it: "it \<in> set relays" "\<not> ?keep it"
  proof (cases win)
    case None
    obtain r where r: "r \<in> set relays" using relays(1) by (cases relays) auto
    then have "relayUrl_of r \<in> fst ` set es" using win None by auto
    then have "map_of es (relayUrl_of r) \<noteq> None" by (simp add: map_of_eq_None_iff)
    then show ?thesis using that [OF r] None by simp
  qed (use win that in auto)
  let ?t = "u\<lparr>sl_selection := sel\<rparr>"
  have less: "length (relaysLeft sel) < length (relaysLeft (sl_selection s))"
    unfolding sel(3) using it relays(2) by (intro length_filter_less [of it]) auto
  then have narrow: "narrowed s ?t" using u sel by (auto simp: narrowed_def)
  have pick: "chosen env details relayHub s \<lparr>relayInfo = i, pingResponse = pi_pingResponse w\<rparr> ?t"
    if "win = Some w" "ri_relayUrl i = relayUrl_of (pi_relayInfo w)" for w i
    using that win relays(2) by (auto simp: chosen_def urls_left_def sel(3))
  have Q: "?Q None ?t" "win = Some w \<Longrightarrow> ri_relayUrl i = relayUrl_of (pi_relayInfo w) \<Longrightarrow>
      ?Q (Some \<lparr>relayInfo = i, pingResponse = pi_pingResponse w\<rparr>) ?t" for w i
    using narrow less pick by simp_all
  show ?thesis
    unfolding wp_bnd wp_gets wp_lift_result sel(1) wp_modify sum.case
    by (cases win; auto simp only: wp_simps option.case Q split: RelayInfoUrl.split option.split; auto intro!: pick)
  qed
  show ?thesis
    unfolding nextRelayInternal_def
    apply (subst wp_bnd, rule wp_mono [OF ping_race_wp [OF rnd relays(1)]])
    subgoal premises p for a u using p rest [where win = "fst a" and es = "snd (snd a)" and u = u] by (simp only: case_prod_beta)
    by simp
qed

lemma first_slice_sub: "set (first_slice n gs) \<subseteq> set (concat gs)"
proof (induction gs)
  case (Cons g gs)
  then show ?case by (auto simp: bulk_slice_def Let_def dest: in_set_takeD)
qed simp

lemma first_slice_empty: "0 < n \<Longrightarrow> first_slice n gs = [] \<Longrightarrow> concat gs = []"
  by (induction gs) (auto simp: bulk_slice_def Let_def min_def split: if_splits)

lemma select_loop_wp:
  assumes rnd: "\<And>k. unit_interval (cl_random env k)" and "sel_isInitialized (sl_selection s)"
    and "length (relaysLeft (sl_selection s)) < fuel"
  shows "wp (select_loop env details relayHub paymaster fuel)
    (\<lambda>r t. narrowed s t \<and> (case r of None \<Rightarrow> False
       | Some None \<Rightarrow> 0 < gc_waitForSuccessSliceSize (cl_config env) \<longrightarrow> urls_left t = {}
       | Some (Some i) \<Rightarrow> length (relaysLeft (sl_selection t)) < length (relaysLeft (sl_selection s)) \<and> chosen env details relayHub s i t))
    (\<lambda>_ _. False) s"
  using assms(2,3)
proof (induction fuel arbitrary: s)
  case (Suc fuel)
  let ?slice = "first_slice (gc_waitForSuccessSliceSize (cl_config env)) (remainingRelays (sl_selection s))"
  have slice: "getNextSlice (cl_config env) (sl_selection s) = Inr ?slice" using Suc.prems(1) by (simp add: getNextSlice_def)
  show ?case
  proof (cases "?slice = []")
    case True
    then show ?thesis using slice Suc.prems(1) first_slice_empty [of "gc_waitForSuccessSliceSize (cl_config env)"]
      by (auto simp: wp_simps narrowed_refl urls_left_def relaysLeft_def)
  next
    case False
    have sub: "set ?slice \<subseteq> set (relaysLeft (sl_selection s))" unfolding relaysLeft_def by (rule first_slice_sub)
    have rec: "wp (select_loop env details relayHub paymaster fuel)
      (\<lambda>r t. narrowed s t \<and> (case r of None \<Rightarrow> False
         | Some None \<Rightarrow> 0 < gc_waitForSuccessSliceSize (cl_config env) \<longrightarrow> urls_left t = {}
         | Some (Some i) \<Rightarrow> length (relaysLeft (sl_selection t)) < length (relaysLeft (sl_selection s)) \<and> chosen env details relayHub s i t))
      (\<lambda>_ _. False) u"
      if u: "narrowed s u" "length (relaysLeft (sl_selection u)) < length (relaysLeft (sl_selection s))" for u
    proof (rule wp_mono [OF Suc.IH [of u]])
      show "sel_isInitialized (sl_selection u)" "length (relaysLeft (sl_selection u)) < fuel"
        using u Suc.prems(2) by (auto simp: narrowed_def)
    qed (use u narrowed_urls [OF u(1)] in \<open>auto simp: chosen_def split: option.splits intro: narrowed_trans\<close>)
    show ?thesis
      using slice False rec
      by (simp add: wp_simps) (rule wp_mono [OF nextRelay_wp [OF rnd False sub Suc.prems(1)]],
          auto simp: wp_ret split: option.split)
  qed
qed simp

section \<open>Properties\<close>

definition fair_random :: "('w, 'e) sel_env_scheme \<Rightarrow> bool" where
  "fair_random env \<longleftrightarrow> (\<forall>k. unit_interval (cl_random env k))"

lemma selectNextRelay_wp:
  assumes "fair_random env" and "sel_isInitialized (sl_selection s)"
  shows "wp (selectNextRelay env details relayHub paymaster)
    (\<lambda>r t. narrowed s t \<and> (case r of None \<Rightarrow> False
       | Some None \<Rightarrow> 0 < gc_waitForSuccessSliceSize (cl_config env) \<longrightarrow> urls_left t = {}
       | Some (Some i) \<Rightarrow> length (relaysLeft (sl_selection t)) < length (relaysLeft (sl_selection s)) \<and> chosen env details relayHub s i t))
    (\<lambda>_ _. False) s"
  unfolding selectNextRelay_def wp_bnd wp_gets
  using assms by (intro select_loop_wp) (auto simp: fair_random_def)

text \<open>
  C33: choosing a relay always comes to an end, whatever the relays answer and in whatever order. It never throws and
  never runs out of turns: it gives either a relay that answered a ping, is ready, serves the hub of the client and
  passed the filter, and whose URL is out of the race from then on; or nothing, and then no relay is left.
\<close>

theorem selectNextRelay_spec:
  assumes "fair_random env" and "sel_isInitialized (sl_selection s)" and "0 < gc_waitForSuccessSliceSize (cl_config env)"
  shows "case selectNextRelay env details relayHub paymaster s of
      (Inr (Some (Some i)), t) \<Rightarrow> chosen env details relayHub s i t \<and> urls_left t \<subseteq> urls_left s
    | (Inr (Some None), t) \<Rightarrow> urls_left t = {}
    | _ \<Rightarrow> False"
  using selectNextRelay_wp [OF assms(1,2), of details relayHub paymaster] assms(3) narrowed_urls
  by (auto simp: wp_def split: prod.splits sum.splits option.splits)

text \<open>The URLs of \<open>n\<close> successive choices.\<close>

fun select_all ::
  "('w, 'e) sel_env_scheme \<Rightarrow> GsnTransactionDetails \<Rightarrow> string \<Rightarrow> string option \<Rightarrow> nat \<Rightarrow> ('w, 'z) sel_state_scheme \<Rightarrow> string list" where
  "select_all env details relayHub paymaster 0 s = []"
| "select_all env details relayHub paymaster (Suc n) s =
     (case selectNextRelay env details relayHub paymaster s of
        (Inr (Some (Some i)), t) \<Rightarrow> ri_relayUrl (relayInfo i) # select_all env details relayHub paymaster n t
      | (_, t) \<Rightarrow> select_all env details relayHub paymaster n t)"

text \<open>
  no relay is ever chosen twice for one request, however often the next one is asked for and even if several
  registrations share a URL; and only relays that were there at the start are chosen.
\<close>

theorem selections_distinct:
  assumes "fair_random env" and "sel_isInitialized (sl_selection s)"
  shows "distinct (select_all env details relayHub paymaster n s)
    \<and> set (select_all env details relayHub paymaster n s) \<subseteq> urls_left s"
  using assms(2)
proof (induction n arbitrary: s)
  case (Suc n)
  obtain r t where rt: "selectNextRelay env details relayHub paymaster s = (r, t)" by fastforce
  have step: "narrowed s t" "\<And>i. r = Inr (Some (Some i)) \<Longrightarrow> chosen env details relayHub s i t"
    using selectNextRelay_wp [OF assms(1) Suc.prems, of details relayHub paymaster]
    by (auto simp: rt wp_def split: sum.splits option.splits)
  then have "sel_isInitialized (sl_selection t)" by (simp add: narrowed_def)
  from Suc.IH [OF this] narrowed_urls [OF step(1)] step(2) show ?case
    by (auto simp: rt chosen_def split: sum.split option.split)
qed simp

section \<open>A client for witnesses\<close>

definition sample_ping :: PingResponse where
  "sample_ping = \<lparr>pr_relayWorkerAddress = ''0xcc'', pr_relayManagerAddress = ''0xA1'', pr_relayHubAddress = ''0xdd'',
     pr_ownerAddress = ''0xee'', pr_maxMaxFeePerGas = ''1000'', pr_minMaxFeePerGas = ''10'', pr_minMaxPriorityFeePerGas = ''1'',
     pr_maxAcceptanceBudget = ''100000'', pr_networkId = None, pr_chainId = None, pr_ready = True, pr_version = ''3''\<rparr>"

definition sample_http :: "unit http" where
  "sample_http = \<lparr>hw_ping = (\<lambda>u. if str_includes ''//a'' u then ret (Some sample_ping) else throw ''timeout''),
     hw_relay = (\<lambda>_ _. throw ''timeout''), hw_audit = (\<lambda>_ _. throw ''timeout''), hw_config = (\<lambda>_. ret [])\<rparr>"

definition sample_sel_env :: "unit sel_env" where
  "sample_sel_env = \<lparr>cl_http = sample_http, cl_pingFilter = (\<lambda>_ _. Inr ()), cl_config = defaultGsnConfig,
     cl_random = (\<lambda>_ _. 1 / 2), cl_order = (\<lambda>_. [Settle 1, Grace, Count 1])\<rparr>"

definition sample_sel_state :: "unit sel_state" where
  "sample_sel_state = ci_state.extend \<lparr>world = (), lastBlockNumber = 0, ci_transactionType = LEGACY,
       ci_deployment = \<lparr>dep_forwarderAddress = Some ''0x44'', dep_paymasterAddress = Some ''0x33'', dep_penalizerAddress = None,
         dep_relayRegistrarAddress = None, dep_relayHubAddress = Some ''0xdd'', dep_stakeManagerAddress = None,
         dep_managerStakeTokenAddress = None\<rparr>,
       contract_instances = \<lparr>in_paymaster = None, in_relayHub = Some ''0xdd'', in_forwarder = None, in_stakeManager = None,
         in_penalizer = None, in_relayRegistrar = None, in_erc20Token = None\<rparr>,
       ci_relayHubConfiguration = None, ci_rawTxOptions = Some (1, 1), ci_paymasterVersion = None\<rparr>
     \<lparr>sl_known = sample_known,
      sl_selection = sel_init [[UrlOnly ''http://p''], [FromRegistrar (sample_relay ''0xA1'' ''http://a'')]] new_selection,
      sl_draws = 0\<rparr>"

lemma sample_sel_ok: "fair_random sample_sel_env" "sel_isInitialized (sl_selection sample_sel_state)"
  "0 < gc_waitForSuccessSliceSize (cl_config sample_sel_env)"
  by (simp_all add: fair_random_def sample_sel_env_def unit_interval_def sample_sel_state_def sel_init_def ci_state.defs
      defaultGsnConfig_def)

definition sample_gsn_details :: GsnTransactionDetails where
  "sample_gsn_details = \<lparr>td_from = ''0x11'', td_data = ''0x'', td_to = ''0x22'', td_value = None, td_gas = Some ''0xc350'',
     td_maxFeePerGas = ''0x64'', td_maxPriorityFeePerGas = ''0xa'', td_paymasterData = None, td_clientId = None, td_useGSN = None\<rparr>"

theorem selectNextRelay_spec_witness:
  "case selectNextRelay sample_sel_env sample_gsn_details ''0xdd'' None sample_sel_state of
      (Inr (Some (Some i)), t) \<Rightarrow> chosen sample_sel_env sample_gsn_details ''0xdd'' sample_sel_state i t
        \<and> urls_left t \<subseteq> urls_left sample_sel_state
    | (Inr (Some None), t) \<Rightarrow> urls_left t = {}
    | _ \<Rightarrow> False"
  by (rule selectNextRelay_spec [OF sample_sel_ok])

theorem selections_distinct_witness:
  "distinct (select_all sample_sel_env sample_gsn_details ''0xdd'' None 3 sample_sel_state)
   \<and> set (select_all sample_sel_env sample_gsn_details ''0xdd'' None 3 sample_sel_state) \<subseteq> urls_left sample_sel_state"
  by (rule selections_distinct [OF sample_sel_ok(1,2)])

end
