(* ===== verification/RelayClientProps.thy ===== *)
theory RelayClientProps imports RelayClient RelaySelectionProps InteractorProps begin

text \<open>
  Properties of \<open>RelayClient.relayTransaction\<close>: it comes to an end, it sends a request to each relay at most once and
  only to relays the configuration allows, and a transaction it returns is the relayed call that was asked for.
\<close>

section \<open>What an attempt keeps\<close>

fun sent_urls :: "GsnEvent list \<Rightarrow> string list" where
  "sent_urls [] = []"
| "sent_urls (GsnSendToRelayerEvent u # es) = u # sent_urls es"
| "sent_urls (e # es) = sent_urls es"

lemma sent_urls_append [simp]: "sent_urls (es @ fs) = sent_urls es @ sent_urls fs"
  by (induction es rule: sent_urls.induct) auto

text \<open>The URLs the configuration allows: preferred ones, and those of registered relays that pass the filters.\<close>

definition registered_ok :: "('w, 'e) rc_env_scheme \<Rightarrow> string \<Rightarrow> bool" where
  "registered_ok env u \<longleftrightarrow>
     (\<exists>info. ri_relayUrl info = u \<and> \<not> is_blacklisted (cl_config env) info \<and> rc_relayFilter env info)"

definition allowed_url :: "('w, 'e) rc_env_scheme \<Rightarrow> string \<Rightarrow> bool" where
  "allowed_url env u \<longleftrightarrow>
     validateRelayUrl (rc_urlProtocol env) u \<and> (u \<in> set (gc_preferredRelays (cl_config env)) \<or> registered_ok env u)"

definition known_ok :: "('w, 'e) rc_env_scheme \<Rightarrow> known_relays \<Rightarrow> bool" where
  "known_ok env k \<longleftrightarrow>
     kr_preferredRelayers k = gc_preferredRelays (cl_config env)
     \<and> list_all (registered_ok env \<circ> ri_relayUrl) (kr_allRelayers k)"

text \<open>The part of the state that small steps leave alone.\<close>

definition rc_view :: "('w, 'e) rc_env_scheme \<Rightarrow> ('w, 'z) rc_state_scheme \<Rightarrow>
    GSNContractsDeployment \<times> (int \<times> int) option \<times> selection \<times> bool \<times> RelayRequest \<times> string list" where
  "rc_view env s = (ci_deployment s, ci_rawTxOptions s, sl_selection s, known_ok env (sl_known s), rc_relayRequest s,
     sent_urls (rc_events s))"

lemma rc_view_simps [simp]:
  "rc_view env (s\<lparr>world := w\<rparr>) = rc_view env s"
  "rc_view env (s\<lparr>sl_draws := n\<rparr>) = rc_view env s"
  by (simp_all add: rc_view_def)

lemma view_world_only: "world_only m \<Longrightarrow> keeps (\<lambda>t. rc_view env t = v) m"
  by (rule keepsI) (rule wp_world_only, simp_all)

lemma view_on_world [intro, simp]: "keeps (\<lambda>t. rc_view env t = v) (on_world m)"
  by (rule view_world_only) simp

lemma view_emit [intro]: "sent_urls [e] = [] \<Longrightarrow> keeps (\<lambda>t. rc_view env t = v) (emit e)"
  unfolding emit_def by (rule keeps_modify) (simp add: rc_view_def)

lemma view_save_failure [intro, simp]: "keeps (\<lambda>t. rc_view env t = v) (save_failure env i)"
  unfolding save_failure_def
  by (rule keeps_modify) (auto simp: rc_view_def known_ok_def saveRelayFailure_def Let_def split: option.splits)

lemma view_broadcast [intro, simp]: "keeps (\<lambda>t. rc_view env t = v) (broadcastRawTx env tx)"
  unfolding broadcastRawTx_def isAlreadySubmitted_def Let_def
  by (rule view_world_only) (intro world_only_intros)

lemma view_viewCall [intro, simp]: "keeps (\<lambda>t. rc_view env t = v) (verifyViewCallSuccessful env abi b)"
  unfolding verifyViewCallSuccessful_def Let_def
  by (rule view_world_only) (intro world_only_bnd world_only_if world_only_pure world_only_validateRelayCall)

lemma view_settled: "keeps I m \<Longrightarrow> keeps I (settled m)"
  unfolding keeps_def settled_def by (metis (no_types, lifting) case_prod_beta snd_conv)

lemma wp_settled: "wp (settled m) Q E s = wp m (\<lambda>a. Q (Inr a)) (\<lambda>e. Q (Inl e)) s"
  by (simp add: wp_def settled_def split: prod.splits sum.splits)

section \<open>The request\<close>

text \<open>A relay request for the transaction that was asked for; the worker and what depends on it are left open.\<close>

definition request_for ::
  "('w, 'e) rc_env_scheme \<Rightarrow> GsnTransactionDetails \<Rightarrow> GSNContractsDeployment \<Rightarrow> RelayRequest \<Rightarrow> bool" where
  "request_for env details d r \<longleftrightarrow>
     fr_from (rr_request r) = td_from details \<and> fr_to (rr_request r) = td_to details \<and> fr_data (rr_request r) = td_data details
     \<and> fr_value (rr_request r) = (case td_value details of Some v \<Rightarrow> v | None \<Rightarrow> ''0'')
     \<and> Some (rd_paymaster (rr_relayData r)) = dep_paymasterAddress d
     \<and> Some (rd_forwarder (rr_relayData r)) = dep_forwarderAddress d
     \<and> rd_maxFeePerGas (rr_relayData r) = num_to_string (parseInt16 (td_maxFeePerGas details))
     \<and> rd_maxPriorityFeePerGas (rr_relayData r) = num_to_string (parseInt16 (td_maxPriorityFeePerGas details))"

lemma request_for_relay [simp]: "request_for env details d (with_relay env worker r) = request_for env details d r"
  by (simp add: request_for_def with_relay_def Let_def)

lemma with_relay_worker [simp]: "rd_relayWorker (rr_relayData (with_relay env worker r)) = worker"
  by (simp add: with_relay_def Let_def)

lemma world_only_getSenderNonce [intro, simp]: "world_only (getSenderNonce ch sender f)"
  unfolding getSenderNonce_def createInstance_def Let_def by (intro world_only_intros)

text \<open>
  What a prepared request says: the hub is known, the fees were hexadecimal, and it is valid for the configured time from
  a moment of the preparation on.
\<close>

definition says ::
  "('w, 'e) rc_env_scheme \<Rightarrow> GsnTransactionDetails \<Rightarrow> GSNContractsDeployment \<Rightarrow> RelayRequest \<Rightarrow> bool" where
  "says env details d r \<longleftrightarrow>
     request_for env details d r \<and> dep_relayHubAddress d \<noteq> None
     \<and> starts_with ''0x'' (td_maxFeePerGas details) \<and> starts_with ''0x'' (td_maxPriorityFeePerGas details)
     \<and> (\<exists>w. fr_validUntilTime (rr_request r) =
          int_to_string (math_round (of_int (rc_now env w) / 1000) + gc_requestValidSeconds (cl_config env)))"

lemma says_relay [simp]: "says env details d (with_relay env worker r) = says env details d r"
  by (simp add: says_def) (simp add: with_relay_def Let_def)

lemma says_wp:
  "wp (prepareRelayRequest env details)
     (\<lambda>r t. rc_view env t = rc_view env s \<and> says env details (ci_deployment s) r) (\<lambda>_ t. rc_view env t = rc_view env s) s"
proof -
  let ?I = "\<lambda>t. rc_view env t = rc_view env s"
  show ?thesis
    unfolding prepareRelayRequest_def Let_def
    apply (rule wp_gets_step)
    apply (cases "dep_relayHubAddress (ci_deployment s)"; cases "dep_paymasterAddress (ci_deployment s)";
        cases "dep_forwarderAddress (ci_deployment s)"; simp add: wp_throw)
    apply (rule wp_keeps_step [where I = ?I], rule view_world_only, simp, simp)
     apply (cases "td_gas details"; simp add: wp_throw)
     apply (intro wp_guard conjI impI; (simp add: wp_throw)?)
     apply (rule wp_gets_step, rule wp_keeps_step [where I = ?I], simp, simp)
      apply (auto simp: wp_ret says_def request_for_def)
    done
qed

lemma prepared_wp:
  "wp (prepareRelayRequest env details)
     (\<lambda>r t. rc_view env t = rc_view env s \<and> request_for env details (ci_deployment s) r) (\<lambda>_ t. rc_view env t = rc_view env s) s"
  by (rule wp_mono [OF says_wp [where s = s]]) (simp_all add: says_def)

lemma http_request_wp:
  fixes s :: "('w, 'z) rc_state_scheme"
  shows "wp (prepareRelayHttpRequest env info)
     (\<lambda>h t. rc_view env t = rc_view env s \<and> rtr_relayRequest h = rc_relayRequest s
       \<and> rm_relayHubAddress (rtr_metadata h) = (case dep_relayHubAddress (ci_deployment s) of Some a \<Rightarrow> a | None \<Rightarrow> []))
     (\<lambda>_ t. rc_view env t = rc_view env s) s"
proof -
  let ?I = "\<lambda>t. rc_view env t = rc_view env s"
  have same: "rc_relayRequest t = rc_relayRequest s \<and> ci_deployment t = ci_deployment s"
    if "rc_view env t = rc_view env s" for t :: "('w, 'z) rc_state_scheme"
    using that by (simp add: rc_view_def)
  show ?thesis
    unfolding prepareRelayHttpRequest_def Let_def
    apply (rule wp_keeps_step [where I = ?I], rule view_emit, simp, simp)
     apply (rule wp_gets_step, rule wp_gets_step)
     apply (rule wp_keeps_step [where I = ?I], simp, simp)
      apply (rule wp_keeps_step [where I = ?I], simp, simp)
       apply (rule wp_lift_step, rule wp_guard, simp, rule wp_lift_step, rule wp_guard, simp)
          apply (rule wp_keeps_step [where I = ?I], rule view_world_only, simp, simp)
           apply (rule wp_gets_step)
           apply (unfold wp_ret)
           apply (rule conjI, assumption)
           subgoal premises p using p(1) [THEN same] p(8) [THEN same] by simp
          apply assumption+
    done
qed

section \<open>An attempt\<close>

text \<open>What the client has checked of a transaction that it returns; \<open>request\<close> is what the relay was asked for.\<close>

definition checked_tx ::
  "('w, 'e) rc_env_scheme \<Rightarrow> GsnTransactionDetails \<Rightarrow> GSNContractsDeployment \<Rightarrow> signed_tx \<Rightarrow> RelayTransactionRequest \<Rightarrow> bool" where
  "checked_tx env details d tx request \<longleftrightarrow>
     request_for env details d (rtr_relayRequest request)
     \<and> validateTransactionTarget (dep_relayHubAddress d) tx
     \<and> validateTransactionSender request tx = Inr True
     \<and> sx_data tx = xl_encode (rc_txLib env) (asRelayCallAbi request)
     \<and> fees_ok request tx
     \<and> sx_nonce tx \<le> rm_relayMaxNonce (rtr_metadata request)"

lemma checked_tx_valid:
  assumes "validateRelayResponse lib (dep_relayHubAddress d) opts request raw gap = Inr v" and "isTransactionValid v"
    and "parse_transaction lib opts raw = Inr tx" and "lib = rc_txLib env"
    and "request_for env details d (rtr_relayRequest request)"
  shows "checked_tx env details d tx request"
  using assms validate_valid [of lib "dep_relayHubAddress d" opts request raw gap] by (auto simp: checked_tx_def)

text \<open>What holds after an attempt that started in \<open>s\<close>: at most one request was sent, to the relay of the attempt.\<close>

definition attempted ::
  "('w, 'e) rc_env_scheme \<Rightarrow> GsnTransactionDetails \<Rightarrow> ('w, 'z) rc_state_scheme \<Rightarrow> string \<Rightarrow> ('w, 'z) rc_state_scheme \<Rightarrow> bool" where
  "attempted env details s url t \<longleftrightarrow>
     ci_deployment t = ci_deployment s \<and> ci_rawTxOptions t = ci_rawTxOptions s \<and> sl_selection t = sl_selection s
     \<and> request_for env details (ci_deployment t) (rc_relayRequest t)
     \<and> (sent_urls (rc_events t) = sent_urls (rc_events s) \<or> sent_urls (rc_events t) = sent_urls (rc_events s) @ [url])"

lemma attempted_view:
  "rc_view env u = rc_view env t \<Longrightarrow> attempted env details s url t \<Longrightarrow> attempted env details s url u"
  by (auto simp: attempted_def rc_view_def)

definition attempt_ok ::
  "('w, 'e) rc_env_scheme \<Rightarrow> GsnTransactionDetails \<Rightarrow> GSNContractsDeployment \<Rightarrow> RelayInfo \<Rightarrow> RelayingAttempt \<Rightarrow> bool" where
  "attempt_ok env details d info a \<longleftrightarrow>
     (case ra_transaction a of None \<Rightarrow> True
      | Some tx \<Rightarrow> \<exists>request. checked_tx env details d tx request
          \<and> rd_relayWorker (rr_relayData (rtr_relayRequest request)) = pr_relayWorkerAddress (pingResponse info))"

lemma attempt_ok_failed [simp]: "attempt_ok env details d info (attempt_failed e b au)"
  by (simp add: attempt_ok_def attempt_failed_def)

lemma send_wp:
  "wp (send_to_relay env url h)
     (\<lambda>(raw, gap, tx) t. rc_view env t = rc_view env s \<and> parse_transaction (rc_txLib env) (ci_rawTxOptions s) raw = Inr tx)
     (\<lambda>_ t. rc_view env t = rc_view env s) s"
  unfolding send_to_relay_def
  apply (rule wp_keeps_step [where I = "\<lambda>t. rc_view env t = rc_view env s"], simp, simp)
   apply (simp only: case_prod_beta)
   apply (rule wp_gets_step, rule wp_lift_step)
    apply (simp add: wp_ret rc_view_def)
   apply assumption+
  done

lemma check_response_wp:
  fixes s :: "('w, 'z) rc_state_scheme"
  assumes "parse_transaction (rc_txLib env) (ci_rawTxOptions s) raw = Inr tx"
    and "request_for env details (ci_deployment s) (rtr_relayRequest h)"
    and "rd_relayWorker (rr_relayData (rtr_relayRequest h)) = pr_relayWorkerAddress (pingResponse info)"
  shows "wp (check_response env info h rid (raw, gap, tx))
     (\<lambda>a t. rc_view env t = rc_view env s \<and> attempt_ok env details (ci_deployment s) info a)
     (\<lambda>_ t. rc_view env t = rc_view env s) s"
proof -
  let ?I = "\<lambda>t. rc_view env t = rc_view env s"
  have ok: "attempt_ok env details (ci_deployment s) info a"
    if "ra_transaction a = Some tx" "isTransactionValid v"
      "validateRelayResponse (rc_txLib env) (dep_relayHubAddress (ci_deployment s)) (ci_rawTxOptions s) h raw gap = Inr v" for a v
    using checked_tx_valid [OF that(3,2) assms(1) refl assms(2)] assms(3) that(1) by (auto simp: attempt_ok_def)
  show ?thesis
    unfolding check_response_def case_prod_conv Let_def
    apply (rule wp_gets_step, rule wp_lift_step)
    subgoal for v
      apply (cases "isTransactionValid v"; simp only: not_True_eq_False not_False_eq_True if_True if_False)
       apply (rule wp_keeps_step [where I = ?I], rule view_emit, simp, simp)
        apply (rule wp_keeps_step [where I = ?I], rule view_broadcast, simp)
         apply (unfold wp_ret, rule conjI, assumption, rule ok)
           apply (simp, simp, assumption, assumption, assumption)
      apply (rule wp_keeps_step [where I = ?I], rule view_emit, simp, simp)
       apply (rule wp_keeps_step [where I = ?I], rule view_save_failure, simp)
        apply (unfold wp_ret, rule conjI, assumption, rule attempt_ok_failed, assumption, assumption)
      done
    apply simp
    done
qed

lemma attempt_wp:
  fixes s :: "('w, 'z) rc_state_scheme"
  assumes req: "request_for env details (ci_deployment s) (rc_relayRequest s)"
  shows "wp (attemptRelay env info)
     (\<lambda>a t. attempted env details s (ri_relayUrl (relayInfo info)) t \<and> attempt_ok env details (ci_deployment s) info a)
     (\<lambda>_ t. attempted env details s (ri_relayUrl (relayInfo info)) t) s"
proof -
  let ?url = "ri_relayUrl (relayInfo info)" and ?worker = "pr_relayWorkerAddress (pingResponse info)"
  let ?s1 = "s\<lparr>rc_relayRequest := with_relay env ?worker (rc_relayRequest s)\<rparr>"
  let ?I = "\<lambda>t. rc_view env t = rc_view env ?s1"
  let ?Q = "\<lambda>a t. attempted env details s ?url t \<and> attempt_ok env details (ci_deployment s) info a"
  let ?E = "\<lambda>_ t. attempted env details s ?url t"
  have start: "attempted env details s ?url ?s1" using req by (simp add: attempted_def)
  have at: "attempted env details s ?url t" if "?I t" for t
    by (rule attempted_view [OF that start])
  let ?s2 = "\<lambda>t. t\<lparr>rc_events := rc_events t @ [GsnSendToRelayerEvent ?url]\<rparr>"
  have rest: "wp (bnd (settled (send_to_relay env ?url h)) (\<lambda>sent. case sent of
        Inl e \<Rightarrow> bnd (when_eff (str_includes ''timeout'' (error_message e)) (save_failure env info)) (\<lambda>_. ret (attempt_failed e True None))
      | Inr response \<Rightarrow> check_response env info h rid response)) ?Q ?E (?s2 t)"
    if t: "?I t" and h: "rtr_relayRequest h = rc_relayRequest ?s1" for t h rid
  proof -
    have sent: "attempted env details s ?url u" if "rc_view env u = rc_view env (?s2 t)" for u
      using that t req by (auto simp: attempted_def rc_view_def)
    have d: "ci_deployment (?s2 t) = ci_deployment s" "ci_deployment u = ci_deployment s" "ci_rawTxOptions u = ci_rawTxOptions (?s2 t)"
      if "rc_view env u = rc_view env (?s2 t)" for u using that t by (auto simp: rc_view_def)
    have h': "request_for env details (ci_deployment s) (rtr_relayRequest h)" "rd_relayWorker (rr_relayData (rtr_relayRequest h)) = ?worker"
      using h req by simp_all
    show ?thesis
      unfolding wp_bnd wp_settled
      apply (rule wp_mono [OF send_wp])
      subgoal for a u
        apply (cases a)
        apply (simp only: case_prod_conv sum.case, elim conjE)
        apply (rule wp_mono [OF check_response_wp [where s = u and details = details]])
            apply (subst d(3), assumption, assumption)
           apply (subst d(2), assumption, rule h'(1))
          apply (rule h'(2))
        subgoal using sent d(2) by metis
        subgoal using sent by metis
        done
      subgoal for e u
        apply (simp only: sum.case)
        apply (rule wp_keeps_step [where I = "\<lambda>u. rc_view env u = rc_view env (?s2 t)"])
           apply (rule keeps_when, rule view_save_failure, assumption)
         apply (unfold wp_ret, rule conjI, erule sent, rule attempt_ok_failed)
        apply (erule sent)
        done
      done
  qed
  show ?thesis
    unfolding attemptRelay_def fillRelayInfo_def
    apply (subst wp_bnd, subst wp_modify)
    apply (subst wp_bnd, rule wp_mono [OF http_request_wp [where s = ?s1]])
    subgoal for h t
      apply (elim conjE)
      apply (rule wp_keeps_step [where I = ?I], rule view_emit, simp, assumption)
       apply (rule wp_keeps_step [where I = ?I], rule view_viewCall, assumption)
      subgoal for a t2 er t3
        apply (cases er)
         apply (simp only: option.case Let_def emit_def)
         apply (subst wp_bnd, subst wp_modify, rule rest, assumption, assumption)
        apply (simp only: option.case wp_ret, rule conjI, erule at, rule attempt_ok_failed)
        done
       apply (erule at)+
      done
    apply (erule at)
    done
qed

section \<open>The loop over relays\<close>

lemma keeps_select_loop:
  assumes "\<And>s w. I s \<Longrightarrow> I (s\<lparr>world := w\<rparr>)" and "\<And>s x. I s \<Longrightarrow> I (s\<lparr>sl_selection := x\<rparr>)" and "\<And>s n. I s \<Longrightarrow> I (s\<lparr>sl_draws := n\<rparr>)"
  shows "keeps I (select_loop env details relayHub paymaster fuel)"
proof (induction fuel)
  case (Suc fuel)
  have race: "keeps I (ping_race env details relayHub paymaster relays)" for relays
    unfolding ping_race_def next_draw_def Let_def
    by (intro keeps_bnd keeps_on_world keeps_gets keeps_modify keeps_ret keeps_lift_result assms)
  have nextR: "keeps I (nextRelayInternal env details relayHub paymaster relays)" for relays
    unfolding nextRelayInternal_def case_prod_beta
    apply (intro keeps_bnd race keeps_gets keeps_modify keeps_lift_result keeps_case_option keeps_ret)
     apply (erule assms(2))
    apply (split RelayInfoUrl.split)
    apply (intro conjI allI impI keeps_bnd keeps_ret keeps_gets)
    done
  show ?case
    unfolding select_loop.simps
    by (intro keeps_bnd keeps_if nextR keeps_gets keeps_ret keeps_lift_result keeps_case_option Suc.IH)
qed (simp add: keeps_def)

lemma keeps_selectNextRelay:
  assumes "\<And>s w. I s \<Longrightarrow> I (s\<lparr>world := w\<rparr>)" and "\<And>s x. I s \<Longrightarrow> I (s\<lparr>sl_selection := x\<rparr>)" and "\<And>s n. I s \<Longrightarrow> I (s\<lparr>sl_draws := n\<rparr>)"
  shows "keeps I (selectNextRelay env details relayHub paymaster)"
  unfolding selectNextRelay_def by (intro keeps_bnd keeps_gets keeps_select_loop assms)

definition result_ok :: "('w, 'e) rc_env_scheme \<Rightarrow> GsnTransactionDetails \<Rightarrow> GSNContractsDeployment \<Rightarrow> RelayingResult \<Rightarrow> bool" where
  "result_ok env details d r \<longleftrightarrow>
     (case rg_transaction r of None \<Rightarrow> True
      | Some tx \<Rightarrow> \<exists>request (info :: RelayInfo). checked_tx env details d tx request
          \<and> rd_relayWorker (rr_relayData (rtr_relayRequest request)) = pr_relayWorkerAddress (pingResponse info)
          \<and> ping_ok env details (case dep_relayHubAddress d of Some h \<Rightarrow> h | None \<Rightarrow> []) (pingResponse info))"

text \<open>What the loop has done since \<open>s\<close>: the relays it has sent a request to, each once.\<close>

definition relayed :: "('w, 'e) rc_env_scheme \<Rightarrow> GsnTransactionDetails \<Rightarrow> ('w, 'z) rc_state_scheme \<Rightarrow> RelayingResult option \<Rightarrow>
    ('w, 'z) rc_state_scheme \<Rightarrow> bool" where
  "relayed env details s r t \<longleftrightarrow>
     ci_deployment t = ci_deployment s
     \<and> (\<exists>urls. sent_urls (rc_events t) = sent_urls (rc_events s) @ urls \<and> distinct urls \<and> set urls \<subseteq> urls_left s)
     \<and> (case r of None \<Rightarrow> False | Some x \<Rightarrow> result_ok env details (ci_deployment s) x)"

lemma relayed_later:
  assumes step: "attempted env details u url v" "ci_deployment u = ci_deployment s" "sent_urls (rc_events u) = sent_urls (rc_events s)"
    and url: "url \<in> urls_left s" "url \<notin> urls_left u" "urls_left u \<subseteq> urls_left s" and rest: "relayed env details v r t"
  shows "relayed env details s r t"
proof -
  have v: "ci_deployment v = ci_deployment s" "urls_left v = urls_left u"
    using step by (simp_all add: attempted_def urls_left_def)
  obtain urls where urls: "sent_urls (rc_events t) = sent_urls (rc_events v) @ urls" "distinct urls" "set urls \<subseteq> urls_left v"
    using rest by (auto simp: relayed_def)
  have "sent_urls (rc_events v) = sent_urls (rc_events s) \<or> sent_urls (rc_events v) = sent_urls (rc_events s) @ [url]"
    using step by (auto simp: attempted_def)
  then have "\<exists>us. sent_urls (rc_events t) = sent_urls (rc_events s) @ us \<and> distinct us \<and> set us \<subseteq> urls_left s"
  proof
    assume "sent_urls (rc_events v) = sent_urls (rc_events s)"
    then show ?thesis using urls url v by auto
  next
    assume "sent_urls (rc_events v) = sent_urls (rc_events s) @ [url]"
    then have "sent_urls (rc_events t) = sent_urls (rc_events s) @ url # urls" "distinct (url # urls)" "set (url # urls) \<subseteq> urls_left s"
      using urls url v by auto
    then show ?thesis by blast
  qed
  moreover have "case r of None \<Rightarrow> False | Some x \<Rightarrow> result_ok env details (ci_deployment s) x"
    using rest unfolding relayed_def v(1) by blast
  ultimately show ?thesis using rest v(1) by (simp add: relayed_def)
qed

lemma no_relay_relayed:
  assumes "ci_deployment t = ci_deployment s" and "sent_urls (rc_events t) = sent_urls (rc_events s)" and "result_ok env details (ci_deployment s) x"
  shows "relayed env details s (Some x) t"
  using assms by (simp add: relayed_def)

lemma loop_wp:
  fixes s :: "('w, 'z) rc_state_scheme"
  assumes fair: "fair_random env" and "sel_isInitialized (sl_selection s)" and "length (relaysLeft (sl_selection s)) < fuel"
    and "request_for env details (ci_deployment s) (rc_relayRequest s)"
  shows "wp (relay_loop env details paymaster block fuel errors audits) (relayed env details s) (\<lambda>_ _. False) s"
  using assms(2-)
proof (induction fuel arbitrary: s errors audits)
  case (Suc fuel)
  let ?hub = "case dep_relayHubAddress (ci_deployment s) of Some h \<Rightarrow> h | None \<Rightarrow> []"
  let ?I = "\<lambda>u :: ('w, 'z) rc_state_scheme. ci_deployment u = ci_deployment s \<and> rc_relayRequest u = rc_relayRequest s
    \<and> sent_urls (rc_events u) = sent_urls (rc_events s)"
  let ?sel = "\<lambda>r u. narrowed s u \<and> (case r of None \<Rightarrow> False
       | Some None \<Rightarrow> 0 < gc_waitForSuccessSliceSize (cl_config env) \<longrightarrow> urls_left u = {}
       | Some (Some i) \<Rightarrow> length (relaysLeft (sl_selection u)) < length (relaysLeft (sl_selection s)) \<and> chosen env details ?hub s i u)"
  have select: "wp (selectNextRelay env details ?hub paymaster) (\<lambda>r u. ?sel r u \<and> ?I u) (\<lambda>_ _. False) s"
    by (rule wp_mono [OF wp_conj [OF selectNextRelay_wp [OF fair Suc.prems(1)] keeps_wpD [where I = ?I, OF keeps_selectNextRelay]]])
      simp_all
  have none: "relayed env details s (Some x) u" if "?I u" "rg_transaction x = None" for x u
    using that by (intro no_relay_relayed) (simp_all add: result_ok_def)
  have turn: "relayed env details s r t" if u: "?I u" "narrowed s u" "chosen env details ?hub s i u"
      and a: "attempted env details (u\<lparr>rc_events := rc_events u @ [GsnNextRelayEvent (ri_relayUrl (relayInfo i))]\<rparr>) (ri_relayUrl (relayInfo i)) v"
      and r: "relayed env details v r t" for i u v r t
  proof (rule relayed_later [OF a])
    show "ri_relayUrl (relayInfo i) \<in> urls_left s"
      "ri_relayUrl (relayInfo i) \<notin> urls_left (u\<lparr>rc_events := rc_events u @ [GsnNextRelayEvent (ri_relayUrl (relayInfo i))]\<rparr>)"
      "urls_left (u\<lparr>rc_events := rc_events u @ [GsnNextRelayEvent (ri_relayUrl (relayInfo i))]\<rparr>) \<subseteq> urls_left s"
      using u narrowed_urls [OF u(2)] by (auto simp: chosen_def urls_left_def)
  qed (use u r in simp_all)
  show ?case
    unfolding relay_loop.simps Let_def
    apply (rule wp_gets_step)
    apply (subst wp_bnd, rule wp_mono [OF select])
    subgoal premises p for r u
    proof (cases r)
      case (Some x)
      show ?thesis
      proof (cases x)
        case None
        then show ?thesis using Some p none by (simp add: wp_simps)
      next
        case (Some i)
        let ?url = "ri_relayUrl (relayInfo i)"
        let ?u = "u\<lparr>rc_events := rc_events u @ [GsnNextRelayEvent ?url]\<rparr>"
        have u: "?I u" "narrowed s u" "length (relaysLeft (sl_selection u)) < length (relaysLeft (sl_selection s))"
          "chosen env details ?hub s i u"
          using p Some \<open>r = Some x\<close> by auto
        have req: "request_for env details (ci_deployment ?u) (rc_relayRequest ?u)" using u(1) Suc.prems(3) by simp
        have rec: "wp (relay_loop env details paymaster block fuel errors' audits') (relayed env details s) (\<lambda>_ _. False) v"
          if "attempted env details ?u ?url v" for v errors' audits'
        proof (rule wp_mono [OF Suc.IH [of v]])
          show "sel_isInitialized (sl_selection v)" "length (relaysLeft (sl_selection v)) < fuel"
            using that u Suc.prems(2) by (simp_all add: attempted_def narrowed_def)
          show "request_for env details (ci_deployment v) (rc_relayRequest v)"
            using that unfolding attempted_def by blast
        qed (use turn [OF u(1,2,4) that] in auto)
        have stop: "relayed env details s (Some x) v"
          if "attempted env details ?u ?url v" "result_ok env details (ci_deployment s) x" for v x
        proof (rule turn [OF u(1,2,4) that(1)])
          show "relayed env details v (Some x) v"
            using that u(1) by (intro no_relay_relayed) (simp_all add: attempted_def)
        qed
        have ok: "result_ok env details (ci_deployment s) x" if "attempt_ok env details (ci_deployment s) i a"
          "rg_transaction x = ra_transaction a" for x a
          using that u(4) by (auto simp: result_ok_def attempt_ok_def chosen_def split: option.splits)
        have attempt: "wp (attemptRelay env i) (\<lambda>a v. attempted env details ?u ?url v \<and> attempt_ok env details (ci_deployment s) i a)
            (\<lambda>_. attempted env details ?u ?url) ?u"
          using attempt_wp [OF req, of i] u(1) by simp
        show ?thesis
          unfolding \<open>r = Some x\<close> Some option.case emit_def
          apply (subst wp_bnd, subst wp_modify, subst wp_bnd, subst wp_settled, rule wp_mono [OF attempt])
          subgoal for a v
            apply (elim conjE, simp only: sum.case wp_if wp_bnd wp_gets wp_ret, intro if_bool_eq_conj [THEN iffD2] conjI impI)
              apply (erule rec)
             apply (erule stop, erule ok, simp)
            apply (erule stop, erule ok, simp)
            done
          subgoal for e v
            apply (simp only: sum.case attempt_failed_def RelayingAttempt.select_convs simp_thms if_True if_False wp_bnd wp_gets wp_ret)
            apply (erule stop, simp add: result_ok_def)
            done
          done
      qed
    qed (use p in simp)
    apply simp
    done
qed simp

section \<open>Before the loop\<close>

text \<open>Nothing before the loop sends a request to a relay.\<close>

definition unsent_since :: "string list \<Rightarrow> ('w, 'z) rc_state_scheme \<Rightarrow> bool" where
  "unsent_since us s \<longleftrightarrow> sent_urls (rc_events s) = us"

lemma unsent_since_modify [intro]:
  "(\<And>s. rc_events (f s) = rc_events s) \<Longrightarrow> keeps (unsent_since us) (modify f)"
  by (rule keeps_modify) (simp add: unsent_since_def)

lemma unsent_since_world [intro, simp]: "keeps (unsent_since us) (on_world m)"
  by (rule keeps_on_world) (simp add: unsent_since_def)

lemma unsent_since_world_only: "world_only m \<Longrightarrow> keeps (unsent_since us) m"
  by (rule keepsI) (rule wp_world_only, simp_all add: unsent_since_def)

lemma unsent_since_emit [intro]: "sent_urls [e] = [] \<Longrightarrow> keeps (unsent_since us) (emit e)"
  unfolding emit_def by (rule keeps_modify) (simp add: unsent_since_def)

lemma unsent_since_ci_init: "keeps (unsent_since us) (ci_init ch lib cfg)"
proof -
  have set: "keeps (unsent_since us) (set_instance f)" "keeps (unsent_since us) (set_deployment g)" for f g
    unfolding set_instance_def set_deployment_def by auto
  have create: "keeps (unsent_since us) (create_if ch b kind a f)" for b kind a f
    unfolding create_if_def createInstance_def by (intro keeps_intros set unsent_since_world)
  have resolve: "keeps (unsent_since us) (resolveDeployment ch lib cfg)"
    unfolding resolveDeployment_def resolveDeploymentFromPaymaster_def resolveDeploymentFromRelayHub_def createInstance_def
      isContractDeployed_def
    by (intro keeps_intros set unsent_since_world unsent_since_modify; simp)
  show ?thesis
    unfolding ci_init_def initializeContracts_def validateCompatibility_def initializeNetworkParams_def
    by (intro keeps_intros resolve create unsent_since_world unsent_since_modify unsent_since_world_only world_only_node; simp)
qed

lemma unsent_since_client_init: "keeps (unsent_since us) (client_init env)"
  unfolding client_init_def validateERC165InterfacesClient_def trySupportsInterface_def isContractDeployed_def
  by (intro keeps_intros unsent_since_emit unsent_since_ci_init unsent_since_world unsent_since_modify; simp)

lemma world_only_getRegisteredRelays [intro, simp]: "world_only (getRegisteredRelays ch)"
  unfolding getRegisteredRelays_def by (intro world_only_intros)

lemma refresh_wp:
  fixes s :: "('w, 'z) rc_state_scheme"
  assumes "unsent_since us s"
  shows "wp (refresh_known env) (\<lambda>_ t. unsent_since us t \<and> known_ok env (sl_known t)) (\<lambda>_. unsent_since us) s"
proof -
  let ?I = "\<lambda>t :: ('w, 'z) rc_state_scheme. unsent_since us t \<and> kr_preferredRelayers (sl_known t) = gc_preferredRelays (cl_config env)"
  have reg: "keeps ?I (getRegisteredRelays ch)" for ch :: "('w, 'c) chain_scheme"
    by (rule keepsI) (rule wp_world_only [OF world_only_getRegisteredRelays], simp_all add: unsent_since_def)
  show ?thesis
    unfolding refresh_known_def Let_def
    apply (subst wp_bnd, subst wp_modify)
    apply (rule wp_keeps_step [OF reg])
    using assms
    by (auto simp: unsent_since_def wp_modify known_ok_def filter_relays_def registered_ok_def list_all_iff)
qed

lemma start_wp:
  fixes s :: "('w, 'z) rc_state_scheme"
  assumes "known_ok env (sl_known s)" and fair: "fair_random env"
  shows "wp (start_selection env) (\<lambda>_ t. ci_deployment t = ci_deployment s \<and> rc_relayRequest t = rc_relayRequest s
     \<and> rc_events t = rc_events s \<and> sel_isInitialized (sl_selection t) \<and> (\<forall>u\<in>urls_left t. allowed_url env u))
     (\<lambda>_ _. False) s"
proof -
  have set: "set (shuffle (cl_random env k) xs) = set xs" for k and xs :: "RelayInfoUrl list"
    using mset_shuffle [of "cl_random env k" xs] fair by (metis fair_random_def mset_eq_setD)
  show ?thesis
    using assms(1)
    by (auto simp: start_selection_def next_draw_def wp_simps sel_init_def urls_left_def relaysLeft_def
        getRelaysShuffledForTransaction_def set allowed_url_def known_ok_def list_all_iff)
qed

lemma try_relays_wp:
  fixes s :: "('w, 'z) rc_state_scheme"
  assumes fair: "fair_random env" and "known_ok env (sl_known s)" and "request_for env details (ci_deployment s) (rc_relayRequest s)"
  defines "us \<equiv> sent_urls (rc_events s)"
  shows "wp (try_relays env details)
    (\<lambda>r t. ci_deployment t = ci_deployment s
       \<and> (\<exists>urls. sent_urls (rc_events t) = us @ urls \<and> distinct urls \<and> list_all (allowed_url env) urls)
       \<and> (\<exists>x. r = Some x \<and> result_ok env details (ci_deployment s) x))
    (\<lambda>_. unsent_since us) s"
proof -
  let ?Q = "\<lambda>r t. ci_deployment t = ci_deployment s
       \<and> (\<exists>urls. sent_urls (rc_events t) = us @ urls \<and> distinct urls \<and> list_all (allowed_url env) urls)
       \<and> (\<exists>x. r = Some x \<and> result_ok env details (ci_deployment s) x)"
  have loop: "wp (relay_loop env details paymaster block (Suc (length (relaysLeft (sl_selection v)))) [] []) ?Q (\<lambda>_. unsent_since us) v"
    if "ci_deployment v = ci_deployment s" "rc_relayRequest v = rc_relayRequest s" "sel_isInitialized (sl_selection v)"
      "sent_urls (rc_events v) = us" "\<forall>u\<in>urls_left v. allowed_url env u" for v :: "('w, 'z) rc_state_scheme" and paymaster block
  proof (rule wp_mono [OF loop_wp [OF fair]])
    show "relayed env details v r t \<Longrightarrow> ?Q r t" for r t
      using that by (fastforce simp: relayed_def list_all_iff split: option.splits)
  qed (use that assms(3) in simp_all)
  show ?thesis
    unfolding try_relays_def
    apply (subst wp_bnd, rule wp_mono [OF start_wp [OF assms(2) fair]])
    subgoal for a u
      unfolding emit_def
      apply (rule wp_gets_step, subst wp_bnd, subst wp_modify, rule wp_guard, simp add: unsent_since_def us_def)
      apply (rule wp_gets_step, subst wp_bnd, unfold getBlockNumberRightNow_def, subst wp_on_world, rule wp_all)
      subgoal for b w
        using loop [of "u\<lparr>rc_events := rc_events u @ [GsnDoneRefreshRelaysEvent (length (relaysLeft (sl_selection u)))], world := w\<rparr>"]
        by (simp add: us_def urls_left_def del: relay_loop.simps)
      apply (simp add: unsent_since_def us_def)
      done
    apply simp
    done
qed

lemma with_gas_wp: "wp (with_gas env d) (\<lambda>d' t. (\<exists>g. d' = d\<lparr>td_gas := g\<rparr>) \<and> rc_view env t = rc_view env s) (\<lambda>_ t. rc_view env t = rc_view env s) s"
proof -
  have "world_only (estimateGasWithoutCalldata (rc_chain env) (rc_interactor env) e)" for e
    unfolding estimateGasWithoutCalldata_def Let_def by (intro world_only_intros world_only_node)
  note est = keeps_wpD [OF view_world_only [OF this], of env s "rc_view env s"]
  have same: "\<exists>g. d = d\<lparr>td_gas := g\<rparr>" by (rule exI [of _ "td_gas d"]) simp
  show ?thesis
    unfolding with_gas_def
    by (auto simp: wp_bnd wp_ret same intro!: wp_mono [OF est])
qed

lemma dry_run_wp:
  fixes s :: "('w, 'z) rc_state_scheme"
  assumes "request_for env details (ci_deployment s) (rc_relayRequest s)" and "known_ok env (sl_known s)" and "unsent_since us s"
  shows "wp (dry_run env) (\<lambda>_ t. unsent_since us t \<and> ci_deployment t = ci_deployment s \<and> known_ok env (sl_known t)
      \<and> request_for env details (ci_deployment t) (rc_relayRequest t)) (\<lambda>_. unsent_since us) s"
proof -
  let ?s = "s\<lparr>rc_relayRequest := with_relay env DRY_RUN_ADDRESS (rc_relayRequest s)\<rparr>"
  have view: "unsent_since us t \<and> ci_deployment t = ci_deployment s \<and> known_ok env (sl_known t)
      \<and> request_for env details (ci_deployment t) (rc_relayRequest t)" if "rc_view env t = rc_view env ?s" for t
    using that assms by (auto simp: rc_view_def unsent_since_def)
  show ?thesis
  proof (cases "gc_performDryRunViewRelayCall (cl_config env)")
    case True
    show ?thesis
      unfolding dry_run_def verifyDryRunSuccessful_def fillRelayInfo_def if_P [OF True]
      apply (subst wp_bnd, subst wp_modify, rule wp_gets_step)
      apply (rule wp_mono [OF keeps_wpD [OF view_viewCall [of env "rc_view env ?s"] refl]])
       apply (erule view)
      apply (drule view, elim conjE, assumption)
      done
  qed (use assms in \<open>simp add: dry_run_def wp_ret\<close>)
qed

definition relaying_ok ::
  "('w, 'e) rc_env_scheme \<Rightarrow> GsnTransactionDetails \<Rightarrow> string list \<Rightarrow> RelayingResult option \<Rightarrow> ('w, 'z) rc_state_scheme \<Rightarrow> bool" where
  "relaying_ok env details us r t \<longleftrightarrow>
     (\<exists>urls. sent_urls (rc_events t) = us @ urls \<and> distinct urls \<and> list_all (allowed_url env) urls)
     \<and> (\<exists>x g. r = Some x \<and> result_ok env (details\<lparr>td_gas := g\<rparr>) (ci_deployment t) x)"

lemma no_relay_ok: "unsent_since us t \<Longrightarrow> relaying_ok env details us (Some (no_relay_result errors)) t"
  by (auto simp: relaying_ok_def unsent_since_def result_ok_def no_relay_result_def intro!: exI [of _ "[]"])

lemma prepared_phase:
  fixes t :: "('w, 'z) rc_state_scheme"
  assumes fair: "fair_random env" and t: "unsent_since us t" "known_ok env (sl_known t)"
    and req: "request_for env (details\<lparr>td_gas := g\<rparr>) (ci_deployment t) r"
  shows "wp (bnd (modify (\<lambda>s. s\<lparr>rc_relayRequest := r\<rparr>)) (\<lambda>_. bnd (dry_run env) (\<lambda>dryRunError. case dryRunError of
       Some e \<Rightarrow> ret (Some (no_relay_result [(DRY_RUN_KEY, e)])) | None \<Rightarrow> try_relays env (details\<lparr>td_gas := g\<rparr>))))
     (relaying_ok env details us) (\<lambda>_. unsent_since us) t"
proof -
  let ?t = "t\<lparr>rc_relayRequest := r\<rparr>"
  have relays: "wp (try_relays env (details\<lparr>td_gas := g\<rparr>)) (relaying_ok env details us) (\<lambda>_. unsent_since us) u"
    if "unsent_since us u" "known_ok env (sl_known u)" "request_for env (details\<lparr>td_gas := g\<rparr>) (ci_deployment u) (rc_relayRequest u)"
    for u :: "('w, 'z) rc_state_scheme"
    using that by (intro wp_mono [OF try_relays_wp [OF fair that(2,3)]]) (auto simp: relaying_ok_def unsent_since_def)
  show ?thesis
    apply (subst wp_bnd, subst wp_modify, subst wp_bnd)
    apply (rule wp_mono [OF dry_run_wp [where s = ?t and us = us and details = "details\<lparr>td_gas := g\<rparr>"]])
        apply (simp add: req)
       apply (simp add: t)
      apply (use t(1) in \<open>simp add: unsent_since_def\<close>)
    subgoal for e u by (cases e) (auto simp: wp_ret intro: no_relay_ok relays)
    apply assumption
    done
qed

lemma relayTransaction_wp:
  fixes s :: "('w, 'z) rc_state_scheme"
  assumes fair: "fair_random env"
  defines "us \<equiv> sent_urls (rc_events s)"
  shows "wp (relayTransaction env details) (relaying_ok env (with_hex_fees (rc_lib env) details) us) (\<lambda>_. unsent_since us) s"
proof -
  let ?d = "with_hex_fees (rc_lib env) details"
  let ?U = "unsent_since us :: ('w, 'z) rc_state_scheme \<Rightarrow> bool"
  have s: "?U s" by (simp add: unsent_since_def us_def)
  have prep: "wp (bnd (settled (prepareRelayRequest env (?d\<lparr>td_gas := g\<rparr>))) (\<lambda>prepared. case prepared of
       Inl e \<Rightarrow> ret (Some (no_relay_result [(DRY_RUN_KEY, e)]))
     | Inr r \<Rightarrow> bnd (modify (\<lambda>s. s\<lparr>rc_relayRequest := r\<rparr>)) (\<lambda>_. bnd (dry_run env) (\<lambda>dryRunError. case dryRunError of
         Some e \<Rightarrow> ret (Some (no_relay_result [(DRY_RUN_KEY, e)])) | None \<Rightarrow> try_relays env (?d\<lparr>td_gas := g\<rparr>)))))
     (relaying_ok env ?d us) (\<lambda>_. ?U) t"
    if t: "?U t" "known_ok env (sl_known t)" for g and t :: "('w, 'z) rc_state_scheme"
  proof -
    have later: "?U u \<and> known_ok env (sl_known u) \<and> ci_deployment u = ci_deployment t" if "rc_view env u = rc_view env t" for u
      using that t by (simp add: rc_view_def unsent_since_def)
    show ?thesis
      unfolding wp_bnd wp_settled
      apply (rule wp_mono [OF prepared_wp [where s = t]])
      subgoal for r u
        using later [of u] by (simp only: sum.case flip: wp_bnd) (rule prepared_phase [OF fair], auto)
      subgoal for e u
        using later [of u] by (simp add: wp_ret no_relay_ok)
      done
  qed
  show ?thesis
    unfolding relayTransaction_def
    apply (rule wp_gets_step)
    apply (rule wp_keeps_step [where I = ?U], rule keeps_when, rule unsent_since_client_init, rule s)
     apply (rule wp_keeps_step [where I = ?U], rule unsent_since_emit, simp, assumption)
      apply (subst wp_bnd, rule wp_mono [OF refresh_wp], assumption)
       apply (elim conjE)
    subgoal for a t0 b t1 c t
      apply (subst wp_bnd, rule wp_mono [OF with_gas_wp [where s = t and env = env]])
      subgoal for d' u
        apply (elim conjE exE, simp only:, rule prep)
         apply (simp only: rc_view_def unsent_since_def prod.inject)
        apply (simp only: rc_view_def prod.inject)
        done
      subgoal for e u by (simp add: rc_view_def unsent_since_def)
      done
      apply assumption+
    done
qed

section \<open>Properties\<close>

text \<open>
  C27: relaying always comes to an end. Whatever the relays, the node and the callbacks answer, and in whatever order pings
  come back, the loop over relays and every choice in it stop by themselves: the fuel of the model is never used up, and
  what is returned is a result or an exception of a step before the loop.
\<close>

theorem relayTransaction_returns:
  assumes "fair_random env"
  shows "case relayTransaction env details s of (Inr None, _) \<Rightarrow> False | _ \<Rightarrow> True"
  using relayTransaction_wp [OF assms, of details s]
  by (auto simp: wp_def relaying_ok_def split: prod.splits sum.splits option.splits)

text \<open>
  C2: a transaction that is returned as relayed is the one that was asked for. It goes to the hub of the deployment and
  carries the encoding of a relay call whose request has the sender, target, data and value of the caller, the
  paymaster and the forwarder of the deployment and the fees of the caller; it is signed by the worker of a relay that
  answered a ping, is ready, serves this hub and passed the filter; it pays at least the fees asked for and its nonce is
  within the agreed gap.
\<close>

theorem relayTransaction_checked:
  assumes "fair_random env"
  shows "case relayTransaction env details s of
      (Inr (Some r), t) \<Rightarrow> (case rg_transaction r of None \<Rightarrow> True
        | Some tx \<Rightarrow> \<exists>request (info :: RelayInfo) g.
            checked_tx env (with_hex_fees (rc_lib env) details) (ci_deployment t) tx request
            \<and> rd_relayWorker (rr_relayData (rtr_relayRequest request)) = pr_relayWorkerAddress (pingResponse info)
            \<and> ping_ok env ((with_hex_fees (rc_lib env) details)\<lparr>td_gas := g\<rparr>)
                (case dep_relayHubAddress (ci_deployment t) of Some h \<Rightarrow> h | None \<Rightarrow> []) (pingResponse info))
    | _ \<Rightarrow> True"
proof -
  have gas: "checked_tx env (d\<lparr>td_gas := g\<rparr>) dep tx request = checked_tx env d dep tx request" for d g dep tx request
    by (simp add: checked_tx_def request_for_def)
  show ?thesis
    using relayTransaction_wp [OF assms(1), of details s]
    by (auto simp: wp_def relaying_ok_def result_ok_def gas split: prod.splits sum.splits option.splits; blast)
qed

text \<open>
  C8: during one call the request is sent to each relay at most once, and only to relays with an HTTP or HTTPS URL that
  are preferred ones or registered ones that are neither blacklisted nor rejected by the filter. This holds for every
  outcome, exceptions included.
\<close>

theorem relays_asked_once:
  assumes "fair_random env"
  shows "case relayTransaction env details s of (_, t) \<Rightarrow>
    \<exists>urls. sent_urls (rc_events t) = sent_urls (rc_events s) @ urls \<and> distinct urls \<and> list_all (allowed_url env) urls"
proof -
  have "\<exists>urls. sent_urls (rc_events t) = sent_urls (rc_events s) @ urls \<and> distinct urls \<and> list_all (allowed_url env) urls"
    if "unsent_since (sent_urls (rc_events s)) t" for t
    using that by (intro exI [of _ "[]"]) (simp add: unsent_since_def)
  then show ?thesis
    using relayTransaction_wp [OF assms(1), of details s]
    by (auto simp: wp_def relaying_ok_def split: prod.splits sum.splits)
qed

section \<open>A client for witnesses\<close>

definition client_chain :: "unit chain" where
  "client_chain = offline_chain\<lparr>ch_getBlockNumber := ret 100, ch_getTransactionCount := (\<lambda>_ _. ret 6),
     ch_contractAt := (\<lambda>_ _. ret ()), ch_getForwarderNonce := (\<lambda>_ _. ret 4),
     ch_ethCall := (\<lambda>_. ret (None, Some \<lparr>rpr_error = None, rpr_result = Some ''0x''\<rparr>)),
     ch_readRelayInfos := (\<lambda>_ _. ret [\<lparr>re_info = sample_relay ''0xA1'' [], re_urlParts = []\<rparr>])\<rparr>"

definition client_libs :: libs where
  "client_libs = \<lparr>lib_decodeString = Inr, lib_decodeRelayCall = (\<lambda>_. Inr (True, 0, [])), lib_encodeRelayCall = (\<lambda>_. ''0x''),
     lib_encodeVerifyRelayManagerStaked = (\<lambda>_. ''0x''), lib_toHex = id, lib_showError = (\<lambda>_. ''error''),
     lib_semverSatisfies = (\<lambda>_ _. True), lib_fromWei = int_to_string\<rparr>"

definition client_tx_libs :: tx_libs where
  "client_tx_libs = \<lparr>xl_parse = (\<lambda>raw opts. Inr \<lparr>sx_to = Some ''0xDD'', sx_sender = Inr ''0xcc'', sx_data = ''0x6c0x22'', sx_nonce = 6,
       sx_gas = LegacyTx 100, sx_hash = ''0x99'', sx_serialized = raw\<rparr>),
     xl_encode = (\<lambda>abi. ''0x6c'' @ fr_to (rr_request (abi_relayRequest abi))), xl_relayCallSelector = ''0x6c''\<rparr>"

definition client_http :: "unit http" where
  "client_http = sample_http\<lparr>hw_relay := (\<lambda>_ _. ret \<lparr>rs_signedTx = Some ''0xf8'', rs_nonceGapFilled = [], rs_error = None\<rparr>)\<rparr>"

definition sample_rc_env :: "unit rc_env" where
  "sample_rc_env = sel_env.extend (sample_sel_env\<lparr>cl_http := client_http, cl_pingFilter := GasPricePingFilter,
       cl_config := defaultGsnConfig\<lparr>gc_preferredRelays := [''http://a'']\<rparr>\<rparr>)
     \<lparr>rc_chain = client_chain, rc_lib = client_libs, rc_interactor = sample_ci_config,
      rc_erc165 = \<lparr>erc_forwarder = [], erc_paymaster = [], erc_penalizer = [], erc_relayRegistrar = [], erc_relayHub = [], erc_stakeManager = []\<rparr>,
      rc_txLib = client_tx_libs,
      rc_accountLib = sample_account_libs\<lparr>al_recoverTypedSignature := (\<lambda>_ _. Inr ''0x11''), al_getEip712Signature := (\<lambda>_ _ _. ret ''0x5a'')\<rparr>,
      rc_chainId = 1, rc_urlProtocol = (\<lambda>u. Some ''http:''), rc_relayFilter = (\<lambda>_. True),
      rc_asyncApprovalData = (\<lambda>_. ret ''0x''), rc_asyncPaymasterData = (\<lambda>_. ret ''0x''), rc_now = (\<lambda>_. 1000000),
      rc_hash = (\<lambda>_ _ _. ''0x01''), rc_getReceipt = (\<lambda>_. ret True), rc_pendingTransactions = ret [], rc_sendSigned = (\<lambda>_. ret ())\<rparr>"

definition empty_request :: RelayRequest where
  "empty_request = \<lparr>rr_request = \<lparr>fr_from = [], fr_to = [], fr_data = [], fr_value = [], fr_nonce = [], fr_gas = [], fr_validUntilTime = []\<rparr>,
     rr_relayData = \<lparr>rd_maxFeePerGas = [], rd_maxPriorityFeePerGas = [], rd_transactionCalldataGasUsed = [], rd_relayWorker = [],
       rd_paymaster = [], rd_paymasterData = [], rd_clientId = [], rd_forwarder = []\<rparr>\<rparr>"

definition sample_rc_state :: "unit rc_state" where
  "sample_rc_state = sel_state.extend (sample_sel_state\<lparr>contract_instances := (contract_instances sample_sel_state)\<lparr>in_relayRegistrar := Some ''0x55''\<rparr>\<rparr>)
     \<lparr>rc_initialized = True, rc_accounts = [], rc_events = [],
      rc_relayRequest = empty_request\<rparr>"

lemma sample_rc_fair: "fair_random sample_rc_env"
  by (simp add: fair_random_def sample_rc_env_def sel_env.defs sample_sel_env_def unit_interval_def)

theorem relayTransaction_returns_witness:
  "case relayTransaction sample_rc_env sample_gsn_details sample_rc_state of (Inr None, _) \<Rightarrow> False | _ \<Rightarrow> True"
  by (rule relayTransaction_returns [OF sample_rc_fair])

theorem relayTransaction_checked_witness:
  "case relayTransaction sample_rc_env sample_gsn_details sample_rc_state of
      (Inr (Some r), t) \<Rightarrow> (case rg_transaction r of None \<Rightarrow> True
        | Some tx \<Rightarrow> \<exists>request (info :: RelayInfo) g.
            checked_tx sample_rc_env (with_hex_fees (rc_lib sample_rc_env) sample_gsn_details) (ci_deployment t) tx request
            \<and> rd_relayWorker (rr_relayData (rtr_relayRequest request)) = pr_relayWorkerAddress (pingResponse info)
            \<and> ping_ok sample_rc_env ((with_hex_fees (rc_lib sample_rc_env) sample_gsn_details)\<lparr>td_gas := g\<rparr>)
                (case dep_relayHubAddress (ci_deployment t) of Some h \<Rightarrow> h | None \<Rightarrow> []) (pingResponse info))
    | _ \<Rightarrow> True"
  by (rule relayTransaction_checked [OF sample_rc_fair])

theorem relays_asked_once_witness:
  "case relayTransaction sample_rc_env sample_gsn_details sample_rc_state of (_, t) \<Rightarrow>
    \<exists>urls. sent_urls (rc_events t) = sent_urls (rc_events sample_rc_state) @ urls \<and> distinct urls
      \<and> list_all (allowed_url sample_rc_env) urls"
  by (rule relays_asked_once [OF sample_rc_fair])

end
