(* ===== verification/RelayProviderProps.thy ===== *)
theory RelayProviderProps imports RelayProvider RelayClientProps begin

text \<open>
  Properties of the provider: when a request is answered, what a submitted transaction is remembered by, and what the
  receipts it makes up for relayed transactions say.
\<close>

section \<open>Answers\<close>

lemma wp_ret_fun: "wp (ret a) Q E = Q a"
  by (simp add: fun_eq_iff wp_ret)

lemma wp_answered [wp_simps]: "wp (answered m) Q E s = wp m (\<lambda>a. Q (Some a)) E s"
  by (simp add: answered_def wp_bnd wp_ret_fun)

lemma wp_detached [wp_simps]: "wp (detached m) Q E s = wp m Q (\<lambda>_. Q None) s"
  by (simp add: detached_def wp_try_catch wp_ret_fun)













lemma send_lookups:
  assumes "useGSN payload"
  shows "jp_method payload = ''eth_getTransactionReceipt'' \<Longrightarrow> rp_send env payload = detached (answered (ethGetTransactionReceipt env payload))"
    and "jp_method payload = ''eth_getTransactionByHash'' \<Longrightarrow> rp_send env payload = detached (answered (ethGetTransactionByHash env payload))"
  using assms by (simp_all add: rp_send_def)

definition unreachable :: "string \<Rightarrow> 'w rp_env \<Rightarrow> 'w rp_env" where
  "unreachable m env = env\<lparr>rc_chain := (rc_chain env)\<lparr>ch_getBlockNumber := throw m\<rparr>\<rparr>"

lemma unreachable_details:
  assumes "map_of (submittedRelayRequests s) rid = None"
  shows "bnd (getSubmissionDetailsForRelayRequestId (unreachable m env) rid) k s = (Inl (Error m), s)"
  using assms
  by (simp add: getSubmissionDetailsForRelayRequestId_def unreachable_def on_world_def run_simps ret_def raise_def throw_def gets_def)

lemma unreachable_receipt:
  assumes "map_of (submittedRelayRequests s) rid = None" and "param 0 payload = Some (TextParam rid)"
    and "str_includes ''0x00000000'' rid"
  shows "ethGetTransactionReceipt (unreachable m env) payload s = (Inr (Some (Error m), None), s)"
  using assms(2,3)
  by (simp add: ethGetTransactionReceipt_def createTransactionReceiptForRelayRequestID_def wp_def try_catch_def
      bnd_def [of "bnd _ _"] unreachable_details [OF assms(1)] ret_def)

lemma unreachable_by_hash:
  assumes "map_of (submittedRelayRequests s) rid = None" and "param 0 payload = Some (TextParam rid)"
  shows "ethGetTransactionByHash (unreachable m env) payload s = (Inl (Error m), s)"
  using assms(2) by (simp add: ethGetTransactionByHash_def unreachable_details [OF assms(1)])

text \<open>when the node cannot be reached, a request for the receipt of a relayed transaction the provider did not submit
  itself is answered with the error, but the same request for the transaction is never answered: its promise is
  rejected and nobody waits for it.\<close>

theorem unreachable_node_answers:
  "rp_send (unreachable m env) \<lparr>jp_jsonrpc = v, jp_method = ''eth_getTransactionReceipt'',
            jp_params = Some [TextParam (''0x00000000'' @ rest)], jp_id = i\<rparr> (s\<lparr>submittedRelayRequests := []\<rparr>)
          = (Inr (Some (Some (Error m), None)), s\<lparr>submittedRelayRequests := []\<rparr>)
    \<and> rp_send (unreachable m env) \<lparr>jp_jsonrpc = v, jp_method = ''eth_getTransactionByHash'',
            jp_params = Some [TextParam (''0x00000000'' @ rest)], jp_id = i\<rparr> (s\<lparr>submittedRelayRequests := []\<rparr>)
          = (Inr None, s\<lparr>submittedRelayRequests := []\<rparr>)"
proof -
  let ?u = "s\<lparr>submittedRelayRequests := []\<rparr>" and ?id = "''0x00000000'' @ rest"
  let ?p = "\<lambda>mtd. \<lparr>jp_jsonrpc = v, jp_method = mtd, jp_params = Some [TextParam ?id], jp_id = i\<rparr>"
  have gsn: "useGSN (?p mtd)" and param: "param 0 (?p mtd) = Some (TextParam ?id)" for mtd
    by (simp_all add: useGSN_def param_def)
  have unknown: "map_of (submittedRelayRequests ?u) ?id = None" by simp
  have "starts_with ''0x00000000'' ?id" by (simp add: starts_with_def)
  then have prefix: "str_includes ''0x00000000'' ?id" by simp
  have receipt: "rp_send (unreachable m env) (?p ''eth_getTransactionReceipt'')
      = detached (answered (ethGetTransactionReceipt (unreachable m env) (?p ''eth_getTransactionReceipt'')))"
    by (rule send_lookups(1) [OF gsn]) simp
  have hash: "rp_send (unreachable m env) (?p ''eth_getTransactionByHash'')
      = detached (answered (ethGetTransactionByHash (unreachable m env) (?p ''eth_getTransactionByHash'')))"
    by (rule send_lookups(2) [OF gsn]) simp
  show ?thesis
    unfolding receipt hash detached_def answered_def try_catch_def bnd_def ret_def
      unreachable_receipt [OF unknown param prefix] unreachable_by_hash [OF unknown param]
    by simp
qed

section \<open>Submitted transactions\<close>

lemma fulfilled_wp:
  "wp (onRelayTransactionFulfilled env r payload)
     (\<lambda>a t. case a of (None, Some resp) \<Rightarrow> (\<exists>id d. jr_result resp = TextValue id \<and> map_of (submittedRelayRequests t) id = Some d
        \<and> rg_relayRequestID r = Some id \<and> rg_submissionBlock r = Some (sr_submissionBlock d)
        \<and> rg_validUntilTime r = Some (sr_validUntilTime d)) | (Some _, None) \<Rightarrow> True | _ \<Rightarrow> False)
     (\<lambda>_ _. True) s"
  by (auto simp: onRelayTransactionFulfilled_def cacheSubmittedTransactionDetails_def rpc_result_def rpc_failure_def wp_simps
      split: option.split)

definition remembered :: "rpc_answer option \<Rightarrow> 'w rp_state \<Rightarrow> bool" where
  "remembered a t \<longleftrightarrow> (case a of None \<Rightarrow> True | Some (None, None) \<Rightarrow> False | Some (Some _, _) \<Rightarrow> True
     | Some (None, Some resp) \<Rightarrow> (\<exists>id d. jr_result resp = TextValue id \<and> map_of (submittedRelayRequests t) id = Some d))"

text \<open>when a transaction was relayed, the answer has the id of the relay request for its hash, and the block and the
  time limit of the submission can be looked up by it from then on without asking the node.\<close>

theorem sent_transaction_remembered:
  assumes "jp_method payload = ''eth_sendTransaction''" and "useGSN payload"
  shows "case rp_send env payload s of
      (Inr (Some (None, Some resp)), t) \<Rightarrow>
        (\<exists>id d. jr_result resp = TextValue id \<and> getSubmissionDetailsForRelayRequestId env id t = (Inr d, t))
    | (Inr (Some (None, None)), _) \<Rightarrow> False
    | _ \<Rightarrow> True"
proof -
  let ?Q = "remembered :: rpc_answer option \<Rightarrow> 'a rp_state \<Rightarrow> bool"
  have none: "?Q None t" and failed: "?Q (Some (Some e, None)) t" for e t by (simp_all add: remembered_def)
  have fulfilled: "wp (onRelayTransactionFulfilled env r payload) (\<lambda>a. ?Q (Some a)) (\<lambda>_ _. True) t" for r t
    by (rule wp_mono [OF fulfilled_wp]) (auto simp: remembered_def split: option.splits)
  have rejected: "?Q (Some (onRelayTransactionRejected e)) t" for e t
    by (simp add: onRelayTransactionRejected_def rpc_failure_def failed)
  have "wp (try_catch (bnd (relayTransaction env d) (\<lambda>r. case r of None \<Rightarrow> ret None
        | Some relayingResult \<Rightarrow> answered (onRelayTransactionFulfilled env relayingResult payload)))
      (\<lambda>reason. ret (Some (onRelayTransactionRejected reason)))) ?Q (\<lambda>_ _. True) t" for d t
    unfolding wp_try_catch wp_bnd
    by (rule wp_all) (auto simp: wp_ret wp_answered rejected none intro!: wp_mono [OF fulfilled] split: option.split)
  note tried = this
  have sent: "wp (ethSendTransaction env payload params) ?Q (\<lambda>_ _. True) s" for params
    unfolding ethSendTransaction_def wp_bnd wp_settled
    by (rule wp_all) (auto simp: wp_ret failed tried)
  have "wp (rp_send env payload) ?Q (\<lambda>_ _. True) s"
    using assms
    by (auto simp: rp_send_def type_error_def wp_throw wp_ret rpc_failure_def wp_detached none failed
        intro!: wp_mono [OF sent] split: option.split rpc_param.split)
  moreover have known: "getSubmissionDetailsForRelayRequestId env rid t = (Inr d, t)"
    if "map_of (submittedRelayRequests t) rid = Some d" for rid t d
    using that by (simp add: getSubmissionDetailsForRelayRequestId_def run_simps gets_def ret_def)
  ultimately show ?thesis
    by (fastforce simp: remembered_def wp_def split: prod.splits sum.splits option.splits)
qed

section \<open>Events and receipts\<close>










text \<open>What is remembered of a submission at a time in milliseconds: the client adds the validity to the time in seconds.\<close>

definition submitted_at :: "int \<Rightarrow> int \<Rightarrow> int \<Rightarrow> SubmittedRelayRequestInfo" where
  "submitted_at b t0 validSeconds =
     \<lparr>sr_submissionBlock = b, sr_validUntilTime = int_to_string (math_round (of_int t0 / 1000) + validSeconds)\<rparr>"

text \<open>a transaction that is still valid is reported as reverted. The provider remembers the time limit of its own
  submission in seconds, as the relay client sets it, but compares it with the time in milliseconds. So when a
  transaction was submitted at \<open>t0\<close> and the hub has no event for it yet, its receipt is the one of a reverted transaction at
  any time, although the request can be mined until the time limit has passed.\<close>

theorem pending_reported_reverted:
  assumes "500 \<le> t0" and "1000 * validSeconds \<le> 998 * t0" and "t0 \<le> now"
  shows "case getPastEventsForHub (rc_chain env) (rc_interactor env) [AnyTopic, AnyTopic, AnyOf [rid]] (Some (Block b)) None
           [''TransactionRelayed'', ''TransactionRejectedByPaymaster''] (s\<lparr>submittedRelayRequests := [(rid, submitted_at b t0 validSeconds)]\<rparr>) of
      (Inr [], t) \<Rightarrow> createTransactionReceiptForRelayRequestID (env\<lparr>rc_now := \<lambda>_. now\<rparr>) rid (s\<lparr>submittedRelayRequests := [(rid, submitted_at b t0 validSeconds)]\<rparr>)
        = (Inr (Some createTransactionRevertedReceipt), t)
    | _ \<Rightarrow> True"
proof -
  have "of_int (math_round (of_int t0 / 1000)) \<le> (of_int t0 / 1000 + 1 / 2 :: rat)"
    by (simp add: math_round_def)
  moreover have "of_int (1000 * validSeconds) \<le> (of_int (998 * t0) :: rat)" using assms(2) by (simp only: of_int_le_iff)
  moreover have "(500 :: rat) \<le> of_int t0" using assms(1) by (metis of_int_le_iff of_int_numeral)
  ultimately have "(of_int (math_round (of_int t0 / 1000) + validSeconds) :: rat) \<le> of_int t0" by simp
  then have "math_round (of_int t0 / 1000) + validSeconds \<le> now" using assms(3) by (simp only: of_int_le_iff)
  then show ?thesis
    unfolding submitted_at_def
    by (auto simp: createTransactionReceiptForRelayRequestID_def getSubmissionDetailsForRelayRequestId_def
        getTransactionIdFromRequestId_def run_simps gets_def ret_def js_simps TX_FUTURE_def TX_NOTFOUND_def
        split: prod.splits sum.splits list.splits)
qed

section \<open>A concrete provider\<close>

definition sample_rp_env :: "unit rp_env" where
  "sample_rp_env = rc_env.extend sample_rc_env
     \<lparr>pv_send = (\<lambda>p. ret (None, Some \<lparr>jr_jsonrpc = ''2.0'', jr_id = jp_id p, jr_result = NullValue\<rparr>)),
      pv_getTransactionReceipt = (\<lambda>_. ret None), pv_decodeLogs = (\<lambda>_. []), pv_stack = (\<lambda>_. [])\<rparr>"

definition sample_rp_state :: "unit rp_state" where
  "sample_rp_state = rc_state.extend sample_rc_state \<lparr>submittedRelayRequests = [], sendId = 1000\<rparr>"

definition sample_payload :: JsonRpcPayload where
  "sample_payload = \<lparr>jp_jsonrpc = ''2.0'', jp_method = ''eth_sendTransaction'', jp_params = Some [TxParam
     \<lparr>xp_from = ''0x11'', xp_data = ''0x'', xp_to = Some ''0x22'', xp_value = None, xp_gas = None, xp_gasPrice = Some ''0x5'',
      xp_maxFeePerGas = None, xp_maxPriorityFeePerGas = None, xp_paymasterData = None, xp_clientId = None, xp_useGSN = None\<rparr>],
     jp_id = Some (StrId ''7'')\<rparr>"



theorem sent_transaction_remembered_witness:
  "case rp_send sample_rp_env sample_payload sample_rp_state of
      (Inr (Some (None, Some resp)), t) \<Rightarrow>
        (\<exists>id d. jr_result resp = TextValue id \<and> getSubmissionDetailsForRelayRequestId sample_rp_env id t = (Inr d, t))
    | (Inr (Some (None, None)), _) \<Rightarrow> False
    | _ \<Rightarrow> True"
  by (rule sent_transaction_remembered) (simp_all add: sample_payload_def useGSN_def param_def)

text \<open>A node at block 100 that knows the events \<open>es\<close> of the hub, and a transaction submitted at block 97.\<close>

definition answering_env :: "event_data list \<Rightarrow> unit rp_env" where
  "answering_env es = sample_rp_env\<lparr>rc_chain := client_chain\<lparr>ch_getPastEvents := \<lambda>_ _ _ _ _. ret es\<rparr>\<rparr>"

definition quiet_env :: "unit rp_env" where
  "quiet_env = answering_env []"

definition quiet_state :: "unit rp_state" where
  "quiet_state = sample_rp_state\<lparr>contract_instances := (contract_instances sample_rp_state)\<lparr>in_relayHub := Some ''0xdd''\<rparr>,
     submittedRelayRequests := [(''0x00000000aa'', submitted_at 97 1650000000000 172800)]\<rparr>"

lemma answering_fields:
  "rc_chain (answering_env es) = client_chain\<lparr>ch_getPastEvents := \<lambda>_ _ _ _ _. ret es\<rparr>" "rc_interactor (answering_env es) = sample_ci_config"
  "in_relayHub (contract_instances quiet_state) = Some ''0xdd''" "lastBlockNumber quiet_state = 0"
  by (simp_all add: answering_env_def sample_rp_env_def sample_rc_env_def quiet_state_def sample_rp_state_def sample_rc_state_def
      rc_env.defs sel_env.defs rc_state.defs sel_state.defs sample_sel_state_def ci_state.defs)

lemma world_ret: "on_world (ret x) s = (Inr x, s)"
  by (simp add: on_world_def zoom_def ret_def)

lemma answering_block:
  "getBlockNumber (rc_chain (answering_env es)) quiet_state = (Inr 100, quiet_state\<lparr>lastBlockNumber := 100\<rparr>)"
proof -
  have "poll_block (rc_chain (answering_env es)) (Suc 10) (-1) quiet_state = (Inr 100, quiet_state)"
    by (subst poll_block.simps)
      (simp add: answering_fields client_chain_def bnd_def gets_def try_catch_def world_ret ret_def del: poll_block.simps)
  then show ?thesis
    by (simp add: getBlockNumber_def bnd_def gets_def modify_def ret_def answering_fields del: poll_block.simps)
qed

lemma answering_pages:
  "paged_events (rc_chain (answering_env es)) c names topics (Block 97) (Block 100) 1 [] s = (Inr es, s)"
proof -
  have "fetch_page (rc_chain (answering_env es)) (Suc 99) c names topics r s = (Inr es, s)" for r
    by (subst fetch_page.simps) (simp add: answering_fields try_catch_def world_ret del: fetch_page.simps)
  then have "fetch_pages (rc_chain (answering_env es)) c names topics [r] [] s = (Inr (None, [es]), s)" for r
    by (simp add: bnd_def try_catch_def ret_def del: fetch_page.simps)
  then show ?thesis
    by (subst paged_events.simps) (simp add: splitRange_def lift_result_def bnd_def ret_def)
qed

lemma answering_events:
  "getPastEventsForHub (rc_chain (answering_env es)) (rc_interactor (answering_env es)) topics (Some (Block 97)) None names quiet_state
     = (Inr es, quiet_state\<lparr>lastBlockNumber := 100\<rparr>)"
proof -
  have "getPastEventsPaginated (rc_chain (answering_env es)) (rc_interactor (answering_env es)) c names topics (Some (Block 97)) None quiet_state
      = (Inr es, quiet_state\<lparr>lastBlockNumber := 100\<rparr>)" for c
    by (simp add: getPastEventsPaginated_def Let_def resolve_toBlock_def answering_block answering_fields(2) sample_ci_config_def
        MAX_SAFE_INTEGER_def block_greater_def getLogsPagesForRange_def ceil_div_def bnd_def ret_def lift_result_def answering_pages)
  then show ?thesis
    by (simp add: getPastEventsForHub_def with_instance_def instance_address_def bnd_def gets_def lift_result_def ret_def answering_fields(3))
qed





theorem pending_reported_reverted_witness:
  "\<exists>t. createTransactionReceiptForRelayRequestID (quiet_env\<lparr>rc_now := \<lambda>_. 1650000001000\<rparr>) ''0x00000000aa'' quiet_state
     = (Inr (Some createTransactionRevertedReceipt), t)"
proof -
  have state: "quiet_state\<lparr>submittedRelayRequests := [(''0x00000000aa'', submitted_at 97 1650000000000 172800)]\<rparr> = quiet_state"
    by (simp add: quiet_state_def)
  show ?thesis
    using pending_reported_reverted [of 1650000000000 172800 1650000001000 quiet_env "''0x00000000aa''" 97 quiet_state]
    by (simp add: quiet_env_def answering_events state)
qed

end
