(* ===== verification/Statistics.thy ===== *)
theory Statistics imports InteractorInit RelaySelection begin

text \<open>
  \<open>packages/common/src/statistics/StatisticsManager.ts\<close> with the records of \<open>types/GSNStatistics.ts\<close>: what is known of
  relays, paymasters and hubs from the events of the contracts, and the two overviews of a deployment it uses
  (\<open>ContractInteractor.ts\<close>). Relays are gathered one after another; the code starts them together and waits for
  all, so only the order of the requests to the node differs.
\<close>

section \<open>Data\<close>

record EventTransactionInfo =
  ei_eventData :: event_data
  ei_returnValues :: "(string \<times> string) list"

definition info_val :: "string \<Rightarrow> EventTransactionInfo \<Rightarrow> string" where
  "info_val k i = (case map_of (ei_returnValues i) k of Some v \<Rightarrow> v | None \<Rightarrow> [])"

datatype RelayServerStakeStatus = STAKE_LOCKED | STAKE_UNLOCKED | STAKE_WITHDRAWN | STAKE_PENALIZED

record RelayHubEvents =
  depositedEvents :: "EventTransactionInfo list option"
  relayRegisteredEvents :: "EventTransactionInfo list"
  transactionRelayedEvents :: "EventTransactionInfo list"
  transactionRejectedEvents :: "EventTransactionInfo list"

record StakeMangerEvents =
  allEvents :: "event_data list"
  stakeAddedEvents :: "EventTransactionInfo list"
  stakeUnlockedEvents :: "EventTransactionInfo list"
  stakeWithdrawnEvents :: "EventTransactionInfo list"
  stakePenalizedEvents :: "EventTransactionInfo list"
  hubAuthorizedEvents :: "EventTransactionInfo list"
  hubUnauthorizedEvents :: "EventTransactionInfo list"

record PaymasterInfo =
  pi_address :: string
  pi_relayHubBalance :: string
  pi_acceptedTransactionsCount :: nat
  pi_rejectedTransactionsCount :: nat

record RelayHubConstructorParams =
  cp_maxWorkerCount :: string
  cp_gasReserve :: string
  cp_postOverhead :: string
  cp_gasOverhead :: string
  cp_minimumUnstakeDelay :: string

record RelayServerInfo =
  rs_stakeInfo :: StakeInfo
  rs_ownerBalance :: string
  rs_stakeStatus :: RelayServerStakeStatus
  rs_isRegistered :: bool
  rs_managerAddress :: string
  rs_managerBalance :: string
  rs_authorizedHubs :: "(string \<times> string) list"
  rs_relayHubEarningsBalance :: string
  rs_stakeManagerEvents :: StakeMangerEvents
  rs_relayHubEvents :: RelayHubEvents

record GSNStatistics =
  gs_blockNumber :: int
  gs_relayHubConstructorParams :: RelayHubConstructorParams
  gs_runtimeVersion :: string
  gs_chainId :: "int option"
  gs_stakeManagerEvents :: StakeMangerEvents
  gs_relayHubEvents :: RelayHubEvents
  gs_contractsDeployment :: GSNContractsDeployment
  gs_deploymentVersions :: "(string \<times> string) list"
  gs_deploymentBalances :: "(string \<times> string) list"
  gs_senders :: "string list"
  gs_paymasters :: "PaymasterInfo list"
  gs_recipients :: "string list"
  gs_relayServers :: "RelayServerInfo list"
  gs_totalGasPaidViaGSN :: string
  gs_totalStakesByRelays :: string

datatype PingResult = PingResponded PingResponse | PingFailed js_error

definition all_stake_manager_events :: "string list" where
  "all_stake_manager_events =
     [''StakeAdded'', ''HubAuthorized'', ''HubUnauthorized'', ''StakeUnlocked'', ''StakeWithdrawn'', ''StakePenalized'']"

record 'w st_state = "'w ci_state" +
  st_stakeManagerEvents :: "StakeMangerEvents option"
  st_relayHubEvents :: "RelayHubEvents option"

text \<open>Events that were not fetched are undefined.\<close>

definition fetched :: "('w st_state \<Rightarrow> 'a option) \<Rightarrow> ('w st_state, 'a) eff" where
  "fetched f = bnd (gets f) (\<lambda>x. case x of None \<Rightarrow> throw ''Cannot read properties of undefined'' | Some a \<Rightarrow> ret a)"

text \<open>A JavaScript set, in the order of insertion.\<close>

definition set_add :: "'a \<Rightarrow> 'a list \<Rightarrow> 'a list" where
  "set_add x xs = (if x \<in> set xs then xs else xs @ [x])"

definition js_set :: "'a list \<Rightarrow> 'a list" where
  "js_set xs = fold set_add xs []"

section \<open>Reading events\<close>

definition extractTransactionInfos :: "event_data list \<Rightarrow> string \<Rightarrow> EventTransactionInfo list" where
  "extractTransactionInfos eventsData eventName =
     map (\<lambda>e. \<lparr>ei_eventData = e, ei_returnValues = ed_returnValues e\<rparr>) (filter (\<lambda>e. ed_event e = eventName) eventsData)"

definition extractUnique :: "EventTransactionInfo list \<Rightarrow> string list" where
  "extractUnique events = js_set (map (info_val ''relayManager'') events)"

definition stake_manager_events :: "event_data list \<Rightarrow> StakeMangerEvents" where
  "stake_manager_events events =
     \<lparr>allEvents = events, stakeAddedEvents = extractTransactionInfos events ''StakeAdded'',
      stakeUnlockedEvents = extractTransactionInfos events ''StakeUnlocked'',
      stakeWithdrawnEvents = extractTransactionInfos events ''StakeWithdrawn'',
      stakePenalizedEvents = extractTransactionInfos events ''StakePenalized'',
      hubAuthorizedEvents = extractTransactionInfos events ''HubAuthorized'',
      hubUnauthorizedEvents = extractTransactionInfos events ''HubUnauthorized''\<rparr>"

definition fetchStakeManagerEvents :: "'w chain \<Rightarrow> interactor_config \<Rightarrow> ('w st_state, unit) eff" where
  "fetchStakeManagerEvents ch cfg =
     bnd (getPastEventsForStakeManager ch cfg all_stake_manager_events [] (Some (Block 1)) None) (\<lambda>events.
     modify (\<lambda>s. s\<lparr>st_stakeManagerEvents := Some (stake_manager_events events)\<rparr>))"

definition fetchRelayHubEvents :: "'w chain \<Rightarrow> interactor_config \<Rightarrow> ('w st_state, unit) eff" where
  "fetchRelayHubEvents ch cfg =
     bnd (getPastEventsForHub ch cfg [] (Some (Block 1)) None [''Deposited'']) (\<lambda>deposited.
     bnd (getPastEventsForRegistrar ch cfg [] (Some (Block 1)) None [''RelayServerRegistered'']) (\<lambda>registered.
     bnd (getPastEventsForHub ch cfg [] (Some (Block 1)) None [''TransactionRelayed'']) (\<lambda>relayed.
     bnd (getPastEventsForHub ch cfg [] (Some (Block 1)) None [''TransactionRejectedByPaymaster'']) (\<lambda>rejected.
     modify (\<lambda>s. s\<lparr>st_relayHubEvents := Some
       \<lparr>depositedEvents = Some (extractTransactionInfos deposited ''Deposited''),
        relayRegisteredEvents = extractTransactionInfos registered ''RelayServerRegistered'',
        transactionRelayedEvents = extractTransactionInfos relayed ''TransactionRelayed'',
        transactionRejectedEvents = extractTransactionInfos rejected ''TransactionRejectedByPaymaster''\<rparr>\<rparr>)))))"

section \<open>Paymasters\<close>

definition count_for :: "string \<Rightarrow> EventTransactionInfo list \<Rightarrow> nat" where
  "count_for paymaster events = length (filter (\<lambda>it. isSameAddress (info_val ''paymaster'' it) paymaster) events)"

definition getPaymastersInfo :: "'w chain \<Rightarrow> ('w st_state, PaymasterInfo list) eff" where
  "getPaymastersInfo ch =
     bnd (fetched st_relayHubEvents) (\<lambda>hubEvents.
     map_eff (\<lambda>address.
       bnd (hubBalanceOf ch address) (\<lambda>relayHubBalance.
       ret \<lparr>pi_address = address, pi_relayHubBalance = int_to_string relayHubBalance,
            pi_acceptedTransactionsCount = count_for address (transactionRelayedEvents hubEvents),
            pi_rejectedTransactionsCount = count_for address (transactionRejectedEvents hubEvents)\<rparr>))
       (js_set (map (info_val ''paymaster'') (case depositedEvents hubEvents of None \<Rightarrow> [] | Some es \<Rightarrow> es))))"

text \<open>Both are left to be done in the code.\<close>

definition getSendersInfo :: "string list" where
  "getSendersInfo = []"

definition getRecipientsInfo :: "string list" where
  "getRecipientsInfo = []"

section \<open>Relays\<close>

definition getRelaysStakeStatus :: "StakeMangerEvents \<Rightarrow> (string \<times> RelayServerStakeStatus) list" where
  "getRelaysStakeStatus events =
     (let everStaked = extractUnique (stakeAddedEvents events);
          everUnlocked = extractUnique (stakeUnlockedEvents events);
          withdrawn = extractUnique (stakeWithdrawnEvents events);
          penalized = extractUnique (stakePenalizedEvents events);
          unlocked = filter (\<lambda>it. it \<notin> set penalized) (filter (\<lambda>it. it \<notin> set withdrawn) everUnlocked);
          staked = filter (\<lambda>it. it \<notin> set penalized) (filter (\<lambda>it. it \<notin> set everUnlocked) everStaked)
      in map (\<lambda>a. (a, STAKE_LOCKED)) staked @ map (\<lambda>a. (a, STAKE_UNLOCKED)) unlocked
         @ map (\<lambda>a. (a, STAKE_WITHDRAWN)) withdrawn @ map (\<lambda>a. (a, STAKE_PENALIZED)) penalized)"

definition of_manager :: "string \<Rightarrow> EventTransactionInfo list \<Rightarrow> EventTransactionInfo list" where
  "of_manager managerAddress = filter (\<lambda>it. info_val ''relayManager'' it = managerAddress)"

definition getStakeManagerEvents :: "string \<Rightarrow> StakeMangerEvents \<Rightarrow> StakeMangerEvents" where
  "getStakeManagerEvents managerAddress events =
     \<lparr>allEvents = filter (\<lambda>it. ret_val ''relayManager'' it = managerAddress) (allEvents events),
      stakeAddedEvents = of_manager managerAddress (stakeAddedEvents events),
      stakeUnlockedEvents = of_manager managerAddress (stakeUnlockedEvents events),
      stakeWithdrawnEvents = of_manager managerAddress (stakeWithdrawnEvents events),
      stakePenalizedEvents = of_manager managerAddress (stakePenalizedEvents events),
      hubAuthorizedEvents = of_manager managerAddress (hubAuthorizedEvents events),
      hubUnauthorizedEvents = of_manager managerAddress (hubUnauthorizedEvents events)\<rparr>"

text \<open>The hubs a relay is authorized for: the authorizations and their ends are replayed in the order of the comparator.\<close>

definition replay_authorization :: "event_data \<Rightarrow> string list \<Rightarrow> string list" where
  "replay_authorization e hubs =
     (if ed_event e = ''HubAuthorized'' then set_add (ret_val ''relayHub'' e) hubs
      else if ed_event e = ''HubUnauthorized'' then filter (\<lambda>h. h \<noteq> ret_val ''relayHub'' e) hubs
      else hubs)"

definition authorizedHubs :: "event_data list \<Rightarrow> string list" where
  "authorizedHubs events =
     fold replay_authorization
       (sort_cmp eventsComparator (filter (\<lambda>it. ed_event it = ''HubAuthorized'' \<or> ed_event it = ''HubUnauthorized'') events)) []"

definition hub_version :: "'w chain \<Rightarrow> string \<Rightarrow> ('w st_state, string) eff" where
  "hub_version ch hub =
     try_catch (bnd (createInstance ch ''IRelayHub'' hub) (\<lambda>h. on_world (ch_version ch h))) (\<lambda>_. ret ''Failed to query'')"

definition getAuthorizedHubsAndVersions ::
  "'w chain \<Rightarrow> StakeMangerEvents \<Rightarrow> ('w st_state, (string \<times> string) list) eff" where
  "getAuthorizedHubsAndVersions ch events =
     map_eff (\<lambda>hub. bnd (hub_version ch hub) (\<lambda>v. ret (hub, v))) (authorizedHubs (allEvents events))"

definition gatherRelayInfo ::
  "'w chain \<Rightarrow> string \<Rightarrow> RelayServerStakeStatus \<Rightarrow> ('w st_state, RelayServerInfo) eff" where
  "gatherRelayInfo ch managerAddress stakeStatus =
     bnd (fetched st_stakeManagerEvents) (\<lambda>stakeEvents.
     let stakeManagerEvents = getStakeManagerEvents managerAddress stakeEvents in
     bnd (getAuthorizedHubsAndVersions ch stakeManagerEvents) (\<lambda>hubs.
     bnd (fetched st_relayHubEvents) (\<lambda>hubEvents.
     bnd (hubBalanceOf ch managerAddress) (\<lambda>relayHubEarningsBalance.
     bnd (getStakeInfo ch managerAddress) (\<lambda>stakeInfo.
     bnd (getBalance ch (si_owner stakeInfo) ''latest'') (\<lambda>ownerBalance.
     bnd (getBalance ch managerAddress ''latest'') (\<lambda>managerBalance.
     ret \<lparr>rs_stakeInfo = stakeInfo, rs_ownerBalance = int_to_string ownerBalance, rs_stakeStatus = stakeStatus,
          rs_isRegistered = False, rs_managerAddress = managerAddress, rs_managerBalance = int_to_string managerBalance,
          rs_authorizedHubs = hubs, rs_relayHubEarningsBalance = int_to_string relayHubEarningsBalance,
          rs_stakeManagerEvents = stakeManagerEvents,
          rs_relayHubEvents = \<lparr>depositedEvents = None,
            relayRegisteredEvents = of_manager managerAddress (relayRegisteredEvents hubEvents),
            transactionRelayedEvents = of_manager managerAddress (transactionRelayedEvents hubEvents),
            transactionRejectedEvents = of_manager managerAddress (transactionRejectedEvents hubEvents)\<rparr>\<rparr>)))))))"

definition getRelayServersInfo :: "'w chain \<Rightarrow> ('w st_state, RelayServerInfo list) eff" where
  "getRelayServersInfo ch =
     bnd (fetched st_stakeManagerEvents) (\<lambda>events.
     map_eff (\<lambda>(address, status). gatherRelayInfo ch address status) (getRelaysStakeStatus events))"

definition attemptPing :: "'w http \<Rightarrow> string \<Rightarrow> ('w, PingResult) eff" where
  "attemptPing http url =
     try_catch (bnd (getPingResponse http url None) (\<lambda>r. ret (PingResponded r))) (\<lambda>e. ret (PingFailed e))"

section \<open>The deployment\<close>

definition getRelayHubConstructorParams :: "'w chain \<Rightarrow> ('w st_state, RelayHubConstructorParams) eff" where
  "getRelayHubConstructorParams ch =
     with_instance in_relayHub (\<lambda>hub.
     bnd (on_world (ch_getConfiguration ch hub)) (\<lambda>hubConfig.
     ret \<lparr>cp_maxWorkerCount = int_to_string (hc_maxWorkerCount hubConfig), cp_gasReserve = int_to_string (hc_gasReserve hubConfig),
          cp_postOverhead = int_to_string (hc_postOverhead hubConfig), cp_gasOverhead = int_to_string (hc_gasOverhead hubConfig),
          cp_minimumUnstakeDelay = int_to_string (hc_minimumUnstakeDelay hubConfig)\<rparr>))"

text \<open>The hub, the penalizer and the stake manager of the deployment, those that are set, with what is asked of each.\<close>

definition for_deployed ::
  "(GSNContractsDeployment \<Rightarrow> string option) list \<Rightarrow> (nat \<Rightarrow> string \<Rightarrow> ('w st_state, string) eff) \<Rightarrow>
   ('w st_state, (string \<times> string) list) eff" where
  "for_deployed parts ask =
     bnd (gets ci_deployment) (\<lambda>deployment.
     bnd (map_eff (\<lambda>(i, f). case f deployment of None \<Rightarrow> ret [] | Some a \<Rightarrow> bnd (ask i a) (\<lambda>v. ret [(a, v)]))
       (zip [0..<length parts] parts)) (\<lambda>found.
     ret (foldl (\<lambda>m (k, v). map_set k v m) [] (concat found))))"

definition deployed_fields :: "(GSNContractsDeployment \<Rightarrow> string option) list" where
  "deployed_fields = [dep_relayHubAddress, dep_penalizerAddress, dep_stakeManagerAddress]"

definition resolveDeploymentVersions :: "'w chain \<Rightarrow> ('w st_state, (string \<times> string) list) eff" where
  "resolveDeploymentVersions ch =
     for_deployed deployed_fields (\<lambda>i _. with_instance ([in_relayHub, in_penalizer, in_stakeManager] ! i) (\<lambda>a. on_world (ch_version ch a)))"

definition queryDeploymentBalances :: "'w chain \<Rightarrow> ('w st_state, (string \<times> string) list) eff" where
  "queryDeploymentBalances ch =
     for_deployed deployed_fields (\<lambda>_ a. bnd (getBalance ch a ''latest'') (\<lambda>b. ret (int_to_string b)))"

definition gatherStatistics :: "'w chain \<Rightarrow> interactor_config \<Rightarrow> ('w st_state, GSNStatistics) eff" where
  "gatherStatistics ch cfg =
     bnd (gets (map_option fst \<circ> ci_rawTxOptions)) (\<lambda>chainId.
     bnd (getBlockNumber ch) (\<lambda>blockNumber.
     bnd (getRelayHubConstructorParams ch) (\<lambda>params.
     with_instance in_stakeManager (\<lambda>stakeManagerAddress.
     bnd (getBalance ch stakeManagerAddress ''latest'') (\<lambda>totalStakesByRelays.
     bnd (fetchStakeManagerEvents ch cfg) (\<lambda>_.
     bnd (fetchRelayHubEvents ch cfg) (\<lambda>_.
     bnd (getRelayServersInfo ch) (\<lambda>relayServers.
     bnd (getPaymastersInfo ch) (\<lambda>paymasters.
     bnd (gets ci_deployment) (\<lambda>contractsDeployment.
     bnd (resolveDeploymentVersions ch) (\<lambda>versions.
     bnd (queryDeploymentBalances ch) (\<lambda>balances.
     bnd (fetched st_relayHubEvents) (\<lambda>hubEvents.
     bnd (fetched st_stakeManagerEvents) (\<lambda>stakeEvents.
     ret \<lparr>gs_blockNumber = blockNumber, gs_relayHubConstructorParams = params, gs_runtimeVersion = gsnRuntimeVersion,
          gs_chainId = chainId, gs_stakeManagerEvents = stakeEvents, gs_relayHubEvents = hubEvents,
          gs_contractsDeployment = contractsDeployment, gs_deploymentVersions = versions, gs_deploymentBalances = balances,
          gs_senders = getSendersInfo, gs_paymasters = paymasters, gs_recipients = getRecipientsInfo,
          gs_relayServers = relayServers, gs_totalGasPaidViaGSN = ''0'',
          gs_totalStakesByRelays = int_to_string totalStakesByRelays\<rparr>))))))))))))))"

section \<open>Properties\<close>

lemma set_fold_add: "set (fold set_add xs ys) = set ys \<union> set xs"
  by (induction xs arbitrary: ys) (auto simp: set_add_def)

lemma distinct_fold_add: "distinct ys \<Longrightarrow> distinct (fold set_add xs ys)"
  by (induction xs arbitrary: ys) (auto simp: set_add_def)

lemma js_set_simps [simp]: "set (js_set xs) = set xs" "distinct (js_set xs)"
  by (simp_all add: js_set_def set_fold_add distinct_fold_add)

definition has_event :: "string \<Rightarrow> EventTransactionInfo list \<Rightarrow> bool" where
  "has_event a events \<longleftrightarrow> list_ex (\<lambda>e. info_val ''relayManager'' e = a) events"

lemma extractUnique_simps [simp]: "a \<in> set (extractUnique events) \<longleftrightarrow> has_event a events" "distinct (extractUnique events)"
  by (auto simp: extractUnique_def has_event_def list_ex_iff)

lemma filter_distinct_eq: "distinct xs \<Longrightarrow> filter (\<lambda>x. x = a) xs = (if a \<in> set xs then [a] else [])"
  by (induction xs) auto

lemma statuses_of: "distinct xs \<Longrightarrow> map snd (filter (\<lambda>p. fst p = a) (map (\<lambda>x. (x, st)) xs)) = (if a \<in> set xs then [st] else [])"
  by (simp add: filter_map o_def filter_distinct_eq)

text \<open>the stake statuses a relay manager is listed with, for any events: locked if it ever staked and never unlocked its stake,
  unlocked if it unlocked it and never withdrew it, unless it was penalized; withdrawn and penalized if it ever was. So it
  is listed at most once with each status, and with two only if it was both withdrawn and penalized.\<close>

theorem stake_statuses_exact:
  "map snd (filter (\<lambda>p. fst p = a) (getRelaysStakeStatus events)) =
     (let penalized = has_event a (stakePenalizedEvents events); withdrawn = has_event a (stakeWithdrawnEvents events);
          unlocked = has_event a (stakeUnlockedEvents events)
      in (if has_event a (stakeAddedEvents events) \<and> \<not> unlocked \<and> \<not> penalized then [STAKE_LOCKED] else [])
         @ (if unlocked \<and> \<not> withdrawn \<and> \<not> penalized then [STAKE_UNLOCKED] else [])
         @ (if withdrawn then [STAKE_WITHDRAWN] else []) @ (if penalized then [STAKE_PENALIZED] else []))"
  by (simp add: getRelaysStakeStatus_def Let_def statuses_of)

definition hub_event :: "string \<Rightarrow> event_data \<Rightarrow> bool" where
  "hub_event h e \<longleftrightarrow> (ed_event e = ''HubAuthorized'' \<or> ed_event e = ''HubUnauthorized'') \<and> ret_val ''relayHub'' e = h"

lemma replay_last:
  "h \<in> set (fold replay_authorization es []) \<longleftrightarrow>
     filter (hub_event h) es \<noteq> [] \<and> ed_event (last (filter (hub_event h) es)) = ''HubAuthorized''"
proof (induction es rule: rev_induct)
  case (snoc e es)
  then show ?case
    by (auto simp: replay_authorization_def set_add_def hub_event_def)
qed simp

lemma sorted_last:
  assumes "sorted_wrt (\<lambda>a b. eventsComparator a b \<le> 0) xs" and "x \<in> set xs"
  shows "\<not> isSecondEventLater x (last xs)"
proof -
  obtain ys zs where xs: "xs = ys @ x # zs" using assms(2) by (meson split_list)
  show ?thesis
  proof (cases "zs = []")
    case True
    then show ?thesis using xs by (simp add: isSecondEventLater_lex)
  next
    case False
    then have "eventsComparator x (last zs) \<le> 0" using assms(1) xs by (auto simp: sorted_wrt_append)
    then show ?thesis using xs False by (simp add: isSecondEventLater_def)
  qed
qed

text \<open>the hubs a relay is listed as authorized for. The comparator of events puts later events first, so the authorizations
  and their ends are replayed backwards, and it is the oldest event of a hub that decides: a hub whose oldest event
  is an authorization is listed, even when the authorization has been taken back since.\<close>

theorem oldest_event_decides:
  assumes "e \<in> set events" and "hub_event h e"
    and "list_all (\<lambda>x. x = e \<or> \<not> hub_event h x \<or> isSecondEventLater e x) events"
  shows "h \<in> set (authorizedHubs events) \<longleftrightarrow> ed_event e = ''HubAuthorized''"
proof -
  let ?es = "filter (\<lambda>it. ed_event it = ''HubAuthorized'' \<or> ed_event it = ''HubUnauthorized'') events"
  let ?s = "filter (hub_event h) (sort_cmp eventsComparator ?es)"
  have mem: "x \<in> set ?s \<longleftrightarrow> x \<in> set events \<and> hub_event h x" for x by (auto simp: hub_event_def)
  have e: "e \<in> set ?s" using assms(1,2) mem by blast
  then have ne: "?s \<noteq> []" by (metis empty_iff list.set(1))
  have "sorted_wrt (\<lambda>a b. eventsComparator a b \<le> 0) ?s"
    using events_order.sort_sorted by (rule sorted_wrt_filter)
  then have "\<not> isSecondEventLater e (last ?s)" using e by (rule sorted_last)
  moreover have "last ?s \<in> set events \<and> hub_event h (last ?s)" using last_in_set [OF ne] mem by blast
  ultimately have "last ?s = e" using assms(3) by (auto simp: list_all_iff)
  then show ?thesis using ne unfolding authorizedHubs_def replay_last by simp
qed

definition hub_ev :: "int \<Rightarrow> string \<Rightarrow> event_data" where
  "hub_ev block name = \<lparr>ed_event = name, ed_blockNumber = block, ed_transactionIndex = 0, ed_transactionHash = ''0x1'',
     ed_returnValues = [(''relayManager'', ''0x22''), (''relayHub'', ''0xdd'')]\<rparr>"

theorem oldest_event_decides_witness:
  "''0xdd'' \<in> set (authorizedHubs [hub_ev 10 ''HubAuthorized'', hub_ev 20 ''HubUnauthorized''])"
  using oldest_event_decides [of "hub_ev 10 ''HubAuthorized''" "[hub_ev 10 ''HubAuthorized'', hub_ev 20 ''HubUnauthorized'']" "''0xdd''"]
  by (simp add: hub_ev_def hub_event_def ret_val_def isSecondEventLater_lex)

end
