(* ===== verification/Commands.thy ===== *)
theory Commands imports RelayClient TransactionManager begin

text \<open>
  \<open>packages/cli/src/CommandsLogic.ts\<close> and \<open>packages/common/src/EIP712/ForwarderUtil.ts\<close>: what the command line tools do on
  the chain. They register a relay, fund a paymaster, withdraw the balance of a relay manager and deploy the contracts.
  The state extends the one of the contract interactor; the wallet behind web3, the transactions to contracts and the
  clock are operations on the world. What the user types is a list of lines; when it ends the process does, like after
  an error that nothing catches.
\<close>

section \<open>Options, results and state\<close>

record RegisterOptions =
  ro_sleepMs :: int
  ro_sleepCount :: nat
  ro_from :: string
  ro_token :: "string option"
  ro_gasPrice :: "string option"
  ro_stake :: string
  ro_wrap :: bool
  ro_funds :: string
  ro_relayUrl :: string
  ro_unstakeDelay :: string

record WithdrawOptions =
  wo_withdrawAmount :: int
  wo_managerAddresses :: "string list"
  wo_ownerAddress :: "string option"
  wo_relayHubAddress :: string
  wo_broadcast :: bool
  wo_gasPrice :: "int option"
  wo_withdrawTarget :: "string option"
  wo_useAccountBalance :: bool

record DeployOptions =
  do_from :: "string option"
  do_gasPrice :: "string option"
  do_gasLimit :: string
  do_deployPaymaster :: "bool option"
  do_forwarderAddress :: "string option"
  do_relayHubAddress :: "string option"
  do_relayRegistryAddress :: "string option"
  do_stakeManagerAddress :: "string option"
  do_deployTestToken :: "bool option"
  do_stakingTokenAddress :: "string option"
  do_minimumTokenStake :: string
  do_penalizerAddress :: "string option"
  do_burnAddress :: "string option"
  do_devAddress :: "string option"
  do_skipConfirmation :: "bool option"
  do_relayHubConfiguration :: RelayHubConfiguration
  do_penalizerConfiguration :: PenalizerConfiguration

record RegistrationResult =
  rg_success :: bool
  rg_transactions :: "string list option"
  rg_error :: "string option"

record SendOptions =
  so_from :: string
  so_gasPrice :: string
  so_gas :: string
  so_value :: string

record tx_options =
  to_chainId :: string
  to_from :: string
  to_gas :: int
  to_gasPrice :: string
  to_value :: "string option"

datatype constructor_args =
    NoArgs
  | RelayRegistrarArgs int
  | StakeManagerArgs int int int "string option" "string option"
  | PenalizerArgs int int
  | RelayHubArgs string string string string RelayHubConfiguration

datatype contract_call =
    SetRegistrar string
  | SetMinimumStakes "string option list" "string list"
  | SetRelayHub string
  | SetTrustedForwarder string
  | RegisterRequestType string string
  | RegisterDomainSeparator string string

text \<open>
  A transaction to a contract answers with its hash. The receipt of a transfer may have none; its text is what
  \<open>JSON.stringify\<close> makes of it. \<open>ce_callWithdraw\<close> is the view call of \<open>withdraw\<close>, \<open>ce_encodeWithdraw\<close> its encoding.
\<close>

record 'w cm_env =
  ce_chain :: "'w chain"
  ce_lib :: libs
  ce_interactor :: interactor_config
  ce_http :: "'w http"
  ce_now :: "('w, int) eff"
  ce_sleep :: "int \<Rightarrow> ('w, unit) eff"
  ce_getAccounts :: "('w, string list) eff"
  ce_accountBalance :: "string \<Rightarrow> ('w, int) eff"
  ce_getChainId :: "('w, int) eff"
  ce_sendTransaction :: "tx_options \<Rightarrow> string \<Rightarrow> ('w, string option \<times> string) eff"
  ce_deposit :: "string \<Rightarrow> tx_options \<Rightarrow> ('w, string) eff"
  ce_approve :: "string \<Rightarrow> string \<Rightarrow> int \<Rightarrow> tx_options \<Rightarrow> ('w, string) eff"
  ce_stakeForRelayManager :: "string \<Rightarrow> string \<Rightarrow> string \<Rightarrow> string \<Rightarrow> int \<Rightarrow> tx_options \<Rightarrow> ('w, string) eff"
  ce_verifyRelayManagerStaked :: "string \<Rightarrow> string \<Rightarrow> ('w, unit) eff"
  ce_authorizeHubByOwner :: "string \<Rightarrow> string \<Rightarrow> string \<Rightarrow> tx_options \<Rightarrow> ('w, string) eff"
  ce_depositFor :: "string \<Rightarrow> string \<Rightarrow> int \<Rightarrow> string \<Rightarrow> ('w, unit) eff"
  ce_viewCall :: "unsigned_tx \<Rightarrow> ('w, unit) eff"
  ce_encodeWithdraw :: "string \<Rightarrow> int \<Rightarrow> string"
  ce_callWithdraw :: "string \<Rightarrow> string \<Rightarrow> int \<Rightarrow> int \<Rightarrow> int \<Rightarrow> ('w, unit) eff"
  ce_sign :: "string \<Rightarrow> unsigned_tx \<Rightarrow> js_error + TypedTransaction"
  ce_estimateDeploy :: "string \<Rightarrow> constructor_args \<Rightarrow> ('w, int) eff"
  ce_deploy :: "string \<Rightarrow> constructor_args \<Rightarrow> SendOptions \<Rightarrow> ('w, string) eff"
  ce_send :: "string \<Rightarrow> contract_call \<Rightarrow> SendOptions \<Rightarrow> ('w, unit) eff"

text \<open>The list \<open>cm_transactions\<close> is the local array of the operation that runs.\<close>

record 'w cm_state = "'w ci_state" +
  cm_deployment :: "GSNContractsDeployment option"
  cm_input :: "string list"
  cm_transactions :: "string list"

definition push_tx :: "string \<Rightarrow> ('w cm_state, unit) eff" where
  "push_tx h = modify (\<lambda>s. s\<lparr>cm_transactions := cm_transactions s @ [h]\<rparr>)"

section \<open>Accounts and relays\<close>

definition cm_getGasPrice :: "'w cm_env \<Rightarrow> ('w cm_state, int) eff" where
  "cm_getGasPrice env = ci_getGasPrice (ce_chain env) (ce_interactor env)"

fun wealthy_loop :: "'w cm_env \<Rightarrow> int \<Rightarrow> string list \<Rightarrow> ('w cm_state, string option) eff" where
  "wealthy_loop env requiredBalance [] = ret None"
| "wealthy_loop env requiredBalance (account # accounts) =
     bnd (on_world (ce_accountBalance env account)) (\<lambda>balance.
     if balance \<ge> requiredBalance then ret (Some account) else wealthy_loop env requiredBalance accounts)"

definition findWealthyAccount :: "'w cm_env \<Rightarrow> int \<Rightarrow> ('w cm_state, string) eff" where
  "findWealthyAccount env requiredBalance =
     bnd (try_catch
       (bnd (on_world (ce_getAccounts env)) (\<lambda>accounts.
        bnd (try_catch (wealthy_loop env requiredBalance accounts) (\<lambda>_. ret None)) (\<lambda>found. ret (accounts, found))))
       (\<lambda>_. ret ([], None))) (\<lambda>(accounts, found).
     case found of Some account \<Rightarrow> ret account
     | None \<Rightarrow> throw (''could not find unlocked account with sufficient balance; all accounts:'' @ [CHR 0x0A] @ '' - ''
         @ js_join ([CHR 0x0A] @ '' - '') accounts))"

definition isRelayReady :: "'w cm_env \<Rightarrow> string \<Rightarrow> ('w cm_state, bool) eff" where
  "isRelayReady env relayUrl = bnd (on_world (getPingResponse (ce_http env) relayUrl None)) (\<lambda>response. ret (pr_ready response))"

text \<open>The loop until \<open>endTime\<close>; \<open>None\<close> when the fuel is used up before.\<close>

fun wait_loop :: "'w cm_env \<Rightarrow> string \<Rightarrow> int \<Rightarrow> int \<Rightarrow> nat \<Rightarrow> ('w cm_state, unit option) eff" where
  "wait_loop env relayUrl timeout endTime 0 = ret None"
| "wait_loop env relayUrl timeout endTime (Suc fuel) =
     bnd (on_world (ce_now env)) (\<lambda>now.
     if now < endTime then
       bnd (try_catch (isRelayReady env relayUrl) (\<lambda>_. ret False)) (\<lambda>isReady.
       if isReady then ret (Some ())
       else bnd (on_world (ce_sleep env 3000)) (\<lambda>_. wait_loop env relayUrl timeout endTime fuel))
     else throw (''Relay not ready after '' @ int_to_string timeout @ ''s''))"

definition waitForRelay :: "'w cm_env \<Rightarrow> string \<Rightarrow> int \<Rightarrow> nat \<Rightarrow> ('w cm_state, unit option) eff" where
  "waitForRelay env relayUrl timeout fuel =
     bnd (on_world (ce_now env)) (\<lambda>now. wait_loop env relayUrl timeout (now + timeout * 1000) fuel)"

section \<open>Paymasters\<close>

definition getPaymasterBalance :: "'w cm_env \<Rightarrow> string \<Rightarrow> ('w cm_state, int) eff" where
  "getPaymasterBalance env paymaster =
     bnd (gets cm_deployment) (\<lambda>d. if d = None then throw ''Deployment is not initialized!''
     else hubBalanceOf (ce_chain env) paymaster)"

definition hubDepositFor :: "'w cm_env \<Rightarrow> string \<Rightarrow> int \<Rightarrow> string \<Rightarrow> ('w cm_state, unit) eff" where
  "hubDepositFor env paymaster value from =
     with_instance in_relayHub (\<lambda>hub. on_world (ce_depositFor env hub paymaster value from))"

definition fundPaymaster :: "'w cm_env \<Rightarrow> string \<Rightarrow> string \<Rightarrow> int \<Rightarrow> ('w cm_state, int) eff" where
  "fundPaymaster env from paymaster targetAmount =
     bnd (gets cm_deployment) (\<lambda>d. if d = None then throw ''Deployment is not initialized!'' else
     bnd (hubBalanceOf (ce_chain env) paymaster) (\<lambda>currentBalance.
     if currentBalance < targetAmount then
       (let value = targetAmount - currentBalance
        in bnd (hubDepositFor env paymaster value from) (\<lambda>_. ret targetAmount))
     else ret currentBalance))"

section \<open>Registering a relay\<close>

text \<open>\<open>toBN\<close> of a number: \<open>String\<close> writes numbers from \<open>1e21\<close> on with an exponent, that \<open>toBN\<close> does not read.\<close>

definition toBN_number :: "rat option \<Rightarrow> js_error + int" where
  "toBN_number r =
     (case r of Some x \<Rightarrow> if x = of_int \<lfloor>x\<rfloor> \<and> \<bar>x\<bar> < 10 ^ 21 then Inr \<lfloor>x\<rfloor>
        else Inl (Error ''[number-to-bn] while converting number'')
      | None \<Rightarrow> Inl (Error ''[number-to-bn] while converting number''))"

definition findFirstToken :: "'w cm_env \<Rightarrow> string \<Rightarrow> ('w cm_state, string) eff" where
  "findFirstToken env relayHubAddress =
     bnd (createInstance (ce_chain env) ''IRelayHub'' relayHubAddress) (\<lambda>relayHub.
     bnd (on_world (ch_getCreationBlock (ce_chain env) relayHub)) (\<lambda>fromBlock.
     bnd (getBlockNumber (ce_chain env)) (\<lambda>latest.
     let toBlock = min (fromBlock + 5000) latest in
     bnd (getPastEventsForHub (ce_chain env) (ce_interactor env) [] (Some (Block fromBlock)) (Some (Block toBlock))
            [''StakingTokenDataChanged'']) (\<lambda>tokens.
     case tokens of [] \<Rightarrow> throw (''no registered staking tokens on RelayHub '' @ relayHubAddress)
     | t # _ \<Rightarrow> ret (ret_val ''token'' t)))))"

definition cm_failure :: "string list option \<Rightarrow> string \<Rightarrow> RegistrationResult" where
  "cm_failure txs e = \<lparr>rg_success = False, rg_transactions = txs, rg_error = Some e\<rparr>"

definition send_options :: "'w cm_env \<Rightarrow> RegisterOptions \<Rightarrow> ('w cm_state, tx_options) eff" where
  "send_options env options =
     bnd (case ro_gasPrice options of Some g \<Rightarrow> ret g | None \<Rightarrow> bnd (cm_getGasPrice env) (\<lambda>g. ret (int_to_string g))) (\<lambda>gasPrice.
     bnd (on_world (ce_getChainId env)) (\<lambda>chainId.
     ret \<lparr>to_chainId = int_to_hex chainId, to_from = ro_from options, to_gas = 1000000,
          to_gasPrice = lib_toHex (ce_lib env) gasPrice, to_value = None\<rparr>))"

text \<open>The loop that waits for the relay to set its owner: \<open>left\<close> is \<open>sleepCount - i\<close>.\<close>

fun await_owner :: "'w cm_env \<Rightarrow> RegisterOptions \<Rightarrow> string \<Rightarrow> string \<Rightarrow> nat \<Rightarrow> ('w cm_state, unit) eff" where
  "await_owner env options stakeManager relayAddress left =
     bnd (on_world (ce_sleep env (ro_sleepMs options))) (\<lambda>_.
     bnd (on_world (ch_getStakeInfo (ce_chain env) stakeManager relayAddress)) (\<lambda>newStakeInfo.
     if si_owner newStakeInfo \<noteq> ZERO_ADDRESS \<and> isSameAddress (si_owner newStakeInfo) (ro_from options) then ret ()
     else (case left of 0 \<Rightarrow> throw ''RelayServer failed to set its owner on the StakeManager''
       | Suc n \<Rightarrow> await_owner env options stakeManager relayAddress n)))"

declare await_owner.simps [simp del]

text \<open>Transfer the funds; the receipt of a reverted transfer ends the registration.\<close>

definition fund_relay ::
  "'w cm_env \<Rightarrow> RegisterOptions \<Rightarrow> tx_options \<Rightarrow> string \<Rightarrow> ('w cm_state, RegistrationResult option) eff" where
  "fund_relay env options sendOptions relayAddress =
     bnd (getBalance (ce_chain env) relayAddress ''latest'') (\<lambda>bal.
     bnd (lift_result (toBN_string (ro_funds options))) (\<lambda>funds.
     if bal > funds then ret None
     else bnd (on_world (ce_sendTransaction env (sendOptions\<lparr>to_value := Some (ro_funds options)\<rparr>) relayAddress)) (\<lambda>(h, fundTx).
       case h of None \<Rightarrow> ret (Some (cm_failure None (''Fund transaction reverted: '' @ fundTx)))
       | Some transactionHash \<Rightarrow> bnd (push_tx transactionHash) (\<lambda>_. ret None))))"

text \<open>Stake what is missing: wrap and approve it first where that is needed.\<close>

definition stake_relay ::
  "'w cm_env \<Rightarrow> RegisterOptions \<Rightarrow> tx_options \<Rightarrow> string \<Rightarrow> string \<Rightarrow> string \<Rightarrow> string \<Rightarrow> (int \<Rightarrow> string) \<Rightarrow> int \<Rightarrow> int \<Rightarrow>
   ('w cm_state, unit) eff" where
  "stake_relay env options sendOptions relayHub stakeManager relayAddress stakingToken formatToken stakeParam stake =
     (let ch = ce_chain env in
     bnd (on_world (ch_getConfiguration ch relayHub)) (\<lambda>config.
     bnd (on_world (ch_getMinimumStakePerToken ch relayHub stakingToken)) (\<lambda>minimumStakeForToken.
     if minimumStakeForToken > stakeParam then
       throw (''Given stake '' @ formatToken stakeParam @ '' too low for the given hub '' @ formatToken minimumStakeForToken
         @ '' and token '' @ stakingToken)
     else if minimumStakeForToken = 0 then
       throw (''Selected token ('' @ stakingToken @ '') is not allowed in the current RelayHub'')
     else bnd (lift_result (toBN_string (ro_unstakeDelay options))) (\<lambda>unstakeDelay.
     if hc_minimumUnstakeDelay config > unstakeDelay then
       throw (''Given minimum unstake delay '' @ ro_unstakeDelay options @ '' too low for the given hub ''
         @ int_to_string (hc_minimumUnstakeDelay config))
     else (let stakeValue = stakeParam - stake in
     bnd (on_world (ch_tokenBalanceOf ch stakingToken (ro_from options))) (\<lambda>tokenBalance.
     bnd (when_eff (tokenBalance < stakeValue \<and> ro_wrap options)
       (bnd (try_catch (on_world (ce_deposit env stakingToken (sendOptions\<lparr>to_value := Some (int_to_string stakeValue)\<rparr>)))
               (\<lambda>_. throw ''No deposit() method on default token. is it wrapped ETH?'')) push_tx)) (\<lambda>_.
     bnd (on_world (ch_tokenAllowance ch stakingToken (ro_from options) stakeManager)) (\<lambda>currentAllowance.
     bnd (when_eff (currentAllowance < stakeValue)
       (bnd (on_world (ce_approve env stakingToken stakeManager stakeValue sendOptions)) push_tx)) (\<lambda>_.
     bnd (on_world (ce_stakeForRelayManager env stakeManager stakingToken relayAddress (ro_unstakeDelay options) stakeValue
            sendOptions)) push_tx)))))))))"

definition authorize_relay ::
  "'w cm_env \<Rightarrow> tx_options \<Rightarrow> string \<Rightarrow> string \<Rightarrow> string \<Rightarrow> string \<Rightarrow> ('w cm_state, unit) eff" where
  "authorize_relay env sendOptions relayHub stakeManager relayAddress relayHubAddress =
     try_catch (on_world (ce_verifyRelayManagerStaked env relayHub relayAddress)) (\<lambda>_.
       bnd (on_world (ce_authorizeHubByOwner env stakeManager relayAddress relayHubAddress sendOptions)) push_tx)"

text \<open>The relay that answers is the one to register: not ready yet, on our chain, with us as its owner.\<close>

definition check_relay :: "RegisterOptions \<Rightarrow> (int \<times> int) option \<Rightarrow> PingResponse \<Rightarrow> js_error + unit" where
  "check_relay options raw response =
     (case raw of None \<Rightarrow> Inl (Error ''Cannot read properties of undefined (reading toString)'')
      | Some (chainId, _) \<Rightarrow>
         if pr_chainId response \<noteq> Some (int_to_string chainId) then
           Inl (Error (''wrong chain-id: Relayer on ('' @ (case pr_chainId response of None \<Rightarrow> ''undefined'' | Some c \<Rightarrow> c)
             @ '') but our provider is on ('' @ int_to_string chainId @ '')''))
         else if \<not> isSameAddress (pr_ownerAddress response) (ro_from options) then
           Inl (Error (''Relayer configured with wrong owner: '' @ pr_ownerAddress response @ '', our account: '' @ ro_from options))
         else Inr ())"

definition register_relay ::
  "'w cm_env \<Rightarrow> RegisterOptions \<Rightarrow> tx_options \<Rightarrow> PingResponse \<Rightarrow> nat \<Rightarrow> ('w cm_state, RegistrationResult option) eff" where
  "register_relay env options sendOptions response fuel =
     (let ch = ce_chain env;
          relayAddress = pr_relayManagerAddress response;
          relayHubAddress = pr_relayHubAddress response
      in
     bnd (resolveDeploymentFromRelayHub ch relayHubAddress) (\<lambda>_.
     with_instance in_relayHub (\<lambda>relayHub.
     bnd (on_world (ch_getStakeManager ch relayHub)) (\<lambda>stakeManagerAddress.
     bnd (createInstance ch ''IStakeManager'' stakeManagerAddress) (\<lambda>stakeManager.
     bnd (on_world (ch_getStakeInfo ch stakeManager relayAddress)) (\<lambda>info.
     bnd (case ro_token options of Some t \<Rightarrow> ret t | None \<Rightarrow> findFirstToken env relayHubAddress) (\<lambda>stakingToken.
     if \<not> (isSameAddress (si_token info) stakingToken \<or> isSameAddress (si_token info) ZERO_ADDRESS) then
       throw (''Cannot use token '' @ stakingToken @ ''. Relayer already uses token: '' @ si_token info)
     else
     bnd (createInstance ch ''IERC20Token'' stakingToken) (\<lambda>stakingTokenContract.
     bnd (on_world (ch_tokenDecimals ch stakingTokenContract)) (\<lambda>tokenDecimals.
     bnd (on_world (ch_tokenSymbol ch stakingTokenContract)) (\<lambda>tokenSymbol.
     bnd (lift_result (toBN_number (map_option (\<lambda>x. x * 10 ^ nat tokenDecimals) (parseFloat (ro_stake options))))) (\<lambda>stakeParam.
     if si_owner info \<noteq> ZERO_ADDRESS \<and> \<not> isSameAddress (si_owner info) (ro_from options) then
       throw (''Already owned by '' @ si_owner info @ '', our account='' @ ro_from options)
     else
     bnd (fund_relay env options sendOptions relayAddress) (\<lambda>reverted. case reverted of Some r \<Rightarrow> ret (Some r) | None \<Rightarrow>
     bnd (when_eff (si_owner info = ZERO_ADDRESS) (await_owner env options stakeManager relayAddress (ro_sleepCount options))) (\<lambda>_.
     bnd (lift_result (toBN_string (ro_unstakeDelay options))) (\<lambda>unstakeDelay.
     bnd (when_eff (\<not> (si_unstakeDelay info \<ge> unstakeDelay \<and> si_stake info \<ge> stakeParam))
       (stake_relay env options sendOptions relayHub stakeManager relayAddress stakingTokenContract
          (\<lambda>v. formatTokenAmount (lib_fromWei (ce_lib env)) v tokenDecimals tokenSymbol) stakeParam (si_stake info))) (\<lambda>_.
     bnd (authorize_relay env sendOptions relayHub stakeManager relayAddress relayHubAddress) (\<lambda>_.
     bnd (waitForRelay env (ro_relayUrl options) 60 fuel) (\<lambda>waited. case waited of None \<Rightarrow> ret None | Some _ \<Rightarrow>
     bnd (gets cm_transactions) (\<lambda>txs.
     ret (Some \<lparr>rg_success = True, rg_transactions = Some txs, rg_error = None\<rparr>)))))))))))))))))))"

definition report_failure :: "('w cm_state, RegistrationResult option) eff \<Rightarrow> ('w cm_state, RegistrationResult option) eff" where
  "report_failure m =
     bnd (modify (\<lambda>s. s\<lparr>cm_transactions := []\<rparr>)) (\<lambda>_.
     try_catch m (\<lambda>e. bnd (gets cm_transactions) (\<lambda>txs. ret (Some (cm_failure (Some txs) (error_message e))))))"

definition cm_registerRelay :: "'w cm_env \<Rightarrow> RegisterOptions \<Rightarrow> nat \<Rightarrow> ('w cm_state, RegistrationResult option) eff" where
  "cm_registerRelay env options fuel =
     report_failure
       (bnd (send_options env options) (\<lambda>sendOptions.
        bnd (try_catch (on_world (getPingResponse (ce_http env) (ro_relayUrl options) None))
               (\<lambda>_. throw ''could contact not relayer, is it running?'')) (\<lambda>response.
        if pr_ready response then ret (Some (cm_failure None ''Nothing to do. Relayer already registered''))
        else bnd (gets ci_rawTxOptions) (\<lambda>raw.
        bnd (lift_result (check_relay options raw response)) (\<lambda>_.
        register_relay env options sendOptions response fuel)))))"

section \<open>Withdrawing\<close>

definition displayManagerBalances :: "'w cm_env \<Rightarrow> string \<Rightarrow> string list \<Rightarrow> ('w cm_state, string \<times> string) eff" where
  "displayManagerBalances env relayHubAddress managerAddresses =
     (let relayManager = getAddress managerAddresses 0 in
     bnd (createInstance (ce_chain env) ''IRelayHub'' relayHubAddress) (\<lambda>relayHub.
     bnd (getBalance (ce_chain env) relayManager ''latest'') (\<lambda>accountBalance.
     bnd (on_world (ch_hubBalanceOf (ce_chain env) relayHub relayManager)) (\<lambda>hubBalance.
     ret (lib_fromWei (ce_lib env) accountBalance, lib_fromWei (ce_lib env) hubBalance)))))"

text \<open>The transaction that withdraws, after the check of the balance and a view call that succeeded.\<close>

definition withdrawal_tx ::
  "'w cm_env \<Rightarrow> WithdrawOptions \<Rightarrow> string \<Rightarrow> string \<Rightarrow> string \<Rightarrow> int \<Rightarrow> int \<Rightarrow> ('w cm_state, unsigned_tx) eff" where
  "withdrawal_tx env options relayHub relayManager withdrawTarget nonce gasPrice =
     (let gasLimit = 100000 in
     if wo_useAccountBalance options then
       bnd (getBalance (ce_chain env) relayManager ''latest'') (\<lambda>balance.
       if balance < wo_withdrawAmount options then throw ''Relay manager account balance lower than withdrawal amount''
       else (let txData = \<lparr>un_to = withdrawTarget, un_value = Some (int_to_string (wo_withdrawAmount options)),
                 un_gasLimit = gasLimit, un_fees = LegacyFee gasPrice, un_data = [], un_nonce = nonce\<rparr>
         in bnd (on_world (ce_viewCall env txData)) (\<lambda>_. bnd getRawTxOptions (\<lambda>_. ret txData))))
     else
       bnd (on_world (ch_hubBalanceOf (ce_chain env) relayHub relayManager)) (\<lambda>balance.
       if balance < wo_withdrawAmount options then throw ''Relay manager hub balance lower than withdrawal amount''
       else bnd getRawTxOptions (\<lambda>_.
         bnd (on_world (ce_callWithdraw env relayManager withdrawTarget (wo_withdrawAmount options) gasLimit gasPrice)) (\<lambda>_.
         ret \<lparr>un_to = wo_relayHubAddress options, un_value = Some ''0'', un_gasLimit = gasLimit, un_fees = LegacyFee gasPrice,
              un_data = ce_encodeWithdraw env withdrawTarget (wo_withdrawAmount options), un_nonce = nonce\<rparr>))))"

definition withdraw_to_owner :: "'w cm_env \<Rightarrow> WithdrawOptions \<Rightarrow> ('w cm_state, RegistrationResult option) eff" where
  "withdraw_to_owner env options =
     (let ch = ce_chain env; relayManager = getAddress (wo_managerAddresses options) 0 in
     bnd (createInstance ch ''IRelayHub'' (wo_relayHubAddress options)) (\<lambda>relayHub.
     bnd (on_world (ch_getStakeManager ch relayHub)) (\<lambda>stakeManagerAddress.
     bnd (createInstance ch ''IStakeManager'' stakeManagerAddress) (\<lambda>stakeManager.
     bnd (on_world (ch_getStakeInfo ch stakeManager relayManager)) (\<lambda>info.
     let owner = si_owner info in
     bnd (case wo_ownerAddress options of None \<Rightarrow> ret ()
       | Some ownerAddress \<Rightarrow> if toLowerCase owner \<noteq> toLowerCase ownerAddress then
           throw (''Owner in relayHub '' @ owner @ '' is different than in server config '' @ ownerAddress) else ret ()) (\<lambda>_.
     let withdrawTarget = (case wo_withdrawTarget options of Some t \<Rightarrow> t | None \<Rightarrow> owner) in
     bnd (getTransactionCount ch relayManager ''latest'') (\<lambda>nonce.
     bnd (case wo_gasPrice options of Some g \<Rightarrow> ret g | None \<Rightarrow> cm_getGasPrice env) (\<lambda>gasPrice.
     bnd (withdrawal_tx env options relayHub relayManager withdrawTarget nonce gasPrice) (\<lambda>txToSign.
     bnd (lift_result (km_signTransaction (ce_sign env) (wo_managerAddresses options) relayManager txToSign)) (\<lambda>(rawTx, _).
     bnd (when_eff (wo_broadcast options) (bnd (ci_broadcastTransaction ch (ce_lib env) rawTx) push_tx)) (\<lambda>_.
     bnd (gets cm_transactions) (\<lambda>txs.
     ret (Some \<lparr>rg_success = True, rg_transactions = Some txs, rg_error = None\<rparr>)))))))))))))"

definition cm_withdrawToOwner :: "'w cm_env \<Rightarrow> WithdrawOptions \<Rightarrow> ('w cm_state, RegistrationResult option) eff" where
  "cm_withdrawToOwner env options = report_failure (withdraw_to_owner env options)"

section \<open>Deploying\<close>

text \<open>The loop of \<open>confirm\<close> over the lines the user types.\<close>

fun confirm_lines :: "(string list, unit) eff" where
  "confirm_lines [] = (Inl (Error ''end of input''), [])"
| "confirm_lines (input # rest) =
     (if input = ''yes'' then (Inr (), rest)
      else if input = ''no'' then (Inl (Error ''User rejected''), rest)
      else confirm_lines rest)"

definition confirm :: "('w cm_state, unit) eff" where
  "confirm = zoom cm_input (\<lambda>i s. s\<lparr>cm_input := i\<rparr>) confirm_lines"

definition getContractInstance ::
  "'w cm_env \<Rightarrow> string \<Rightarrow> constructor_args \<Rightarrow> string option \<Rightarrow> SendOptions \<Rightarrow> bool option \<Rightarrow> ('w cm_state, string) eff" where
  "getContractInstance env contractName constructorArgs address options skipConfirmation =
     (case address of
        None \<Rightarrow>
          bnd (on_world (ce_estimateDeploy env contractName constructorArgs)) (\<lambda>estimatedGasCost.
          bnd (lift_result (toBN_string (so_gasPrice options))) (\<lambda>gasPrice.
          bnd (lift_result (toBN_string (so_gas options))) (\<lambda>gas.
          bnd (when_eff (skipConfirmation \<noteq> Some True) confirm) (\<lambda>_.
          on_world (ce_deploy env contractName constructorArgs options)))))
      | Some a \<Rightarrow> ret a)"

definition cm_send :: "'w cm_env \<Rightarrow> string \<Rightarrow> contract_call \<Rightarrow> SendOptions \<Rightarrow> ('w cm_state, unit) eff" where
  "cm_send env contract call options = on_world (ce_send env contract call options)"

definition deployPaymaster ::
  "'w cm_env \<Rightarrow> SendOptions \<Rightarrow> string \<Rightarrow> string \<Rightarrow> bool option \<Rightarrow> ('w cm_state, string) eff" where
  "deployPaymaster env options hub fInstance skipConfirmation =
     bnd (getContractInstance env ''TestPaymasterEverythingAccepted'' NoArgs None options skipConfirmation) (\<lambda>pmInstance.
     bnd (cm_send env pmInstance (SetRelayHub hub) options) (\<lambda>_.
     bnd (cm_send env pmInstance (SetTrustedForwarder fInstance) options) (\<lambda>_. ret pmInstance)))"

definition registerForwarderForGsn :: "'w cm_env \<Rightarrow> string \<Rightarrow> string \<Rightarrow> SendOptions \<Rightarrow> ('w cm_state, unit) eff" where
  "registerForwarderForGsn env domainSeparatorName forwarder options =
     bnd (cm_send env forwarder (RegisterRequestType ''RelayRequest'' GsnRequestType_typeSuffix) options) (\<lambda>_.
     cm_send env forwarder (RegisterDomainSeparator domainSeparatorName ''3'') options)"

definition initDeployment :: "'w cm_env \<Rightarrow> GSNContractsDeployment \<Rightarrow> ('w cm_state, unit) eff" where
  "initDeployment env deployment =
     bnd (modify (\<lambda>s. s\<lparr>ci_deployment := deployment\<rparr>)) (\<lambda>_. initializeContracts (ce_chain env))"

text \<open>The contracts in the order in which they refer to one another.\<close>

record deployed =
  dd_registrar :: string
  dd_stakeManager :: string
  dd_penalizer :: string
  dd_forwarder :: string
  dd_hub :: string

definition deploy_contracts :: "'w cm_env \<Rightarrow> DeployOptions \<Rightarrow> SendOptions \<Rightarrow> ('w cm_state, deployed) eff" where
  "deploy_contracts env deployOptions options =
     (let skip = do_skipConfirmation deployOptions;
          penalizerConfiguration = do_penalizerConfiguration deployOptions
      in
     bnd (getContractInstance env ''RelayRegistrar'' (RelayRegistrarArgs 31536000) (do_relayRegistryAddress deployOptions) options skip)
       (\<lambda>rrInstance.
     bnd (getContractInstance env ''StakeManager''
            (StakeManagerArgs (env_maxUnstakeDelay ganacheLocal) (env_abandonmentDelay ganacheLocal)
               (env_escheatmentDelay ganacheLocal) (do_burnAddress deployOptions) (do_devAddress deployOptions))
            (do_stakeManagerAddress deployOptions) options skip) (\<lambda>sInstance.
     bnd (getContractInstance env ''Penalizer''
            (PenalizerArgs (zc_penalizeBlockDelay penalizerConfiguration) (zc_penalizeBlockExpiration penalizerConfiguration))
            (do_penalizerAddress deployOptions) options skip) (\<lambda>pInstance.
     bnd (getContractInstance env ''Forwarder'' NoArgs (do_forwarderAddress deployOptions) options skip) (\<lambda>fInstance.
     bnd (getContractInstance env ''RelayHub''
            (RelayHubArgs sInstance pInstance ZERO_ADDRESS rrInstance (do_relayHubConfiguration deployOptions))
            (do_relayHubAddress deployOptions) options skip) (\<lambda>rInstance.
     bnd (on_world (ch_getRelayRegistrar (ce_chain env) rInstance)) (\<lambda>registrar.
     bnd (when_eff (\<not> isSameAddress registrar rrInstance) (cm_send env rInstance (SetRegistrar rrInstance) options)) (\<lambda>_.
     ret \<lparr>dd_registrar = rrInstance, dd_stakeManager = sInstance, dd_penalizer = pInstance, dd_forwarder = fInstance,
          dd_hub = rInstance\<rparr>))))))))"

text \<open>The token relays stake: a test token of its own, or the one of the options.\<close>

definition deploy_token ::
  "'w cm_env \<Rightarrow> DeployOptions \<Rightarrow> SendOptions \<Rightarrow> string \<Rightarrow> ('w cm_state, string option) eff" where
  "deploy_token env deployOptions options hub =
     (if do_deployTestToken deployOptions = Some True then
        bnd (getContractInstance env ''TestWrappedNativeToken'' NoArgs None options (do_skipConfirmation deployOptions)) (\<lambda>ttInstance.
        bnd (cm_send env hub (SetMinimumStakes [Some ttInstance] [''1000000000000000000'']) options) (\<lambda>_. ret (Some ttInstance)))
      else ret (do_stakingTokenAddress deployOptions))"

definition deployGsnContracts :: "'w cm_env \<Rightarrow> DeployOptions \<Rightarrow> ('w cm_state, GSNContractsDeployment) eff" where
  "deployGsnContracts env deployOptions =
     (case (do_from deployOptions, do_gasPrice deployOptions) of
        (Some from, Some gasPrice) \<Rightarrow>
          (let options = \<lparr>so_from = from, so_gasPrice = gasPrice, so_gas = do_gasLimit deployOptions, so_value = ''0''\<rparr> in
          bnd (deploy_contracts env deployOptions options) (\<lambda>d.
          bnd (if do_deployPaymaster deployOptions = Some True
               then bnd (deployPaymaster env options (dd_hub d) (dd_forwarder d) (do_skipConfirmation deployOptions)) (\<lambda>pm. ret (Some pm))
               else ret None) (\<lambda>pmInstance.
          bnd (registerForwarderForGsn env (gc_domainSeparatorName defaultGsnConfig) (dd_forwarder d) options) (\<lambda>_.
          bnd (deploy_token env deployOptions options (dd_hub d)) (\<lambda>stakingTokenAddress.
          bnd (createInstance (ce_chain env) ''IERC20Token'' (case stakingTokenAddress of Some a \<Rightarrow> a | None \<Rightarrow> [])) (\<lambda>stakingTokenContract.
          bnd (on_world (ch_tokenDecimals (ce_chain env) stakingTokenContract)) (\<lambda>tokenDecimals.
          bnd (on_world (ch_tokenSymbol (ce_chain env) stakingTokenContract)) (\<lambda>tokenSymbol.
          bnd (lift_result (toBN_string (do_minimumTokenStake deployOptions))) (\<lambda>_.
          bnd (cm_send env (dd_hub d) (SetMinimumStakes [stakingTokenAddress] [do_minimumTokenStake deployOptions]) options) (\<lambda>_.
          (let deployment =
             \<lparr>dep_forwarderAddress = Some (dd_forwarder d),
              dep_paymasterAddress = Some (case pmInstance of Some pm \<Rightarrow> pm | None \<Rightarrow> ZERO_ADDRESS),
              dep_penalizerAddress = Some (dd_penalizer d), dep_relayRegistrarAddress = Some (dd_registrar d),
              dep_relayHubAddress = Some (dd_hub d), dep_stakeManagerAddress = Some (dd_stakeManager d),
              dep_managerStakeTokenAddress = stakingTokenAddress\<rparr>
           in bnd (modify (\<lambda>s. s\<lparr>cm_deployment := Some deployment\<rparr>)) (\<lambda>_.
              bnd (initDeployment env deployment) (\<lambda>_. ret deployment)))))))))))))
      | _ \<Rightarrow> throw ''Expected property from and gasPrice to be of type string'')"

end
