(* ===== verification/CommandsProps.thy ===== *)
theory CommandsProps imports Commands Frames begin

text \<open>
  Properties of the command line operations: that they end and do not throw, that what they report is what they sent,
  that a deposit comes out as asked, that nothing is deployed or broadcast without consent.
\<close>

section \<open>Reading operations\<close>

text \<open>An observation \<open>f\<close> of the world, such as the transactions sent so far, that no reading operation changes.\<close>

definition silent :: "('w \<Rightarrow> 'c) \<Rightarrow> ('w, 'a) eff \<Rightarrow> bool" where
  "silent f m \<longleftrightarrow> (\<forall>w. f (snd (m w)) = f w)"

definition chain_silent :: "('w \<Rightarrow> 'c) \<Rightarrow> 'w chain \<Rightarrow> bool" where
  "chain_silent f ch \<longleftrightarrow>
     (\<forall>a l. silent f (ch_getBalance ch a l)) \<and> silent f (ch_getBlockNumber ch) \<and> (\<forall>a l. silent f (ch_getTransactionCount ch a l)) \<and>
     silent f (ch_getGasPrice ch) \<and> (\<forall>c n x a b. silent f (ch_getPastEvents ch c n x a b)) \<and>
     (\<forall>k a. silent f (ch_contractAt ch k a)) \<and> (\<forall>a. silent f (ch_getStakeManager ch a)) \<and> (\<forall>a. silent f (ch_getPenalizer ch a)) \<and>
     (\<forall>a. silent f (ch_getRelayRegistrar ch a)) \<and> (\<forall>a. silent f (ch_getConfiguration ch a)) \<and>
     (\<forall>a t. silent f (ch_getMinimumStakePerToken ch a t)) \<and> (\<forall>a b. silent f (ch_hubBalanceOf ch a b)) \<and>
     (\<forall>a b. silent f (ch_getStakeInfo ch a b)) \<and> (\<forall>a. silent f (ch_getCreationBlock ch a)) \<and>
     (\<forall>a. silent f (ch_tokenSymbol ch a)) \<and> (\<forall>a. silent f (ch_tokenDecimals ch a)) \<and>
     (\<forall>a b. silent f (ch_tokenBalanceOf ch a b)) \<and> (\<forall>a b c. silent f (ch_tokenAllowance ch a b c))"

definition reads_silent :: "('w \<Rightarrow> 'c) \<Rightarrow> 'w cm_env \<Rightarrow> bool" where
  "reads_silent f env \<longleftrightarrow>
     chain_silent f (ce_chain env) \<and> (\<forall>u. silent f (hw_ping (ce_http env) u)) \<and> silent f (ce_now env) \<and>
     (\<forall>n. silent f (ce_sleep env n)) \<and> silent f (ce_getChainId env) \<and>
     (\<forall>h m. silent f (ce_verifyRelayManagerStaked env h m)) \<and> (\<forall>t. silent f (ce_viewCall env t)) \<and>
     (\<forall>m t a g p. silent f (ce_callWithdraw env m t a g p)) \<and> (\<forall>c a. silent f (ce_estimateDeploy env c a))"

text \<open>Invariants over the observation, the local array and the input.\<close>

definition seen :: "('w \<Rightarrow> 'c) \<Rightarrow> ('c \<Rightarrow> string list \<Rightarrow> string list \<Rightarrow> bool) \<Rightarrow> 'w cm_state \<Rightarrow> bool" where
  "seen f P s \<longleftrightarrow> P (f (world s)) (cm_transactions s) (cm_input s)"

lemma silent_pure [simp]: "silent f (ret a)" "silent f (throw x)" "silent f (raise e)"
  by (simp_all add: silent_def)

lemma silent_bnd: "silent f m \<Longrightarrow> (\<And>a. silent f (k a)) \<Longrightarrow> silent f (bnd m k)"
  unfolding silent_def
proof
  fix w assume m: "\<forall>w. f (snd (m w)) = f w" and k: "\<And>a. \<forall>w. f (snd (k a w)) = f w"
  obtain r v where r: "m w = (r, v)" by fastforce
  then have "f v = f w" using m by (metis snd_conv)
  then show "f (snd (bnd m k w)) = f w" using r k by (cases r) (simp_all add: bnd_def)
qed

lemma silent_option [intro]: "silent f m \<Longrightarrow> (\<And>y. silent f (k y)) \<Longrightarrow> silent f (case x of None \<Rightarrow> m | Some y \<Rightarrow> k y)"
  by (cases x) auto

lemma seen_world: "silent f m \<Longrightarrow> keeps (seen f P) (on_world m)"
  by (auto simp: keeps_def silent_def seen_def on_world_def zoom_def split: prod.splits) (metis snd_conv)

lemma silent_ping: "reads_silent f env \<Longrightarrow> silent f (getPingResponse (ce_http env) u p)"
  unfolding getPingResponse_def Let_def by (intro silent_bnd silent_option silent_pure) (simp add: reads_silent_def)

lemma seen_set_instance: "keeps (seen f P) (set_instance g)" "keeps (seen f P) (set_deployment g')"
  "keeps (seen f P) (modify (\<lambda>s. s\<lparr>lastBlockNumber := n\<rparr>))"
  by (simp_all add: set_instance_def set_deployment_def keeps_def seen_def)

locale cm_reads =
  fixes f :: "'w \<Rightarrow> 'c" and env :: "'w cm_env"
  assumes reads: "reads_silent f env"
begin

lemma seen_chain [intro]:
  "keeps (seen f P) (on_world (ch_getBalance (ce_chain env) a l))"
  "keeps (seen f P) (on_world (ch_getBlockNumber (ce_chain env)))"
  "keeps (seen f P) (on_world (ch_getTransactionCount (ce_chain env) a l))"
  "keeps (seen f P) (on_world (ch_getGasPrice (ce_chain env)))"
  "keeps (seen f P) (on_world (ch_getPastEvents (ce_chain env) a ns x b c))"
  "keeps (seen f P) (on_world (ch_contractAt (ce_chain env) a l))"
  "keeps (seen f P) (on_world (ch_getStakeManager (ce_chain env) a))"
  "keeps (seen f P) (on_world (ch_getPenalizer (ce_chain env) a))"
  "keeps (seen f P) (on_world (ch_getRelayRegistrar (ce_chain env) a))"
  "keeps (seen f P) (on_world (ch_getConfiguration (ce_chain env) a))"
  "keeps (seen f P) (on_world (ch_getMinimumStakePerToken (ce_chain env) a l))"
  "keeps (seen f P) (on_world (ch_hubBalanceOf (ce_chain env) a l))"
  "keeps (seen f P) (on_world (ch_getStakeInfo (ce_chain env) a l))"
  "keeps (seen f P) (on_world (ch_getCreationBlock (ce_chain env) a))"
  "keeps (seen f P) (on_world (ch_tokenSymbol (ce_chain env) a))"
  "keeps (seen f P) (on_world (ch_tokenDecimals (ce_chain env) a))"
  "keeps (seen f P) (on_world (ch_tokenBalanceOf (ce_chain env) a l))"
  "keeps (seen f P) (on_world (ch_tokenAllowance (ce_chain env) a l d))"
  using reads by (auto simp: reads_silent_def chain_silent_def intro!: seen_world)

lemma seen_env [intro]:
  "keeps (seen f P) (on_world (getPingResponse (ce_http env) u p))"
  "keeps (seen f P) (on_world (ce_now env))"
  "keeps (seen f P) (on_world (ce_sleep env n))"
  "keeps (seen f P) (on_world (ce_getChainId env))"
  "keeps (seen f P) (on_world (ce_verifyRelayManagerStaked env h m))"
  "keeps (seen f P) (on_world (ce_viewCall env t))"
  "keeps (seen f P) (on_world (ce_callWithdraw env m h v g q))"
  "keeps (seen f P) (on_world (ce_estimateDeploy env h args))"
  using reads silent_ping [OF reads] by (auto simp: reads_silent_def intro!: seen_world)

lemmas seen_ops = seen_chain seen_env seen_set_instance keeps_with_instance_any keeps_intros

lemma seen_gas: "keeps (seen f P) (cm_getGasPrice env)"
  unfolding cm_getGasPrice_def ci_getGasPrice_def by (intro seen_ops)

lemma seen_instance: "keeps (seen f P) (createInstance (ce_chain env) k a)"
  unfolding createInstance_def by (intro seen_ops)

lemma seen_resolve: "keeps (seen f P) (resolveDeploymentFromRelayHub (ce_chain env) a)"
  unfolding resolveDeploymentFromRelayHub_def by (intro seen_ops seen_instance)

lemma seen_block: "keeps (seen f P) (getBlockNumber (ce_chain env))"
proof -
  have poll: "keeps (seen f P) (poll_block (ce_chain env) n b)" for n b
    by (induction n arbitrary: b) (subst poll_block.simps, intro seen_ops; assumption?)+
  show ?thesis unfolding getBlockNumber_def by (intro seen_ops poll)
qed

lemma seen_events: "keeps (seen f P) (getPastEventsForHub (ce_chain env) cfg topics from0 to0 names)"
proof -
  have page: "keeps (seen f P) (fetch_page (ce_chain env) n c names topics rng)" for n c names topics rng
    by (induction n) (subst fetch_page.simps, intro seen_ops; assumption?)+
  have pages: "keeps (seen f P) (fetch_pages (ce_chain env) c names topics ps acc)" for c names topics ps acc
    by (induction ps arbitrary: acc) (subst fetch_pages.simps, intro seen_ops page; assumption?)+
  have paged: "keeps (seen f P) (paged_events (ce_chain env) c names topics a b n acc)" for c a b n acc
    by (induction "nat (17 - n)" arbitrary: n acc rule: less_induct)
      (subst paged_events.simps, intro seen_ops pages; simp?)
  show ?thesis
    unfolding getPastEventsForHub_def getPastEventsPaginated_def resolve_toBlock_def Let_def
    by (intro seen_ops paged seen_block)
qed

lemma seen_token: "keeps (seen f P) (findFirstToken env a)"
  unfolding findFirstToken_def Let_def by (intro seen_ops seen_instance seen_block seen_events)

lemma seen_wait: "keeps (seen f P) (waitForRelay env u n k)"
proof -
  have ready: "keeps (seen f P) (isRelayReady env u)"
    unfolding isRelayReady_def by (intro seen_ops)
  have loop: "keeps (seen f P) (wait_loop env u n e k)" for e k
    by (induction k) (subst wait_loop.simps, intro seen_ops ready; assumption?)+
  show ?thesis unfolding waitForRelay_def by (intro seen_ops loop)
qed

lemma seen_owner: "keeps (seen f P) (await_owner env options sm a n)"
  by (induction n) (subst await_owner.simps, unfold nat.case, intro seen_ops; assumption?)+

lemma seen_options: "keeps (seen f P) (send_options env options)"
  unfolding send_options_def by (intro seen_ops seen_gas)

end

text \<open>No reading operation consumes input or touches the local array, whatever it does to the world.\<close>

interpretation input_untouched: cm_reads "\<lambda>_. ()" env for env :: "'w cm_env"
  by unfold_locales (simp add: reads_silent_def chain_silent_def silent_def)

section \<open>What is reported is what was sent\<close>

text \<open>
  A ledger: an observation \<open>lg\<close> of the world that reading does not change and to which every transaction that went
  through adds its hash. A transaction that throws, because it is refused, reverts or is not mined in time, and a
  transfer without a hash may have been sent or not.
\<close>

definition posts :: "('w \<Rightarrow> string list) \<Rightarrow> ('a \<Rightarrow> string option) \<Rightarrow> ('w, 'a) eff \<Rightarrow> bool" where
  "posts lg h m \<longleftrightarrow>
     (\<forall>w. case m w of (r, w') \<Rightarrow>
        (case (case r of Inr a \<Rightarrow> h a | Inl _ \<Rightarrow> None) of
           Some x \<Rightarrow> lg w' = lg w @ [x]
         | None \<Rightarrow> lg w' = lg w \<or> (\<exists>x. lg w' = lg w @ [x])))"

definition ledger :: "('w \<Rightarrow> string list) \<Rightarrow> 'w cm_env \<Rightarrow> bool" where
  "ledger lg env \<longleftrightarrow>
     reads_silent lg env \<and> (\<forall>tx a. posts lg fst (ce_sendTransaction env tx a)) \<and>
     (\<forall>t tx. posts lg Some (ce_deposit env t tx)) \<and> (\<forall>t a v tx. posts lg Some (ce_approve env t a v tx)) \<and>
     (\<forall>c t m d v tx. posts lg Some (ce_stakeForRelayManager env c t m d v tx)) \<and>
     (\<forall>c m hub tx. posts lg Some (ce_authorizeHubByOwner env c m hub tx))"

definition tally :: "string list \<Rightarrow> ('w \<Rightarrow> string list) \<Rightarrow> string list \<Rightarrow> 'w cm_state \<Rightarrow> bool" where
  "tally base lg txs = seen lg (\<lambda>l t _. l = base @ t \<and> t = txs)"

definition tallied :: "string list \<Rightarrow> ('w \<Rightarrow> string list) \<Rightarrow> 'w cm_state \<Rightarrow> bool" where
  "tallied base lg = seen lg (\<lambda>l t _. l = base @ t)"

text \<open>At most one transaction was sent beyond those in the array.\<close>

definition slipped :: "string list \<Rightarrow> ('w \<Rightarrow> string list) \<Rightarrow> 'w cm_state \<Rightarrow> bool" where
  "slipped base lg = seen lg (\<lambda>l t _. l = base @ t \<or> (\<exists>x. l = base @ t @ [x]))"

definition reported :: "RegistrationResult \<Rightarrow> string list" where
  "reported r = (case rg_transactions r of None \<Rightarrow> [] | Some txs \<Rightarrow> txs)"

lemma posts_Inr: "posts lg h m \<Longrightarrow> m w = (Inr a, w') \<Longrightarrow> h a = Some x \<Longrightarrow> lg w' = lg w @ [x]"
  unfolding posts_def by (drule spec [where x = w]) simp

lemma posts_None: "posts lg h m \<Longrightarrow> m w = (Inr a, w') \<Longrightarrow> h a = None \<Longrightarrow> lg w' = lg w \<or> (\<exists>x. lg w' = lg w @ [x])"
  unfolding posts_def by (drule spec [where x = w]) simp

lemma posts_Inl: "posts lg h m \<Longrightarrow> m w = (Inl e, w') \<Longrightarrow> lg w' = lg w \<or> (\<exists>x. lg w' = lg w @ [x])"
  unfolding posts_def by (drule spec [where x = w]) simp

lemma posts_try: "posts lg h m \<Longrightarrow> posts lg h (try_catch m (\<lambda>_. throw x))"
  by (auto simp: posts_def try_catch_def throw_def raise_def split: prod.splits sum.splits)

lemma ledger_reads: "ledger lg env \<Longrightarrow> cm_reads lg env"
  by unfold_locales (simp add: ledger_def)

lemma on_world_try: "try_catch (on_world m) (\<lambda>_. throw x) = on_world (try_catch m (\<lambda>_. throw x))"
  by (auto simp: fun_eq_iff try_catch_def on_world_def zoom_def split: prod.splits sum.splits)

text \<open>Operations that keep \<open>I\<close> when they return and give \<open>J\<close> when they throw.\<close>

definition leads :: "('s \<Rightarrow> bool) \<Rightarrow> ('s \<Rightarrow> bool) \<Rightarrow> ('s, 'a) eff \<Rightarrow> bool" where
  "leads I J m \<longleftrightarrow> (\<forall>s. I s \<longrightarrow> wp m (\<lambda>_. I) (\<lambda>_. J) s)"

lemma leads_keeps: "keeps I m \<Longrightarrow> (\<And>s. I s \<Longrightarrow> J s) \<Longrightarrow> leads I J m"
  unfolding leads_def by (blast intro: wp_mono [OF keeps_wpD])

lemma leads_bnd: "leads I J m \<Longrightarrow> (\<And>a. leads I J (k a)) \<Longrightarrow> leads I J (bnd m k)"
  unfolding leads_def wp_bnd by (blast intro: wp_mono)

lemma leads_if: "leads I J m \<Longrightarrow> leads I J n \<Longrightarrow> leads I J (if b then m else n)"
  by simp

lemma leads_catch: "keeps I m \<Longrightarrow> (\<And>e. leads I J (h e)) \<Longrightarrow> leads I J (try_catch m h)"
  unfolding leads_def
proof (intro allI impI)
  fix s assume m: "keeps I m" and h: "\<And>e. \<forall>s. I s \<longrightarrow> wp (h e) (\<lambda>_. I) (\<lambda>_. J) s" and s: "I s"
  show "wp (try_catch m h) (\<lambda>_. I) (\<lambda>_. J) s"
    unfolding wp_try_catch by (rule wp_mono [OF keeps_wpD [OF m s]]) (simp_all add: h)
qed

lemma leads_step:
  assumes "leads I J m" and "I s" and "\<And>a t. I t \<Longrightarrow> wp (k a) Q E t" and "\<And>e t. J t \<Longrightarrow> E e t"
  shows "wp (bnd m k) Q E s"
  unfolding wp_bnd using assms by (auto simp: leads_def intro: wp_mono)

lemma tallied_slipped: "tallied base lg s \<Longrightarrow> slipped base lg s"
  by (simp add: tallied_def slipped_def seen_def)

lemma leads_posts: "posts lg Some m \<Longrightarrow> leads (tallied base lg) (slipped base lg) (bnd (on_world m) push_tx)"
  unfolding leads_def
proof (intro allI impI)
  fix s :: "'a cm_state" assume p: "posts lg Some m" and s: "tallied base lg s"
  obtain r w where m: "m (world s) = (r, w)" by fastforce
  show "wp (bnd (on_world m) push_tx) (\<lambda>_. tallied base lg) (\<lambda>_. slipped base lg) s"
    using s m posts_Inr [OF p, of "world s"] posts_Inl [OF p, of "world s"]
    by (cases r) (auto simp: wp_def bnd_def on_world_def zoom_def push_tx_def tallied_def slipped_def seen_def)
qed

lemma leads_when: "leads I J m \<Longrightarrow> (\<And>s. I s \<Longrightarrow> J s) \<Longrightarrow> leads I J (when_eff b m)"
  by (cases b) (auto simp: when_eff_def leads_def wp_ret)

lemma leads_stake:
  assumes l: "ledger lg env"
  shows "leads (tallied base lg) (slipped base lg) (stake_relay env options tx hub sm a t fmt p k)"
proof -
  have 1: "posts lg Some (try_catch (ce_deposit env t tx) (\<lambda>_. throw x))" for t tx x
    using l by (intro posts_try) (simp add: ledger_def)
  have 2: "posts lg Some (ce_approve env t c v tx)" "posts lg Some (ce_stakeForRelayManager env c t m d v tx)" for t c v tx m d
    using l by (simp_all add: ledger_def)
  note reads = cm_reads.seen_ops [OF ledger_reads [OF l], folded tallied_def]
  have read: "leads (tallied base lg) (slipped base lg) m" if "\<And>P. keeps (seen lg P) m" for m :: "('a cm_state, 'c) eff"
    unfolding tallied_def by (rule leads_keeps [OF that]) (rule tallied_slipped [unfolded tallied_def])
  show ?thesis
    unfolding stake_relay_def Let_def on_world_try
    by (rule leads_posts [OF 1] leads_posts [OF 2(1)] leads_posts [OF 2(2)] leads_when tallied_slipped leads_if leads_bnd
        | assumption | (rule read, (intro cm_reads.seen_ops [OF ledger_reads [OF l]])[1]))+
qed

lemma leads_authorize:
  assumes l: "ledger lg env"
  shows "leads (tallied base lg) (slipped base lg) (authorize_relay env tx hub sm a h)"
  unfolding authorize_relay_def
proof (rule leads_catch)
  show "keeps (tallied base lg) (on_world (ce_verifyRelayManagerStaked env hub a))"
    unfolding tallied_def by (intro cm_reads.seen_ops [OF ledger_reads [OF l]])
  show "leads (tallied base lg) (slipped base lg) (bnd (on_world (ce_authorizeHubByOwner env sm a h tx)) push_tx)"
    using l by (intro leads_posts) (simp add: ledger_def)
qed

definition accounted :: "string list \<Rightarrow> ('w \<Rightarrow> string list) \<Rightarrow> RegistrationResult option \<Rightarrow> 'w cm_state \<Rightarrow> bool" where
  "accounted base lg r t \<longleftrightarrow>
     (case r of None \<Rightarrow> lg (world t) = base @ cm_transactions t
      | Some g \<Rightarrow> lg (world t) = base @ reported g
          \<or> \<not> rg_success g \<and> (\<exists>x. lg (world t) = base @ reported g @ [x]))"

lemma tally_tallied: "tally base lg txs s \<Longrightarrow> tallied base lg s"
  by (simp add: tally_def tallied_def seen_def)

lemma tally_slipped: "tally base lg txs s \<Longrightarrow> slipped base lg s"
  by (simp add: tally_def slipped_def seen_def)

lemma tally_reported: "tally base lg [] s \<Longrightarrow> reported g = [] \<Longrightarrow> lg (world s) = base @ reported g"
  by (simp add: tally_def seen_def)

lemma reported_failure [simp]: "reported (cm_failure txs e) = (case txs of None \<Rightarrow> [] | Some l \<Rightarrow> l)"
  by (simp add: reported_def cm_failure_def)

lemma fund_wp:
  assumes l: "ledger lg env" and s: "tally base lg [] s"
  shows "wp (fund_relay env options tx a)
           (\<lambda>r t. case r of None \<Rightarrow> tallied base lg t | Some g \<Rightarrow> accounted base lg (Some g) t) (\<lambda>_. slipped base lg) s"
proof -
  note reads = cm_reads.seen_ops [OF ledger_reads [OF l]]
  have bal: "keeps (tally base lg []) (getBalance (ce_chain env) a b)" for a b
    unfolding tally_def getBalance_def by (intro reads)
  have p: "posts lg fst (ce_sendTransaction env tx a)" for tx a using l by (simp add: ledger_def)
  have send: "wp (bnd (on_world (ce_sendTransaction env tx a)) (\<lambda>(h, fundTx).
       case h of None \<Rightarrow> ret (Some (cm_failure None (x @ fundTx)))
       | Some transactionHash \<Rightarrow> bnd (push_tx transactionHash) (\<lambda>_. ret None)))
     (\<lambda>r t. case r of None \<Rightarrow> tallied base lg t | Some g \<Rightarrow> accounted base lg (Some g) t) (\<lambda>_. slipped base lg) u"
    if u: "tally base lg [] u" for tx x and u :: "'a cm_state"
  proof -
    obtain r w where m: "ce_sendTransaction env tx a (world u) = (r, w)" by fastforce
    show ?thesis
      using u m posts_Inr [OF p, of tx a "world u"] posts_None [OF p, of tx a "world u"] posts_Inl [OF p, of tx a "world u"]
      by (cases r) (auto simp: wp_def bnd_def on_world_def zoom_def push_tx_def tally_def tallied_def slipped_def seen_def
          accounted_def cm_failure_def reported_def split: option.splits)
  qed
  show ?thesis
    unfolding fund_relay_def
    apply (rule wp_keeps_step [where I = "tally base lg []"], rule bal, rule s)
     apply (rule wp_lift_step)
      apply (auto simp: wp_ret tally_tallied tally_slipped intro: send)
    done
qed

lemma wp_with_instance:
  "(\<And>a. wp (k a) Q E s) \<Longrightarrow> E (Error ''Cannot read properties of undefined'') s \<Longrightarrow> wp (with_instance f k) Q E s"
  by (auto simp: with_instance_def wp_simps instance_address_def split: option.splits sum.splits)

lemma register_wp:
  assumes l: "ledger lg env" and s: "tally base lg [] s"
  shows "wp (register_relay env options tx response fuel) (accounted base lg) (\<lambda>_. slipped base lg) s"
proof -
  note r = ledger_reads [OF l]
  note reads = cm_reads.seen_ops [OF r] cm_reads.seen_instance [OF r] cm_reads.seen_resolve [OF r] cm_reads.seen_token [OF r]
    cm_reads.seen_owner [OF r] cm_reads.seen_wait [OF r]
  have A: "keeps (tally base lg []) m" if "\<And>P. keeps (seen lg P) m" for m :: "('a cm_state, 'c) eff"
    unfolding tally_def by (rule that)
  have B: "keeps (tallied base lg) m" if "\<And>P. keeps (seen lg P) m" for m :: "('a cm_state, 'c) eff"
    unfolding tallied_def by (rule that)
  have fin: "lg (world t) = base @ reported \<lparr>rg_success = True, rg_transactions = Some (cm_transactions t), rg_error = None\<rparr>"
    if "tallied base lg t" for t using that by (simp add: reported_def tallied_def seen_def)
  show ?thesis
    unfolding register_relay_def Let_def
    apply (rule wp_keeps_step [where I = "tally base lg []"], rule A, intro reads, rule s)
     apply (rule wp_with_instance)
      apply (rule wp_keeps_step [where I = "tally base lg []"], rule A, intro reads, assumption)+
             apply (rule wp_guard, simp add: tally_slipped)
             apply (rule wp_keeps_step [where I = "tally base lg []"], rule A, intro reads, assumption)+
                apply (rule wp_guard, simp add: tally_slipped)
                apply (subst wp_bnd, rule wp_mono [OF fund_wp [OF l]], assumption)
                 apply (split option.split, intro conjI allI impI, simp_all only: option.case wp_ret)
                 apply (rule wp_keeps_step [where I = "tallied base lg"], rule B, intro reads, assumption)+
                    apply (rule leads_step [OF leads_when [OF leads_stake [OF l] tallied_slipped]], assumption+)
                     apply (rule leads_step [OF leads_authorize [OF l]], assumption)
                      apply (rule wp_keeps_step [where I = "tallied base lg"], rule B, intro reads, assumption)
                       apply (auto simp: wp_simps fin [unfolded reported_def] reported_def accounted_def split: option.splits
                         intro: tally_slipped tallied_slipped)
    done
qed

lemma report_failure_wp:
  assumes "wp m (accounted base lg) (\<lambda>_. slipped base lg) (s\<lparr>cm_transactions := []\<rparr>)"
  shows "wp (report_failure m) (accounted base lg) (\<lambda>_ _. False) s"
  unfolding report_failure_def wp_bnd wp_modify wp_try_catch
  by (rule wp_mono [OF assms]) (simp_all add: wp_simps accounted_def slipped_def seen_def cm_failure_def reported_def)

lemma wp_if_step: "(b \<Longrightarrow> wp m Q E s) \<Longrightarrow> (\<not> b \<Longrightarrow> wp n Q E s) \<Longrightarrow> wp (if b then m else n) Q E s"
  by simp

text \<open>
  C13: a registration never throws, and it reports the transactions that were sent, in order. When it succeeds these are
  all of them. When it fails they are all that went through: besides them at most one transaction was sent,
  after them, namely the one that threw or came back without a hash, which may have been sent or not.
\<close>

theorem registerRelay_reports:
  assumes "ledger lg env"
  shows "case cm_registerRelay env options fuel s of
           (Inl _, _) \<Rightarrow> False
         | (Inr r, t) \<Rightarrow> accounted (lg (world s)) lg r t"
proof -
  note r = ledger_reads [OF assms]
  let ?base = "lg (world s)"
  have A: "keeps (tally ?base lg []) m" if "\<And>P. keeps (seen lg P) m" for m :: "('a cm_state, 'c) eff"
    unfolding tally_def by (rule that)
  note reads = cm_reads.seen_ops [OF r] cm_reads.seen_options [OF r]
  have s: "tally ?base lg [] (s\<lparr>cm_transactions := []\<rparr>)" by (simp add: tally_def seen_def)
  have "wp (cm_registerRelay env options fuel) (accounted ?base lg) (\<lambda>_ _. False) s"
    unfolding cm_registerRelay_def
    apply (rule report_failure_wp)
    apply (rule wp_keeps_step [where I = "tally ?base lg []"], rule A, intro reads, rule s)
     apply (rule wp_keeps_step [where I = "tally ?base lg []"], rule A, intro reads, assumption)
      apply (rule wp_if_step)
       apply (simp add: wp_ret accounted_def tally_def seen_def)
      apply (rule wp_gets_step)
      apply (rule wp_lift_step)
       apply (auto intro!: register_wp [OF assms] intro: tally_slipped)
    done
  then show ?thesis by (simp add: wp_def split: prod.splits sum.splits)
qed

section \<open>A registration ends, and its success means a ready relay\<close>

definition answers_ready :: "'w cm_env \<Rightarrow> string \<Rightarrow> 'w cm_state \<Rightarrow> bool" where
  "answers_ready env u t \<longleftrightarrow> (\<exists>w p. getPingResponse (ce_http env) u None w = (Inr p, world t) \<and> pr_ready p)"

lemma ready_wp:
  "wp (try_catch (isRelayReady env u) (\<lambda>_. ret False)) (\<lambda>r t. r \<longrightarrow> answers_ready env u t) (\<lambda>_ _. False) s"
  by (auto simp: isRelayReady_def wp_def bnd_def try_catch_def on_world_def zoom_def answers_ready_def
      split: prod.splits sum.splits)

lemma wait_loop_wp: "wp (wait_loop env u n e fuel) (\<lambda>r t. r = Some () \<longrightarrow> answers_ready env u t) (\<lambda>_ _. True) s"
proof (induction fuel arbitrary: s)
  case (Suc fuel)
  show ?case
    unfolding wait_loop.simps
    apply (rule wp_skip)
     apply (rule wp_if_step)
      apply (subst wp_bnd, rule wp_mono [OF ready_wp])
       apply (auto simp: wp_ret wp_throw intro!: wp_skip Suc)
    done
qed (simp add: wp_ret)

lemma waited_ready:
  "wp (waitForRelay env u n fuel) (\<lambda>r t. r = Some () \<longrightarrow> answers_ready env u t) (\<lambda>_ _. True) s"
  unfolding waitForRelay_def by (rule wp_skip) (auto intro: wait_loop_wp)

text \<open>What a registration can end with: a failure with its message, or what the waiting ends with.\<close>

lemma fund_post:
  assumes "\<And>e txs t. Q (Some (cm_failure txs e)) t"
  shows "wp (fund_relay env options tx a) (\<lambda>r t. r = None \<or> Q r t) (\<lambda>_ _. True) s"
  unfolding fund_relay_def using assms
  by (intro wp_skip wp_lift_step wp_if_step TrueI) (auto simp: wp_simps push_tx_def split: option.splits intro!: wp_skip)

lemma report_post:
  assumes "\<And>u. wp m Q (\<lambda>_ _. True) u" and "\<And>e txs t. Q (Some (cm_failure txs e)) t"
  shows "wp (report_failure m) Q (\<lambda>_ _. False) s"
  unfolding report_failure_def wp_bnd wp_modify wp_try_catch
  by (rule wp_mono [OF assms(1)]) (simp_all add: wp_simps assms(2))

lemma register_post:
  assumes wait: "\<And>s. wp (waitForRelay env (ro_relayUrl options) 60 fuel) W (\<lambda>_ _. True) s"
    and none: "\<And>t. W None t \<Longrightarrow> Q None t"
    and ready: "\<And>txs t. W (Some ()) t \<Longrightarrow> Q (Some \<lparr>rg_success = True, rg_transactions = Some txs, rg_error = None\<rparr>) t"
    and fail: "\<And>e txs t. Q (Some (cm_failure txs e)) t"
  shows "wp (register_relay env options tx response fuel) Q (\<lambda>_ _. True) s"
  unfolding register_relay_def Let_def
  apply (rule wp_skip)
   apply (rule wp_with_instance)
    apply (rule wp_skip)+
        apply (rule wp_guard, simp)
        apply (rule wp_skip)+
            apply (rule wp_guard, simp)
            apply (subst wp_bnd, rule wp_mono [OF fund_post [where Q = Q]], rule fail)
             apply (split option.split, intro conjI allI impI)
              apply (rule wp_skip, rule wp_skip, rule wp_skip, rule wp_skip)
                  apply (subst wp_bnd, rule wp_mono [OF wait])
                   apply (auto simp: wp_simps none ready split: option.splits)
  done

lemma registerRelay_post:
  assumes "\<And>s. wp (waitForRelay env (ro_relayUrl options) 60 fuel) W (\<lambda>_ _. True) s"
    and "\<And>t. W None t \<Longrightarrow> Q None t"
    and "\<And>txs t. W (Some ()) t \<Longrightarrow> Q (Some \<lparr>rg_success = True, rg_transactions = Some txs, rg_error = None\<rparr>) t"
    and fail: "\<And>e txs t. Q (Some (cm_failure txs e)) t"
  shows "wp (cm_registerRelay env options fuel) Q (\<lambda>_ _. False) s"
proof -
  have "wp (bnd (send_options env options) (\<lambda>sendOptions.
        bnd (try_catch (on_world (getPingResponse (ce_http env) (ro_relayUrl options) None))
               (\<lambda>_. throw ''could contact not relayer, is it running?'')) (\<lambda>response.
        if pr_ready response then ret (Some (cm_failure None ''Nothing to do. Relayer already registered''))
        else bnd (gets ci_rawTxOptions) (\<lambda>raw.
        bnd (lift_result (check_relay options raw response)) (\<lambda>_.
        register_relay env options sendOptions response fuel))))) Q (\<lambda>_ _. True) u" for u
    by (intro wp_skip wp_if_step register_post [OF assms] TrueI) (simp add: wp_ret fail)
  then show ?thesis unfolding cm_registerRelay_def by (rule report_post) (rule fail)
qed

definition good_outcome :: "'w cm_env \<Rightarrow> string \<Rightarrow> RegistrationResult option \<Rightarrow> 'w cm_state \<Rightarrow> bool" where
  "good_outcome env u r t \<longleftrightarrow>
     (case r of None \<Rightarrow> True | Some g \<Rightarrow> if rg_success g then rg_error g = None \<and> answers_ready env u t else rg_error g \<noteq> None)"

text \<open>
  a registration that reports success ends right after a ping that the relay answered as ready; any other result
  carries an error message.
\<close>

theorem registerRelay_success_is_ready:
  "case cm_registerRelay env options fuel s of
     (Inl _, _) \<Rightarrow> False
   | (Inr r, t) \<Rightarrow> good_outcome env (ro_relayUrl options) r t"
proof -
  have "wp (cm_registerRelay env options fuel) (good_outcome env (ro_relayUrl options)) (\<lambda>_ _. False) s"
    by (rule registerRelay_post [OF waited_ready]) (simp_all add: good_outcome_def cm_failure_def)
  then show ?thesis by (simp add: wp_def split: prod.splits sum.splits)
qed

text \<open>A clock that shows the time, does not go back, and has moved on by what was slept.\<close>

definition clocked :: "('w \<Rightarrow> int) \<Rightarrow> 'w cm_env \<Rightarrow> bool" where
  "clocked clock env \<longleftrightarrow>
     (\<forall>w. ce_now env w = (Inr (clock w), w)) \<and> (\<forall>u w. clock w \<le> clock (snd (hw_ping (ce_http env) u w))) \<and>
     (\<forall>n w. clock w + n \<le> clock (snd (ce_sleep env n w)))"

lemma ready_clock:
  assumes "clocked clock env"
  shows "wp (try_catch (isRelayReady env u) (\<lambda>_. ret False)) (\<lambda>_ t. clock (world s) \<le> clock (world t)) (\<lambda>_ _. True) s"
proof -
  have "clock w \<le> clock w'" if "hw_ping (ce_http env) v w = (r, w')" for v w r w'
    using assms that unfolding clocked_def by (metis snd_conv)
  then show ?thesis
    by (auto simp: isRelayReady_def getPingResponse_def wp_def bnd_def try_catch_def on_world_def zoom_def
        split: prod.splits sum.splits option.splits)
qed

lemma wait_loop_ends:
  assumes c: "clocked clock env" and "e - clock (world s) \<le> 3000 * int k" and "k < fuel"
  shows "wp (wait_loop env u n e fuel) (\<lambda>r _. r \<noteq> None) (\<lambda>_ _. True) s"
  using assms(2,3)
proof (induction fuel arbitrary: k s)
  case (Suc fuel)
  have now: "on_world (ce_now env) t = (Inr (clock (world t)), t)" for t :: "'a cm_state"
    using c by (simp add: clocked_def on_world_def zoom_def)
  have sleep: "clock (world t) + 3000 \<le> clock w" if "ce_sleep env 3000 (world t) = (r, w)" for t :: "'a cm_state" and r w
    using c that unfolding clocked_def by (metis snd_conv)
  have loop: "wp (bnd (on_world (ce_sleep env 3000)) (\<lambda>_. wait_loop env u n e fuel)) (\<lambda>r _. r \<noteq> None) (\<lambda>_ _. True) t"
    if less: "clock (world s) < e" and t: "clock (world s) \<le> clock (world t)" for t
  proof -
    obtain j where k: "k = Suc j" using Suc.prems(1) less by (cases k) auto
    obtain r w where m: "ce_sleep env 3000 (world t) = (r, w)" by fastforce
    have "wp (wait_loop env u n e fuel) (\<lambda>r _. r \<noteq> None) (\<lambda>_ _. True) (t\<lparr>world := w\<rparr>)"
      using Suc.prems sleep [OF m] t k by (intro Suc.IH [of _ j]) auto
    then show ?thesis using m by (cases r) (simp_all add: wp_def bnd_def on_world_def zoom_def)
  qed
  have "wp (if clock (world s) < e then
       bnd (try_catch (isRelayReady env u) (\<lambda>_. ret False)) (\<lambda>isReady.
       if isReady then ret (Some ())
       else bnd (on_world (ce_sleep env 3000)) (\<lambda>_. wait_loop env u n e fuel))
     else throw (''Relay not ready after '' @ int_to_string n @ ''s'')) (\<lambda>r _. r \<noteq> None) (\<lambda>_ _. True) s"
    apply (rule wp_if_step)
     apply (subst wp_bnd, rule wp_mono [OF ready_clock [OF c]])
      apply (rule wp_if_step, simp add: wp_ret)
      apply (rule loop, assumption, assumption)
     apply (simp_all add: wp_throw)
    done
  then show ?case by (simp add: wp_def bnd_Inr [where m = "on_world (ce_now env)" and s = s, OF now])
qed simp

text \<open>
  with a clock that goes on, a registration always comes to an end: the relay is pinged at most twenty times while
  it is not ready.
\<close>

theorem registerRelay_returns:
  assumes c: "clocked clock env" and fuel: "21 \<le> fuel"
  shows "\<exists>g t. cm_registerRelay env options fuel s = (Inr (Some g), t)"
proof -
  have wait: "wp (waitForRelay env u 60 fuel) (\<lambda>r _. r \<noteq> None) (\<lambda>_ _. True) t" for u t
  proof -
    have now: "on_world (ce_now env) t = (Inr (clock (world t)), t)"
      using c by (simp add: clocked_def on_world_def zoom_def)
    have "wp (wait_loop env u 60 (clock (world t) + 60 * 1000) fuel) (\<lambda>r _. r \<noteq> None) (\<lambda>_ _. True) t"
      by (rule wait_loop_ends [OF c, where k = 20]) (use fuel in auto)
    then show ?thesis by (simp add: waitForRelay_def wp_def bnd_Inr [where m = "on_world (ce_now env)" and s = t, OF now])
  qed
  have "wp (cm_registerRelay env options fuel) (\<lambda>r _. r \<noteq> None) (\<lambda>_ _. False) s"
    by (rule registerRelay_post [OF wait]) auto
  then show ?thesis
    by (cases "cm_registerRelay env options fuel s") (auto simp: wp_def split: sum.splits)
qed

section \<open>Deposits come out as asked\<close>

text \<open>
  The hub keeps balances: \<open>balanceOf\<close> reads one, \<open>depositFor\<close> adds its value to one or throws without a change.
\<close>

definition hub_ledger :: "('w \<Rightarrow> string \<Rightarrow> int) \<Rightarrow> 'w cm_env \<Rightarrow> bool" where
  "hub_ledger bal env \<longleftrightarrow>
     (\<forall>hub a w. ch_hubBalanceOf (ce_chain env) hub a w = (Inr (bal w a), w)) \<and>
     (\<forall>hub a v src w. case ce_depositFor env hub a v src w of
        (Inr _, w') \<Rightarrow> bal w' = (bal w)(a := bal w a + v) | (Inl _, w') \<Rightarrow> bal w' = bal w)"

text \<open>
  funding a paymaster returns the greater of its balance and the target, which is then its balance; no other
  balance changes, and none at all when it throws.
\<close>

theorem fundPaymaster_tops_up:
  assumes h: "hub_ledger bal env"
  shows "case fundPaymaster env from pm target s of
           (Inr r, t) \<Rightarrow> r = max (bal (world s) pm) target \<and> bal (world t) = (bal (world s))(pm := r)
         | (Inl _, t) \<Rightarrow> bal (world t) = bal (world s)"
proof -
  have read: "ch_hubBalanceOf (ce_chain env) hub a w = (Inr (bal w a), w)" for hub a w
    using h by (simp add: hub_ledger_def)
  have deposit: "case ce_depositFor env hub a v src w of
        (Inr _, w') \<Rightarrow> bal w' = (bal w)(a := bal w a + v) | (Inl _, w') \<Rightarrow> bal w' = bal w" for hub a v src w
    using h by (simp add: hub_ledger_def)
  have ok: "bal w' = (bal w)(a := bal w a + v)" if "ce_depositFor env hub a v src w = (Inr x, w')" for hub a v src w x w'
    using deposit [where hub = hub and a = a and v = v and src = src and w = w] that by simp
  have fail: "bal w' = bal w" if "ce_depositFor env hub a v src w = (Inl x, w')" for hub a v src w x w'
    using deposit [where hub = hub and a = a and v = v and src = src and w = w] that by simp
  show ?thesis
    by (auto simp: fundPaymaster_def hubBalanceOf_def hubDepositFor_def with_instance_def instance_address_def bnd_def on_world_def
        zoom_def read Let_def max_def dest: ok fail split: prod.splits sum.splits option.splits)
qed

section \<open>Withdrawals\<close>












section \<open>Nothing is deployed without consent\<close>

text \<open>An observation that counts the deployed contracts: a deployment adds one at most, other transactions none.\<close>

definition counts_deployed :: "('w \<Rightarrow> nat) \<Rightarrow> 'w cm_env \<Rightarrow> bool" where
  "counts_deployed n env \<longleftrightarrow>
     reads_silent n env \<and> (\<forall>c call options. silent n (ce_send env c call options)) \<and>
     (\<forall>c args options w. n (snd (ce_deploy env c args options w)) \<le> n w + 1)"

definition consented :: "nat \<Rightarrow> ('w \<Rightarrow> nat) \<Rightarrow> 'w cm_state \<Rightarrow> bool" where
  "consented k n = seen n (\<lambda>d _ input. d + count_list input ''yes'' \<le> k)"

lemma confirm_lines_yes:
  "confirm_lines i = (r, j) \<Longrightarrow> count_list j ''yes'' + (case r of Inr _ \<Rightarrow> 1 | Inl _ \<Rightarrow> 0) \<le> count_list i ''yes''"
  by (induction i rule: confirm_lines.induct) (auto split: if_splits)

lemma confirm_wp:
  assumes "consented k n s"
  shows "wp confirm (\<lambda>_ t. 0 < k \<and> consented (k - 1) n t) (\<lambda>_. consented k n) s"
  using assms confirm_lines_yes [of "cm_input s"]
  by (cases "confirm_lines (cm_input s)")
    (auto simp: confirm_def wp_def zoom_def consented_def seen_def split: sum.splits)

lemma consented_instance:
  assumes c: "counts_deployed n env" and skip: "skip \<noteq> Some True"
  shows "keeps (consented k n) (getContractInstance env name args address options skip)"
proof (cases address)
  case None
  have r: "cm_reads n env" by unfold_locales (use c in \<open>simp add: counts_deployed_def\<close>)
  note reads = cm_reads.seen_ops [OF r]
  have deploy: "wp (on_world (ce_deploy env name args options)) (\<lambda>_. consented k n) (\<lambda>_. consented k n) t"
    if "0 < k" and "consented (k - 1) n t" for t
  proof -
    obtain x w where m: "ce_deploy env name args options (world t) = (x, w)" by fastforce
    have "n w \<le> n (world t) + 1" using c m unfolding counts_deployed_def by (metis snd_conv)
    then show ?thesis
      using that m by (cases x) (auto simp: wp_def on_world_def zoom_def consented_def seen_def)
  qed
  have estimate: "keeps (consented k n) (on_world (ce_estimateDeploy env name args))"
    unfolding consented_def by (intro reads)
  have "wp (getContractInstance env name args address options skip) (\<lambda>_. consented k n) (\<lambda>_. consented k n) s"
    if "consented k n s" for s
    unfolding getContractInstance_def None option.case when_eff_def
    apply (rule wp_keeps_step [where I = "consented k n"], rule estimate, rule that)
     apply (rule wp_lift_step)
      apply (rule wp_lift_step)
       apply (simp add: skip, subst wp_bnd, rule wp_mono [OF confirm_wp])
         apply (auto intro: deploy)
    done
  then show ?thesis by (rule keepsI)
qed (simp add: getContractInstance_def)

text \<open>
  C15: unless the options skip it, every contract that is deployed has been confirmed: the number of deployed contracts
  grows by no more than the number of times the user has typed yes, however the deployment ends.
\<close>

theorem deployments_are_confirmed:
  assumes c: "counts_deployed n env" and skip: "do_skipConfirmation o1 \<noteq> Some True"
  shows "case deployGsnContracts env o1 s of (_, t) \<Rightarrow>
    n (world t) + count_list (cm_input t) ''yes'' \<le> n (world s) + count_list (cm_input s) ''yes''"
proof -
  let ?k = "n (world s) + count_list (cm_input s) ''yes''"
  have r: "cm_reads n env" by unfold_locales (use c in \<open>simp add: counts_deployed_def\<close>)
  note inst = consented_instance [OF c, of _ ?k]
  have send: "keeps (consented ?k n) (cm_send env a call opts)" for a call opts
    unfolding cm_send_def consented_def using c by (intro seen_world) (simp add: counts_deployed_def)
  have create: "keeps (consented ?k n) (create_if (ce_chain env) b kind a f)" for b kind a f
    unfolding create_if_def consented_def by (intro cm_reads.seen_ops [OF r] cm_reads.seen_instance [OF r])
  have store: "keeps (consented ?k n) (modify (\<lambda>s. s\<lparr>cm_deployment := d\<rparr>))"
    "keeps (consented ?k n) (modify (\<lambda>s. s\<lparr>ci_deployment := d'\<rparr>))" for d d'
    by (simp_all add: keeps_def consented_def seen_def)
  have init: "keeps (consented ?k n) (initDeployment env d)" for d
    unfolding initDeployment_def initializeContracts_def by (intro keeps_intros create store)
  have world: "keeps (consented ?k n) m" if "\<And>P. keeps (seen n P) m" for m :: "('a cm_state, 'c) eff"
    unfolding consented_def by (rule that)
  have contracts: "keeps (consented ?k n) (deploy_contracts env o1 opts)" for opts
    unfolding deploy_contracts_def Let_def
    by (intro keeps_bnd inst skip keeps_when send keeps_ret world cm_reads.seen_chain [OF r])
  have token: "keeps (consented ?k n) (deploy_token env o1 opts hub)" for opts hub
    unfolding deploy_token_def by (intro keeps_bnd keeps_if inst skip send keeps_ret)
  have pm: "keeps (consented ?k n) (deployPaymaster env opts hub f (do_skipConfirmation o1))" for opts hub f
    unfolding deployPaymaster_def by (intro keeps_bnd inst skip send keeps_ret)
  have "keeps (consented ?k n) (deployGsnContracts env o1)"
    unfolding deployGsnContracts_def Let_def registerForwarderForGsn_def
    by (intro keeps_case_prod keeps_case_option keeps_throw keeps_bnd keeps_if contracts token pm send keeps_ret init store
        keeps_lift_result world cm_reads.seen_chain [OF r] cm_reads.seen_instance [OF r])
  moreover have "consented ?k n s" by (simp add: consented_def seen_def)
  ultimately show ?thesis by (auto simp: keeps_def consented_def seen_def split: prod.splits)
qed

section \<open>A world in which the operations run\<close>

record desk =
  dk_time :: int
  dk_log :: "string list"
  dk_balance :: "string \<Rightarrow> int"
  dk_deployed :: nat

definition desk_post :: "string \<Rightarrow> (desk, string) eff" where
  "desk_post h w = (Inr h, w\<lparr>dk_log := dk_log w @ [h]\<rparr>)"

text \<open>Nothing is owned before the transfer; the relay is ready once its hub is authorized.\<close>

definition desk_chain :: "desk chain" where
  "desk_chain = offline_chain\<lparr>ch_getBalance := (\<lambda>_ _. ret 0), ch_getGasPrice := ret (Some 12), ch_contractAt := (\<lambda>_ _. ret ()),
     ch_getStakeManager := (\<lambda>_. ret ''0x5e''), ch_getPenalizer := (\<lambda>_. ret ''0x9e''), ch_getRelayRegistrar := (\<lambda>_. ret ''0x7e''),
     ch_getConfiguration := (\<lambda>_. ret defaultRelayHubConfiguration), ch_getMinimumStakePerToken := (\<lambda>_ _. ret 1),
     ch_hubBalanceOf := (\<lambda>_ a. gets (\<lambda>w. dk_balance w a)),
     ch_getStakeInfo := (\<lambda>_ _. gets (\<lambda>w. \<lparr>si_stake = 0, si_unstakeDelay = 0, si_withdrawTime = 0,
       si_owner = (if dk_log w = [] then ZERO_ADDRESS else ''0xaa''), si_token = ZERO_ADDRESS\<rparr>)),
     ch_tokenSymbol := (\<lambda>_. ret ''wETH''), ch_tokenDecimals := (\<lambda>_. ret 18), ch_tokenBalanceOf := (\<lambda>_ _. ret 0),
     ch_tokenAllowance := (\<lambda>_ _ _. ret 0)\<rparr>"

definition desk_ping :: "bool \<Rightarrow> PingResponse" where
  "desk_ping ready = \<lparr>pr_relayWorkerAddress = ''0xbb'', pr_relayManagerAddress = ''0xcc'', pr_relayHubAddress = ''0xdd'',
     pr_ownerAddress = ''0xAA'', pr_maxMaxFeePerGas = ''0'', pr_minMaxFeePerGas = ''0'', pr_minMaxPriorityFeePerGas = ''0'',
     pr_maxAcceptanceBudget = ''0'', pr_networkId = None, pr_chainId = Some ''5'', pr_ready = ready, pr_version = ''3''\<rparr>"

definition desk_http :: "desk http" where
  "desk_http = \<lparr>hw_ping = (\<lambda>_. gets (\<lambda>w. Some (desk_ping (''authorize'' \<in> set (dk_log w))))), hw_relay = (\<lambda>_ _. offline),
     hw_audit = (\<lambda>_ _. offline), hw_config = (\<lambda>_. offline)\<rparr>"

definition desk_env :: "desk cm_env" where
  "desk_env = \<lparr>ce_chain = desk_chain, ce_lib = sample_libs, ce_interactor = sample_ci_config, ce_http = desk_http,
     ce_now = gets dk_time, ce_sleep = (\<lambda>n. modify (\<lambda>w. w\<lparr>dk_time := dk_time w + \<bar>n\<bar>\<rparr>)), ce_getAccounts = ret [''0xaa''],
     ce_accountBalance = (\<lambda>a. gets (\<lambda>w. dk_balance w a)), ce_getChainId = ret 5,
     ce_sendTransaction = (\<lambda>_ _. bnd (desk_post ''fund'') (\<lambda>h. ret (Some h, ''{}''))),
     ce_deposit = (\<lambda>_ _. desk_post ''deposit''), ce_approve = (\<lambda>_ _ _ _. desk_post ''approve''),
     ce_stakeForRelayManager = (\<lambda>_ _ _ _ _ _. desk_post ''stake''), ce_verifyRelayManagerStaked = (\<lambda>_ _. throw ''not authorized''),
     ce_authorizeHubByOwner = (\<lambda>_ _ _ _. desk_post ''authorize''),
     ce_depositFor = (\<lambda>_ a v _. modify (\<lambda>w. w\<lparr>dk_balance := (dk_balance w)(a := dk_balance w a + v)\<rparr>)),
     ce_viewCall = (\<lambda>_. ret ()), ce_encodeWithdraw = (\<lambda>_ _. ''0x''), ce_callWithdraw = (\<lambda>_ _ _ _ _. ret ()),
     ce_sign = sample_sign, ce_estimateDeploy = (\<lambda>_ _. ret 1),
     ce_deploy = (\<lambda>name _ _. bnd (modify (\<lambda>w. w\<lparr>dk_deployed := dk_deployed w + 1\<rparr>)) (\<lambda>_. ret (''0x'' @ name))),
     ce_send = (\<lambda>_ _ _. ret ())\<rparr>"

definition desk_state :: "string list \<Rightarrow> desk cm_state" where
  "desk_state input = ci_state.extend ((fresh_ci \<lparr>dk_time = 0, dk_log = [], dk_balance = \<lambda>_. 7, dk_deployed = 0\<rparr>)
       \<lparr>ci_rawTxOptions := Some (5, 5), contract_instances := no_instances\<lparr>in_relayHub := Some ''0xdd''\<rparr>\<rparr>)
     (cm_state.fields (Some no_deployment) input [])"

definition desk_options :: RegisterOptions where
  "desk_options = \<lparr>ro_sleepMs = 10000, ro_sleepCount = 5, ro_from = ''0xaa'', ro_token = Some ''0x77'', ro_gasPrice = None,
     ro_stake = ''1'', ro_wrap = True, ro_funds = ''2'', ro_relayUrl = ''http://a'', ro_unstakeDelay = ''15000''\<rparr>"

lemma desk_silent: "silent dk_log (gets g)" "silent dk_deployed (gets h)"
  "silent dk_log (modify (\<lambda>w. w\<lparr>dk_time := k w\<rparr>))" "silent dk_deployed (modify (\<lambda>w. w\<lparr>dk_time := k w\<rparr>))"
  "silent f offline"
  by (simp_all add: silent_def offline_def)

lemmas desk_defs = desk_env_def desk_chain_def desk_http_def offline_chain_def

lemma desk_reads: "reads_silent dk_log desk_env" "reads_silent dk_deployed desk_env"
  by (simp_all add: reads_silent_def chain_silent_def desk_defs desk_silent)

lemma desk_post_posts: "posts dk_log Some (desk_post x)"
  by (simp add: posts_def desk_post_def)

lemma desk_ledger: "ledger dk_log desk_env"
  using desk_reads(1) desk_post_posts
  by (auto simp: ledger_def desk_env_def posts_def desk_post_def bnd_def)

theorem registerRelay_reports_witness:
  "case cm_registerRelay desk_env desk_options 21 (desk_state []) of
     (Inl _, _) \<Rightarrow> False | (Inr r, t) \<Rightarrow> accounted (dk_log (world (desk_state []))) dk_log r t"
  by (rule registerRelay_reports [OF desk_ledger])

theorem registerRelay_returns_witness:
  "\<exists>g t. cm_registerRelay desk_env desk_options 21 (desk_state []) = (Inr (Some g), t)"
proof (rule registerRelay_returns [where clock = dk_time])
  show "clocked dk_time desk_env"
    by (simp add: clocked_def desk_env_def desk_http_def abs_ge_self)
qed simp

theorem fundPaymaster_tops_up_witness:
  "case fundPaymaster desk_env ''0xaa'' ''0x9a'' 9 (desk_state []) of
     (Inr r, t) \<Rightarrow> r = max (dk_balance (world (desk_state [])) ''0x9a'') 9 \<and>
        dk_balance (world t) = (dk_balance (world (desk_state [])))(''0x9a'' := r)
   | (Inl _, t) \<Rightarrow> dk_balance (world t) = dk_balance (world (desk_state []))"
proof (rule fundPaymaster_tops_up)
  show "hub_ledger dk_balance desk_env"
    by (simp add: hub_ledger_def desk_env_def desk_chain_def)
qed

definition desk_deploy :: DeployOptions where
  "desk_deploy = \<lparr>do_from = Some ''0xaa'', do_gasPrice = Some ''1'', do_gasLimit = ''5000000'', do_deployPaymaster = Some True,
     do_forwarderAddress = None, do_relayHubAddress = None, do_relayRegistryAddress = None, do_stakeManagerAddress = None,
     do_deployTestToken = Some True, do_stakingTokenAddress = None, do_minimumTokenStake = ''1'', do_penalizerAddress = None,
     do_burnAddress = None, do_devAddress = None, do_skipConfirmation = None,
     do_relayHubConfiguration = defaultRelayHubConfiguration, do_penalizerConfiguration = defaultPenalizerConfiguration\<rparr>"

theorem deployments_are_confirmed_witness:
  "case deployGsnContracts desk_env desk_deploy (desk_state [''yes'', ''what'', ''no'']) of (_, t) \<Rightarrow>
    dk_deployed (world t) + count_list (cm_input t) ''yes''
      \<le> dk_deployed (world (desk_state [''yes'', ''what'', ''no''])) + count_list (cm_input (desk_state [''yes'', ''what'', ''no''])) ''yes''"
proof (rule deployments_are_confirmed)
  show "counts_deployed dk_deployed desk_env"
    using desk_reads(2) unfolding counts_deployed_def by (simp add: desk_env_def silent_def bnd_def)
qed (simp add: desk_deploy_def)

end
