(* ===== verification/Paymasters.thy ===== *)
theory Paymasters imports RelayProvider begin

text \<open>
  \<open>packages/paymasters/src\<close>: what a dapp adds to a relay request for the paymasters of this repository. Proof of work for
  the hashcash paymaster (\<open>HashCashApproval.ts\<close>), signed token permits (\<open>PermitPaymasterUtils.ts\<close>,
  \<open>TokenPaymasterProvider.ts\<close>, \<open>TokenPaymasterInteractor.ts\<close>), the approval of a verifying paymaster
  (\<open>VerifyingPaymasterUtils.ts\<close>) and transactions through a proxy (\<open>ProxyRelayProvider.ts\<close>). Hashing, ABI coding and
  signing are parameters.
\<close>

section \<open>Hashcash\<close>

text \<open>
  \<open>hk_hash\<close> is \<open>keccak256\<close> of the ABI encoding of sender, nonce and counter, \<open>hk_encode\<close> encodes hash and counter. The
  callback gets the counter, or nothing when the search is over. It answers with nothing (\<open>null\<close> or \<open>undefined\<close>)
  or with a value, of which only flags are told apart. The counter is a JavaScript number: the ABI coder takes it
  while it is below \<open>MAX_SAFE_INTEGER\<close> and throws from there on.
\<close>

datatype callback_answer = NoAnswer | FlagAnswer bool | OtherAnswer

definition MAX_SAFE_COUNTER :: nat where
  "MAX_SAFE_COUNTER = 2 ^ 53 - 1"

record hashcash_lib =
  hk_hash :: "string \<Rightarrow> string \<Rightarrow> nat \<Rightarrow> string"
  hk_encode :: "string \<Rightarrow> nat \<Rightarrow> string"

type_synonym 'w hashcash_callback = "nat option \<Rightarrow> ('w, callback_answer) eff"

definition hash_value :: "string \<Rightarrow> nat" where
  "hash_value h = digits_val 16 (removeHexPrefix h)"

definition signal_end :: "'w hashcash_callback option \<Rightarrow> string \<Rightarrow> ('w, string) eff" where
  "signal_end callback result = (case callback of None \<Rightarrow> ret result | Some cb \<Rightarrow> bnd (cb None) (\<lambda>_. ret result))"

definition ask_callback :: "'w hashcash_callback option \<Rightarrow> nat \<Rightarrow> ('w, callback_answer) eff" where
  "ask_callback callback hashNonce =
     (case callback of None \<Rightarrow> throw ''callback is not a function'' | Some cb \<Rightarrow> cb (Some hashNonce))"

text \<open>The loop gives up only when the callback answers with nothing: an answer of \<open>false\<close> lets it go on.\<close>

definition gives_up :: "callback_answer \<Rightarrow> bool" where
  "gives_up cbresp \<longleftrightarrow> cbresp = NoAnswer"

text \<open>A loop that runs forever has the value \<open>None\<close>.\<close>

partial_function (option) hashcash_loop ::
  "(nat \<Rightarrow> string) \<Rightarrow> (string \<Rightarrow> nat \<Rightarrow> string) \<Rightarrow> nat \<Rightarrow> nat option \<Rightarrow> 'w hashcash_callback option \<Rightarrow> nat \<Rightarrow> nat \<Rightarrow> 'w \<Rightarrow>
   ((js_error + string) \<times> 'w) option" where
  "hashcash_loop hash encode diffMax interval callback hashNonce intervalCount w =
     (if MAX_SAFE_COUNTER \<le> hashNonce then Some (Inl (Error ''overflow''), w)
      else if hash_value (hash hashNonce) < diffMax then Some (signal_end callback (encode (hash hashNonce) hashNonce) w)
      else if interval = None then hashcash_loop hash encode diffMax interval callback (hashNonce + 1) intervalCount w
      else if \<not> the interval < intervalCount then
        hashcash_loop hash encode diffMax interval callback (hashNonce + 1) (intervalCount + 1) w
      else (case ask_callback callback (hashNonce + 1) w of
          (Inl e, w') \<Rightarrow> Some (Inl e, w')
        | (Inr cbresp, w') \<Rightarrow>
            if gives_up cbresp then Some (Inr ''0x'', w')
            else hashcash_loop hash encode diffMax interval callback (hashNonce + 1) 0 w'))"

definition calculateHashcash ::
  "hashcash_lib \<Rightarrow> string \<Rightarrow> string \<Rightarrow> nat \<Rightarrow> nat option \<Rightarrow> 'w hashcash_callback option \<Rightarrow> 'w \<Rightarrow> ((js_error + string) \<times> 'w) option" where
  "calculateHashcash lib senderAddress senderNonce difficulty interval callback w =
     (if 256 < difficulty then Some (Inl (Error ''Assertion failed''), w) else
      let diffMax = 2 ^ (256 - difficulty)
      in hashcash_loop (hk_hash lib senderAddress senderNonce) (hk_encode lib) diffMax interval callback 0 0 w)"

definition createHashcashAsyncApproval ::
  "hashcash_lib \<Rightarrow> nat \<Rightarrow> nat option \<Rightarrow> 'w hashcash_callback option \<Rightarrow> RelayRequest \<Rightarrow> 'w \<Rightarrow> ((js_error + string) \<times> 'w) option" where
  "createHashcashAsyncApproval lib difficulty interval callback relayRequest =
     calculateHashcash lib (fr_from (rr_request relayRequest)) (fr_nonce (rr_request relayRequest)) difficulty interval callback"

text \<open>
  \<open>checkedCall\<close> does not wait for the call, so its handler sees no rejection: the call fails with its own error.
\<close>

definition checkedCall :: "('w, 'a) eff \<Rightarrow> string \<Rightarrow> ('w, 'a) eff" where
  "checkedCall call str = call"

definition calculateHashcashApproval ::
  "hashcash_lib \<Rightarrow> ('w, nat) eff \<Rightarrow> (string \<Rightarrow> ('w, string) eff) \<Rightarrow> string \<Rightarrow> string option \<Rightarrow> nat option \<Rightarrow>
   'w hashcash_callback option \<Rightarrow> 'w \<Rightarrow> ((js_error + string) \<times> 'w) option" where
  "calculateHashcashApproval lib getDifficulty getNonce senderAddr hashcashPaymasterAddr interval callback w =
     (case checkedCall getDifficulty (case hashcashPaymasterAddr of Some a \<Rightarrow> a | None \<Rightarrow> ''undefined: not A HashcashPaymaster'') w of
        (Inl e, w') \<Rightarrow> Some (Inl e, w')
      | (Inr difficulty, w') \<Rightarrow> (case checkedCall (getNonce senderAddr) ''No getNonce()'' w' of
          (Inl e, w'') \<Rightarrow> Some (Inl e, w'')
        | (Inr nonce, w'') \<Rightarrow> calculateHashcash lib senderAddr nonce difficulty interval callback w''))"

section \<open>Verifying paymasters\<close>

text \<open>\<open>vp_encode\<close> is \<open>encodeParameters\<close> without its prefix, of typed values as strings.\<close>

record verifying_lib =
  vp_encode :: "(string \<times> string) list \<Rightarrow> string"
  vp_keccak :: "string \<Rightarrow> string"
  vp_sign :: "string \<Rightarrow> string \<Rightarrow> string"

definition packForwardRequest :: "verifying_lib \<Rightarrow> ForwardRequest \<Rightarrow> string" where
  "packForwardRequest lib req =
     vp_encode lib [(''address'', fr_from req), (''address'', fr_to req), (''uint256'', fr_value req), (''uint256'', fr_gas req),
       (''uint256'', fr_nonce req), (''bytes'', fr_data req)]"

definition packRelayData :: "verifying_lib \<Rightarrow> RelayData \<Rightarrow> string" where
  "packRelayData lib data =
     vp_encode lib [(''uint256'', rd_maxFeePerGas data), (''uint256'', rd_maxPriorityFeePerGas data), (''address'', rd_relayWorker data),
       (''address'', rd_paymaster data), (''bytes'', rd_paymasterData data), (''uint256'', rd_clientId data)]"

definition getRequestHash :: "verifying_lib \<Rightarrow> RelayRequest \<Rightarrow> string" where
  "getRequestHash lib relayRequest =
     vp_keccak lib (packForwardRequest lib (rr_request relayRequest) @ packRelayData lib (rr_relayData relayRequest))"

definition signRelayRequest :: "verifying_lib \<Rightarrow> RelayRequest \<Rightarrow> string \<Rightarrow> string" where
  "signRelayRequest lib relayRequest signerPrivateKey = vp_sign lib (getRequestHash lib relayRequest) signerPrivateKey"

section \<open>Permits\<close>

definition PERMIT_SIGNATURE_DAI :: string where
  "PERMIT_SIGNATURE_DAI = ''permit(address,address,uint256,uint256,bool,uint8,bytes32,bytes32)''"

definition PERMIT_SIGNATURE_EIP2612 :: string where
  "PERMIT_SIGNATURE_EIP2612 = ''permit(address,address,uint256,uint256,uint8,bytes32,bytes32)''"

definition PERMIT_CALLDATA_MAX_LEN :: nat where
  "PERMIT_CALLDATA_MAX_LEN = 280"

definition MAX_PAYMASTERDATA_LENGTH :: nat where
  "MAX_PAYMASTERDATA_LENGTH = PERMIT_CALLDATA_MAX_LEN + 20"

definition PermitTypeDai :: "MessageTypeProperty list" where
  "PermitTypeDai = [mtp ''holder'' ''address'', mtp ''spender'' ''address'', mtp ''nonce'' ''uint256'', mtp ''expiry'' ''uint256'',
     mtp ''allowed'' ''bool'']"

definition PermitTypeEIP2612 :: "MessageTypeProperty list" where
  "PermitTypeEIP2612 = [mtp ''owner'' ''address'', mtp ''spender'' ''address'', mtp ''value'' ''uint256'', mtp ''nonce'' ''uint256'',
     mtp ''deadline'' ''uint256'']"

definition EIP712DomainTypeWithoutVersion :: "MessageTypeProperty list" where
  "EIP712DomainTypeWithoutVersion = [mtp ''name'' ''string'', mtp ''chainId'' ''uint256'', mtp ''verifyingContract'' ''address'']"

text \<open>The domain of a token; not every token has a version in it.\<close>

record permit_domain =
  pd_name :: string
  pd_version :: "string option"
  pd_chainId :: int
  pd_verifyingContract :: string

datatype permit_message =
    PermitDAI (pm_from: string) (pm_holder: string) (pm_spender: string) (pm_nonce: string) (pm_expiry: string) (pm_allowed: bool)
  | PermitEIP2612 (pm_from: string) (pm_owner: string) (pm_spender: string) (pm_nonce: string) (pm_deadline: string) (pm_value: string)

record TypedPermit =
  tp_types :: "(string \<times> MessageTypeProperty list) list"
  tp_domain :: "permit_domain option"
  tp_primaryType :: string
  tp_message :: permit_message

definition newTypedPermit ::
  "MessageTypeProperty list \<Rightarrow> permit_domain option \<Rightarrow> permit_message \<Rightarrow> MessageTypeProperty list option \<Rightarrow> TypedPermit" where
  "newTypedPermit permitType domain permit eip712DomainType =
     \<lparr>tp_types = [(''EIP712Domain'', case eip712DomainType of None \<Rightarrow> EIP712DomainType | Some t \<Rightarrow> t), (''Permit'', permitType)],
      tp_domain = domain, tp_primaryType = ''Permit'', tp_message = permit\<rparr>"

text \<open>
  The token contracts and the wallet. \<open>pt_permit\<close> encodes the call of \<open>permit\<close> from its arguments as strings and the
  parts of the signature; \<open>pt_tryPermit\<close> estimates its gas.
\<close>

record 'w permit_env =
  pt_at :: "string \<Rightarrow> string \<Rightarrow> ('w, unit) eff"
  pt_nonces :: "string \<Rightarrow> string \<Rightarrow> ('w, string) eff"
  pt_getChainId :: "('w, int) eff"
  pt_getEip712Signature :: "TypedPermit \<Rightarrow> ('w, string) eff"
  pt_fromRpcSig :: "string \<Rightarrow> js_error + string \<times> string \<times> int"
  pt_permit :: "string list \<Rightarrow> string \<times> string \<times> int \<Rightarrow> string"
  pt_tryPermit :: "string \<Rightarrow> string \<Rightarrow> ('w, unit) eff"

definition sign_permit ::
  "'w permit_env \<Rightarrow> string \<Rightarrow> TypedPermit \<Rightarrow> string list \<Rightarrow> bool \<Rightarrow> ('w, string) eff" where
  "sign_permit env token dataToSign args skipValidation =
     bnd (pt_getEip712Signature env dataToSign) (\<lambda>signature.
     bnd (lift_result (pt_fromRpcSig env signature)) (\<lambda>rsv.
     let call = pt_permit env args rsv in
     bnd (when_eff (\<not> skipValidation) (pt_tryPermit env token call)) (\<lambda>_. ret call)))"

definition permit_nonce :: "'w permit_env \<Rightarrow> string \<Rightarrow> string \<Rightarrow> string option \<Rightarrow> ('w, string) eff" where
  "permit_nonce env token owner forceNonce =
     (case forceNonce of Some n \<Rightarrow> ret n | None \<Rightarrow> pt_nonces env token owner)"

definition signAndEncodeDaiPermit ::
  "'w permit_env \<Rightarrow> string \<Rightarrow> string \<Rightarrow> string \<Rightarrow> string \<Rightarrow> permit_domain option \<Rightarrow> string option \<Rightarrow> bool \<Rightarrow> ('w, string) eff" where
  "signAndEncodeDaiPermit env holder spender token expiry domainSeparator forceNonce skipValidation =
     bnd (pt_at env ''DAIPermitInterface'' token) (\<lambda>_.
     bnd (permit_nonce env token holder forceNonce) (\<lambda>nonce.
     bnd (pt_getChainId env) (\<lambda>chainId.
     let permit = PermitDAI holder holder spender nonce expiry True;
         dataToSign = newTypedPermit PermitTypeDai domainSeparator permit None
     in sign_permit env token dataToSign [holder, spender, nonce, expiry, ''true''] skipValidation)))"

definition signAndEncodeEIP2612Permit ::
  "'w permit_env \<Rightarrow> string \<Rightarrow> string \<Rightarrow> string \<Rightarrow> string \<Rightarrow> string \<Rightarrow> permit_domain \<Rightarrow> MessageTypeProperty list option \<Rightarrow>
   string option \<Rightarrow> bool \<Rightarrow> ('w, string) eff" where
  "signAndEncodeEIP2612Permit env owner spender token amount deadline domainSeparator domainType forceNonce skipValidation =
     bnd (pt_at env ''EIP2612Contract'' token) (\<lambda>_.
     bnd (permit_nonce env token owner forceNonce) (\<lambda>nonce.
     bnd (pt_getChainId env) (\<lambda>chainId.
     let permit = PermitEIP2612 owner owner spender nonce deadline amount;
         dataToSign = newTypedPermit PermitTypeEIP2612 (Some domainSeparator) permit domainType
     in sign_permit env token dataToSign [owner, spender, amount, deadline] skipValidation)))"

section \<open>The provider for token paymasters\<close>

text \<open>
  The fields the class adds to those of \<open>RelayProvider\<close>. The token is the address of its instance; \<open>tk_installed\<close> says
  that the relay client takes its paymaster data from this provider.
\<close>

record 'w tk_state =
  tk_world :: 'w
  tk_installed :: bool
  tk_tokenAddress :: "string option"
  tk_domainSeparators :: "(string \<times> permit_domain) list option"
  tk_token :: "string option"
  tk_permitSignature :: "string option"
  tk_paymaster :: "string option"

record 'w tk_env =
  tk_permits :: "'w permit_env"
  tk_init :: "('w, unit) eff"
  tk_tokenPaymasterAddress :: string
  tk_allowance :: "string \<Rightarrow> string \<Rightarrow> string \<Rightarrow> ('w, int) eff"
  tk_isTokenSupported :: "string \<Rightarrow> string \<Rightarrow> ('w, bool) eff"
  tk_getTokens :: "string \<Rightarrow> ('w, string list) eff"
  tk_getTokenSwapData :: "string \<Rightarrow> string \<Rightarrow> ('w, string) eff"
  tk_toChecksumAddress :: "string \<Rightarrow> string"
  tk_selector :: "string \<Rightarrow> string"

definition on_tk :: "('w, 'a) eff \<Rightarrow> ('w tk_state, 'a) eff" where
  "on_tk m = zoom tk_world (\<lambda>w s. s\<lparr>tk_world := w\<rparr>) m"

definition tk_create :: "'w tk_env \<Rightarrow> string \<Rightarrow> string \<Rightarrow> ('w tk_state, string) eff" where
  "tk_create env kind address = bnd (on_tk (pt_at (tk_permits env) kind address)) (\<lambda>_. ret address)"

definition createPermitInterfaceDAIToken :: "'w tk_env \<Rightarrow> string \<Rightarrow> ('w tk_state, string) eff" where
  "createPermitInterfaceDAIToken env address = tk_create env ''PermitInterfaceDAIToken'' address"

definition createPermitInterfaceEIP2612Token :: "'w tk_env \<Rightarrow> string \<Rightarrow> ('w tk_state, string) eff" where
  "createPermitInterfaceEIP2612Token env address = tk_create env ''PermitInterfaceEIP2612Token'' address"

definition createPermitERC20UniswapV3Paymaster :: "'w tk_env \<Rightarrow> string \<Rightarrow> ('w tk_state, string) eff" where
  "createPermitERC20UniswapV3Paymaster env address = tk_create env ''PermitERC20UniswapV3Paymaster'' address"

text \<open>The configuration may not set the length itself: the provider does.\<close>

definition applyTokenPaymasterConfig :: "nat option \<Rightarrow> js_error + nat" where
  "applyTokenPaymasterConfig maxPaymasterDataLength =
     (if maxPaymasterDataLength \<noteq> None then
        Inl (Error (''Token paymaster doesn'' @ [CHR 0x27] @ ''t accept maxPaymasterDataLength modification. Please leave this field empty''))
      else Inr MAX_PAYMASTERDATA_LENGTH)"

definition the_paymaster :: "('w tk_state, string) eff" where
  "the_paymaster = bnd (gets tk_paymaster) (\<lambda>p. lift_result (instance_address p))"

definition isTokenSupported :: "'w tk_env \<Rightarrow> string \<Rightarrow> ('w tk_state, bool) eff" where
  "isTokenSupported env token = bnd the_paymaster (\<lambda>p. on_tk (tk_isTokenSupported env p token))"

definition supportedTokens :: "'w tk_env \<Rightarrow> ('w tk_state, string list) eff" where
  "supportedTokens env = bnd the_paymaster (\<lambda>p. on_tk (tk_getTokens env p))"

definition domain_of :: "('w tk_state, string \<Rightarrow> permit_domain option) eff" where
  "domain_of =
     bnd (gets tk_domainSeparators) (\<lambda>d. case d of None \<Rightarrow> throw ''Cannot read properties of undefined''
     | Some m \<Rightarrow> ret (map_of m))"

definition setToken :: "'w tk_env \<Rightarrow> string \<Rightarrow> ('w tk_state, unit) eff" where
  "setToken env tokenAddress =
     bnd (isTokenSupported env tokenAddress) (\<lambda>isSupported.
     if \<not> isSupported then throw (''token '' @ tokenAddress @ '' not supported'') else
     (let checksummed = tk_toChecksumAddress env tokenAddress in
     bnd (modify (\<lambda>s. s\<lparr>tk_tokenAddress := Some checksummed\<rparr>)) (\<lambda>_.
     bnd domain_of (\<lambda>domains.
     if domains checksummed = None then throw (''Domain separator not found for token '' @ tokenAddress) else
     bnd the_paymaster (\<lambda>paymaster.
     bnd (on_tk (tk_getTokenSwapData env paymaster tokenAddress)) (\<lambda>permitMethodSelector.
     if permitMethodSelector = tk_selector env PERMIT_SIGNATURE_DAI then
       bnd (modify (\<lambda>s. s\<lparr>tk_permitSignature := Some PERMIT_SIGNATURE_DAI\<rparr>)) (\<lambda>_.
       bnd (createPermitInterfaceDAIToken env tokenAddress) (\<lambda>t. modify (\<lambda>s. s\<lparr>tk_token := Some t\<rparr>)))
     else if permitMethodSelector = tk_selector env PERMIT_SIGNATURE_EIP2612 then
       bnd (modify (\<lambda>s. s\<lparr>tk_permitSignature := Some PERMIT_SIGNATURE_EIP2612\<rparr>)) (\<lambda>_.
       bnd (createPermitInterfaceEIP2612Token env tokenAddress) (\<lambda>t. modify (\<lambda>s. s\<lparr>tk_token := Some t\<rparr>)))
     else throw (''Unknown permit signature hash '' @ permitMethodSelector)))))))"

definition MAX_UINT256 :: int where
  "MAX_UINT256 = 2 ^ 256 - 1"

definition tk_permit :: "'w tk_env \<Rightarrow> RelayRequest \<Rightarrow> string \<Rightarrow> ('w tk_state, string) eff" where
  "tk_permit env relayRequest tokenAddress =
     (let sender = fr_from (rr_request relayRequest); paymaster = rd_paymaster (rr_relayData relayRequest);
          unlimited = int_to_string MAX_UINT256
      in
     bnd domain_of (\<lambda>domains.
     bnd (gets tk_permitSignature) (\<lambda>permitSignature.
     if permitSignature = Some PERMIT_SIGNATURE_DAI then
       on_tk (signAndEncodeDaiPermit (tk_permits env) sender paymaster tokenAddress unlimited (domains tokenAddress) None False)
     else (case domains tokenAddress of None \<Rightarrow> throw ''Cannot read properties of undefined'' | Some domainSeparator \<Rightarrow>
         on_tk (signAndEncodeEIP2612Permit (tk_permits env) sender paymaster tokenAddress unlimited unlimited domainSeparator
           (Some (if pd_version domainSeparator = None then EIP712DomainTypeWithoutVersion else EIP712DomainType)) None False)))))"

text \<open>There is an instance of a token only after the address of a token was set.\<close>

definition buildPaymasterData :: "'w tk_env \<Rightarrow> RelayRequest \<Rightarrow> ('w tk_state, string) eff" where
  "buildPaymasterData env relayRequest =
     bnd (gets tk_domainSeparators) (\<lambda>separators.
     if separators = None then throw ''TokenPaymasterProvider not initialized. Call init() first'' else
     bnd the_paymaster (\<lambda>paymaster.
     if rd_paymaster (rr_relayData relayRequest) \<noteq> paymaster then throw ''Paymaster address mismatch'' else
     bnd (bnd (gets tk_token) (\<lambda>t. lift_result (instance_address t))) (\<lambda>token.
     bnd (on_tk (tk_allowance env token (fr_from (rr_request relayRequest)) (rd_paymaster (rr_relayData relayRequest)))) (\<lambda>allowance.
     bnd (gets tk_tokenAddress) (\<lambda>address. case address of None \<Rightarrow> throw ''Cannot remove hex prefix'' | Some tokenAddress \<Rightarrow>
     bnd (if allowance = 0 then tk_permit env relayRequest tokenAddress else ret []) (\<lambda>permitMethod.
     ret (''0x'' @ removeHexPrefix tokenAddress @ removeHexPrefix permitMethod)))))))"

definition tk_provider_init :: "'w tk_env \<Rightarrow> ('w tk_state, unit) eff" where
  "tk_provider_init env =
     bnd (on_tk (tk_init env)) (\<lambda>_.
     bnd (modify (\<lambda>s. s\<lparr>tk_installed := True\<rparr>)) (\<lambda>_.
     bnd (createPermitERC20UniswapV3Paymaster env (tk_tokenPaymasterAddress env)) (\<lambda>p.
     bnd (modify (\<lambda>s. s\<lparr>tk_paymaster := Some p\<rparr>)) (\<lambda>_.
     bnd (gets tk_tokenAddress) (\<lambda>address. case address of None \<Rightarrow> ret () | Some tokenAddress \<Rightarrow> setToken env tokenAddress)))))"

section \<open>The provider for proxies\<close>

text \<open>\<open>px_encodeExecute\<close> encodes a call of \<open>execute(0, to, value, data)\<close> of the proxy, or throws.\<close>

record 'w proxy_env =
  px_proxyFactoryAddress :: string
  px_calculateAddress :: "string \<Rightarrow> string \<Rightarrow> ('w, string) eff"
  px_encodeExecute :: "string option \<Rightarrow> string \<Rightarrow> string \<Rightarrow> js_error + string"

definition calculateProxyAddress :: "'w proxy_env \<Rightarrow> string \<Rightarrow> ('w rp_state, string) eff" where
  "calculateProxyAddress px owner = on_world (px_calculateAddress px (px_proxyFactoryAddress px) owner)"

definition proxy_params :: "tx_params \<Rightarrow> string \<Rightarrow> string \<Rightarrow> tx_params" where
  "proxy_params params proxyAddress data = params\<lparr>xp_data := data, xp_to := Some proxyAddress\<rparr>"

definition proxy_payload :: "JsonRpcPayload \<Rightarrow> tx_params \<Rightarrow> JsonRpcPayload" where
  "proxy_payload payload params = payload\<lparr>jp_params := map_option (\<lambda>ps. TxParam params # tl ps) (jp_params payload)\<rparr>"

definition proxy_ethSendTransaction ::
  "'w rp_env \<Rightarrow> 'w proxy_env \<Rightarrow> JsonRpcPayload \<Rightarrow> tx_params \<Rightarrow> ('w rp_state, rpc_answer option) eff" where
  "proxy_ethSendTransaction env px payload params =
     try_catch
       (bnd (calculateProxyAddress px (xp_from params)) (\<lambda>proxyAddress.
        let v = (case xp_value params of Some v \<Rightarrow> v | None \<Rightarrow> ''0'') in
        bnd (lift_result (px_encodeExecute px (xp_to params) v (xp_data params))) (\<lambda>data.
        let params' = proxy_params params proxyAddress data in
        detached (ethSendTransaction env (proxy_payload payload params') params'))))
       (\<lambda>_. ret None)"

definition newProvider :: "js_error + 'a" where
  "newProvider = Inl (Error ''Use newProxyRelayProvider() instead'')"

end
