(* ===== verification/PaymastersProps.thy ===== *)
theory PaymastersProps imports Paymasters RelayProviderProps begin

text \<open>
  Properties of the paymaster packages: what a proof of work shows and when it is found, the size and content of the data
  for a token paymaster, what setting a token leaves behind, and that a proxy transaction is an ordinary one.
\<close>

section \<open>Hashcash\<close>

definition proof_of_work :: "(nat \<Rightarrow> string) \<Rightarrow> (string \<Rightarrow> nat \<Rightarrow> string) \<Rightarrow> nat \<Rightarrow> string \<Rightarrow> bool" where
  "proof_of_work hash encode diffMax r \<longleftrightarrow> (\<exists>n. r = encode (hash n) n \<and> hash_value (hash n) < diffMax)"

lemma signal_end_Inr: "signal_end callback r w = (Inr x, w') \<Longrightarrow> x = r"
  by (auto simp: signal_end_def bnd_def split: option.splits prod.splits sum.splits)

lemma hashcash_loop_sound:
  "hashcash_loop hash encode d interval callback n c w = Some x \<Longrightarrow>
   (case fst x of Inr r \<Rightarrow> r = ''0x'' \<or> proof_of_work hash encode d r | Inl _ \<Rightarrow> True)"
proof (induction hash encode d interval callback n c w x rule: hashcash_loop.raw_induct [rotated, consumes 1])
  case (1 rec hash encode d interval callback n c w x)
  note IH = 1(1) and run = 1(2)
  show ?case
  proof (cases "hash_value (hash n) < d")
    case True
    then have x: "x = (Inl (Error ''overflow''), w) \<or> x = signal_end callback (encode (hash n) n) w"
      using run by (simp split: if_splits)
    then have "r = encode (hash n) n" if "fst x = Inr r" for r
      using that signal_end_Inr [of callback "encode (hash n) n" w r "snd x"] by (metis fst_conv prod.collapse sum.distinct(1))
    then show ?thesis using True by (auto simp: proof_of_work_def split: sum.splits)
  next
    case False
    then show ?thesis
      using run by (auto split: if_splits prod.splits sum.splits dest: IH)
  qed
qed

text \<open>
  whatever the interval and the callback, approval data that is returned is the encoding of a counter whose hash meets
  the difficulty, or \<open>0x\<close> after the callback gave up.
\<close>

theorem hashcash_meets_difficulty:
  "case calculateHashcash lib sender nonce difficulty interval callback w of
     Some (Inr r, _) \<Rightarrow> r = ''0x'' \<or> proof_of_work (hk_hash lib sender nonce) (hk_encode lib) (2 ^ (256 - difficulty)) r
   | _ \<Rightarrow> True"
  using hashcash_loop_sound [of "hk_hash lib sender nonce" "hk_encode lib" "2 ^ (256 - difficulty)" interval callback 0 0 w]
  by (auto simp: calculateHashcash_def split: option.splits prod.splits sum.splits)

text \<open>
  The search is to go on: no callback and no interval, or a callback that always answers \<open>true\<close>, which the documentation
  of the search gives as the answer to continue.
\<close>

definition patient :: "nat option \<Rightarrow> 'w hashcash_callback option \<Rightarrow> bool" where
  "patient interval callback \<longleftrightarrow>
     (case callback of None \<Rightarrow> interval = None | Some cb \<Rightarrow> \<forall>a w. fst (cb a w) = Inr (FlagAnswer True))"

lemma patient_end: "patient interval callback \<Longrightarrow> fst (signal_end callback r w) = Inr r"
  by (auto simp: patient_def signal_end_def bnd_def split: option.splits prod.splits sum.splits) (metis fst_conv sum.distinct(1))+

lemma patient_ask:
  "patient interval callback \<Longrightarrow> interval \<noteq> None \<Longrightarrow> \<exists>w'. ask_callback callback n w = (Inr (FlagAnswer True), w')"
  by (auto simp: patient_def ask_callback_def split: option.splits) (metis prod.collapse)

lemma hashcash_loop_finds:
  assumes "patient interval callback" and "hash_value (hash n) < d" and "\<forall>m < n. \<not> hash_value (hash m) < d" and "k \<le> n"
    and "n < MAX_SAFE_COUNTER"
  shows "\<exists>w'. hashcash_loop hash encode d interval callback k c w = Some (Inr (encode (hash n) n), w')"
  using assms(4)
proof (induction "n - k" arbitrary: k c w)
  case 0
  then have "k = n" by simp
  then show ?case
    using assms(2,5) patient_end [OF assms(1), of "encode (hash n) n" w]
    by (subst hashcash_loop.simps) (simp, metis prod.collapse)
next
  case (Suc j)
  then have k: "\<not> hash_value (hash k) < d" "\<not> MAX_SAFE_COUNTER \<le> k" using assms(3,5) by simp_all
  have IH: "\<exists>w'. hashcash_loop hash encode d interval callback (Suc k) c' v = Some (Inr (encode (hash n) n), w')" for c' v
    using Suc by (intro Suc.hyps(1)) auto
  show ?case
  proof (cases "interval = None \<or> \<not> the interval < c")
    case True
    then show ?thesis using k IH by (subst hashcash_loop.simps) auto
  next
    case False
    then obtain w' where "ask_callback callback (k + 1) w = (Inr (FlagAnswer True), w')"
      using patient_ask [OF assms(1)] by blast
    moreover obtain i where "interval = Some i" "i < c" using False by auto
    ultimately show ?thesis using k IH by (subst hashcash_loop.simps) (simp add: gives_up_def)
  qed
qed

text \<open>However the callback answers, the search ends: at the latest when the counter is no safe integer any more.\<close>

lemma hashcash_loop_ends: "hashcash_loop hash encode d interval callback k c w \<noteq> None"
proof (induction "MAX_SAFE_COUNTER - k" arbitrary: k c w)
  case 0
  then show ?case by (subst hashcash_loop.simps) simp
next
  case (Suc j)
  have IH: "hashcash_loop hash encode d interval callback (Suc k) c' v \<noteq> None" for c' v
    using Suc.hyps(2) by (intro Suc.hyps(1)) simp
  show ?case
    using IH by (subst hashcash_loop.simps) (auto split: prod.split sum.split)
qed

text \<open>
  C31: the search for a proof of work always ends. When some counter below \<open>MAX_SAFE_COUNTER\<close> meets the difficulty, and the
  callback always answers \<open>true\<close>, it ends with the least such counter, and the approval data are the encoding of
  its hash and of it.
\<close>

theorem hashcash_finds_least:
  assumes difficulty: "difficulty \<le> 256" and "patient interval callback" and "n < MAX_SAFE_COUNTER"
    and "hash_value (hk_hash lib sender nonce n) < 2 ^ (256 - difficulty)"
    and "\<forall>m < n. \<not> hash_value (hk_hash lib sender nonce m) < 2 ^ (256 - difficulty)"
  shows "(\<exists>w'. calculateHashcash lib sender nonce difficulty interval callback w
      = Some (Inr (hk_encode lib (hk_hash lib sender nonce n) n), w'))
    \<and> (\<forall>any_difficulty any_interval any_callback v.
         calculateHashcash lib sender nonce any_difficulty any_interval (any_callback :: 'w hashcash_callback option) v \<noteq> None)"
  using hashcash_loop_finds [OF assms(2,4,5) _ assms(3), of 0] difficulty hashcash_loop_ends
  by (auto simp: calculateHashcash_def Let_def)

text \<open>
  A callback that answers \<open>false\<close> does not end the search, although the documentation says it does: it has the same
  outcome as one that answers \<open>true\<close>.
\<close>

lemma false_goes_on:
  fixes w :: 'w
  shows "hashcash_loop hash encode d interval (Some (\<lambda>_. ret (FlagAnswer False))) k c w
     = hashcash_loop hash encode d interval (Some (\<lambda>_. ret (FlagAnswer True))) k c w"
proof (induction "MAX_SAFE_COUNTER - k" arbitrary: k c w)
  case 0
  then show ?case by (subst (1 2) hashcash_loop.simps) simp
next
  case (Suc j)
  have IH: "hashcash_loop hash encode d interval (Some (\<lambda>_. ret (FlagAnswer False))) (Suc k) c' v
     = hashcash_loop hash encode d interval (Some (\<lambda>_. ret (FlagAnswer True))) (Suc k) c' v" for c' and v :: 'w
    using Suc.hyps(2) by (intro Suc.hyps(1)) simp
  show ?case
    using IH by (subst (1 2) hashcash_loop.simps) (cases interval; simp add: signal_end_def ask_callback_def ret_def bnd_def gives_up_def)
qed

definition sample_hashcash :: hashcash_lib where
  "sample_hashcash = \<lparr>hk_hash = (\<lambda>_ _ n. if n = 2 then ''0x0f'' else ''0xff''), hk_encode = (\<lambda>h n. h @ replicate n CHR ''1'')\<rparr>"

theorem hashcash_finds_least_witness:
  "\<exists>w'. calculateHashcash sample_hashcash ''0xaa'' ''4'' 252 (Some 0) (Some (\<lambda>_. ret (FlagAnswer True))) ()
    = Some (Inr (hk_encode sample_hashcash (hk_hash sample_hashcash ''0xaa'' ''4'' 2) 2), w')"
  by (rule hashcash_finds_least [THEN conjunct1])
    (auto simp: patient_def MAX_SAFE_COUNTER_def sample_hashcash_def hash_value_def removeHexPrefix_def starts_with_def digits_val_def digit_val_def)

section \<open>Token paymasters\<close>

lemma wp_on_tk [wp_simps]:
  "wp (on_tk m) Q E s = wp m (\<lambda>a w. Q a (s\<lparr>tk_world := w\<rparr>)) (\<lambda>e w. E e (s\<lparr>tk_world := w\<rparr>)) (tk_world s)"
  by (simp add: on_tk_def wp_zoom)

text \<open>The ABI encoding of a call of \<open>permit\<close>: a selector and a word for each argument and each part of the signature.\<close>

definition permit_abi :: "'w permit_env \<Rightarrow> bool" where
  "permit_abi env \<longleftrightarrow> (\<forall>args rsv. \<exists>d. pt_permit env args rsv = ''0x'' @ d \<and> length d = 2 * (4 + 32 * (length args + 3)))"

definition permit_call :: "string \<Rightarrow> bool" where
  "permit_call c \<longleftrightarrow> (\<exists>d. c = ''0x'' @ d \<and> length d \<le> 2 * PERMIT_CALLDATA_MAX_LEN)"

text \<open>The call of \<open>permit\<close> for the sender of the request, for all it has, to its paymaster.\<close>

definition permit_args :: "bool \<Rightarrow> RelayRequest \<Rightarrow> string \<Rightarrow> string list" where
  "permit_args dai req nonce =
     (let sender = fr_from (rr_request req); paymaster = rd_paymaster (rr_relayData req); unlimited = int_to_string MAX_UINT256
      in if dai then [sender, paymaster, nonce, unlimited, ''true''] else [sender, paymaster, unlimited, unlimited])"

definition permit_typed :: "bool \<Rightarrow> RelayRequest \<Rightarrow> string \<Rightarrow> permit_domain option \<Rightarrow> TypedPermit" where
  "permit_typed dai req nonce domain =
     (let sender = fr_from (rr_request req); paymaster = rd_paymaster (rr_relayData req); unlimited = int_to_string MAX_UINT256
      in if dai then newTypedPermit PermitTypeDai domain (PermitDAI sender sender paymaster nonce unlimited True) None
         else newTypedPermit PermitTypeEIP2612 domain (PermitEIP2612 sender sender paymaster nonce unlimited unlimited)
           (Some (if Option.bind domain pd_version = None then EIP712DomainTypeWithoutVersion else EIP712DomainType)))"

definition permit_for :: "'w tk_env \<Rightarrow> 'w tk_state \<Rightarrow> RelayRequest \<Rightarrow> string \<Rightarrow> string \<Rightarrow> bool" where
  "permit_for env s req token c \<longleftrightarrow>
     (let dai = (tk_permitSignature s = Some PERMIT_SIGNATURE_DAI); p = tk_permits env in
      \<exists>domains nonce signature rsv w1 w2.
          tk_domainSeparators s = Some domains
        \<and> fst (pt_nonces p token (fr_from (rr_request req)) w1) = Inr nonce
        \<and> fst (pt_getEip712Signature p (permit_typed dai req nonce (map_of domains token)) w2) = Inr signature
        \<and> pt_fromRpcSig p signature = Inr rsv
        \<and> c = pt_permit p (permit_args dai req nonce) rsv)"

lemma bnd_steps:
  "bnd (gets f) k s = k (f s) s" "bnd (bnd m g) k = bnd m (\<lambda>x. bnd (g x) k)"
  "bnd (lift_result y) k s = (case y of Inl e \<Rightarrow> (Inl e, s) | Inr a \<Rightarrow> k a s)"
  by (simp_all add: bnd_def fun_eq_iff split: sum.split prod.split)

lemma on_tk_InrE:
  assumes "on_tk m s = (Inr a, t)"
  obtains w where "m (tk_world s) = (Inr a, w)" "t = s\<lparr>tk_world := w\<rparr>"
  using assms by (auto simp: on_tk_def zoom_def split: prod.splits)

lemma sign_permit_Inr:
  "sign_permit p token typed args skip w = (Inr c, w') \<Longrightarrow>
   \<exists>signature rsv. fst (pt_getEip712Signature p typed w) = Inr signature \<and> pt_fromRpcSig p signature = Inr rsv \<and> c = pt_permit p args rsv"
  unfolding sign_permit_def Let_def
  by (elim bnd_InrE) (auto simp: lift_result_def ret_def raise_def split: sum.splits)

lemma dai_permit_Inr:
  "signAndEncodeDaiPermit p holder spender token expiry domain None skip w = (Inr c, w') \<Longrightarrow>
   \<exists>nonce w1 w2. fst (pt_nonces p token holder w1) = Inr nonce
     \<and> (\<exists>signature rsv. fst (pt_getEip712Signature p (newTypedPermit PermitTypeDai domain (PermitDAI holder holder spender nonce expiry True) None) w2)
          = Inr signature \<and> pt_fromRpcSig p signature = Inr rsv \<and> c = pt_permit p [holder, spender, nonce, expiry, ''true''] rsv)"
  unfolding signAndEncodeDaiPermit_def permit_nonce_def Let_def option.case
  by (elim bnd_InrE) (metis fst_conv sign_permit_Inr)

lemma eip_permit_Inr:
  "signAndEncodeEIP2612Permit p owner spender token amount deadline domain ty None skip w = (Inr c, w') \<Longrightarrow>
   \<exists>nonce w1 w2. fst (pt_nonces p token owner w1) = Inr nonce
     \<and> (\<exists>signature rsv. fst (pt_getEip712Signature p (newTypedPermit PermitTypeEIP2612 (Some domain) (PermitEIP2612 owner owner spender nonce deadline amount) ty) w2)
          = Inr signature \<and> pt_fromRpcSig p signature = Inr rsv \<and> c = pt_permit p [owner, spender, amount, deadline] rsv)"
  unfolding signAndEncodeEIP2612Permit_def permit_nonce_def Let_def option.case
  by (elim bnd_InrE) (metis fst_conv sign_permit_Inr)

lemma tk_permit_Inr:
  assumes "tk_permit env req token s = (Inr c, t)"
  shows "permit_for env s req token c"
proof -
  obtain domains where domains: "tk_domainSeparators s = Some domains"
    using assms by (cases "tk_domainSeparators s") (simp_all add: tk_permit_def domain_of_def bnd_def Let_def)
  let ?from = "fr_from (rr_request req)" and ?to = "rd_paymaster (rr_relayData req)" and ?max = "int_to_string MAX_UINT256"
  show ?thesis
  proof (cases "tk_permitSignature s = Some PERMIT_SIGNATURE_DAI")
    case True
    then have "on_tk (signAndEncodeDaiPermit (tk_permits env) ?from ?to token ?max (map_of domains token) None False) s = (Inr c, t)"
      using assms domains by (simp add: tk_permit_def domain_of_def bnd_def ret_def Let_def)
    then obtain nonce signature rsv w1 w2 where
      "fst (pt_nonces (tk_permits env) token ?from w1) = Inr nonce"
      "fst (pt_getEip712Signature (tk_permits env) (newTypedPermit PermitTypeDai (map_of domains token)
          (PermitDAI ?from ?from ?to nonce ?max True) None) w2) = Inr signature"
      "pt_fromRpcSig (tk_permits env) signature = Inr rsv" "c = pt_permit (tk_permits env) [?from, ?to, nonce, ?max, ''true''] rsv"
      by (elim on_tk_InrE) (drule dai_permit_Inr, blast)
    then show ?thesis
      unfolding permit_for_def Let_def using True domains
      by (intro exI [of _ domains] exI [of _ nonce] exI [of _ signature] exI [of _ rsv] exI [of _ w1] exI [of _ w2])
        (simp add: permit_args_def permit_typed_def Let_def)
  next
    case False
    then obtain dom where dom: "map_of domains token = Some dom"
      using assms domains
      by (cases "map_of domains token") (simp_all add: tk_permit_def domain_of_def bnd_def ret_def Let_def throw_def raise_def)
    then have "on_tk (signAndEncodeEIP2612Permit (tk_permits env) ?from ?to token ?max ?max dom
        (Some (if pd_version dom = None then EIP712DomainTypeWithoutVersion else EIP712DomainType)) None False) s = (Inr c, t)"
      using assms domains False by (simp add: tk_permit_def domain_of_def bnd_def ret_def Let_def)
    then obtain nonce signature rsv w1 w2 where
      "fst (pt_nonces (tk_permits env) token ?from w1) = Inr nonce"
      "fst (pt_getEip712Signature (tk_permits env) (newTypedPermit PermitTypeEIP2612 (Some dom)
          (PermitEIP2612 ?from ?from ?to nonce ?max ?max)
          (Some (if pd_version dom = None then EIP712DomainTypeWithoutVersion else EIP712DomainType))) w2) = Inr signature"
      "pt_fromRpcSig (tk_permits env) signature = Inr rsv" "c = pt_permit (tk_permits env) [?from, ?to, ?max, ?max] rsv"
      by (elim on_tk_InrE) (drule eip_permit_Inr, blast)
    then show ?thesis
      unfolding permit_for_def Let_def using False domains dom
      by (intro exI [of _ domains] exI [of _ nonce] exI [of _ signature] exI [of _ rsv] exI [of _ w1] exI [of _ w2])
        (simp add: permit_args_def permit_typed_def Let_def)
  qed
qed

lemma permit_for_cong: "permit_for env (s\<lparr>tk_world := w\<rparr>) = permit_for env s"
  by (simp add: permit_for_def fun_eq_iff)

lemma permit_for_call:
  assumes "permit_abi (tk_permits env)" and "permit_for env s req token c"
  shows "permit_call c"
proof -
  obtain dai nonce rsv where c: "c = pt_permit (tk_permits env) (permit_args dai req nonce) rsv"
    using assms(2) by (auto simp: permit_for_def Let_def)
  then obtain d where "c = ''0x'' @ d" "length d = 2 * (4 + 32 * (length (permit_args dai req nonce) + 3))"
    using assms(1) unfolding permit_abi_def by blast
  then show ?thesis by (auto simp: permit_call_def PERMIT_CALLDATA_MAX_LEN_def permit_args_def Let_def)
qed

text \<open>
  C32: the paymaster data of a token paymaster are the address of the token alone when the paymaster has an allowance of
  the token from the sender, and otherwise the address followed by the call of \<open>permit\<close>, in the way of the token, by
  which the sender allows the paymaster all it has, with its signature of exactly this permit. They are made
  for the paymaster of the provider only, and are never longer than the provider has announced to the relay client.
\<close>

theorem buildPaymasterData_exact:
  assumes "permit_abi (tk_permits env)" and "tk_tokenAddress s = Some (''0x'' @ token)" and "length token = 40"
    and "buildPaymasterData env req s = (Inr r, t)"
  shows "tk_paymaster s = Some (rd_paymaster (rr_relayData req))
    \<and> (\<exists>instance allowance w. tk_token s = Some instance
        \<and> tk_allowance env instance (fr_from (rr_request req)) (rd_paymaster (rr_relayData req)) (tk_world s) = (Inr allowance, w)
        \<and> (if allowance \<noteq> 0 then r = ''0x'' @ token
           else \<exists>d. permit_for env s req (''0x'' @ token) (''0x'' @ d) \<and> r = ''0x'' @ token @ d))
    \<and> applyTokenPaymasterConfig None = Inr MAX_PAYMASTERDATA_LENGTH \<and> length r \<le> 2 + 2 * MAX_PAYMASTERDATA_LENGTH"
proof -
  let ?from = "fr_from (rr_request req)" and ?to = "rd_paymaster (rr_relayData req)"
  note steps = buildPaymasterData_def the_paymaster_def instance_address_def bnd_steps
  have init: "tk_domainSeparators s \<noteq> None" and paymaster: "tk_paymaster s = Some ?to"
    using assms(4) by (auto simp: steps split: if_splits option.splits)
  obtain inst where inst: "tk_token s = Some inst"
    using assms(4) init paymaster by (cases "tk_token s") (simp_all add: steps)
  obtain q w where q: "tk_allowance env inst ?from ?to (tk_world s) = (q, w)" by fastforce
  let ?u = "s\<lparr>tk_world := w\<rparr>"
  from q have read: "bnd (on_tk (tk_allowance env inst ?from ?to)) k s = (case q of Inl e \<Rightarrow> (Inl e, ?u) | Inr a \<Rightarrow> k a ?u)" for k
    by (simp add: on_tk_def zoom_def bnd_def split: sum.split)
  obtain allowance where allowance: "q = Inr allowance"
    using assms(4) init paymaster inst by (cases q) (auto simp: steps read)
  have w: "tk_allowance env inst ?from ?to (tk_world s) = (Inr allowance, w)" using q allowance by simp
  have "bnd (if allowance = 0 then tk_permit env req (''0x'' @ token) else ret []) (\<lambda>permitMethod.
     ret (''0x'' @ removeHexPrefix (''0x'' @ token) @ removeHexPrefix permitMethod)) ?u = (Inr r, t)"
    using assms(2,4) init paymaster inst allowance by (auto simp: steps read)
  then obtain c v where c: "(if allowance = 0 then tk_permit env req (''0x'' @ token) else ret []) ?u = (Inr c, v)"
    and r: "r = ''0x'' @ token @ removeHexPrefix c"
    by (rule bnd_InrE) (simp add: removeHexPrefix_def starts_with_def)
  have shape: "if allowance \<noteq> 0 then r = ''0x'' @ token
      else \<exists>d. permit_for env s req (''0x'' @ token) (''0x'' @ d) \<and> length d \<le> 2 * PERMIT_CALLDATA_MAX_LEN \<and> r = ''0x'' @ token @ d"
  proof (cases "allowance = 0")
    case True
    then have p: "permit_for env s req (''0x'' @ token) c"
      using tk_permit_Inr [of env req _ ?u c v] c by (simp add: permit_for_cong)
    from permit_for_call [OF assms(1) this] obtain d where "c = ''0x'' @ d" "length d \<le> 2 * PERMIT_CALLDATA_MAX_LEN"
      unfolding permit_call_def by blast
    then show ?thesis using True p r by (auto simp: removeHexPrefix_def starts_with_def)
  next
    case False
    then show ?thesis using c r by (simp add: ret_def removeHexPrefix_def starts_with_def)
  qed
  then have "length r \<le> 2 + 2 * MAX_PAYMASTERDATA_LENGTH"
    using assms(3) by (auto simp: MAX_PAYMASTERDATA_LENGTH_def split: if_splits)
  then show ?thesis using shape paymaster inst w by (auto simp: applyTokenPaymasterConfig_def split: if_splits)
qed

definition sample_permits :: "unit permit_env" where
  "sample_permits = \<lparr>pt_at = (\<lambda>_ _. ret ()), pt_nonces = (\<lambda>_ _. ret ''0''), pt_getChainId = ret 1,
     pt_getEip712Signature = (\<lambda>_. ret ''0x5a''), pt_fromRpcSig = (\<lambda>_. Inr ([], [], 27)),
     pt_permit = (\<lambda>args _. ''0x'' @ replicate (2 * (4 + 32 * (length args + 3))) CHR ''0''), pt_tryPermit = (\<lambda>_ _. ret ())\<rparr>"

definition sample_tk_env :: "unit tk_env" where
  "sample_tk_env = \<lparr>tk_permits = sample_permits, tk_init = ret (), tk_tokenPaymasterAddress = ''0x9a'',
     tk_allowance = (\<lambda>_ _ _. ret 0), tk_isTokenSupported = (\<lambda>_ _. ret True), tk_getTokens = (\<lambda>_. ret [''0x70'']),
     tk_getTokenSwapData = (\<lambda>_ _. ret PERMIT_SIGNATURE_DAI), tk_toChecksumAddress = id, tk_selector = id\<rparr>"

definition sample_tk_state :: "unit tk_state" where
  "sample_tk_state = \<lparr>tk_world = (), tk_installed = True, tk_tokenAddress = Some ''0x71'', tk_domainSeparators = Some [],
     tk_token = Some ''0x71'', tk_permitSignature = Some PERMIT_SIGNATURE_DAI, tk_paymaster = Some ''0x9a''\<rparr>"

definition sample_tk_request :: RelayRequest where
  "sample_tk_request = \<lparr>rr_request = \<lparr>fr_from = ''0xaa'', fr_to = ''0xbb'', fr_data = ''0x'', fr_value = ''0'', fr_nonce = ''1'',
     fr_gas = ''100000'', fr_validUntilTime = ''0''\<rparr>, rr_relayData = \<lparr>rd_maxFeePerGas = ''1'', rd_maxPriorityFeePerGas = ''1'', rd_transactionCalldataGasUsed = ''0'',
     rd_relayWorker = ''0xcc'', rd_paymaster = ''0x9a'', rd_paymasterData = ''0x'', rd_clientId = ''1'', rd_forwarder = ''0xdd''\<rparr>\<rparr>"

text \<open>Without an allowance, of a token with a domain.\<close>

definition permitting_tk_state :: "unit tk_state" where
  "permitting_tk_state = sample_tk_state\<lparr>tk_tokenAddress := Some (''0x'' @ replicate 40 CHR ''7'')\<rparr>"

theorem buildPaymasterData_exact_witness:
  "\<exists>r d. fst (buildPaymasterData sample_tk_env sample_tk_request permitting_tk_state) = Inr r
     \<and> permit_for sample_tk_env permitting_tk_state sample_tk_request (''0x'' @ replicate 40 CHR ''7'') (''0x'' @ d)
     \<and> r = ''0x'' @ replicate 40 CHR ''7'' @ d \<and> length r \<le> 2 + 2 * MAX_PAYMASTERDATA_LENGTH"
proof -
  obtain r t where run: "buildPaymasterData sample_tk_env sample_tk_request permitting_tk_state = (Inr r, t)"
    by (simp add: buildPaymasterData_def the_paymaster_def instance_address_def tk_permit_def domain_of_def permitting_tk_state_def
        sample_tk_state_def sample_tk_env_def sample_tk_request_def sample_permits_def signAndEncodeDaiPermit_def permit_nonce_def
        sign_permit_def Let_def bnd_def ret_def lift_result_def on_tk_def zoom_def when_eff_def)
  have "permit_abi (tk_permits sample_tk_env)" by (simp add: permit_abi_def sample_tk_env_def sample_permits_def)
  from buildPaymasterData_exact [OF this _ _ run, of "replicate 40 CHR ''7''"] run show ?thesis
    by (auto simp: permitting_tk_state_def sample_tk_env_def ret_def)
qed

definition token_set :: "'w tk_env \<Rightarrow> string \<Rightarrow> 'w tk_state \<Rightarrow> bool" where
  "token_set env token t \<longleftrightarrow>
     tk_token t = Some token \<and> tk_tokenAddress t = Some (tk_toChecksumAddress env token) \<and>
     (case tk_domainSeparators t of None \<Rightarrow> False | Some m \<Rightarrow> map_of m (tk_toChecksumAddress env token) \<noteq> None) \<and>
     tk_permitSignature t \<in> {Some PERMIT_SIGNATURE_DAI, Some PERMIT_SIGNATURE_EIP2612}"

definition token_kept :: "'w tk_env \<Rightarrow> string \<Rightarrow> 'w tk_state \<Rightarrow> 'w tk_state \<Rightarrow> bool" where
  "token_kept env token s t \<longleftrightarrow>
     tk_token t = tk_token s \<and> tk_tokenAddress t \<in> {tk_tokenAddress s, Some (tk_toChecksumAddress env token)} \<and>
     tk_domainSeparators t = tk_domainSeparators s"

text \<open>
  after a token was set, its address, its domain, the way it signs permits and the instance all belong to it. When
  setting it throws, the instance is still the one before, while the address may already be that of the new token.
\<close>

theorem setToken_outcome:
  "case setToken env token s of (Inr _, t) \<Rightarrow> token_set env token t | (Inl _, t) \<Rightarrow> token_kept env token s t"
  by (auto simp: setToken_def isTokenSupported_def the_paymaster_def domain_of_def createPermitInterfaceDAIToken_def
      createPermitInterfaceEIP2612Token_def tk_create_def instance_address_def token_set_def token_kept_def bnd_def on_tk_def
      zoom_def Let_def split: option.splits prod.splits sum.splits if_splits)

text \<open>
  A token that the paymaster supports but that has no domain in the configuration is refused, and yet its address stays:
  the data for the next request names the new token and looks at the allowance of the old one.
\<close>

theorem setToken_failure_mixes_tokens:
  assumes "tk_isTokenSupported env p token (tk_world s) = (Inr True, w)" and "tk_paymaster s = Some p"
    and "tk_domainSeparators s = Some m" and "map_of m (tk_toChecksumAddress env token) = None"
  shows "setToken env token s =
    (Inl (Error (''Domain separator not found for token '' @ token)), s\<lparr>tk_world := w, tk_tokenAddress := Some (tk_toChecksumAddress env token)\<rparr>)"
  using assms
  by (simp add: setToken_def isTokenSupported_def the_paymaster_def domain_of_def instance_address_def bnd_def on_tk_def zoom_def Let_def)

theorem setToken_failure_mixes_tokens_witness:
  "setToken sample_tk_env ''0x72'' sample_tk_state =
    (Inl (Error (''Domain separator not found for token '' @ ''0x72'')), sample_tk_state\<lparr>tk_world := (), tk_tokenAddress := Some (tk_toChecksumAddress sample_tk_env ''0x72'')\<rparr>)"
  by (rule setToken_failure_mixes_tokens [where p = "''0x9a''" and m = "[]"]) (simp_all add: sample_tk_env_def sample_tk_state_def)

section \<open>Proxies\<close>

text \<open>
  a transaction through a proxy is answered like the transaction that calls \<open>execute\<close> on the proxy of its sender;
  when the address of the proxy or the encoding of the call fails, it is never answered.
\<close>

theorem proxy_is_execute:
  "case px_calculateAddress px (px_proxyFactoryAddress px) (xp_from d) (world s) of
     (Inl _, w) \<Rightarrow> proxy_ethSendTransaction env px payload d s = (Inr None, s\<lparr>world := w\<rparr>)
   | (Inr a, w) \<Rightarrow>
       (case px_encodeExecute px (xp_to d) (case xp_value d of Some v \<Rightarrow> v | None \<Rightarrow> ''0'') (xp_data d) of
          Inl _ \<Rightarrow> proxy_ethSendTransaction env px payload d s = (Inr None, s\<lparr>world := w\<rparr>)
        | Inr c \<Rightarrow> proxy_ethSendTransaction env px payload d s
            = detached (ethSendTransaction env (proxy_payload payload (proxy_params d a c)) (proxy_params d a c)) (s\<lparr>world := w\<rparr>))"
  by (auto simp: proxy_ethSendTransaction_def calculateProxyAddress_def try_catch_def bnd_def on_world_def zoom_def detached_def Let_def
      split: prod.splits sum.splits option.splits)

end
