(* ===== verification/Deployment.thy ===== *)
theory Deployment imports RelayClient "HOL-Library.List_Lexorder" "HOL-Library.Char_ord" begin

text \<open>
  \<open>packages/deployer/src/deployUtils.ts\<close>, \<open>packages/deployer/deploy/deploy.ts\<close> and \<open>merge\<close> of
  \<open>packages/common/src/Environments.ts\<close>: the configuration of a network and how it is deployed and kept up to date on
  the chain. Configurations are objects of JavaScript values; hardhat and its deployments, the hub and the tokens are
  operations on the world. A fatal error ends the process, like an error that nothing catches.
\<close>

section \<open>Configurations\<close>

type_synonym js_obj = "(string \<times> js_val) list"

definition obj_fields :: "js_val \<Rightarrow> js_obj" where
  "obj_fields v = (case v of JObj fs \<Rightarrow> fs | _ \<Rightarrow> [])"

definition obj_get :: "js_obj \<Rightarrow> string \<Rightarrow> js_val" where
  "obj_get fs k = (case map_of fs k of Some v \<Rightarrow> v | None \<Rightarrow> JNull)"

definition obj_sub :: "js_obj \<Rightarrow> string \<Rightarrow> js_obj" where
  "obj_sub fs k = obj_fields (obj_get fs k)"

definition assign2 :: "js_obj \<Rightarrow> js_obj \<Rightarrow> js_obj" where
  "assign2 a b = spread (spread [] a) b"

definition merge_environments :: "js_obj \<Rightarrow> js_obj \<Rightarrow> js_obj" where
  "merge_environments env1 env2 =
     (let section = (\<lambda>k. JObj (assign2 (obj_sub env1 k) (obj_sub env2 k)));
          d1 = obj_sub env1 ''deploymentConfiguration'';
          d2 = obj_sub env2 ''deploymentConfiguration''
      in spread (assign2 env1 env2)
           [(''relayHubConfiguration'', section ''relayHubConfiguration''),
            (''penalizerConfiguration'', section ''penalizerConfiguration''),
            (''paymasterConfiguration'', section ''paymasterConfiguration''),
            (''deploymentConfiguration'', JObj (spread (assign2 d1 d2)
               [(''minimumStakePerToken'', JObj (assign2 (obj_sub d1 ''minimumStakePerToken'') (obj_sub d2 ''minimumStakePerToken'')))]))])"

text \<open>The fields of an environment that a deployment uses, as an object.\<close>

definition hub_configuration_object :: "RelayHubConfiguration \<Rightarrow> js_obj" where
  "hub_configuration_object c =
     [(''gasOverhead'', JNum (hc_gasOverhead c)), (''postOverhead'', JNum (hc_postOverhead c)), (''gasReserve'', JNum (hc_gasReserve c)),
      (''maxWorkerCount'', JNum (hc_maxWorkerCount c)), (''minimumUnstakeDelay'', JNum (hc_minimumUnstakeDelay c)),
      (''devAddress'', JStr (hc_devAddress c)), (''devFee'', JNum (hc_devFee c)), (''baseRelayFee'', JNum (hc_baseRelayFee c)),
      (''pctRelayFee'', JNum (hc_pctRelayFee c))]"

definition environment_object :: "Environment \<Rightarrow> js_obj" where
  "environment_object e =
     [(''chainId'', JNum (env_chainId e)),
      (''relayHubConfiguration'', JObj (hub_configuration_object (env_relayHubConfiguration e))),
      (''penalizerConfiguration'', JObj
         [(''penalizeBlockDelay'', JNum (zc_penalizeBlockDelay (env_penalizerConfiguration e))),
          (''penalizeBlockExpiration'', JNum (zc_penalizeBlockExpiration (env_penalizerConfiguration e)))]),
      (''maxUnstakeDelay'', JNum (env_maxUnstakeDelay e)), (''abandonmentDelay'', JNum (env_abandonmentDelay e)),
      (''escheatmentDelay'', JNum (env_escheatmentDelay e))]"

text \<open>
  The environment of a network under the entry of the configuration file. An error while reading is fatal, and so is a
  missing entry, after a sample of one was printed.
\<close>

definition getMergedEnvironment :: "(int \<times> js_obj) list option \<Rightarrow> int \<Rightarrow> js_error + js_obj" where
  "getMergedEnvironment configFile chainId =
     (let env = (case getEnvironment chainId of Some (_, e) \<Rightarrow> e | None \<Rightarrow> ganacheLocal);
          config = Option.bind configFile (\<lambda>fileConfig. map_of fileConfig chainId)
      in case config of None \<Rightarrow> Inl (Error ''exit'') | Some c \<Rightarrow> Inr (merge_environments (environment_object env) c))"

section \<open>Values compared as text\<close>

fun js_text :: "js_val \<Rightarrow> string" where
  "js_text JNull = []"
| "js_text (JBool b) = (if b then ''true'' else ''false'')"
| "js_text (JNum n) = int_to_string n"
| "js_text (JStr s) = s"
| "js_text (JBN n) = int_to_string n"
| "js_text (JArr vs) = js_join '','' (map js_text vs)"
| "js_text (JObj fs) = ''[object Object]''"

definition js_toString :: "js_val \<Rightarrow> js_error + string" where
  "js_toString v = (if v = JNull then Inl (Error ''Cannot read properties of undefined'') else Inr (js_text v))"

definition numeric_key :: "string \<Rightarrow> bool" where
  "numeric_key k \<longleftrightarrow> k \<noteq> [] \<and> list_all (\<lambda>c. digit_val c < 10) k"

fun clean_fields :: "js_obj \<Rightarrow> string list \<Rightarrow> js_error + (string \<times> string) list" where
  "clean_fields obj [] = Inr []"
| "clean_fields obj (k # ks) =
     (case js_toString (obj_get obj k) of Inl e \<Rightarrow> Inl e
      | Inr s \<Rightarrow> map_sum id (\<lambda>fs. fs @ [(k, toLowerCase s)]) (clean_fields obj ks))"

text \<open>The fields in the order in which \<open>reduce\<close> puts them: the last key comes first. \<open>JSON.stringify\<close> keeps it.\<close>

definition clean :: "js_obj \<Rightarrow> js_error + (string \<times> string) list" where
  "clean obj = clean_fields obj (filter (\<lambda>k. \<not> numeric_key k) (sort (map fst obj)))"

section \<open>The chain\<close>

record token_info =
  ti_address :: string
  ti_symbol :: string
  ti_decimals :: int

record 'w hre =
  hr_listAccounts :: "('w, string list) eff"
  hr_getChainId :: "('w, string) eff"
  hr_configFile :: "(int \<times> js_obj) list option"
  hr_all :: "('w, (string \<times> string) list) eff"
  hr_read :: "string \<Rightarrow> string \<Rightarrow> js_val list \<Rightarrow> ('w, js_val) eff"
  hr_execute :: "string \<Rightarrow> string \<Rightarrow> js_val list \<Rightarrow> string \<Rightarrow> int option \<Rightarrow> ('w, unit) eff"
  hr_deploy :: "string \<Rightarrow> js_val list \<Rightarrow> ('w, string \<times> bool) eff"
  hr_getConfiguration :: "string \<Rightarrow> ('w, js_obj) eff"
  hr_setConfiguration :: "string \<Rightarrow> (string \<times> string) list \<Rightarrow> ('w, unit) eff"
  hr_minimumStake :: "string \<Rightarrow> string \<Rightarrow> ('w, int) eff"
  hr_setMinimumStakes :: "string \<Rightarrow> (string \<times> int) list \<Rightarrow> ('w, unit) eff"
  hr_symbol :: "string \<Rightarrow> ('w, string) eff"
  hr_decimals :: "string \<Rightarrow> ('w, int) eff"
  hr_parseUnits :: "js_val \<Rightarrow> int \<Rightarrow> js_error + int"
  hr_getBalance :: "string \<Rightarrow> ('w, int) eff"
  hr_arbOSVersion :: "('w, unit) eff"

definition or_null :: "('w, 'a) eff \<Rightarrow> ('w, 'a option) eff" where
  "or_null m = try_catch (bnd m (\<lambda>a. ret (Some a))) (\<lambda>_. ret None)"

definition getToken :: "'w hre \<Rightarrow> string \<Rightarrow> ('w, token_info) eff" where
  "getToken hre address =
     bnd (or_null (hr_symbol hre address)) (\<lambda>symbol.
     bnd (or_null (hr_decimals hre address)) (\<lambda>decimals.
     case (symbol, decimals) of
       (Some s, Some d) \<Rightarrow> ret \<lparr>ti_address = address, ti_symbol = s, ti_decimals = d\<rparr>
     | _ \<Rightarrow> throw (''invalid token: '' @ address)))"

text \<open>Set a field on a contract only if it has another value.\<close>

definition setField :: "'w hre \<Rightarrow> string \<Rightarrow> string \<Rightarrow> string \<Rightarrow> string \<Rightarrow> string \<Rightarrow> ('w, unit) eff" where
  "setField hre contract getFunc setFunc val deployer =
     bnd (hr_read hre contract getFunc []) (\<lambda>currentVal.
     bnd (lift_result (js_toString currentVal)) (\<lambda>s.
     when_eff (s \<noteq> val) (hr_execute hre contract setFunc [JStr val] deployer None)))"

definition stake_entries :: "js_obj \<Rightarrow> js_obj" where
  "stake_entries env = obj_sub (obj_sub env ''deploymentConfiguration'') ''minimumStakePerToken''"

definition val_text :: "js_val \<Rightarrow> string" where
  "val_text v = (case js_toString v of Inr s \<Rightarrow> s | Inl _ \<Rightarrow> ''undefined'')"

definition getStakingInfo :: "'w hre \<Rightarrow> js_obj \<Rightarrow> ('w, string \<times> string) eff" where
  "getStakingInfo hre env =
     (let entries = stake_entries env;
          stakingTokenAddress = (case entries of [] \<Rightarrow> ''undefined'' | (k, _) # _ \<Rightarrow> k);
          stakingTokenValue = val_text (obj_get entries stakingTokenAddress)
      in if stakingTokenAddress = ''test'' then
           bnd (hr_all hre) (\<lambda>deployments. case map_of deployments ''TestWrappedNativeToken'' of
             None \<Rightarrow> throw ''No deployment found for: TestWrappedNativeToken'' | Some a \<Rightarrow> ret (a, stakingTokenValue))
         else ret (stakingTokenAddress, stakingTokenValue))"

text \<open>What has to be changed for a token: nothing if the minimum stake on the hub is the configured one.\<close>

definition getTokenUpdateStakeOrNull :: "'w hre \<Rightarrow> string \<Rightarrow> string \<Rightarrow> js_val \<Rightarrow> ('w, (string \<times> int) option) eff" where
  "getTokenUpdateStakeOrNull hre hub tokenAddr configMinimumStake =
     bnd (getToken hre tokenAddr) (\<lambda>token.
     bnd (hr_minimumStake hre hub tokenAddr) (\<lambda>minStake.
     bnd (lift_result (hr_parseUnits hre configMinimumStake (ti_decimals token))) (\<lambda>parsedConfigMinimumStake.
     let modified = parsedConfigMinimumStake \<noteq> minStake in
     ret (if modified then Some (tokenAddr, parsedConfigMinimumStake) else None))))"

definition staking_token :: "(string \<times> string) list \<Rightarrow> string \<Rightarrow> string option" where
  "staking_token deployments tokenAddr =
     (if tokenAddr = ''test'' then map_of deployments ''TestWrappedNativeToken'' else Some tokenAddr)"

definition applyStakingTokenConfiguration :: "'w hre \<Rightarrow> js_obj \<Rightarrow> string \<Rightarrow> ('w, unit) eff" where
  "applyStakingTokenConfiguration hre env hub =
     bnd (hr_all hre) (\<lambda>deployments.
     bnd (map_eff (\<lambda>(tokenAddr, configMinimumStake).
            case staking_token deployments tokenAddr of None \<Rightarrow> throw ''invalid contract address or ENS name''
            | Some a \<Rightarrow> getTokenUpdateStakeOrNull hre hub a configMinimumStake)
          (stake_entries env)) (\<lambda>configChanges.
     let tokens = List.map_filter id configChanges in
     when_eff (tokens \<noteq> []) (hr_setMinimumStakes hre hub tokens)))"

definition applyHubConfiguration :: "'w hre \<Rightarrow> js_obj \<Rightarrow> string \<Rightarrow> ('w, unit) eff" where
  "applyHubConfiguration hre env hub =
     bnd (hr_getConfiguration hre hub) (\<lambda>current.
     bnd (lift_result (clean current)) (\<lambda>currentConfig.
     bnd (lift_result (clean (obj_sub env ''relayHubConfiguration''))) (\<lambda>newConfig.
     if currentConfig = newConfig then ret ()
     else
       bnd (hr_setConfiguration hre hub newConfig) (\<lambda>_.
       bnd (hr_getConfiguration hre hub) (\<lambda>updated.
       bnd (lift_result (clean updated)) (\<lambda>updatedConfig.
       if updatedConfig \<noteq> newConfig then throw ''FATAL: get/set configuration mismatch'' else ret ()))))))"

definition getDeploymentEnv :: "'w hre \<Rightarrow> ('w, string \<times> js_obj) eff" where
  "getDeploymentEnv hre =
     bnd (hr_listAccounts hre) (\<lambda>accounts.
     let deployer = (case accounts of [] \<Rightarrow> ''undefined'' | a # _ \<Rightarrow> a) in
     bnd (hr_getChainId hre) (\<lambda>chainId.
     case parseInt chainId of None \<Rightarrow> throw ''exit'' | Some n \<Rightarrow>
     bnd (lift_result (getMergedEnvironment (hr_configFile hre) n)) (\<lambda>env. ret (deployer, env))))"

definition applyDeploymentConfig :: "'w hre \<Rightarrow> ('w, unit) eff" where
  "applyDeploymentConfig hre =
     bnd (getDeploymentEnv hre) (\<lambda>(deployer, env).
     bnd (hr_all hre) (\<lambda>contracts.
     case map_of contracts ''RelayHub'' of None \<Rightarrow> throw ''Cannot read properties of undefined'' | Some hub \<Rightarrow>
     bnd (applyHubConfiguration hre env hub) (\<lambda>_.
     bnd (applyStakingTokenConfiguration hre env hub) (\<lambda>_.
     bnd (hr_read hre ''StakeManager'' ''getAbandonedRelayServerConfig'' []) (\<lambda>config.
     bnd (lift_result (js_toString (obj_get (obj_fields config) ''devAddress''))) (\<lambda>stakeManagerDevAddress.
     bnd (lift_result (js_toString (obj_get (obj_sub env ''relayHubConfiguration'') ''devAddress''))) (\<lambda>devAddress.
     bnd (when_eff (\<not> isSameAddress stakeManagerDevAddress devAddress)
            (hr_execute hre ''StakeManager'' ''setDevAddress'' [JStr devAddress] deployer None)) (\<lambda>_.
     bnd (lift_result (js_toString (obj_get (obj_sub env ''deploymentConfiguration'') ''registrationMaxAge''))) (\<lambda>maxAge.
     setField hre ''RelayRegistrar'' ''getRelayRegistrationMaxAge'' ''setRelayRegistrationMaxAge'' maxAge deployer)))))))))"

section \<open>Deploying a network\<close>

text \<open>\<open>deploy\<close> answers with the address and whether the contract is new.\<close>

definition run_deploy :: "'w hre \<Rightarrow> string \<Rightarrow> js_val list \<Rightarrow> ('w, string \<times> bool) eff" where
  "run_deploy hre contractName args = hr_deploy hre contractName args"

definition env_num :: "js_obj \<Rightarrow> string \<Rightarrow> string \<Rightarrow> js_val" where
  "env_num env section key = obj_get (obj_sub env section) key"

definition deploy_network_contracts :: "'w hre \<Rightarrow> js_obj \<Rightarrow> string \<Rightarrow> ('w, string \<times> string \<times> string) eff" where
  "deploy_network_contracts hre env deployer =
     bnd (run_deploy hre ''Forwarder'' []) (\<lambda>(forwarder, newlyDeployed).
     bnd (when_eff newlyDeployed
       (bnd (hr_execute hre ''Forwarder'' ''registerRequestType'' [JStr ''RelayRequest'', JStr GsnRequestType_typeSuffix] deployer None) (\<lambda>_.
        hr_execute hre ''Forwarder'' ''registerDomainSeparator''
          [JStr (gc_domainSeparatorName defaultGsnConfig), JStr ''3''] deployer None))) (\<lambda>_.
     bnd (run_deploy hre ''Penalizer'' [env_num env ''penalizerConfiguration'' ''penalizeBlockDelay'',
            env_num env ''penalizerConfiguration'' ''penalizeBlockDelay'']) (\<lambda>(penalizer, _).
     bnd (run_deploy hre ''StakeManager'' [obj_get env ''maxUnstakeDelay'', obj_get env ''abandonmentDelay'',
            obj_get env ''escheatmentDelay'', JStr BURN_ADDRESS, env_num env ''relayHubConfiguration'' ''devAddress'']) (\<lambda>(stakeManager, _).
     bnd (run_deploy hre ''RelayRegistrar'' [env_num env ''deploymentConfiguration'' ''registrationMaxAge'']) (\<lambda>(relayRegistrar, _).
     let hubConfig = JObj (obj_sub env ''relayHubConfiguration'');
         isArbitrum = (env_num env ''deploymentConfiguration'' ''isArbitrum'' = JBool True);
         hubContractName = (if isArbitrum then ''ArbRelayHub'' else ''RelayHub'');
         args = [JStr stakeManager, JStr penalizer, JStr ZERO_ADDRESS, JStr relayRegistrar, hubConfig] in
     bnd (run_deploy hre hubContractName (if isArbitrum then JStr ''0x0000000000000000000000000000000000000064'' # args else args))
       (\<lambda>(relayHub, _). ret (forwarder, hubContractName, relayHub)))))))"

definition deploy_test_paymaster :: "'w hre \<Rightarrow> js_obj \<Rightarrow> string \<Rightarrow> string \<Rightarrow> string \<Rightarrow> string \<Rightarrow> ('w, unit) eff" where
  "deploy_test_paymaster hre env deployer forwarder hubContractName relayHub =
     bnd (run_deploy hre ''TestPaymasterEverythingAccepted'' []) (\<lambda>(deployedPm, _).
     bnd (setField hre ''TestPaymasterEverythingAccepted'' ''getRelayHub'' ''setRelayHub'' relayHub deployer) (\<lambda>_.
     bnd (setField hre ''TestPaymasterEverythingAccepted'' ''getTrustedForwarder'' ''setTrustedForwarder'' forwarder deployer) (\<lambda>_.
     bnd (hr_read hre hubContractName ''balanceOf'' [JStr deployedPm]) (\<lambda>paymasterBalance.
     bnd (lift_result (hr_parseUnits hre (env_num env ''deploymentConfiguration'' ''paymasterDeposit'') 18)) (\<lambda>depositValue.
     when_eff (js_text paymasterBalance = ''0'')
       (hr_execute hre hubContractName ''depositFor'' [JStr deployedPm] deployer (Some depositValue)))))))"

definition printRelayInfo :: "'w hre \<Rightarrow> ('w, string \<times> string \<times> string \<times> string) eff" where
  "printRelayInfo hre =
     bnd (getDeploymentEnv hre) (\<lambda>(deployer, env).
     bnd (getStakingInfo hre env) (\<lambda>(stakingTokenAddress, stakingTokenValue).
     bnd (hr_all hre) (\<lambda>contracts. case map_of contracts ''RelayHub'' of
       None \<Rightarrow> throw ''No deployment found for: RelayHub''
     | Some hub \<Rightarrow> ret (hub, deployer, stakingTokenAddress, stakingTokenValue))))"

definition deploymentFunc :: "'w hre \<Rightarrow> ('w, unit) eff" where
  "deploymentFunc hre =
     bnd (getDeploymentEnv hre) (\<lambda>(deployer, env).
     bnd (hr_getBalance hre deployer) (\<lambda>_.
     case stake_entries env of
       [] \<Rightarrow> throw ''must have at least one entry in minimumStakePerToken''
     | (stakingTokenAddress, _) # _ \<Rightarrow>
         bnd (when_eff (env_num env ''deploymentConfiguration'' ''isArbitrum'' = JBool True) (hr_arbOSVersion hre)) (\<lambda>_.
         bnd (when_eff (stakingTokenAddress = ''test'') (bnd (run_deploy hre ''TestWrappedNativeToken'' []) (\<lambda>_. ret ()))) (\<lambda>_.
         bnd (deploy_network_contracts hre env deployer) (\<lambda>(forwarder, hubContractName, relayHub).
         bnd (applyDeploymentConfig hre) (\<lambda>_.
         bnd (when_eff (env_num env ''deploymentConfiguration'' ''deployTestPaymaster'' = JBool True)
                (deploy_test_paymaster hre env deployer forwarder hubContractName relayHub)) (\<lambda>_.
         bnd (printRelayInfo hre) (\<lambda>_. ret ()))))))))"

end
