(* ===== verification/DeploymentProps.thy ===== *)
theory DeploymentProps imports Deployment CommandsProps begin

text \<open>
  Properties of the deployment configuration: what a merged environment holds, when two configurations count as equal, and
  that applying a configuration leaves the hub with it.
\<close>

section \<open>Merging\<close>

lemma map_of_spread: "distinct (map fst fs) \<Longrightarrow> map_of (spread m fs) = map_of m ++ map_of fs"
proof (induction fs arbitrary: m)
  case (Cons f fs)
  obtain k v where f: "f = (k, v)" by fastforce
  have k: "k \<notin> dom (map_of fs)" using Cons.prems f by (auto simp: dom_map_of_conv_image_fst)
  have "map_of (spread m (f # fs)) = map_of (spread (map_set k v m) fs)" by (simp add: spread_def f)
  also have "\<dots> = (map_of m)(k \<mapsto> v) ++ map_of fs" using Cons by simp
  also have "\<dots> = map_of m ++ map_of (f # fs)"
    using k by (auto simp: fun_eq_iff map_add_def f split: option.splits)
  finally show ?case .
qed (simp add: spread_def)

lemma map_of_assign2:
  "distinct (map fst a) \<Longrightarrow> distinct (map fst b) \<Longrightarrow> map_of (assign2 a b) = map_of a ++ map_of b"
  by (simp add: assign2_def map_of_spread)

lemma obj_sub_spread:
  assumes "distinct (map fst fs)" and "map_of fs k = Some (JObj v)"
  shows "obj_sub (spread m fs) k = v"
  using assms by (simp add: obj_sub_def obj_get_def obj_fields_def map_of_spread map_add_def)

text \<open>The keys of every object that a merge looks at are distinct, as those of JavaScript objects are.\<close>

definition distinct_keys :: "js_obj \<Rightarrow> bool" where
  "distinct_keys o1 \<longleftrightarrow> distinct (map fst o1)"

definition merge_sections :: "string list" where
  "merge_sections = [''relayHubConfiguration'', ''penalizerConfiguration'', ''paymasterConfiguration'']"

lemma obj_sub_merge:
  assumes "k \<in> set merge_sections"
  shows "obj_sub (merge_environments e1 e2) k = assign2 (obj_sub e1 k) (obj_sub e2 k)"
  using assms unfolding merge_environments_def Let_def
  by (intro obj_sub_spread) (auto simp: merge_sections_def)

lemma stake_entries_merge:
  "stake_entries (merge_environments e1 e2) = assign2 (stake_entries e1) (stake_entries e2)"
proof -
  have "obj_sub (merge_environments e1 e2) ''deploymentConfiguration'' =
     spread (assign2 (obj_sub e1 ''deploymentConfiguration'') (obj_sub e2 ''deploymentConfiguration''))
       [(''minimumStakePerToken'', JObj (assign2 (stake_entries e1) (stake_entries e2)))]"
    unfolding merge_environments_def Let_def stake_entries_def by (intro obj_sub_spread) simp_all
  then show ?thesis unfolding stake_entries_def [of "merge_environments e1 e2"] by (simp add: obj_sub_spread)
qed

text \<open>
  in a merged environment every section, and the table of minimum stakes inside one, holds the fields of the
  configuration file and, where it has none, those of the known environment.
\<close>

theorem merge_prefers_file:
  assumes "\<forall>k \<in> set merge_sections. distinct_keys (obj_sub e1 k) \<and> distinct_keys (obj_sub e2 k)"
    and "distinct_keys (stake_entries e1)" and "distinct_keys (stake_entries e2)"
  shows "(\<forall>k \<in> set merge_sections. map_of (obj_sub (merge_environments e1 e2) k) = map_of (obj_sub e1 k) ++ map_of (obj_sub e2 k))
     \<and> map_of (stake_entries (merge_environments e1 e2)) = map_of (stake_entries e1) ++ map_of (stake_entries e2)"
  using assms by (auto simp: obj_sub_merge stake_entries_merge map_of_assign2 distinct_keys_def)

definition is_object :: "js_val \<Rightarrow> bool" where
  "is_object v \<longleftrightarrow> (\<exists>fs. v = JObj fs)"

text \<open>
  the four sections of a merged environment are objects, and so is the table of minimum stakes, whatever the file
  has in their place.
\<close>

theorem merged_environment_objects:
  "case getMergedEnvironment configFile chainId of
     Inl _ \<Rightarrow> True
   | Inr env \<Rightarrow> list_all (\<lambda>k. is_object (obj_get env k)) (merge_sections @ [''deploymentConfiguration''])
       \<and> is_object (obj_get (obj_sub env ''deploymentConfiguration'') ''minimumStakePerToken'')"
proof -
  have spread_get: "obj_get (spread m fs) k = JObj v" if "distinct (map fst fs)" and "map_of fs k = Some (JObj v)" for m fs k v
    using that by (simp add: obj_get_def map_of_spread map_add_def)
  have 1: "\<exists>v. obj_get (merge_environments e1 e2) k = JObj v" if "k \<in> set (merge_sections @ [''deploymentConfiguration''])" for e1 e2 k
    using that unfolding merge_environments_def Let_def
    by (auto simp: merge_sections_def spread_get)
  have 2: "\<exists>v. obj_get (obj_sub (merge_environments e1 e2) ''deploymentConfiguration'') ''minimumStakePerToken'' = JObj v" for e1 e2
    unfolding merge_environments_def Let_def by (subst obj_sub_spread) (auto simp: spread_get)
  show ?thesis
    using 1 2 by (auto simp: getMergedEnvironment_def Let_def list_all_iff is_object_def split: option.splits sum.splits)
qed

definition sample_env1 :: js_obj where
  "sample_env1 = environment_object ganacheLocal"

definition sample_env2 :: js_obj where
  "sample_env2 = [(''relayHubConfiguration'', JObj [(''devFee'', JNum 10)]),
     (''deploymentConfiguration'', JObj [(''minimumStakePerToken'', JObj [(''test'', JStr ''0.5'')])])]"

theorem merge_prefers_file_witness:
  "map_of (obj_sub (merge_environments sample_env1 sample_env2) ''relayHubConfiguration'') ''devFee'' = Some (JNum 10)
   \<and> map_of (stake_entries (merge_environments sample_env1 sample_env2)) ''test'' = Some (JStr ''0.5'')"
proof -
  have "(\<forall>k \<in> set merge_sections. map_of (obj_sub (merge_environments sample_env1 sample_env2) k)
        = map_of (obj_sub sample_env1 k) ++ map_of (obj_sub sample_env2 k))
     \<and> map_of (stake_entries (merge_environments sample_env1 sample_env2)) = map_of (stake_entries sample_env1) ++ map_of (stake_entries sample_env2)"
    by (rule merge_prefers_file)
      (simp_all add: merge_sections_def sample_env1_def sample_env2_def environment_object_def hub_configuration_object_def distinct_keys_def
        obj_sub_def obj_get_def obj_fields_def stake_entries_def)
  then show ?thesis
    by (simp add: merge_sections_def sample_env1_def sample_env2_def obj_sub_def obj_get_def obj_fields_def stake_entries_def map_add_def)
qed

section \<open>Comparing configurations\<close>

lemma clean_fields_spec:
  "clean_fields obj ks = Inr r \<Longrightarrow>
   r = rev (map (\<lambda>k. (k, toLowerCase (js_text (obj_get obj k)))) ks) \<and> (\<forall>k \<in> set ks. obj_get obj k \<noteq> JNull)"
proof (induction ks arbitrary: r)
  case (Cons k ks)
  show ?case
  proof (cases "clean_fields obj ks")
    case (Inr q)
    then show ?thesis using Cons by (auto simp: js_toString_def split: if_splits)
  qed (use Cons.prems in \<open>auto simp: js_toString_def split: if_splits\<close>)
qed simp

definition plain_keys :: "js_obj \<Rightarrow> string set" where
  "plain_keys obj = {k \<in> fst ` set obj. \<not> numeric_key k}"

text \<open>
  two objects have the same clean form exactly when they have the same non-numeric keys and, under each, values
  that print the same up to case: whatever the order of the fields and whether a value is a number or a string.
\<close>

theorem clean_decides:
  assumes "distinct_keys a" and "distinct_keys b" and "clean a = Inr x" and "clean b = Inr y"
  shows "x = y \<longleftrightarrow> plain_keys a = plain_keys b
    \<and> (\<forall>k \<in> plain_keys a. toLowerCase (js_text (obj_get a k)) = toLowerCase (js_text (obj_get b k)))"
proof -
  let ?ks = "\<lambda>obj. filter (\<lambda>k. \<not> numeric_key k) (sort (map fst obj))"
  have x: "x = rev (map (\<lambda>k. (k, toLowerCase (js_text (obj_get a k)))) (?ks a))"
    and y: "y = rev (map (\<lambda>k. (k, toLowerCase (js_text (obj_get b k)))) (?ks b))"
    using assms(3,4) clean_fields_spec unfolding clean_def by blast+
  have set: "set (?ks obj) = plain_keys obj" for obj by (auto simp: plain_keys_def)
  have "?ks a = ?ks b" if "plain_keys a = plain_keys b"
  proof (rule sorted_distinct_set_unique)
    show "set (?ks a) = set (?ks b)" using that by (simp only: set)
  qed (use assms(1,2) in \<open>simp_all add: distinct_keys_def sorted_wrt_filter\<close>)
  moreover have "?ks a = ?ks b" if "x = y"
  proof -
    have "map fst (rev x) = ?ks a" and "map fst (rev y) = ?ks b" by (simp_all add: x y comp_def)
    then show ?thesis using that by metis
  qed
  moreover have "x = y \<longleftrightarrow> (\<forall>k \<in> set (?ks a). toLowerCase (js_text (obj_get a k)) = toLowerCase (js_text (obj_get b k)))"
    if "?ks a = ?ks b"
    unfolding x y that [symmetric] by auto
  moreover have "plain_keys a = plain_keys b" if "?ks a = ?ks b" using set [of a] set [of b] that by simp
  ultimately show ?thesis unfolding set by blast
qed

theorem clean_decides_witness:
  "plain_keys [(''a'', JNum 1), (''0'', JNum 2)] = plain_keys [(''a'', JStr ''1'')]"
proof -
  have c: "clean [(''a'', JNum 1), (''0'', JNum 2)] = Inr [(''a'', ''1'')]" "clean [(''a'', JStr ''1'')] = Inr [(''a'', ''1'')]"
    by code_simp+
  have "[(''a'', ''1'')] = [(''a'', ''1'')] \<longleftrightarrow> plain_keys [(''a'', JNum 1), (''0'', JNum 2)] = plain_keys [(''a'', JStr ''1'')]
    \<and> (\<forall>k \<in> plain_keys [(''a'', JNum 1), (''0'', JNum 2)].
         toLowerCase (js_text (obj_get [(''a'', JNum 1), (''0'', JNum 2)] k)) = toLowerCase (js_text (obj_get [(''a'', JStr ''1'')] k)))"
    by (rule clean_decides [OF _ _ c]) (simp_all add: distinct_keys_def)
  then show ?thesis by (simp add: plain_keys_def)
qed

section \<open>The type of a merged hub configuration\<close>

definition hub_fields :: "string list" where
  "hub_fields = [''gasOverhead'', ''postOverhead'', ''gasReserve'', ''maxWorkerCount'', ''minimumUnstakeDelay'', ''devAddress'', ''devFee'',
     ''baseRelayFee'', ''pctRelayFee'']"

definition hub_field_ok :: "string \<Rightarrow> js_val \<Rightarrow> bool" where
  "hub_field_ok k v \<longleftrightarrow> k \<in> set hub_fields \<and> (if k = ''devAddress'' then \<exists>s. v = JStr s else \<exists>n. v = JNum n)"

text \<open>A part of a \<open>RelayHubConfiguration\<close>, and a whole one.\<close>

definition hub_part_typed :: "js_obj \<Rightarrow> bool" where
  "hub_part_typed o1 \<longleftrightarrow> distinct_keys o1 \<and> list_all (\<lambda>(k, v). hub_field_ok k v) o1"

definition hub_typed :: "js_obj \<Rightarrow> bool" where
  "hub_typed o1 \<longleftrightarrow> hub_part_typed o1 \<and> fst ` set o1 = set hub_fields"

lemma hub_configuration_typed: "hub_typed (hub_configuration_object c)"
  by (auto simp: hub_typed_def hub_part_typed_def hub_configuration_object_def distinct_keys_def hub_field_ok_def hub_fields_def)

lemma clean_fields_total:
  "\<forall>k \<in> set ks. obj_get o1 k \<noteq> JNull \<Longrightarrow>
   clean_fields o1 ks = Inr (rev (map (\<lambda>k. (k, toLowerCase (js_text (obj_get o1 k)))) ks))"
  by (induction ks) (simp_all add: js_toString_def)

lemma hub_part_map_set: "hub_part_typed m \<Longrightarrow> hub_field_ok k v \<Longrightarrow> hub_part_typed (map_set k v m)"
proof -
  have "set (map_set k v m) \<subseteq> insert (k, v) (set m)" by (induction k v m rule: map_set.induct) auto
  then show "hub_part_typed m \<Longrightarrow> hub_field_ok k v \<Longrightarrow> hub_part_typed (map_set k v m)"
    by (auto simp: hub_part_typed_def distinct_keys_def distinct_map_set list_all_iff)
qed

lemma hub_part_spread: "hub_part_typed m \<Longrightarrow> list_all (\<lambda>(k, v). hub_field_ok k v) fs \<Longrightarrow> hub_part_typed (spread m fs)"
  by (induction fs arbitrary: m) (auto simp: spread_def hub_part_map_set)

lemma keys_spread: "fst ` set (spread m fs) = fst ` set m \<union> fst ` set fs"
proof (induction fs arbitrary: m)
  case (Cons f fs)
  obtain k v where f: "f = (k, v)" by fastforce
  have "fst ` set (spread m (f # fs)) = fst ` set (spread (map_set k v m) fs)" by (simp add: spread_def f)
  then show ?case by (simp only: Cons.IH set_map_fst_map_set) (simp add: f)
qed (simp add: spread_def)

lemma hub_typed_assign2: "hub_typed a \<Longrightarrow> hub_part_typed b \<Longrightarrow> hub_typed (assign2 a b)"
proof -
  assume a: "hub_typed a" and b: "hub_part_typed b"
  have "fst ` set b \<subseteq> set hub_fields" using b by (auto simp: hub_part_typed_def list_all_iff hub_field_ok_def)
  moreover have "hub_part_typed (assign2 a b)"
    unfolding assign2_def using a b
    by (intro hub_part_spread) (simp_all add: hub_typed_def hub_part_typed_def distinct_keys_def)
  ultimately show ?thesis using a by (auto simp: hub_typed_def assign2_def keys_spread)
qed

text \<open>
  C19: when what the configuration file gives for the hub is part of a hub configuration, the hub configuration of the
  merged environment has all its fields, each of its type, and its clean form exists and names each of them once.
\<close>

theorem merged_environment_typed:
  assumes config: "configFile = Some entries" "map_of entries chainId = Some part"
    and "hub_part_typed (obj_sub part ''relayHubConfiguration'')"
  shows "\<exists>env form. getMergedEnvironment configFile chainId = Inr env \<and> hub_typed (obj_sub env ''relayHubConfiguration'')
    \<and> clean (obj_sub env ''relayHubConfiguration'') = Inr form \<and> distinct (map fst form) \<and> fst ` set form = set hub_fields"
proof -
  define base where "base = environment_object (case getEnvironment chainId of Some (_, e) \<Rightarrow> e | None \<Rightarrow> ganacheLocal)"
  let ?env = "merge_environments base part"
  let ?hub = "obj_sub ?env ''relayHubConfiguration''"
  let ?ks = "filter (\<lambda>k. \<not> numeric_key k) (sort (map fst ?hub))"
  have env: "getMergedEnvironment configFile chainId = Inr ?env" using config by (simp add: getMergedEnvironment_def base_def)
  have "hub_typed (obj_sub base ''relayHubConfiguration'')"
    by (simp add: base_def environment_object_def obj_sub_def obj_get_def obj_fields_def hub_configuration_typed)
  then have typed: "hub_typed ?hub"
    using assms(3) by (simp add: obj_sub_merge merge_sections_def hub_typed_assign2)
  then have hub: "distinct (map fst ?hub)" "fst ` set ?hub = set hub_fields" "\<And>k v. (k, v) \<in> set ?hub \<Longrightarrow> hub_field_ok k v"
    by (auto simp: hub_typed_def hub_part_typed_def distinct_keys_def list_all_iff)
  have "\<not> numeric_key k" if "k \<in> set hub_fields" for k
    using that by (auto simp: hub_fields_def numeric_key_def digit_val_def)
  then have ks: "set ?ks = set hub_fields" using hub(2) by auto
  have "obj_get ?hub k \<noteq> JNull" if "k \<in> set ?ks" for k
  proof -
    have "k \<in> fst ` set ?hub" using that by auto
    then obtain v where v: "(k, v) \<in> set ?hub" by force
    then have "obj_get ?hub k = v" using hub(1) by (simp add: obj_get_def)
    then show ?thesis using hub(3) [OF v] by (auto simp: hub_field_ok_def split: if_splits)
  qed
  then have form: "clean ?hub = Inr (rev (map (\<lambda>k. (k, toLowerCase (js_text (obj_get ?hub k)))) ?ks))"
    unfolding clean_def by (intro clean_fields_total) blast
  have "distinct (map fst (rev (map (\<lambda>k. (k, toLowerCase (js_text (obj_get ?hub k)))) ?ks)))"
    using hub(1) by (simp add: comp_def rev_map [symmetric])
  moreover have "fst ` set (rev (map (\<lambda>k. (k, toLowerCase (js_text (obj_get ?hub k)))) ?ks)) = set hub_fields"
    unfolding ks [symmetric] by (simp add: image_image)
  ultimately show ?thesis using env typed form by blast
qed

theorem merged_environment_typed_witness:
  "\<exists>env form. getMergedEnvironment (Some [(1337, sample_env2)]) 1337 = Inr env \<and> hub_typed (obj_sub env ''relayHubConfiguration'')
    \<and> clean (obj_sub env ''relayHubConfiguration'') = Inr form \<and> distinct (map fst form) \<and> fst ` set form = set hub_fields"
  by (rule merged_environment_typed [where entries = "[(1337, sample_env2)]" and part = sample_env2])
    (simp_all add: sample_env2_def hub_part_typed_def distinct_keys_def obj_sub_def obj_get_def obj_fields_def hub_field_ok_def hub_fields_def)

section \<open>The hub after a configuration was applied\<close>

lemma bnd_lift_Inr [simp]: "bnd (lift_result (Inr a)) f = f a"
  by (simp add: bnd_def fun_eq_iff)

text \<open>
  when applying a hub configuration succeeds, the last thing it did was to read from the hub a configuration that
  is, up to the form of its values, the configured one; the hub was written to only when it had another one before.
\<close>

theorem applyHubConfiguration_converges:
  assumes "applyHubConfiguration hre env hub w = (Inr (), w')"
  shows "\<exists>v c x. hr_getConfiguration hre hub v = (Inr c, w') \<and> clean c = Inr x
    \<and> clean (obj_sub env ''relayHubConfiguration'') = Inr x
    \<and> (v = w \<or> (\<exists>u d y. hr_getConfiguration hre hub w = (Inr d, u) \<and> clean d = Inr y \<and> y \<noteq> x
         \<and> hr_setConfiguration hre hub x u = (Inr (), v)))"
proof -
  obtain d u where d: "hr_getConfiguration hre hub w = (Inr d, u)"
    and 1: "bnd (lift_result (clean d)) (\<lambda>currentConfig.
      bnd (lift_result (clean (obj_sub env ''relayHubConfiguration''))) (\<lambda>newConfig.
      if currentConfig = newConfig then ret ()
      else bnd (hr_setConfiguration hre hub newConfig) (\<lambda>_. bnd (hr_getConfiguration hre hub) (\<lambda>updated.
        bnd (lift_result (clean updated)) (\<lambda>updatedConfig.
        if updatedConfig \<noteq> newConfig then throw ''FATAL: get/set configuration mismatch'' else ret ()))))) u = (Inr (), w')"
    using assms unfolding applyHubConfiguration_def by (rule bnd_InrE)
  obtain y where y: "clean d = Inr y" using 1 by (cases "clean d") (simp_all add: bnd_def)
  obtain x where x: "clean (obj_sub env ''relayHubConfiguration'') = Inr x"
    using 1 y by (cases "clean (obj_sub env ''relayHubConfiguration'')") (simp_all add: bnd_def)
  show ?thesis
  proof (cases "y = x")
    case True
    then show ?thesis using 1 x y d by auto
  next
    case False
    then obtain v where v: "hr_setConfiguration hre hub x u = (Inr (), v)"
      and 2: "bnd (hr_getConfiguration hre hub) (\<lambda>updated. bnd (lift_result (clean updated)) (\<lambda>updatedConfig.
        if updatedConfig \<noteq> x then throw ''FATAL: get/set configuration mismatch'' else ret ())) v = (Inr (), w')"
      using 1 x y by (auto elim!: bnd_InrE [of "hr_setConfiguration hre hub x"])
    obtain c t where c: "hr_getConfiguration hre hub v = (Inr c, t)"
      and 3: "bnd (lift_result (clean c)) (\<lambda>updatedConfig.
        if updatedConfig \<noteq> x then throw ''FATAL: get/set configuration mismatch'' else ret ()) t = (Inr (), w')"
      using 2 by (rule bnd_InrE)
    have "clean c = Inr x \<and> t = w'"
      using 3 by (cases "clean c") (simp_all add: bnd_def throw_def raise_def split: if_splits)
    then show ?thesis using v c d x y False by blast
  qed
qed

corollary applyHubConfiguration_idempotent:
  assumes reads: "\<forall>w. snd (hr_getConfiguration hre hub w) = w"
    and first_run: "applyHubConfiguration hre env hub w = (Inr (), w')"
  shows "applyHubConfiguration hre env hub w' = (Inr (), w')"
proof -
  obtain v c x where c: "hr_getConfiguration hre hub v = (Inr c, w')" and x: "clean c = Inr x"
    "clean (obj_sub env ''relayHubConfiguration'') = Inr x"
    using applyHubConfiguration_converges [OF first_run] by blast
  have "v = w'" using reads c by (metis snd_conv)
  then have "hr_getConfiguration hre hub w' = (Inr c, w')" using c by simp
  then show ?thesis unfolding applyHubConfiguration_def by (simp add: bnd_Inr x)
qed

section \<open>The minimum stakes after a configuration was applied\<close>

text \<open>
  A chain on which the hub keeps a table of minimum stakes, which reading does not change and \<open>setMinimumStakes\<close>
  overwrites entry by entry.
\<close>

definition hub_ledger :: "('w \<Rightarrow> string \<Rightarrow> int) \<Rightarrow> (string \<Rightarrow> int) \<Rightarrow> string \<Rightarrow> 'w hre \<Rightarrow> bool" where
  "hub_ledger stakes dec hub hre \<longleftrightarrow>
     silent stakes (hr_all hre) \<and> (\<forall>a. silent stakes (hr_symbol hre a)) \<and> (\<forall>a. silent stakes (hr_decimals hre a))
     \<and> (\<forall>a. silent stakes (hr_minimumStake hre hub a))
     \<and> (\<forall>a w. case fst (hr_decimals hre a w) of Inr d \<Rightarrow> d = dec a | Inl _ \<Rightarrow> True)
     \<and> (\<forall>a w. case fst (hr_minimumStake hre hub a w) of Inr n \<Rightarrow> n = stakes w a | Inl _ \<Rightarrow> True)
     \<and> (\<forall>ts w. case fst (hr_setMinimumStakes hre hub ts w) of Inl _ \<Rightarrow> True
          | Inr _ \<Rightarrow> stakes (snd (hr_setMinimumStakes hre hub ts w)) = fold (\<lambda>(t, n) f. f(t := n)) ts (stakes w))"

lemma silent_or_null: "silent f m \<Longrightarrow> silent f (or_null m)"
  by (auto simp: silent_def or_null_def try_catch_def bnd_def split: prod.splits sum.splits) (metis snd_conv)+

lemma silentD: "silent f m \<Longrightarrow> m w = (r, w') \<Longrightarrow> f w' = f w"
  by (metis silent_def snd_conv)

lemma or_null_Some: "or_null m w = (Inr (Some a), w') \<Longrightarrow> m w = (Inr a, w')"
  by (auto simp: or_null_def try_catch_def bnd_def split: prod.splits sum.splits)

lemma ledger_silent:
  assumes "hub_ledger stakes dec hub hre"
  shows "silent stakes (hr_all hre)" "silent stakes (hr_symbol hre a)" "silent stakes (hr_decimals hre a)"
    "silent stakes (hr_minimumStake hre hub a)"
  using assms by (simp_all add: hub_ledger_def)

lemma ledger_decimals:
  assumes hub: "hub_ledger stakes dec hub hre" and r: "hr_decimals hre a w = (Inr d, w')"
  shows "d = dec a"
proof -
  have "case fst (hr_decimals hre a w) of Inr d \<Rightarrow> d = dec a | Inl _ \<Rightarrow> True"
    using hub unfolding hub_ledger_def by simp
  then show ?thesis using r by simp
qed

lemma ledger_stake:
  assumes hub: "hub_ledger stakes dec hub hre" and r: "hr_minimumStake hre hub a w = (Inr n, w')"
  shows "n = stakes w a"
proof -
  have "case fst (hr_minimumStake hre hub a w) of Inr n \<Rightarrow> n = stakes w a | Inl _ \<Rightarrow> True"
    using hub unfolding hub_ledger_def by simp
  then show ?thesis using r by simp
qed

lemma ledger_set:
  assumes hub: "hub_ledger stakes dec hub hre" and r: "hr_setMinimumStakes hre hub ts w = (Inr n, w')"
  shows "stakes w' = fold (\<lambda>(t, n) f. f(t := n)) ts (stakes w)"
proof -
  have "case fst (hr_setMinimumStakes hre hub ts w) of Inl _ \<Rightarrow> True
          | Inr _ \<Rightarrow> stakes (snd (hr_setMinimumStakes hre hub ts w)) = fold (\<lambda>(t, n) f. f(t := n)) ts (stakes w)"
    using hub unfolding hub_ledger_def by simp
  then show ?thesis using r by simp
qed

definition stake_change :: "(string \<Rightarrow> int) \<Rightarrow> (js_error + int) \<Rightarrow> string \<Rightarrow> (string \<times> int) option \<Rightarrow> bool" where
  "stake_change st parsed t c \<longleftrightarrow> (\<exists>p. parsed = Inr p \<and> c = (if p \<noteq> st t then Some (t, p) else None))"

lemma token_change:
  assumes hub: "hub_ledger stakes dec hub hre" and "getTokenUpdateStakeOrNull hre hub t v w = (Inr c, w')"
  shows "stakes w' = stakes w \<and> stake_change (stakes w) (hr_parseUnits hre v (dec t)) t c"
proof -
  obtain token u where token: "getToken hre t w = (Inr token, u)" and
    1: "bnd (hr_minimumStake hre hub t) (\<lambda>minStake. bnd (lift_result (hr_parseUnits hre v (ti_decimals token))) (\<lambda>p.
        let modified = p \<noteq> minStake in ret (if modified then Some (t, p) else None))) u = (Inr c, w')"
    using assms(2) unfolding getTokenUpdateStakeOrNull_def by (rule bnd_InrE)
  obtain symbol u1 where s: "or_null (hr_symbol hre t) w = (Inr symbol, u1)" and
    2: "bnd (or_null (hr_decimals hre t)) (\<lambda>decimals. case (symbol, decimals) of
       (Some s, Some d) \<Rightarrow> ret \<lparr>ti_address = t, ti_symbol = s, ti_decimals = d\<rparr>
     | _ \<Rightarrow> throw (''invalid token: '' @ t)) u1 = (Inr token, u)"
    using token unfolding getToken_def by (rule bnd_InrE)
  obtain decimals u2 where d: "or_null (hr_decimals hre t) u1 = (Inr decimals, u2)" and
    3: "(case (symbol, decimals) of
       (Some s, Some d) \<Rightarrow> ret \<lparr>ti_address = t, ti_symbol = s, ti_decimals = d\<rparr>
     | _ \<Rightarrow> throw (''invalid token: '' @ t)) u2 = (Inr token, u)"
    using 2 by (rule bnd_InrE)
  have dec: "decimals = Some (ti_decimals token)" and u2: "u2 = u"
    using 3 by (auto simp: throw_def raise_def split: option.splits)
  have decimals: "ti_decimals token = dec t" by (rule ledger_decimals [OF hub or_null_Some [OF d [unfolded dec]]])
  obtain n u3 where n: "hr_minimumStake hre hub t u = (Inr n, u3)" and
    4: "bnd (lift_result (hr_parseUnits hre v (ti_decimals token))) (\<lambda>p.
        let modified = p \<noteq> n in ret (if modified then Some (t, p) else None)) u3 = (Inr c, w')"
    using 1 by (rule bnd_InrE)
  have same: "stakes u1 = stakes w" "stakes u2 = stakes u1" "stakes u3 = stakes u"
    using silentD [OF silent_or_null [OF ledger_silent(2) [OF hub]] s] silentD [OF silent_or_null [OF ledger_silent(3) [OF hub]] d]
      silentD [OF ledger_silent(4) [OF hub] n] by simp_all
  have "n = stakes u t" by (rule ledger_stake [OF hub n])
  then show ?thesis using 4 same u2 unfolding decimals stake_change_def
    by (cases "hr_parseUnits hre v (dec t)") (auto simp: bnd_def lift_result_def Let_def)
qed

lemma all_token_changes:
  assumes hub: "hub_ledger stakes dec hub hre"
    and "map_eff (\<lambda>(t, v). case staking_token ds t of None \<Rightarrow> throw ''invalid contract address or ENS name'' | Some a \<Rightarrow> getTokenUpdateStakeOrNull hre hub a v) es w = (Inr cs, w')"
    and T: "T = (\<lambda>t. case staking_token ds t of Some a \<Rightarrow> a | None \<Rightarrow> [])"
  shows "stakes w' = stakes w
    \<and> list_all2 (\<lambda>(t, v) c. stake_change (stakes w) (hr_parseUnits hre v (dec (T t))) (T t) c) es cs"
  using assms(2)
proof (induction es arbitrary: w cs)
  case (Cons e es)
  obtain t v where e: "e = (t, v)" by fastforce
  obtain c u where step: "(case staking_token ds t of None \<Rightarrow> throw ''invalid contract address or ENS name'' | Some a \<Rightarrow> getTokenUpdateStakeOrNull hre hub a v) w = (Inr c, u)" and
    1: "bnd (map_eff (\<lambda>(t, v). case staking_token ds t of None \<Rightarrow> throw ''invalid contract address or ENS name'' | Some a \<Rightarrow> getTokenUpdateStakeOrNull hre hub a v) es) (\<lambda>ys. ret (c # ys)) u = (Inr cs, w')"
    using Cons.prems unfolding e map_eff.simps prod.case by (rule bnd_InrE)
  obtain ys u' where ys: "map_eff (\<lambda>(t, v). case staking_token ds t of None \<Rightarrow> throw ''invalid contract address or ENS name'' | Some a \<Rightarrow> getTokenUpdateStakeOrNull hre hub a v) es u = (Inr ys, u')"
    and cs: "cs = c # ys" and u': "u' = w'"
    using 1 by (rule bnd_InrE) simp
  have c: "getTokenUpdateStakeOrNull hre hub (T t) v w = (Inr c, u)" using step by (simp add: T throw_def raise_def split: option.splits)
  show ?case using token_change [OF hub c] Cons.IH [OF ys [unfolded u']] unfolding cs e by simp
qed simp

lemma fold_upd:
  "distinct (map fst ts) \<Longrightarrow> fold (\<lambda>(t, n) f. f(t := n)) ts st a = (case map_of ts a of Some n \<Rightarrow> n | None \<Rightarrow> st a)"
proof (induction ts arbitrary: st)
  case (Cons x ts)
  have "map_of ts (fst x) = None" using Cons.prems by (simp add: map_of_eq_None_iff)
  then show ?case using Cons by (auto simp: case_prod_beta fun_upd_def split: option.splits)
qed simp

lemma changes_listed:
  assumes "list_all2 (\<lambda>e c. stake_change st (P e) (N e) c) es cs" and "distinct (map N es)"
  shows "distinct (map fst (List.map_filter (\<lambda>c. c) cs)) \<and> fst ` set (List.map_filter (\<lambda>c. c) cs) \<subseteq> N ` set es
    \<and> (\<forall>e \<in> set es. P e = Inr (case map_of (List.map_filter (\<lambda>c. c) cs) (N e) of Some n \<Rightarrow> n | None \<Rightarrow> st (N e)))"
  using assms
proof (induction rule: list_all2_induct)
  case (Cons e es c cs)
  then obtain p where p: "P e = Inr p" and c: "c = (if p \<noteq> st (N e) then Some (N e, p) else None)"
    unfolding stake_change_def by blast
  let ?ts = "List.map_filter (\<lambda>c. c) cs"
  have IH: "distinct (map fst ?ts)" "fst ` set ?ts \<subseteq> N ` set es"
    "\<And>d. d \<in> set es \<Longrightarrow> P d = Inr (case map_of ?ts (N d) of Some n \<Rightarrow> n | None \<Rightarrow> st (N d))"
    using Cons.IH Cons.prems by simp_all
  have new: "N e \<notin> N ` set es" using Cons.prems by simp
  then have "N e \<notin> fst ` set ?ts" using IH(2) by blast
  then have "map_of ?ts (N e) = None" by (simp add: map_of_eq_None_iff)
  moreover have "N d \<noteq> N e" if "d \<in> set es" for d using new that by (metis imageI)
  ultimately show ?case using IH p \<open>N e \<notin> fst ` set ?ts\<close> unfolding c by (auto simp: map_filter_simps)
qed (simp add: map_filter_simps)

text \<open>
  C20: when the configured stakes have been applied, the minimum stake of every configured token on the hub is the
  configured amount in the token's own decimals, and that of every other token is what it was.
\<close>

theorem stakes_applied:
  assumes hub: "hub_ledger stakes dec hub hre" and applied: "applyStakingTokenConfiguration hre env hub w = (Inr (), w')"
    and all: "hr_all hre w = (Inr deployments, u)"
    and T: "T = (\<lambda>t. case staking_token deployments t of Some a \<Rightarrow> a | None \<Rightarrow> [])"
    and different: "distinct (map (T \<circ> fst) (stake_entries env))"
  shows "(\<forall>(t, v) \<in> set (stake_entries env). hr_parseUnits hre v (dec (T t)) = Inr (stakes w' (T t)))
    \<and> (\<forall>a. a \<notin> (T \<circ> fst) ` set (stake_entries env) \<longrightarrow> stakes w' a = stakes w a)"
proof -
  let ?step = "\<lambda>(t, v). case staking_token deployments t of None \<Rightarrow> throw ''invalid contract address or ENS name'' | Some a \<Rightarrow> getTokenUpdateStakeOrNull hre hub a v"
  obtain cs v where cs: "map_eff ?step (stake_entries env) u = (Inr cs, v)" and
    1: "when_eff (List.map_filter id cs \<noteq> []) (hr_setMinimumStakes hre hub (List.map_filter id cs)) v = (Inr (), w')"
    using applied unfolding applyStakingTokenConfiguration_def bnd_Inr [where m = "hr_all hre" and s = w, OF all] Let_def by (rule bnd_InrE)
  have same: "stakes u = stakes w" by (rule silentD [OF ledger_silent(1) [OF hub] all])
  let ?ts = "List.map_filter id cs"
  have changes: "stakes v = stakes w"
    and listed: "list_all2 (\<lambda>e c. stake_change (stakes w) (hr_parseUnits hre (snd e) (dec (T (fst e)))) ((T \<circ> fst) e) c)
      (stake_entries env) cs"
    using all_token_changes [OF hub cs T] same by (simp_all add: case_prod_unfold)
  have after: "stakes w' = fold (\<lambda>(t, n) f. f(t := n)) ?ts (stakes w)"
  proof (cases "?ts = []")
    case False
    then have written: "hr_setMinimumStakes hre hub ?ts v = (Inr (), w')" using 1 by (simp add: when_eff_def)
    show ?thesis using ledger_set [OF hub written] unfolding changes .
  qed (use 1 changes in \<open>simp add: when_eff_def\<close>)
  note all_changes = changes_listed [OF listed different]
  have listing: "distinct (map fst ?ts)" "fst ` set ?ts \<subseteq> (T \<circ> fst) ` set (stake_entries env)"
    using all_changes by (simp_all add: id_def)
  have parsed: "hr_parseUnits hre v (dec (T t)) = Inr (case map_of ?ts (T t) of Some n \<Rightarrow> n | None \<Rightarrow> stakes w (T t))"
    if "(t, v) \<in> set (stake_entries env)" for t v
    using bspec [OF all_changes [THEN conjunct2, THEN conjunct2] that] by (simp add: id_def cong: option.case_cong)
  have "stakes w' a = (case map_of ?ts a of Some n \<Rightarrow> n | None \<Rightarrow> stakes w a)" for a
    unfolding after by (rule fold_upd [OF listing(1)])
  moreover have "map_of ?ts a = None" if "a \<notin> (T \<circ> fst) ` set (stake_entries env)" for a
    using that listing(2) by (auto simp: map_of_eq_None_iff)
  ultimately show ?thesis using parsed by auto
qed

section \<open>A sample network\<close>

record toy_net =
  tn_hub :: js_obj
  tn_stakes :: "string \<Rightarrow> int"

definition toy_hre :: "js_obj \<Rightarrow> toy_net hre" where
  "toy_hre config =
     \<lparr>hr_listAccounts = ret [''0xd''], hr_getChainId = ret ''1337'', hr_configFile = Some [(1337, config)],
      hr_all = ret [(''RelayHub'', ''0x1''), (''TestWrappedNativeToken'', ''0x2'')],
      hr_read = \<lambda>c m a. ret JNull, hr_execute = \<lambda>c m a d v. ret (), hr_deploy = \<lambda>c a. ret (c, True),
      hr_getConfiguration = \<lambda>hub. gets tn_hub,
      hr_setConfiguration = \<lambda>hub c. modify (\<lambda>s. s\<lparr>tn_hub := map (\<lambda>(k, v). (k, JStr v)) c\<rparr>),
      hr_minimumStake = \<lambda>hub t. gets (\<lambda>s. tn_stakes s t),
      hr_setMinimumStakes = \<lambda>hub ts. modify (\<lambda>s. s\<lparr>tn_stakes := fold (\<lambda>(t, n) f. f(t := n)) ts (tn_stakes s)\<rparr>),
      hr_symbol = \<lambda>t. ret ''TOK'', hr_decimals = \<lambda>t. ret 2,
      hr_parseUnits = \<lambda>v d. case v of JStr t \<Rightarrow> (case parseInt t of Some n \<Rightarrow> Inr (n * 10 ^ nat d) | None \<Rightarrow> Inl (Error ''parse''))
         | _ \<Rightarrow> Inl (Error ''value must be a string''), hr_getBalance = \<lambda>a. ret 0,
      hr_arbOSVersion = ret ()\<rparr>"

definition toy_config :: js_obj where
  "toy_config = [(''relayHubConfiguration'', JObj [(''devFee'', JNum 10)]),
     (''deploymentConfiguration'', JObj [(''minimumStakePerToken'', JObj [(''test'', JStr ''5''), (''0x3'', JStr ''7'')])])]"

definition toy_start :: toy_net where
  "toy_start = \<lparr>tn_hub = [(''devFee'', JStr ''0'')], tn_stakes = (\<lambda>_. 1)\<rparr>"

theorem applyHubConfiguration_converges_witness:
  "clean (tn_hub (snd (applyHubConfiguration (toy_hre toy_config) toy_config ''0x1'' toy_start)))
     = clean (obj_sub toy_config ''relayHubConfiguration'')"
proof -
  let ?run = "applyHubConfiguration (toy_hre toy_config) toy_config ''0x1'' toy_start"
  have "fst ?run = Inr ()" by code_simp
  then have r: "?run = (Inr (), snd ?run)" by (metis prod.collapse)
  show ?thesis
    using applyHubConfiguration_converges [OF r] by (auto simp: toy_hre_def gets_def)
qed

theorem stakes_applied_witness:
  "tn_stakes (snd (applyStakingTokenConfiguration (toy_hre toy_config) toy_config ''0x1'' toy_start)) ''0x2'' = 500
   \<and> tn_stakes (snd (applyStakingTokenConfiguration (toy_hre toy_config) toy_config ''0x1'' toy_start)) ''0x4'' = 1"
proof -
  let ?T = "\<lambda>t. case staking_token [(''RelayHub'', ''0x1''), (''TestWrappedNativeToken'', ''0x2'')] t of Some a \<Rightarrow> a | None \<Rightarrow> []"
  let ?run = "applyStakingTokenConfiguration (toy_hre toy_config) toy_config ''0x1'' toy_start"
  have entries: "stake_entries toy_config = [(''test'', JStr ''5''), (''0x3'', JStr ''7'')]" by code_simp
  have ok: "fst ?run = Inr ()" by code_simp
  have p: "hr_parseUnits (toy_hre toy_config) (JStr ''5'') 2 = Inr 500" by code_simp
  have "hub_ledger tn_stakes (\<lambda>_. 2) ''0x1'' (toy_hre toy_config)"
    by (simp add: hub_ledger_def silent_def toy_hre_def gets_def modify_def)
  then have "(\<forall>(t, v) \<in> set (stake_entries toy_config). hr_parseUnits (toy_hre toy_config) v 2 = Inr (tn_stakes (snd ?run) (?T t)))
    \<and> (\<forall>a. a \<notin> (?T \<circ> fst) ` set (stake_entries toy_config) \<longrightarrow> tn_stakes (snd ?run) a = tn_stakes toy_start a)"
    by (rule stakes_applied [where deployments = "[(''RelayHub'', ''0x1''), (''TestWrappedNativeToken'', ''0x2'')]" and u = toy_start])
      (use ok in \<open>simp_all add: entries toy_hre_def prod_eq_iff staking_token_def\<close>)
  then show ?thesis unfolding entries using p by (simp add: toy_start_def staking_token_def)
qed

section \<open>Networks whose hub has another name\<close>

text \<open>Where the hub is deployed as \<open>ArbRelayHub\<close> no deployment is listed as \<open>RelayHub\<close>, and deploying never succeeds.\<close>

theorem arbitrum_deployment_fails:
  assumes "\<forall>w. case hr_all hre w of (Inr ds, _) \<Rightarrow> map_of ds ''RelayHub'' = None | _ \<Rightarrow> True"
  shows "\<exists>e w'. deploymentFunc hre w = (Inl e, w')"
proof -
  have config: "fst (applyDeploymentConfig hre v) \<noteq> Inr ()" for v
  proof
    assume "fst (applyDeploymentConfig hre v) = Inr ()"
    then obtain v' where "applyDeploymentConfig hre v = (Inr (), v')" by (metis prod.collapse)
    then show False using assms unfolding applyDeploymentConfig_def
      by (auto elim!: bnd_InrE split: prod.splits option.splits simp: throw_def raise_def) (force dest!: spec)+
  qed
  show ?thesis
  proof (cases "deploymentFunc hre w")
    case (Pair r w')
    show ?thesis
    proof (cases r)
      case (Inr x)
      then have "deploymentFunc hre w = (Inr (), w')" using Pair by simp
      then show ?thesis using config unfolding deploymentFunc_def
        by (auto elim!: bnd_InrE split: prod.splits list.splits simp: throw_def raise_def) (metis fst_conv)+
    qed (use Pair in simp)
  qed
qed

end
