(* ===== verification/Files.thy ===== *)
theory Files imports JsLib begin

text \<open>
  What the command line tools and the server use of the file system and of JSON: synchronous calls of \<open>fs\<close> on a tree of
  folders and files, \<open>path.join\<close>, \<open>JSON.parse\<close>, and the quoting of strings by \<open>JSON.stringify\<close>. There are no links and no
  access rights; the clock of a file is left out.
\<close>

section \<open>Paths\<close>

fun split_on :: "char \<Rightarrow> string \<Rightarrow> string list" where
  "split_on d [] = [[]]"
| "split_on d (c # cs) =
     (if c = d then [] # split_on d cs
      else (case split_on d cs of p # ps \<Rightarrow> (c # p) # ps | [] \<Rightarrow> [[c]]))"

definition path_step :: "string list \<Rightarrow> string \<Rightarrow> string list" where
  "path_step acc c = (if c = [] \<or> c = ''.'' then acc else if c = ''..'' then butlast acc else acc @ [c])"

text \<open>The place a path names, as the names from the root.\<close>

definition resolve_path :: "string list \<Rightarrow> string \<Rightarrow> string list" where
  "resolve_path cwd p = foldl path_step (if starts_with ''/'' p then [] else cwd) (split_on CHR ''/'' p)"

text \<open>\<open>path.join(a, b)\<close> up to the normalisation, which does not change the place.\<close>

definition path_join :: "string \<Rightarrow> string \<Rightarrow> string" where
  "path_join a b = (if a = [] then b else a @ ''/'' @ b)"

definition path_basename :: "string \<Rightarrow> string" where
  "path_basename p = (case filter (\<lambda>c. c \<noteq> []) (split_on CHR ''/'' p) of [] \<Rightarrow> [] | cs \<Rightarrow> last cs)"

lemma split_on_not_empty [simp]: "split_on d s \<noteq> []"
  by (induction s) (auto split: list.splits)

lemma split_on_append: "split_on d (a @ d # b) = split_on d a @ split_on d b"
  by (induction a) (auto split: list.splits)

lemma split_on_none: "d \<notin> set s \<Longrightarrow> split_on d s = [s]"
  by (induction s) auto

lemma split_on_no_sep: "p \<in> set (split_on d s) \<Longrightarrow> d \<notin> set p"
  by (induction s arbitrary: p) (auto split: list.splits if_splits)

text \<open>The place of a file inside a folder.\<close>

lemma resolve_join:
  assumes "CHR ''/'' \<notin> set name" and "name \<notin> {[], ''.'', ''..''}" and "dir \<noteq> []"
  shows "resolve_path cwd (path_join dir name) = resolve_path cwd dir @ [name]"
proof -
  have "starts_with ''/'' (path_join dir name) = starts_with ''/'' dir"
    using assms(3) by (cases dir) (simp_all add: path_join_def starts_with_def)
  moreover have "split_on CHR ''/'' (path_join dir name) = split_on CHR ''/'' dir @ [name]"
    using split_on_append [of "CHR ''/''" dir name] split_on_none [OF assms(1)] assms(3) by (simp add: path_join_def)
  ultimately show ?thesis using assms(2) by (simp add: resolve_path_def path_step_def)
qed

section \<open>The disk\<close>

datatype fs_node = Folder | FileOf string

type_synonym disk = "string list \<Rightarrow> fs_node option"

record 'w host =
  hw :: 'w
  cwd :: "string list"
  files :: disk

definition node_at :: "disk \<Rightarrow> string list \<Rightarrow> fs_node option" where
  "node_at d p = (if p = [] then Some Folder else d p)"

definition on_hw :: "('w, 'a) eff \<Rightarrow> ('w host, 'a) eff" where
  "on_hw m = zoom hw (\<lambda>w s. s\<lparr>hw := w\<rparr>) m"

definition place :: "'w host \<Rightarrow> string \<Rightarrow> string list" where
  "place s p = resolve_path (cwd s) p"

text \<open>The empty path names nothing.\<close>

definition lookup_path :: "'w host \<Rightarrow> string \<Rightarrow> fs_node option" where
  "lookup_path s p = (if p = [] then None else node_at (files s) (place s p))"

definition existsSync :: "string \<Rightarrow> ('w host, bool) eff" where
  "existsSync p = gets (\<lambda>s. lookup_path s p \<noteq> None)"

definition isDirectory :: "string \<Rightarrow> ('w host, bool) eff" where
  "isDirectory p = bnd (gets (\<lambda>s. lookup_path s p)) (\<lambda>n.
     case n of None \<Rightarrow> throw (''ENOENT: no such file or directory, lstat '' @ p) | Some k \<Rightarrow> ret (k = Folder))"

definition isFile :: "string \<Rightarrow> ('w host, bool) eff" where
  "isFile p = bnd (isDirectory p) (\<lambda>b. ret (\<not> b))"

definition readFileSync :: "string \<Rightarrow> ('w host, string) eff" where
  "readFileSync p = bnd (gets (\<lambda>s. lookup_path s p)) (\<lambda>n.
     case n of None \<Rightarrow> throw (''ENOENT: no such file or directory, open '' @ p)
     | Some Folder \<Rightarrow> throw ''EISDIR: illegal operation on a directory, read'' | Some (FileOf c) \<Rightarrow> ret c)"

definition writeFileSync :: "string \<Rightarrow> string \<Rightarrow> ('w host, unit) eff" where
  "writeFileSync p c = bnd (gets (\<lambda>s. (place s p, files s))) (\<lambda>(q, d).
     if p = [] \<or> node_at d (butlast q) \<noteq> Some Folder then throw (''ENOENT: no such file or directory, open '' @ p)
     else if node_at d q = Some Folder then throw (''EISDIR: illegal operation on a directory, open '' @ p)
     else modify (\<lambda>s. s\<lparr>files := d(q \<mapsto> FileOf c)\<rparr>))"

definition unlinkSync :: "string \<Rightarrow> ('w host, unit) eff" where
  "unlinkSync p = bnd (gets (\<lambda>s. (lookup_path s p, place s p))) (\<lambda>(n, q).
     case n of None \<Rightarrow> throw (''ENOENT: no such file or directory, unlink '' @ p)
     | Some Folder \<Rightarrow> throw (''EPERM: operation not permitted, unlink '' @ p)
     | Some (FileOf c) \<Rightarrow> modify (\<lambda>s. s\<lparr>files := (files s)(q := None)\<rparr>))"

text \<open>\<open>mkdirSync(p, {recursive: true})\<close> makes every missing folder on the way.\<close>

definition parents :: "string list \<Rightarrow> string list list" where
  "parents q = map (\<lambda>n. take n q) [1 ..< Suc (length q)]"

definition mkdirSync :: "string \<Rightarrow> ('w host, unit) eff" where
  "mkdirSync p = bnd (gets (\<lambda>s. (place s p, files s))) (\<lambda>(q, d).
     if p = [] then throw ''ENOENT: no such file or directory, mkdir''
     else if list_ex (\<lambda>r. case d r of Some (FileOf _) \<Rightarrow> True | _ \<Rightarrow> False) (parents q) then throw (''EEXIST: file already exists, mkdir '' @ p)
     else modify (\<lambda>s. s\<lparr>files := fold (\<lambda>r d. d(r \<mapsto> Folder)) (parents q) d\<rparr>))"

text \<open>What is on the disk is in a folder.\<close>

definition well_placed :: "disk \<Rightarrow> bool" where
  "well_placed d \<longleftrightarrow> (\<forall>p. p \<noteq> [] \<longrightarrow> d p \<noteq> None \<longrightarrow> node_at d (butlast p) = Some Folder)"

definition tidy :: "'w host \<Rightarrow> bool" where
  "tidy s \<longleftrightarrow> well_placed (files s)"

lemma set_parents: "set (parents q) = {r. r \<noteq> [] \<and> (\<exists>t. q = r @ t)}"
proof (intro set_eqI iffI)
  fix r assume "r \<in> set (parents q)"
  then obtain n where "1 \<le> n" "n \<le> length q" "r = take n q" by (auto simp: parents_def)
  moreover have "q = take n q @ drop n q" by simp
  ultimately show "r \<in> {r. r \<noteq> [] \<and> (\<exists>t. q = r @ t)}" by (auto simp del: append_take_drop_id)
next
  fix r assume "r \<in> {r. r \<noteq> [] \<and> (\<exists>t. q = r @ t)}"
  then obtain t where r: "r \<noteq> []" "q = r @ t" by blast
  then have "r = take (length r) q" "1 \<le> length r" "length r \<le> length q" by (auto simp: Suc_leI)
  have "(\<lambda>n. take n q) (length r) \<in> (\<lambda>n. take n q) ` set [1 ..< Suc (length q)]"
    using \<open>1 \<le> length r\<close> \<open>length r \<le> length q\<close> by (intro imageI) (simp only: set_upt atLeastLessThan_iff less_Suc_eq_le)
  then show "r \<in> set (parents q)" using r by (simp add: parents_def del: upt_Suc)
qed

lemma fold_folders: "fold (\<lambda>r d. d(r \<mapsto> Folder)) rs d p = (if p \<in> set rs then Some Folder else d p)"
  by (induction rs arbitrary: d) auto

lemma tidy_gets [intro]: "keeps tidy (gets f)"
  by (simp add: keeps_def gets_def)

lemma tidy_isDirectory [intro]: "keeps tidy (isDirectory p)"
  unfolding isDirectory_def by (intro keeps_intros)

lemma tidy_readFileSync [intro]: "keeps tidy (readFileSync p)"
  unfolding readFileSync_def by (intro keeps_intros) (auto split: option.splits fs_node.splits intro!: keeps_intros)

lemma tidy_writeFileSync [intro]: "keeps tidy (writeFileSync p c)"
proof (rule keepsI)
  fix s :: "'w host" assume "tidy s"
  then show "wp (writeFileSync p c) (\<lambda>_. tidy) (\<lambda>_. tidy) s"
    by (auto simp: writeFileSync_def wp_simps tidy_def well_placed_def node_at_def)
qed

lemma tidy_mkdirSync [intro]: "keeps tidy (mkdirSync p)"
proof (rule keepsI)
  fix s :: "'w host" assume t: "tidy s"
  define q where "q = place s p"
  have "well_placed (fold (\<lambda>r d. d(r \<mapsto> Folder)) (parents q) (files s))"
    unfolding well_placed_def
  proof (intro allI impI)
    fix r assume r: "r \<noteq> []" and e: "fold (\<lambda>r d. d(r \<mapsto> Folder)) (parents q) (files s) r \<noteq> None"
    show "node_at (fold (\<lambda>r d. d(r \<mapsto> Folder)) (parents q) (files s)) (butlast r) = Some Folder"
    proof (cases "r \<in> set (parents q)")
      case True
      then obtain u where u: "q = r @ u" unfolding set_parents by blast
      then have "q = butlast r @ (last r # u)" using r by simp
      then have "butlast r = [] \<or> butlast r \<in> set (parents q)" unfolding set_parents by blast
      then show ?thesis by (auto simp: node_at_def fold_folders)
    next
      case False
      then have "files s r \<noteq> None" using e by (simp add: fold_folders)
      then show ?thesis using t r by (auto simp: tidy_def well_placed_def node_at_def fold_folders)
    qed
  qed
  then show "wp (mkdirSync p) (\<lambda>_. tidy) (\<lambda>_. tidy) s"
    using t by (simp add: mkdirSync_def wp_simps q_def tidy_def)
qed

section \<open>What the calls do\<close>

text \<open>A call that reads: the host stays as it is.\<close>

definition looks :: "('w host, 'a) eff \<Rightarrow> bool" where
  "looks m \<longleftrightarrow> (\<forall>s. snd (m s) = s)"

lemma looks_calls: "looks (existsSync p)" "looks (isDirectory p)" "looks (isFile p)" "looks (readFileSync p)"
  by (auto simp: looks_def existsSync_def isDirectory_def isFile_def readFileSync_def gets_def bnd_def throw_def raise_def
      split: option.splits fs_node.splits)

lemma exists_run: "existsSync p s = (Inr (lookup_path s p \<noteq> None), s)"
  by (simp add: existsSync_def gets_def)

lemma read_run: "lookup_path s p = Some (FileOf c) \<Longrightarrow> readFileSync p s = (Inr c, s)"
  by (simp add: readFileSync_def gets_def bnd_def)

text \<open>Files survive a call: \<open>s'\<close> has every file of \<open>s\<close> but possibly another content at \<open>q\<close>.\<close>

definition files_kept :: "string list set \<Rightarrow> 'w host \<Rightarrow> 'w host \<Rightarrow> bool" where
  "files_kept qs s s' \<longleftrightarrow> cwd s' = cwd s \<and> (\<forall>p c. p \<notin> qs \<longrightarrow> files s p = Some (FileOf c) \<longrightarrow> files s' p = Some (FileOf c))"

lemma files_kept_refl [intro, simp]: "files_kept qs s s"
  by (simp add: files_kept_def)

lemma files_kept_trans: "files_kept qs s t \<Longrightarrow> files_kept rs t u \<Longrightarrow> files_kept (qs \<union> rs) s u"
  by (auto simp: files_kept_def)

lemma write_run:
  assumes "writeFileSync p c s = (r, s')"
  shows "files_kept {place s p} s s'" and "r = Inr () \<Longrightarrow> lookup_path s' p = Some (FileOf c) \<and> hw s' = hw s"
proof -
  have "place s p \<noteq> []" if "node_at (files s) (place s p) \<noteq> Some Folder" using that by (auto simp: node_at_def)
  then show "files_kept {place s p} s s'" and "r = Inr () \<Longrightarrow> lookup_path s' p = Some (FileOf c) \<and> hw s' = hw s"
    using assms
    by (auto simp: writeFileSync_def gets_def bnd_def throw_def raise_def modify_def files_kept_def lookup_path_def place_def node_at_def
        split: if_splits)
qed

lemma mkdir_run:
  assumes "mkdirSync p s = (r, s')"
  shows "files_kept {} s s'" and "hw s' = hw s" and "r = Inr () \<Longrightarrow> lookup_path s' p = Some Folder"
proof -
  have kept: "files_kept {} s s'" "hw s' = hw s" "cwd s' = cwd s"
    using assms
    by (auto simp: mkdirSync_def gets_def bnd_def throw_def raise_def modify_def files_kept_def fold_folders list_ex_iff split: if_splits)
      (drule (1) bspec, simp)
  then show "files_kept {} s s'" and "hw s' = hw s" by simp_all
  assume r: "r = Inr ()"
  have "place s p = [] \<or> place s p \<in> set (parents (place s p))" unfolding set_parents by simp
  then show "lookup_path s' p = Some Folder"
    using assms r kept(3)
    by (auto simp: mkdirSync_def gets_def bnd_def throw_def raise_def modify_def lookup_path_def place_def node_at_def fold_folders
        split: if_splits)
qed

lemma place_kept: "files_kept qs s s' \<Longrightarrow> place s' p = place s p"
  by (simp add: files_kept_def place_def)

lemma lookup_kept:
  "files_kept qs s s' \<Longrightarrow> lookup_path s p = Some (FileOf c) \<Longrightarrow> place s p \<notin> qs \<Longrightarrow> lookup_path s' p = Some (FileOf c)"
  by (auto simp: files_kept_def lookup_path_def place_def node_at_def split: if_splits)

definition file_name :: "string \<Rightarrow> bool" where
  "file_name f \<longleftrightarrow> CHR ''/'' \<notin> set f \<and> f \<notin> {[], ''.'', ''..''}"

lemma place_in: "file_name f \<Longrightarrow> wd \<noteq> [] \<Longrightarrow> place s (path_join wd f) = place s wd @ [f]"
  unfolding place_def file_name_def by (rule resolve_join) simp_all

section \<open>JSON\<close>

datatype json = Jnull | Jbool bool | Jnumber rat | Jstring string | Jarray "json list" | Jobject "(string \<times> json) list"

definition quote_char :: char where
  "quote_char = CHR 0x22"

definition skip_ws :: "string \<Rightarrow> string" where
  "skip_ws s = dropWhile (\<lambda>c. c \<in> {CHR '' '', CHR 0x0A, CHR 0x0D, CHR 0x09}) s"

definition unescape :: "char \<Rightarrow> char option" where
  "unescape e = map_of [(CHR 0x22, CHR 0x22), (CHR 0x5C, CHR 0x5C), (CHR ''/'', CHR ''/''), (CHR ''b'', CHR 0x08), (CHR ''f'', CHR 0x0C),
     (CHR ''n'', CHR 0x0A), (CHR ''r'', CHR 0x0D), (CHR ''t'', CHR 0x09)] e"

text \<open>The rest of a string literal after its opening quote. Escapes beyond the characters of the model keep their low byte.\<close>

fun jstr :: "string \<Rightarrow> (string \<times> string) option" where
  "jstr [] = None"
| "jstr (c # cs) =
     (if c = quote_char then Some ([], cs)
      else if (of_char c :: nat) < 32 then None
      else if c \<noteq> CHR 0x5C then map_option (\<lambda>(t, r). (c # t, r)) (jstr cs)
      else (case cs of
          [] \<Rightarrow> None
        | e # es \<Rightarrow>
            (if e = CHR ''u'' then
               (case es of
                  h1 # h2 # h3 # h4 # rest \<Rightarrow>
                    (if list_all (\<lambda>h. digit_val h < 16) [h1, h2, h3, h4]
                     then map_option (\<lambda>(t, r). (char_of (digits_val 16 [h1, h2, h3, h4]) # t, r)) (jstr rest) else None)
                | _ \<Rightarrow> None)
             else (case unescape e of None \<Rightarrow> None | Some x \<Rightarrow> map_option (\<lambda>(t, r). (x # t, r)) (jstr es)))))"

definition digits_of :: "string \<Rightarrow> string" where
  "digits_of s = takeWhile (\<lambda>c. digit_val c < 10) s"

text \<open>Integer part, fraction and exponent of a number.\<close>

definition jfraction :: "string \<Rightarrow> (rat \<times> string) option" where
  "jfraction s =
     (if starts_with ''.'' s then
        (let ds = digits_of (tl s) in if ds = [] then None
         else Some (of_nat (digits_val 10 ds) / 10 ^ length ds, drop (length ds) (tl s)))
      else Some (0, s))"

definition jexponent :: "string \<Rightarrow> (int \<times> string) option" where
  "jexponent s =
     (case s of
        c # t \<Rightarrow> if c \<in> {CHR ''e'', CHR ''E''} then
            (let neg = (starts_with ''-'' t); u = (if neg \<or> starts_with ''+'' t then tl t else t); ds = digits_of u
             in if ds = [] then None else Some ((if neg then -1 else 1) * int (digits_val 10 ds), drop (length ds) u))
          else Some (0, s)
      | [] \<Rightarrow> Some (0, s))"

definition jnumber :: "string \<Rightarrow> (rat \<times> string) option" where
  "jnumber s =
     (let neg = starts_with ''-'' s; t = (if neg then tl s else s); ds = digits_of t
      in if ds = [] \<or> (1 < length ds \<and> hd ds = CHR ''0'') then None
         else (case jfraction (drop (length ds) t) of None \<Rightarrow> None
           | Some (f, u) \<Rightarrow> (case jexponent u of None \<Rightarrow> None
             | Some (x, r) \<Rightarrow>
                 let m = (of_nat (digits_val 10 ds) + f) * (if 0 \<le> x then 10 ^ nat x else 1 / 10 ^ nat (- x))
                 in Some (if neg then - m else m, r))))"

text \<open>The text after the next character, if it is this one.\<close>

definition eat :: "char \<Rightarrow> string \<Rightarrow> string option" where
  "eat c s = (case skip_ws s of [] \<Rightarrow> None | d # r \<Rightarrow> if d = c then Some r else None)"

text \<open>
  Values, with fuel: every level and every further element takes one, and consumes a character of the text, so one more
  than its length is enough.
\<close>

fun jval :: "nat \<Rightarrow> string \<Rightarrow> (json \<times> string) option"
  and jelems :: "nat \<Rightarrow> string \<Rightarrow> (json list \<times> string) option"
  and jmembers :: "nat \<Rightarrow> (string \<times> json) list \<Rightarrow> string \<Rightarrow> ((string \<times> json) list \<times> string) option" where
  "jval 0 s = None"
| "jval (Suc n) s =
     (case skip_ws s of
        [] \<Rightarrow> None
      | c # cs \<Rightarrow>
          if c = quote_char then map_option (\<lambda>(t, r). (Jstring t, r)) (jstr cs)
          else if c = CHR ''{'' then
            (case eat CHR ''}'' cs of Some r \<Rightarrow> Some (Jobject [], r)
             | None \<Rightarrow> map_option (\<lambda>(fs, r). (Jobject fs, r)) (jmembers n [] cs))
          else if c = CHR ''['' then
            (case eat CHR '']'' cs of Some r \<Rightarrow> Some (Jarray [], r)
             | None \<Rightarrow> map_option (\<lambda>(vs, r). (Jarray vs, r)) (jelems n cs))
          else if starts_with ''true'' (c # cs) then Some (Jbool True, drop 3 cs)
          else if starts_with ''false'' (c # cs) then Some (Jbool False, drop 4 cs)
          else if starts_with ''null'' (c # cs) then Some (Jnull, drop 3 cs)
          else map_option (\<lambda>(m, r). (Jnumber m, r)) (jnumber (c # cs)))"
| "jelems 0 s = None"
| "jelems (Suc n) s =
     (case jval n s of None \<Rightarrow> None
      | Some (v, r) \<Rightarrow>
          (case eat CHR '']'' r of Some t \<Rightarrow> Some ([v], t)
           | None \<Rightarrow> (case eat CHR '','' r of Some t \<Rightarrow> map_option (\<lambda>(vs, u). (v # vs, u)) (jelems n t) | None \<Rightarrow> None)))"
| "jmembers 0 fs s = None"
| "jmembers (Suc n) fs s =
     (case eat quote_char s of None \<Rightarrow> None
      | Some qs \<Rightarrow>
          (case jstr qs of None \<Rightarrow> None
           | Some (k, r) \<Rightarrow>
               (case eat CHR '':'' r of None \<Rightarrow> None
                | Some t \<Rightarrow>
                    (case jval n t of None \<Rightarrow> None
                     | Some (v, u) \<Rightarrow>
                         (case eat CHR ''}'' u of Some w \<Rightarrow> Some (map_set k v fs, w)
                          | None \<Rightarrow> (case eat CHR '','' u of Some w \<Rightarrow> jmembers n (map_set k v fs) w | None \<Rightarrow> None))))))"

definition json_parse :: "string \<Rightarrow> js_error + json" where
  "json_parse s =
     (case jval (Suc (length s)) s of
        Some (v, r) \<Rightarrow> if skip_ws r = [] then Inr v else Inl (Error ''SyntaxError: Unexpected token'')
      | None \<Rightarrow> Inl (Error ''SyntaxError: Unexpected token''))"

text \<open>\<open>JSON.parse(s).k\<close>; a missing field is \<open>undefined\<close>.\<close>

definition json_field :: "json \<Rightarrow> string \<Rightarrow> js_error + json option" where
  "json_field v k =
     (case v of Jnull \<Rightarrow> Inl (Error ''Cannot read properties of null'') | Jobject fs \<Rightarrow> Inr (map_of fs k) | _ \<Rightarrow> Inr None)"

definition escape_char :: "char \<Rightarrow> string" where
  "escape_char c =
     (let n = (of_char c :: nat) in
      if c = CHR 0x22 \<or> c = CHR 0x5C then [CHR 0x5C, c]
      else if c = CHR 0x08 then [CHR 0x5C, CHR ''b''] else if c = CHR 0x0C then [CHR 0x5C, CHR ''f'']
      else if c = CHR 0x0A then [CHR 0x5C, CHR ''n''] else if c = CHR 0x0D then [CHR 0x5C, CHR ''r'']
      else if c = CHR 0x09 then [CHR 0x5C, CHR ''t'']
      else if n < 32 then [CHR 0x5C, CHR ''u'', CHR ''0'', CHR ''0'', digit_char (n div 16), digit_char (n mod 16)] else [c])"

definition json_quote :: "string \<Rightarrow> string" where
  "json_quote s = [quote_char] @ concat (map escape_char s) @ [quote_char]"

section \<open>Quoted strings\<close>

lemma jstr_escape: "jstr (escape_char c @ r) = map_option (\<lambda>(t, u). (c # t, u)) (jstr r)"
proof -
  consider "c \<in> {CHR 0x22, CHR 0x5C, CHR 0x08, CHR 0x0C, CHR 0x0A, CHR 0x0D, CHR 0x09}"
    | "c \<notin> {CHR 0x22, CHR 0x5C, CHR 0x08, CHR 0x0C, CHR 0x0A, CHR 0x0D, CHR 0x09}" "(of_char c :: nat) < 32"
    | "c \<notin> {CHR 0x22, CHR 0x5C, CHR 0x08, CHR 0x0C, CHR 0x0A, CHR 0x0D, CHR 0x09}" "\<not> (of_char c :: nat) < 32"
    by blast
  then show ?thesis
  proof cases
    case 1
    then show ?thesis by (auto simp: escape_char_def quote_char_def unescape_def Let_def)
  next
    case 2
    let ?n = "of_char c :: nat"
    have d: "digit_val (digit_char (?n div 16)) = ?n div 16" "digit_val (digit_char (?n mod 16)) = ?n mod 16"
      using 2(2) by (simp_all add: digit_val_digit_char)
    then have h: "list_all (\<lambda>h. digit_val h < 16) [CHR ''0'', CHR ''0'', digit_char (?n div 16), digit_char (?n mod 16)]"
      "digits_val 16 [CHR ''0'', CHR ''0'', digit_char (?n div 16), digit_char (?n mod 16)] = ?n"
      using 2(2) by (simp_all add: digits_val_def digit_val_def [of "CHR ''0''"])
    have "escape_char c = [CHR 0x5C, CHR ''u'', CHR ''0'', CHR ''0'', digit_char (?n div 16), digit_char (?n mod 16)]"
      using 2 by (simp add: escape_char_def Let_def)
    then show ?thesis using h by (simp add: quote_char_def)
  next
    case 3
    then show ?thesis by (simp add: escape_char_def quote_char_def Let_def)
  qed
qed

lemma jstr_quoted: "jstr (concat (map escape_char s) @ quote_char # r) = Some (s, r)"
  by (induction s) (simp_all add: jstr_escape)

text \<open>A string without quotes, backslashes and control characters stands for itself.\<close>

definition plain_text :: "string \<Rightarrow> bool" where
  "plain_text s \<longleftrightarrow> list_all (\<lambda>c. c \<noteq> CHR 0x22 \<and> c \<noteq> CHR 0x5C \<and> \<not> (of_char c :: nat) < 32) s"

lemma jstr_plain: "plain_text s \<Longrightarrow> jstr (s @ quote_char # r) = Some (s, r)"
  by (induction s) (simp_all add: plain_text_def quote_char_def)

end
