(* ===== verification/KeyManager.thy ===== *)
theory KeyManager imports Files TransactionManager begin

text \<open>
  \<open>packages/relay/src/KeyManager.ts\<close>: the keys of a server, derived from a seed that is kept in a file of the work
  directory, and signing with them. The derivation and the random seed are parameters.
\<close>

section \<open>The keys\<close>

definition KEYSTORE_FILENAME :: string where
  "KEYSTORE_FILENAME = ''keystore''"

text \<open>
  \<open>kg_generate\<close> makes the bytes of a new private key; \<open>kg_fromMasterSeed\<close> accepts or refuses a seed and
  \<open>kg_derive\<close> gives address and private key of a child.
\<close>

record 'w key_env =
  kg_generate :: "('w, string) eff"
  kg_fromMasterSeed :: "json option \<Rightarrow> js_error + string"
  kg_derive :: "string \<Rightarrow> nat \<Rightarrow> string \<times> string"

record key_manager =
  km_hdkey :: string
  km_privateKeys :: "(string \<times> string) list"
  km_nonces :: "(nat \<times> int) list"

definition generate_keys :: "'w key_env \<Rightarrow> string \<Rightarrow> nat \<Rightarrow> key_manager" where
  "generate_keys env hdkey number =
     \<lparr>km_hdkey = hdkey,
      km_privateKeys = foldl (\<lambda>m index. map_set (fst (kg_derive env hdkey index)) (snd (kg_derive env hdkey index)) m) [] [0 ..< number],
      km_nonces = map (\<lambda>index. (index, 0)) [0 ..< number]\<rparr>"

definition keystore_text :: "string \<Rightarrow> string" where
  "keystore_text seed = ''{'' @ json_quote ''seed'' @ '':'' @ json_quote seed @ ''}''"

definition stored_seed :: "'w key_env \<Rightarrow> string \<Rightarrow> ('w host, json option) eff" where
  "stored_seed env keyStorePath =
     bnd (existsSync keyStorePath) (\<lambda>found.
     if found then
       bnd (readFileSync keyStorePath) (\<lambda>text. lift_result (case json_parse text of Inl e \<Rightarrow> Inl e | Inr v \<Rightarrow> json_field v ''seed''))
     else
       bnd (on_hw (kg_generate env)) (\<lambda>key.
       let genseed = hex_of_string key in
       bnd (writeFileSync keyStorePath (keystore_text genseed)) (\<lambda>_. ret (Some (Jstring genseed)))))"

definition newKeyManager :: "'w key_env \<Rightarrow> nat \<Rightarrow> string option \<Rightarrow> string option \<Rightarrow> ('w host, key_manager) eff" where
  "newKeyManager env number workdir seed =
     (if seed \<noteq> None \<and> workdir \<noteq> None then throw (''Can'' @ [CHR 0x27] @ ''t specify both seed and workdir'')
      else bnd
        (case workdir of
           Some dir \<Rightarrow>
             bnd (existsSync dir) (\<lambda>found.
             bnd (when_eff (\<not> found) (mkdirSync dir)) (\<lambda>_.
             stored_seed env (dir @ ''/'' @ KEYSTORE_FILENAME)))
         | None \<Rightarrow>
             (case seed of None \<Rightarrow> bnd (on_hw (kg_generate env)) (\<lambda>key. ret (Some (Jstring key)))
              | Some t \<Rightarrow> ret (Some (Jstring t))))
        (\<lambda>genseed. bnd (lift_result (kg_fromMasterSeed env genseed)) (\<lambda>hdkey. ret (generate_keys env hdkey number))))"

definition getAddresses :: "key_manager \<Rightarrow> string list" where
  "getAddresses km = map fst (km_privateKeys km)"

definition km_getAddress :: "key_manager \<Rightarrow> nat \<Rightarrow> string" where
  "km_getAddress km index = getAddress (getAddresses km) index"

definition km_isSigner :: "key_manager \<Rightarrow> string \<Rightarrow> bool" where
  "km_isSigner km signer \<longleftrightarrow> map_of (km_privateKeys km) signer \<noteq> None"

text \<open>\<open>sign\<close> is the library's signing of a transaction with a private key.\<close>

definition key_signTransaction ::
  "(string \<Rightarrow> unsigned_tx \<Rightarrow> TypedTransaction) \<Rightarrow> key_manager \<Rightarrow> string \<Rightarrow> unsigned_tx \<Rightarrow> js_error + string \<times> TypedTransaction" where
  "key_signTransaction sign km signer tx =
     (case map_of (km_privateKeys km) signer of
        None \<Rightarrow> Inl (Error (''Can'' @ [CHR 0x27] @ ''t sign: signer='' @ signer @ '' is not managed''))
      | Some privateKey \<Rightarrow> (let signed = sign privateKey tx in Inr (tt_serialized signed, signed)))"

section \<open>What is stored is found again\<close>

lemma eat_skip [simp]: "eat c (c # s) = (if c \<in> {CHR '' '', CHR 0x0A, CHR 0x0D, CHR 0x09} then eat c s else Some s)"
  by (simp add: eat_def skip_ws_def)

lemma skip_ws_Cons [simp]: "skip_ws (c # s) = (if c \<in> {CHR '' '', CHR 0x0A, CHR 0x0D, CHR 0x09} then skip_ws s else c # s)"
  by (simp add: skip_ws_def)

lemma skip_ws_Nil [simp]: "skip_ws [] = []"
  by (simp add: skip_ws_def)

lemma keystore_parse: "json_parse (keystore_text seed) = Inr (Jobject [(''seed'', Jstring seed)])"
proof -
  define body where "body = concat (map escape_char seed) @ quote_char # ''}''"
  have seed: "jstr body = Some (seed, ''}'')" unfolding body_def by (rule jstr_quoted)
  define keyed where "keyed = concat (map escape_char ''seed'') @ quote_char # CHR '':'' # quote_char # body"
  have name: "jstr keyed = Some (''seed'', CHR '':'' # quote_char # body)" unfolding keyed_def by (rule jstr_quoted)
  have written: "keystore_text seed = CHR ''{'' # quote_char # keyed"
    by (simp add: keystore_text_def json_quote_def body_def keyed_def)
  obtain n where n: "length (keystore_text seed) = Suc (Suc n)" unfolding written by simp
  have inner: "jval (Suc n) (quote_char # body) = Some (Jstring seed, ''}'')"
    using seed by (simp add: quote_char_def)
  have members: "jmembers (Suc (Suc n)) [] (quote_char # keyed) = Some ([(''seed'', Jstring seed)], [])"
    using name inner by (simp add: quote_char_def eat_def del: jval.simps(2))
  have "jval (Suc (Suc (Suc n))) (keystore_text seed) = Some (Jobject [(''seed'', Jstring seed)], [])"
    using members unfolding written by (simp add: quote_char_def eat_def del: jmembers.simps(2))
  then show ?thesis unfolding json_parse_def n by (simp del: jval.simps)
qed

lemma place_child:
  assumes "dir \<noteq> []"
  shows "place s (dir @ ''/'' @ KEYSTORE_FILENAME) = place s dir @ [KEYSTORE_FILENAME]"
  using resolve_join [of KEYSTORE_FILENAME dir "cwd s"] assms
  by (simp add: place_def path_join_def KEYSTORE_FILENAME_def)

text \<open>The keystore of a directory holds a seed.\<close>

definition keystore_of :: "string \<Rightarrow> json option \<Rightarrow> 'w host \<Rightarrow> bool" where
  "keystore_of dir seed s \<longleftrightarrow> lookup_path s dir \<noteq> None \<and>
     (\<exists>c. lookup_path s (dir @ ''/'' @ KEYSTORE_FILENAME) = Some (FileOf c) \<and>
        (case json_parse c of Inl e \<Rightarrow> Inl e | Inr v \<Rightarrow> json_field v ''seed'') = Inr seed)"

lemma stored_seed_again: "keystore_of dir seed s \<Longrightarrow> stored_seed env (dir @ ''/'' @ KEYSTORE_FILENAME) s = (Inr seed, s)"
  by (auto simp: keystore_of_def stored_seed_def bnd_Inr [OF exists_run] bnd_Inr [OF read_run] lift_result_def)

lemma newKeyManager_again:
  assumes "keystore_of dir seed s" and "kg_fromMasterSeed env seed = Inr hdkey"
  shows "newKeyManager env number (Some dir) None s = (Inr (generate_keys env hdkey number), s)"
proof -
  have "lookup_path s dir \<noteq> None" using assms(1) by (simp add: keystore_of_def)
  then show ?thesis
    using stored_seed_again [OF assms(1), of env] assms(2)
    by (simp add: newKeyManager_def bnd_Inr [OF exists_run] when_eff_def lift_result_def bnd_def del: append.simps)
qed

lemma stored_seed_stores:
  assumes "stored_seed env (dir @ ''/'' @ KEYSTORE_FILENAME) s = (Inr seed, s')" and "tidy s" and "lookup_path s dir \<noteq> None"
  shows "keystore_of dir seed s'"
proof (cases "lookup_path s (dir @ ''/'' @ KEYSTORE_FILENAME)")
  case (Some n)
  show ?thesis
  proof (cases n)
    case Folder
    then show ?thesis using assms Some
      by (simp add: stored_seed_def bnd_Inr [OF exists_run] readFileSync_def gets_def bnd_def throw_def raise_def del: append.simps)
  next
    case (FileOf c)
    then show ?thesis using assms Some
      by (simp add: stored_seed_def bnd_Inr [OF exists_run] bnd_Inr [OF read_run] lift_result_def keystore_of_def del: append.simps)
  qed
next
  case None
  let ?p = "dir @ ''/'' @ KEYSTORE_FILENAME"
  obtain key t where key: "on_hw (kg_generate env) s = (Inr key, t)" and
    1: "(let genseed = hex_of_string key in
       bnd (writeFileSync ?p (keystore_text genseed)) (\<lambda>_. ret (Some (Jstring genseed)))) t = (Inr seed, s')"
    using assms(1) None unfolding stored_seed_def bnd_Inr [where m = "existsSync ?p" and s = s, OF exists_run]
    by (auto elim: bnd_InrE)
  obtain u where w: "writeFileSync ?p (keystore_text (hex_of_string key)) t = (Inr (), u)" and
    seed: "seed = Some (Jstring (hex_of_string key))" and u: "u = s'"
    using 1 unfolding Let_def by (rule bnd_InrE) simp
  have t: "files t = files s \<and> cwd t = cwd s" using key by (auto simp: on_hw_def zoom_def split: prod.splits)
  have dir: "dir \<noteq> []" using assms(3) by (auto simp: lookup_path_def)
  have "lookup_path s' dir \<noteq> None"
  proof -
    have "lookup_path t dir \<noteq> None" using assms(3) t dir by (simp add: lookup_path_def place_def)
    then show ?thesis
      using write_run(1) [OF w] w place_child [OF dir, of t] unfolding u
      by (auto simp: writeFileSync_def gets_def bnd_def throw_def raise_def modify_def lookup_path_def place_def node_at_def split: if_splits)
  qed
  moreover have "lookup_path s' ?p = Some (FileOf (keystore_text (hex_of_string key)))"
    using write_run(2) [OF w] u by simp
  ultimately show ?thesis by (auto simp: keystore_of_def seed keystore_parse json_field_def)
qed

lemma stored_seed_kept:
  assumes "stored_seed env p s = (r, s')"
  shows "files_kept {place s p} s s'"
proof (cases "lookup_path s p")
  case (Some n)
  then have "s' = s"
    using assms
    by (cases n) (auto simp: stored_seed_def exists_run readFileSync_def gets_def bnd_def throw_def raise_def lift_result_def)
  then show ?thesis by simp
next
  case None
  have key: "cwd t = cwd s \<and> files t = files s" if "on_hw (kg_generate env) s = (k, t)" for k t
    using that by (auto simp: on_hw_def zoom_def split: prod.splits)
  show ?thesis
  proof (cases "on_hw (kg_generate env) s")
    case (Pair k t)
    have t: "cwd t = cwd s \<and> files t = files s" by (rule key [OF Pair])
    show ?thesis
    proof (cases k)
      case (Inl e)
      then show ?thesis using assms None Pair t
        by (auto simp: stored_seed_def exists_run bnd_def files_kept_def)
    next
      case (Inr key)
      obtain r1 u where w: "writeFileSync p (keystore_text (hex_of_string key)) t = (r1, u)" by fastforce
      have "s' = u" using assms None Pair Inr w
        by (auto simp: stored_seed_def exists_run bnd_def Let_def split: sum.splits)
      then show ?thesis using write_run(1) [OF w] t by (auto simp: files_kept_def place_def)
    qed
  qed
qed

lemma newKeyManager_made:
  assumes made: "newKeyManager env number (Some dir) None s = (Inr km, s')" and tidy: "tidy s"
  obtains seed hdkey where "keystore_of dir seed s'" and "kg_fromMasterSeed env seed = Inr hdkey" and "km = generate_keys env hdkey number"
    and "files_kept {place s (dir @ ''/'' @ KEYSTORE_FILENAME)} s s'"
proof -
  obtain found v where e: "existsSync dir s = (Inr found, v)" and
    1: "bnd (bnd (when_eff (\<not> found) (mkdirSync dir)) (\<lambda>_. stored_seed env (dir @ ''/'' @ KEYSTORE_FILENAME)))
      (\<lambda>genseed. bnd (lift_result (kg_fromMasterSeed env genseed)) (\<lambda>hdkey. ret (generate_keys env hdkey number))) v = (Inr km, s')"
    using made by (auto simp: newKeyManager_def bnd_def split: prod.splits sum.splits)
  obtain seed w where sw: "bnd (when_eff (\<not> found) (mkdirSync dir)) (\<lambda>_. stored_seed env (dir @ ''/'' @ KEYSTORE_FILENAME)) v = (Inr seed, w)"
    and 2: "bnd (lift_result (kg_fromMasterSeed env seed)) (\<lambda>hdkey. ret (generate_keys env hdkey number)) w = (Inr km, s')"
    using 1 by (rule bnd_InrE)
  obtain u where mk: "when_eff (\<not> found) (mkdirSync dir) v = (Inr (), u)" and st: "stored_seed env (dir @ ''/'' @ KEYSTORE_FILENAME) u = (Inr seed, w)"
    using sw by (rule bnd_InrE) simp
  have found: "found \<longleftrightarrow> lookup_path s dir \<noteq> None" and v: "v = s" using e by (auto simp: existsSync_def gets_def)
  have u: "tidy u \<and> lookup_path u dir \<noteq> None \<and> files_kept {} s u"
  proof (cases found)
    case True
    then show ?thesis using mk found v tidy by (simp add: when_eff_def)
  next
    case False
    then have m: "mkdirSync dir s = (Inr (), u)" using mk v by (simp add: when_eff_def)
    then show ?thesis using mkdir_run(1,3) [OF m] tidy tidy_mkdirSync unfolding keeps_def by (metis option.distinct(1) snd_conv)
  qed
  then have ks: "keystore_of dir seed w" using stored_seed_stores [OF st] by blast
  have kept: "files_kept {place s (dir @ ''/'' @ KEYSTORE_FILENAME)} s w"
    using files_kept_trans [OF _ stored_seed_kept [OF st], of "{}" s] u place_kept by fastforce
  obtain hdkey where "kg_fromMasterSeed env seed = Inr hdkey" "km = generate_keys env hdkey number" "w = s'"
    using 2 by (cases "kg_fromMasterSeed env seed") (auto simp: bnd_def lift_result_def)
  then show thesis using that ks kept by blast
qed

text \<open>
  the keys of a work directory are the same on every start: once a key manager was made for a directory, making it
  again gives it, for as long as the keystore is left as it is, and changes nothing; with another number of keys the
  seed is still the same.
\<close>

theorem keystore_persists:
  assumes made: "newKeyManager env number (Some dir) None s = (Inr km, s')" and tidy: "tidy s"
    and unchanged: "lookup_path t dir = lookup_path s' dir"
      "lookup_path t (dir @ ''/'' @ KEYSTORE_FILENAME) = lookup_path s' (dir @ ''/'' @ KEYSTORE_FILENAME)"
  shows "newKeyManager env number (Some dir) None t = (Inr km, t)
    \<and> newKeyManager env number2 (Some dir) None t = (Inr (generate_keys env (km_hdkey km) number2), t)"
proof -
  obtain seed hdkey where ks: "keystore_of dir seed s'" and hd: "kg_fromMasterSeed env seed = Inr hdkey" and km: "km = generate_keys env hdkey number"
    using newKeyManager_made [OF made tidy] by blast
  have "keystore_of dir seed t" using ks unchanged by (simp add: keystore_of_def)
  then show ?thesis
    using newKeyManager_again [OF _ hd] by (simp add: km generate_keys_def)
qed

definition sample_key_env :: "unit key_env" where
  "sample_key_env = \<lparr>kg_generate = ret [CHR 0x5A, CHR 0x0C], kg_fromMasterSeed = (\<lambda>j. case j of Some (Jstring s) \<Rightarrow> Inr s | _ \<Rightarrow> Inl (Error ''seed'')),
     kg_derive = (\<lambda>seed i. (''0x'' @ seed @ nat_to_radix 10 i, ''k'' @ seed @ nat_to_radix 10 i))\<rparr>"

definition sample_host :: "unit host" where
  "sample_host = \<lparr>hw = (), cwd = [''home''], files = (\<lambda>p. if p = [''home''] then Some Folder else None)\<rparr>"

theorem keystore_persists_witness:
  "let run = newKeyManager sample_key_env 2 (Some ''data/manager'') None in
   fst (run (snd (run sample_host))) = fst (run sample_host) \<and> map_option getAddresses (case fst (run sample_host) of Inr km \<Rightarrow> Some km | Inl _ \<Rightarrow> None)
     = Some [''0x5a0c0'', ''0x5a0c1'']"
proof -
  let ?run = "newKeyManager sample_key_env 2 (Some ''data/manager'') None"
  have a: "map_option getAddresses (case fst (?run sample_host) of Inr km \<Rightarrow> Some km | Inl _ \<Rightarrow> None) = Some [''0x5a0c0'', ''0x5a0c1'']"
    by code_simp
  then obtain km where km: "?run sample_host = (Inr km, snd (?run sample_host))" by (cases "?run sample_host") (auto split: sum.splits)
  have "tidy sample_host" by (auto simp: tidy_def well_placed_def sample_host_def node_at_def)
  from keystore_persists [OF km this refl refl] show ?thesis using km a by (metis fst_conv)
qed

text \<open>What the transaction manager uses of its key managers is what a key manager does.\<close>

lemma getAddresses_signers: "km_isSigner km a \<longleftrightarrow> isSigner (getAddresses km) a"
  by (simp add: km_isSigner_def isSigner_def getAddresses_def map_of_eq_None_iff del: not_None_eq)

lemma signing_by_address:
  "key_signTransaction sign km signer tx
     = km_signTransaction (\<lambda>a t. Inr (sign (the (map_of (km_privateKeys km) a)) t)) (getAddresses km) signer tx"
  using getAddresses_signers [of km signer]
  by (auto simp: key_signTransaction_def km_signTransaction_def km_isSigner_def isSigner_def Let_def split: option.splits)

end
