(* ===== verification/CliUtils.thy ===== *)
theory CliUtils imports Files InteractorInit begin

text \<open>
  \<open>packages/cli/src/utils.ts\<close>: the networks known by name, the files the commands read, and the addresses of a
  deployment in the work directory.
\<close>

section \<open>Networks\<close>

definition cliInfuraId :: string where
  "cliInfuraId = ''$INFURA_ID''"

definition networks :: "(string \<times> string) list" where
  "networks =
     [(''localhost'', ''http://127.0.0.1:8545''), (''xdai'', ''https://dai.poa.network''),
      (''arbitrum_rinkeby'', ''https://rinkeby.arbitrum.io/rpc''), (''optimism_kovan'', ''https://kovan.optimism.io/''),
      (''ropsten'', ''https://ropsten.infura.io/v3/'' @ cliInfuraId), (''rinkeby'', ''https://rinkeby.infura.io/v3/'' @ cliInfuraId),
      (''kovan'', ''https://kovan.infura.io/v3/'' @ cliInfuraId), (''goerli'', ''https://goerli.infura.io/v3/'' @ cliInfuraId),
      (''mainnet'', ''https://mainnet.infura.io/v3/'' @ cliInfuraId)]"

definition networksBlockExplorers :: "(string \<times> string) list" where
  "networksBlockExplorers =
     [(''xdai'', ''https://blockscout.com/poa/xdai/''), (''arbitrum_rinkeby'', ''https://rinkeby-explorer.arbitrum.io/#/''),
      (''optimism_kovan'', ''https://kovan-optimistic.etherscan.io/''), (''ropsten'', ''https://ropsten.etherscan.io/''),
      (''rinkeby'', ''https://rinkeby.etherscan.io/''), (''kovan'', ''https://kovan.etherscan.io/''),
      (''goerli'', ''https://goerli.etherscan.io/''), (''mainnet'', ''https://etherscan.io/'')]"

definition supportedNetworks :: "string list" where
  "supportedNetworks = map fst networks"

text \<open>\<open>replace\<close> of the first occurrence: in the replacement, patterns that start with a dollar sign stand for parts of the text.\<close>

fun expand_dollars :: "string \<Rightarrow> string \<Rightarrow> string \<Rightarrow> string \<Rightarrow> string" where
  "expand_dollars before match after [] = []"
| "expand_dollars before match after [c] = [c]"
| "expand_dollars before match after (c # d # s) =
     (if c \<noteq> CHR ''$'' then c # expand_dollars before match after (d # s)
      else if d = CHR ''$'' then CHR ''$'' # expand_dollars before match after s
      else if d = CHR ''&'' then match @ expand_dollars before match after s
      else if d = CHR 0x60 then before @ expand_dollars before match after s
      else if d = CHR 0x27 then after @ expand_dollars before match after s
      else c # expand_dollars before match after (d # s))"

fun split_at :: "string \<Rightarrow> string \<Rightarrow> (string \<times> string) option" where
  "split_at m [] = (if m = [] then Some ([], []) else None)"
| "split_at m (c # s) =
     (if starts_with m (c # s) then Some ([], drop (length m) (c # s))
      else map_option (\<lambda>(a, b). (c # a, b)) (split_at m s))"

definition replace_text :: "string \<Rightarrow> string \<Rightarrow> string \<Rightarrow> string" where
  "replace_text m r s =
     (case split_at m s of None \<Rightarrow> s | Some (before, after) \<Rightarrow> before @ expand_dollars before m after r @ after)"

definition getNetworkUrl :: "string \<Rightarrow> (string \<times> string) list \<Rightarrow> js_error + string" where
  "getNetworkUrl network env =
     (case map_of networks network of
        None \<Rightarrow>
          (if starts_with ''http://'' network \<or> starts_with ''https://'' network
           then Inr (takeWhile (\<lambda>c. \<not> line_terminator c) network)
           else Inl (Error (''network '' @ network @ '' is not supported'')))
      | Some net \<Rightarrow>
          (if str_includes ''$INFURA_ID'' net then
             (let str = (case map_of env ''INFURA_ID'' of Some i \<Rightarrow> i | None \<Rightarrow> [])
              in if str = [] then Inl (Error (''network '' @ network @ '': INFURA_ID not set''))
                 else Inr (replace_text cliInfuraId str net))
           else Inr net))"

section \<open>Files that are read\<close>

definition getMnemonic :: "string option \<Rightarrow> ('w host, string option) eff" where
  "getMnemonic mnemonicFile =
     (case mnemonicFile of None \<Rightarrow> ret None | Some [] \<Rightarrow> ret None
      | Some f \<Rightarrow> bnd (readFileSync f) (\<lambda>t. ret (Some (filter (\<lambda>c. c \<noteq> CHR 0x0A \<and> c \<noteq> CHR 0x0D) t))))"

definition drop_trailing :: "string \<Rightarrow> string" where
  "drop_trailing p = rev (dropWhile (\<lambda>c. c = CHR ''/'') (rev p))"

definition path_dirname :: "string \<Rightarrow> string" where
  "path_dirname p =
     (let q = drop_trailing p; d = rev (dropWhile (\<lambda>c. c \<noteq> CHR ''/'') (rev q))
      in if d = [] then (if starts_with ''/'' p then ''/'' else ''.'') else if drop_trailing d = [] then ''/'' else drop_trailing d)"

definition getKeystorePath :: "string \<Rightarrow> ('w host, string) eff" where
  "getKeystorePath keystorePath =
     bnd (existsSync keystorePath) (\<lambda>found.
     if \<not> found then throw (''keystorePath '' @ keystorePath @ '' not found'') else
     bnd (isDirectory keystorePath) (\<lambda>folder.
     bnd (if folder then existsSync (keystorePath @ ''/keystore'') else ret False) (\<lambda>inside.
     if inside then ret keystorePath else
     bnd (isFile keystorePath) (\<lambda>file.
     if file \<and> path_basename keystorePath = ''keystore'' then ret (path_dirname keystorePath)
     else throw (''keystorePath '' @ keystorePath @ '' not a file or directory'')))))"

definition read_json :: "string \<Rightarrow> ('w host, json) eff" where
  "read_json p = bnd (readFileSync p) (\<lambda>t. lift_result (json_parse t))"

definition getServerConfig :: "string \<Rightarrow> ('w host, json) eff" where
  "getServerConfig configFilename =
     bnd (existsSync configFilename) (\<lambda>found.
     bnd (if found then isFile configFilename else ret False) (\<lambda>file.
     if \<not> file then throw (''configFilename '' @ configFilename @ '' must be a file'') else read_json configFilename))"

definition getRelayHubConfiguration :: "string option \<Rightarrow> ('w host, json option) eff" where
  "getRelayHubConfiguration configFile =
     (case configFile of None \<Rightarrow> ret None | Some f \<Rightarrow> bnd (read_json f) (\<lambda>v. ret (Some v)))"

section \<open>Deployments\<close>

text \<open>An address is a string; what else a file may have in its place is outside of the declared type and counts as missing.\<close>

definition address_text :: "json option \<Rightarrow> string option" where
  "address_text v = (case v of Some (Jstring a) \<Rightarrow> Some a | _ \<Rightarrow> None)"

definition getAddressFromFile :: "string \<Rightarrow> string option \<Rightarrow> ('w host, string option) eff" where
  "getAddressFromFile path defaultAddress =
     (if defaultAddress = None then
        bnd (existsSync path) (\<lambda>found.
        if found then bnd (read_json path) (\<lambda>v. bnd (lift_result (json_field v ''address'')) (\<lambda>a. ret (address_text a)))
        else ret defaultAddress)
      else ret defaultAddress)"

definition getPaymasterAddress :: "string option \<Rightarrow> ('w host, string option) eff" where
  "getPaymasterAddress paymaster = getAddressFromFile ''build/gsn/Paymaster.json'' paymaster"

definition getRelayHubAddress :: "string option \<Rightarrow> ('w host, string option) eff" where
  "getRelayHubAddress defaultAddress = getAddressFromFile ''build/gsn/RelayHub.json'' defaultAddress"

definition address_file :: "string \<Rightarrow> string" where
  "address_file a = ''{ '' @ [quote_char] @ ''address'' @ [quote_char] @ '': '' @ [quote_char] @ a @ [quote_char] @ '' }''"

definition saveContractToFile :: "string option \<Rightarrow> string \<Rightarrow> string \<Rightarrow> ('w host, unit) eff" where
  "saveContractToFile address workdir filename =
     (case address of None \<Rightarrow> throw ''Address is not initialized!''
      | Some a \<Rightarrow> bnd (mkdirSync workdir) (\<lambda>_. writeFileSync (path_join workdir filename) (address_file a)))"

definition saveDeployment :: "GSNContractsDeployment \<Rightarrow> string \<Rightarrow> ('w host, unit) eff" where
  "saveDeployment deploymentResult workdir =
     bnd (saveContractToFile (dep_stakeManagerAddress deploymentResult) workdir ''StakeManager.json'') (\<lambda>_.
     bnd (saveContractToFile (dep_penalizerAddress deploymentResult) workdir ''Penalizer.json'') (\<lambda>_.
     bnd (saveContractToFile (dep_relayHubAddress deploymentResult) workdir ''RelayHub.json'') (\<lambda>_.
     bnd (saveContractToFile (dep_paymasterAddress deploymentResult) workdir ''Paymaster.json'') (\<lambda>_.
     bnd (saveContractToFile (dep_forwarderAddress deploymentResult) workdir ''Forwarder.json'') (\<lambda>_.
     bnd (saveContractToFile (dep_relayRegistrarAddress deploymentResult) workdir ''RelayRegistrar.json'') (\<lambda>_.
     saveContractToFile (dep_managerStakeTokenAddress deploymentResult) workdir ''ManagerStakeTokenAddress.json''))))))"

definition loadDeployment :: "string \<Rightarrow> ('w host, GSNContractsDeployment) eff" where
  "loadDeployment workdir =
     (let getAddress = (\<lambda>name. getAddressFromFile (path_join workdir (name @ ''.json'')) None) in
     bnd (getAddress ''RelayHub'') (\<lambda>hub.
     bnd (getAddress ''RelayRegistrar'') (\<lambda>registrar.
     bnd (getAddress ''StakeManager'') (\<lambda>manager.
     bnd (getAddress ''ManagerStakeTokenAddress'') (\<lambda>token.
     bnd (getAddress ''Penalizer'') (\<lambda>penalizer.
     bnd (getAddress ''Forwarder'') (\<lambda>forwarder.
     bnd (getAddress ''Paymaster'') (\<lambda>paymaster.
     ret \<lparr>dep_forwarderAddress = forwarder, dep_paymasterAddress = paymaster, dep_penalizerAddress = penalizer,
          dep_relayRegistrarAddress = registrar, dep_relayHubAddress = hub, dep_stakeManagerAddress = manager,
          dep_managerStakeTokenAddress = token\<rparr>))))))))"

text \<open>The table that is printed; an address that is missing prints as \<open>undefined\<close>.\<close>

definition shown :: "string option \<Rightarrow> string" where
  "shown a = (case a of Some s \<Rightarrow> s | None \<Rightarrow> ''undefined'')"

definition showDeployment :: "GSNContractsDeployment \<Rightarrow> string option \<Rightarrow> string option \<Rightarrow> string list" where
  "showDeployment deploymentResult title paymasterTitle =
     (case title of Some t \<Rightarrow> [t] | None \<Rightarrow> []) @
     [''  RelayHub: '' @ shown (dep_relayHubAddress deploymentResult),
      ''  RelayRegistrar: '' @ shown (dep_relayRegistrarAddress deploymentResult),
      ''  StakeManager: '' @ shown (dep_stakeManagerAddress deploymentResult),
      ''  Penalizer: '' @ shown (dep_penalizerAddress deploymentResult),
      ''  Forwarder: '' @ shown (dep_forwarderAddress deploymentResult),
      ''  TestToken (test only): '' @ shown (dep_managerStakeTokenAddress deploymentResult),
      ''  Paymaster '' @ (case paymasterTitle of Some t \<Rightarrow> ''('' @ t @ '')'' | None \<Rightarrow> []) @ '': ''
        @ shown (dep_paymasterAddress deploymentResult)]"

section \<open>Options\<close>

text \<open>The options a command declares: the flags and the default.\<close>

datatype GsnOption = OptN | OptF | OptH | OptM | OptG | OptL

definition gsn_option :: "GsnOption \<Rightarrow> (string \<times> string option) list" where
  "gsn_option o1 =
     (case o1 of
        OptN \<Rightarrow> [(''-n, --network <url|name>'', Some ''localhost'')]
      | OptF \<Rightarrow> [(''-f, --from <address>'', None)]
      | OptH \<Rightarrow> [(''-h, --hub <address>'', None)]
      | OptM \<Rightarrow> [(''-m, --mnemonic <mnemonic>'', None), (''--derivationPath <string>'', None),
          (''--derivationIndex <string>'', Some ''0''), (''--privateKeyHex <string>'', None)]
      | OptG \<Rightarrow> [(''-g, --gasPrice <number>'', None)]
      | OptL \<Rightarrow> [(''-l, --gasLimit <number>'', Some ''5000000'')])"

definition gsnCommander :: "GsnOption list \<Rightarrow> (string \<times> string option) list" where
  "gsnCommander options = concat (map gsn_option options) @ [(''--loglevel <string>'', Some ''debug'')]"

section \<open>A saved deployment is loaded again\<close>

lemma address_file_parse:
  assumes "plain_text a"
  shows "json_parse (address_file a) = Inr (Jobject [(''address'', Jstring a)])"
proof -
  define rest where "rest = a @ quote_char # '' }''"
  have a: "jstr rest = Some (a, '' }'')" unfolding rest_def by (rule jstr_plain [OF assms])
  define keyed where "keyed = ''address'' @ quote_char # '': '' @ quote_char # rest"
  have name: "jstr keyed = Some (''address'', '': '' @ quote_char # rest)"
    unfolding keyed_def by (rule jstr_plain) (simp add: plain_text_def)
  have written: "address_file a = ''{ '' @ quote_char # keyed"
    by (simp add: address_file_def keyed_def rest_def)
  obtain n where n: "length (address_file a) = Suc (Suc n)" unfolding written by simp
  have skip: "skip_ws (CHR '' '' # s) = skip_ws s" "skip_ws (quote_char # s) = quote_char # s" "skip_ws (CHR ''{'' # s) = CHR ''{'' # s"
    "skip_ws (CHR '':'' # s) = CHR '':'' # s" "skip_ws (CHR ''}'' # s) = CHR ''}'' # s" for s
    by (simp_all add: skip_ws_def quote_char_def)
  have quotes: "quote_char \<noteq> CHR ''}''" "CHR ''{'' \<noteq> quote_char" by (simp_all add: quote_char_def)
  have inner: "jval (Suc n) ('' '' @ quote_char # rest) = Some (Jstring a, '' }'')"
    using a by (simp add: skip)
  have members: "jmembers (Suc (Suc n)) [] ('' '' @ quote_char # keyed) = Some ([(''address'', Jstring a)], [])"
    using name inner by (simp add: eat_def skip del: jval.simps(2))
  have "jval (Suc (Suc (Suc n))) (address_file a) = Some (Jobject [(''address'', Jstring a)], [])"
    using members quotes unfolding written by (simp add: eat_def skip del: jmembers.simps(2))
  then show ?thesis unfolding json_parse_def n by (simp add: skip_ws_def del: jval.simps)
qed

definition saved_files :: "string \<Rightarrow> (string \<times> string option) list \<Rightarrow> 'w host \<Rightarrow> bool" where
  "saved_files wd ps s \<longleftrightarrow>
     list_all (\<lambda>(f, a). case a of None \<Rightarrow> False | Some x \<Rightarrow> lookup_path s (path_join wd f) = Some (FileOf (address_file x))) ps"

lemma saved_kept:
  assumes "saved_files wd ps s" and "files_kept qs s t" and "\<forall>(f, a) \<in> set ps. place s (path_join wd f) \<notin> qs"
  shows "saved_files wd ps t"
  using assms(1,3) unfolding saved_files_def list_all_iff
  by (fastforce split: option.splits intro: lookup_kept [OF assms(2)])

lemma save_step:
  assumes "saved_files wd ps s" and "file_name f" and "\<forall>(g, a) \<in> set ps. file_name g \<and> g \<noteq> f"
  shows "wp (saveContractToFile address wd f) (\<lambda>_. saved_files wd ((f, address) # ps)) (\<lambda>_ _. True) s"
proof (cases "address = None \<or> wd = []")
  case True
  then show ?thesis
    by (cases address) (auto simp: saveContractToFile_def wp_def throw_def raise_def bnd_def mkdirSync_def gets_def split: prod.splits)
next
  case False
  then obtain a where a: "address = Some a" and wd: "wd \<noteq> []" by (cases address) auto
  show ?thesis
    unfolding wp_def
  proof (split prod.split, split sum.split, intro allI impI conjI TrueI)
    fix r t x assume run: "saveContractToFile address wd f s = (r, t)" and r: "r = Inr x"
    obtain u where mk: "mkdirSync wd s = (Inr (), u)" and wr: "writeFileSync (path_join wd f) (address_file a) u = (Inr (), t)"
      using run unfolding saveContractToFile_def a r option.case by (rule bnd_InrE) simp
    have kept: "files_kept ({} \<union> {place u (path_join wd f)}) s t"
      by (rule files_kept_trans [OF mkdir_run(1) [OF mk] write_run(1) [OF wr]])
    have p: "place u (path_join wd f) = place s wd @ [f]"
      using place_in [OF assms(2) wd, of u] place_kept [OF mkdir_run(1) [OF mk]] by simp
    have "saved_files wd ps t"
      using assms(3) by (intro saved_kept [OF assms(1) kept]) (auto simp: p place_in wd)
    then show "saved_files wd ((f, address) # ps) t"
      using write_run(2) [OF wr] by (simp add: saved_files_def a)
  qed
qed

lemma load_address:
  assumes "saved_files wd ps s" and "(f, Some a) \<in> set ps" and "plain_text a"
  shows "getAddressFromFile (path_join wd f) None s = (Inr (Some a), s)"
proof -
  have l: "lookup_path s (path_join wd f) = Some (FileOf (address_file a))"
    using assms(1,2) by (auto simp: saved_files_def list_all_iff)
  show ?thesis
    using read_run [OF l]
    by (simp add: getAddressFromFile_def exists_run l read_json_def bnd_def lift_result_def
        address_file_parse [OF assms(3)] json_field_def address_text_def)
qed

lemma saved_filesD:
  "saved_files wd ps s \<Longrightarrow> (f, a) \<in> set ps \<Longrightarrow> \<exists>x. a = Some x \<and> lookup_path s (path_join wd f) = Some (FileOf (address_file x))"
  by (cases a) (auto simp: saved_files_def list_all_iff)

lemma save_bnd:
  assumes "saved_files wd ps s" and "file_name f" and "list_all (\<lambda>(g, a). file_name g \<and> g \<noteq> f) ps"
    and "\<And>t. saved_files wd ((f, address) # ps) t \<Longrightarrow> wp k Q (\<lambda>_ _. True) t"
  shows "wp (bnd (saveContractToFile address wd f) (\<lambda>_. k)) Q (\<lambda>_ _. True) s"
  unfolding wp_bnd using assms by (intro wp_mono [OF save_step [OF assms(1,2)]]) (auto simp: list_all_iff)

definition deployment_files :: "GSNContractsDeployment \<Rightarrow> (string \<times> string option) list" where
  "deployment_files d =
     [(''ManagerStakeTokenAddress.json'', dep_managerStakeTokenAddress d), (''RelayRegistrar.json'', dep_relayRegistrarAddress d),
      (''Forwarder.json'', dep_forwarderAddress d), (''Paymaster.json'', dep_paymasterAddress d), (''RelayHub.json'', dep_relayHubAddress d),
      (''Penalizer.json'', dep_penalizerAddress d), (''StakeManager.json'', dep_stakeManagerAddress d)]"

definition plain_addresses :: "GSNContractsDeployment \<Rightarrow> bool" where
  "plain_addresses d \<longleftrightarrow> list_all (\<lambda>(f, a). case a of Some t \<Rightarrow> plain_text t | None \<Rightarrow> True) (deployment_files d)"

lemma saved_all: "wp (saveDeployment d wd) (\<lambda>_. saved_files wd (deployment_files d)) (\<lambda>_ _. True) s"
  unfolding saveDeployment_def deployment_files_def
  apply (rule save_bnd [where ps = "[]"], simp add: saved_files_def, simp add: file_name_def, simp)
  apply (rule save_bnd, assumption, simp add: file_name_def, simp add: file_name_def)+
  apply (rule save_step, assumption)
   apply (simp_all add: file_name_def)
  done

lemma saved_loaded:
  assumes saved_ps: "saved_files workdir (deployment_files d) s'" and plain: "plain_addresses d"
  shows "loadDeployment workdir s' = (Inr d, s')"
proof -
  have load: "getAddressFromFile (path_join workdir f) None s' = (Inr a, s')" if listed: "(f, a) \<in> set (deployment_files d)" for f a
  proof -
    obtain x where x: "a = Some x" using saved_filesD [OF saved_ps listed] by blast
    have "plain_text x" using listed plain unfolding x by (auto simp: plain_addresses_def list_all_iff)
    then show ?thesis using load_address [OF saved_ps] listed unfolding x by blast
  qed
  note loads = load [unfolded deployment_files_def]
  show ?thesis
    unfolding loadDeployment_def Let_def
    by (simp add: bnd_Inr loads)
qed

text \<open>
  C21: a deployment that was saved is loaded again as it was, when its addresses are plain text; a deployment with a
  missing address is not saved.
\<close>

theorem deployment_saved_and_loaded:
  assumes saving: "saveDeployment d workdir s = (Inr u, s')" and plain: "plain_addresses d"
  shows "loadDeployment workdir s' = (Inr d, s')"
  using saved_all [of d workdir s] saving by (intro saved_loaded [OF _ plain]) (simp add: wp_def)

definition sample_deployment :: GSNContractsDeployment where
  "sample_deployment = \<lparr>dep_forwarderAddress = Some ''0xf'', dep_paymasterAddress = Some ''0xa'', dep_penalizerAddress = Some ''0xb'',
     dep_relayRegistrarAddress = Some ''0xc'', dep_relayHubAddress = Some ''0xd'', dep_stakeManagerAddress = Some ''0xe'',
     dep_managerStakeTokenAddress = Some ''0x1''\<rparr>"

definition empty_host :: "unit host" where
  "empty_host = \<lparr>hw = (), cwd = [''home''], files = (\<lambda>p. if p = [''home''] then Some Folder else None)\<rparr>"

theorem deployment_saved_and_loaded_witness:
  "fst (loadDeployment ''build/gsn'' (snd (saveDeployment sample_deployment ''build/gsn'' empty_host))) = Inr sample_deployment"
proof -
  let ?run = "saveDeployment sample_deployment ''build/gsn'' empty_host"
  have "fst ?run = Inr ()" by code_simp
  then have r: "?run = (Inr (), snd ?run)" by (metis prod.collapse)
  have "plain_addresses sample_deployment" by code_simp
  from deployment_saved_and_loaded [OF r this] show ?thesis by simp
qed

section \<open>The URL of a network\<close>

lemma infura_networks:
  "(k, net) \<in> set networks \<Longrightarrow> str_includes ''$INFURA_ID'' net \<Longrightarrow>
   \<exists>p. net = p @ cliInfuraId \<and> split_at cliInfuraId net = Some (p, []) \<and> (\<forall>x. starts_with ''https://'' (p @ x))"
  unfolding networks_def
  by (auto simp: cliInfuraId_def starts_with_def)

lemma known_networks: "(k, net) \<in> set networks \<Longrightarrow> starts_with ''http://'' net \<or> starts_with ''https://'' net"
  by (auto simp: networks_def cliInfuraId_def starts_with_def)

lemma expand_plain: "CHR ''$'' \<notin> set r \<Longrightarrow> expand_dollars b m a r = r"
  by (induction b m a r rule: expand_dollars.induct) auto

text \<open>
  the URL of a network is an HTTP URL; a name is refused exactly when it is neither known nor such a URL, or when it
  needs an Infura id and there is none; where there is one it ends the URL.
\<close>

theorem getNetworkUrl_outcome:
  assumes "CHR ''$'' \<notin> set (case map_of env ''INFURA_ID'' of Some i \<Rightarrow> i | None \<Rightarrow> [])"
  shows "case getNetworkUrl network env of
      Inr u \<Rightarrow> (starts_with ''http://'' u \<or> starts_with ''https://'' u)
        \<and> (case map_of networks network of
             None \<Rightarrow> u = takeWhile (\<lambda>c. \<not> line_terminator c) network
           | Some net \<Rightarrow> u = (if str_includes cliInfuraId net
               then take (length net - length cliInfuraId) net @ the (map_of env ''INFURA_ID'') else net))
    | Inl _ \<Rightarrow> (case map_of networks network of
        None \<Rightarrow> \<not> starts_with ''http://'' network \<and> \<not> starts_with ''https://'' network
      | Some net \<Rightarrow> str_includes cliInfuraId net \<and> map_of env ''INFURA_ID'' \<in> {None, Some []})"
proof (cases "map_of networks network")
  case None
  have "starts_with p (takeWhile (\<lambda>c. \<not> line_terminator c) network)"
    if "starts_with p network" and "list_all (\<lambda>c. \<not> line_terminator c) p" for p
  proof -
    have "network = p @ drop (length p) network" using that(1) by (metis append_take_drop_id starts_with_def)
    then have "takeWhile (\<lambda>c. \<not> line_terminator c) network = p @ takeWhile (\<lambda>c. \<not> line_terminator c) (drop (length p) network)"
      using that(2) by (metis list_all_iff takeWhile_append2)
    then show ?thesis by simp
  qed
  from this [of "''http://''"] this [of "''https://''"] show ?thesis
    using None by (auto simp: getNetworkUrl_def line_terminator_def)
next
  case (Some net)
  have net: "(network, net) \<in> set networks" using Some by (rule map_of_SomeD)
  show ?thesis
  proof (cases "str_includes cliInfuraId net")
    case False
    then show ?thesis using Some known_networks [OF net] by (auto simp: getNetworkUrl_def cliInfuraId_def)
  next
    case True
    then obtain p where p: "net = p @ cliInfuraId" "split_at cliInfuraId net = Some (p, [])" "\<forall>x. starts_with ''https://'' (p @ x)"
      using infura_networks [OF net] unfolding cliInfuraId_def by blast
    have "take (length net - length cliInfuraId) net = p" unfolding p(1) by simp
    then show ?thesis
      using Some True p(2,3) expand_plain [OF assms]
      by (cases "map_of env ''INFURA_ID''") (auto simp: getNetworkUrl_def cliInfuraId_def [symmetric] replace_text_def)
  qed
qed

end
