(* ===== verification/RunServer.thy ===== *)
theory RunServer imports KeyManager ServerConfig InteractorProps begin

text \<open>
  \<open>packages/relay/src/runServer.ts\<close>: starting a relay server. The parts it starts are modelled in other theories; here
  each is a step on the world, and what matters is which steps are taken, in which order, with which keys and files.
  Requests and answers of the logging provider are JSON values.
\<close>

section \<open>The logging provider\<close>

text \<open>Member access on a value that may be \<open>undefined\<close> (\<open>None\<close>), and optional chaining.\<close>

definition js_get :: "json option \<Rightarrow> string \<Rightarrow> js_error + json option" where
  "js_get v k =
     (case v of None \<Rightarrow> Inl (Error ''Cannot read properties of undefined'')
      | Some Jnull \<Rightarrow> Inl (Error ''Cannot read properties of null'')
      | Some (Jobject fs) \<Rightarrow> Inr (map_of fs k)
      | Some (Jarray vs) \<Rightarrow> Inr (if k = ''0'' \<and> vs \<noteq> [] then Some (hd vs) else None)
      | Some (Jstring s) \<Rightarrow> Inr (if k = ''0'' \<and> s \<noteq> [] then Some (Jstring [hd s]) else None)
      | _ \<Rightarrow> Inr None)"

definition nullish :: "json option \<Rightarrow> bool" where
  "nullish v \<longleftrightarrow> v = None \<or> v = Some Jnull"

definition opt_get :: "json option \<Rightarrow> string \<Rightarrow> json option" where
  "opt_get v k = (if nullish v then None else case js_get v k of Inr x \<Rightarrow> x | Inl _ \<Rightarrow> None)"

text \<open>\<open>r?.params[0]\<close>: a request without parameters is an error.\<close>

definition first_param :: "json \<Rightarrow> js_error + json option" where
  "first_param r = (if r = Jnull then Inr None else js_get (opt_get (Some r) ''params'') ''0'')"

definition shortened :: "string \<Rightarrow> string" where
  "shortened s = (if 1000 < length s then take 70 s @ ''...'' else s)"

definition set_field :: "string \<Rightarrow> json \<Rightarrow> json \<Rightarrow> json" where
  "set_field k x v = (case v of Jobject fs \<Rightarrow> Jobject (map_set k x fs) | _ \<Rightarrow> v)"

definition set_first :: "json \<Rightarrow> json \<Rightarrow> json" where
  "set_first x v = (case v of Jarray (_ # vs) \<Rightarrow> Jarray (x # vs) | Jobject fs \<Rightarrow> Jobject (map_set ''0'' x fs) | _ \<Rightarrow> v)"

definition sanitizeJsonRpcPayload :: "json \<Rightarrow> js_error + json" where
  "sanitizeJsonRpcPayload request =
     (case first_param request of Inl e \<Rightarrow> Inl e
      | Inr p \<Rightarrow>
          (case (p, opt_get p ''data'') of
             (Some param, Some (Jstring d)) \<Rightarrow>
               Inr (if 1000 < length d
                    then set_field ''params'' (set_first (set_field ''data'' (Jstring (shortened d)) param) (the (opt_get (Some request) ''params''))) request
                    else request)
           | _ \<Rightarrow> Inr request))"

definition sanitizeJsonRpcResponse :: "json option \<Rightarrow> json option" where
  "sanitizeJsonRpcResponse response =
     (if nullish response then response
      else (case opt_get response ''result'' of
          Some (Jstring s) \<Rightarrow> Some (if 1000 < length s then set_field ''result'' (Jstring (shortened s)) (the response) else the response)
        | _ \<Rightarrow> response))"

datatype log_line =
    Asked "json option" "(json option \<times> json option) option"
  | AskedAll json
  | Topics json
  | LongOperation
  | Answered "json option" int
  | AnsweredAll "json option" int "js_error option" "json option"

type_synonym rpc_reply = "js_error option \<times> json option"

record 'w lp_state =
  lp_world :: 'w
  lp_log :: "log_line list"

record 'w lp_env =
  lp_send :: "json \<Rightarrow> ('w, rpc_reply) eff"
  lp_now :: "('w, int) eff"

definition on_lp :: "('w, 'a) eff \<Rightarrow> ('w lp_state, 'a) eff" where
  "on_lp m = zoom lp_world (\<lambda>w s. s\<lparr>lp_world := w\<rparr>) m"

definition write_log :: "log_line \<Rightarrow> ('w lp_state, unit) eff" where
  "write_log l = modify (\<lambda>s. s\<lparr>lp_log := lp_log s @ [l]\<rparr>)"

definition js_Number :: "string \<Rightarrow> rat option" where
  "js_Number s =
     (if has_hex_prefix s then
        (let ds = drop 2 s in if ds \<noteq> [] \<and> list_all (\<lambda>c. digit_val c < 16) ds then Some (of_nat (digits_val 16 ds)) else None)
      else (case jnumber s of Some (m, []) \<Rightarrow> Some m | _ \<Rightarrow> None))"

text \<open>\<open>v == 1\<close>\<close>

definition loosely_one :: "json option \<Rightarrow> bool" where
  "loosely_one v = (case v of Some (Jnumber n) \<Rightarrow> n = 1 | Some (Jbool b) \<Rightarrow> b | Some (Jstring s) \<Rightarrow> js_Number s = Some 1 | _ \<Rightarrow> False)"

definition truthy :: "json option \<Rightarrow> bool" where
  "truthy v = (case v of None \<Rightarrow> False | Some Jnull \<Rightarrow> False | Some (Jbool b) \<Rightarrow> b | Some (Jnumber n) \<Rightarrow> n \<noteq> 0
     | Some (Jstring s) \<Rightarrow> s \<noteq> [] | _ \<Rightarrow> True)"

text \<open>\<open>r \<and> r.params \<and> r.params[0] \<and> r.params[0].k\<close>\<close>

definition guarded_param :: "json \<Rightarrow> string \<Rightarrow> json option" where
  "guarded_param r k =
     (let ps = opt_get (Some r) ''params''; p = opt_get ps ''0''
      in if truthy (Some r) \<and> truthy ps \<and> truthy p then opt_get p k else None)"

definition log_question :: "int \<Rightarrow> json \<Rightarrow> ('w lp_state, unit) eff" where
  "log_question mode r =
     bnd (if mode = 1 then
            bnd (lift_result (first_param r)) (\<lambda>p.
            write_log (Asked (opt_get (Some r) ''method'')
              (if nullish (opt_get p ''fromBlock'') then None else Some (opt_get p ''fromBlock'', opt_get p ''toBlock''))))
          else if mode = 2 then
            bnd (lift_result (sanitizeJsonRpcPayload r)) (\<lambda>c.
            bnd (write_log (AskedAll c)) (\<lambda>_.
            when_eff (truthy (guarded_param r ''topics'')) (write_log (Topics (the (guarded_param r ''topics''))))))
          else ret ()) (\<lambda>_.
     when_eff (loosely_one (guarded_param r ''fromBlock'')) (write_log LongOperation))"

definition logging_send :: "'w lp_env \<Rightarrow> int \<Rightarrow> json \<Rightarrow> ('w lp_state, rpc_reply) eff" where
  "logging_send env mode r =
     bnd (on_lp (lp_now env)) (\<lambda>startTimestamp.
     bnd (log_question mode r) (\<lambda>_.
     bnd (on_lp (lp_send env r)) (\<lambda>(err, res).
     bnd (on_lp (lp_now env)) (\<lambda>finish.
     let duration = finish - startTimestamp in
     bnd (if mode = 1 then write_log (Answered (opt_get (Some r) ''method'') duration)
          else if mode = 2 then write_log (AnsweredAll (opt_get (Some r) ''method'') duration err (sanitizeJsonRpcResponse res))
          else ret ()) (\<lambda>_. ret (err, res))))))"

text \<open>Mode 0 is the provider itself.\<close>

definition provider_send :: "'w lp_env \<Rightarrow> int \<Rightarrow> json \<Rightarrow> ('w lp_state, rpc_reply) eff" where
  "provider_send env mode r = (if mode = 0 then on_lp (lp_send env r) else logging_send env mode r)"

section \<open>Starting the server\<close>

datatype startup_step =
    OpenTxStore string int
  | InitInteractor string string
  | OpenReputationStore cfg_obj
  | NewTransactionManager "string list" "string list"
  | OpenTransactionCache string
  | NewExplorer string string
  | InitPenalizer
  | NewRelayServer string string
  | InitRelayServer
  | StartHttp int

record 'w start_env =
  rn_keys :: "'w key_env"
  rn_do :: "startup_step \<Rightarrow> ('w, unit) eff"

record 'w run_env = "'w start_env" +
  rn_hub :: "'w hub_contracts"
  rn_libs :: libs
  rn_interactor :: "Environment \<Rightarrow> interactor_config"
  rn_parseArgs :: "string list \<Rightarrow> cfg_obj \<Rightarrow> string list \<Rightarrow> cfg_obj \<times> string list"

definition TXSTORE_FILENAME :: string where
  "TXSTORE_FILENAME = ''txstore.db''"

definition REPUTATION_STORE_FILENAME :: string where
  "REPUTATION_STORE_FILENAME = ''reputation_store.db''"

definition TX_STORE_FILENAME :: string where
  "TX_STORE_FILENAME = ''penalizetxcache.db''"

definition TX_PAGES_FILENAME :: string where
  "TX_PAGES_FILENAME = ''penalizetxpages.db''"

definition store_files :: "string list" where
  "store_files = [TXSTORE_FILENAME, REPUTATION_STORE_FILENAME, TX_STORE_FILENAME, TX_PAGES_FILENAME]"

definition remove_store :: "string \<Rightarrow> string \<Rightarrow> ('w host, unit) eff" where
  "remove_store workdir f =
     bnd (existsSync (workdir @ ''/'' @ f)) (\<lambda>found. when_eff found (unlinkSync (workdir @ ''/'' @ f)))"

text \<open>A parameter file of a server: fields of other types than those of parameters are left out.\<close>

definition cfg_of_json :: "json \<Rightarrow> cfg_obj" where
  "cfg_of_json v =
     (case v of
        Jobject fs \<Rightarrow> List.map_filter (\<lambda>(k, x). case x of
            Jstring s \<Rightarrow> Some (k, CStr s) | Jnumber n \<Rightarrow> Some (k, CNum n) | Jbool b \<Rightarrow> Some (k, CBool b)
          | Jarray vs \<Rightarrow> Some (k, CList (List.map_filter (\<lambda>y. case y of Jstring s \<Rightarrow> Some s | _ \<Rightarrow> None) vs))
          | _ \<Rightarrow> None) fs
      | _ \<Rightarrow> [])"

definition config_on_disk :: "'w host \<Rightarrow> string \<Rightarrow> cfg_obj option" where
  "config_on_disk s f =
     (case lookup_path s f of
        Some (FileOf t) \<Rightarrow> (case json_parse t of Inr v \<Rightarrow> Some (cfg_of_json v) | Inl _ \<Rightarrow> None)
      | _ \<Rightarrow> None)"

definition resolve_on_host ::
  "'w run_env \<Rightarrow> cfg_obj \<Rightarrow> ('w host, ServerConfigParams \<times> Environment) eff" where
  "resolve_on_host env conf =
     on_hw (\<lambda>w. case resolveServerConfig (rn_hub env) (rn_libs env) (rn_interactor env) conf (fresh_ci w) of (r, c) \<Rightarrow> (r, world c))"

text \<open>The options of the reputation manager; a file named in them would replace them.\<close>

definition resolveReputationManagerConfig :: "cfg_obj \<Rightarrow> ('w host, cfg_obj) eff" where
  "resolveReputationManagerConfig config =
     (case map_of config ''configFileName'' of
        None \<Rightarrow> ret config
      | Some v \<Rightarrow>
          bnd (case v of CStr f \<Rightarrow> existsSync f | _ \<Rightarrow> ret False) (\<lambda>found.
          if \<not> found then throw (''unable to read config file '' @ show_val v)
          else bnd (readFileSync (show_val v)) (\<lambda>t. bnd (lift_result (json_parse t)) (\<lambda>j. ret (cfg_of_json j)))))"

definition startup_config ::
  "'w run_env \<Rightarrow> string list \<Rightarrow> cfg_obj \<Rightarrow> ('w host, ServerConfigParams \<times> Environment \<times> cfg_obj) eff" where
  "startup_config env args envVars =
     bnd (gets (\<lambda>s. parseServerConfig (rn_parseArgs env) (config_on_disk s) args envVars)) (\<lambda>parsed.
     bnd (lift_result parsed) (\<lambda>parsedConf.
     if map_of parsedConf ''ethereumNodeUrl'' = None then throw ''missing ethereumNodeUrl''
     else let conf = (if map_of parsedConf ''environmentName'' = None then map_set ''environmentName'' (CStr ''ganacheLocal'') parsedConf
                      else parsedConf) in
       bnd (resolve_on_host env conf) (\<lambda>(config, environment).
       bnd (resolveReputationManagerConfig conf) (\<lambda>reputationManagerConfig.
       ret (config, environment, reputationManagerConfig)))))"

definition start_penalizer :: "('w, 'e) start_env_scheme \<Rightarrow> ServerConfigParams \<Rightarrow> ('w host, unit) eff" where
  "start_penalizer env config =
     bnd (on_hw (rn_do env (OpenTransactionCache (sc_workdir config)))) (\<lambda>_.
     bnd (on_hw (rn_do env (NewExplorer (sc_etherscanApiUrl config) (sc_etherscanApiKey config)))) (\<lambda>_.
     on_hw (rn_do env InitPenalizer)))"

definition start_parts :: "('w, 'e) start_env_scheme \<Rightarrow> cfg_obj \<Rightarrow> ServerConfigParams \<Rightarrow> ('w host, unit) eff" where
  "start_parts env reputationManagerConfig config =
     bnd (when_eff (sc_devMode config) (for_each (remove_store (sc_workdir config)) store_files)) (\<lambda>_.
     bnd (newKeyManager (rn_keys env) 1 (Some (sc_workdir config @ ''/manager'')) None) (\<lambda>managerKeyManager.
     bnd (newKeyManager (rn_keys env) 1 (Some (sc_workdir config @ ''/workers/'' @ sc_relayHubAddress config)) None) (\<lambda>workersKeyManager.
     bnd (on_hw (rn_do env (OpenTxStore (sc_workdir config) (sc_dbAutoCompactionInterval config)))) (\<lambda>_.
     bnd (on_hw (rn_do env (InitInteractor (sc_relayHubAddress config) (sc_managerStakeTokenAddress config)))) (\<lambda>_.
     bnd (when_eff (sc_runPaymasterReputations config) (on_hw (rn_do env (OpenReputationStore reputationManagerConfig)))) (\<lambda>_.
     bnd (on_hw (rn_do env (NewTransactionManager (getAddresses managerKeyManager) (getAddresses workersKeyManager)))) (\<lambda>_.
     bnd (when_eff (sc_runPenalizer config) (start_penalizer env config)) (\<lambda>_.
     bnd (on_hw (rn_do env (NewRelayServer (km_getAddress managerKeyManager 0) (km_getAddress workersKeyManager 0)))) (\<lambda>_.
     bnd (on_hw (rn_do env InitRelayServer)) (\<lambda>_.
     on_hw (rn_do env (StartHttp (sc_port config)))))))))))))"

text \<open>An error of the configuration is printed and ends the process; any other one is not caught.\<close>

definition run :: "'w run_env \<Rightarrow> string list \<Rightarrow> cfg_obj \<Rightarrow> ('w host, unit) eff" where
  "run env args envVars = bnd (startup_config env args envVars) (\<lambda>(config, environment, reputationManagerConfig).
     start_parts env reputationManagerConfig config)"

end
