(* ===== verification/RunServerProps.thy ===== *)
theory RunServerProps imports RunServer begin

text \<open>
  Properties of a start: the logging provider passes requests and answers through, a start in development mode removes the
  stores and nothing else, the parts are started in a fixed order, the last one being the HTTP server, and a server that
  is started again is the same relay manager and worker.
\<close>

section \<open>The logging provider\<close>

lemma log_question_ok:
  assumes "mode = 1 \<or> mode = 2 \<Longrightarrow> \<exists>p. first_param r = Inr p"
  shows "\<exists>l. log_question mode r s = (Inr (), s\<lparr>lp_log := l\<rparr>)"
proof -
  have lw: "write_log x t = (Inr (), t\<lparr>lp_log := lp_log t @ [x]\<rparr>)" for x and t :: "'b lp_state"
    by (simp add: write_log_def modify_def)
  have slow: "\<exists>l. when_eff b (write_log LongOperation) (s\<lparr>lp_log := k\<rparr>) = (Inr (), s\<lparr>lp_log := l\<rparr>)" for b k
    by (auto simp: when_eff_def lw)
  consider "mode = 1" | "mode = 2" | "mode \<noteq> 1" "mode \<noteq> 2" by blast
  then show ?thesis
  proof cases
    case 1
    then obtain p where "first_param r = Inr p" using assms by blast
    then show ?thesis using 1 slow by (auto simp: log_question_def bnd_def lift_result_def lw)
  next
    case 2
    then obtain p where p: "first_param r = Inr p" using assms by blast
    have "\<exists>c. sanitizeJsonRpcPayload r = Inr c"
      using p by (auto simp: sanitizeJsonRpcPayload_def split: option.splits json.splits)
    then show ?thesis using 2 slow
      by (auto simp: log_question_def bnd_def lift_result_def lw when_eff_def)
  next
    case 3
    then show ?thesis using slow [of _ "lp_log s"] by (auto simp: log_question_def bnd_def)
  qed
qed

text \<open>
  whatever the mode, a request that has parameters gets the answer the provider gives to it, and the provider gets
  that request, once; only the log grows. In the modes that print requests one without parameters is not sent.
\<close>

theorem logging_transparent:
  assumes clock: "\<forall>w. \<exists>t. lp_now env w = (Inr t, w)"
  shows "if mode \<in> {1, 2} \<and> (\<exists>e. first_param r = Inl e)
    then \<exists>e. provider_send env mode r s = (Inl e, s)
    else fst (provider_send env mode r s) = fst (lp_send env r (lp_world s))
      \<and> lp_world (snd (provider_send env mode r s)) = snd (lp_send env r (lp_world s))"
proof -
  have now: "\<exists>t. on_lp (lp_now env) u = (Inr t, u)" for u
  proof -
    obtain t where "lp_now env (lp_world u) = (Inr t, lp_world u)" using clock by blast
    then show ?thesis by (simp add: on_lp_def zoom_def)
  qed
  obtain t0 where t0: "on_lp (lp_now env) s = (Inr t0, s)" using now by blast
  show ?thesis
  proof (cases "mode \<in> {1, 2} \<and> (\<exists>e. first_param r = Inl e)")
    case True
    then obtain e where e: "first_param r = Inl e" and m: "mode = 1 \<or> mode = 2" by blast
    have "log_question mode r s = (Inl e, s)"
      using m e by (auto simp: log_question_def bnd_def lift_result_def sanitizeJsonRpcPayload_def)
    then have "provider_send env mode r s = (Inl e, s)"
      using m t0 by (auto simp: provider_send_def logging_send_def bnd_def)
    then show ?thesis using True by auto
  next
    case False
    show ?thesis
    proof (cases "mode = 0")
      case True
      then show ?thesis using False by (simp add: provider_send_def on_lp_def zoom_def split: prod.splits)
    next
      case nonzero: False
      have "mode = 1 \<or> mode = 2 \<Longrightarrow> \<exists>p. first_param r = Inr p"
        using False by (cases "first_param r") auto
      then obtain l where l: "log_question mode r s = (Inr (), s\<lparr>lp_log := l\<rparr>)" using log_question_ok by blast
      obtain a w where a: "lp_send env r (lp_world s) = (a, w)" by fastforce
      let ?u = "s\<lparr>lp_log := l, lp_world := w\<rparr>"
      have send1: "on_lp (lp_send env r) (s\<lparr>lp_log := l\<rparr>) = (a, ?u)" using a by (simp add: on_lp_def zoom_def)
      obtain t1 where t1: "on_lp (lp_now env) ?u = (Inr t1, ?u)" using now by blast
      have "fst (logging_send env mode r s) = a \<and> lp_world (snd (logging_send env mode r s)) = w"
        using t0 l send1 t1
        by (cases a) (auto simp: logging_send_def bnd_def write_log_def modify_def Let_def split: prod.splits)
      then show ?thesis using nonzero False a by (auto simp: provider_send_def)
    qed
  qed
qed

definition sample_lp :: "nat lp_env" where
  "sample_lp = \<lparr>lp_send = (\<lambda>r w. (Inr (None, Some r), Suc w)), lp_now = gets int\<rparr>"

theorem logging_transparent_witness:
  "fst (provider_send sample_lp 2 (Jobject [(''method'', Jstring ''eth_call''), (''params'', Jarray [Jnull])]) \<lparr>lp_world = 4, lp_log = []\<rparr>)
     = Inr (None, Some (Jobject [(''method'', Jstring ''eth_call''), (''params'', Jarray [Jnull])]))"
proof -
  have c: "\<forall>w. \<exists>t. lp_now sample_lp w = (Inr t, w)" by (simp add: sample_lp_def gets_def)
  show ?thesis
    using logging_transparent [OF c, of 2 "Jobject [(''method'', Jstring ''eth_call''), (''params'', Jarray [Jnull])]" "\<lparr>lp_world = 4, lp_log = []\<rparr>"]
    by (simp add: first_param_def opt_get_def nullish_def js_get_def sample_lp_def)
qed

text \<open>What is printed of a long string is short, and a request without one is printed as it is.\<close>

lemma shortened_length: "length (shortened s) \<le> 1000" "length s \<le> 1000 \<Longrightarrow> shortened s = s"
  by (simp_all add: shortened_def)

section \<open>The stores of a development server\<close>

lemma remove_store_run:
  assumes "remove_store wd f s = (r, s')"
  shows "cwd s' = cwd s" and "hw s' = hw s" and "files s' = files s \<or> files s' = (files s)(place s (wd @ ''/'' @ f) := None)"
    and "r = Inr () \<Longrightarrow> lookup_path s' (wd @ ''/'' @ f) = None" and "tidy s \<Longrightarrow> tidy s'"
proof -
  have run: "(r, s') = (case lookup_path s (wd @ ''/'' @ f) of None \<Rightarrow> (Inr (), s)
    | Some Folder \<Rightarrow> (Inl (Error (''EPERM: operation not permitted, unlink '' @ wd @ ''/'' @ f)), s)
    | Some (FileOf c) \<Rightarrow> (Inr (), s\<lparr>files := (files s)(place s (wd @ ''/'' @ f) := None)\<rparr>))"
    using assms
    by (cases "lookup_path s (wd @ ''/'' @ f)")
      (auto simp: remove_store_def exists_run bnd_def when_eff_def unlinkSync_def gets_def throw_def raise_def modify_def
        simp del: append.simps split: fs_node.splits)
  show "cwd s' = cwd s" and "hw s' = hw s" and "files s' = files s \<or> files s' = (files s)(place s (wd @ ''/'' @ f) := None)"
    using run by (auto split: option.splits fs_node.splits)
  show "r = Inr () \<Longrightarrow> lookup_path s' (wd @ ''/'' @ f) = None"
    using run by (auto simp: lookup_path_def place_def node_at_def split: option.splits fs_node.splits if_splits)
  show "tidy s \<Longrightarrow> tidy s'"
    using run
    by (auto simp: tidy_def well_placed_def node_at_def lookup_path_def split: option.splits fs_node.splits if_splits)
      (metis fs_node.distinct(1) option.distinct(1) option.inject)
qed

lemma remove_stores_run:
  "for_each (remove_store wd) fs s = (r, s') \<Longrightarrow>
   cwd s' = cwd s \<and> hw s' = hw s \<and> (tidy s \<longrightarrow> tidy s') \<and>
   (\<forall>p. p \<notin> (\<lambda>f. place s (wd @ ''/'' @ f)) ` set fs \<longrightarrow> files s' p = files s p) \<and> (\<forall>p. files s' p = files s p \<or> files s' p = None) \<and>
   (r = Inr () \<longrightarrow> (\<forall>f \<in> set fs. lookup_path s' (wd @ ''/'' @ f) = None))"
proof (induction fs arbitrary: s)
  case (Cons f fs)
  obtain r1 t where t: "remove_store wd f s = (r1, t)" by fastforce
  note one = remove_store_run [OF t]
  show ?case
  proof (cases r1)
    case (Inl e)
    then have "s' = t \<and> r = Inl e" using Cons.prems t by (auto simp: bnd_def)
    then show ?thesis using one by (auto split: if_splits)
  next
    case (Inr x)
    then have rest: "for_each (remove_store wd) fs t = (r, s')" using Cons.prems t by (simp add: bnd_def)
    note IH = Cons.IH [OF rest]
    have "lookup_path s' (wd @ ''/'' @ f) = None" if "r = Inr ()"
    proof -
      have "lookup_path t (wd @ ''/'' @ f) = None" using one(4) Inr by simp
      then show ?thesis using IH by (auto simp: lookup_path_def place_def node_at_def split: if_splits) (metis option.distinct(1))+
    qed
    moreover have places: "place t p = place s p" for p using one(1) by (simp add: place_def)
    moreover have "files s' p = files s p" if "p \<notin> (\<lambda>g. place s (wd @ ''/'' @ g)) ` set (f # fs)" for p
    proof -
      have "files t p = files s p" using one(3) that by auto
      then show ?thesis using IH that places by simp
    qed
    moreover have "files s' p = files s p \<or> files s' p = None" for p
    proof -
      have "files t p = files s p \<or> files t p = None" using one(3) by (auto split: if_splits)
      then show ?thesis using IH by metis
    qed
    ultimately show ?thesis using one IH by simp
  qed
qed simp

text \<open>Keys are not at the place of a store.\<close>

lemma store_names: "f \<in> set store_files \<Longrightarrow> file_name f \<and> f \<noteq> KEYSTORE_FILENAME"
  by (auto simp: store_files_def TXSTORE_FILENAME_def REPUTATION_STORE_FILENAME_def TX_STORE_FILENAME_def TX_PAGES_FILENAME_def
      file_name_def KEYSTORE_FILENAME_def)

section \<open>The order of a start\<close>

definition startup_plan :: "cfg_obj \<Rightarrow> ServerConfigParams \<Rightarrow> key_manager \<Rightarrow> key_manager \<Rightarrow> startup_step list" where
  "startup_plan rep config m w =
     [OpenTxStore (sc_workdir config) (sc_dbAutoCompactionInterval config),
      InitInteractor (sc_relayHubAddress config) (sc_managerStakeTokenAddress config)] @
     (if sc_runPaymasterReputations config then [OpenReputationStore rep] else []) @
     [NewTransactionManager (getAddresses m) (getAddresses w)] @
     (if sc_runPenalizer config then
        [OpenTransactionCache (sc_workdir config), NewExplorer (sc_etherscanApiUrl config) (sc_etherscanApiKey config), InitPenalizer] else []) @
     [NewRelayServer (km_getAddress m 0) (km_getAddress w 0), InitRelayServer, StartHttp (sc_port config)]"

definition do_all :: "('w, 'e) start_env_scheme \<Rightarrow> startup_step list \<Rightarrow> ('w host, unit) eff" where
  "do_all env sts = for_each (\<lambda>st. on_hw (rn_do env st)) sts"

lemma bnd_ret_unit: "bnd m ret = m"
  by (auto simp: bnd_def fun_eq_iff split: prod.splits sum.splits)

lemma bnd_assoc: "bnd (bnd m f) g = bnd m (\<lambda>x. bnd (f x) g)"
  by (auto simp: bnd_def fun_eq_iff split: prod.splits sum.splits)

lemma start_parts_plan:
  "start_parts env rep config =
     bnd (when_eff (sc_devMode config) (for_each (remove_store (sc_workdir config)) store_files)) (\<lambda>_.
     bnd (newKeyManager (rn_keys env) 1 (Some (sc_workdir config @ ''/manager'')) None) (\<lambda>m.
     bnd (newKeyManager (rn_keys env) 1 (Some (sc_workdir config @ ''/workers/'' @ sc_relayHubAddress config)) None) (\<lambda>w.
     do_all env (startup_plan rep config m w))))"
  unfolding start_parts_def do_all_def startup_plan_def start_penalizer_def
  by (cases "sc_runPaymasterReputations config"; cases "sc_runPenalizer config") (simp_all add: when_eff_def bnd_ret_unit bnd_assoc)

text \<open>A world that keeps the list of the steps that were done; a step that fails is not in it, keys are not steps.\<close>

definition steps_kept :: "('w \<Rightarrow> startup_step list) \<Rightarrow> ('w, 'e) start_env_scheme \<Rightarrow> bool" where
  "steps_kept lg env \<longleftrightarrow>
     (\<forall>st w. case rn_do env st w of (Inr _, w') \<Rightarrow> lg w' = lg w @ [st] | (Inl _, w') \<Rightarrow> lg w' = lg w) \<and>
     (\<forall>w. lg (snd (kg_generate (rn_keys env) w)) = lg w)"

lemma step_run:
  assumes "steps_kept lg env" and "on_hw (rn_do env st) s = (r, s')"
  shows "lg (hw s') = lg (hw s) @ (if r = Inr () then [st] else []) \<and> cwd s' = cwd s \<and> files s' = files s"
proof -
  have "case rn_do env st (hw s) of (Inr _, w') \<Rightarrow> lg w' = lg (hw s) @ [st] | (Inl _, w') \<Rightarrow> lg w' = lg (hw s)"
    using assms(1) by (simp add: steps_kept_def)
  then show ?thesis using assms(2) by (auto simp: on_hw_def zoom_def split: prod.splits sum.splits)
qed

lemma do_all_run:
  "steps_kept lg env \<Longrightarrow> do_all env sts s = (r, s') \<Longrightarrow>
   cwd s' = cwd s \<and> files s' = files s \<and>
   (case r of Inr _ \<Rightarrow> lg (hw s') = lg (hw s) @ sts | Inl _ \<Rightarrow> \<exists>k < length sts. lg (hw s') = lg (hw s) @ take k sts)"
proof (induction sts arbitrary: s)
  case (Cons st sts)
  obtain r1 t where t: "on_hw (rn_do env st) s = (r1, t)" by fastforce
  note one = step_run [OF Cons.prems(1) t]
  show ?case
  proof (cases r1)
    case (Inl e)
    then have "r = Inl e \<and> s' = t" using Cons.prems(2) t by (auto simp: do_all_def bnd_def)
    then show ?thesis using one Inl by (auto intro: exI [of _ 0])
  next
    case (Inr x)
    then have "do_all env sts t = (r, s')" using Cons.prems(2) t by (simp add: do_all_def bnd_def)
    note IH = Cons.IH [OF Cons.prems(1) this]
    show ?thesis
    proof (cases r)
      case (Inl e)
      then obtain k where "k < length sts" and "lg (hw s') = lg (hw t) @ take k sts" using IH by auto
      then have "Suc k < length (st # sts)" and "lg (hw s') = lg (hw s) @ take (Suc k) (st # sts)" using one Inr by auto
      then show ?thesis using IH one Inl by auto
    qed (use IH one Inr in auto)
  qed
qed (auto simp: do_all_def)

lemma keys_silent:
  assumes kept: "steps_kept lg env" and run: "newKeyManager (rn_keys env) n (Some dir) None s = (r, s')"
  shows "lg (hw s') = lg (hw s)"
proof -
  have gen: "keeps (\<lambda>s. lg (hw s) = l) (on_hw (kg_generate (rn_keys env)))" for l
    using kept by (auto simp: keeps_def on_hw_def zoom_def steps_kept_def split: prod.splits) (metis snd_conv)
  have disk: "keeps (\<lambda>s. lg (hw s) = l) (writeFileSync p c)" "keeps (\<lambda>s. lg (hw s) = l) (existsSync p)"
    "keeps (\<lambda>s. lg (hw s) = l) (readFileSync p)" for p c l
    by (auto simp: keeps_def existsSync_def readFileSync_def writeFileSync_def gets_def bnd_def throw_def raise_def modify_def
        split: if_splits option.splits fs_node.splits)
  have folder: "keeps (\<lambda>s. lg (hw s) = l) (mkdirSync p)" for p l
    using mkdir_run(2) unfolding keeps_def by (metis prod.collapse)
  have "keeps (\<lambda>s. lg (hw s) = l) (newKeyManager (rn_keys env) n (Some dir) None)" for l
    unfolding newKeyManager_def stored_seed_def Let_def
    by (simp, intro keeps_intros disk folder gen)
  from this [of "lg (hw s)"] show ?thesis unfolding keeps_def using run by (metis snd_conv)
qed

section \<open>The same relay on every start\<close>

lemma tidy_newKeyManager:
  fixes env :: "'w key_env"
  shows "keeps tidy (newKeyManager env n (Some dir) None)"
proof -
  have hw: "keeps tidy (on_hw (kg_generate env))"
    by (auto simp: keeps_def on_hw_def zoom_def tidy_def split: prod.splits)
  have exists: "keeps tidy (existsSync p)" for p
    by (simp add: keeps_def existsSync_def gets_def)
  show ?thesis
    unfolding newKeyManager_def stored_seed_def Let_def
    by (simp, intro keeps_intros hw exists tidy_mkdirSync tidy_readFileSync tidy_writeFileSync)
qed

lemma keystore_kept:
  assumes ks: "keystore_of dir seed s" and kept: "files_kept qs s s'" and t: "tidy s'" and d: "dir \<noteq> []"
    and other: "place s dir @ [KEYSTORE_FILENAME] \<notin> qs"
  shows "keystore_of dir seed s'"
proof -
  obtain c where c: "lookup_path s (dir @ ''/'' @ KEYSTORE_FILENAME) = Some (FileOf c)"
    "(case json_parse c of Inl e \<Rightarrow> Inl e | Inr v \<Rightarrow> json_field v ''seed'') = Inr seed"
    using ks unfolding keystore_of_def by blast
  have c': "lookup_path s' (dir @ ''/'' @ KEYSTORE_FILENAME) = Some (FileOf c)"
    by (rule lookup_kept [OF kept c(1)]) (use other place_child [OF d, of s] in simp)
  then have "files s' (place s' dir @ [KEYSTORE_FILENAME]) \<noteq> None"
    using place_child [OF d, of s'] by (auto simp: lookup_path_def node_at_def split: if_splits)
  then have "node_at (files s') (place s' dir) = Some Folder" using t unfolding tidy_def well_placed_def by (metis append_is_Nil_conv butlast_snoc not_Cons_self2)
  then have "lookup_path s' dir \<noteq> None" using d by (simp add: lookup_path_def)
  then show ?thesis using c' c(2) by (auto simp: keystore_of_def)
qed

definition manager_dir :: "ServerConfigParams \<Rightarrow> string" where
  "manager_dir config = sc_workdir config @ ''/manager''"

definition workers_dir :: "ServerConfigParams \<Rightarrow> string" where
  "workers_dir config = sc_workdir config @ ''/workers/'' @ sc_relayHubAddress config"

definition usual_config :: "ServerConfigParams \<Rightarrow> bool" where
  "usual_config config \<longleftrightarrow> sc_workdir config \<noteq> [] \<and> file_name (sc_relayHubAddress config)"

lemma key_places:
  assumes "usual_config config"
  shows "place s (manager_dir config) = place s (sc_workdir config) @ [''manager'']"
    and "place s (workers_dir config) = place s (sc_workdir config) @ [''workers'', sc_relayHubAddress config]"
    and "f \<in> set store_files \<Longrightarrow> place s (sc_workdir config @ ''/'' @ f) = place s (sc_workdir config) @ [f]"
proof -
  have w: "sc_workdir config \<noteq> []" and h: "file_name (sc_relayHubAddress config)" using assms by (simp_all add: usual_config_def)
  show "place s (manager_dir config) = place s (sc_workdir config) @ [''manager'']"
    using place_in [of "''manager''" "sc_workdir config" s] w by (simp add: manager_dir_def path_join_def file_name_def)
  have "workers_dir config = path_join (path_join (sc_workdir config) ''workers'') (sc_relayHubAddress config)"
    using w by (simp add: workers_dir_def path_join_def)
  then show "place s (workers_dir config) = place s (sc_workdir config) @ [''workers'', sc_relayHubAddress config]"
    using place_in [OF h, of "path_join (sc_workdir config) ''workers''" s] place_in [of "''workers''" "sc_workdir config" s] w
    by (simp add: path_join_def file_name_def)
  show "f \<in> set store_files \<Longrightarrow> place s (sc_workdir config @ ''/'' @ f) = place s (sc_workdir config) @ [f]"
    using place_in [of f "sc_workdir config" s] w store_names [of f] by (simp add: path_join_def)
qed

lemma wipe_keeps:
  assumes "when_eff b (for_each (remove_store (sc_workdir config)) store_files) s = (r, s')" and "usual_config config" and "tidy s"
  shows "tidy s' \<and> hw s' = hw s \<and> files_kept {place s (sc_workdir config) @ [f] | f. True} s s'"
proof (cases b)
  case True
  then have "for_each (remove_store (sc_workdir config)) store_files s = (r, s')" using assms(1) by (simp add: when_eff_def)
  note run = remove_stores_run [OF this]
  have "files s' p = files s p" if "p \<notin> {place s (sc_workdir config) @ [f] | f. True}" for p
  proof -
    have "p \<notin> (\<lambda>f. place s (sc_workdir config @ ''/'' @ f)) ` set store_files"
      using that key_places(3) [OF assms(2)] by auto
    then show ?thesis using run by blast
  qed
  then show ?thesis using run assms(3) by (auto simp: files_kept_def)
next
  case False
  then show ?thesis using assms by (simp add: when_eff_def)
qed

text \<open>What a start with these seeds does, and which keys it has.\<close>

definition seeded :: "('w, 'e) start_env_scheme \<Rightarrow> ServerConfigParams \<Rightarrow> key_manager \<Rightarrow> key_manager \<Rightarrow> 'w host \<Rightarrow> bool" where
  "seeded env config m w s \<longleftrightarrow>
     (\<exists>seed hdkey. keystore_of (manager_dir config) seed s \<and> kg_fromMasterSeed (rn_keys env) seed = Inr hdkey
        \<and> m = generate_keys (rn_keys env) hdkey 1) \<and>
     (\<exists>seed hdkey. keystore_of (workers_dir config) seed s \<and> kg_fromMasterSeed (rn_keys env) seed = Inr hdkey
        \<and> w = generate_keys (rn_keys env) hdkey 1)"

lemma start_split:
  assumes "start_parts env rep config s = (Inr (), s')"
  obtains a b c m w where "when_eff (sc_devMode config) (for_each (remove_store (sc_workdir config)) store_files) s = (Inr (), a)"
    and "newKeyManager (rn_keys env) 1 (Some (manager_dir config)) None a = (Inr m, b)"
    and "newKeyManager (rn_keys env) 1 (Some (workers_dir config)) None b = (Inr w, c)"
    and "do_all env (startup_plan rep config m w) c = (Inr (), s')"
  using assms unfolding start_parts_plan manager_dir_def workers_dir_def by (auto elim!: bnd_InrE)

lemma start_seeds:
  assumes kept: "steps_kept lg env" and usual: "usual_config config" and tidy: "tidy s"
    and run: "start_parts env rep config s = (Inr (), s')"
  obtains m w where "seeded env config m w s'" and "lg (hw s') = lg (hw s) @ startup_plan rep config m w"
proof -
  obtain a b c m w where wipe: "when_eff (sc_devMode config) (for_each (remove_store (sc_workdir config)) store_files) s = (Inr (), a)"
    and m: "newKeyManager (rn_keys env) 1 (Some (manager_dir config)) None a = (Inr m, b)"
    and w: "newKeyManager (rn_keys env) 1 (Some (workers_dir config)) None b = (Inr w, c)"
    and steps: "do_all env (startup_plan rep config m w) c = (Inr (), s')"
    by (rule start_split [OF run])
  have a: "tidy a" "hw a = hw s" using wipe_keeps [OF wipe usual tidy] by simp_all
  have b: "tidy b" and c: "tidy c" using tidy_newKeyManager m w a unfolding keeps_def by (metis snd_conv)+
  obtain seed1 hd1 where s1: "keystore_of (manager_dir config) seed1 b" "kg_fromMasterSeed (rn_keys env) seed1 = Inr hd1"
    "m = generate_keys (rn_keys env) hd1 1"
    using newKeyManager_made [OF m a(1)] by blast
  obtain seed2 hd2 where s2: "keystore_of (workers_dir config) seed2 c" "kg_fromMasterSeed (rn_keys env) seed2 = Inr hd2"
    "w = generate_keys (rn_keys env) hd2 1" and k2: "files_kept {place b (workers_dir config @ ''/'' @ KEYSTORE_FILENAME)} b c"
    using newKeyManager_made [OF w b] by blast
  have dirs: "manager_dir config \<noteq> []" "workers_dir config \<noteq> []" by (simp_all add: manager_dir_def workers_dir_def)
  have "keystore_of (manager_dir config) seed1 c"
    by (rule keystore_kept [OF s1(1) k2 c dirs(1)]) (unfold place_child [OF dirs(2)] key_places [OF usual], simp)
  moreover from this have same: "keystore_of dir seed s' = keystore_of dir seed c" for dir seed
    using do_all_run [OF kept steps] by (simp add: keystore_of_def lookup_path_def place_def)
  ultimately have "seeded env config m w s'" using s1(2,3) s2 unfolding seeded_def same by blast
  moreover have "lg (hw s') = lg (hw s) @ startup_plan rep config m w"
    using do_all_run [OF kept steps] keys_silent [OF kept m] keys_silent [OF kept w] a(2) by simp
  ultimately show thesis using that by blast
qed

lemma seeded_start:
  assumes kept: "steps_kept lg env" and usual: "usual_config config" and tidy: "tidy t" and seeds: "seeded env config m w t"
    and run: "start_parts env rep config t = (Inr (), t')"
  shows "lg (hw t') = lg (hw t) @ startup_plan rep config m w"
proof -
  obtain a b c m' w' where wipe: "when_eff (sc_devMode config) (for_each (remove_store (sc_workdir config)) store_files) t = (Inr (), a)"
    and m': "newKeyManager (rn_keys env) 1 (Some (manager_dir config)) None a = (Inr m', b)"
    and w': "newKeyManager (rn_keys env) 1 (Some (workers_dir config)) None b = (Inr w', c)"
    and steps: "do_all env (startup_plan rep config m' w') c = (Inr (), t')"
    by (rule start_split [OF run])
  have a: "tidy a" "hw a = hw t" "files_kept {place t (sc_workdir config) @ [f] | f. True} t a"
    using wipe_keeps [OF wipe usual tidy] by simp_all
  have dirs: "manager_dir config \<noteq> []" "workers_dir config \<noteq> []" by (simp_all add: manager_dir_def workers_dir_def)
  have still: "keystore_of dir seed a" if "keystore_of dir seed t" and "dir \<in> {manager_dir config, workers_dir config}" for dir seed
    using that(2) dirs by (intro keystore_kept [OF that(1) a(3) a(1)]) (auto simp: key_places [OF usual])
  obtain seed1 hd1 seed2 hd2 where k1: "keystore_of (manager_dir config) seed1 t" "kg_fromMasterSeed (rn_keys env) seed1 = Inr hd1"
      "m = generate_keys (rn_keys env) hd1 1"
    and k2: "keystore_of (workers_dir config) seed2 t" "kg_fromMasterSeed (rn_keys env) seed2 = Inr hd2"
      "w = generate_keys (rn_keys env) hd2 1"
    using seeds unfolding seeded_def by blast
  have "newKeyManager (rn_keys env) 1 (Some (manager_dir config)) None a = (Inr m, a)"
    unfolding k1(3) by (rule newKeyManager_again [OF still [OF k1(1)] k1(2)]) simp
  then have 1: "m' = m" "b = a" using m' by simp_all
  have "newKeyManager (rn_keys env) 1 (Some (workers_dir config)) None a = (Inr w, a)"
    unfolding k2(3) by (rule newKeyManager_again [OF still [OF k2(1)] k2(2)]) simp
  then have 2: "w' = w" "c = a" using w' 1 by simp_all
  show ?thesis using do_all_run [OF kept steps] a(2) 1 2 by simp
qed

text \<open>
  C16: a server that is started again is the same relay: every successful start does the steps of its configuration in
  their order, the HTTP server last, and as long as the two keystores of the work directory are left as the first start
  left them, a later start has the same relay manager and the same worker, in development mode too.
\<close>

theorem restart_same_relay:
  assumes kept: "steps_kept lg env" and usual: "usual_config config"
    and first_start: "tidy s" "start_parts env rep config s = (Inr (), s')"
    and second: "tidy t" "start_parts env rep config t = (Inr (), t')"
    and keystores: "\<forall>dir \<in> {manager_dir config, workers_dir config}. lookup_path t dir = lookup_path s' dir
      \<and> lookup_path t (dir @ ''/'' @ KEYSTORE_FILENAME) = lookup_path s' (dir @ ''/'' @ KEYSTORE_FILENAME)"
  shows "\<exists>m w. lg (hw s') = lg (hw s) @ startup_plan rep config m w \<and> lg (hw t') = lg (hw t) @ startup_plan rep config m w"
proof -
  obtain m w where mw: "seeded env config m w s'" "lg (hw s') = lg (hw s) @ startup_plan rep config m w"
    using start_seeds [OF kept usual first_start] by blast
  have "keystore_of dir seed t = keystore_of dir seed s'" if dir: "dir \<in> {manager_dir config, workers_dir config}" for dir seed
  proof -
    note same = bspec [OF keystores dir]
    show ?thesis unfolding keystore_of_def same [THEN conjunct1] same [THEN conjunct2] ..
  qed
  then have "seeded env config m w t" using mw(1) by (simp add: seeded_def)
  then show ?thesis using seeded_start [OF kept usual second(1) _ second(2)] mw(2) by blast
qed

text \<open>An instance: a world that is the list of steps, with one kind of step that fails.\<close>

definition sample_start_env :: "startup_step \<Rightarrow> startup_step list start_env" where
  "sample_start_env bad =
     \<lparr>rn_keys = \<lparr>kg_generate = (\<lambda>w. (Inr [CHR 0x5A, CHR 0x0C], w)),
        kg_fromMasterSeed = (\<lambda>j. case j of Some (Jstring s) \<Rightarrow> Inr s | _ \<Rightarrow> Inl (Error ''seed'')),
        kg_derive = (\<lambda>seed i. (''0x'' @ seed @ nat_to_radix 10 i, ''k'' @ seed @ nat_to_radix 10 i))\<rparr>,
      rn_do = (\<lambda>st w. if st = bad then (Inl (Error ''failed''), w) else (Inr (), w @ [st]))\<rparr>"

definition sample_server :: ServerConfigParams where
  "sample_server = serverDefaultConfiguration\<lparr>sc_workdir := ''data'', sc_devMode := True, sc_relayHubAddress := ''0xhub''\<rparr>"

definition sample_disk :: "startup_step list host" where
  "sample_disk = \<lparr>hw = [], cwd = [''home''], files = (\<lambda>p. if p = [''home''] then Some Folder else None)\<rparr>"

lemma sample_kept: "steps_kept id (sample_start_env bad)"
  by (simp add: steps_kept_def sample_start_env_def)

lemma sample_tidy: "tidy sample_disk"
  by (auto simp: tidy_def well_placed_def sample_disk_def node_at_def)

lemma sample_usual: "usual_config sample_server"
  by (simp add: usual_config_def sample_server_def file_name_def)

lemma tidy_start:
  assumes "steps_kept lg env" and "usual_config config" and "tidy s" and "start_parts env rep config s = (Inr (), s')"
  shows "tidy s'"
proof -
  obtain a b c m w where wipe: "when_eff (sc_devMode config) (for_each (remove_store (sc_workdir config)) store_files) s = (Inr (), a)"
    and m: "newKeyManager (rn_keys env) 1 (Some (manager_dir config)) None a = (Inr m, b)"
    and w: "newKeyManager (rn_keys env) 1 (Some (workers_dir config)) None b = (Inr w, c)"
    and steps: "do_all env (startup_plan rep config m w) c = (Inr (), s')"
    by (rule start_split [OF assms(4)])
  have "tidy a" using wipe_keeps [OF wipe assms(2,3)] by simp
  then have "tidy c" using tidy_newKeyManager m w unfolding keeps_def by (metis snd_conv)
  then show ?thesis using do_all_run [OF assms(1) steps] by (simp add: tidy_def)
qed

theorem restart_same_relay_witness:
  "let run = start_parts (sample_start_env (StartHttp 1)) [] sample_server; first = run sample_disk; second = run (snd first)
   in fst first = Inr () \<and> fst second = Inr () \<and> hw (snd second) = hw (snd first) @ hw (snd first) \<and> length (hw (snd first)) = 10"
proof -
  let ?run = "start_parts (sample_start_env (StartHttp 1)) [] sample_server"
  have f: "fst (?run sample_disk) = Inr ()" and s: "fst (?run (snd (?run sample_disk))) = Inr ()"
    and l: "length (hw (snd (?run sample_disk))) = 10" and h: "hw sample_disk = []"
    by code_simp+
  have 1: "?run sample_disk = (Inr (), snd (?run sample_disk))" using f by (metis prod.collapse)
  have 2: "?run (snd (?run sample_disk)) = (Inr (), snd (?run (snd (?run sample_disk))))" using s by (metis prod.collapse)
  have "\<exists>m w. hw (snd (?run sample_disk)) = hw sample_disk @ startup_plan [] sample_server m w
      \<and> hw (snd (?run (snd (?run sample_disk)))) = hw (snd (?run sample_disk)) @ startup_plan [] sample_server m w"
    using restart_same_relay [OF sample_kept sample_usual sample_tidy 1 tidy_start [OF sample_kept sample_usual sample_tidy 1] 2]
    by simp
  then show ?thesis using f s l h by (auto simp: Let_def)
qed

text \<open>
  The options of the reputation manager are never read from a file: an option that names one is refused before, and the
  options of the server are used in its place.
\<close>

lemma entriesToObj_keys: "fst ` set (entriesToObj es) = fst ` set es"
proof -
  have "fst ` set (foldl (\<lambda>o1 (k, v). map_set k v o1) m es) = fst ` set m \<union> fst ` set es" for m
  proof (induction es arbitrary: m)
    case (Cons e es)
    then show ?case using set_map_fst_map_set [of "fst e" "snd e" m] by (simp add: case_prod_unfold)
  qed simp
  then show ?thesis by (simp add: entriesToObj_def)
qed

lemma explicitType_key: "explicitType e = Inr e' \<Longrightarrow> fst e' = fst e \<and> map_of ConfigParamsTypes (fst e) \<noteq> None"
  by (cases e) (auto simp: explicitType_def Let_def split: option.splits if_splits)

lemma map_result_keys: "map_result explicitType es = Inr es' \<Longrightarrow> list_all (\<lambda>e. map_of ConfigParamsTypes (fst e) \<noteq> None) es'"
  by (induction es arbitrary: es') (auto split: sum.splits dest: explicitType_key)

lemma parseServerConfig_keys:
  assumes "parseServerConfig parse_args read_config args env = Inr conf" and "map_of ConfigParamsTypes k = None"
  shows "map_of conf k = None"
proof -
  obtain es es' where es: "map_result explicitType es = Inr es'" and conf: "conf = entriesToObj es'"
  proof -
    have "\<exists>es. map_sum id entriesToObj (map_result explicitType es) = Inr conf"
      using assms(1) by (auto simp: parseServerConfig_def Let_def split: prod.splits if_splits option.splits cfg_val.splits)
    then obtain es where "map_sum id entriesToObj (map_result explicitType es) = Inr conf" ..
    then show thesis using that by (cases "map_result explicitType es") auto
  qed
  have "k \<notin> fst ` set es'" using map_result_keys [OF es] assms(2) by (auto simp: list_all_iff)
  then show ?thesis by (simp add: conf map_of_eq_None_iff entriesToObj_keys)
qed

lemma no_reputation_file:
  fixes env :: "'w run_env"
  assumes "startup_config env args envVars s = (Inr (config, environment, rep), s')"
  obtains conf where "parseServerConfig (rn_parseArgs env) (config_on_disk s) args envVars = Inr conf"
    and "rep = (if map_of conf ''environmentName'' = None then map_set ''environmentName'' (CStr ''ganacheLocal'') conf else conf)"
proof -
  obtain conf where conf: "parseServerConfig (rn_parseArgs env) (config_on_disk s) args envVars = Inr conf"
    using assms by (cases "parseServerConfig (rn_parseArgs env) (config_on_disk s) args envVars")
      (auto simp: startup_config_def bnd_def gets_def lift_result_def)
  let ?c = "if map_of conf ''environmentName'' = None then map_set ''environmentName'' (CStr ''ganacheLocal'') conf else conf"
  have "map_of conf ''configFileName'' = None"
    by (rule parseServerConfig_keys [OF conf]) (simp add: ConfigParamsTypes_def)
  then have "map_of ?c ''configFileName'' = None" by simp
  then have "resolveReputationManagerConfig ?c t = (Inr ?c, t)" for t :: "'w host" by (simp add: resolveReputationManagerConfig_def)
  then have "rep = ?c"
    using assms conf by (auto simp: startup_config_def bnd_def gets_def lift_result_def Let_def split: prod.splits sum.splits if_splits)
  then show thesis using that conf by simp
qed

lemma no_steps:
  assumes "l' = l"
  shows "\<exists>m w k. k < length (startup_plan rep config m w) \<and> l' = l @ take k (startup_plan rep config m w)"
proof (intro exI conjI)
  show "0 < length (startup_plan rep config undefined undefined)" by (simp add: startup_plan_def)
  show "l' = l @ take 0 (startup_plan rep config undefined undefined)" by (simp add: assms)
qed

text \<open>C22: a start that fails has done the first steps of its plan and no others: the HTTP server is not started.\<close>

theorem failed_start_is_partial:
  fixes env :: "('w, 'e) start_env_scheme"
  assumes kept: "steps_kept lg env"
  shows "case start_parts env rep config s of
      (Inr _, s') \<Rightarrow> \<exists>m w. lg (hw s') = lg (hw s) @ startup_plan rep config m w
    | (Inl _, s') \<Rightarrow> \<exists>m w k. k < length (startup_plan rep config m w) \<and> lg (hw s') = lg (hw s) @ take k (startup_plan rep config m w)"
proof -
  obtain r1 a where a: "when_eff (sc_devMode config) (for_each (remove_store (sc_workdir config)) store_files) s = (r1, a)" by fastforce
  have ha: "hw a = hw s"
  proof (cases "sc_devMode config")
    case True
    then show ?thesis using a remove_stores_run [of "sc_workdir config" store_files s r1 a] by (simp add: when_eff_def)
  qed (use a in \<open>simp add: when_eff_def\<close>)
  obtain r2 b where b: "newKeyManager (rn_keys env) 1 (Some (sc_workdir config @ ''/manager'')) None a = (r2, b)" by fastforce
  obtain r3 c where c: "newKeyManager (rn_keys env) 1 (Some (sc_workdir config @ ''/workers/'' @ sc_relayHubAddress config)) None b = (r3, c)"
    by fastforce
  have lb: "lg (hw b) = lg (hw s)" and lc: "lg (hw c) = lg (hw s)"
    using keys_silent [OF kept b] keys_silent [OF kept c] ha by simp_all
  show ?thesis
  proof (cases r1)
    case (Inl e)
    then have run: "start_parts env rep config s = (Inl e, a)" using a by (simp add: start_parts_plan bnd_def)
    show ?thesis unfolding run prod.case sum.case by (rule no_steps [OF arg_cong [OF ha, of lg]])
  next
    case 1: (Inr x)
    show ?thesis
    proof (cases r2)
      case (Inl e)
      then have run: "start_parts env rep config s = (Inl e, b)" using a b 1 by (simp add: start_parts_plan bnd_def)
      show ?thesis unfolding run prod.case sum.case by (rule no_steps [OF lb])
    next
      case 2: (Inr m)
      show ?thesis
      proof (cases r3)
        case (Inl e)
        then have run: "start_parts env rep config s = (Inl e, c)"
          using a b c 1 2 by (simp add: start_parts_plan bnd_def del: append.simps)
        show ?thesis unfolding run prod.case sum.case by (rule no_steps [OF lc])
      next
        case (Inr w)
        obtain r s' where d: "do_all env (startup_plan rep config m w) c = (r, s')" by fastforce
        then have "start_parts env rep config s = (r, s')"
          using a b c 1 2 Inr by (simp add: start_parts_plan bnd_def del: append.simps)
        then show ?thesis using do_all_run [OF kept d] lc by (cases r) auto
      qed
    qed
  qed
qed

theorem failed_start_is_partial_witness:
  "fst (start_parts (sample_start_env InitRelayServer) [] sample_server sample_disk) = Inl (Error ''failed'')
   \<and> (\<exists>m w k. k < length (startup_plan [] sample_server m w)
        \<and> hw (snd (start_parts (sample_start_env InitRelayServer) [] sample_server sample_disk)) = take k (startup_plan [] sample_server m w))"
proof -
  let ?r = "start_parts (sample_start_env InitRelayServer) [] sample_server sample_disk"
  have f: "fst ?r = Inl (Error ''failed'')" and h: "hw sample_disk = []" by code_simp+
  from f have "?r = (Inl (Error ''failed''), snd ?r)" by (metis prod.collapse)
  then show ?thesis using failed_start_is_partial [OF sample_kept [of InitRelayServer], of "[]" sample_server sample_disk] f h
    by (auto split: prod.splits)
qed

end
