(* ===== verification/Signatures.thy ===== *)
theory Signatures imports ServerConfig "HOL-Library.Word" begin

text \<open>
  The rest of \<open>packages/common/src/Utils.ts\<close>: asking the node for a signature of typed data and correcting it, the parts
  of a signature given as text, interface ids as 32-bit words, topics of events, and numbers of several kinds. Bytes are
  8-bit words, interface ids 32-bit words.
\<close>

unbundle bit_operations_syntax

section \<open>Interface ids and topics\<close>

record abi_item =
  ai_type :: string
  ai_name :: "string option"
  ai_inputs :: "string list"

text \<open>A contract that has no interface is a mock; \<open>encode\<close> is the library's signature of an event.\<close>

definition event2topic :: "(abi_item \<Rightarrow> string) \<Rightarrow> abi_item list option \<Rightarrow> string list \<Rightarrow> string list" where
  "event2topic encode jsonInterface names =
     (case jsonInterface of None \<Rightarrow> names
      | Some items \<Rightarrow> map encode (filter (\<lambda>e. case ai_name e of Some n \<Rightarrow> n \<in> set names | None \<Rightarrow> False) items))"

text \<open>The operator \<open>x ^ y\<close> works on signed 32-bit integers.\<close>

definition js_xor :: "int \<Rightarrow> int \<Rightarrow> int" where
  "js_xor x y = sint ((word_of_int x :: 32 word) XOR word_of_int y)"

text \<open>\<open>reduce\<close> without an initial value: one element is the result itself, none is an error.\<close>

definition reduce_xor :: "int list \<Rightarrow> js_error + int" where
  "reduce_xor xs = (case xs of [] \<Rightarrow> Inl (Error ''Reduce of empty array with no initial value'') | x # ys \<Rightarrow> Inr (foldl js_xor x ys))"

text \<open>\<open>encode\<close> is the library's selector of a function, 8 hexadecimal digits after the prefix.\<close>

definition getERC165InterfaceID :: "(abi_item \<Rightarrow> string) \<Rightarrow> abi_item list \<Rightarrow> js_error + string" where
  "getERC165InterfaceID encode abi =
     (let signatures = filter (\<lambda>it. it \<noteq> ''0x01ffc9a7'') (map encode (filter (\<lambda>it. ai_type it = ''function'') abi))
      in case reduce_xor (map (\<lambda>x. case parseInt16 x of Some i \<Rightarrow> i | None \<Rightarrow> 0) signatures) of
           Inl e \<Rightarrow> Inl e
         | Inr interfaceId \<Rightarrow>
             (let id32 = (if interfaceId > 0 then interfaceId else 0xFFFFFFFF + interfaceId + 1)
              in Inr (''0x'' @ padStart 8 (CHR ''0'') (int_to_radix 16 id32))))"

section \<open>Signatures\<close>

text \<open>\<open>Buffer.from\<close> of numbers takes them modulo 256, and \<open>NaN\<close> as 0.\<close>

definition buffer_of_numbers :: "int option list \<Rightarrow> 8 word list" where
  "buffer_of_numbers xs = map (\<lambda>x. case x of Some i \<Rightarrow> word_of_int i | None \<Rightarrow> 0) xs"

datatype signature = SignatureText string | SignatureParts "int option list" "int option list" "int option list"

text \<open>The cryptographic functions and the conversions of \<open>ethereumjs-util\<close>.\<close>

record sig_libs =
  sl_toBuffer :: "string \<Rightarrow> js_error + 8 word list"
  sl_bufferToHex :: "8 word list \<Rightarrow> string"
  sl_hashPersonalMessage :: "string \<Rightarrow> 8 word list"
  sl_ecrecover :: "8 word list \<Rightarrow> int option \<Rightarrow> 8 word list \<Rightarrow> 8 word list \<Rightarrow> js_error + 8 word list"
  sl_pubToAddress :: "8 word list \<Rightarrow> 8 word list"
  sl_hash :: "8 word list \<Rightarrow> js_error + 8 word list"

text \<open>\<open>substr(from, length)\<close>\<close>

definition substr :: "nat \<Rightarrow> nat \<Rightarrow> string \<Rightarrow> string" where
  "substr n k s = take k (drop n s)"

definition signature_parts :: "signature \<Rightarrow> int option list \<times> int option list \<times> int option list" where
  "signature_parts sg =
     (case sg of
        SignatureText t \<Rightarrow> (parseHexString (substr 130 2 t), parseHexString (substr 2 65 t), parseHexString (substr 66 65 t))
      | SignatureParts v r s \<Rightarrow> (v, r, s))"

definition getEcRecoverMeta :: "sig_libs \<Rightarrow> string \<Rightarrow> signature \<Rightarrow> js_error + string" where
  "getEcRecoverMeta lib message sg =
     (case signature_parts sg of (v, r, s) \<Rightarrow>
        map_sum (\<lambda>e. e) (\<lambda>key. sl_bufferToHex lib (sl_pubToAddress lib key))
          (sl_ecrecover lib (sl_hashPersonalMessage lib message) (case v of v0 # _ \<Rightarrow> v0 | [] \<Rightarrow> None)
             (buffer_of_numbers r) (buffer_of_numbers s)))"

definition correctV :: "sig_libs \<Rightarrow> string \<Rightarrow> js_error + string" where
  "correctV lib result =
     (case sl_toBuffer lib result of Inl e \<Rightarrow> Inl e
      | Inr buffer \<Rightarrow>
          (if buffer = [] then Inr (sl_bufferToHex lib buffer)
           else let oldV = last buffer
             in Inr (sl_bufferToHex lib (if oldV < 2 then butlast buffer @ [oldV + 27] else buffer))))"

definition signedTransactionToHash :: "sig_libs \<Rightarrow> string \<Rightarrow> js_error + string" where
  "signedTransactionToHash lib signedTransaction =
     (case sl_toBuffer lib signedTransaction of Inl e \<Rightarrow> Inl e
      | Inr b \<Rightarrow> map_sum (\<lambda>e. e) (sl_bufferToHex lib) (sl_hash lib b))"

section \<open>A signature of the node\<close>

text \<open>
  What a callback gets as its error: nothing (\<open>null\<close> or \<open>undefined\<close>), \<open>false\<close>, a string, or an object with an
  optional message.
\<close>

datatype cb_error = NoError | FalseError | TextError string | ObjectError "string option"

fun errorAsBoolean :: "cb_error \<Rightarrow> bool" where
  "errorAsBoolean NoError = False"
| "errorAsBoolean FalseError = False"
| "errorAsBoolean (TextError s) = (s \<noteq> [])"
| "errorAsBoolean (ObjectError m) = True"

record sign_result =
  rr_error :: cb_error
  rr_result :: string

text \<open>
  Typed data is any type \<open>'d\<close> whose message has a sender. \<open>sn_synchronous\<close> says that the provider calls back before its
  own call returns, and lets what the callback throws through.
\<close>

datatype 'd sign_data = SignText string | SignObject 'd

record 'd sign_request =
  sq_method :: string
  sq_params :: "string \<times> 'd sign_data"
  sq_id :: int

record ('w, 'd) sign_rpc =
  sn_nodeInfo :: "('w, string) eff"
  sn_messageFrom :: "'d \<Rightarrow> string"
  sn_stringify :: "'d \<Rightarrow> string"
  sn_sendAsync :: "('d sign_request \<Rightarrow> ('w, cb_error \<times> sign_result option) eff) option"
  sn_send :: "'d sign_request \<Rightarrow> ('w, cb_error \<times> sign_result option) eff"
  sn_synchronous :: bool
  sn_now :: "('w, int) eff"

text \<open>A promise: settled either way, or left pending because its callback threw.\<close>

datatype 'a promised = Resolved 'a | Rejected cb_error | CallbackThrew js_error

definition getDefaultMethodSuffix :: "('w, 'd) sign_rpc \<Rightarrow> ('w, string) eff" where
  "getDefaultMethodSuffix web3 =
     bnd (sn_nodeInfo web3) (\<lambda>nodeInfo.
     if str_includes ''testrpc'' (toLowerCase nodeInfo) then ret []
     else if str_includes ''hardhat'' (toLowerCase nodeInfo) then ret ''_v4''
     else ret ''_v4'')"

text \<open>\<open>(error as any).message ?? error\<close>\<close>

definition rejection :: "cb_error \<Rightarrow> string promised" where
  "rejection e =
     (case e of NoError \<Rightarrow> CallbackThrew (Error ''Cannot read properties of null (reading message)'')
      | ObjectError (Some m) \<Rightarrow> Rejected (TextError m)
      | _ \<Rightarrow> Rejected e)"

text \<open>The error of the answer takes precedence over the one of the callback.\<close>

definition answer_error :: "cb_error \<Rightarrow> sign_result option \<Rightarrow> cb_error" where
  "answer_error error0 result =
     (case result of Some r \<Rightarrow> if rr_error r \<noteq> NoError then rr_error r else error0 | None \<Rightarrow> error0)"

definition sign_callback :: "sig_libs \<Rightarrow> cb_error \<Rightarrow> sign_result option \<Rightarrow> string promised" where
  "sign_callback lib error0 result =
     (let error = answer_error error0 result
      in if errorAsBoolean error \<or> result = None then rejection error
         else case correctV lib (rr_result (the result)) of Inl e \<Rightarrow> CallbackThrew e | Inr s \<Rightarrow> Resolved s)"

text \<open>What the executor of a promise throws rejects it: an exception of a callback that is called within it.\<close>

definition settle :: "bool \<Rightarrow> 'a promised \<Rightarrow> 'a promised" where
  "settle synchronous p =
     (case p of CallbackThrew e \<Rightarrow> if synchronous then Rejected (ObjectError (Some (error_message e))) else p | _ \<Rightarrow> p)"

definition getEip712Signature ::
  "sig_libs \<Rightarrow> ('w, 'd) sign_rpc \<Rightarrow> 'd \<Rightarrow> string option \<Rightarrow> bool \<Rightarrow> ('w, string promised) eff" where
  "getEip712Signature lib web3 typedRequestData methodSuffix jsonStringifyRequest =
     (let senderAddress = sn_messageFrom web3 typedRequestData;
          dataToSign = (if jsonStringifyRequest then SignText (sn_stringify web3 typedRequestData) else SignObject typedRequestData)
      in bnd (case methodSuffix of Some x \<Rightarrow> ret x | None \<Rightarrow> getDefaultMethodSuffix web3) (\<lambda>suffix.
         bnd (sn_now web3) (\<lambda>now.
         let paramBlock = \<lparr>sq_method = ''eth_signTypedData'' @ suffix, sq_params = (senderAddress, dataToSign), sq_id = now\<rparr>
         in bnd (case sn_sendAsync web3 of Some f \<Rightarrow> f paramBlock | None \<Rightarrow> sn_send web3 paramBlock) (\<lambda>(error0, result).
            ret (settle (sn_synchronous web3) (sign_callback lib error0 result))))))"

section \<open>Numbers and texts\<close>

datatype numberish = NumText string | Number rat | BigInt int | BigNumber int | OtherObject string | OtherType string

text \<open>\<open>toNum\<close> is the conversion of a big number object, \<open>toDouble\<close> that of a big integer.\<close>

definition toNumber :: "(int \<Rightarrow> js_error + rat) \<Rightarrow> (int \<Rightarrow> rat) \<Rightarrow> numberish \<Rightarrow> js_error + rat option" where
  "toNumber toNum toDouble numberish =
     (case numberish of
        NumText s \<Rightarrow> Inr (parseFloat s)
      | Number n \<Rightarrow> Inr (Some n)
      | BigInt n \<Rightarrow> Inr (Some (toDouble n))
      | BigNumber n \<Rightarrow> map_sum (\<lambda>e. e) Some (toNum n)
      | OtherObject name \<Rightarrow> Inl (Error (''unsupported object of type '' @ name))
      | OtherType name \<Rightarrow> Inl (Error (''unsupported type '' @ name)))"

text \<open>The text without its colours.\<close>

definition boolString :: "bool \<Rightarrow> string" where
  "boolString b = (if b then padEnd 14 CHR '' '' ''good'' else padEnd 14 CHR '' '' ''wrong'')"

definition ether :: "(string \<Rightarrow> string \<Rightarrow> js_error + int) \<Rightarrow> string \<Rightarrow> js_error + int" where
  "ether toWei n = toWei n ''ether''"

section \<open>What is proved\<close>

text \<open>The selector of a function as the library prints it.\<close>

definition selector_text :: "32 word \<Rightarrow> string" where
  "selector_text w = ''0x'' @ padStart 8 (CHR ''0'') (int_to_radix 16 (uint w))"

lemma digits_val_zeros: "digits_val r (replicate k (CHR ''0'') @ ds) = digits_val r ds"
proof -
  have "foldl (\<lambda>a c. a * r + digit_val c) 0 (replicate k (CHR ''0'')) = 0"
    by (induction k) (simp_all add: digit_val_def)
  then show ?thesis by (simp add: digits_val_def)
qed

lemma parse_selector: "parseInt16 (selector_text w) = Some (uint w)"
proof -
  let ?d = "nat_to_radix 16 (unat w)"
  let ?t = "replicate (8 - length ?d) (CHR ''0'') @ ?d"
  have "\<forall>c \<in> set ?t. digit_val c < 16" by (auto simp: digit_val_nat_to_radix digit_val_def [of "CHR ''0''"])
  then have all: "takeWhile (\<lambda>c. digit_val c < 16) ?t = ?t" by (simp only: takeWhile_eq_all_conv)
  have "?t \<noteq> []" by simp
  then have "parse_prefix 16 ?t = Some (uint w)"
    unfolding parse_prefix_def Let_def all by (simp add: digits_val_zeros digits_val_nat_to_radix)
  moreover have "selector_text w = ''0x'' @ ?t" by (simp add: selector_text_def padStart_def int_to_radix_def)
  ultimately show ?thesis
    by (simp add: parseInt16_def strip_sign_def is_space_char_def has_hex_prefix_def starts_with_def)
qed

lemma selector_text_inj: "selector_text v = selector_text w \<longleftrightarrow> v = w"
  using parse_selector [of v] parse_selector [of w] by (metis option.inject word_of_int_uint)

lemma xor_word: "word_of_int (js_xor x y) = (word_of_int x XOR word_of_int y :: 32 word)"
  by (simp add: js_xor_def)

lemma fold_js_xor:
  "ys \<noteq> [] \<Longrightarrow> foldl js_xor x ys = sint (foldl (XOR) (word_of_int x :: 32 word) (map word_of_int ys))"
proof (induction ys rule: rev_induct)
  case (snoc y ys)
  have "word_of_int (foldl js_xor x ys) = (foldl (XOR) (word_of_int x :: 32 word) (map word_of_int ys))"
    using snoc.IH by (cases "ys = []") simp_all
  then show ?case by (simp add: xor_word js_xor_def [of "foldl js_xor x ys"])
qed simp

lemma foldl_xor: "foldl (XOR) (w :: 32 word) ws = foldr (XOR) (w # ws) 0"
  by (induction ws arbitrary: w) (simp_all add: xor.assoc)

lemma sint_as_unsigned: "(if 0 < sint w then sint w else 0xFFFFFFFF + sint w + 1) = (if w = 0 then 0x100000000 else uint w)" for w :: "32 word"
proof -
  have "sint w = uint w - (if bit (uint w) 31 then 2 ^ 32 else 0)"
  proof -
    have "take_bit 32 (uint w) = uint w" using uint_lt2p [of w] by (intro take_bit_int_eq_self) simp_all
    then show ?thesis by (simp add: sint_uint signed_take_bit_eq_take_bit_minus)
  qed
  moreover have "0 \<le> uint w" "uint w < 2 ^ 32" using uint_lt2p [of w] by simp_all
  moreover have "\<not> bit (uint w) 31" if "w = 0" using that by simp
  moreover have "0 < uint w" if "w \<noteq> 0" using that uint_0_iff [of w] uint_ge_0 [of w] by (metis order_le_less)
  ultimately show ?thesis by (cases "bit (uint w) 31"; cases "w = 0"; simp)
qed

text \<open>
  C35: the interface id of a contract is the exclusive or of the selectors of its functions, the one of the id itself left
  out, as 8 hexadecimal digits; where it is 0 the code gives 9 digits, and without functions it fails.
\<close>

theorem getERC165InterfaceID_xor:
  "getERC165InterfaceID (\<lambda>f. selector_text (sel f)) abi =
     (case filter (\<lambda>w. w \<noteq> 0x01ffc9a7) (map sel (filter (\<lambda>it. ai_type it = ''function'') abi)) of
        [] \<Rightarrow> Inl (Error ''Reduce of empty array with no initial value'')
      | ws \<Rightarrow> Inr (let id = foldr (XOR) ws 0 in if id = 0 then ''0x100000000'' else selector_text id))"
proof -
  let ?ws = "filter (\<lambda>w. w \<noteq> 0x01ffc9a7) (map sel (filter (\<lambda>it. ai_type it = ''function'') abi))"
  have own: "''0x01ffc9a7'' = selector_text 0x01ffc9a7"
    by (simp add: selector_text_def padStart_def int_to_radix_def nat_to_radix.simps digit_char_def) code_simp
  have sigs: "filter (\<lambda>it. it \<noteq> ''0x01ffc9a7'') (map (\<lambda>f. selector_text (sel f)) (filter (\<lambda>it. ai_type it = ''function'') abi)) = map selector_text ?ws"
    unfolding own by (induction abi) (simp_all add: selector_text_inj)
  have zero: "''0x'' @ padStart 8 CHR ''0'' (int_to_radix 16 0x100000000) = ''0x100000000''"
    by (simp add: padStart_def int_to_radix_def nat_to_radix.simps digit_char_def) code_simp
  show ?thesis
  proof (cases ?ws)
    case Nil
    then show ?thesis unfolding getERC165InterfaceID_def sigs Let_def by (simp add: reduce_xor_def)
  next
    case (Cons w ws)
    have nums: "map (\<lambda>x. case parseInt16 x of Some i \<Rightarrow> i | None \<Rightarrow> 0) (map selector_text (w # ws)) = uint w # map uint ws"
      by (simp add: parse_selector)
    define id where "id = foldl (XOR) w ws"
    have id: "foldr (XOR) (w # ws) 0 = id" by (simp add: id_def foldl_xor)
    have "(if 0 < foldl js_xor (uint w) (map uint ws) then foldl js_xor (uint w) (map uint ws)
        else 0xFFFFFFFF + foldl js_xor (uint w) (map uint ws) + 1) = (if id = 0 then 0x100000000 else uint id)"
    proof (cases "ws = []")
      case True
      then show ?thesis by (simp add: id_def word_gt_0_no uint_0_iff) (metis uint_0_iff uint_ge_0 order_le_less)
    next
      case False
      then have f: "foldl js_xor (uint w) (map uint ws) = sint id"
        by (simp add: fold_js_xor id_def comp_def)
      show ?thesis unfolding f by (rule sint_as_unsigned)
    qed
    then show ?thesis
      unfolding getERC165InterfaceID_def sigs Cons nums Let_def reduce_xor_def list.case sum.case id
      using zero by (simp add: selector_text_def del: append.simps)
  qed
qed

lemma parse_two_digits:
  assumes "a < 16" and "b < 16"
  shows "parseInt16 [digit_char a, digit_char b] = Some (int (a * 16 + b))"
proof -
  have code: "(of_char (digit_char a) :: nat) = (if a < 10 then 48 + a else 87 + a)" "(of_char (digit_char b) :: nat) = (if b < 10 then 48 + b else 87 + b)"
    using assms by (simp_all add: of_char_digit_char)
  have no: "digit_char a \<noteq> CHR ''-''" "digit_char a \<noteq> CHR ''+''" "\<not> is_space_char (digit_char a)"
      "digit_char b \<noteq> CHR ''x''" "digit_char b \<noteq> CHR ''X''"
    using code assms by (auto simp: is_space_char_def split: if_splits)
  have d: "digit_val (digit_char a) = a" "digit_val (digit_char b) = b" using assms by (simp_all add: digit_val_digit_char)
  show ?thesis
    using no assms by (simp add: parseInt16_def strip_sign_def has_hex_prefix_def starts_with_def parse_prefix_def digits_val_def d)
qed

lemma parse_hex_string: "parseHexString (hex_of_string s) = map (\<lambda>c. Some (of_char c)) s"
proof (induction s)
  case (Cons c s)
  let ?n = "of_char c :: nat"
  have "?n div 16 < 16" "?n mod 16 < 16" "?n div 16 * 16 + ?n mod 16 = ?n" by (simp_all add: less_mult_imp_div_less)
  from parse_two_digits [OF this(1,2)] this(3) show ?case using Cons by (simp add: hex_of_char_def Let_def of_nat_of_char)
qed simp

lemma parse_hex_odd: "parseHexString (hex_of_string s @ [c]) = parseHexString (hex_of_string s)"
  by (induction s) (simp_all add: hex_of_char_def Let_def)

text \<open>
  a signature of 65 bytes that is given as text is taken apart into its parts: recovering from the text is recovering
  from \<open>v\<close>, \<open>r\<close> and \<open>s\<close>.
\<close>

theorem signature_text_parts:
  assumes "length r = 32" and "length s = 32"
  shows "getEcRecoverMeta lib message (SignatureText (''0x'' @ hex_of_string (r @ s @ [v])))
    = getEcRecoverMeta lib message
        (SignatureParts [Some (of_char v)] (map (\<lambda>c. Some (of_char c)) r) (map (\<lambda>c. Some (of_char c)) s))"
proof -
  let ?t = "''0x'' @ hex_of_string (r @ s @ [v])"
  have lr: "length (hex_of_string r) = 64" "length (hex_of_string s) = 64" using assms by simp_all
  obtain a sr where a: "hex_of_string s = a # sr" using lr(2) by (cases "hex_of_string s") auto
  obtain b c where v: "hex_of_char v = [b, c]" by (simp add: hex_of_char_def Let_def)
  have t: "?t = ''0x'' @ hex_of_string r @ hex_of_string s @ [b, c]" by (simp add: v)
  have "substr 2 65 ?t = hex_of_string r @ [a]" unfolding t using lr by (simp add: substr_def a)
  moreover have "substr 66 65 ?t = hex_of_string s @ [b]" unfolding t using lr by (simp add: substr_def)
  moreover have "substr 130 2 ?t = hex_of_string [v]" unfolding t using lr by (simp add: substr_def v)
  ultimately have "signature_parts (SignatureText ?t)
      = signature_parts (SignatureParts [Some (of_char v)] (map (\<lambda>c. Some (of_char c)) r) (map (\<lambda>c. Some (of_char c)) s))"
    unfolding signature_parts_def signature.case by (simp only: parse_hex_odd parse_hex_string list.map)
  then show ?thesis by (simp only: getEcRecoverMeta_def)
qed

text \<open>The bytes of a signature with 27 or 28 for the last byte where it was 0 or 1.\<close>

definition with_v :: "8 word list \<Rightarrow> 8 word list" where
  "with_v b = (if b \<noteq> [] \<and> last b < 2 then butlast b @ [last b + 27] else b)"

text \<open>The error that counts: the one the answer carries, if any, or else the one that the callback is given.\<close>

fun error_told :: "cb_error \<Rightarrow> sign_result option \<Rightarrow> cb_error" where
  "error_told error None = error"
| "error_told error (Some r) = (case rr_error r of NoError \<Rightarrow> error | e \<Rightarrow> e)"

lemma answer_error_told: "answer_error error result = error_told error result"
  by (cases result) (auto simp: answer_error_def split: cb_error.split)

text \<open>The callback throws when there is neither an error nor an answer, and when the answer is no hex text.\<close>

definition callback_fails :: "sig_libs \<Rightarrow> cb_error \<Rightarrow> sign_result option \<Rightarrow> js_error \<Rightarrow> bool" where
  "callback_fails lib error result x \<longleftrightarrow>
     (case result of
        None \<Rightarrow> error = NoError \<and> x = Error ''Cannot read properties of null (reading message)''
      | Some r \<Rightarrow> \<not> errorAsBoolean (error_told error result) \<and> sl_toBuffer lib (rr_result r) = Inl x)"

text \<open>What the promise comes to for an answer of the provider.\<close>

fun comes_to :: "sig_libs \<Rightarrow> bool \<Rightarrow> cb_error \<Rightarrow> sign_result option \<Rightarrow> string promised \<Rightarrow> bool" where
  "comes_to lib sync error result (Resolved s) \<longleftrightarrow>
     (\<exists>r b. result = Some r \<and> \<not> errorAsBoolean (error_told error result)
        \<and> sl_toBuffer lib (rr_result r) = Inr b \<and> s = sl_bufferToHex lib (with_v b))"
| "comes_to lib sync error result (Rejected e) \<longleftrightarrow>
     (errorAsBoolean (error_told error result) \<or> result = None \<and> error \<noteq> NoError)
        \<and> e = (case error_told error result of ObjectError (Some m) \<Rightarrow> TextError m | x \<Rightarrow> x)
     \<or> sync \<and> (\<exists>x. callback_fails lib error result x \<and> e = ObjectError (Some (error_message x)))"
| "comes_to lib sync error result (CallbackThrew x) \<longleftrightarrow> \<not> sync \<and> callback_fails lib error result x"

lemma correctV_with_v: "correctV lib t = map_sum id (\<lambda>b. sl_bufferToHex lib (with_v b)) (sl_toBuffer lib t)"
  by (auto simp: correctV_def with_v_def Let_def split: sum.split)

lemma with_v_idem: "with_v (with_v b) = with_v b"
proof -
  have "\<not> v + 27 < 2" if "v < 2" for v :: "8 word"
  proof -
    have "unat v = 0 \<or> unat v = 1" using that by (auto simp: word_less_nat_alt)
    then have "v = 0 \<or> v = 1" by (metis unat_eq_zero unat_1 word_unat_eq_iff)
    then show ?thesis by auto
  qed
  then show ?thesis by (auto simp: with_v_def)
qed

declare error_told.simps [simp del]

lemma sign_comes_to: "comes_to lib sync error result q \<longleftrightarrow> q = settle sync (sign_callback lib error result)"
proof (cases "errorAsBoolean (error_told error result) \<or> result = None")
  case True
  then have p: "sign_callback lib error result = rejection (error_told error result)" by (simp add: sign_callback_def answer_error_told)
  show ?thesis
  proof (cases result)
    case None
    then show ?thesis
      unfolding p using None
      by (cases error rule: cb_error.exhaust; cases q)
        (auto simp: error_told.simps(1) settle_def rejection_def callback_fails_def split: option.splits)
  next
    case (Some r)
    then have "errorAsBoolean (error_told error result)" using True by simp
    then show ?thesis
      unfolding p using Some
      by (cases "error_told error result" rule: cb_error.exhaust; cases q)
        (auto simp: settle_def rejection_def callback_fails_def split: option.splits)
  qed
next
  case False
  then obtain r where r: "result = Some r" and ok: "\<not> errorAsBoolean (error_told error result)" by blast
  then have p: "sign_callback lib error result
      = (case sl_toBuffer lib (rr_result r) of Inl e \<Rightarrow> CallbackThrew e | Inr b \<Rightarrow> Resolved (sl_bufferToHex lib (with_v b)))"
    by (simp add: sign_callback_def answer_error_told correctV_with_v split: sum.split)
  show ?thesis
    unfolding p using r ok
    by (cases "sl_toBuffer lib (rr_result r)"; cases q) (auto simp: settle_def callback_fails_def)
qed

text \<open>
  C25: the promise of a signature comes to exactly one outcome for every answer of the provider to the request, which goes to
  \<open>sendAsync\<close> if there is one, for the sender of the message, under the method of the given suffix. With an answer and no error it resolves to the bytes of the
  answer with a last byte of 0 or 1 raised by 27, so that correcting it again changes nothing. An error of the
  answer, or else of the callback, rejects it with its message. With neither an error nor an answer, and with an
  answer that is no hex text, the callback throws: this rejects the promise if the provider calls back before its call
  returns, and otherwise leaves it pending.
\<close>

theorem signature_settles:
  assumes "\<forall>b. sl_toBuffer lib (sl_bufferToHex lib b) = Inr b"
    and "getEip712Signature lib web3 d suffix asText w = (Inr p, w')"
  shows "\<exists>rq error result w1.
      (case sn_sendAsync web3 of Some f \<Rightarrow> f | None \<Rightarrow> sn_send web3) rq w1 = (Inr (error, result), w')
    \<and> sq_params rq = (sn_messageFrom web3 d, if asText then SignText (sn_stringify web3 d) else SignObject d)
    \<and> (case suffix of Some x \<Rightarrow> sq_method rq = ''eth_signTypedData'' @ x | None \<Rightarrow> True)
    \<and> (\<forall>q. comes_to lib (sn_synchronous web3) error result q \<longleftrightarrow> q = p)
    \<and> (case p of Resolved s \<Rightarrow> correctV lib s = Inr s | _ \<Rightarrow> True)"
proof -
  from assms(2) obtain rq error result w1 where
    rq: "(case sn_sendAsync web3 of Some f \<Rightarrow> f | None \<Rightarrow> sn_send web3) rq w1 = (Inr (error, result), w')"
      "sq_params rq = (sn_messageFrom web3 d, if asText then SignText (sn_stringify web3 d) else SignObject d)"
      "case suffix of Some x \<Rightarrow> sq_method rq = ''eth_signTypedData'' @ x | None \<Rightarrow> True"
    and p: "p = settle (sn_synchronous web3) (sign_callback lib error result)"
    unfolding getEip712Signature_def Let_def
    by (elim bnd_InrE) (cases "sn_sendAsync web3"; cases suffix; auto simp: ret_def)
  have all: "\<forall>q. comes_to lib (sn_synchronous web3) error result q \<longleftrightarrow> q = p" using p sign_comes_to by blast
  have "correctV lib s = Inr s" if "p = Resolved s" for s
  proof -
    have "comes_to lib (sn_synchronous web3) error result (Resolved s)" using all that by blast
    then obtain b where "s = sl_bufferToHex lib (with_v b)" by auto
    then show ?thesis using assms(1) by (simp add: correctV_with_v with_v_idem)
  qed
  then have "case p of Resolved s \<Rightarrow> correctV lib s = Inr s | _ \<Rightarrow> True" by (cases p) simp_all
  with rq all show ?thesis by blast
qed

text \<open>An instance: bytes as hexadecimal digits.\<close>

definition sample_sig_libs :: sig_libs where
  "sample_sig_libs =
     \<lparr>sl_toBuffer = (\<lambda>s. Inr (map word_of_nat (hex_bytes (drop 2 s)))),
      sl_bufferToHex = (\<lambda>b. ''0x'' @ hex_of_string (map (\<lambda>w. char_of (unat w)) b)),
      sl_hashPersonalMessage = (\<lambda>m. map (\<lambda>c. word_of_nat (of_char c)) m),
      sl_ecrecover = (\<lambda>h v r s. if v = Some 27 then Inr (h @ r @ s) else Inl (Error ''Invalid signature v value'')),
      sl_pubToAddress = (\<lambda>k. take 3 k), sl_hash = (\<lambda>b. Inr b)\<rparr>"

lemma sample_sig_roundtrip: "sl_toBuffer sample_sig_libs (sl_bufferToHex sample_sig_libs b) = Inr b"
proof -
  have "hex_bytes (hex_of_string s) = map of_char s" for s
    using hex_bytes_hex_of_string [of s] by simp
  moreover have "unat w mod 256 = unat w" for w :: "8 word" using unsigned_less [of w, where 'a = nat] by simp
  ultimately show ?thesis by (simp add: sample_sig_libs_def comp_def)
qed

theorem signature_text_parts_witness:
  "getEcRecoverMeta sample_sig_libs ''hi'' (SignatureText (''0x'' @ hex_of_string (replicate 32 CHR ''a'' @ replicate 32 CHR ''b'' @ [CHR 0x1B])))
     = Inr ''0x686961''"
proof -
  have "getEcRecoverMeta sample_sig_libs ''hi''
      (SignatureParts [Some 27] (map (\<lambda>c. Some (of_char c)) (replicate 32 CHR ''a'')) (map (\<lambda>c. Some (of_char c)) (replicate 32 CHR ''b'')))
    = Inr ''0x686961''" by code_simp
  then show ?thesis
    using signature_text_parts [of "replicate 32 CHR ''a''" "replicate 32 CHR ''b''" sample_sig_libs "''hi''" "CHR 0x1B"] by simp
qed

text \<open>A provider that signs everything with the last byte 1.\<close>

definition sample_signer :: "(unit, string) sign_rpc" where
  "sample_signer =
     \<lparr>sn_nodeInfo = ret ''HardhatNetwork'', sn_messageFrom = (\<lambda>d. ''0x11''), sn_stringify = id, sn_sendAsync = None,
      sn_send = (\<lambda>rq. ret (NoError, Some \<lparr>rr_error = NoError, rr_result = ''0xab01''\<rparr>)), sn_synchronous = True, sn_now = ret 5\<rparr>"

theorem signature_settles_witness:
  "getEip712Signature sample_sig_libs sample_signer ''hi'' None False () = (Inr (Resolved ''0xab1c''), ())
   \<and> correctV sample_sig_libs ''0xab1c'' = Inr ''0xab1c''"
proof -
  have run: "getEip712Signature sample_sig_libs sample_signer ''hi'' None False () = (Inr (Resolved ''0xab1c''), ())" by code_simp
  have bytes: "\<forall>b. sl_toBuffer sample_sig_libs (sl_bufferToHex sample_sig_libs b) = Inr b" using sample_sig_roundtrip by blast
  show ?thesis using signature_settles [OF bytes run] run by auto
qed

end
