(* ===== verification/DevProviders.thy ===== *)
theory DevProviders imports JsLib Prelude "HOL-Library.Multiset" begin

text \<open>
  \<open>packages/common/src/dev\<close>: a provider that holds transactions back until they are mined by hand, and one that counts
  requests. The wrapped provider is a parameter; a callback is what it is called with.
\<close>

section \<open>Requests\<close>

datatype rpc_id = IdText string | IdNumber int | NoId

record RawPayload =
  jp_method :: string
  jp_params :: "string list option"
  jp_id :: rpc_id

record RawResponse =
  jr_id :: "int option"
  jr_result :: string

text \<open>The arguments of a callback: an error or \<open>null\<close>, a response or \<open>undefined\<close>.\<close>

type_synonym callback_args = "js_error option \<times> RawResponse option"

type_synonym 'w http_provider = "RawPayload \<Rightarrow> ('w, callback_args) eff"

definition castId :: "rpc_id \<Rightarrow> int option" where
  "castId i = (case i of IdText s \<Rightarrow> parseInt s | IdNumber n \<Rightarrow> Some n | NoId \<Rightarrow> Some 0)"

section \<open>Holding transactions back\<close>

record 'w nsp_state =
  ns_world :: 'w
  ns_isDelayTransactionsOn :: bool
  ns_mempool :: "(string \<times> RawPayload) list"

definition on_node :: "('w, 'a) eff \<Rightarrow> ('w nsp_state, 'a) eff" where
  "on_node m = zoom ns_world (\<lambda>w s. s\<lparr>ns_world := w\<rparr>) m"

definition newSimulatingProvider :: "'w \<Rightarrow> 'w nsp_state" where
  "newSimulatingProvider w = \<lparr>ns_world = w, ns_isDelayTransactionsOn = False, ns_mempool = []\<rparr>"

definition setDelayTransactions :: "bool \<Rightarrow> ('w nsp_state, unit) eff" where
  "setDelayTransactions b = modify (\<lambda>s. s\<lparr>ns_isDelayTransactionsOn := b\<rparr>)"

text \<open>\<open>sha3\<close> is the library's hash; it has none of some values.\<close>

definition calculateTxHash :: "(string option \<Rightarrow> string option) \<Rightarrow> RawPayload \<Rightarrow> js_error + string" where
  "calculateTxHash sha3 payload =
     (case sha3 (case jp_params payload of Some (p # _) \<Rightarrow> Some p | _ \<Rightarrow> None) of
        None \<Rightarrow> Inl (Error ''Failed to hash transaction'')
      | Some h \<Rightarrow> Inr h)"

definition simulating_send ::
  "(string option \<Rightarrow> string option) \<Rightarrow> 'w http_provider \<Rightarrow> RawPayload \<Rightarrow> ('w nsp_state, callback_args) eff" where
  "simulating_send sha3 provider payload =
     bnd (gets ns_isDelayTransactionsOn) (\<lambda>delayed.
     if jp_method payload = ''eth_sendRawTransaction'' \<and> delayed then
       bnd (lift_result (calculateTxHash sha3 payload)) (\<lambda>txHash.
       bnd (modify (\<lambda>s. s\<lparr>ns_mempool := map_set txHash payload (ns_mempool s)\<rparr>)) (\<lambda>_.
       ret (None, Some \<lparr>jr_id = castId (jp_id payload), jr_result = txHash\<rparr>)))
     else on_node (provider payload))"

text \<open>A rejection with \<open>null\<close> has no error.\<close>

definition mineTransaction :: "'w http_provider \<Rightarrow> string \<Rightarrow> ('w nsp_state, js_error option + RawResponse) eff" where
  "mineTransaction provider txHash =
     bnd (gets (\<lambda>s. map_of (ns_mempool s) txHash)) (\<lambda>txPayload.
     bnd (modify (\<lambda>s. s\<lparr>ns_mempool := filter (\<lambda>e. fst e \<noteq> txHash) (ns_mempool s)\<rparr>)) (\<lambda>_.
     case txPayload of
       None \<Rightarrow> ret (Inl (Some (Error (''Transaction '' @ txHash @ '' is not in simulated mempool. It must be already mined''))))
     | Some payload \<Rightarrow>
         bnd (on_node (provider payload)) (\<lambda>(error, result).
         ret (case (error, result) of (None, Some r) \<Rightarrow> Inr r | _ \<Rightarrow> Inl error))))"

section \<open>Counting requests\<close>

record 'w prof_state =
  pr_world :: 'w
  pr_methodsCount :: "(string \<times> int) list"
  pr_requestsCount :: int
  pr_lines :: "string list"

definition on_prof :: "('w, 'a) eff \<Rightarrow> ('w prof_state, 'a) eff" where
  "on_prof m = zoom pr_world (\<lambda>w s. s\<lparr>pr_world := w\<rparr>) m"

definition count_of :: "string \<Rightarrow> (string \<times> int) list \<Rightarrow> int" where
  "count_of m counts = (case map_of counts m of Some n \<Rightarrow> n | None \<Rightarrow> 0)"

definition prof_print :: "string list \<Rightarrow> ('w prof_state, unit) eff" where
  "prof_print ls = modify (\<lambda>s. s\<lparr>pr_lines := pr_lines s @ ls\<rparr>)"

text \<open>The texts of requests and responses are those of \<open>JSON.stringify\<close>.\<close>

definition profiling_send ::
  "(RawPayload \<Rightarrow> string) \<Rightarrow> (RawResponse \<Rightarrow> string) \<Rightarrow> bool \<Rightarrow> 'w http_provider \<Rightarrow> RawPayload
   \<Rightarrow> ('w prof_state, callback_args) eff" where
  "profiling_send showPayload showResponse logTraffic provider payload =
     bnd (modify (\<lambda>s. s\<lparr>pr_requestsCount := pr_requestsCount s + 1\<rparr>)) (\<lambda>_.
     bnd (gets (\<lambda>s. count_of (jp_method payload) (pr_methodsCount s))) (\<lambda>currentCount.
     bnd (modify (\<lambda>s. s\<lparr>pr_methodsCount := map_set (jp_method payload) (currentCount + 1) (pr_methodsCount s)\<rparr>)) (\<lambda>_.
     bnd (when_eff logTraffic (prof_print [''>>> payload: '' @ showPayload payload])) (\<lambda>_.
     bnd (on_prof (provider payload)) (\<lambda>(error, result).
     bnd (when_eff logTraffic
        (prof_print ((case error of Some e \<Rightarrow> [''<<< error: '' @ error_message e] | None \<Rightarrow> []) @
           [''<<< result: '' @ (case result of Some r \<Rightarrow> showResponse r | None \<Rightarrow> ''null result'')]))) (\<lambda>_.
     ret (error, result)))))))"

definition prof_reset :: "('w prof_state, unit) eff" where
  "prof_reset = modify (\<lambda>s. s\<lparr>pr_requestsCount := 0, pr_methodsCount := []\<rparr>)"

definition prof_log :: "('w prof_state, unit) eff" where
  "prof_log =
     bnd (prof_print [''Profiling Provider Stats:'']) (\<lambda>_.
     bnd (gets (\<lambda>s. sort_cmp (\<lambda>(_, count1) (_, count2). count2 - count1) (pr_methodsCount s))) (\<lambda>sorted.
     bnd (prof_print (map (\<lambda>(key, n). ''Method: '' @ padEnd 30 CHR '' '' key @ '' was called: '' @ padEnd 3 CHR '' '' (int_to_string n) @ '' times'')
        sorted)) (\<lambda>_.
     bnd (gets pr_requestsCount) (\<lambda>total. prof_print [''Total RPC calls: '' @ int_to_string total]))))"

definition no_subscriptions :: bool where
  "no_subscriptions = False"

end
