(* ===== verification/DevProvidersProps.thy ===== *)
theory DevProvidersProps imports DevProviders begin

text \<open>
  Properties of the development providers: a transaction that is held back reaches the node when it is mined, and then
  once; the counts of a profiling provider add up, and it answers as the provider it wraps.
\<close>

section \<open>The simulated mempool\<close>

datatype nsp_op = DelayOp bool | SendOp RawPayload | MineOp string

definition nsp_step :: "(string option \<Rightarrow> string option) \<Rightarrow> 'w http_provider \<Rightarrow> nsp_op \<Rightarrow> 'w nsp_state \<Rightarrow> 'w nsp_state" where
  "nsp_step sha3 provider op1 s =
     (case op1 of
        DelayOp b \<Rightarrow> snd (setDelayTransactions b s)
      | SendOp p \<Rightarrow> snd (simulating_send sha3 provider p s)
      | MineOp h \<Rightarrow> snd (mineTransaction provider h s))"

definition nsp_run :: "(string option \<Rightarrow> string option) \<Rightarrow> 'w http_provider \<Rightarrow> nsp_op list \<Rightarrow> 'w nsp_state \<Rightarrow> 'w nsp_state" where
  "nsp_run sha3 provider ops s = foldl (\<lambda>t op1. nsp_step sha3 provider op1 t) s ops"

text \<open>The node keeps the requests it got.\<close>

definition requests_kept :: "('w \<Rightarrow> RawPayload list) \<Rightarrow> 'w http_provider \<Rightarrow> bool" where
  "requests_kept got provider \<longleftrightarrow> (\<forall>p w. got (snd (provider p w)) = got w @ [p])"

text \<open>What the operations say the node has to get, and the transactions that are held: an abstract pool.\<close>

fun pool_step :: "(string option \<Rightarrow> string option) \<Rightarrow> nsp_op \<Rightarrow> bool \<times> (string \<rightharpoonup> RawPayload) \<times> RawPayload list
    \<Rightarrow> bool \<times> (string \<rightharpoonup> RawPayload) \<times> RawPayload list" where
  "pool_step sha3 (DelayOp b) (d, held, got) = (b, held, got)"
| "pool_step sha3 (SendOp p) (d, held, got) =
     (if d \<and> jp_method p = ''eth_sendRawTransaction''
      then (d, case calculateTxHash sha3 p of Inr h \<Rightarrow> held(h \<mapsto> p) | Inl _ \<Rightarrow> held, got)
      else (d, held, got @ [p]))"
| "pool_step sha3 (MineOp h) (d, held, got) =
     (d, held(h := None), got @ (case held h of Some p \<Rightarrow> [p] | None \<Rightarrow> []))"

definition pool_of :: "('w \<Rightarrow> RawPayload list) \<Rightarrow> 'w nsp_state \<Rightarrow> bool \<times> (string \<rightharpoonup> RawPayload) \<times> RawPayload list" where
  "pool_of got s = (ns_isDelayTransactionsOn s, map_of (ns_mempool s), got (ns_world s))"

lemma map_of_filtered: "map_of (filter (\<lambda>e. fst e \<noteq> k) m) = (map_of m)(k := None)"
  by (induction m) auto

lemma on_node_run: "on_node m s = (case m (ns_world s) of (r, w) \<Rightarrow> (r, s\<lparr>ns_world := w\<rparr>))"
  by (simp add: on_node_def zoom_def)

lemma pool_send:
  assumes "requests_kept got provider"
  shows "pool_of got (snd (simulating_send sha3 provider p s)) = pool_step sha3 (SendOp p) (pool_of got s)"
proof (cases "jp_method p = ''eth_sendRawTransaction'' \<and> ns_isDelayTransactionsOn s")
  case True
  then show ?thesis
    by (cases "calculateTxHash sha3 p") (simp_all add: simulating_send_def bnd_def pool_of_def lift_result_def)
next
  case False
  have "got (snd (provider p (ns_world s))) = got (ns_world s) @ [p]" using assms by (simp add: requests_kept_def)
  then show ?thesis using False
    by (auto simp: simulating_send_def bnd_def pool_of_def on_node_run split: prod.splits)
qed

lemma pool_mine:
  assumes "requests_kept got provider"
  shows "pool_of got (snd (mineTransaction provider h s)) = pool_step sha3 (MineOp h) (pool_of got s)"
proof (cases "map_of (ns_mempool s) h")
  case None
  then show ?thesis by (simp add: mineTransaction_def bnd_def pool_of_def map_of_filtered)
next
  case (Some p)
  have "got (snd (provider p (ns_world s))) = got (ns_world s) @ [p]" using assms by (simp add: requests_kept_def)
  then show ?thesis using Some
    by (auto simp: mineTransaction_def bnd_def pool_of_def on_node_run map_of_filtered split: prod.splits sum.splits)
qed

text \<open>
  C24: holding transactions back refines an abstract pool: after any operations the node has got exactly what the pool says,
  in that order, every held transaction when it was mined and none of them twice, and the same transactions are held.
\<close>

theorem held_transactions_refine_pool:
  assumes "requests_kept got provider"
  shows "pool_of got (nsp_run sha3 provider ops s) = foldl (\<lambda>t op1. pool_step sha3 op1 t) (pool_of got s) ops"
proof (induction ops rule: rev_induct)
  case (snoc op1 ops)
  let ?t = "nsp_run sha3 provider ops s"
  have "pool_of got (nsp_step sha3 provider op1 ?t) = pool_step sha3 op1 (pool_of got ?t)"
  proof (cases op1)
    case (DelayOp b)
    then show ?thesis by (simp add: nsp_step_def setDelayTransactions_def pool_of_def)
  next
    case (SendOp p)
    then show ?thesis using pool_send [OF assms] by (simp add: nsp_step_def)
  next
    case (MineOp h)
    then show ?thesis using pool_mine [OF assms] by (simp add: nsp_step_def)
  qed
  then show ?case using snoc by (simp add: nsp_run_def)
qed (simp add: nsp_run_def)

definition sample_node :: "RawPayload list http_provider" where
  "sample_node = (\<lambda>p w. (Inr (None, Some \<lparr>jr_id = castId (jp_id p), jr_result = ''0x1''\<rparr>), w @ [p]))"

definition raw_tx :: "string \<Rightarrow> RawPayload" where
  "raw_tx t = \<lparr>jp_method = ''eth_sendRawTransaction'', jp_params = Some [t], jp_id = IdText ''7''\<rparr>"

theorem held_transactions_refine_pool_witness:
  "ns_world (nsp_run (\<lambda>p. p) sample_node [DelayOp True, SendOp (raw_tx ''a''), SendOp (raw_tx ''b''), MineOp ''b'', MineOp ''b'']
     (newSimulatingProvider [])) = [raw_tx ''b'']"
proof -
  have kept: "requests_kept (\<lambda>w. w) sample_node" by (simp add: requests_kept_def sample_node_def)
  show ?thesis
    using held_transactions_refine_pool [OF kept, of "\<lambda>p. p" "[DelayOp True, SendOp (raw_tx ''a''), SendOp (raw_tx ''b''), MineOp ''b'', MineOp ''b'']"
        "newSimulatingProvider []"]
    by (simp add: pool_of_def newSimulatingProvider_def raw_tx_def calculateTxHash_def)
qed

section \<open>Counting\<close>

datatype prof_op = Request RawPayload | ResetOp | LogOp

definition prof_step :: "(RawPayload \<Rightarrow> string) \<Rightarrow> (RawResponse \<Rightarrow> string) \<Rightarrow> bool \<Rightarrow> 'w http_provider \<Rightarrow> prof_op
    \<Rightarrow> 'w prof_state \<Rightarrow> 'w prof_state" where
  "prof_step sp sr logs provider op1 s =
     (case op1 of Request p \<Rightarrow> snd (profiling_send sp sr logs provider p s) | ResetOp \<Rightarrow> snd (prof_reset s) | LogOp \<Rightarrow> snd (prof_log s))"

text \<open>The methods that were asked for since the last reset.\<close>

fun asked :: "prof_op list \<Rightarrow> string list \<Rightarrow> string list" where
  "asked [] ms = ms"
| "asked (Request p # ops) ms = asked ops (ms @ [jp_method p])"
| "asked (ResetOp # ops) ms = asked ops []"
| "asked (LogOp # ops) ms = asked ops ms"

definition counts_exact :: "string list \<Rightarrow> 'w prof_state \<Rightarrow> bool" where
  "counts_exact ms s \<longleftrightarrow> pr_requestsCount s = int (length ms) \<and> (\<forall>m. count_of m (pr_methodsCount s) = int (count_list ms m))"

lemma on_prof_run: "on_prof m s = (case m (pr_world s) of (r, w) \<Rightarrow> (r, s\<lparr>pr_world := w\<rparr>))"
  by (simp add: on_prof_def zoom_def)

lemma send_counts:
  "pr_requestsCount (snd (profiling_send sp sr logs provider p s)) = pr_requestsCount s + 1
   \<and> pr_methodsCount (snd (profiling_send sp sr logs provider p s))
     = map_set (jp_method p) (count_of (jp_method p) (pr_methodsCount s) + 1) (pr_methodsCount s)"
  by (auto simp: profiling_send_def bnd_def on_prof_run when_eff_def prof_print_def split: prod.splits sum.splits)

text \<open>whatever is sent, logged and reset, the counts are those of the requests since the last reset, for every method.\<close>

theorem profiling_counts_exact:
  assumes "counts_exact ms s"
  shows "counts_exact (asked ops ms) (foldl (\<lambda>t op1. prof_step sp sr logs provider op1 t) s ops)"
  using assms
proof (induction ops arbitrary: ms s)
  case (Cons op1 ops)
  show ?case
  proof (cases op1)
    case (Request p)
    have "counts_exact (ms @ [jp_method p]) (prof_step sp sr logs provider (Request p) s)"
      using Cons.prems send_counts [of sp sr logs provider p s]
      by (auto simp: counts_exact_def prof_step_def count_of_def)
    then show ?thesis using Cons.IH Request by simp
  next
    case ResetOp
    have "counts_exact [] (prof_step sp sr logs provider ResetOp s)"
      by (simp add: counts_exact_def prof_step_def prof_reset_def count_of_def)
    then show ?thesis using Cons.IH ResetOp by simp
  next
    case LogOp
    have "counts_exact ms (prof_step sp sr logs provider LogOp s)"
      using Cons.prems by (simp add: counts_exact_def prof_step_def prof_log_def prof_print_def bnd_def)
    then show ?thesis using Cons.IH LogOp by simp
  qed
qed simp

text \<open>A profiling provider answers as the provider does.\<close>

lemma profiling_transparent:
  "fst (profiling_send sp sr logs provider p s) = fst (provider p (pr_world s))
   \<and> pr_world (snd (profiling_send sp sr logs provider p s)) = snd (provider p (pr_world s))"
  by (auto simp: profiling_send_def bnd_def on_prof_run when_eff_def prof_print_def split: prod.splits sum.splits)

end
