(* ===== verification/Wrappers.thy ===== *)
theory Wrappers imports ServerConfig begin

text \<open>
  Adapters between libraries: \<open>packages/common/src/LightTruffleContract.ts\<close> gives contract calls the interface of Truffle
  (numbers come back as big numbers), \<open>packages/provider/src/WrapContract.ts\<close> lets an Ethers provider answer JSON-RPC
  requests. The wrapped libraries are parameters.
\<close>

section \<open>Values of a contract call\<close>

datatype abi_output = AbiOutput (ao_name: string) (ao_type: string) (ao_components: "abi_output list option")

datatype tf_value = TvUndefined | TvText string | TvBool bool | TvBN int | TvList "tf_value list" | TvObject "(string \<times> tf_value) list"

text \<open>What a list has under other names than its indices: its length and its methods.\<close>

definition array_properties :: "string list" where
  "array_properties =
     [''length'', ''constructor'', ''at'', ''concat'', ''copyWithin'', ''fill'', ''find'', ''findIndex'', ''lastIndexOf'', ''pop'',
      ''push'', ''reverse'', ''shift'', ''unshift'', ''slice'', ''sort'', ''splice'', ''includes'', ''indexOf'', ''join'', ''keys'',
      ''entries'', ''values'', ''forEach'', ''filter'', ''flat'', ''flatMap'', ''map'', ''every'', ''some'', ''reduce'',
      ''reduceRight'', ''toLocaleString'', ''toString'', ''valueOf'', ''hasOwnProperty'', ''isPrototypeOf'', ''propertyIsEnumerable'']"

definition key_index :: "string \<Rightarrow> nat option" where
  "key_index k = (case parseInt k of Some n \<Rightarrow> if 0 \<le> n \<and> int_to_string n = k then Some (nat n) else None | None \<Rightarrow> None)"

text \<open>
  \<open>components[key]\<close> first, then the component of that name; a property of the list itself is not a component.
  Components are paired with their names.
\<close>

datatype 'a component = Component 'a | ListProperty | NoComponent

definition named_component :: "string \<Rightarrow> (string \<times> 'a) list \<Rightarrow> 'a component" where
  "named_component key components = (case map_of components key of Some c \<Rightarrow> Component c | None \<Rightarrow> NoComponent)"

definition getComponent :: "string \<Rightarrow> (string \<times> 'a) list \<Rightarrow> 'a component" where
  "getComponent key components =
     (case key_index key of
        Some i \<Rightarrow> if i < length components then Component (snd (components ! i)) else named_component key components
      | None \<Rightarrow> if key \<in> set array_properties then ListProperty else named_component key components)"

text \<open>\<open>toBN\<close> takes numbers as text and big numbers.\<close>

definition to_big :: "tf_value \<Rightarrow> js_error + tf_value" where
  "to_big v =
     (case v of TvText s \<Rightarrow> map_sum (\<lambda>e. e) TvBN (toBN_string s) | TvBN n \<Rightarrow> Inr (TvBN n)
      | _ \<Rightarrow> Inl (Error ''[number-to-bn] while converting number to BN.js instance''))"

definition indexed :: "'a list \<Rightarrow> (string \<times> 'a) list" where
  "indexed vs = zip (map (\<lambda>i. int_to_string (int i)) [0 ..< length vs]) vs"

text \<open>The keys of a value with what is under them.\<close>

definition own_fields :: "tf_value \<Rightarrow> (string \<times> tf_value) list" where
  "own_fields v =
     (case v of TvObject fs \<Rightarrow> fs | TvList vs \<Rightarrow> indexed vs | TvText s \<Rightarrow> indexed (map (\<lambda>c. TvText [c]) s) | _ \<Rightarrow> [])"

type_synonym retyper = "tf_value \<Rightarrow> js_error + tf_value"

text \<open>One field: a component that is a property of the list has no type, which is an error.\<close>

definition retype_field :: "(string \<times> retyper) list \<Rightarrow> string \<times> tf_value \<Rightarrow> js_error + string \<times> tf_value" where
  "retype_field components =
     (\<lambda>(key, x). case getComponent key components of
        NoComponent \<Rightarrow> Inr (key, x)
      | ListProperty \<Rightarrow> Inl (Error ''Cannot read properties of undefined (reading includes)'')
      | Component f \<Rightarrow> map_sum (\<lambda>e. e) (\<lambda>y. (key, y)) (f x))"

definition retype_tuple :: "(string \<times> retyper) list option \<Rightarrow> tf_value \<Rightarrow> js_error + tf_value" where
  "retype_tuple components v =
     (case components of None \<Rightarrow> Inr v
      | Some cs \<Rightarrow>
          if v = TvUndefined then Inl (Error ''Cannot convert undefined or null to object'')
          else map_sum (\<lambda>e. e) (\<lambda>fs. TvObject (foldl (\<lambda>o1 (k, y). map_set k y o1) [] fs)) (map_result (retype_field cs) (own_fields v)))"

definition retype_typed :: "string \<Rightarrow> (string \<times> retyper) list option \<Rightarrow> tf_value \<Rightarrow> js_error + tf_value" where
  "retype_typed type components v =
     (if str_includes ''int'' type then to_big v
      else if type = ''tuple[]'' then
        (case v of TvList vs \<Rightarrow> map_sum (\<lambda>e. e) TvList (map_result (retype_tuple components) vs)
         | _ \<Rightarrow> Inl (Error ''ret.map is not a function''))
      else if str_includes ''tuple'' type then retype_tuple components v
      else Inr v)"

fun retypeItem :: "abi_output \<Rightarrow> tf_value \<Rightarrow> js_error + tf_value" where
  "retypeItem (AbiOutput name type components) v =
     retype_typed type (map_option (map (\<lambda>c. (ao_name c, retypeItem c))) components) v"

text \<open>The results of a call: one is the value itself, several are under their numbers.\<close>

definition result_at :: "nat \<Rightarrow> tf_value \<Rightarrow> js_error + tf_value" where
  "result_at i v =
     (if v = TvUndefined then Inl (Error ''Cannot read properties of undefined'')
      else Inr (case map_of (own_fields v) (int_to_string (int i)) of Some x \<Rightarrow> x | None \<Rightarrow> TvUndefined))"

definition retype :: "abi_output list option \<Rightarrow> tf_value \<Rightarrow> js_error + tf_value" where
  "retype outputs v =
     (case outputs of
        Some [out] \<Rightarrow> retypeItem out v
      | None \<Rightarrow> Inr (TvObject [])
      | Some outs \<Rightarrow> map_sum (\<lambda>e. e) TvObject
          (map_result (\<lambda>(i, out). case result_at i v of
               Inr x \<Rightarrow> map_sum (\<lambda>e. e) (\<lambda>y. (int_to_string (int i), y)) (retypeItem out x)
             | Inl e \<Rightarrow> Inl e)
           (zip [0 ..< length outs] outs)))"

section \<open>Contract methods\<close>

record abi_method =
  am_name :: "string option"
  am_inputs :: "string list option"
  am_stateMutability :: string
  am_outputs :: "abi_output list option"

datatype call_arg = Plain tf_value | Options "(string \<times> tf_value) list"

text \<open>Whether \<open>typeof\<close> says object: lists and big numbers are objects too.\<close>

definition is_object :: "call_arg \<Rightarrow> bool" where
  "is_object a = (case a of Options _ \<Rightarrow> True | Plain (TvObject _) \<Rightarrow> True | Plain (TvList _) \<Rightarrow> True | Plain (TvBN _) \<Rightarrow> True | _ \<Rightarrow> False)"

definition split_options :: "nat \<Rightarrow> call_arg list \<Rightarrow> call_arg list \<times> call_arg option" where
  "split_options nArgs args =
     (if length args = nArgs + 1 \<and> is_object (last args) then (butlast args, Some (last args)) else (args, None))"

record 'w web3_contract =
  wc_send :: "string \<Rightarrow> call_arg list \<Rightarrow> call_arg option \<Rightarrow> ('w, tf_value) eff"
  wc_call :: "string \<Rightarrow> call_arg list \<Rightarrow> call_arg option \<Rightarrow> ('w, tf_value) eff"

definition call_method :: "'w web3_contract \<Rightarrow> abi_method \<Rightarrow> call_arg list \<Rightarrow> ('w, tf_value) eff" where
  "call_method contract m arguments =
     (let methodName = (case am_name m of Some n \<Rightarrow> n | None \<Rightarrow> []);
          nArgs = (case am_inputs m of Some is \<Rightarrow> length is | None \<Rightarrow> 0);
          isViewFunction = (am_stateMutability m = ''view'' \<or> am_stateMutability m = ''pure'')
      in case split_options nArgs arguments of (args, options) \<Rightarrow>
         if \<not> isViewFunction then wc_send contract methodName args options
         else bnd (wc_call contract methodName args options) (\<lambda>res. lift_result (retype (am_outputs m) res)))"

section \<open>The bridge to Ethers\<close>

definition allowedTransactionKeys :: "string list" where
  "allowedTransactionKeys =
     [''chainId'', ''data'', ''gasLimit'', ''gasPrice'', ''nonce'', ''to'', ''value'', ''type'', ''accessList'', ''maxFeePerGas'',
      ''maxPriorityFeePerGas'', ''from'']"

text \<open>What every object has; a field of such a name is let through.\<close>

definition object_properties :: "string list" where
  "object_properties = [''constructor'', ''toString'', ''toLocaleString'', ''valueOf'', ''hasOwnProperty'', ''isPrototypeOf'', ''propertyIsEnumerable'']"

definition bridge_key :: "string \<Rightarrow> string" where
  "bridge_key key = (if key = ''gas'' then ''gasLimit'' else key)"

text \<open>Fields that are \<open>undefined\<close> are \<open>None\<close>.\<close>

fun preprocess_field :: "(string \<times> 'v) list \<Rightarrow> string \<times> 'v option \<Rightarrow> (string \<times> 'v) list" where
  "preprocess_field clear (key, None) = clear"
| "preprocess_field clear (key, Some x) =
     (if bridge_key key \<in> set (allowedTransactionKeys @ object_properties) then map_set (bridge_key key) x clear else clear)"

definition preprocessPayload :: "(string \<times> 'v option) list \<Rightarrow> (string \<times> 'v) list" where
  "preprocessPayload object = foldl preprocess_field [] object"

text \<open>A parameter is \<open>null\<close>, an object with its fields, or a string, a number or a flag.\<close>

datatype 'v bridge_param = NullBridgeParam | TransactionParam "(string \<times> 'v option) list" | OtherParam 'v

text \<open>
  The fields of a parameter, when it has keys at all. The keys of a string are its indices and a number or a flag has
  none: nothing of them is let through, as no index is an allowed key.
\<close>

fun param_fields :: "'v bridge_param \<Rightarrow> (string \<times> 'v option) list option" where
  "param_fields NullBridgeParam = None"
| "param_fields (TransactionParam t) = Some t"
| "param_fields (OtherParam x) = Some []"

record 'v bridge_payload =
  bp_method :: string
  bp_params :: "'v bridge_param list option"
  bp_id :: "string option"

text \<open>\<open>hexlifyTransaction\<close> refuses what is no transaction; both calls of the bridge are promises.\<close>

record ('w, 'v) bridge_env =
  be_hexlify :: "(string \<times> 'v) list \<Rightarrow> js_error + (string \<times> 'v) list"
  be_call :: "(string \<times> 'v) list \<Rightarrow> 'v bridge_param option \<Rightarrow> ('w, 'v) eff"
  be_send :: "string \<Rightarrow> 'v bridge_param list option \<Rightarrow> ('w, 'v) eff"

text \<open>The answer of the callback: an error, or a result under the id of the request, with an empty id when there is none.\<close>

type_synonym 'v bridge_answer = "js_error option \<times> (string \<times> 'v) option"

definition original_call :: "('w, 'v) bridge_env \<Rightarrow> 'v bridge_payload \<Rightarrow> js_error + ('w, 'v) eff" where
  "original_call env payload =
     (case bp_params payload of
        Some params \<Rightarrow>
          if bp_method payload = ''eth_call'' then
            (case (case params of p # _ \<Rightarrow> param_fields p | [] \<Rightarrow> None) of
               Some t \<Rightarrow>
                 map_sum (\<lambda>e. e) (\<lambda>req. be_call env req (case params of _ # p # _ \<Rightarrow> Some p | _ \<Rightarrow> None))
                   (be_hexlify env (preprocessPayload t))
             | None \<Rightarrow> Inl (Error ''Cannot convert undefined or null to object''))
          else Inr (be_send env (bp_method payload) (bp_params payload))
      | None \<Rightarrow> Inr (be_send env (bp_method payload) None))"

text \<open>An error of the callback itself is caught as one of the call: the callback is called again.\<close>

definition bridge_send ::
  "('w, 'v) bridge_env \<Rightarrow> ('v bridge_answer \<Rightarrow> ('w, unit) eff) \<Rightarrow> 'v bridge_payload \<Rightarrow> ('w, unit) eff" where
  "bridge_send env callback payload =
     bnd (lift_result (original_call env payload)) (\<lambda>origProviderPromise.
     try_catch (bnd origProviderPromise (\<lambda>result.
         callback (None, Some (case bp_id payload of Some i \<Rightarrow> i | None \<Rightarrow> [], result))))
       (\<lambda>error. callback (Some error, None)))"

section \<open>What is proved\<close>

text \<open>A list of numbers is no number: a method that returns one always fails, and so does one that returns a flag as a number.\<close>

lemma number_lists_fail:
  assumes "str_includes ''int'' type"
  shows "\<exists>e. retypeItem (AbiOutput n type cs) (TvList vs) = Inl e"
  using assms by (simp add: retype_typed_def to_big_def)

text \<open>A struct keeps the fields it has, in their order.\<close>

lemma map_result_fields:
  "map_result (retype_field cs) fs = Inr gs \<Longrightarrow> map fst gs = map fst fs"
proof (induction fs arbitrary: gs)
  case (Cons f fs)
  obtain g gs' where g: "retype_field cs f = Inr g" and gs': "map_result (retype_field cs) fs = Inr gs'" and "gs = g # gs'"
    using Cons.prems by (auto split: sum.splits)
  moreover have "fst g = fst f"
    using g by (cases f; cases "getComponent (fst f) cs") (auto simp: retype_field_def map_sum_def split: sum.splits)
  ultimately show ?case using Cons.IH by simp
qed simp

lemma set_fresh: "k \<notin> fst ` set m \<Longrightarrow> map_set k v m = m @ [(k, v)]"
  by (induction m) auto

lemma build_object: "distinct (map fst (m @ gs)) \<Longrightarrow> foldl (\<lambda>o1 (k, y). map_set k y o1) m gs = m @ gs"
proof (induction gs arbitrary: m)
  case (Cons g gs)
  then show ?case by (cases g) (simp add: set_fresh image_iff)
qed simp

lemma retype_struct:
  assumes "retypeItem (AbiOutput n ''tuple'' (Some comps)) (TvObject fs) = Inr w" and "distinct (map fst fs)"
  shows "\<exists>gs. w = TvObject gs \<and> map fst gs = map fst fs"
proof -
  obtain gs where gs: "map_result (retype_field (map (\<lambda>c. (ao_name c, retypeItem c)) comps)) fs = Inr gs"
    and w: "w = TvObject (foldl (\<lambda>o1 (k, y). map_set k y o1) [] gs)"
    using assms(1)
    by (cases "map_result (retype_field (map (\<lambda>c. (ao_name c, retypeItem c)) comps)) fs")
      (simp_all add: retype_typed_def retype_tuple_def own_fields_def starts_with_def)
  then show ?thesis using map_result_fields [OF gs] assms(2) build_object [of "[]" gs] by simp
qed

text \<open>The options of a call are told from its arguments by their number.\<close>

lemma split_options_spec:
  "split_options (length args) args = (args, None)"
  "split_options (length args) (args @ [Options o1]) = (args, Some (Options o1))"
  by (simp_all add: split_options_def is_object_def)

text \<open>The fields that have a value, under their new names.\<close>

fun bridged :: "(string \<times> 'v option) list \<Rightarrow> (string \<times> 'v) list" where
  "bridged [] = []"
| "bridged ((key, None) # es) = bridged es"
| "bridged ((key, Some x) # es) = (bridge_key key, x) # bridged es"

lemma map_of_snoc: "map_of (xs @ [(a, b)]) k = (case map_of xs k of None \<Rightarrow> if k = a then Some b else None | Some c \<Rightarrow> Some c)"
  by (simp add: map_add_def split: option.splits)

lemma preprocess_fields:
  "map_of (foldl preprocess_field clear object) k =
     (if k \<in> set (allowedTransactionKeys @ object_properties)
      then (case map_of (rev (bridged object)) k of None \<Rightarrow> map_of clear k | Some x \<Rightarrow> Some x) else map_of clear k)"
proof (induction object arbitrary: clear rule: bridged.induct)
  case (3 key x es)
  show ?case
    by (simp only: foldl_Cons 3 preprocess_field.simps bridged.simps rev.simps map_of_snoc) (simp split: option.splits)
qed simp_all

text \<open>
  what the bridge hands on of a transaction is, for every key it lets through, the last value that is given for it, the
  gas under its new name, and nothing else.
\<close>

lemma preprocess_spec:
  "map_of (preprocessPayload object) k =
     (if k \<in> set (allowedTransactionKeys @ object_properties) then map_of (rev (bridged object)) k else None)"
  by (simp only: preprocessPayload_def preprocess_fields) (simp split: option.splits)

text \<open>Why a request fails at once: an \<open>eth_call\<close> of nothing, or of a transaction that cannot be written in hexadecimal.\<close>

definition fails_at_once :: "('w, 'v) bridge_env \<Rightarrow> 'v bridge_payload \<Rightarrow> js_error \<Rightarrow> bool" where
  "fails_at_once env payload e \<longleftrightarrow>
     bp_method payload = ''eth_call'' \<and>
     (case bp_params payload of None \<Rightarrow> False
      | Some params \<Rightarrow>
          (if params = [] \<or> hd params = NullBridgeParam then e = Error ''Cannot convert undefined or null to object''
           else be_hexlify env (preprocessPayload (case hd params of TransactionParam t \<Rightarrow> t | _ \<Rightarrow> [])) = Inl e))"

lemma map_sum_Inl: "map_sum (\<lambda>e. e) f x = Inl e \<longleftrightarrow> x = Inl e"
  by (cases x) simp_all

lemma original_call_fails: "original_call env payload = Inl e \<longleftrightarrow> fails_at_once env payload e"
  by (cases "bp_params payload"; cases "the (bp_params payload)"; cases "hd (the (bp_params payload))")
    (auto simp: original_call_def fails_at_once_def map_sum_Inl split: option.splits)

text \<open>
  What the provider is asked: a call of the transaction with the fields that are let through, gas under its new name, and
  of the second parameter, or else the request as it came.
\<close>

definition provider_asked :: "('w, 'v) bridge_env \<Rightarrow> 'v bridge_payload \<Rightarrow> ('w, 'v) eff \<Rightarrow> bool" where
  "provider_asked env payload m \<longleftrightarrow>
     (if bp_method payload = ''eth_call'' \<and> bp_params payload \<noteq> None
      then \<exists>p rest transaction req. bp_params payload = Some (p # rest)
        \<and> (\<forall>k. map_of transaction k =
             (if k \<in> set (allowedTransactionKeys @ object_properties)
              then map_of (rev (bridged (case p of TransactionParam t \<Rightarrow> t | _ \<Rightarrow> []))) k else None))
        \<and> be_hexlify env transaction = Inr req
        \<and> m = be_call env req (case rest of q # _ \<Rightarrow> Some q | [] \<Rightarrow> None)
      else m = be_send env (bp_method payload) (bp_params payload))"

lemma original_call_asks:
  assumes "original_call env payload = Inr m"
  shows "provider_asked env payload m"
proof (cases "bp_method payload = ''eth_call'' \<and> bp_params payload \<noteq> None")
  case True
  then obtain p rest where p: "bp_params payload = Some (p # rest)"
    using assms by (cases "the (bp_params payload)") (auto simp: original_call_def)
  let ?fields = "case p of TransactionParam t \<Rightarrow> t | _ \<Rightarrow> []"
  obtain req where "be_hexlify env (preprocessPayload ?fields) = Inr req"
    and "m = be_call env req (case rest of q # _ \<Rightarrow> Some q | [] \<Rightarrow> None)"
    using assms p True
    by (cases p; cases "be_hexlify env (preprocessPayload ?fields)") (auto simp: original_call_def split: list.splits)
  then show ?thesis
    unfolding provider_asked_def if_P [OF True] using p preprocess_spec [of ?fields] by blast
next
  case False
  then show ?thesis using assms by (auto simp: original_call_def provider_asked_def split: option.splits)
qed

text \<open>
  C36: a request to the bridge is answered exactly once, with the result of the provider under the id of the request or with
  the error of the provider, when the callback itself does not throw. The provider is asked for a call, of the
  transaction with the fields that are let through, or for the request as it came. The exceptions are an \<open>eth_call\<close> whose
  first parameter is missing or \<open>null\<close>, and one with a transaction that \<open>hexlifyTransaction\<close> refuses: exactly these
  throw at once, and then nothing is called and no answer is ever given.
\<close>

theorem bridge_answers_once:
  assumes "\<forall>a w. \<exists>w'. callback a w = (Inr (), w')"
  shows "case original_call env payload of
      Inl e \<Rightarrow> fails_at_once env payload e \<and> bridge_send env callback payload w = (Inl e, w)
    | Inr m \<Rightarrow> (\<nexists>e. fails_at_once env payload e) \<and> provider_asked env payload m \<and> bridge_send env callback payload w
        = callback (case fst (m w) of Inr r \<Rightarrow> (None, Some (case bp_id payload of Some i \<Rightarrow> i | None \<Rightarrow> [], r)) | Inl e \<Rightarrow> (Some e, None)) (snd (m w))"
proof (cases "original_call env payload")
  case (Inr m)
  then have called: "\<nexists>e. fails_at_once env payload e" "provider_asked env payload m"
    using original_call_asks by (simp_all flip: original_call_fails)
  obtain r t where m: "m w = (r, t)" by fastforce
  show ?thesis
  proof (cases r)
    case (Inl e)
    then show ?thesis using Inr m called by (simp add: bridge_send_def bnd_def lift_result_def try_catch_def)
  next
    case ok: (Inr x)
    obtain t' where "callback (None, Some (case bp_id payload of Some i \<Rightarrow> i | None \<Rightarrow> [], x)) t = (Inr (), t')" using assms by blast
    then show ?thesis using Inr m ok called by (simp add: bridge_send_def bnd_def lift_result_def try_catch_def)
  qed
next
  case (Inl e)
  then have "fails_at_once env payload e" by (simp flip: original_call_fails)
  then show ?thesis using Inl by (simp add: bridge_send_def bnd_def lift_result_def)
qed

text \<open>A callback that fails on a result is called a second time.\<close>

lemma failing_callback_called_again:
  assumes "original_call env payload = Inr m" and "m w = (Inr r, t)"
    and "callback (None, Some (case bp_id payload of Some i \<Rightarrow> i | None \<Rightarrow> [], r)) t = (Inl e, t')"
  shows "bridge_send env callback payload w = callback (Some e, None) t'"
  using assms by (simp add: bridge_send_def bnd_def lift_result_def try_catch_def)

definition sample_bridge :: "(string list, string) bridge_env" where
  "sample_bridge =
     \<lparr>be_hexlify = (\<lambda>t. if map_of t ''to'' = None then Inl (Error ''missing to'') else Inr t), be_call = (\<lambda>t p. ret (concat (map snd t))),
      be_send = (\<lambda>m ps. throw ''offline'')\<rparr>"

theorem bridge_answers_once_witness:
  "snd (bridge_send sample_bridge (\<lambda>a w. (Inr (), w @ [case snd a of Some (i, r) \<Rightarrow> r | None \<Rightarrow> ''error'']))
     \<lparr>bp_method = ''eth_call'', bp_params = Some [TransactionParam [(''to'', Some ''0x1''), (''foo'', Some ''2''), (''gas'', Some ''3'')]], bp_id = None\<rparr> [])
   = [''0x13'']"
proof -
  let ?c = "\<lambda>(a :: string bridge_answer) w. (Inr () :: js_error + unit, w @ [case snd a of Some (i, r) \<Rightarrow> r | None \<Rightarrow> ''error''])"
  have "\<forall>a w. \<exists>w'. ?c a w = (Inr (), w')" by simp
  from bridge_answers_once [OF this, of sample_bridge
      "\<lparr>bp_method = ''eth_call'', bp_params = Some [TransactionParam [(''to'', Some ''0x1''), (''foo'', Some ''2''), (''gas'', Some ''3'')]], bp_id = None\<rparr>" "[]"]
  show ?thesis
    by (simp add: original_call_def sample_bridge_def preprocessPayload_def allowedTransactionKeys_def object_properties_def bridge_key_def)
qed

end
