(* ===== verification/Presenter.thy ===== *)
theory Presenter imports Statistics ServerConfig begin

text \<open>
  \<open>packages/cli/src/CommandLineStatisticsPresenter.ts\<close>: the text the status command prints. Tables, plots, links, dates
  and the printing of amounts are libraries: they are parameters, and what is modelled is which values they are given.
\<close>

section \<open>Configuration and libraries\<close>

record CommandLineStatisticsPresenterConfig =
  cf_urlTruncateToLength :: nat
  cf_txHashTruncateToLength :: nat
  cf_valuesTruncateToLength :: nat
  cf_nativeTokenTickerSymbol :: string
  cf_averageBlocksPerDay :: int
  cf_daysToPlotTransactions :: nat
  cf_blockExplorerUrl :: "string option"

definition defaultCommandLineStatisticsPresenterConfig :: CommandLineStatisticsPresenterConfig where
  "defaultCommandLineStatisticsPresenterConfig =
     \<lparr>cf_urlTruncateToLength = 8, cf_txHashTruncateToLength = 8, cf_valuesTruncateToLength = 4, cf_nativeTokenTickerSymbol = ''ETH'',
      cf_averageBlocksPerDay = 6000, cf_daysToPlotTransactions = 7, cf_blockExplorerUrl = None\<rparr>"

text \<open>
  A table has an optional head and rows of cells; a cell that is \<open>undefined\<close> is \<open>None\<close>. A plot is of two series; a value
  that is no number is \<open>None\<close>. \<open>lp_ethVal\<close> prints an amount in a unit with a number of decimals.
\<close>

record libs_presenter =
  lp_table :: "string list option \<Rightarrow> string option list list \<Rightarrow> string"
  lp_ethVal :: "string \<Rightarrow> string \<Rightarrow> nat \<Rightarrow> string"
  lp_linkSupported :: bool
  lp_link :: "string \<Rightarrow> string \<Rightarrow> string"
  lp_plot :: "int option list \<Rightarrow> int option list \<Rightarrow> string"
  lp_fromNow :: "rat \<Rightarrow> string"
  lp_urlHost :: "string \<Rightarrow> js_error + string"

record RelayServerRegistrationInfo =
  rg_lastRegisteredUrl :: string
  rg_pingResponse :: "PingResponse option"
  rg_pingError :: "js_error option"
  rg_registeredWorkers :: "string list"
  rg_workerBalances :: "(string \<times> string) list"

text \<open>A relay with its registration.\<close>

type_synonym shown_relay = "RelayServerInfo \<times> RelayServerRegistrationInfo option"

section \<open>Cells\<close>

definition ellipsis :: string where
  "ellipsis = [CHR 0xE2, CHR 0x80, CHR 0xA6]"

definition toBlockExplorerLink :: "CommandLineStatisticsPresenterConfig \<Rightarrow> libs_presenter \<Rightarrow> string option \<Rightarrow> bool \<Rightarrow> string" where
  "toBlockExplorerLink config lib value0 isAddress =
     (let value = (case value0 of Some v \<Rightarrow> v | None \<Rightarrow> []);
          truncatedAddress = take (cf_urlTruncateToLength config + 2) value
            @ (if cf_urlTruncateToLength config < length value then ellipsis else [])
      in case cf_blockExplorerUrl config of None \<Rightarrow> truncatedAddress
         | Some explorer \<Rightarrow>
             (let url = explorer @ (if isAddress then ''address/'' else ''tx/'') @ value
              in if \<not> lp_linkSupported lib then url else lp_link lib truncatedAddress url))"

definition ethValueStr :: "CommandLineStatisticsPresenterConfig \<Rightarrow> libs_presenter \<Rightarrow> string option \<Rightarrow> string \<Rightarrow> string" where
  "ethValueStr config lib value0 units =
     lp_ethVal lib (case value0 of Some v \<Rightarrow> v | None \<Rightarrow> ''0'') units (cf_valuesTruncateToLength config)
       @ '' '' @ (if units = ''eth'' then cf_nativeTokenTickerSymbol config else units)"

definition stringServerStatus :: "RelayServerStakeStatus \<Rightarrow> string" where
  "stringServerStatus status =
     (case status of STAKE_LOCKED \<Rightarrow> ''stake locked'' | STAKE_WITHDRAWN \<Rightarrow> ''withdrawn'' | STAKE_UNLOCKED \<Rightarrow> ''unlocked''
      | STAKE_PENALIZED \<Rightarrow> ''penalized'')"

section \<open>Transactions by day\<close>

text \<open>
  \<open>eventsByDay[index]++\<close>: beyond the end the list grows, and what was not there is no number.
\<close>

definition increment_at :: "nat \<Rightarrow> int option list \<Rightarrow> int option list" where
  "increment_at i xs =
     (if i < length xs then xs[i := map_option (\<lambda>n. n + 1) (xs ! i)] else xs @ replicate (i + 1 - length xs) None)"

definition getEventsByDayCount :: "CommandLineStatisticsPresenterConfig \<Rightarrow> EventTransactionInfo list \<Rightarrow> int \<Rightarrow> int option list" where
  "getEventsByDayCount config events weekBeginningBlockApprox =
     foldl (\<lambda>eventsByDay event.
         let blockNumber = ed_blockNumber (ei_eventData event) in
         if blockNumber \<le> weekBeginningBlockApprox then eventsByDay
         else increment_at (nat ((blockNumber - weekBeginningBlockApprox - 1) div cf_averageBlocksPerDay config)) eventsByDay)
       (replicate (cf_daysToPlotTransactions config) (Some 0)) events"

definition createRecentTransactionsChart ::
  "CommandLineStatisticsPresenterConfig \<Rightarrow> libs_presenter \<Rightarrow> int \<Rightarrow> EventTransactionInfo list \<Rightarrow> EventTransactionInfo list \<Rightarrow> string" where
  "createRecentTransactionsChart config lib currentBlock relayed rejected =
     (if length relayed = 0 \<and> length rejected = 0 then ''no transactions''
      else
        (let weekBeginningBlockApprox = currentBlock - cf_averageBlocksPerDay config * int (cf_daysToPlotTransactions config)
         in lp_plot lib (getEventsByDayCount config relayed weekBeginningBlockApprox)
              (getEventsByDayCount config rejected weekBeginningBlockApprox)
            @ [CHR 0x0A] @ ''accepted rejected''))"

definition printTransactionsPlot :: "CommandLineStatisticsPresenterConfig \<Rightarrow> libs_presenter \<Rightarrow> int \<Rightarrow> RelayHubEvents \<Rightarrow> string" where
  "printTransactionsPlot config lib currentBlock events =
     createRecentTransactionsChart config lib currentBlock (transactionRelayedEvents events) (transactionRejectedEvents events)"

section \<open>Tables\<close>

definition createContractsDeploymentTable ::
  "CommandLineStatisticsPresenterConfig \<Rightarrow> libs_presenter \<Rightarrow> GSNContractsDeployment \<Rightarrow> (string \<times> string) list \<Rightarrow> (string \<times> string) list \<Rightarrow> string" where
  "createContractsDeploymentTable config lib deployment balances versions =
     (let row = (\<lambda>name address.
            let key = (case address of Some a \<Rightarrow> a | None \<Rightarrow> [])
            in [Some name, Some (toBlockExplorerLink config lib address True), Some (ethValueStr config lib (map_of balances key) ''eth''),
                map_of versions key])
      in lp_table lib (Some [[], ''Address'', ''Balance'', ''Version''])
           [row ''Stake Manager'' (dep_stakeManagerAddress deployment), row ''Penalizer '' (dep_penalizerAddress deployment),
            row ''Relay Hub'' (dep_relayHubAddress deployment)])"

definition createAddressesAndBalancesSubTable :: "CommandLineStatisticsPresenterConfig \<Rightarrow> libs_presenter \<Rightarrow> shown_relay \<Rightarrow> string" where
  "createAddressesAndBalancesSubTable config lib =
     (\<lambda>(info, registrationInfo).
       let address = (\<lambda>a. Some (toBlockExplorerLink config lib (Some a) True)); amount = (\<lambda>v. Some (ethValueStr config lib v ''eth''));
           workers = (case registrationInfo of Some g \<Rightarrow> map (\<lambda>w. [Some ''W#1'', address w, amount (map_of (rg_workerBalances g) w)]) (rg_registeredWorkers g)
              | None \<Rightarrow> [])
       in lp_table lib (Some [''Role'', ''Address'', ''Balance''])
            ([Some ''OWN'', address (si_owner (rs_stakeInfo info)), amount (Some (rs_ownerBalance info))]
             # [Some ''MGR'', address (rs_managerAddress info), amount (Some (rs_managerBalance info))] # workers)
          @ [CHR 0x0A] @
          lp_table lib None
            [[Some ''RelayHub earnings '', amount (Some (rs_relayHubEarningsBalance info))],
             [Some ''Deposited Stake'', amount (Some (int_to_string (si_stake (rs_stakeInfo info))))]])"

definition createAuthorizedHubsSubTable :: "CommandLineStatisticsPresenterConfig \<Rightarrow> libs_presenter \<Rightarrow> RelayServerInfo \<Rightarrow> string" where
  "createAuthorizedHubsSubTable config lib info =
     lp_table lib (Some [''Address'', ''Version''])
       (map (\<lambda>(hub, version). [Some (toBlockExplorerLink config lib (Some hub) True), Some version]) (rs_authorizedHubs info))"

definition createRegistrationRenewalsSubTable ::
  "CommandLineStatisticsPresenterConfig \<Rightarrow> libs_presenter \<Rightarrow> int \<Rightarrow> EventTransactionInfo list \<Rightarrow> string" where
  "createRegistrationRenewalsSubTable config lib currentBlock registered =
     lp_table lib (Some [''Link'', ''Block number'', ''Time estimate''])
       (map (\<lambda>event.
          let eventBlock = ed_blockNumber (ei_eventData event);
              estimateDays = of_int (currentBlock - eventBlock) / of_int (cf_averageBlocksPerDay config)
          in [Some (toBlockExplorerLink config lib (Some (ed_transactionHash (ei_eventData event))) False), Some (int_to_string eventBlock),
              Some (lp_fromNow lib estimateDays)])
        registered)"

definition ping_status :: "RelayServerRegistrationInfo \<Rightarrow> string" where
  "ping_status g =
     (case rg_pingResponse g of
        Some p \<Rightarrow> take 20 (if pr_ready p then ''true'' else ''false'')
      | None \<Rightarrow> (case rg_pingError g of Some e \<Rightarrow> take 20 (''Error: '' @ error_message e) | None \<Rightarrow> ''unknown''))"

text \<open>The head has a column for the fee, the rows have none.\<close>

definition active_row :: "CommandLineStatisticsPresenterConfig \<Rightarrow> libs_presenter \<Rightarrow> int \<Rightarrow> shown_relay \<Rightarrow> js_error + string option list" where
  "active_row config lib currentBlock =
     (\<lambda>(info, registrationInfo).
       case registrationInfo of None \<Rightarrow> Inl (Error ''registrationInfo not initialized for a registered relay'')
       | Some g \<Rightarrow>
           (case lp_urlHost lib (rg_lastRegisteredUrl g) of Inl e \<Rightarrow> Inl e
            | Inr host \<Rightarrow>
                (let events = rs_relayHubEvents info
                 in Inr [Some host, Some (ping_status g), Some (createAddressesAndBalancesSubTable config lib (info, registrationInfo)),
                      Some (createAuthorizedHubsSubTable config lib info),
                      Some (createRecentTransactionsChart config lib currentBlock (transactionRelayedEvents events) (transactionRejectedEvents events)),
                      Some (createRegistrationRenewalsSubTable config lib currentBlock (relayRegisteredEvents events))])))"

definition printActiveServersInfo :: "CommandLineStatisticsPresenterConfig \<Rightarrow> libs_presenter \<Rightarrow> int \<Rightarrow> shown_relay list \<Rightarrow> js_error + string" where
  "printActiveServersInfo config lib currentBlock relayServerInfos =
     (let activeRelays = filter (\<lambda>it. rs_isRegistered (fst it)) relayServerInfos
      in if length activeRelays = 0 then Inr ''no active relays found''
         else case map_result (active_row config lib currentBlock) activeRelays of Inl e \<Rightarrow> Inl e
         | Inr rows \<Rightarrow> Inr (lp_table lib
             (Some [''Host'', ''Ping status'', ''Addresses & balances'', ''Fee'', ''Authorized Hubs'', ''Transactions'', ''Registration renewals'']) rows))"

definition printNonActiveServersInfo :: "CommandLineStatisticsPresenterConfig \<Rightarrow> libs_presenter \<Rightarrow> shown_relay list \<Rightarrow> string" where
  "printNonActiveServersInfo config lib relayServerInfos =
     (let nonActiveRelays = filter (\<lambda>it. \<not> rs_isRegistered (fst it)) relayServerInfos
      in if length nonActiveRelays = 0 then ''no non-active relays found''
         else lp_table lib (Some [''Manager address'', ''Status'', ''First Seen'', ''Last Seen'', ''Total Relayed''])
           (map (\<lambda>(relay, _).
              [Some (toBlockExplorerLink config lib (Some (rs_managerAddress relay)) True), Some (stringServerStatus (rs_stakeStatus relay)),
               Some ''TODO'', Some ''TODO'', Some (int_to_string (int (length (transactionRelayedEvents (rs_relayHubEvents relay)))))])
            nonActiveRelays))"

definition by_accepted :: "PaymasterInfo \<Rightarrow> PaymasterInfo \<Rightarrow> int" where
  "by_accepted a b = int (pi_acceptedTransactionsCount b) - int (pi_acceptedTransactionsCount a)"

definition top_paymasters :: "PaymasterInfo list \<Rightarrow> PaymasterInfo list" where
  "top_paymasters paymasters = take 10 (sort_cmp by_accepted paymasters)"

definition printPaymastersInfo :: "CommandLineStatisticsPresenterConfig \<Rightarrow> libs_presenter \<Rightarrow> PaymasterInfo list \<Rightarrow> string" where
  "printPaymastersInfo config lib paymasters =
     (if length paymasters = 0 then ''no paymasters found''
      else lp_table lib (Some [''Address'', ''Hub balance'', ''Transactions accepted'', ''Transaction rejected''])
          (map (\<lambda>p. [Some (toBlockExplorerLink config lib (Some (pi_address p)) True), Some (ethValueStr config lib (Some (pi_relayHubBalance p)) ''eth''),
              Some (int_to_string (int (pi_acceptedTransactionsCount p))), Some (int_to_string (int (pi_rejectedTransactionsCount p)))])
            (top_paymasters paymasters))
        @ (if 10 < length paymasters then [CHR 0x0A] @ '' and '' @ int_to_string (int (length paymasters) - 10) @ '' more...'' else []))"

definition printRelayHubConstructorParams :: "libs_presenter \<Rightarrow> RelayHubConstructorParams \<Rightarrow> string" where
  "printRelayHubConstructorParams lib params =
     lp_table lib None
       [[Some ''Max worker count'', Some (cp_maxWorkerCount params)],
        [Some ''Minimum unstake delay'', Some (cp_minimumUnstakeDelay params @ '' blocks'')],
        [Some ''Gas Reserve'', Some (cp_gasReserve params)],
        [Some ''Post Overhead'', Some (cp_postOverhead params)],
        [Some ''Gas Overhead'', Some (cp_gasOverhead params)]]"

text \<open>The statistics of the manager have no registrations: \<open>registration\<close> gives the one of a relay.\<close>

definition getStatisticsStringPresentation ::
  "CommandLineStatisticsPresenterConfig \<Rightarrow> libs_presenter \<Rightarrow> (RelayServerInfo \<Rightarrow> RelayServerRegistrationInfo option) \<Rightarrow> GSNStatistics \<Rightarrow> js_error + string" where
  "getStatisticsStringPresentation config lib registration statistics =
     (let nl2 = [CHR 0x0A, CHR 0x0A]; nl = [CHR 0x0A]; relays = map (\<lambda>r. (r, registration r)) (gs_relayServers statistics)
      in case printActiveServersInfo config lib (gs_blockNumber statistics) relays of Inl e \<Rightarrow> Inl e
         | Inr active \<Rightarrow> Inr
            (''GSN status for version '' @ gs_runtimeVersion statistics @ '' on ChainID ''
              @ (case gs_chainId statistics of Some c \<Rightarrow> int_to_string c | None \<Rightarrow> ''undefined'')
              @ '' at block height '' @ int_to_string (gs_blockNumber statistics) @ nl2
             @ createContractsDeploymentTable config lib (gs_contractsDeployment statistics) (gs_deploymentBalances statistics) (gs_deploymentVersions statistics)
             @ nl2 @ ''Relay Hub constructor parameters:'' @ nl @ printRelayHubConstructorParams lib (gs_relayHubConstructorParams statistics)
             @ nl2 @ ''Transactions:'' @ nl @ printTransactionsPlot config lib (gs_blockNumber statistics) (gs_relayHubEvents statistics)
             @ nl2 @ ''Active Relays:'' @ nl @ active
             @ nl2 @ ''Non-active Relays:'' @ nl @ printNonActiveServersInfo config lib relays
             @ nl2 @ ''Paymasters:'' @ nl @ printPaymastersInfo config lib (gs_paymasters statistics)))"

section \<open>What the plot and the tables show\<close>

text \<open>The events of a day: those of the blocks of that day, which begins after the block given.\<close>

definition on_day :: "CommandLineStatisticsPresenterConfig \<Rightarrow> int \<Rightarrow> nat \<Rightarrow> EventTransactionInfo \<Rightarrow> bool" where
  "on_day config beginning d e \<longleftrightarrow>
     beginning + int d * cf_averageBlocksPerDay config < ed_blockNumber (ei_eventData e)
     \<and> ed_blockNumber (ei_eventData e) \<le> beginning + (int d + 1) * cf_averageBlocksPerDay config"

lemma day_of_block:
  assumes "0 < n" and "0 < b"
  shows "nat ((b - 1) div n) = d \<longleftrightarrow> int d * n < b \<and> b \<le> (int d + 1) * (n :: int)"
proof -
  have "0 \<le> (b - 1) div n" using assms by (simp add: pos_imp_zdiv_nonneg_iff)
  then have "nat ((b - 1) div n) = d \<longleftrightarrow> (b - 1) div n = int d" by auto
  also have "\<dots> \<longleftrightarrow> int d * n \<le> b - 1 \<and> b - 1 < (int d + 1) * n"
  proof -
    let ?q = "(b - 1) div n"
    have b: "b - 1 = ?q * n + (b - 1) mod n" by simp
    have r: "0 \<le> (b - 1) mod n" "(b - 1) mod n < n" using assms(1) by simp_all
    have less: "(x + 1) * n \<le> y * n" if "x < y" for x y using that assms(1) by (intro mult_right_mono) auto
    show ?thesis
    proof
      assume "?q = int d"
      then show "int d * n \<le> b - 1 \<and> b - 1 < (int d + 1) * n" using b r by (simp add: distrib_right)
    next
      assume d: "int d * n \<le> b - 1 \<and> b - 1 < (int d + 1) * n"
      have "\<not> ?q < int d" using less [of ?q "int d", unfolded distrib_right] d [unfolded distrib_right] b r by linarith
      moreover have "\<not> int d < ?q" using less [of "int d" ?q, unfolded distrib_right] d [unfolded distrib_right] b r by linarith
      ultimately show "?q = int d" by simp
    qed
  qed
  finally show ?thesis by auto
qed

lemma increment_known:
  "i < length xs \<Longrightarrow> increment_at i (map (\<lambda>d. Some (f d)) [0 ..< length xs]) = map (\<lambda>d. Some (if d = i then f d + 1 else f d)) [0 ..< length xs]"
  by (auto simp: increment_at_def intro!: nth_equalityI simp: nth_list_update)

text \<open>
  the plot of the recent transactions shows, for every day, how many events there were in the blocks of that day, when
  no event is of a block after the current one: no event of these days is left out or counted twice, and none is shown
  outside of them.
\<close>

theorem getEventsByDayCount_exact:
  assumes "0 < cf_averageBlocksPerDay config"
    and "\<forall>e \<in> set events. ed_blockNumber (ei_eventData e)
      \<le> beginning + cf_averageBlocksPerDay config * int (cf_daysToPlotTransactions config)"
  shows "getEventsByDayCount config events beginning
    = map (\<lambda>d. Some (int (length (filter (on_day config beginning d) events)))) [0 ..< cf_daysToPlotTransactions config]"
  using assms(2)
proof (induction events rule: rev_induct)
  case Nil
  show ?case by (auto simp: getEventsByDayCount_def intro!: nth_equalityI)
next
  case (snoc e events)
  let ?n = "cf_averageBlocksPerDay config" and ?b = "ed_blockNumber (ei_eventData e)" and ?days = "cf_daysToPlotTransactions config"
  let ?f = "\<lambda>d. int (length (filter (on_day config beginning d) events))"
  have IH: "getEventsByDayCount config events beginning = map (\<lambda>d. Some (?f d)) [0 ..< ?days]" using snoc by simp
  show ?case
  proof (cases "?b \<le> beginning")
    case True
    have "\<not> on_day config beginning d e" for d
    proof -
      have "0 \<le> int d * ?n" using assms(1) by simp
      then show ?thesis using True by (simp add: on_day_def)
    qed
    then show ?thesis using IH True by (simp add: getEventsByDayCount_def Let_def)
  next
    case False
    define i where "i = nat ((?b - beginning - 1) div ?n)"
    have day: "i = d \<longleftrightarrow> on_day config beginning d e" for d
      using day_of_block [OF assms(1), of "?b - beginning" d] False by (auto simp: i_def on_day_def algebra_simps)
    have "i < ?days"
    proof -
      have "?b - beginning \<le> ?n * int ?days" using snoc.prems by simp
      moreover have "int i * ?n < ?b - beginning" using day [of i] by (simp add: on_day_def algebra_simps)
      ultimately have "int i * ?n < int ?days * ?n" by (simp add: mult.commute)
      then show ?thesis using assms(1) by simp
    qed
    then have "increment_at i (map (\<lambda>d. Some (?f d)) [0 ..< ?days]) = map (\<lambda>d. Some (if d = i then ?f d + 1 else ?f d)) [0 ..< ?days]"
      using increment_known [of i "replicate ?days ()" ?f] by simp
    then have "getEventsByDayCount config (events @ [e]) beginning = map (\<lambda>d. Some (if d = i then ?f d + 1 else ?f d)) [0 ..< ?days]"
      using IH False by (simp add: getEventsByDayCount_def Let_def i_def)
    moreover have "d = i \<longleftrightarrow> on_day config beginning d e" for d using day [of d] by auto
    ultimately show ?thesis by simp
  qed
qed

definition event_in :: "int \<Rightarrow> EventTransactionInfo" where
  "event_in b = \<lparr>ei_eventData = \<lparr>ed_event = ''TransactionRelayed'', ed_blockNumber = b, ed_transactionIndex = 0, ed_transactionHash = [],
     ed_returnValues = []\<rparr>, ei_returnValues = []\<rparr>"

theorem getEventsByDayCount_exact_witness:
  "getEventsByDayCount defaultCommandLineStatisticsPresenterConfig [event_in 100000, event_in 94001, event_in 94000, event_in 7] 58000
     = map Some [0, 0, 0, 0, 0, 1, 2]"
proof -
  have 1: "0 < cf_averageBlocksPerDay defaultCommandLineStatisticsPresenterConfig" by (simp add: defaultCommandLineStatisticsPresenterConfig_def)
  show ?thesis
    using getEventsByDayCount_exact [OF 1, of "[event_in 100000, event_in 94001, event_in 94000, event_in 7]" 58000]
    by (simp add: defaultCommandLineStatisticsPresenterConfig_def event_in_def on_day_def upt_rec)
qed

text \<open>An event of a block after the current one is shown as no number on a day that is not there.\<close>

lemma future_event_is_no_number:
  "getEventsByDayCount defaultCommandLineStatisticsPresenterConfig [event_in 100001] 58000 = replicate 7 (Some 0) @ [None]"
  by (simp add: getEventsByDayCount_def defaultCommandLineStatisticsPresenterConfig_def event_in_def increment_at_def replicate_eqI numeral_eq_Suc)

interpretation paymaster_order: comparator by_accepted
  by unfold_locales (auto simp: by_accepted_def)

text \<open>The paymasters that are shown are the ten with the most accepted transactions.\<close>

lemma top_paymasters_best:
  assumes "p \<in> set (top_paymasters ps)" and "q \<in># mset ps - mset (top_paymasters ps)"
  shows "pi_acceptedTransactionsCount q \<le> pi_acceptedTransactionsCount p"
proof -
  let ?s = "sort_cmp by_accepted ps"
  have s: "sorted_wrt (\<lambda>a b. by_accepted a b \<le> 0) ?s" by (rule paymaster_order.sort_sorted)
  have "mset ps = mset (take 10 ?s) + mset (drop 10 ?s)" by (metis append_take_drop_id mset_append mset_sort_cmp)
  then have "q \<in> set (drop 10 ?s)" using assms(2) by (simp add: top_paymasters_def)
  then have "by_accepted p q \<le> 0"
    using s assms(1) unfolding top_paymasters_def by (metis append_take_drop_id sorted_wrt_append)
  then show ?thesis by (simp add: by_accepted_def)
qed

text \<open>A row of an active relay has a cell less than the head.\<close>

lemma active_row_short:
  "active_row config lib currentBlock r = Inr cells \<Longrightarrow> length cells = 6"
  by (auto simp: active_row_def Let_def split: prod.splits option.splits sum.splits)

end
