(* ===== verification/CliCommands.thy ===== *)
theory CliCommands imports Commands CliUtils KeyManager Presenter RunServer begin

text \<open>
  \<open>packages/cli/src/commands\<close> and \<open>packages/cli/src/GsnTestEnvironment.ts\<close>: the commands put the operations of
  \<open>CommandsLogic\<close>, the files of the work directory and the options together. A command gives its exit code, \<open>None\<close>
  where it does not call \<open>process.exit\<close>, and the lines it prints that depend on its results. Options are after their
  defaults were filled in by the option parser.
\<close>

section \<open>Sessions\<close>

record commander =
  co_option :: "string \<Rightarrow> string option"
  co_flag :: "string \<Rightarrow> bool"

text \<open>Who signs: the accounts of the node, an account of a mnemonic, or a private key.\<close>

datatype wallet = NodeWallet | MnemonicWallet string "string option" "int option" | KeyWallet string

definition commands_wallet :: "string option \<Rightarrow> string option \<Rightarrow> string option \<Rightarrow> string option \<Rightarrow> wallet" where
  "commands_wallet mnemonic derivationPath derivationIndex privateKey =
     (case mnemonic of
        Some m \<Rightarrow> MnemonicWallet m derivationPath (parseInt (case derivationIndex of Some i \<Rightarrow> i | None \<Rightarrow> ''0''))
      | None \<Rightarrow> (case privateKey of Some k \<Rightarrow> KeyWallet k | None \<Rightarrow> NodeWallet))"

text \<open>
  \<open>cl_logic\<close> is the node behind a URL together with the wallet; \<open>cl_toWei\<close> and \<open>cl_toHex\<close> are those of \<open>web3-utils\<close>,
  \<open>cl_sign\<close> signs with a private key, \<open>cl_lines\<close> is what the user types.
\<close>

record 'w cli_env =
  cl_logic :: "string \<Rightarrow> wallet \<Rightarrow> 'w cm_env"
  cl_lines :: "string list"
  cl_environ :: "(string \<times> string) list"
  cl_toWei :: "string \<Rightarrow> string \<Rightarrow> js_error + int"
  cl_toHex :: "string \<Rightarrow> string"
  cl_fromWei :: "int \<Rightarrow> string"
  cl_hubConfiguration :: "json \<Rightarrow> RelayHubConfiguration"
  cl_keys :: "'w key_env"
  cl_sign :: "string \<Rightarrow> unsigned_tx \<Rightarrow> TypedTransaction"

definition start_session :: "'w cli_env \<Rightarrow> GSNContractsDeployment \<Rightarrow> 'w \<Rightarrow> 'w cm_state" where
  "start_session env deployment w =
     ci_state.extend ((fresh_ci w)\<lparr>ci_deployment := deployment\<rparr>) (cm_state.fields (Some deployment) (cl_lines env) [])"

definition in_session :: "'w cli_env \<Rightarrow> GSNContractsDeployment \<Rightarrow> ('w cm_state, 'a) eff \<Rightarrow> ('w host, 'a) eff" where
  "in_session env deployment m = on_hw (\<lambda>w. case m (start_session env deployment w) of (r, s) \<Rightarrow> (r, world s))"

text \<open>A session goes on with the state it has after other steps of the command.\<close>

definition continue_session :: "'w cm_state \<Rightarrow> ('w cm_state, 'a) eff \<Rightarrow> ('w host, 'a \<times> 'w cm_state) eff" where
  "continue_session s m =
     on_hw (\<lambda>w. case m (s\<lparr>world := w\<rparr>) of (Inl e, s') \<Rightarrow> (Inl e, world s') | (Inr x, s') \<Rightarrow> (Inr (x, s'), world s'))"

definition logic_init :: "'w cm_env \<Rightarrow> ('w cm_state, unit) eff" where
  "logic_init logic = ci_init (ce_chain logic) (ce_lib logic) (ce_interactor logic)"

definition of_hub :: "string \<Rightarrow> GSNContractsDeployment" where
  "of_hub hub = no_deployment\<lparr>dep_relayHubAddress := Some hub\<rparr>"

type_synonym outcome = "nat option \<times> string list"

definition exit_with :: "nat \<Rightarrow> string list \<Rightarrow> ('w host, outcome) eff" where
  "exit_with code lines = ret (Some code, lines)"

text \<open>The handler at the end of every command.\<close>

definition command_main :: "('w host, outcome) eff \<Rightarrow> ('w host, outcome) eff" where
  "command_main body = try_catch body (\<lambda>reason. ret (Some 1, [error_message reason]))"

text \<open>A wait that has not come to its end within its fuel; with a clock that goes on this does not happen.\<close>

definition finished :: "('w cm_state, 'a option) eff \<Rightarrow> ('w cm_state, 'a) eff" where
  "finished m = bnd m (\<lambda>r. case r of Some x \<Rightarrow> ret x | None \<Rightarrow> throw ''not returned'')"

definition wait_fuel :: nat where
  "wait_fuel = 21"

definition logic_of :: "'w cli_env \<Rightarrow> commander \<Rightarrow> string \<Rightarrow> string option \<Rightarrow> 'w cm_env" where
  "logic_of env c url mnemonic =
     cl_logic env url (commands_wallet mnemonic (co_option c ''derivationPath'') (co_option c ''derivationIndex'') (co_option c ''privateKeyHex''))"

definition network_url :: "'w cli_env \<Rightarrow> commander \<Rightarrow> ('w host, string) eff" where
  "network_url env c = lift_result (getNetworkUrl (case co_option c ''network'' of Some n \<Rightarrow> n | None \<Rightarrow> []) (cl_environ env))"

text \<open>\<open>commander.from ?? await logic.findWealthyAccount()\<close>, of two ether.\<close>

definition from_account :: "'w cm_env \<Rightarrow> commander \<Rightarrow> ('w cm_state, string) eff" where
  "from_account logic c = (case co_option c ''from'' of Some a \<Rightarrow> ret a | None \<Rightarrow> findWealthyAccount logic (2 * 10 ^ 18))"

definition gas_price_hex :: "'w cli_env \<Rightarrow> 'w cm_env \<Rightarrow> commander \<Rightarrow> ('w cm_state, string) eff" where
  "gas_price_hex env logic c =
     bnd (case co_option c ''gasPrice'' of Some g \<Rightarrow> lift_result (cl_toWei env g ''gwei'') | None \<Rightarrow> cm_getGasPrice logic) (\<lambda>p.
     ret (cl_toHex env (int_to_string p)))"

section \<open>Paymasters\<close>

definition contracts_of :: "commander \<Rightarrow> ('w host, string \<times> string) eff" where
  "contracts_of c =
     bnd (getRelayHubAddress (co_option c ''hub'')) (\<lambda>hub.
     bnd (getPaymasterAddress (co_option c ''paymaster'')) (\<lambda>paymaster.
     case (hub, paymaster) of
       (Some h, Some p) \<Rightarrow> ret (h, p)
     | _ \<Rightarrow> throw (''Contracts not found: hub: '' @ shown hub @ '' paymaster: '' @ shown paymaster @ '' '')))"

definition gsn_paymaster_balance :: "'w cli_env \<Rightarrow> commander \<Rightarrow> ('w host, outcome) eff" where
  "gsn_paymaster_balance env c =
     command_main
       (bnd (network_url env c) (\<lambda>nodeURL.
        bnd (contracts_of c) (\<lambda>(hub, paymaster).
        let logic = cl_logic env nodeURL NodeWallet
        in bnd (in_session env (of_hub hub) (bnd (logic_init logic) (\<lambda>_. getPaymasterBalance logic paymaster))) (\<lambda>balance.
           ret (None, [''Account '' @ paymaster @ '' has a GSN balance of '' @ cl_fromWei env balance @ '' ETH'']))))) "

definition fund_session :: "'w cli_env \<Rightarrow> commander \<Rightarrow> 'w cm_env \<Rightarrow> string \<Rightarrow> ('w cm_state, int) eff" where
  "fund_session env c logic paymaster =
     bnd (logic_init logic) (\<lambda>_.
     bnd (from_account logic c) (\<lambda>from.
     bnd (case co_option c ''amount'' of Some a \<Rightarrow> lift_result (toBN_string a) | None \<Rightarrow> ret (10 ^ 18)) (\<lambda>amount.
     fundPaymaster logic from paymaster amount)))"

definition gsn_paymaster_fund :: "'w cli_env \<Rightarrow> commander \<Rightarrow> ('w host, outcome) eff" where
  "gsn_paymaster_fund env c =
     command_main
       (bnd (network_url env c) (\<lambda>nodeURL.
        bnd (contracts_of c) (\<lambda>(hub, paymaster).
        bnd (getMnemonic (co_option c ''mnemonic'')) (\<lambda>mnemonic.
        bnd (in_session env (of_hub hub) (fund_session env c (logic_of env c nodeURL mnemonic) paymaster)) (\<lambda>balance.
        ret (None, [''Paymaster '' @ paymaster @ '' balance is now '' @ int_to_string balance @ '' wei'']))))))"

section \<open>Registering and withdrawing\<close>

definition result_lines :: "string \<Rightarrow> RegistrationResult \<Rightarrow> string list" where
  "result_lines title r =
     (if rg_success r then title # (case rg_transactions r of Some txs \<Rightarrow> txs | None \<Rightarrow> [])
      else [case rg_error r of Some e \<Rightarrow> e | None \<Rightarrow> ''undefined''])"

definition option_text :: "commander \<Rightarrow> string \<Rightarrow> string" where
  "option_text c k = (case co_option c k of Some v \<Rightarrow> v | None \<Rightarrow> [])"

text \<open>A sleep count that is no number never ends the wait for the owner; here it does not return.\<close>

definition register_options :: "'w cli_env \<Rightarrow> 'w cm_env \<Rightarrow> commander \<Rightarrow> ('w cm_state, RegisterOptions option) eff" where
  "register_options env logic c =
     bnd (from_account logic c) (\<lambda>from.
     bnd (lift_result (cl_toWei env (option_text c ''funds'') ''ether'')) (\<lambda>funds.
     bnd (case co_option c ''gasPrice'' of
            Some g \<Rightarrow> bnd (lift_result (cl_toWei env g ''gwei'')) (\<lambda>p. ret (Some (int_to_string p))) | None \<Rightarrow> ret None) (\<lambda>gasPrice.
     ret (case (parseInt (option_text c ''sleep''), parseInt (option_text c ''sleepCount'')) of
            (Some sleepMs, Some sleepCount) \<Rightarrow>
              Some \<lparr>ro_sleepMs = sleepMs, ro_sleepCount = nat sleepCount, ro_from = from, ro_token = co_option c ''token'',
                ro_gasPrice = gasPrice, ro_stake = option_text c ''stake'', ro_wrap = co_flag c ''wrap'',
                ro_funds = int_to_string funds, ro_relayUrl = option_text c ''relayUrl'', ro_unstakeDelay = option_text c ''unstakeDelay''\<rparr>
          | _ \<Rightarrow> None))))"

definition gsn_relayer_register :: "'w cli_env \<Rightarrow> commander \<Rightarrow> ('w host, outcome) eff" where
  "gsn_relayer_register env c =
     command_main
       (bnd (network_url env c) (\<lambda>host.
        bnd (getMnemonic (co_option c ''mnemonic'')) (\<lambda>mnemonic.
        let logic = logic_of env c host mnemonic in
        bnd (in_session env (no_deployment\<lparr>dep_managerStakeTokenAddress := co_option c ''token''\<rparr>)
          (bnd (logic_init logic) (\<lambda>_.
           bnd (finished (register_options env logic c)) (\<lambda>registerOptions.
           finished (cm_registerRelay logic registerOptions wait_fuel))))) (\<lambda>result.
        exit_with (if rg_success result then 0 else 1) (result_lines ''Relay registered successfully! Transactions:'' result)))))"

definition signing_logic :: "'w cli_env \<Rightarrow> 'w cm_env \<Rightarrow> key_manager \<Rightarrow> 'w cm_env" where
  "signing_logic env logic km = logic\<lparr>ce_sign := (\<lambda>signer tx. map_sum (\<lambda>e. e) snd (key_signTransaction (cl_sign env) km signer tx))\<rparr>"

definition withdraw_options ::
  "'w cli_env \<Rightarrow> commander \<Rightarrow> key_manager \<Rightarrow> string \<Rightarrow> string option \<Rightarrow> string \<Rightarrow> bool \<Rightarrow> js_error + WithdrawOptions" where
  "withdraw_options env c km hub owner amount useAccountBalance =
     (case cl_toWei env amount ''ether'' of Inl e \<Rightarrow> Inl e
      | Inr withdrawAmount \<Rightarrow>
          (let options = (\<lambda>gasPrice. \<lparr>wo_withdrawAmount = withdrawAmount, wo_managerAddresses = getAddresses km, wo_ownerAddress = owner,
              wo_relayHubAddress = hub, wo_broadcast = co_flag c ''broadcast'', wo_gasPrice = gasPrice,
              wo_withdrawTarget = co_option c ''target'', wo_useAccountBalance = useAccountBalance\<rparr>)
           in case co_option c ''gasPrice'' of None \<Rightarrow> Inr (options None)
              | Some g \<Rightarrow> map_sum (\<lambda>e. e) (\<lambda>p. options (Some p)) (cl_toWei env g ''gwei'')))"

text \<open>A text field of the configuration file; one that is missing is \<open>undefined\<close>.\<close>

definition config_text :: "json \<Rightarrow> string \<Rightarrow> ('w host, string option) eff" where
  "config_text config k = bnd (lift_result (json_field config k)) (\<lambda>v. ret (address_text v))"

definition gsn_relayer_withdraw :: "'w cli_env \<Rightarrow> commander \<Rightarrow> ('w host, outcome) eff" where
  "gsn_relayer_withdraw env c =
     command_main
       (bnd (getServerConfig (option_text c ''serverConfig'')) (\<lambda>config.
        bnd (config_text config ''ethereumNodeUrl'') (\<lambda>host.
        bnd (config_text config ''relayHubAddress'') (\<lambda>hub.
        bnd (config_text config ''ownerAddress'') (\<lambda>owner.
        let logic = cl_logic env (case host of Some u \<Rightarrow> u | None \<Rightarrow> []) NodeWallet; session = no_deployment\<lparr>dep_relayHubAddress := hub\<rparr>;
            hubAddress = (case hub of Some h \<Rightarrow> h | None \<Rightarrow> []) in
        bnd (gets (\<lambda>s. start_session env session (hw s))) (\<lambda>s0.
        bnd (continue_session s0 (logic_init logic)) (\<lambda>(_, s).
        bnd (getKeystorePath (option_text c ''keystorePath'')) (\<lambda>keystorePath.
        bnd (newKeyManager (cl_keys env) 1 (Some keystorePath) None) (\<lambda>keyManager.
        let signing = signing_logic env logic keyManager in
        case (co_option c ''ethAccountAmount'', co_option c ''hubBalanceAmount'') of
          (None, None) \<Rightarrow>
            bnd (continue_session s (displayManagerBalances signing hubAddress (getAddresses keyManager))) (\<lambda>((account, hubBalance), _).
            ret (None, [account, hubBalance]))
        | (Some _, Some _) \<Rightarrow> throw ''Must provide exactly one option of -d (--hub-deposit-amount) or -e (--eth-account-amount)''
        | (account, hubBalance) \<Rightarrow>
            bnd (lift_result (withdraw_options env c keyManager hubAddress owner
               (case account of Some a \<Rightarrow> a | None \<Rightarrow> (case hubBalance of Some a \<Rightarrow> a | None \<Rightarrow> [])) (account \<noteq> None))) (\<lambda>withdrawOptions.
            bnd (continue_session s (finished (cm_withdrawToOwner signing withdrawOptions))) (\<lambda>(result, _).
            exit_with (if rg_success result then 0 else 1)
              (if rg_success result \<and> \<not> wo_broadcast withdrawOptions
               then [''Running in view mode succeeded! Run again with --broadcast to send the transaction on-chain'']
               else result_lines ''Withdrew to owner successfully! Transactions:'' result))))))))))))"

section \<open>Deploying\<close>

definition deploy_options ::
  "commander \<Rightarrow> string \<Rightarrow> string \<Rightarrow> RelayHubConfiguration \<Rightarrow> PenalizerConfiguration \<Rightarrow> DeployOptions" where
  "deploy_options c from gasPrice relayHubConfiguration penalizerConfiguration =
     \<lparr>do_from = Some from, do_gasPrice = Some gasPrice, do_gasLimit = option_text c ''gasLimit'',
      do_deployPaymaster = Some (co_flag c ''testPaymaster''), do_forwarderAddress = co_option c ''forwarder'',
      do_relayHubAddress = co_option c ''relayHub'', do_relayRegistryAddress = co_option c ''relayRegistrar'',
      do_stakeManagerAddress = co_option c ''stakeManager'', do_deployTestToken = Some (co_flag c ''testToken''),
      do_stakingTokenAddress = co_option c ''stakingToken'', do_minimumTokenStake = option_text c ''minimumTokenStake'',
      do_penalizerAddress = co_option c ''penalizer'', do_burnAddress = co_option c ''burnAddress'', do_devAddress = co_option c ''devAddress'',
      do_skipConfirmation = (if co_flag c ''skipConfirmation'' then Some True else None),
      do_relayHubConfiguration = relayHubConfiguration, do_penalizerConfiguration = penalizerConfiguration\<rparr>"

definition deploy_session ::
  "'w cli_env \<Rightarrow> commander \<Rightarrow> 'w cm_env \<Rightarrow> RelayHubConfiguration \<Rightarrow> PenalizerConfiguration \<Rightarrow> ('w cm_state, GSNContractsDeployment) eff" where
  "deploy_session env c logic relayHubConfiguration penalizerConfiguration =
     bnd (from_account logic c) (\<lambda>from.
     bnd (gas_price_hex env logic c) (\<lambda>gasPrice.
     if co_flag c ''testToken'' = (co_option c ''stakingToken'' \<noteq> None) then throw ''must specify either --testToken or --stakingToken''
     else deployGsnContracts logic (deploy_options c from gasPrice relayHubConfiguration penalizerConfiguration)))"

text \<open>\<open>getRelayHubConfiguration(commander.config) ?? environment.relayHubConfiguration\<close>\<close>

definition hub_configuration :: "'w cli_env \<Rightarrow> commander \<Rightarrow> Environment \<Rightarrow> ('w host, RelayHubConfiguration) eff" where
  "hub_configuration env c environment =
     bnd (getRelayHubConfiguration (co_option c ''config'')) (\<lambda>j.
     ret (if nullish j then env_relayHubConfiguration environment else cl_hubConfiguration env (the j)))"

definition gsn_deploy :: "'w cli_env \<Rightarrow> commander \<Rightarrow> ('w host, outcome) eff" where
  "gsn_deploy env c =
     command_main
       (bnd (network_url env c) (\<lambda>nodeURL.
        case map_of environments (option_text c ''environmentName'') of
          None \<Rightarrow> throw (''Unknown named environment: '' @ option_text c ''environmentName'')
        | Some environment \<Rightarrow>
            bnd (getMnemonic (co_option c ''mnemonic'')) (\<lambda>mnemonic.
            bnd (hub_configuration env c environment) (\<lambda>relayHubConfiguration.
            bnd (in_session env no_deployment
                  (deploy_session env c (logic_of env c nodeURL mnemonic) relayHubConfiguration (env_penalizerConfiguration environment)))
              (\<lambda>deploymentResult.
            bnd (saveDeployment deploymentResult (option_text c ''workdir'')) (\<lambda>_.
            exit_with 0 (showDeployment deploymentResult (Some (''Deployed GSN to network: '' @ option_text c ''network'')) (Some ''Default''))))))))"

section \<open>The status of the network\<close>

definition status_session :: "'w cm_env \<Rightarrow> string \<Rightarrow> ('w, GSNStatistics) eff" where
  "status_session logic hub =
     (\<lambda>w. case bnd (ci_init (ce_chain logic) (ce_lib logic) (ce_interactor logic)) (\<lambda>_. gatherStatistics (ce_chain logic) (ce_interactor logic))
         (ci_state.extend ((fresh_ci w)\<lparr>ci_deployment := of_hub hub\<rparr>) (st_state.fields None None)) of (r, s) \<Rightarrow> (r, world s))"

definition gsn_status :: "'w cli_env \<Rightarrow> libs_presenter \<Rightarrow> commander \<Rightarrow> ('w host, outcome) eff" where
  "gsn_status env lib c =
     command_main
       (bnd (network_url env c) (\<lambda>host.
        bnd (getRelayHubAddress (co_option c ''hub'')) (\<lambda>hub.
        case hub of None \<Rightarrow> exit_with 1 [''Please specify RelayHub address'']
        | Some relayHubAddress \<Rightarrow>
            bnd (on_hw (status_session (cl_logic env host NodeWallet) relayHubAddress)) (\<lambda>statistics.
            let config = defaultCommandLineStatisticsPresenterConfig
              \<lparr>cf_blockExplorerUrl := map_of networksBlockExplorers (option_text c ''network'')\<rparr>
            in bnd (lift_result (getStatisticsStringPresentation config lib (\<lambda>_. None) statistics)) (\<lambda>text. ret (None, [text]))))))"

section \<open>Sending a request\<close>

text \<open>
  \<open>rq_account\<close> is the first account of a mnemonic, with its private key; \<open>rq_relayProvider\<close> makes and starts a relay
  provider for a paymaster, with a private key if there is one; \<open>rq_methods\<close> are the methods of a contract with that ABI,
  \<open>rq_send\<close> calls one through the plain or the relay provider.
\<close>

record 'w request_env =
  rq_account :: "string \<Rightarrow> string \<times> string"
  rq_relayProvider :: "string \<Rightarrow> string \<Rightarrow> string option \<Rightarrow> ('w, unit) eff"
  rq_methods :: "json \<Rightarrow> string list"
  rq_send :: "bool \<Rightarrow> string \<Rightarrow> string \<Rightarrow> string list \<Rightarrow> string \<Rightarrow> string \<Rightarrow> string \<Rightarrow> ('w, string) eff"

definition commaSeparatedList :: "string \<Rightarrow> string list" where
  "commaSeparatedList value1 = split_on CHR '','' value1"

text \<open>Whether the provider relays, and the sender.\<close>

definition getProvider :: "'w request_env \<Rightarrow> commander \<Rightarrow> string option \<Rightarrow> string \<Rightarrow> ('w, bool \<times> string) eff" where
  "getProvider rq c mnemonic host =
     bnd (case (co_option c ''from'', mnemonic) of
            (Some a, _) \<Rightarrow> ret (a, None)
          | (None, Some m) \<Rightarrow> ret (fst (rq_account rq m), Some (snd (rq_account rq m)))
          | (None, None) \<Rightarrow> throw ''must specify either \"--mnemonic\" or pass \"--from\" account'') (\<lambda>(from, privateKey).
     if co_flag c ''directCall'' then ret (False, from)
     else (case co_option c ''paymaster'' of None \<Rightarrow> throw ''--paymaster: address not specified''
       | Some paymaster \<Rightarrow> bnd (rq_relayProvider rq host paymaster privateKey) (\<lambda>_. ret (True, from))))"

text \<open>The method that is called: calldata and method exclude each other, and there is no method without a name.\<close>

definition method_of :: "commander \<Rightarrow> string list \<Rightarrow> js_error + string" where
  "method_of c methods =
     (case (co_option c ''calldata'', co_option c ''method'') of
        (Some _, Some _) \<Rightarrow> Inl (Error ''Cannot pass both --calldata and --method'')
      | (None, None) \<Rightarrow> Inl (Error ''Must pass either --calldata or --method'')
      | (Some _, None) \<Rightarrow> if ''undefined'' \<in> set methods then Inr ''undefined'' else Inl (Error ''Method (undefined) is not found on contract'')
      | (None, Some m) \<Rightarrow> if m \<in> set methods then Inr m else Inl (Error (''Method ('' @ m @ '') is not found on contract'')))"

definition abi_of :: "commander \<Rightarrow> ('w host, json) eff" where
  "abi_of c =
     (case co_option c ''abiFile'' of None \<Rightarrow> throw ''--abiFile: ABI file undefined does not exist''
      | Some f \<Rightarrow> bnd (existsSync f) (\<lambda>found. if \<not> found then throw (''--abiFile: ABI file '' @ f @ '' does not exist'') else read_json f))"

definition gsn_send_request :: "'w cli_env \<Rightarrow> 'w request_env \<Rightarrow> commander \<Rightarrow> ('w host, outcome) eff" where
  "gsn_send_request env rq c =
     command_main
       (bnd (network_url env c) (\<lambda>nodeURL.
        bnd (getMnemonic (co_option c ''mnemonic'')) (\<lambda>mnemonic.
        bnd (on_hw (getProvider rq c mnemonic nodeURL)) (\<lambda>(relayed, from).
        bnd (abi_of c) (\<lambda>abiJson.
        case co_option c ''to'' of None \<Rightarrow> throw ''--to: target address is missing''
        | Some to \<Rightarrow>
            bnd (lift_result (method_of c (rq_methods rq abiJson))) (\<lambda>method.
            bnd (in_session env no_deployment (gas_price_hex env (logic_of env c nodeURL mnemonic) c)) (\<lambda>gasPrice.
            case co_option c ''methodParams'' of None \<Rightarrow> throw ''methodParams is not iterable''
            | Some ps \<Rightarrow>
                bnd (on_hw (rq_send rq relayed to method (commaSeparatedList ps) from (option_text c ''gasLimit'') gasPrice)) (\<lambda>receipt.
                exit_with 0 [receipt]))))))))"

end
