(* ===== verification/CliCommandsProps.thy ===== *)
theory CliCommandsProps imports CliCommands CommandsProps begin

text \<open>What the exit code of a command tells.\<close>

section \<open>Sessions and exit codes\<close>

lemma wp_command_main:
  "wp (command_main body) Q E s = wp body Q (\<lambda>e. Q (Some 1, [error_message e])) s"
  by (simp add: command_main_def wp_def try_catch_def split: prod.splits sum.splits)

lemma wp_in_session:
  "wp (in_session env d m) Q E s =
     wp m (\<lambda>a t. Q a (s\<lparr>hw := world t\<rparr>)) (\<lambda>e t. E e (s\<lparr>hw := world t\<rparr>)) (start_session env d (hw s))"
  by (simp add: in_session_def on_hw_def zoom_def wp_def split: prod.splits sum.splits)

lemma wp_finished: "wp (finished m) Q E s = wp m (\<lambda>r t. case r of None \<Rightarrow> E (Error ''not returned'') t | Some x \<Rightarrow> Q x t) E s"
  by (simp add: finished_def wp_def bnd_def split: prod.splits sum.splits option.splits)

text \<open>What holds when the exit code is 0.\<close>

definition exit_zero :: "(string list \<Rightarrow> 'w host \<Rightarrow> bool) \<Rightarrow> outcome \<Rightarrow> 'w host \<Rightarrow> bool" where
  "exit_zero P r t \<longleftrightarrow> (fst r = Some 0 \<longrightarrow> P (snd r) t)"

lemma exit_zero_simps [simp]:
  "exit_zero P (None, l) t" "exit_zero P (Some 1, l) t" "exit_zero P (Some (Suc n), l) t" "exit_zero P (Some 0, l) t = P l t"
  by (simp_all add: exit_zero_def)

lemma exit_zeroD:
  assumes "wp m (exit_zero P) (\<lambda>_ _. False) s" and "m s = (Inr (Some 0, lines), s')"
  shows "P lines s'"
  using wp_InrD [OF assms(1,2)] by simp

text \<open>The steps of a command of which nothing is needed; what they throw is the exit code 1.\<close>

lemma command_step:
  "(\<And>a t. wp (f a) (exit_zero P) (\<lambda>e. exit_zero P (Some 1, [error_message e])) t) \<Longrightarrow>
   wp (bnd m f) (exit_zero P) (\<lambda>e. exit_zero P (Some 1, [error_message e])) s"
  by (rule wp_skip) simp_all

section \<open>Deploying\<close>

text \<open>
  A deployment that was made for the options of the command: on the network and in the environment that they name, with
  the configuration of the hub from the file they name or from the environment, from the account and at the gas price
  they give or the session finds, in a session that starts in the world the command was given.
\<close>

definition deployment_made :: "'w cli_env \<Rightarrow> commander \<Rightarrow> 'w host \<Rightarrow> GSNContractsDeployment \<Rightarrow> bool" where
  "deployment_made env c s d \<longleftrightarrow>
     (\<exists>url environment mnemonic s0 hubConfig s1 account u1 gasPrice u v.
        getNetworkUrl (case co_option c ''network'' of Some n \<Rightarrow> n | None \<Rightarrow> []) (cl_environ env) = Inr url
      \<and> map_of environments (option_text c ''environmentName'') = Some environment
      \<and> getMnemonic (co_option c ''mnemonic'') s = (Inr mnemonic, s0)
      \<and> hub_configuration env c environment s0 = (Inr hubConfig, s1)
      \<and> from_account (logic_of env c url mnemonic) c (start_session env no_deployment (hw s1)) = (Inr account, u1)
      \<and> gas_price_hex env (logic_of env c url mnemonic) c u1 = (Inr gasPrice, u)
      \<and> co_flag c ''testToken'' = (co_option c ''stakingToken'' = None)
      \<and> deployGsnContracts (logic_of env c url mnemonic)
           (deploy_options c account gasPrice hubConfig (env_penalizerConfiguration environment)) u = (Inr d, v))"

lemma deploy_sessionE:
  assumes "deploy_session env c logic h p s = (Inr d, v)"
  obtains account u1 gasPrice u where "from_account logic c s = (Inr account, u1)" "gas_price_hex env logic c u1 = (Inr gasPrice, u)"
    "co_flag c ''testToken'' = (co_option c ''stakingToken'' = None)"
    "deployGsnContracts logic (deploy_options c account gasPrice h p) u = (Inr d, v)"
  using assms unfolding deploy_session_def
  by (elim bnd_InrE) (auto simp: throw_def raise_def split: if_splits)

lemma in_session_Inr: "in_session env d m s = (Inr a, t) \<Longrightarrow> \<exists>v. m (start_session env d (hw s)) = (Inr a, v)"
  by (auto simp: in_session_def on_hw_def zoom_def split: prod.splits)

lemma command_main_zero: "command_main m s = (Inr (Some 0, ls), t) \<Longrightarrow> m s = (Inr (Some 0, ls), t)"
  by (auto simp: command_main_def try_catch_def ret_def split: prod.splits sum.splits)

text \<open>
  C17: \<open>gsn deploy\<close> exits with 0 only when a deployment was made for its options, and it is this deployment that was
  printed, all its addresses saved in the work directory, and that the other commands load from there.
\<close>

theorem deploy_saves:
  assumes "gsn_deploy env c s = (Inr (Some 0, lines), s')"
  shows "\<exists>d. deployment_made env c s d \<and>
    lines = showDeployment d (Some (''Deployed GSN to network: '' @ option_text c ''network'')) (Some ''Default'') \<and>
    saved_files (option_text c ''workdir'') (deployment_files d) s' \<and>
    (plain_addresses d \<longrightarrow> loadDeployment (option_text c ''workdir'') s' = (Inr d, s'))"
proof -
  note run = command_main_zero [OF assms [unfolded gsn_deploy_def]]
  from run obtain url t where url: "network_url env c s = (Inr url, t)" by (rule bnd_InrE)
  then have t: "t = s" and net: "getNetworkUrl (case co_option c ''network'' of Some n \<Rightarrow> n | None \<Rightarrow> []) (cl_environ env) = Inr url"
    by (auto simp: network_url_def lift_result_def ret_def raise_def split: sum.splits)
  note run = run [unfolded bnd_Inr [where m = "network_url env c" and s = s, OF url] t]
  then obtain environment where environment: "map_of environments (option_text c ''environmentName'') = Some environment"
    by (auto simp: throw_def raise_def split: option.splits)
  note run = run [unfolded environment option.case]
  from run obtain mnemonic s0 where mnemonic: "getMnemonic (co_option c ''mnemonic'') s = (Inr mnemonic, s0)" by (rule bnd_InrE)
  note run = run [unfolded bnd_Inr [where m = "getMnemonic (co_option c ''mnemonic'')" and s = s, OF mnemonic]]
  from run obtain h s1 where h: "hub_configuration env c environment s0 = (Inr h, s1)" by (rule bnd_InrE)
  note run = run [unfolded bnd_Inr [where m = "hub_configuration env c environment" and s = s0, OF h]]
  let ?session = "in_session env no_deployment (deploy_session env c (logic_of env c url mnemonic) h (env_penalizerConfiguration environment))"
  from run obtain d s2 where d: "?session s1 = (Inr d, s2)" by (rule bnd_InrE)
  note run = run [unfolded bnd_Inr [where m = ?session and s = s1, OF d]]
  from run obtain s3 where saved: "saveDeployment d (option_text c ''workdir'') s2 = (Inr (), s3)" by (rule bnd_InrE) auto
  have "lines = showDeployment d (Some (''Deployed GSN to network: '' @ option_text c ''network'')) (Some ''Default'')" "s' = s3"
    using run [unfolded bnd_Inr [where m = "saveDeployment d (option_text c ''workdir'')" and s = s2, OF saved]] by (simp_all add: exit_with_def ret_def)
  moreover have files: "saved_files (option_text c ''workdir'') (deployment_files d) s3" by (rule wp_InrD [OF saved_all saved])
  moreover have "deployment_made env c s d"
  proof -
    obtain v where "deploy_session env c (logic_of env c url mnemonic) h (env_penalizerConfiguration environment)
        (start_session env no_deployment (hw s1)) = (Inr d, v)" using in_session_Inr [OF d] by blast
    then show ?thesis
      by (rule deploy_sessionE) (unfold deployment_made_def, intro exI conjI, rule net, rule environment, rule mnemonic, rule h, assumption+)
  qed
  ultimately show ?thesis using saved_loaded [OF files] by blast
qed

section \<open>Registering\<close>

lemma register_ready:
  "wp (finished (cm_registerRelay logic options n))
     (\<lambda>g t. rg_success g \<longrightarrow> answers_ready logic (ro_relayUrl options) t) (\<lambda>_ _. True) s"
  unfolding wp_finished
  by (rule wp_mono [OF registerRelay_post [OF waited_ready, where Q = "\<lambda>r t. case r of Some g \<Rightarrow> rg_success g \<longrightarrow>
        answers_ready logic (ro_relayUrl options) t | None \<Rightarrow> True"]]) (auto simp: cm_failure_def split: option.splits)

lemma register_options_url:
  "wp (finished (register_options env logic c)) (\<lambda>o1 t. ro_relayUrl o1 = option_text c ''relayUrl'') (\<lambda>_ _. True) s"
  unfolding wp_finished register_options_def
  by (intro wp_skip TrueI) (auto simp: wp_ret split: option.splits)

theorem register_exit_zero:
  assumes "gsn_relayer_register env c s = (Inr (Some 0, lines), s')"
  shows "\<exists>url mnemonic t. world t = hw s' \<and> answers_ready (logic_of env c url mnemonic) (option_text c ''relayUrl'') t"
proof (rule exit_zeroD [where m = "gsn_relayer_register env c", OF _ assms])
  let ?P = "\<lambda>_ s'. \<exists>url mnemonic t. world t = hw s' \<and> answers_ready (logic_of env c url mnemonic) (option_text c ''relayUrl'') t"
  have run: "wp (in_session env d (bnd (logic_init logic) (\<lambda>_. bnd (finished (register_options env logic c)) (\<lambda>options.
        finished (cm_registerRelay logic options wait_fuel)))))
      (\<lambda>g t. rg_success g \<longrightarrow> (\<exists>u. world u = hw t \<and> answers_ready logic (option_text c ''relayUrl'') u)) (\<lambda>_ _. True) t"
    for d logic and t :: "'a host"
    unfolding wp_in_session
    by (rule wp_skip, subst wp_bnd, rule wp_mono [OF register_options_url], rule wp_mono [OF register_ready]) auto
  have body: "wp (bnd (in_session env d (bnd (logic_init (logic_of env c url m)) (\<lambda>_.
           bnd (finished (register_options env (logic_of env c url m) c)) (\<lambda>registerOptions.
           finished (cm_registerRelay (logic_of env c url m) registerOptions wait_fuel))))) (\<lambda>result.
        exit_with (if rg_success result then 0 else 1) (result_lines title result)))
      (exit_zero ?P) (\<lambda>e. exit_zero ?P (Some 1, [error_message e])) t" for d url m title and t :: "'a host"
    unfolding wp_bnd
    by (rule wp_mono [OF run]) (auto simp: exit_with_def wp_ret exit_zero_def)
  show "wp (gsn_relayer_register env c) (exit_zero ?P) (\<lambda>_ _. False) s"
    unfolding gsn_relayer_register_def wp_command_main Let_def
    by (rule command_step, rule command_step) (rule body)
qed

text \<open>A request whose calldata is given is never sent, unless the contract has a method with the name \<open>undefined\<close>.\<close>

theorem calldata_never_sends:
  assumes "co_option c ''calldata'' \<noteq> None" and "\<And>abi. ''undefined'' \<notin> set (rq_methods rq abi)"
  shows "\<exists>lines. fst (gsn_send_request env rq c s) = Inr (Some 1, lines)"
proof -
  have unknown: "\<exists>e. method_of c (rq_methods rq abi) = Inl e" for abi
    using assms by (auto simp: method_of_def split: option.split)
  have throws: "wp (bnd (lift_result (method_of c (rq_methods rq abi))) k) Q E u" if "\<And>e. E e u"
    for abi k Q E and u :: "'a host"
    using unknown [of abi] that by (auto simp: wp_def bnd_def)
  have "wp (gsn_send_request env rq c) (\<lambda>r _. fst r = Some 1) (\<lambda>_ _. False) s"
    unfolding gsn_send_request_def wp_command_main
    by (rule wp_skip, rule wp_skip, rule wp_skip, split prod.split, intro allI impI, rule wp_skip)
      (auto simp: wp_throw split: option.split intro!: throws)
  then show ?thesis by (auto simp: wp_def split: prod.splits sum.splits)
qed

section \<open>A deployment at a work desk\<close>

text \<open>The node of the theorems on the commands' logic, an empty disk, and a deployment of everything with a test token.\<close>

definition desk_cli :: "desk cli_env" where
  "desk_cli = \<lparr>cl_logic = (\<lambda>_ _. desk_env), cl_lines = [''yes''], cl_environ = [], cl_toWei = (\<lambda>_ _. Inr 7), cl_toHex = (\<lambda>h. h),
     cl_fromWei = int_to_string, cl_hubConfiguration = (\<lambda>_. defaultRelayHubConfiguration),
     cl_keys = \<lparr>kg_generate = ret ''seed'', kg_fromMasterSeed = (\<lambda>_. Inr ''seed''), kg_derive = (\<lambda>seed i. (''0x'' @ seed, ''key''))\<rparr>,
     cl_sign = (\<lambda>k tx. case sample_sign k tx of Inr t \<Rightarrow> t)\<rparr>"

definition desk_commander :: commander where
  "desk_commander = \<lparr>co_option = map_of [(''network'', ''http://localhost:8545''), (''environmentName'', ''ganacheLocal''), (''from'', ''0xaa''),
       (''gasPrice'', ''1''), (''gasLimit'', ''9''), (''minimumTokenStake'', ''1''), (''workdir'', ''build/gsn'')],
     co_flag = (\<lambda>f. f = ''testToken'' \<or> f = ''skipConfirmation'' \<or> f = ''testPaymaster'')\<rparr>"

definition desk_host :: "desk host" where
  "desk_host = \<lparr>hw = world (desk_state []), cwd = [''home''], files = (\<lambda>p. if p = [''home''] then Some Folder else None)\<rparr>"

lemma desk_deploy_new:
  assumes "toBN_string g = Inr p" and "toBN_string gas = Inr q"
  shows "wp (getContractInstance desk_env n args None \<lparr>so_from = a, so_gasPrice = g, so_gas = gas, so_value = v\<rparr> (Some True)) Q E s =
    Q (''0x'' @ n) (s\<lparr>world := (world s)\<lparr>dk_deployed := Suc (dk_deployed (world s))\<rparr>\<rparr>)"
  using assms by (simp add: getContractInstance_def wp_def bnd_def on_world_def zoom_def desk_env_def when_eff_def)

lemma desk_steps:
  "wp (cm_send desk_env a call opts) Q E s = Q () s"
  "wp (createInstance (ce_chain desk_env) k a) Q' E' s' = Q' a s'"
  "wp (ch_getRelayRegistrar (ce_chain desk_env) r) Q1 E1 s1 = Q1 ''0x7e'' s1"
  "wp (ch_tokenDecimals (ce_chain desk_env) r) Q2 E2 s2 = Q2 18 s2"
  "wp (ch_tokenSymbol (ce_chain desk_env) r) Q3 E3 s3 = Q3 ''wETH'' s3"
  by (simp_all add: cm_send_def createInstance_def bnd_def wp_def on_world_def zoom_def desk_env_def desk_chain_def)

lemma desk_numbers: "toBN_string ''1'' = Inr 1" "toBN_string ''7'' = Inr 7" "toBN_string ''9'' = Inr 9" by code_simp+

definition desk_deployment :: GSNContractsDeployment where
  "desk_deployment = \<lparr>dep_forwarderAddress = Some ''0xForwarder'', dep_paymasterAddress = Some ''0xTestPaymasterEverythingAccepted'',
     dep_penalizerAddress = Some ''0xPenalizer'', dep_relayRegistrarAddress = Some ''0xRelayRegistrar'',
     dep_relayHubAddress = Some ''0xRelayHub'', dep_stakeManagerAddress = Some ''0xStakeManager'',
     dep_managerStakeTokenAddress = Some ''0xTestWrappedNativeToken''\<rparr>"

lemma desk_init: "(\<And>t. Q () t) \<Longrightarrow> wp (initDeployment desk_env d) Q E s"
proof -
  assume Q: "\<And>t. Q () t"
  have create: "wp (create_if (ce_chain desk_env) b k a f) R E t" if "\<And>t. R () t" for b k a f R t
    using that by (simp add: create_if_def wp_simps desk_steps set_instance_def split: option.split)
  show ?thesis
    unfolding initDeployment_def initializeContracts_def wp_bnd wp_modify wp_gets by (intro create Q)
qed

lemma desk_deployed:
  "wp (deployGsnContracts desk_env (deploy_options desk_commander ''0xaa'' ''7'' c1 c2)) (\<lambda>d _. d = desk_deployment) (\<lambda>_ _. False) s"
  by (simp add: deployGsnContracts_def Let_def deploy_options_def option_text_def desk_commander_def deploy_contracts_def
      deployPaymaster_def registerForwarderForGsn_def deploy_token_def wp_simps desk_steps desk_numbers desk_deploy_new [OF desk_numbers(2,3)])
    (intro conjI impI desk_init, simp_all add: wp_ret desk_deployment_def)

lemma desk_saves:
  "fst (saveDeployment desk_deployment ''build/gsn'' \<lparr>hw = w, cwd = [''home''], files = (\<lambda>p. if p = [''home''] then Some Folder else None)\<rparr>)
     = Inr ()"
  by code_simp

lemma desk_options:
  "getNetworkUrl ''http://localhost:8545'' [] = Inr ''http://localhost:8545''" "map_of environments ''ganacheLocal'' = Some ganacheLocal"
  "int_to_string 7 = ''7''"
  by code_simp+

lemma desk_saved: "wp (saveDeployment desk_deployment ''build/gsn'') (\<lambda>_ _. True) (\<lambda>_ _. False) (desk_host\<lparr>hw := w\<rparr>)"
  using desk_saves [of w] by (auto simp: wp_def desk_host_def split: prod.splits)

lemma desk_deploys: "wp (gsn_deploy desk_cli desk_commander) (\<lambda>r _. fst r = Some 0) (\<lambda>_ _. False) desk_host"
proof -
  have co: "co_option desk_commander ''network'' = Some ''http://localhost:8545''" "co_option desk_commander ''mnemonic'' = None"
    "co_option desk_commander ''config'' = None" "co_option desk_commander ''from'' = Some ''0xaa''" "co_option desk_commander ''gasPrice'' = Some ''1''"
    "co_option desk_commander ''stakingToken'' = None" "option_text desk_commander ''environmentName'' = ''ganacheLocal''"
    "option_text desk_commander ''workdir'' = ''build/gsn''" "co_flag desk_commander ''testToken''"
    by (simp_all add: desk_commander_def option_text_def)
  have cli: "cl_environ desk_cli = []" "cl_toWei desk_cli a b = Inr 7" "cl_toHex desk_cli h = h" "logic_of desk_cli desk_commander url m = desk_env" for a b h url m
    by (simp_all add: desk_cli_def logic_of_def)
  have session: "wp (in_session desk_cli no_deployment (deploy_session desk_cli desk_commander desk_env c1 c2))
     (\<lambda>d t. d = desk_deployment \<and> (\<exists>w. t = desk_host\<lparr>hw := w\<rparr>)) (\<lambda>_ _. False) desk_host" for c1 c2
    unfolding wp_in_session
    by (simp add: deploy_session_def from_account_def gas_price_hex_def co cli wp_simps desk_options)
      (rule wp_mono [OF desk_deployed], auto)
  have hub: "wp (hub_configuration desk_cli desk_commander e) Q E s = Q (env_relayHubConfiguration e) s" for e Q E s
    by (simp add: wp_def bnd_def hub_configuration_def getRelayHubConfiguration_def nullish_def co)
  show ?thesis
    unfolding gsn_deploy_def wp_command_main
    by (simp add: network_url_def co cli desk_options wp_simps getMnemonic_def hub) (rule wp_mono [OF session], auto simp: wp_ret wp_bnd exit_with_def intro: wp_mono [OF desk_saved])
qed

theorem deploy_saves_witness:
  "case gsn_deploy desk_cli desk_commander desk_host of (r, s') \<Rightarrow> fst (sum.projr r) = Some 0 \<and>
     (\<exists>d. deployment_made desk_cli desk_commander desk_host d \<and> saved_files ''build/gsn'' (deployment_files d) s')"
proof -
  obtain lines s' where run: "gsn_deploy desk_cli desk_commander desk_host = (Inr (Some 0, lines), s')"
    using desk_deploys by (auto simp: wp_def split: prod.splits sum.splits)
  have "option_text desk_commander ''workdir'' = ''build/gsn''" by (simp add: desk_commander_def option_text_def)
  then show ?thesis using deploy_saves [OF run] by (auto simp: run)
qed

end
