(* ===== verification/TestEnvironment.thy ===== *)
theory TestEnvironment imports CliCommandsProps begin

text \<open>
  \<open>packages/cli/src/GsnTestEnvironment.ts\<close> and the command \<open>gsn start\<close>: a complete network for tests, with its contracts
  deployed and a relay that runs in the process. The relay server and its HTTP server are modelled in other theories; here
  they are steps on the world, in the order in which they are taken. \<open>te_httpServer\<close> is the port of the server the
  environment holds.
\<close>

section \<open>The environment and its state\<close>

datatype te_step =
    InitServerInteractor string GSNContractsDeployment
  | InitBackend "string list" "string list" ServerConfigParams
  | StartHttpServer int
  | StopHttpServer int
  | CloseHttpServer int
  | ClearTransactions
  | NewRelayProvider string "string list" "string option"

text \<open>\<open>te_listen\<close> opens a server on any port and closes it again; it gives the port, \<open>None\<close> if the address has none.\<close>

record 'w te_env =
  te_cli :: "'w cli_env"
  te_do :: "te_step \<Rightarrow> ('w, unit) eff"
  te_listen :: "('w, int option) eff"

record 'w te_state =
  te_logic :: "'w cm_state"
  te_httpServer :: "int option"

definition on_logic :: "('w cm_state, 'a) eff \<Rightarrow> ('w te_state, 'a) eff" where
  "on_logic m = zoom te_logic (\<lambda>l s. s\<lparr>te_logic := l\<rparr>) m"

definition te_world :: "'w te_state \<Rightarrow> 'w" where
  "te_world s = world (te_logic s)"

definition on_te :: "('w, 'a) eff \<Rightarrow> ('w te_state, 'a) eff" where
  "on_te m = on_logic (on_world m)"

definition set_httpServer :: "int option \<Rightarrow> ('w te_state, unit) eff" where
  "set_httpServer p = modify (\<lambda>s. s\<lparr>te_httpServer := p\<rparr>)"

section \<open>Stopping and starting\<close>

definition resolveAvailablePort :: "'w te_env \<Rightarrow> ('w te_state, int) eff" where
  "resolveAvailablePort env =
     bnd (on_te (te_listen env)) (\<lambda>address.
     case address of None \<Rightarrow> throw ''Could not find available port'' | Some port \<Rightarrow> ret port)"

definition stopGsn :: "'w te_env \<Rightarrow> ('w te_state, unit) eff" where
  "stopGsn env =
     bnd (gets te_httpServer) (\<lambda>httpServer.
     case httpServer of None \<Rightarrow> ret ()
     | Some port \<Rightarrow>
         bnd (on_te (te_do env (StopHttpServer port))) (\<lambda>_.
         bnd (on_te (te_do env (CloseHttpServer port))) (\<lambda>_.
         bnd (on_te (te_do env ClearTransactions)) (\<lambda>_. set_httpServer None))))"

text \<open>\<open>new KeyManager(1)\<close>: keys in memory, no file is touched.\<close>

definition memory_keys :: "'w te_env \<Rightarrow> ('w te_state, key_manager) eff" where
  "memory_keys env =
     on_te (\<lambda>w. case newKeyManager (cl_keys (te_cli env)) 1 None None \<lparr>hw = w, cwd = [], files = (\<lambda>_. None)\<rparr> of (r, h) \<Rightarrow> (r, hw h))"

definition relayServerParams :: "string \<Rightarrow> string option \<Rightarrow> string \<Rightarrow> cfg_obj" where
  "relayServerParams relayUrl relayHubAddress from =
     [(''devMode'', CBool True), (''url'', CStr relayUrl)]
     @ (case relayHubAddress of Some hub \<Rightarrow> [(''relayHubAddress'', CStr hub)] | None \<Rightarrow> [])
     @ [(''ownerAddress'', CStr from), (''gasPriceFactor'', CNum 1), (''checkInterval'', CNum 50),
        (''refreshStateTimeoutBlocks'', CNum 1), (''runPaymasterReputations'', CBool True), (''logLevel'', CStr ''error''),
        (''workerTargetBalance'', CNum (10 ^ 18))]"

definition runServer ::
  "'w te_env \<Rightarrow> string \<Rightarrow> GSNContractsDeployment \<Rightarrow> string \<Rightarrow> string \<Rightarrow> int \<Rightarrow> ('w te_state, unit) eff" where
  "runServer env host deploymentResult from relayUrl port =
     bnd (gets te_httpServer) (\<lambda>httpServer.
     if httpServer \<noteq> None then ret ()
     else
       bnd (memory_keys env) (\<lambda>managerKeyManager.
       bnd (memory_keys env) (\<lambda>workersKeyManager.
       bnd (on_te (te_do env (InitServerInteractor host deploymentResult))) (\<lambda>_.
       bnd (on_te (te_do env (InitBackend (getAddresses managerKeyManager) (getAddresses workersKeyManager)
              (configureServer (relayServerParams relayUrl (dep_relayHubAddress deploymentResult) from))))) (\<lambda>_.
       bnd (set_httpServer (Some port)) (\<lambda>_. on_te (te_do env (StartHttpServer port))))))))"

definition ether1 :: int where
  "ether1 = 10 ^ 18"

definition start_deploy_options :: "string \<Rightarrow> DeployOptions" where
  "start_deploy_options from =
     \<lparr>do_from = Some from, do_gasPrice = Some ''1000000000'', do_gasLimit = ''5000000'', do_deployPaymaster = Some True,
      do_forwarderAddress = None, do_relayHubAddress = None, do_relayRegistryAddress = None, do_stakeManagerAddress = None,
      do_deployTestToken = Some True, do_stakingTokenAddress = None, do_minimumTokenStake = ''1'', do_penalizerAddress = None,
      do_burnAddress = Some BURN_ADDRESS, do_devAddress = Some BURN_ADDRESS, do_skipConfirmation = Some True,
      do_relayHubConfiguration = env_relayHubConfiguration ganacheLocal,
      do_penalizerConfiguration = env_penalizerConfiguration ganacheLocal\<rparr>"

definition start_register_options :: "string \<Rightarrow> string \<Rightarrow> RegisterOptions" where
  "start_register_options from relayUrl =
     \<lparr>ro_sleepMs = 100, ro_sleepCount = 5, ro_from = from, ro_token = None, ro_gasPrice = Some ''1000000000'', ro_stake = ''1'',
      ro_wrap = True, ro_funds = int_to_string (5 * ether1), ro_relayUrl = relayUrl, ro_unstakeDelay = ''15000''\<rparr>"

text \<open>The URL of the local relay.\<close>

definition relay_url :: "int \<Rightarrow> string" where
  "relay_url port = ''http://127.0.0.1:'' @ int_to_string port"

text \<open>The part up to the deployment, the paymaster funded; then the relay; then the provider.\<close>

definition deploy_network :: "'w cm_env \<Rightarrow> ('w cm_state, string \<times> GSNContractsDeployment) eff" where
  "deploy_network logic =
     bnd (logic_init logic) (\<lambda>_.
     bnd (findWealthyAccount logic (2 * ether1)) (\<lambda>from.
     bnd (deployGsnContracts logic (start_deploy_options from)) (\<lambda>deploymentResult.
     bnd (case dep_paymasterAddress deploymentResult of None \<Rightarrow> ret ()
          | Some paymaster \<Rightarrow> bnd (fundPaymaster logic from paymaster ether1) (\<lambda>_. ret ())) (\<lambda>_.
     ret (from, deploymentResult)))))"

definition register_local :: "'w cm_env \<Rightarrow> string \<Rightarrow> string \<Rightarrow> ('w cm_state, unit) eff" where
  "register_local logic from relayUrl =
     bnd (finished (cm_registerRelay logic (start_register_options from relayUrl) wait_fuel)) (\<lambda>registrationResult.
     if rg_success registrationResult then ret ()
     else throw (''Failed to fund relay: '' @ (case rg_error registrationResult of Some e \<Rightarrow> e | None \<Rightarrow> ''undefined'') @ '' : ''
        @ (case rg_transactions registrationResult of Some txs \<Rightarrow> js_join '','' txs | None \<Rightarrow> ''undefined'')))"

definition startGsn :: "'w te_env \<Rightarrow> string \<Rightarrow> ('w te_state, GSNContractsDeployment \<times> string \<times> int) eff" where
  "startGsn env host =
     bnd (stopGsn env) (\<lambda>_.
     bnd (lift_result (getNetworkUrl host (cl_environ (te_cli env)))) (\<lambda>url.
     let logic = cl_logic (te_cli env) url NodeWallet in
     bnd (modify (\<lambda>s. s\<lparr>te_logic := start_session (te_cli env) no_deployment (te_world s)\<rparr>)) (\<lambda>_.
     bnd (on_logic (deploy_network logic)) (\<lambda>(from, deploymentResult).
     bnd (resolveAvailablePort env) (\<lambda>port.
     let relayUrl = relay_url port in
     bnd (runServer env url deploymentResult from relayUrl port) (\<lambda>_.
     bnd (gets te_httpServer) (\<lambda>httpServer.
     case httpServer of None \<Rightarrow> throw ''Failed to run a local Relay Server''
     | Some server \<Rightarrow>
         bnd (on_logic (register_local logic from relayUrl)) (\<lambda>_.
         bnd (on_logic (finished (waitForRelay logic relayUrl 60 wait_fuel))) (\<lambda>_.
         bnd (on_te (te_do env (NewRelayProvider url [relayUrl] (dep_paymasterAddress deploymentResult)))) (\<lambda>_.
         ret (deploymentResult, relayUrl, server)))))))))))"

section \<open>A deployment that was saved\<close>

definition check_token :: "'w chain \<Rightarrow> string option \<Rightarrow> ('w ci_state, unit) eff" where
  "check_token ch tokenAddress =
     (case tokenAddress of None \<Rightarrow> ret ()
      | Some token \<Rightarrow>
          if isSameAddress token ZERO_ADDRESS then ret ()
          else bnd (on_world (ch_getCode ch token)) (\<lambda>code.
            if length code \<le> 2 then throw (''No contract deployed for ERC-20 ManagerStakeTokenAddress at '' @ token) else ret ()))"

definition te_loadDeployment :: "'w chain \<Rightarrow> erc165_ids \<Rightarrow> string \<Rightarrow> ('w host, GSNContractsDeployment) eff" where
  "te_loadDeployment ch ids workdir =
     bnd (loadDeployment workdir) (\<lambda>deployment.
     bnd (on_hw (\<lambda>w. case
       bnd (modify (\<lambda>s. s\<lparr>ci_deployment := deployment\<rparr>)) (\<lambda>_.
       bnd (initializeContracts ch) (\<lambda>_.
       bnd (validateERC165InterfacesClient ch ids True) (\<lambda>_.
       bnd (validateERC165InterfacesRelay ch ids) (\<lambda>_.
       check_token ch (dep_managerStakeTokenAddress deployment))))) (fresh_ci w) of (r, s) \<Rightarrow> (r, world s))) (\<lambda>_.
     ret deployment))"

section \<open>The command\<close>

text \<open>What it throws is printed; the process does not end with a failure.\<close>

definition gsn_start :: "'w te_env \<Rightarrow> commander \<Rightarrow> ('w te_state host, outcome) eff" where
  "gsn_start env c =
     try_catch
       (bnd (on_hw (startGsn env (option_text c ''network''))) (\<lambda>(deployment, relayUrl, _).
        bnd (saveDeployment deployment (option_text c ''workdir'')) (\<lambda>_.
        ret (None, showDeployment deployment (Some ''GSN started'') None
          @ [''Relay is active, URL = '' @ relayUrl @ '' . Press Ctrl-C to abort'']))))
       (\<lambda>e. ret (None, [error_message e]))"

end
