(* ===== verification/TestEnvironmentProps.thy ===== *)
theory TestEnvironmentProps imports TestEnvironment begin

text \<open>The test environment holds one server at most, and the one it holds is the one that its relay URL names.\<close>

section \<open>What the chain operations cannot see\<close>

text \<open>An observation of the world, such as the ports that are listened on, that no operation on the chain changes.\<close>

definition logic_silent :: "('w \<Rightarrow> 'c) \<Rightarrow> 'w cm_env \<Rightarrow> bool" where
  "logic_silent f env \<longleftrightarrow>
     reads_silent f env \<and> (let ch = ce_chain env in
     silent f (ch_latestBlock ch) \<and> (\<forall>n t r. silent f (ch_getFeeHistory ch n t r)) \<and> (\<forall>a. silent f (ch_getCode ch a)) \<and>
     (\<forall>a. silent f (ch_getRelayHub ch a)) \<and> (\<forall>a. silent f (ch_getTrustedForwarder ch a)) \<and> (\<forall>a. silent f (ch_version ch a)) \<and>
     silent f (ch_getChainId ch) \<and> silent f (ch_getNetworkId ch)) \<and> silent f (ce_getAccounts env) \<and>
     (\<forall>a. silent f (ce_accountBalance env a)) \<and> (\<forall>t a. silent f (ce_sendTransaction env t a)) \<and>
     (\<forall>a t. silent f (ce_deposit env a t)) \<and> (\<forall>a b n t. silent f (ce_approve env a b n t)) \<and>
     (\<forall>a b c d n t. silent f (ce_stakeForRelayManager env a b c d n t)) \<and>
     (\<forall>a b c t. silent f (ce_authorizeHubByOwner env a b c t)) \<and> (\<forall>a b n c. silent f (ce_depositFor env a b n c)) \<and>
     (\<forall>c a t. silent f (ce_deploy env c a t)) \<and> (\<forall>c a t. silent f (ce_send env c a t))"

abbreviation sees :: "('w \<Rightarrow> 'c) \<Rightarrow> 'c \<Rightarrow> 'w cm_state \<Rightarrow> bool" where
  "sees f x \<equiv> seen f (\<lambda>c _ _. c = x)"

lemma sees_iff: "sees f x s \<longleftrightarrow> f (world s) = x"
  by (simp add: seen_def)

lemma sees_fields:
  "keeps (sees f x) (modify (\<lambda>s. s\<lparr>ci_deployment := d\<rparr>))" "keeps (sees f x) (modify (\<lambda>s. s\<lparr>cm_deployment := d'\<rparr>))"
  "keeps (sees f x) (modify (\<lambda>s. s\<lparr>ci_paymasterVersion := v\<rparr>))" "keeps (sees f x) (modify (\<lambda>s. s\<lparr>ci_rawTxOptions := o1\<rparr>))"
  "keeps (sees f x) (modify (\<lambda>s. s\<lparr>ci_transactionType := t\<rparr>))" "keeps (sees f x) (modify (\<lambda>s. s\<lparr>ci_relayHubConfiguration := h\<rparr>))"
  "keeps (sees f x) (modify (\<lambda>s. s\<lparr>cm_transactions := l\<rparr>))" "keeps (sees f x) (push_tx a)" "keeps (sees f x) confirm"
  by (simp_all add: keeps_def sees_iff push_tx_def confirm_def zoom_def split: prod.splits)

locale silent_logic =
  fixes f :: "'w \<Rightarrow> 'c" and env :: "'w cm_env"
  assumes silent: "logic_silent f env"
begin

lemma sees_world: "silent f m \<Longrightarrow> keeps (sees f x) (on_world m)"
  by (rule seen_world)

lemma reads: "cm_reads f env"
  using silent by unfold_locales (simp add: logic_silent_def)

lemma sees_writes:
  "keeps (sees f x) (on_world (ch_latestBlock (ce_chain env)))" "keeps (sees f x) (on_world (ch_getFeeHistory (ce_chain env) n t r))"
  "keeps (sees f x) (on_world (ch_getCode (ce_chain env) a))" "keeps (sees f x) (on_world (ch_getRelayHub (ce_chain env) a))"
  "keeps (sees f x) (on_world (ch_getTrustedForwarder (ce_chain env) a))" "keeps (sees f x) (on_world (ch_version (ce_chain env) a))"
  "keeps (sees f x) (on_world (ch_getChainId (ce_chain env)))" "keeps (sees f x) (on_world (ch_getNetworkId (ce_chain env)))"
  "keeps (sees f x) (on_world (ce_getAccounts env))" "keeps (sees f x) (on_world (ce_accountBalance env a))"
  "keeps (sees f x) (on_world (ce_sendTransaction env tx a))" "keeps (sees f x) (on_world (ce_deposit env a tx))"
  "keeps (sees f x) (on_world (ce_approve env a b k tx))" "keeps (sees f x) (on_world (ce_stakeForRelayManager env a b c d k tx))"
  "keeps (sees f x) (on_world (ce_authorizeHubByOwner env a b c tx))" "keeps (sees f x) (on_world (ce_depositFor env a b k c))"
  "keeps (sees f x) (on_world (ce_deploy env c args o1))" "keeps (sees f x) (on_world (ce_send env c call o1))"
  using silent by (auto simp: logic_silent_def Let_def intro!: sees_world)

lemmas sees_ops = cm_reads.seen_ops [OF reads] sees_writes sees_fields
  cm_reads.seen_instance [OF reads] cm_reads.seen_resolve [OF reads] cm_reads.seen_token [OF reads] cm_reads.seen_gas [OF reads]
  cm_reads.seen_wait [OF reads] cm_reads.seen_owner [OF reads] cm_reads.seen_options [OF reads]

lemma sees_initialize: "keeps (sees f x) (initializeContracts (ce_chain env))"
  unfolding initializeContracts_def create_if_def by (intro sees_ops)

lemma sees_init: "keeps (sees f x) (logic_init env)"
  unfolding logic_init_def ci_init_def getFeeHistory_def resolveDeployment_def resolveDeploymentFromPaymaster_def
    isContractDeployed_def validateCompatibility_def initializeNetworkParams_def
  by (intro sees_ops sees_initialize)

lemma sees_wealthy: "keeps (sees f x) (findWealthyAccount env n)"
proof -
  have loop: "keeps (sees f x) (wealthy_loop env n as)" for as
    by (induction as) (subst wealthy_loop.simps, intro sees_ops; assumption?)+
  show ?thesis unfolding findWealthyAccount_def by (intro sees_ops loop)
qed

lemma sees_fund: "keeps (sees f x) (fundPaymaster env from pm n)"
  unfolding fundPaymaster_def hubBalanceOf_def hubDepositFor_def Let_def by (intro sees_ops)

lemma sees_deploy: "keeps (sees f x) (deployGsnContracts env options)"
proof -
  have new: "keeps (sees f x) (getContractInstance env n args a o1 k)" for n args a o1 k
    unfolding getContractInstance_def by (intro sees_ops)
  show ?thesis
    unfolding deployGsnContracts_def deploy_contracts_def deployPaymaster_def registerForwarderForGsn_def deploy_token_def
      initDeployment_def cm_send_def Let_def
    by (intro sees_ops new sees_initialize)
qed

lemma sees_register: "keeps (sees f x) (cm_registerRelay env options n)"
proof -
  have fund: "keeps (sees f x) (fund_relay env options tx a)" for tx a
    unfolding fund_relay_def getBalance_def by (intro sees_ops)
  have stake: "keeps (sees f x) (stake_relay env options tx a b c d g k l)" for tx a b c d g k l
    unfolding stake_relay_def Let_def by (intro sees_ops)
  have auth: "keeps (sees f x) (authorize_relay env tx a b c d)" for tx a b c d
    unfolding authorize_relay_def by (intro sees_ops)
  have "keeps (sees f x) (register_relay env options tx r n)" for tx r
    unfolding register_relay_def Let_def by (intro sees_ops fund stake auth)
  then show ?thesis
    unfolding cm_registerRelay_def report_failure_def by (intro sees_ops) auto
qed

end

section \<open>One server at most\<close>

text \<open>
  An observation \<open>L\<close> of the world that is the set of the ports on which a server of the environment listens: starting and
  stopping a server change it, nothing else does.
\<close>

definition starts_or_stops :: "te_step \<Rightarrow> bool" where
  "starts_or_stops step = (case step of StartHttpServer p \<Rightarrow> True | StopHttpServer p \<Rightarrow> True | _ \<Rightarrow> False)"

definition listening :: "('w \<Rightarrow> int set) \<Rightarrow> 'w te_env \<Rightarrow> bool" where
  "listening L env \<longleftrightarrow>
     (\<forall>url. logic_silent L (cl_logic (te_cli env) url NodeWallet)) \<and> silent L (te_listen env) \<and>
     silent L (kg_generate (cl_keys (te_cli env))) \<and> (\<forall>step. starts_or_stops step \<or> silent L (te_do env step)) \<and>
     (\<forall>p w. case te_do env (StartHttpServer p) w of (Inl _, v) \<Rightarrow> L v \<subseteq> insert p (L w) | (Inr _, v) \<Rightarrow> L v = insert p (L w)) \<and>
     (\<forall>p w. case te_do env (StopHttpServer p) w of (Inl _, v) \<Rightarrow> L v \<subseteq> L w | (Inr _, v) \<Rightarrow> L v = L w - {p})"

definition holds_its :: "('w \<Rightarrow> int set) \<Rightarrow> 'w te_state \<Rightarrow> bool" where
  "holds_its L s \<longleftrightarrow> L (te_world s) \<subseteq> set_option (te_httpServer s)"

definition runs_on :: "('w \<Rightarrow> int set) \<Rightarrow> int option \<Rightarrow> 'w te_state \<Rightarrow> bool" where
  "runs_on L p s \<longleftrightarrow> te_httpServer s = p \<and> L (te_world s) = set_option p"

lemma runs_holds: "runs_on L p s \<Longrightarrow> holds_its L s"
  by (simp add: runs_on_def holds_its_def)

lemma runs_logic: "(\<And>x. keeps (sees L x) m) \<Longrightarrow> keeps (runs_on L p) (on_logic m)"
proof (unfold keeps_def, intro allI impI)
  fix s assume m: "\<And>x. \<forall>s. sees L x s \<longrightarrow> sees L x (snd (m s))" and s: "runs_on L p s"
  obtain r t where "m (te_logic s) = (r, t)" by fastforce
  then show "runs_on L p (snd (on_logic m s))"
    using m [of "L (world (te_logic s))"] s by (auto simp: on_logic_def zoom_def runs_on_def te_world_def sees_iff)
qed

lemma runs_te: "silent L m \<Longrightarrow> keeps (runs_on L p) (on_te m)"
  unfolding on_te_def by (intro runs_logic seen_world)

lemma runs_keys:
  assumes k: "silent L (kg_generate (cl_keys (te_cli env)))"
  shows "keeps (runs_on L p) (memory_keys env)"
  unfolding memory_keys_def
proof (rule runs_te, unfold silent_def, rule allI)
  fix w
  obtain r v where r: "kg_generate (cl_keys (te_cli env)) w = (r, v)" by fastforce
  then have v: "L v = L w" using k unfolding silent_def by (metis snd_conv)
  show "L (snd (case newKeyManager (cl_keys (te_cli env)) 1 None None \<lparr>hw = w, cwd = [], files = \<lambda>_. None\<rparr> of (r, h) \<Rightarrow> (r, hw h))) = L w"
    using r v by (cases r) (simp_all add: newKeyManager_def bnd_def on_hw_def zoom_def lift_result_def split: sum.splits)
qed

lemma quiet_step: "listening L env \<Longrightarrow> \<not> starts_or_stops step \<Longrightarrow> silent L (te_do env step)"
  by (auto simp: listening_def)

definition nothing_listens :: "('w \<Rightarrow> int set) \<Rightarrow> 'w te_state \<Rightarrow> bool" where
  "nothing_listens L s \<longleftrightarrow> L (te_world s) = {}"

lemma keeps_nothing:
  assumes m: "silent L m"
  shows "keeps (nothing_listens L) (on_te m)"
proof (unfold keeps_def, intro allI impI)
  fix s assume s: "nothing_listens L s"
  obtain r t where r: "m (te_world s) = (r, t)" by fastforce
  then have "L t = L (te_world s)" using m unfolding silent_def by (metis snd_conv)
  then show "nothing_listens L (snd (on_te m s))"
    using r s by (simp add: on_te_def on_logic_def on_world_def zoom_def te_world_def nothing_listens_def)
qed

lemma stop_wp:
  assumes l: "listening L env" and h: "holds_its L s"
  shows "wp (stopGsn env) (\<lambda>_. runs_on L None) (\<lambda>_. holds_its L) s"
proof (cases "te_httpServer s")
  case None
  then show ?thesis using h by (simp add: stopGsn_def wp_simps runs_on_def holds_its_def)
next
  case (Some port)
  obtain r v where r: "te_do env (StopHttpServer port) (te_world s) = (r, v)" by fastforce
  have "case te_do env (StopHttpServer port) (te_world s) of (Inl _, v) \<Rightarrow> L v \<subseteq> L (te_world s) | (Inr _, v) \<Rightarrow> L v = L (te_world s) - {port}"
    using l by (auto simp: listening_def)
  then have stop: "case r of Inl _ \<Rightarrow> L v \<subseteq> {port} | Inr _ \<Rightarrow> L v = {}"
    using h Some r by (cases r) (auto simp: holds_its_def)
  have stopped: "wp (on_te (te_do env (StopHttpServer port))) (\<lambda>_. nothing_listens L) (\<lambda>_. holds_its L) s"
    using stop r Some
    by (cases r) (simp_all add: wp_def on_te_def on_logic_def on_world_def zoom_def te_world_def nothing_listens_def holds_its_def)
  have rest: "keeps (nothing_listens L) (on_te (te_do env (CloseHttpServer port)))" "keeps (nothing_listens L) (on_te (te_do env ClearTransactions))"
    by (auto intro!: keeps_nothing quiet_step [OF l] simp: starts_or_stops_def)
  show ?thesis
    unfolding stopGsn_def
    apply (rule wp_gets_step, unfold Some option.case)
    apply (subst wp_bnd, rule wp_mono [OF stopped])
     apply (rule wp_keeps_step [OF rest(1)], assumption)
      apply (rule wp_keeps_step [OF rest(2)], assumption)
       apply (simp_all add: set_httpServer_def wp_simps runs_on_def nothing_listens_def holds_its_def te_world_def)
    done
qed

lemma run_wp:
  assumes l: "listening L env" and s: "runs_on L None s"
  shows "wp (runServer env host d a u port) (\<lambda>_. runs_on L (Some port)) (\<lambda>_. holds_its L) s"
proof -
  have keys: "keeps (runs_on L None) (memory_keys env)" by (rule runs_keys) (use l in \<open>simp add: listening_def\<close>)
  have steps: "keeps (runs_on L None) (on_te (te_do env (InitServerInteractor host d)))"
    "keeps (runs_on L None) (on_te (te_do env (InitBackend a b c)))" for a b c
    by (auto intro!: runs_te quiet_step [OF l] simp: starts_or_stops_def)
  have start: "wp (on_te (te_do env (StartHttpServer port))) (\<lambda>_. runs_on L (Some port)) (\<lambda>_. holds_its L) (t\<lparr>te_httpServer := Some port\<rparr>)"
    if t: "runs_on L None t" for t
  proof -
    obtain r v where r: "te_do env (StartHttpServer port) (te_world t) = (r, v)" by fastforce
    have "case te_do env (StartHttpServer port) (te_world t) of (Inl _, v) \<Rightarrow> L v \<subseteq> insert port (L (te_world t))
        | (Inr _, v) \<Rightarrow> L v = insert port (L (te_world t))"
      using l by (auto simp: listening_def)
    then show ?thesis using r t
      by (cases r) (simp_all add: wp_def on_te_def on_logic_def on_world_def zoom_def te_world_def runs_on_def holds_its_def)
  qed
  have none: "te_httpServer s = None" using s by (simp add: runs_on_def)
  show ?thesis
    unfolding runServer_def
    apply (rule wp_gets_step, unfold none, simp only: not_True_eq_False simp_thms if_False)
    apply (rule wp_keeps_step [OF keys s])
     apply (rule wp_keeps_step [OF keys], assumption)
      apply (rule wp_keeps_step [OF steps(1)], assumption)
       apply (rule wp_keeps_step [OF steps(2)], assumption)
        apply (simp_all add: wp_bnd set_httpServer_def wp_modify start runs_holds)
    done
qed

text \<open>
  C18: a test environment that has started listens on one port only, the one of the URL of its relay and of the server it
  holds; whatever was running before was stopped. When it fails to start or to stop, no server is left listening that it
  does not hold.
\<close>

theorem environment_one_server:
  assumes l: "listening L env" and h: "holds_its L s"
  shows "case startGsn env host s of
      (Inl _, t) \<Rightarrow> holds_its L t
    | (Inr (d, url, server), t) \<Rightarrow> url = relay_url server \<and> te_httpServer t = Some server \<and> L (te_world t) = {server}"
proof -
  note e = runs_holds
  have logic: "silent_logic L (cl_logic (te_cli env) url NodeWallet)" for url
    by unfold_locales (use l in \<open>simp add: listening_def\<close>)
  note ops = silent_logic.sees_ops [OF logic] silent_logic.sees_init [OF logic] silent_logic.sees_wealthy [OF logic]
    silent_logic.sees_deploy [OF logic] silent_logic.sees_fund [OF logic] silent_logic.sees_register [OF logic]
  have deploy: "keeps (runs_on L p) (on_logic (deploy_network (cl_logic (te_cli env) url NodeWallet)))" for p url
    unfolding deploy_network_def by (intro runs_logic ops)
  have register: "keeps (runs_on L p) (on_logic (register_local (cl_logic (te_cli env) url NodeWallet) a u))" for p url a u
    unfolding register_local_def finished_def by (intro runs_logic ops)
  have wait: "keeps (runs_on L p) (on_logic (finished (waitForRelay (cl_logic (te_cli env) url NodeWallet) u n k)))" for p url u n k
    unfolding finished_def by (intro runs_logic ops)
  have port: "keeps (runs_on L p) (resolveAvailablePort env)" for p
    unfolding resolveAvailablePort_def by (intro keeps_intros runs_te) (use l in \<open>simp add: listening_def\<close>)
  have session: "keeps (runs_on L p) (modify (\<lambda>s. s\<lparr>te_logic := start_session (te_cli env) d (te_world s)\<rparr>))" for p d
    by (simp add: keeps_def runs_on_def te_world_def start_session_def ci_state.defs fresh_ci_def)
  have provider: "keeps (runs_on L p) (on_te (te_do env (NewRelayProvider a b c)))" for p a b c
    by (auto intro!: runs_te quiet_step [OF l] simp: starts_or_stops_def)
  have "wp (startGsn env host) (\<lambda>(d, url, server) t. url = relay_url server \<and> runs_on L (Some server) t) (\<lambda>_. holds_its L) s"
    unfolding startGsn_def Let_def
    apply (subst wp_bnd, rule wp_mono [OF stop_wp [OF l h]])
     apply (rule wp_lift_step)
      apply (rule wp_keeps_step [OF session], assumption)
       apply (rule wp_keeps_step [OF deploy], assumption)
        apply (split prod.split, intro allI impI)
        apply (rule wp_keeps_step [OF port], assumption)
         apply (subst wp_bnd, rule wp_mono [OF run_wp [OF l]], assumption)
          apply (rule wp_gets_step)
          apply (subst runs_on_def [THEN iffD1, THEN conjunct1], assumption, unfold option.case)
          apply (rule wp_keeps_step [OF register], assumption)
           apply (rule wp_keeps_step [OF wait], assumption)
            apply (rule wp_keeps_step [OF provider], assumption)
             apply (simp_all add: wp_ret e)
    done
  then show ?thesis by (auto simp: wp_def runs_on_def split: prod.splits sum.splits)
qed

section \<open>A test environment on the work desk\<close>

text \<open>The log of the desk has the URLs of the servers that listen.\<close>

definition desk_ports :: "desk \<Rightarrow> int set" where
  "desk_ports w = {p. relay_url p \<in> set (dk_log w)}"

definition desk_step :: "te_step \<Rightarrow> (desk, unit) eff" where
  "desk_step step =
     (case step of
        StartHttpServer p \<Rightarrow> modify (\<lambda>w. w\<lparr>dk_log := dk_log w @ [relay_url p]\<rparr>)
      | StopHttpServer p \<Rightarrow> modify (\<lambda>w. w\<lparr>dk_log := filter (\<lambda>u. u \<noteq> relay_url p) (dk_log w)\<rparr>)
      | _ \<Rightarrow> ret ())"

definition desk_test :: "desk te_env" where
  "desk_test = \<lparr>te_cli = desk_cli, te_do = desk_step, te_listen = ret (Some 8090)\<rparr>"

definition desk_network :: "desk te_state" where
  "desk_network = \<lparr>te_logic = desk_state [], te_httpServer = None\<rparr>"

lemma relay_url_eq: "relay_url p = relay_url q \<longleftrightarrow> p = q"
  unfolding relay_url_def append_same_eq same_append_eq by (metis option.inject parseInt_int_to_string)

lemma desk_logic_silent: "logic_silent desk_ports desk_env"
proof -
  have post: "silent desk_ports (desk_post h)" if "h \<noteq> [] \<and> hd h \<noteq> CHR ''h''" for h
    using that by (auto simp: silent_def desk_post_def desk_ports_def relay_url_def)
  have quiet: "silent desk_ports (gets g)" "silent desk_ports (modify (\<lambda>w. w\<lparr>dk_time := k w\<rparr>))"
    "silent desk_ports (modify (\<lambda>w. w\<lparr>dk_balance := b w\<rparr>))" "silent desk_ports (modify (\<lambda>w. w\<lparr>dk_deployed := n w\<rparr>))"
    "silent desk_ports offline" for g :: "desk \<Rightarrow> 'c" and k b n
    by (simp_all add: silent_def desk_ports_def offline_def)
  show ?thesis
    by (auto simp: logic_silent_def reads_silent_def chain_silent_def desk_defs Let_def quiet post intro!: silent_bnd)
qed

interpretation desk_logic: silent_logic desk_ports desk_env
  by unfold_locales (rule desk_logic_silent)

lemma desk_listening: "listening desk_ports desk_test"
  using desk_logic_silent
  by (auto simp: listening_def desk_test_def desk_cli_def desk_step_def starts_or_stops_def desk_ports_def relay_url_eq
      silent_def split: te_step.splits)

theorem environment_one_server_witness:
  "case startGsn desk_test ''http://localhost:8545'' desk_network of
      (Inl _, t) \<Rightarrow> holds_its desk_ports t
    | (Inr (d, url, server), t) \<Rightarrow> url = relay_url server \<and> te_httpServer t = Some server \<and> desk_ports (te_world t) = {server}"
  by (rule environment_one_server [OF desk_listening])
    (simp add: holds_its_def desk_network_def te_world_def desk_state_def desk_ports_def ci_state.defs fresh_ci_def)

end
