(* ===== verification/ServerStart.thy ===== *)
theory ServerStart imports ServerTheorems begin

text \<open>
  The constructors of \<open>TransactionManager\<close>, \<open>RegistrationManager\<close> and \<open>RelayServer\<close> (\<open>packages/relay/src\<close>), and what
  holds of a server from the moment it is constructed. A field without an initial value keeps what is in the state that
  the constructor is run on, as memory does; the interactor and the stores are those that were opened before.
\<close>

section \<open>Constructors\<close>

definition newTransactionManager :: "('w, 'db) tm_env \<Rightarrow> (('w, 'db, 'z) tm_state_scheme, unit) eff" where
  "newTransactionManager env = bnd (modify (\<lambda>s. s\<lparr>nonces := []\<rparr>)) (\<lambda>_. initNonces env)"

definition newRegistrationManager :: "(('w, 'db, 'z) rg_state_scheme, unit) eff" where
  "newRegistrationManager =
     modify (\<lambda>s. s\<lparr>isSetOwnerCalled := False, isOwnerSetOnStakeManager := False, isHubAuthorized := False, isStakeLocked := False,
       rg_isInitialized := False, rg_ownerAddress := None, currentRelayInfo := None, delayedEvents := [], unstaked_events := 0\<rparr>)"

definition newReadinessInfo :: "int \<Rightarrow> ReadinessInfo" where
  "newReadinessInfo now =
     \<lparr>runningSince = now, currentStateTimestamp = now, totalReadyTime = 0, totalNotReadyTime = 0, totalReadinessChanges = 0\<rparr>"

definition initial_fields :: "(('w, 'db, 'rep, 'z) sv_state_scheme, unit) eff" where
  "initial_fields =
     modify (\<lambda>s. s\<lparr>lastScannedBlock := 0, lastRefreshBlock := 0, ready := False, minMaxPriorityFeePerGas := 0, minMaxFeePerGas := Some 0,
       running := False, alerted := False, alertedByTransactionBlockTimestamp := 0, sv_initialized := False, shouldRefreshBalances := True,
       maxGasLimit := 0, sv_transactionType := LEGACY, trustedPaymasters := [], pollScheduled := False,
       errorListener := False\<rparr>)"

text \<open>\<open>hasReputationManager\<close>: whether the dependencies have one.\<close>

definition newRelayServer ::
  "('w, 'db, 'rep, 'e) sv_env_scheme \<Rightarrow> bool \<Rightarrow> (('w, 'db, 'rep, 'z) sv_state_scheme, unit) eff" where
  "newRelayServer env hasReputationManager =
     bnd initial_fields (\<lambda>_.
     bnd (modify (\<lambda>s. s\<lparr>workerBalanceRequired := newAmountRequired ''Worker Balance'' (sc_workerMinBalance (ge_config env)) False ether\<rparr>)) (\<lambda>_.
     if sc_runPaymasterReputations (ge_config env) \<and> \<not> hasReputationManager then throw ''ReputationManager is not initialized''
     else bnd newRegistrationManager (\<lambda>_.
       bnd (date_now env) (\<lambda>now. modify (\<lambda>s. s\<lparr>readinessInfo := newReadinessInfo now\<rparr>)))))"

text \<open>\<open>new TransactionManager\<close>, \<open>new RelayServer\<close> and \<open>init\<close>, as the callers do it.\<close>

definition build_server ::
  "('w, 'db, 'rep, 'e) sv_env_scheme \<Rightarrow> bool \<Rightarrow> (('w, 'db, 'rep, 'z) sv_state_scheme, string list) eff" where
  "build_server env hasReputationManager =
     bnd (newTransactionManager (ge_tm env)) (\<lambda>_.
     bnd (newRelayServer env hasReputationManager) (\<lambda>_. sv_init env))"

section \<open>What is told about the registration\<close>

text \<open>The setters print when the value changes, and the prerequisites as long as the registration is not correct; colours are left out.\<close>

definition notRegisteredMessage :: "('w, 'db, 'e) rg_env_scheme \<Rightarrow> ('w, 'db, 'z) rg_state_scheme \<Rightarrow> string list" where
  "notRegisteredMessage env s =
     (if isRegistrationCorrect env s then []
      else [concat (map (\<lambda>l. l @ [CHR 0x0A])
       [[], ''Not registered yet. Prerequisites:'', ar_description (ge_formats env) (balanceRequired s),
        ar_description (ge_formats env) (stakeRequired s),
        ''Hub authorized | '' @ f_boolString (ge_formats env) (isHubAuthorized s),
        ''Stake locked   | '' @ f_boolString (ge_formats env) (isStakeLocked s),
        ''Manager        | '' @ managerAddress env, ''Worker         | '' @ workerAddress env,
        ''Stake Owner    | '' @ (case rg_ownerAddress s of Some a \<Rightarrow> a | None \<Rightarrow> ''not set yet''),
        ''Config Owner   | '' @ sc_ownerAddress (ge_config env) @ '' ''
          @ (case rg_ownerAddress s of Some a \<Rightarrow> if isSameAddress a (sc_ownerAddress (ge_config env)) then [] else ''MISMATCH'' | None \<Rightarrow> [])])])"

definition set_isHubAuthorized ::
  "('w, 'db, 'e) rg_env_scheme \<Rightarrow> bool \<Rightarrow> ('w, 'db, 'z) rg_state_scheme \<Rightarrow> string list \<times> ('w, 'db, 'z) rg_state_scheme" where
  "set_isHubAuthorized env newValue s =
     (let t = s\<lparr>isHubAuthorized := newValue\<rparr>
      in (if newValue \<noteq> isHubAuthorized s
          then (''Current RelayHub is '' @ (if newValue then ''now'' else ''no longer'') @ '' authorized'') # notRegisteredMessage env t
          else [], t))"

definition set_isStakeLocked ::
  "('w, 'db, 'e) rg_env_scheme \<Rightarrow> bool \<Rightarrow> ('w, 'db, 'z) rg_state_scheme \<Rightarrow> string list \<times> ('w, 'db, 'z) rg_state_scheme" where
  "set_isStakeLocked env newValue s =
     (let t = s\<lparr>isStakeLocked := newValue\<rparr>
      in (if newValue \<noteq> isStakeLocked s
          then (''Manager stake is '' @ (if newValue then ''now'' else ''no longer'') @ '' locked'') # notRegisteredMessage env t
          else [], t))"

section \<open>A server is safe from its construction on\<close>

text \<open>After the constructors nothing is owned, nothing was accounted and the store is as it was.\<close>

lemma constructed_wp:
  fixes env :: "('w, 'db, 'rep, 'e) sv_env_scheme" and s :: "('w, 'db, 'rep, 'z) sv_state_scheme"
  shows "wp (bnd (newTransactionManager (ge_tm env)) (\<lambda>_. newRelayServer env b))
     (\<lambda>_ t. txdb t = txdb s \<and> contract_instances t = contract_instances s \<and> rg_ownerAddress t = None \<and> accounted (readinessInfo t)
        \<and> map_of (nonces t) (workerAddress env) = Some 0 \<and> map_of (nonces t) (managerAddress env) = Some 0)
     (\<lambda>_ t. txdb t = txdb s) s"
  unfolding newTransactionManager_def newRelayServer_def initial_fields_def newRegistrationManager_def newReadinessInfo_def initNonces_def
  by (simp add: wp_simps date_now_def accounted_def workerAddress_def managerAddress_def)

lemma sv_init_wp:
  fixes env :: "('w, 'db, 'rep, 'e) sv_env_scheme" and s :: "('w, 'db, 'rep, 'z) sv_state_scheme"
  assumes env: "trusted_env env" and add: "lets_add (ge_tm env) P R" and P: "\<And>x. allowed env i x \<Longrightarrow> P x"
    and s: "sv_policy env R i h s"
  shows "wp (sv_init env) (\<lambda>_. sv_policy env R i (in_relayHub i)) (\<lambda>_ _. True) s"
proof -
  have init0: "keeps (sv_policy env R i h) (tm_init tt)" for tt
    unfolding tm_init_def getRawTxOptions_def by (intro keeps_intros policy_modify) (simp add: policy_def owner_ok_def)
  have trusted: "keeps (sv_policy env R i h) (initTrustedPaymasters env ps)" for ps
    unfolding initTrustedPaymasters_def by (intro keeps_intros policy_ci policy_modify) (simp_all add: policy_def owner_ok_def)
  have erc: "keeps (sv_policy env R i h) (validateERC165InterfacesRelay (ge_chain env) ids)" for ids
    unfolding validateERC165InterfacesRelay_def trySupportsInterface_def isContractDeployed_def by (intro keeps_intros policy_ci)
  have rg: "keeps (sv_policy env R i (in_relayHub i)) (rg_init env blk)" for blk
    unfolding rg_init_def
    by (intro keeps_intros policy_ci policy_modify policy_refreshBalance policy_refreshStake [OF env add] P) simp_all
  have raw: "keeps (sv_policy env R i (in_relayHub i)) getRawTxOptions"
    unfolding getRawTxOptions_def by (intro keeps_intros)
  have upd: "sv_policy env R i h (t\<lparr>lastScannedBlock := n, sv_transactionType := tt\<rparr>) = sv_policy env R i h t" for t n tt
    by (simp add: policy_def owner_ok_def)
  have set_hub: "sv_policy env R i h t \<Longrightarrow> sv_policy env R i (in_relayHub i) (t\<lparr>relayHubContract := in_relayHub (contract_instances t)\<rparr>)" for t
    by (simp add: policy_def owner_ok_def)
  have last_step: "sv_policy env R i (in_relayHub i) (t\<lparr>sv_chainId := c, sv_networkId := n, maxGasLimit := g, sv_initialized := True\<rparr>)
      = sv_policy env R i (in_relayHub i) t" for t c n g
    by (simp add: policy_def owner_ok_def)
  note k0 = wp_keeps_step [where I = "sv_policy env R i h"]
  have rest: "keeps (sv_policy env R i (in_relayHub i))
      (bnd (gets relayHubContract) (\<lambda>a. bnd (lift_result (instance_address a)) (\<lambda>hub.
       bnd (on_world (ch_getCode (ge_chain env) hub)) (\<lambda>code.
       if length code < 10 then throw (''FATAL: No RelayHub deployed at address '' @ hub)
       else bnd (rg_init env (short_block blk)) (\<lambda>transactionHashes.
         bnd getRawTxOptions (\<lambda>(chainId, networkId).
         bnd (modify (\<lambda>s. s\<lparr>sv_chainId := chainId, sv_networkId := networkId,
                maxGasLimit := \<lfloor>3 / 4 * of_int (bk_gasLimit blk) :: rat\<rfloor>, sv_initialized := True\<rparr>)) (\<lambda>_.
         ret transactionHashes)))))))" for blk
    by (intro keeps_intros policy_ci rg raw policy_modify) (simp only: last_step)
  show ?thesis
    unfolding sv_init_def with_hub_def
    apply (rule wp_gets_step, rule wp_guard, rule TrueI)
    apply (rule k0, intro policy_ci, rule s)
     apply (subst wp_bnd, subst wp_modify, rule wp_gets_step)
     apply (rule k0 [OF init0], simp only: upd)
      apply (rule k0 [OF trusted], assumption)
       apply (rule k0 [OF keeps_when [OF erc]], assumption)
        apply (subst wp_bnd, subst wp_modify)
        apply (rule wp_mono [OF keeps_wpD [OF rest set_hub]], assumption)
    by simp_all
qed

text \<open>
  C1: from its construction on. Whatever the fields of the state were before, and whatever the node answers during
  construction and initialisation and later, a server that was built and then run (ticks, relay requests with any
  content, pings, starts and stops in any order) stores, beyond what the opened store had, only transactions that are
  \<open>allowed\<close>: value goes from the manager or the worker to the configured owner, or from the manager to its worker; the
  deposit on the hub is withdrawn to the manager, the configured owner, or the zero address where the stake manager
  reports that as the owner; relay calls go from the worker to the hub, and the other calls to the contracts they are
  for (addresses compared without regard to case, as the store keeps them in lower case). The owner it works for is not
  known yet, the zero address (as the stake manager may report it) or the configured one, never another; and its
  statistics never lose time.
\<close>

theorem built_server_stays_allowed:
  fixes env :: "('w, 'db, 'rep, 'e) sv_env_scheme" and s :: "('w, 'db, 'rep, 'z) sv_state_scheme"
  assumes env: "trusted_env env" and store: "tx_inv (te_store (ge_tm env)) (txdb s)"
    and built: "build_server env b s = (Inr hashes, s1)"
  shows "only_allowed env s (sv_run env es s1) \<and> owner_ok env (sv_run env es s1) \<and>
    (case statsHandler now (sv_run env es s1) of (info, totalUptime) \<Rightarrow> totalReadyTime info + totalNotReadyTime info = totalUptime)"
proof -
  let ?i = "contract_instances s"
  let ?R = "stored_from (ge_tm env) (allowed env ?i) (txdb s)"
  have construct: "build_server env b = bnd (bnd (newTransactionManager (ge_tm env)) (\<lambda>_. newRelayServer env b)) (\<lambda>_. sv_init env)"
    unfolding build_server_def by (rule ext) (simp add: bnd_def split: prod.splits sum.splits)
  have "wp (build_server env b) (\<lambda>_. sv_policy env ?R ?i (in_relayHub ?i)) (\<lambda>_ _. True) s"
    unfolding construct wp_bnd [of "bnd _ _"]
  proof (rule wp_mono [OF constructed_wp])
    fix t :: "('w, 'db, 'rep, 'z) sv_state_scheme"
    assume t: "txdb t = txdb s \<and> contract_instances t = ?i \<and> rg_ownerAddress t = None \<and> accounted (readinessInfo t) \<and>
      map_of (nonces t) (workerAddress env) = Some 0 \<and> map_of (nonces t) (managerAddress env) = Some 0"
    then have "sv_policy env ?R ?i (relayHubContract t) t"
      using stored_from_refl [OF store] by (simp add: policy_def owner_ok_def)
    from sv_init_wp [OF env lets_add_stored_from _ this] show "wp (sv_init env) (\<lambda>_. sv_policy env ?R ?i (in_relayHub ?i)) (\<lambda>_ _. True) t"
      by blast
  qed simp
  then have "sv_policy env ?R ?i (in_relayHub ?i) s1" using built by (simp add: wp_def)
  from sv_run_policy [OF env refl this, of es] show ?thesis
    by (simp add: policy_def only_allowed_def stored_from_def accounted_def statsHandler_def Let_def)
qed

section \<open>A server that is built\<close>

definition ready_chain :: "unit chain" where
  "ready_chain = sample_chain\<lparr>ch_getBalance := (\<lambda>_ _. ret 9), ch_getCode := (\<lambda>_. ret ''0x608060405234''),
     ch_getMinimumStakePerToken := (\<lambda>_ _. ret 1), ch_tokenName := (\<lambda>_. ret ''Wrapped''), ch_tokenSymbol := (\<lambda>_. ret ''WETH''),
     ch_tokenDecimals := (\<lambda>_. ret 18),
     ch_getStakeInfo := (\<lambda>_ _. ret \<lparr>si_stake = 0, si_unstakeDelay = 0, si_withdrawTime = 0, si_owner = ZERO_ADDRESS, si_token = ZERO_ADDRESS\<rparr>),
     ch_ethCall := (\<lambda>_. ret (None, Some \<lparr>rpr_error = None, rpr_result = Some ''0x''\<rparr>))\<rparr>"

definition ready_env :: "(unit, StoredTransaction list, ReputationEntry list) sv_env" where
  "ready_env = sample_sv_env\<lparr>ge_tm := sample_env\<lparr>te_chain := ready_chain, te_config := serverDefaultConfiguration\<lparr>sc_skipErc165Check := True\<rparr>\<rparr>\<rparr>"

definition unbuilt_state :: "(unit, StoredTransaction list, ReputationEntry list) sv_state" where
  "unbuilt_state = sample_sv_state\<lparr>ci_rawTxOptions := Some (5, 5), rg_ownerAddress := Some ''0x666'',
     contract_instances := no_instances\<lparr>in_relayHub := Some ''0xdd'', in_stakeManager := Some ''0x5e'', in_erc20Token := Some ''0x70''\<rparr>\<rparr>"

lemma ready_built: "wp (build_server ready_env True) (\<lambda>h _. h = []) (\<lambda>_ _. False) unbuilt_state"
proof -
  note env = ready_env_def sample_sv_env_def rg_env.defs sample_rg_env_def sample_env_def ready_chain_def sample_server_chain_def serverDefaultConfiguration_def
  note state = unbuilt_state_def sample_sv_state_def rg_state.defs sample_rg_state_def tm_state.defs sample_state_def no_instances_def
  have decoded: "decodeRevertFromResponse sample_libs None (Some \<lparr>rpr_error = None, rpr_result = Some ''0x''\<rparr>) = Inr None"
    by code_simp
  show ?thesis
    by (simp add: build_server_def newTransactionManager_def newRelayServer_def initial_fields_def newRegistrationManager_def
        initNonces_def date_now_def sv_init_def tm_init_def getRawTxOptions_def initTrustedPaymasters_def with_hub_def instance_address_def
        rg_init_def getErc20TokenMetadata_def getMinimumStakePerToken_def with_instance_def refreshBalance_def getBalance_def
        refreshStake_def getStakeInfo_def isRelayManagerStakedOnHub_def decoded wp_simps env state)
qed

theorem built_server_stays_allowed_witness:
  "case build_server ready_env True unbuilt_state of (r, s1) \<Rightarrow> r = Inr [] \<and>
     only_allowed ready_env unbuilt_state (sv_run ready_env [Tick, Relay (sample_request ''100'' ''10''), Stop] s1)"
proof -
  obtain s1 where built: "build_server ready_env True unbuilt_state = (Inr [], s1)"
    using ready_built by (auto simp: wp_def split: prod.splits sum.splits)
  have "trusted_env ready_env" "tx_inv (te_store (ge_tm ready_env)) (txdb unbuilt_state)"
    using sample_env_coll sample_env_sign sample_env_inv
    by (simp_all add: trusted_env_def sign_faithful_def ready_env_def unbuilt_state_def sample_sv_state_def sample_env_def
        rg_state.defs sample_rg_state_def tm_state.defs sample_state_def)
  from built_server_stays_allowed [OF this built] built show ?thesis by simp
qed

end
