(* ===== verification/InteractorExtras.thy ===== *)
theory InteractorExtras imports InteractorProps Signatures ClientConfig begin

text \<open>
  The rest of \<open>packages/common/src/ContractInteractor.ts\<close>: recipients and their trusted forwarders, the topics of a query
  for events, the calls a relay server sends, and the getters.
\<close>

section \<open>Construction\<close>

text \<open>The contract of the last recipient is kept.\<close>

record 'w recipient_state = "'w ci_state" +
  erc2771RecipientInstance :: "string option"

text \<open>\<open>valid\<close> and \<open>minor\<close> are those of \<open>semver\<close>: \<open>minor\<close> formats a version with its patch set to 0.\<close>

definition newVersionsManager :: "(string \<Rightarrow> bool) \<Rightarrow> (string \<Rightarrow> string) \<Rightarrow> string \<Rightarrow> string option \<Rightarrow> js_error + string" where
  "newVersionsManager valid minor componentVersion requiredVersionRange =
     (if \<not> valid componentVersion then Inl (Error ''Component version is not valid'')
      else Inr (case requiredVersionRange of None \<Rightarrow> ''^'' @ minor componentVersion | Some r \<Rightarrow> r))"

definition MAX_SAFE_INTEGER :: int where
  "MAX_SAFE_INTEGER = 2 ^ 53 - 1"

record interactor_params =
  cp_maxPageSize :: int
  cp_maxPageCount :: "int option"
  cp_requiredVersionRange :: "string option"
  cp_environment :: Environment
  cp_domainSeparatorName :: "string option"
  cp_deployment :: "GSNContractsDeployment option"

text \<open>The parameters that stay, and the state; a versions manager that is given has its own range.\<close>

definition newContractInteractor :: "interactor_params \<Rightarrow> 'w \<Rightarrow> interactor_config \<times> 'w recipient_state" where
  "newContractInteractor params w =
     (\<lparr>ic_maxPageSize = cp_maxPageSize params,
        ic_maxPageCount = (case cp_maxPageCount params of Some n \<Rightarrow> n | None \<Rightarrow> MAX_SAFE_INTEGER),
        ic_environment = cp_environment params,
        ic_domainSeparatorName = (case cp_domainSeparatorName params of Some n \<Rightarrow> n | None \<Rightarrow> []),
        ic_requiredVersionRange = (case cp_requiredVersionRange params of Some r \<Rightarrow> r | None \<Rightarrow> gsnRequiredVersion)\<rparr>,
      ci_state.extend ((fresh_ci w)\<lparr>ci_deployment := (case cp_deployment params of Some d \<Rightarrow> d | None \<Rightarrow> no_deployment)\<rparr>)
        (recipient_state.fields None))"

section \<open>Recipients\<close>

text \<open>Addresses are compared up to case.\<close>

definition createRecipient :: "('w, 'c) hub_contracts_scheme \<Rightarrow> string \<Rightarrow> ('w recipient_state, string) eff" where
  "createRecipient ch address =
     bnd (gets erc2771RecipientInstance) (\<lambda>cached.
     case cached of
       Some a \<Rightarrow> if toLowerCase a = toLowerCase address then ret a
         else bnd (createInstance ch ''IERC2771Recipient'' address) (\<lambda>r. bnd (modify (\<lambda>s. s\<lparr>erc2771RecipientInstance := Some r\<rparr>)) (\<lambda>_. ret r))
     | None \<Rightarrow> bnd (createInstance ch ''IERC2771Recipient'' address) (\<lambda>r. bnd (modify (\<lambda>s. s\<lparr>erc2771RecipientInstance := Some r\<rparr>)) (\<lambda>_. ret r)))"

definition ci_isTrustedForwarder :: "'w chain \<Rightarrow> string \<Rightarrow> string \<Rightarrow> ('w recipient_state, bool) eff" where
  "ci_isTrustedForwarder ch recipientAddress forwarder =
     bnd (createRecipient ch recipientAddress) (\<lambda>recipient. on_world (ch_isTrustedForwarder ch recipient forwarder))"

section \<open>Topics\<close>

text \<open>The first topic is any of the events that are asked for; the others are those of the caller.\<close>

definition event_topics :: "(abi_item \<Rightarrow> string) \<Rightarrow> abi_item list option \<Rightarrow> string list \<Rightarrow> topic list \<Rightarrow> topic list" where
  "event_topics encode jsonInterface names extraTopics =
     (let topics = [AnyOf (event2topic encode jsonInterface names)]
      in if extraTopics = [] then topics else topics @ extraTopics)"

section \<open>Calls of a relay server\<close>

datatype contract_method =
    RegisterRelayServer string string "string list"
  | AuthorizeHubByManager string string
  | AddRelayWorkers string "string list"
  | SetRelayManagerOwner string string

text \<open>Without a registrar there is no method.\<close>

definition getRegisterRelayMethod :: "string \<Rightarrow> string \<Rightarrow> (('w, 'z) ci_state_scheme, contract_method option) eff" where
  "getRegisterRelayMethod relayHub url =
     bnd (gets (in_relayRegistrar \<circ> contract_instances)) (\<lambda>registrar.
     case registrar of None \<Rightarrow> ret None
     | Some r \<Rightarrow> bnd (lift_result (splitRelayUrlForRegistrar url 3)) (\<lambda>parts. ret (Some (RegisterRelayServer r relayHub parts))))"

definition getAuthorizeHubByManagerMethod :: "(('w, 'z) ci_state_scheme, contract_method) eff" where
  "getAuthorizeHubByManagerMethod =
     with_instance in_relayHub (\<lambda>hub. with_instance in_stakeManager (\<lambda>sm. ret (AuthorizeHubByManager sm hub)))"

definition getAddRelayWorkersMethod :: "string list \<Rightarrow> (('w, 'z) ci_state_scheme, contract_method) eff" where
  "getAddRelayWorkersMethod workers = with_instance in_relayHub (\<lambda>hub. ret (AddRelayWorkers hub workers))"

definition getSetRelayManagerMethod :: "string \<Rightarrow> (('w, 'z) ci_state_scheme, contract_method) eff" where
  "getSetRelayManagerMethod owner1 = with_instance in_stakeManager (\<lambda>sm. ret (SetRelayManagerOwner sm owner1))"

section \<open>Getters\<close>

definition hubStakeManagerAddress :: "('w, 'c) hub_contracts_scheme \<Rightarrow> (('w, 'z) ci_state_scheme, string) eff" where
  "hubStakeManagerAddress ch = with_instance in_relayHub (\<lambda>hub. on_world (ch_getStakeManager ch hub))"

definition hubPenalizerAddress :: "('w, 'c) hub_contracts_scheme \<Rightarrow> (('w, 'z) ci_state_scheme, string) eff" where
  "hubPenalizerAddress ch = with_instance in_relayHub (\<lambda>hub. on_world (ch_getPenalizer ch hub))"

definition hubRelayRegistrarAddress :: "('w, 'c) hub_contracts_scheme \<Rightarrow> (('w, 'z) ci_state_scheme, string) eff" where
  "hubRelayRegistrarAddress ch = with_instance in_relayHub (\<lambda>hub. on_world (ch_getRelayRegistrar ch hub))"

definition stakeManagerAddress :: "(('w, 'z) ci_state_scheme, string) eff" where
  "stakeManagerAddress = with_instance in_stakeManager ret"

definition penalizerAddress :: "(('w, 'z) ci_state_scheme, string) eff" where
  "penalizerAddress = with_instance in_penalizer ret"

definition getNetworkId :: "(('w, 'z) ci_state_scheme, int) eff" where
  "getNetworkId = bnd getRawTxOptions (\<lambda>(chainId, networkId). ret networkId)"

definition ci_getCode :: "('w, 'c) node_scheme \<Rightarrow> string \<Rightarrow> (('w, 'z) ci_state_scheme, string) eff" where
  "ci_getCode ch address = on_world (ch_getCode ch address)"

text \<open>The function \<open>getRawTxOptions\<close> of the module: base chain, chain and network id, hard fork.\<close>

record raw_tx_options =
  ro_chain :: string
  ro_chainId :: int
  ro_networkId :: int
  ro_hardfork :: string

definition raw_tx_options_of :: "int \<Rightarrow> int \<Rightarrow> string option \<Rightarrow> raw_tx_options" where
  "raw_tx_options_of chainId networkId chain =
     \<lparr>ro_chain = (case chain of None \<Rightarrow> ''mainnet'' | Some c \<Rightarrow> if c = ''main'' \<or> c = ''private'' then ''mainnet'' else c),
      ro_chainId = chainId, ro_networkId = networkId, ro_hardfork = ''london''\<rparr>"

section \<open>A recipient is looked up once\<close>

text \<open>
  Asking again about the same recipient, in any case of its address, does not look its contract up: the second answer is
  what the contract says then, and nothing else is asked of the node.
\<close>

theorem recipient_looked_up_once:
  assumes "ci_isTrustedForwarder ch r f s = (Inr b, t)" and "toLowerCase r' = toLowerCase r"
  shows "\<exists>a. toLowerCase a = toLowerCase r \<and> ci_isTrustedForwarder ch r' f' t = on_world (ch_isTrustedForwarder ch a f') t"
proof -
  obtain a u where create: "createRecipient ch r s = (Inr a, u)" and ask: "on_world (ch_isTrustedForwarder ch a f) u = (Inr b, t)"
    using assms(1) unfolding ci_isTrustedForwarder_def by (rule bnd_InrE)
  have "erc2771RecipientInstance u = Some a \<and> toLowerCase a = toLowerCase r"
    using create
    by (auto simp: createRecipient_def createInstance_def bnd_def on_world_def zoom_def split: option.splits prod.splits sum.splits if_splits)
  moreover have "erc2771RecipientInstance t = erc2771RecipientInstance u"
    using ask by (auto simp: on_world_def zoom_def split: prod.splits)
  ultimately show ?thesis
    using assms(2) by (intro exI [of _ a]) (simp add: ci_isTrustedForwarder_def createRecipient_def bnd_def)
qed

end
