(* ===== verification/ClientStart.thy ===== *)
theory ClientStart imports InteractorExtras RelayClient Wrappers begin

text \<open>
  \<open>packages/provider/src/RelayClient.ts\<close> and \<open>RelayProvider.ts\<close>: construction. Which providers are accepted and which are
  bridged, which dependencies are made and which are those of the caller, and the listeners of events.
\<close>

section \<open>The provider\<close>

text \<open>What the constructor looks at; \<open>pk_ethers\<close>: an instance of the class \<open>Provider\<close> of ethers.js.\<close>

record provider_kind =
  pk_getSigner :: bool
  pk_ethers :: bool
  pk_send :: bool
  pk_sendAsync :: bool

datatype used_provider = Bridged | Unchanged

definition wrapEthersJsProvider :: "provider_kind \<Rightarrow> js_error + used_provider" where
  "wrapEthersJsProvider provider =
     (if pk_getSigner provider then Inr Bridged
      else if pk_ethers provider then
        Inl (Error (''Your \"provider\" instance appears to be an Ethers.js provider but it does not have a \"getSigner\" method. ''
          @ ''We recommend constructing JsonRpcProvider or Web3Provider yourself.''))
      else if \<not> pk_send provider \<and> \<not> pk_sendAsync provider then
        Inl (Error ''Your \"provider\" instance does not have neither \"send\" nor \"sendAsync\" method. This is not supported.'')
      else Inr Unchanged)"

text \<open>The arguments: the input, whether it is itself something that can \<open>send\<close>, and whether there is a third one.\<close>

definition newRelayClient :: "(bool \<times> provider_kind) option \<Rightarrow> bool \<Rightarrow> js_error + used_provider" where
  "newRelayClient input third =
     (case input of
        None \<Rightarrow> Inl (Error ''Sorry, but the constructor parameters of the RelayClient class have changed. See \"GSNUnresolvedConstructorInput\" interface for details.'')
      | Some (sends, provider) \<Rightarrow>
          if sends \<or> third then
            Inl (Error ''Sorry, but the constructor parameters of the RelayClient class have changed. See \"GSNUnresolvedConstructorInput\" interface for details.'')
          else wrapEthersJsProvider provider)"

text \<open>\<open>RelayProvider\<close> sends through \<open>sendAsync\<close> where there is one.\<close>

definition uses_sendAsync :: "provider_kind \<Rightarrow> bool" where
  "uses_sendAsync provider \<longleftrightarrow> pk_sendAsync provider"

definition delegated_functions :: "string list" where
  "delegated_functions = [''on'', ''removeListener'', ''removeAllListeners'', ''reset'', ''disconnect'', ''addDefaultEvents'', ''once'', ''reconnect'']"

text \<open>The functions of the original provider that replace those of this one.\<close>

definition delegateEventsApi :: "(string \<times> 'f) list \<Rightarrow> (string \<times> 'f) list \<Rightarrow> (string \<times> 'f) list" where
  "delegateEventsApi origProvider this =
     foldl (\<lambda>fs func. case map_of origProvider func of None \<Rightarrow> fs | Some f \<Rightarrow> map_set func f fs) this delegated_functions"

section \<open>Listeners\<close>

text \<open>The handlers of the channel \<open>gsn\<close>, in the order of registration; \<open>off\<close> removes the last one that is equal.\<close>

definition registerEventListener :: "'h \<Rightarrow> 'h list \<Rightarrow> 'h list" where
  "registerEventListener handler handlers = handlers @ [handler]"

definition unregisterEventListener :: "'h \<Rightarrow> 'h list \<Rightarrow> 'h list" where
  "unregisterEventListener handler handlers = rev (remove1 handler (rev handlers))"

section \<open>Dependencies\<close>

text \<open>Objects are values of any type \<open>'v\<close>; \<open>mk_interactor\<close> makes a contract interactor and initialises it.\<close>

record 'v dependencies =
  dp_httpClient :: 'v
  dp_contractInteractor :: 'v
  dp_knownRelaysManager :: 'v
  dp_accountManager :: 'v
  dp_transactionValidator :: 'v
  dp_pingFilter :: 'v
  dp_relayFilter :: 'v
  dp_asyncApprovalData :: 'v
  dp_asyncPaymasterData :: 'v

record ('w, 'v) makers =
  mk_interactor :: "interactor_params \<Rightarrow> ('w, 'v) eff"
  mk_accountManager :: "'v \<Rightarrow> GSNConfig \<Rightarrow> 'v"
  mk_httpClient :: 'v
  mk_GasPricePingFilter :: 'v
  mk_DefaultRelayFilter :: 'v
  mk_EmptyDataCallback :: 'v
  mk_knownRelaysManager :: "'v \<Rightarrow> GSNConfig \<Rightarrow> 'v \<Rightarrow> 'v"
  mk_transactionValidator :: "'v \<Rightarrow> GSNConfig \<Rightarrow> 'v"

definition or_made :: "'v option \<Rightarrow> 'v \<Rightarrow> 'v" where
  "or_made given made = (case given of Some v \<Rightarrow> v | None \<Rightarrow> made)"

definition EmptyDataCallback :: "'a \<Rightarrow> ('w, string) eff" where
  "EmptyDataCallback relayRequest = ret ''0x''"

definition interactor_of_config :: "GSNConfig \<Rightarrow> interactor_params" where
  "interactor_of_config config =
     \<lparr>cp_maxPageSize = gc_pastEventsQueryMaxPageSize config, cp_maxPageCount = Some (gc_pastEventsQueryMaxPageCount config),
      cp_requiredVersionRange = Some (or_made (gc_requiredVersionRange config) gsnRequiredVersion), cp_environment = gc_environment config,
      cp_domainSeparatorName = Some (gc_domainSeparatorName config),
      cp_deployment = Some (no_deployment\<lparr>dep_paymasterAddress := gc_paymasterAddress config\<rparr>)\<rparr>"

definition resolveDependencies ::
  "('w, 'v) makers \<Rightarrow> GSNConfig \<Rightarrow> ('v option) dependencies \<Rightarrow> ('w, 'v dependencies) eff" where
  "resolveDependencies mk config overrides =
     bnd (case dp_contractInteractor overrides of Some v \<Rightarrow> ret v | None \<Rightarrow> mk_interactor mk (interactor_of_config config)) (\<lambda>contractInteractor.
     let accountManager = or_made (dp_accountManager overrides) (mk_accountManager mk contractInteractor config);
         relayFilter = or_made (dp_relayFilter overrides) (mk_DefaultRelayFilter mk) in
     ret \<lparr>dp_httpClient = or_made (dp_httpClient overrides) (mk_httpClient mk), dp_contractInteractor = contractInteractor,
          dp_knownRelaysManager = or_made (dp_knownRelaysManager overrides) (mk_knownRelaysManager mk contractInteractor config relayFilter),
          dp_accountManager = accountManager,
          dp_transactionValidator = or_made (dp_transactionValidator overrides) (mk_transactionValidator mk contractInteractor config),
          dp_pingFilter = or_made (dp_pingFilter overrides) (mk_GasPricePingFilter mk), dp_relayFilter = relayFilter,
          dp_asyncApprovalData = or_made (dp_asyncApprovalData overrides) (mk_EmptyDataCallback mk),
          dp_asyncPaymasterData = or_made (dp_asyncPaymasterData overrides) (mk_EmptyDataCallback mk)\<rparr>)"

section \<open>Properties\<close>

text \<open>A provider that is accepted can be asked: it is bridged, or it has a function that sends.\<close>

lemma accepted_provider_sends:
  "newRelayClient (Some (sends, provider)) third = Inr u \<Longrightarrow>
     \<not> sends \<and> \<not> third \<and> (case u of Bridged \<Rightarrow> pk_getSigner provider | Unchanged \<Rightarrow> pk_send provider \<or> pk_sendAsync provider)"
  by (auto simp: newRelayClient_def wrapEthersJsProvider_def split: if_splits)

text \<open>A handler that is unregistered after it was registered leaves the handlers as they were.\<close>

lemma unregister_register: "unregisterEventListener h (registerEventListener h hs) = hs"
  by (simp add: registerEventListener_def unregisterEventListener_def)

lemma unregister_other: "h \<notin> set hs \<Longrightarrow> unregisterEventListener h hs = hs"
  by (simp add: unregisterEventListener_def remove1_idem)

text \<open>With an interactor of the caller the node is not asked and construction does not fail.\<close>

lemma given_interactor:
  assumes "dp_contractInteractor overrides = Some v"
  shows "\<exists>d. resolveDependencies mk config overrides w = (Inr d, w) \<and> dp_contractInteractor d = v"
  using assms by (simp add: resolveDependencies_def Let_def)

end
