(* ===== verification/EndToEnd.thy ===== *)
theory EndToEnd imports RelayClientProps ServerTheorems begin

text \<open>
  The request of a client at the server whose ping it follows: what the client checks of the answer to the ping is what the
  server checks of the request, with one exception.
\<close>

section \<open>The request of the client\<close>

text \<open>The way of a request in \<open>relayTransaction\<close> and \<open>attemptRelay\<close>: it is prepared, kept, completed for the relay and signed.\<close>

definition client_request ::
  "('w, 'e) rc_env_scheme \<Rightarrow> GsnTransactionDetails \<Rightarrow> RelayInfo \<Rightarrow> (('w, 'z) rc_state_scheme, RelayTransactionRequest) eff" where
  "client_request env details info =
     bnd (prepareRelayRequest env details) (\<lambda>r.
     bnd (modify (\<lambda>s. s\<lparr>rc_relayRequest := r\<rparr>)) (\<lambda>_.
     bnd (fillRelayInfo env (pr_relayWorkerAddress (pingResponse info))) (\<lambda>_.
     prepareRelayHttpRequest env info)))"

lemma says_hub: "says env details d r \<Longrightarrow> \<exists>h. dep_relayHubAddress d = Some h"
  by (auto simp: says_def)

lemma client_request_wp:
  fixes s :: "('w, 'z) rc_state_scheme"
  shows "wp (client_request env details info)
     (\<lambda>h _. says env details (ci_deployment s) (rtr_relayRequest h)
        \<and> rd_relayWorker (rr_relayData (rtr_relayRequest h)) = pr_relayWorkerAddress (pingResponse info)
        \<and> dep_relayHubAddress (ci_deployment s) = Some (rm_relayHubAddress (rtr_metadata h))) (\<lambda>_ _. True) s"
proof -
  let ?worker = "pr_relayWorkerAddress (pingResponse info)"
  have signed: "wp (prepareRelayHttpRequest env info)
     (\<lambda>h _. says env details (ci_deployment s) (rtr_relayRequest h) \<and> rd_relayWorker (rr_relayData (rtr_relayRequest h)) = ?worker
        \<and> dep_relayHubAddress (ci_deployment s) = Some (rm_relayHubAddress (rtr_metadata h))) (\<lambda>_ _. True)
     (t\<lparr>rc_relayRequest := with_relay env ?worker r\<rparr>)"
    if "rc_view env t = rc_view env s" "says env details (ci_deployment s) r" for t r
    by (rule wp_mono [OF http_request_wp [where s = "t\<lparr>rc_relayRequest := with_relay env ?worker r\<rparr>"]])
      (use that says_hub [OF that(2)] in \<open>auto simp: rc_view_def\<close>)
  show ?thesis
    unfolding client_request_def fillRelayInfo_def
    apply (subst wp_bnd, rule wp_mono [OF says_wp [where s = s]])
     apply (simp_all add: wp_bnd wp_modify signed)
    done
qed

section \<open>The quote of the server\<close>

text \<open>The server asks no more than it did in \<open>s\<close>, for the same hub.\<close>

definition asks_no_more :: "('w, 'db, 'rep, 'z) sv_state_scheme \<Rightarrow> ('w, 'db, 'rep, 'z) sv_state_scheme \<Rightarrow> bool" where
  "asks_no_more t s \<longleftrightarrow>
     relayHubContract t = relayHubContract s \<and> minMaxPriorityFeePerGas t \<le> minMaxPriorityFeePerGas s
     \<and> (case (minMaxFeePerGas t, minMaxFeePerGas s) of (Some a, Some b) \<Rightarrow> a \<le> b | (None, _) \<Rightarrow> True | (Some _, None) \<Rightarrow> False)"

lemma ping_quote:
  assumes "pingHandler env paymaster s0 = (Inr pong, s)"
  shows "pr_relayWorkerAddress pong = workerAddress env" "pr_maxMaxFeePerGas pong = sc_maxMaxFeePerGas (ge_config env)"
    "parseInt (pr_minMaxFeePerGas pong) = minMaxFeePerGas s" "parseInt (pr_minMaxPriorityFeePerGas pong) = Some (minMaxPriorityFeePerGas s)"
proof -
  have "parseInt ''NaN'' = None" by code_simp
  then show "pr_relayWorkerAddress pong = workerAddress env" "pr_maxMaxFeePerGas pong = sc_maxMaxFeePerGas (ge_config env)"
    "parseInt (pr_minMaxFeePerGas pong) = minMaxFeePerGas s" "parseInt (pr_minMaxPriorityFeePerGas pong) = Some (minMaxPriorityFeePerGas s)"
    using assms
    by (auto simp: pingHandler_def bnd_def gets_def js_simps split: prod.splits sum.splits option.splits)
qed

lemma parse_hexadecimal: "starts_with ''0x'' s \<Longrightarrow> parseInt16 s = parseInt s"
proof -
  assume "starts_with ''0x'' s"
  then obtain r where s: "s = ''0x'' @ r" by (metis append_take_drop_id starts_with_def)
  show ?thesis unfolding s parseInt_def parseInt16_def parse_hex by (simp add: parse_hex [simplified])
qed

lemma parse_printed: "parseInt (num_to_string a) = a"
proof -
  have "parseInt ''NaN'' = None" by code_simp
  then show ?thesis by (cases a) (simp_all add: num_to_string_def js_simps)
qed

text \<open>Fees that the filter of the client lets pass are fees that the server takes.\<close>

lemma fees_pass:
  assumes "pingHandler se paymaster s0 = (Inr pong, s)" "asks_no_more t s" "GasPricePingFilter pong details = Inr ()"
    and "says ce details d r" "\<not> js_less (parseInt (td_maxFeePerGas details)) (parseInt (td_maxPriorityFeePerGas details))"
  shows "validateGasFees (ge_config se) (minMaxPriorityFeePerGas t) (minMaxFeePerGas t) r = Inr ()"
proof -
  have hex: "starts_with ''0x'' (td_maxFeePerGas details)" "starts_with ''0x'' (td_maxPriorityFeePerGas details)"
    and fees: "rd_maxFeePerGas (rr_relayData r) = num_to_string (parseInt16 (td_maxFeePerGas details))"
      "rd_maxPriorityFeePerGas (rr_relayData r) = num_to_string (parseInt16 (td_maxPriorityFeePerGas details))"
    using assms(4) by (simp_all add: says_def request_for_def)
  show ?thesis
    using assms(2,3,5) ping_quote [OF assms(1)]
    unfolding validateGasFees_def Let_def fees parse_printed parse_hexadecimal [OF hex(1)] parse_hexadecimal [OF hex(2)]
    by (auto simp: asks_no_more_def GasPricePingFilter_def js_less_def split: option.splits if_splits)
qed

section \<open>The request at the server\<close>

lemma lists_pass:
  "\<not> isBlacklistedPaymaster cfg (rd_paymaster (rr_relayData r)) \<Longrightarrow> \<not> isBlacklistedRecipient cfg (fr_to (rr_request r)) \<Longrightarrow>
   sc_url cfg \<noteq> [] \<Longrightarrow> validateWhitelistsAndBlacklists cfg r = Inr ()"
  by (simp add: validateWhitelistsAndBlacklists_def Let_def)

lemma validateInput_passes:
  assumes "relayHubContract t = Some hub" "isSameAddress (rd_relayWorker (rr_relayData (rtr_relayRequest req))) (workerAddress env)"
    and "validateGasFees (ge_config env) (minMaxPriorityFeePerGas t) (minMaxFeePerGas t) (rtr_relayRequest req) = Inr ()"
    and "validateWhitelistsAndBlacklists (ge_config env) (rtr_relayRequest req) = Inr ()"
    and "\<not> js_less (js_minus (parseInt (fr_validUntilTime (rr_request (rtr_relayRequest req))))
            (Some (math_round (of_int (sv_now (se_chain env) (world t)) / 1000)))) (Some (sc_requestMinValidSeconds (ge_config env)))"
  shows "fst (validateInput env req t) = Inr () \<longleftrightarrow> rm_relayHubAddress (rtr_metadata req) = hub"
  using assms
  by (simp add: validateInput_def with_hub_def instance_address_def date_now_def bnd_def gets_def lift_result_def ret_def throw_def Let_def)

text \<open>
  C3: the first of the server's checks, \<open>validateInput\<close> (hub, worker, fees, lists and expiry), on a request that a client
  builds after the ping of this server. The request passes it exactly when client and server write the address of the hub
  in the same way: what the client demands of the answer to the ping implies what \<open>validateInput\<close> demands of the request,
  on the way from hexadecimal fees to the decimals of the request, but for the hub, where the client takes any spelling
  of the address and the server only its own. It is stated for a client with the default ping filter that found the
  answer acceptable, whose maximal fee is not below its priority fee, with a paymaster configured; for a server with a
  URL, whose lists do not exclude the paymaster and the target, and which asks no more than in its answer to the ping;
  and for a request that is on its way for less than the difference of the times both are configured with. The checks
  that follow (data and transaction type, nonce, the limits of the paymaster, the view call) are not covered by it and
  may refuse the request.
\<close>

theorem client_request_accepted:
  assumes "pingHandler se paymaster s0 = (Inr (pingResponse info), s)" "asks_no_more t s" "relayHubContract t = Some hub"
    and "cl_pingFilter ce = GasPricePingFilter" "ping_ok ce details hub (pingResponse info)"
    and "\<not> js_less (parseInt (td_maxFeePerGas details)) (parseInt (td_maxPriorityFeePerGas details))"
    and "dep_paymasterAddress (ci_deployment c) = Some pm" "\<not> isBlacklistedPaymaster (ge_config se) pm"
    and "\<not> isBlacklistedRecipient (ge_config se) (td_to details)" "sc_url (ge_config se) \<noteq> []"
    and "\<forall>w. start \<le> math_round (of_int (rc_now ce w) / 1000)"
    and "math_round (of_int (sv_now (se_chain se) (world t)) / 1000) + sc_requestMinValidSeconds (ge_config se)
      \<le> start + gc_requestValidSeconds (cl_config ce)"
    and "client_request ce details info c = (Inr req, c')"
  shows "fst (validateInput se req t) = Inr () \<longleftrightarrow> dep_relayHubAddress (ci_deployment c) = Some hub"
proof -
  let ?r = "rtr_relayRequest req"
  have built: "says ce details (ci_deployment c) ?r" "rd_relayWorker (rr_relayData ?r) = pr_relayWorkerAddress (pingResponse info)"
    "dep_relayHubAddress (ci_deployment c) = Some (rm_relayHubAddress (rtr_metadata req))"
    using wp_InrD [OF client_request_wp assms(13)] by simp_all
  have parts: "Some (rd_paymaster (rr_relayData ?r)) = Some pm" "fr_to (rr_request ?r) = td_to details"
    using built(1) assms(7) by (simp_all add: says_def request_for_def)
  obtain w where "fr_validUntilTime (rr_request ?r) =
      int_to_string (math_round (of_int (rc_now ce w) / 1000) + gc_requestValidSeconds (cl_config ce))"
    using built(1) by (auto simp: says_def)
  moreover have "start \<le> math_round (of_int (rc_now ce w) / 1000)" using assms(11) by blast
  ultimately have valid: "\<not> js_less (js_minus (parseInt (fr_validUntilTime (rr_request ?r)))
      (Some (math_round (of_int (sv_now (se_chain se) (world t)) / 1000)))) (Some (sc_requestMinValidSeconds (ge_config se)))"
    using assms(12) by (simp add: js_simps)
  have "GasPricePingFilter (pingResponse info) details = Inr ()" using assms(4,5) by (simp add: ping_ok_def)
  note fees = fees_pass [OF assms(1,2) this built(1) assms(6)]
  have lists: "validateWhitelistsAndBlacklists (ge_config se) ?r = Inr ()"
    using parts assms(8,9,10) by (intro lists_pass) simp_all
  show ?thesis
    using validateInput_passes [OF assms(3) _ fees lists valid] ping_quote(1) [OF assms(1)] built(2,3) by simp
qed

section \<open>The budget that was announced\<close>

lemma limits_announced:
  assumes "map_of (trustedPaymasters s) paymaster = map_of (trustedPaymasters s) (toLowerCase paymaster)"
  shows "wp (paymaster_limits env paymaster msgData)
     (\<lambda>(limits, budget) _. int_to_string budget = getPaymasterMaxAcceptanceBudget env s (Some paymaster)) (\<lambda>_ _. True) s"
proof (cases "map_of (trustedPaymasters s) paymaster")
  case (Some limits)
  then show ?thesis using assms by (simp add: paymaster_limits_def Let_def wp_simps getPaymasterMaxAcceptanceBudget_def)
next
  case None
  let ?I = "\<lambda>t. trustedPaymasters t = trustedPaymasters s"
  have fetched: "keeps ?I (try_catch (bnd (on_world m) (\<lambda>_. on_world n)) (\<lambda>e. throw (f e)))" for m n and f :: "js_error \<Rightarrow> string"
    by (intro keeps_intros keeps_on_world) simp_all
  have untrusted: "\<not> isTrustedPaymaster t paymaster" if "?I t" for t
    using that None assms by (simp add: isTrustedPaymaster_def)
  show ?thesis
    unfolding paymaster_limits_def Let_def
    apply (rule wp_gets_step, unfold None option.case)
    apply (rule wp_keeps_step [where I = ?I, OF fetched], simp)
     apply (use None assms in \<open>simp_all add: wp_if wp_simps untrusted getPaymasterMaxAcceptanceBudget_def\<close>)
    done
qed

text \<open>
  C4: the call that is checked and sent, and the call that the client expects. Under two conditions, that the request
  carries the acceptance budget which the server announces for its paymaster, and that the server, which keeps its
  trusted paymasters under addresses in lower case, finds the same entry (or none) under the address as it was sent, the
  limits check ends with the budget with which the server's call is the one that the client will compare the transaction
  with, field by field, or it refuses the request. Without the second condition it fails: \<open>checksummed_call_differs\<close> below
  shows a paymaster in another spelling for which the server sends a call that the client will not recognise.
\<close>

theorem relayed_call_expected:
  assumes "map_of (trustedPaymasters s) (rd_paymaster (rr_relayData (rtr_relayRequest req)))
      = map_of (trustedPaymasters s) (toLowerCase (rd_paymaster (rr_relayData (rtr_relayRequest req))))"
    and "rm_maxAcceptanceBudget (rtr_metadata req)
      = getPaymasterMaxAcceptanceBudget env s (Some (rd_paymaster (rr_relayData (rtr_relayRequest req))))"
  shows "case validatePaymasterGasAndDataLimits env req s of
      (Inl _, _) \<Rightarrow> True | (Inr (budget, _), _) \<Rightarrow> relayCallAbi req budget = asRelayCallAbi req"
proof -
  have same: "relayCallAbi req budget = asRelayCallAbi req" if "int_to_string budget = rm_maxAcceptanceBudget (rtr_metadata req)" for budget
    using that by (simp add: relayCallAbi_def asRelayCallAbi_def)
  have "wp (validatePaymasterGasAndDataLimits env req) (\<lambda>(budget, _) _. relayCallAbi req budget = asRelayCallAbi req) (\<lambda>_ _. True) s"
    unfolding validatePaymasterGasAndDataLimits_def Let_def
    apply (rule wp_lift_step, rule wp_guard, simp add: wp_throw)
    apply (subst wp_bnd, rule wp_mono [OF limits_announced [OF assms(1)]])
    subgoal for c a t
      apply (cases a, simp only: case_prod_conv)
      apply (rule wp_gets_step, cases "ci_relayHubConfiguration t"; simp only: option.case wp_throw)
      apply (simp split: option.split add: wp_throw)
      apply (intro allI impI wp_gets_step wp_guard; (simp only: wp_throw)?)
      apply (unfold with_hub_def, rule wp_gets_step, rule wp_lift_step, rule wp_skip, rule wp_skip, rule wp_guard)
        apply (simp_all add: wp_ret same assms(2))
      done
      apply simp_all
    done
  then show ?thesis by (auto simp: wp_def split: prod.splits sum.splits)
qed

section \<open>A client at an open server\<close>

definition open_state :: "(unit, StoredTransaction list, ReputationEntry list) sv_state" where
  "open_state = sample_sv_state\<lparr>relayHubContract := Some ''0xdd'', ready := True\<rparr>"

definition open_pong :: PingResponse where
  "open_pong = (case fst (pingHandler sample_sv_env None open_state) of Inr p \<Rightarrow> p | Inl _ \<Rightarrow> undefined)"

definition open_relay :: RelayInfo where
  "open_relay = \<lparr>relayInfo = sample_relay ''0xA1'' ''http://a'', pingResponse = open_pong\<rparr>"

definition spelled :: "string \<Rightarrow> unit rc_state" where
  "spelled hub = sample_rc_state\<lparr>ci_deployment := (ci_deployment sample_rc_state)\<lparr>dep_relayHubAddress := Some hub\<rparr>\<rparr>"

lemma open_ping: "pingHandler sample_sv_env None open_state = (Inr open_pong, open_state)"
  by (simp add: open_pong_def pingHandler_def run_simps gets_def)

lemma open_prepared:
  "wp (prepareRelayRequest sample_rc_env sample_gsn_details)
     (\<lambda>r t. fr_from (rr_request r) = ''0x11'' \<and> rd_paymasterData (rr_relayData r) = ''0x'' \<and> rc_accounts t = []) (\<lambda>_ _. False) (spelled hub)"
  by (simp add: prepareRelayRequest_def getSenderNonce_def createInstance_def wp_simps spelled_def sample_rc_state_def sel_state.defs
      sample_sel_state_def ci_state.defs sample_gsn_details_def sample_rc_env_def sel_env.defs Let_def client_chain_def starts_with_def)

lemma open_signed:
  assumes "fr_from (rr_request (rc_relayRequest s)) = ''0x11''" "rd_paymasterData (rr_relayData (rc_relayRequest s)) = ''0x''" "rc_accounts s = []"
  shows "wp (prepareRelayHttpRequest sample_rc_env open_relay) (\<lambda>_ _. True) (\<lambda>_ _. False) s"
  using assms
  by (simp add: prepareRelayHttpRequest_def emit_def am_sign_def getTransactionCount_def wp_simps sample_rc_env_def sel_env.defs Let_def client_chain_def
      defaultGsnConfig_def toBuffer_length_def starts_with_def find_account_def isSameAddress_def toLowerCase_def to_lower_char_def)

lemma open_request: "wp (client_request sample_rc_env sample_gsn_details open_relay) (\<lambda>_ _. True) (\<lambda>_ _. False) (spelled hub)"
  unfolding client_request_def fillRelayInfo_def
  by (subst wp_bnd, rule wp_mono [OF open_prepared]) (simp_all add: wp_bnd wp_modify open_signed with_relay_def Let_def)

lemma open_quote: "asks_no_more open_state open_state"
  by (simp add: asks_no_more_def open_state_def sample_sv_state_def rg_state.defs)

lemma open_numbers: "parseInt ''0x64'' = Some 100" "parseInt ''0xa'' = Some 10"
  "parseInt (sc_maxMaxFeePerGas serverDefaultConfiguration) = Some 500000000000"
  by (simp_all add: parseInt_def strip_sign_def has_hex_prefix_def starts_with_def is_space_char_def parse_prefix_def digits_val_def
      digit_val_def serverDefaultConfiguration_def)

lemma open_filter: "ping_ok sample_rc_env sample_gsn_details ''0xdd'' open_pong"
  by (simp add: ping_ok_def open_pong_def pingHandler_def run_simps gets_def open_state_def sample_sv_state_def rg_state.defs
      sample_rc_env_def sel_env.defs GasPricePingFilter_def sample_gsn_details_def js_simps open_numbers sample_sv_env_def rg_env.defs
      sample_rg_env_def sample_env_def)

lemma open_rest:
  "relayHubContract open_state = Some ''0xdd''" "cl_pingFilter sample_rc_env = GasPricePingFilter"
  "\<not> js_less (parseInt (td_maxFeePerGas sample_gsn_details)) (parseInt (td_maxPriorityFeePerGas sample_gsn_details))"
  "dep_relayHubAddress (ci_deployment (spelled hub)) = Some hub" "dep_paymasterAddress (ci_deployment (spelled hub)) = Some ''0x33''" "pingResponse open_relay = open_pong"
  "\<not> isBlacklistedPaymaster (ge_config sample_sv_env) p" "\<not> isBlacklistedRecipient (ge_config sample_sv_env) to"
  "sc_url (ge_config sample_sv_env) \<noteq> []" "rc_now sample_rc_env w = 1000000" "sv_now (se_chain sample_sv_env) v = 5000000"
  "sc_requestMinValidSeconds (ge_config sample_sv_env) = 43200" "gc_requestValidSeconds (cl_config sample_rc_env) = 172800"
  by (simp_all add: open_state_def sample_sv_state_def rg_state.defs sample_rc_env_def sel_env.defs sample_gsn_details_def open_numbers
      spelled_def sample_rc_state_def sel_state.defs sample_sel_state_def ci_state.defs open_relay_def isBlacklistedPaymaster_def
      isBlacklistedRecipient_def lower_member_def sample_sv_env_def rg_env.defs sample_rg_env_def sample_env_def sample_server_chain_def
      serverDefaultConfiguration_def defaultGsnConfig_def)

theorem client_request_accepted_witness:
  "(case client_request sample_rc_env sample_gsn_details open_relay (spelled ''0xdd'') of
      (Inr req, _) \<Rightarrow> fst (validateInput sample_sv_env req open_state) = Inr () | _ \<Rightarrow> False)
   \<and> (case client_request sample_rc_env sample_gsn_details open_relay (spelled ''0xDD'') of
      (Inr req, _) \<Rightarrow> fst (validateInput sample_sv_env req open_state) \<noteq> Inr () | _ \<Rightarrow> False)"
proof -
  have accepted: "fst (validateInput sample_sv_env req open_state) = Inr () \<longleftrightarrow> hub = ''0xdd''"
    if "client_request sample_rc_env sample_gsn_details open_relay (spelled hub) = (Inr req, c')" for hub req c'
    using client_request_accepted [of sample_sv_env None open_state open_relay open_state open_state "''0xdd''" sample_rc_env sample_gsn_details
        "spelled hub" "''0x33''" 1000 req c'] that open_quote open_filter open_ping
    by (simp add: open_rest math_round_def)
  show ?thesis
    using open_request [of "''0xdd''"] open_request [of "''0xDD''"] by (auto simp: wp_def accepted split: prod.splits sum.splits)
qed

section \<open>A server that trusts a paymaster\<close>

definition limits :: "int \<Rightarrow> GasAndDataLimits" where
  "limits budget = \<lparr>gl_acceptanceBudget = budget, gl_preRelayedCallGasLimit = 50000, gl_postRelayedCallGasLimit = 50000,
     gl_calldataSizeLimit = 10404\<rparr>"

definition trusting_env :: "(unit, StoredTransaction list, ReputationEntry list) sv_env" where
  "trusting_env = sample_sv_env\<lparr>
     ge_tm := sample_env\<lparr>te_chain := sample_chain\<lparr>ch_contractAt := (\<lambda>_ _. ret ()), ch_hubBalanceOf := (\<lambda>_ _. ret 5000)\<rparr>\<rparr>,
     se_chain := sample_server_chain\<lparr>sv_getGasAndDataLimits := (\<lambda>_. ret (limits 100000))\<rparr>\<rparr>"

definition trusting_state :: "(unit, StoredTransaction list, ReputationEntry list) sv_state" where
  "trusting_state = open_state\<lparr>ci_relayHubConfiguration := Some defaultRelayHubConfiguration,
     trustedPaymasters := [(''0xab'', limits 100000)]\<rparr>"

definition asking :: "string \<Rightarrow> RelayTransactionRequest" where
  "asking paymaster =
     (let req = sample_request ''100'' ''10''
      in req\<lparr>rtr_relayRequest := (rtr_relayRequest req)\<lparr>rr_relayData := (rr_relayData (rtr_relayRequest req))\<lparr>rd_paymaster := paymaster\<rparr>\<rparr>,
           rtr_metadata := (rtr_metadata req)\<lparr>rm_maxAcceptanceBudget :=
             getPaymasterMaxAcceptanceBudget trusting_env trusting_state (Some paymaster)\<rparr>\<rparr>)"

lemma trusting_numbers:
  "toBN_string ''100000'' = Inr 100000" "parseInt ''50000'' = Some 50000"
  "hex_bytes (removeHexPrefix ''0x'') = []" "calculateCalldataCost sample_ci_config ''0x'' = 0"
  "sc_maxAcceptanceBudget serverDefaultConfiguration = 285252"
  by (simp_all add: toBN_string_def parseInt_def strip_sign_def has_hex_prefix_def starts_with_def is_space_char_def parse_prefix_def
      digits_val_def digit_val_def removeHexPrefix_def calculateCalldataCost_def calculateCalldataBytesZeroNonzero_def replace_first_0x_def
      serverDefaultConfiguration_def ganacheLocal_def defaultPaymasterConfiguration_def preRelayedCallGasLimit_def forwarderHubOverhead_def)

lemma trusting_checks:
  "wp (validatePaymasterGasAndDataLimits trusting_env (asking paymaster))
     (\<lambda>(budget, _) _. budget = (if paymaster = ''0xab'' then 100000 else 285252)) (\<lambda>_ _. False) trusting_state"
  by (simp add: validatePaymasterGasAndDataLimits_def paymaster_limits_def with_hub_def wp_simps trusting_env_def trusting_state_def
     open_state_def sample_sv_state_def rg_state.defs sample_rg_state_def tm_state.defs sample_state_def asking_def sample_request_def
     sample_sv_env_def rg_env.defs sample_rg_env_def sample_env_def limits_def Let_def sample_libs_def trusting_numbers js_plus_def
     calculateTransactionMaxPossibleGas_def defaultRelayHubConfiguration_def GAS_RESERVE_def GAS_FACTOR_def instance_address_def
     sample_server_chain_def)

lemma lower_spellings: "toLowerCase ''0xab'' = ''0xab''" "toLowerCase ''0xAB'' = ''0xab''"
  by code_simp+

lemma asking_fields:
  "rd_paymaster (rr_relayData (rtr_relayRequest (asking p))) = p"
  "rm_maxAcceptanceBudget (rtr_metadata (asking p)) = getPaymasterMaxAcceptanceBudget trusting_env trusting_state (Some p)"
  "trustedPaymasters trusting_state = [(''0xab'', limits 100000)]"
  by (simp_all add: asking_def Let_def trusting_state_def open_state_def sample_sv_state_def rg_state.defs)

theorem relayed_call_expected_witness:
  "case validatePaymasterGasAndDataLimits trusting_env (asking ''0xab'') trusting_state of
      (Inr (budget, _), _) \<Rightarrow> relayCallAbi (asking ''0xab'') budget = asRelayCallAbi (asking ''0xab'') | _ \<Rightarrow> False"
  using relayed_call_expected [of trusting_state "asking ''0xab''" trusting_env] trusting_checks [of "''0xab''"]
  by (auto simp: asking_fields lower_spellings wp_def split: prod.splits sum.splits)

text \<open>With the same paymaster in another spelling the server sends a call that the client will not recognise.\<close>

lemma checksummed_call_differs:
  "case validatePaymasterGasAndDataLimits trusting_env (asking ''0xAB'') trusting_state of
      (Inr (budget, _), _) \<Rightarrow> relayCallAbi (asking ''0xAB'') budget \<noteq> asRelayCallAbi (asking ''0xAB'') | _ \<Rightarrow> False"
  using trusting_checks [of "''0xAB''"]
  by (auto simp: asking_fields lower_spellings wp_def relayCallAbi_def asRelayCallAbi_def getPaymasterMaxAcceptanceBudget_def limits_def
      dest: arg_cong [where f = parseInt] simp: js_simps split: prod.splits sum.splits)

end
