(* ===== verification/Logging.thy ===== *)
theory Logging imports GsnUtils begin

text \<open>
  Which loggers the client and the server make (\<open>logger/src\<close>), and requests over HTTP with their log
  (\<open>common/src/HttpWrapper.ts\<close>). What a logger prints, and where the transports of winston send it, is left to the
  library; \<open>new URL\<close> is a parameter.
\<close>

section \<open>The logger of the client\<close>

record LoggerConfiguration =
  lc_logLevel :: string
  lc_loggerUrl :: "string option"
  lc_userId :: "string option"
  lc_applicationId :: "string option"

text \<open>The parts of a URL that a transport needs: protocol, host and path.\<close>

record url_parts =
  up_protocol :: string
  up_host :: string
  up_pathname :: string

record HttpTransport =
  ht_ssl :: bool
  ht_host :: string
  ht_path :: string

definition http_transport :: "url_parts \<Rightarrow> HttpTransport" where
  "http_transport url = \<lparr>ht_ssl = (up_protocol url = ''https:''), ht_host = up_host url, ht_path = up_pathname url\<rparr>"

text \<open>A window, if there is one: its storage and its address, either of which may be missing.\<close>

record window =
  wn_localStorage :: "(string \<rightharpoonup> string) option"
  wn_href :: "string option"

record remote_logger =
  rl_level :: string
  rl_transport :: HttpTransport
  rl_applicationId :: "string option"
  rl_userId :: string

datatype client_logger = Loglevel string | Remote remote_logger

definition userIdKey :: string where
  "userIdKey = ''gsnuser''"

definition getOrCreateUserId :: "int \<Rightarrow> (string \<rightharpoonup> string) \<Rightarrow> string \<times> (string \<rightharpoonup> string)" where
  "getOrCreateUserId now storage =
     (case storage userIdKey of
        Some userId \<Rightarrow> (userId, storage)
      | None \<Rightarrow> (let userId = userIdKey @ int_to_string (now mod 1000000) in (userId, storage(userIdKey \<mapsto> userId))))"

text \<open>
  The expression for addresses of a local host: \<open>http://localhost\<close>, or four groups of one to three digits with word
  boundaries around them. The second alternative stands on its own, so an address with any protocol matches it.
\<close>

definition digit :: "char \<Rightarrow> bool" where
  "digit c \<longleftrightarrow> digit_val c < 10"

definition word_char :: "char \<Rightarrow> bool" where
  "word_char c \<longleftrightarrow> digit_val c < 36 \<or> c = CHR ''_''"

fun quad :: "nat \<Rightarrow> string \<Rightarrow> bool" where
  "quad groups s =
     list_ex (\<lambda>k. k \<le> length s \<and> list_all digit (take k s) \<and>
        (case groups of
           0 \<Rightarrow> (case drop k s of [] \<Rightarrow> True | c # _ \<Rightarrow> \<not> word_char c)
         | Suc n \<Rightarrow> (case drop k s of [] \<Rightarrow> False | c # r \<Rightarrow> c = CHR ''.'' \<and> quad n r))) [1, 2, 3]"

fun has_quad :: "bool \<Rightarrow> string \<Rightarrow> bool" where
  "has_quad after_word [] = False"
| "has_quad after_word (c # s) = (\<not> after_word \<and> quad 3 (c # s) \<or> has_quad (word_char c) s)"

definition localhostRegExp :: "string \<Rightarrow> bool" where
  "localhostRegExp s \<longleftrightarrow> str_includes ''http://localhost'' s \<or> has_quad False s"

definition application_id :: "LoggerConfiguration \<Rightarrow> string option \<Rightarrow> string option" where
  "application_id cfg href =
     (case (lc_applicationId cfg, href) of
        (None, Some h) \<Rightarrow> if \<not> localhostRegExp h then Some h else None
      | (a, _) \<Rightarrow> a)"

definition defaultLoggerConfiguration :: LoggerConfiguration where
  "defaultLoggerConfiguration = \<lparr>lc_logLevel = ''info'', lc_loggerUrl = None, lc_userId = None, lc_applicationId = None\<rparr>"

text \<open>The logger, and the storage of the window afterwards.\<close>

definition createClientLogger ::
  "(string \<Rightarrow> js_error + url_parts) \<Rightarrow> int \<Rightarrow> window option \<Rightarrow> LoggerConfiguration option \<Rightarrow>
   (js_error + client_logger) \<times> window option" where
  "createClientLogger newURL now window loggerConfiguration =
     (let cfg = (case loggerConfiguration of Some c \<Rightarrow> c | None \<Rightarrow> defaultLoggerConfiguration)
      in case (lc_loggerUrl cfg, window, Option.bind window wn_localStorage) of
           (Some loggerUrl, Some w, Some storage) \<Rightarrow>
             (case newURL loggerUrl of Inl e \<Rightarrow> (Inl e, window)
              | Inr url \<Rightarrow>
                  (let (userId, storage') = (case lc_userId cfg of Some u \<Rightarrow> (u, storage) | None \<Rightarrow> getOrCreateUserId now storage)
                   in (Inr (Remote \<lparr>rl_level = lc_logLevel cfg, rl_transport = http_transport url,
                        rl_applicationId = application_id cfg (wn_href w), rl_userId = userId\<rparr>),
                       Some (w\<lparr>wn_localStorage := Some storage'\<rparr>))))
         | _ \<Rightarrow> (Inr (Loglevel (lc_logLevel cfg)), window))"

text \<open>A user that has no name of his own keeps the one that was made for him first.\<close>

lemma getOrCreateUserId_again: "getOrCreateUserId now storage = (u, storage') \<Longrightarrow> getOrCreateUserId later storage' = (u, storage')"
  by (auto simp: getOrCreateUserId_def Let_def split: option.splits)

lemma user_kept:
  assumes "createClientLogger newURL now window cfg = (Inr (Remote l), window')"
    and "createClientLogger newURL' later window' cfg = (Inr (Remote l'), window'')"
  shows "rl_userId l' = rl_userId l" "wn_localStorage (the window'') = wn_localStorage (the window')"
  using assms
  by (auto simp: createClientLogger_def Let_def getOrCreateUserId_again split: option.splits sum.splits prod.splits if_splits
      dest: getOrCreateUserId_again)

text \<open>The address of the page is not sent from a local host, but neither is it from a host whose name is an address.\<close>

lemma local_pages:
  "localhostRegExp ''http://localhost:8080/app''" "localhostRegExp ''https://192.168.0.1/''" "localhostRegExp ''https://8.8.8.8/''"
  "\<not> localhostRegExp ''https://dapp.org/''" "\<not> localhostRegExp ''https://localhost/''" "\<not> localhostRegExp ''http://1.2.3.4567/''"
  by code_simp+

section \<open>The loggers of the server and of the commands\<close>

record server_logger =
  sl_level :: string
  sl_userId :: string
  sl_remote :: "HttpTransport option"

definition createServerLogger :: "(string \<Rightarrow> js_error + url_parts) \<Rightarrow> string \<Rightarrow> string \<Rightarrow> string \<Rightarrow> js_error + server_logger" where
  "createServerLogger newURL level loggerUrl userId =
     (if length loggerUrl \<noteq> 0 \<and> length userId \<noteq> 0 then
        map_sum id (\<lambda>url. \<lparr>sl_level = level, sl_userId = userId, sl_remote = Some (http_transport url)\<rparr>) (newURL loggerUrl)
      else Inr \<lparr>sl_level = level, sl_userId = userId, sl_remote = None\<rparr>)"

lemma collects_logs:
  "createServerLogger newURL level url user = Inr l \<Longrightarrow>
   sl_remote l \<noteq> None \<longleftrightarrow> url \<noteq> [] \<and> user \<noteq> []"
  by (auto simp: createServerLogger_def map_sum_def split: if_splits sum.splits)

section \<open>Requests\<close>

text \<open>A failed request has the answer of the server, with the URL that was asked, or an address that was not reached.\<close>

record axios_response =
  ax_url :: string
  ax_data :: "js_val option"

record axios_error =
  ae_message :: string
  ae_response :: "axios_response option"
  ae_address :: "string option"

record axios_request =
  aq_url :: string
  aq_post :: bool
  aq_data :: "js_val option"

definition LOGMAXLEN :: nat where
  "LOGMAXLEN = 120"

text \<open>\<open>JSON.stringify(data).slice(0, LOGMAXLEN)\<close>, which throws on \<open>undefined\<close>.\<close>

definition logged_data :: "(js_val \<Rightarrow> string) \<Rightarrow> js_val option \<Rightarrow> js_error + string" where
  "logged_data stringify data =
     (case data of Some v \<Rightarrow> Inr (take LOGMAXLEN (stringify v)) | None \<Rightarrow> Inl (Error ''Cannot read properties of undefined (reading slice)''))"

definition error_data :: "(js_val \<Rightarrow> string) \<Rightarrow> axios_error \<Rightarrow> js_error + string" where
  "error_data stringify e =
     (case ae_response e of
        Some r \<Rightarrow> (case ax_data r of Some (JStr s) \<Rightarrow> Inr (take LOGMAXLEN s) | d \<Rightarrow> logged_data stringify d)
      | None \<Rightarrow> logged_data stringify (Some (JObj [(''error'', JStr (ae_message e))])))"

text \<open>
  \<open>sendPromise\<close> with the interceptors of the log, which change what comes back only when they throw themselves. The library
  gives the answer or the error.
\<close>

definition sendPromise ::
  "(js_val \<Rightarrow> string) \<Rightarrow> bool \<Rightarrow> (axios_request \<Rightarrow> ('w, axios_error + axios_response) eff) \<Rightarrow> string \<Rightarrow> js_val option \<Rightarrow>
   ('w, js_val option) eff" where
  "sendPromise stringify logreq request url jsonRequestData =
     bnd (request \<lparr>aq_url = url, aq_post = (jsonRequestData \<noteq> None), aq_data = jsonRequestData\<rparr>) (\<lambda>answer. case answer of
       Inl e \<Rightarrow> bnd (when_eff logreq (lift_result (map_sum id (\<lambda>_. ()) (error_data stringify e)))) (\<lambda>_. throw (ae_message e))
     | Inr r \<Rightarrow> bnd (when_eff logreq (lift_result (map_sum id (\<lambda>_. ()) (logged_data stringify (ax_data r))))) (\<lambda>_. ret (ax_data r)))"

text \<open>The log does not change what a request gives, unless the answer of the server has no data.\<close>

lemma request_log_transparent:
  assumes "\<And>w. case request \<lparr>aq_url = url, aq_post = (d \<noteq> None), aq_data = d\<rparr> w of
      (Inr (Inr r), _) \<Rightarrow> ax_data r \<noteq> None | (Inr (Inl e), _) \<Rightarrow> (case ae_response e of Some r \<Rightarrow> ax_data r \<noteq> None | None \<Rightarrow> True) | _ \<Rightarrow> True"
  shows "sendPromise stringify logreq request url d = sendPromise stringify False request url d"
proof
  fix w
  show "sendPromise stringify logreq request url d w = sendPromise stringify False request url d w"
    using assms [of w]
    by (auto simp: sendPromise_def bnd_def when_eff_def error_data_def logged_data_def lift_result_def ret_def map_sum_def
        split: prod.splits sum.splits option.splits js_val.splits)
qed

end
