(* ===== verification/Spec2Isabelle.thy ===== *)
theory Spec2Isabelle
  imports AmountRequired Async TxStore Reputation DataTypes InteractorProps ServerConfig TxManagerProps RegistrationProps
    ServerTheorems HttpServer RelayProviderProps Statistics CommandsProps PaymastersProps DeploymentProps KeyManager CliUtils
    RunServerProps Signatures DevProvidersProps Wrappers Presenter CliCommandsProps TestEnvironmentProps ServerStart ClientStart
    EndToEnd Logging
begin

text \<open>
  The Gas Station Network: a model of the TypeScript packages under \<open>src/packages\<close>.

  \<^bold>\<open>The program.\<close> A dapp talks to \<open>RelayProvider\<close>, which hands its transactions to \<open>RelayClient\<close>. The client reads the
  registered relays from the chain (\<open>ContractInteractor\<close>), orders them (\<open>KnownRelaysManager\<close>), pings them in slices and
  takes one that answers (\<open>RelaySelectionManager\<close>, \<open>waitForSuccess\<close>), signs the request (\<open>AccountManager\<close>), posts it
  (\<open>HttpClient\<close>) and checks the transaction the relay returns (\<open>RelayedTransactionValidator\<close>), going on with the next
  relay when anything fails. A relay is a node with an \<open>HttpServer\<close> and two services. \<open>RelayServer\<close> checks requests,
  sends the relay calls through \<open>TransactionManager\<close> (nonces, signing, the store \<open>TxStoreManager\<close>, boosting),
  remembers how paymasters behave (\<open>ReputationManager\<close>), and on every new block runs a round that lets
  \<open>RegistrationManager\<close> keep up stake, authorisation and registration and that replenishes the worker.
  \<open>PenalizerService\<close> audits the transactions clients report and penalizes relays by a commitment and its later
  revelation. The command line tools, the deployment configuration and the paymaster packages use the same chain access.

  \<^bold>\<open>How it is modelled.\<close> An \<open>async\<close> method is an effect, a function from a state to an error or a value and the new
  state (theory Prelude); what was done before a throw stays done. The chain, web3, the HTTP transport, databases,
  cryptography and ABI coding are not in this repository: they are records of operations (\<open>chain\<close>, \<open>http\<close>, \<open>nedb_ops\<close>,
  \<open>libs\<close>, \<open>account_libs\<close>) on a world of any type, so that every theorem holds whatever these answer, errors included,
  unless it names what it relies on. The state records extend one another in the way the classes hold one another:
  \<open>ci_state\<close> (contract interactor), \<open>tm_state\<close>, the states of registration manager and server above it, \<open>rc_state\<close> and
  \<open>rp_state\<close> of client and provider.

  \<^bold>\<open>Theories.\<close>
  \<^item> Prelude, JsLib: effects, weakest preconditions (\<open>wp\<close>), invariants of effects (\<open>keeps\<close>), and the library operations
    of JavaScript; Nedb: the document database as a locale of laws, interpreted on lists.
  \<^item> GsnUtils (\<open>common/src/Utils.ts\<close>), Async (\<open>waitForSuccess\<close> as a state machine over settling promises, any order),
    AmountRequired, DataTypes (requests, EIP-712 types, environments), ClientConfig.
  \<^item> Interactor, InteractorOps, InteractorInit, InteractorProps: \<open>common/src/ContractInteractor.ts\<close>. Block numbers never
    decrease; a paginated event query that returns gives the events of its range and no others, and once each unless the
    node had pages split again; view calls never throw.
  \<^item> TxStore, Reputation: the two databases of the server, each refined to a map and with its invariants.
  \<^item> ServerConfig, TransactionManager, TxManagerProps: configuration and sending. The nonces of a signer strictly
    increase, no stored transaction is overwritten, boosted fees keep their bounds. The target of a stored transaction
    is kept in lower case, as the code writes it.
  \<^item> RegistrationManager, RegistrationProps, Frames, RelayServer, ServerRounds, ServerProps, ServerTheorems: the server.
    Over any history it stores only transactions of the allowed forms; requests that break a condition change nothing;
    a failed round is safe when somebody listens to its errors (\<open>errorListener\<close>), as the HTTP server does.
  \<^item> PenalizerCache, Penalizer, PenalizerProps, HttpServer: audits, the explorer with its cache, commit and reveal, and
    the node that serves requests and runs both services. A round of the penalizer sends what is ready, each once.
  \<^item> KnownRelays, RelaySelection, RelaySelectionProps, ResponseValidator, Accounts, RelayClient, RelayClientProps,
    RelayProvider, RelayProviderProps: the client side. Relaying ends, asks every relay at most once, and returns only a
    transaction that carries the request of the caller.
  \<^item> Statistics: \<open>common/src/statistics/StatisticsManager.ts\<close>; Presenter: \<open>cli/src/CommandLineStatisticsPresenter.ts\<close>, with
    tables, charts and colours as a parameter.
  \<^item> InteractorExtras, ServerStart, ClientStart: the construction of the contract interactor, of the server with its managers
    and of the client with its dependencies, and the small operations that go with it. The main theorem about the server
    starts here, before any state is known.
  \<^item> Signatures: the rest of \<open>common/src/Utils.ts\<close>, with the promise of a signature as a value that may stay pending.
    Wrappers: \<open>LightTruffleContract.ts\<close> and the bridge of \<open>provider/src/WrapContract.ts\<close>. DevProviders, DevProvidersProps:
    \<open>common/src/dev\<close>; holding transactions back refines an abstract pool.
  \<^item> EndToEnd: the client and the server together. A request that follows the ping of a server passes the first of its
    checks, with the spelling of the hub address as the exception, and the call that the server sends is the one the
    client expects when it carries the announced budget and the paymaster is spelled as the server knows it.
  \<^item> Logging: \<open>logger/src\<close> and \<open>common/src/HttpWrapper.ts\<close>.
  \<^item> Files: the file system and JSON, printed and parsed back. KeyManager: the keys of the relay and where they are kept.
    RunServer, RunServerProps: \<open>relay/src/runServer.ts\<close>; a second start on the same directory gives the same relay, and a
    start that fails leaves no service running.
  \<^item> Commands, CommandsProps: \<open>cli/src/CommandsLogic.ts\<close> and \<open>ForwarderUtil.ts\<close>. CliUtils: \<open>cli/src/utils.ts\<close>. CliCommands,
    CliCommandsProps: the commands under \<open>cli/src/commands\<close>. TestEnvironment, TestEnvironmentProps:
    \<open>cli/src/GsnTestEnvironment.ts\<close>, which holds one server at most.
  \<^item> Paymasters, PaymastersProps: \<open>paymasters/src\<close>. Deployment, DeploymentProps: \<open>deployer/src/deployUtils.ts\<close> and
    \<open>deployer/deploy/deploy.ts\<close>.

  \<^bold>\<open>Loops and fuel.\<close> A retry that the code bounds has its bound as fuel: eleven polls for a block number and a hundred
  attempts at a page of an event query. Waiting for a relay polls once in three seconds until a time has passed; 21 rounds are
  enough for the 60 seconds that the callers give (\<open>wait_fuel\<close>). The parser of JSON has one step per character and the
  length of the text plus one as fuel, since every step consumes a character. Loops that shrink what they work on are
  functions with a measure (\<open>split_loop\<close>, \<open>paged_events\<close>, \<open>getJsonElement\<close>, \<open>match_chunks\<close>). The loops over relays take
  one more round than there are relays as fuel, and running out of it is proved impossible. Where the code may loop
  forever (drawing auditors, following the pages of the explorer) the model is a \<open>partial_function\<close> whose value is
  \<open>None\<close> when the loop does not end. Asking for a confirmation reads lines, and the end of the input ends the program.

  \<^bold>\<open>Simplifications.\<close> Numbers are integers without the rounding above \<open>2^53\<close>, except where the code can get there (the
  counter of the proof of work, the nonce of a transaction that is audited): there it fails as the code does. \<open>BN\<close> values
  are unbounded in the source as well, and bitwise operators work on 32 bits. The characters of a string are single
  bytes, so what is shown of the URL of a relay in the registrar is for ASCII. Operations that the code starts together (\<open>Promise.all\<close>) run in the
  order of the array, and sections under a mutex are one effect, as is the update of a reputation, which the server
  awaits for one event after the other; where the order matters for a result
  (\<open>waitForSuccess\<close>, audits) it is an argument. Logging is left out. \<open>Math.random\<close> is a function of the number of the
  call, the clock an argument. Options of the command line arrive parsed, as the record of what was given.

  \<^bold>\<open>Not modelled.\<close> The contracts (Solidity); the bundles under \<open>provider/dist\<close>, which a build generates from
  \<open>provider/src\<close>; what the loggers print and how (\<open>ErrorReplacerJSON.ts\<close>), which no other part reads; the middleware of
  express; the construction of contract objects and providers by web3, truffle and ethers; \<open>gsn.ts\<close> and
  \<open>gsn-relayer-run.ts\<close>, which declare subcommands; \<open>exportTask.ts\<close>, \<open>applyConfig.ts\<close>, \<open>depinfo.ts\<close> and
  \<open>hardhat.config.ts\<close>, which configure or extend a build tool; files that only name types or list exports; the tests.
\<close>

end
